(* ===== verification/Prelude.thy ===== *)
theory Prelude
  imports Complex_Main "HOL-Library.AList" "HOL-Library.Char_ord" "HOL-Library.List_Lexorder"
    "HOL-Library.Product_Lexorder"
begin

text \<open>
  Shared vocabulary of the development: Python exceptions as values, the result type every
  fallible operation returns, the string operations of Python's \<open>str\<close> the sources use, and
  SQLite tables as lists of rows in rowid order.
\<close>

section \<open>Results and exceptions\<close>

text \<open>
  Every raise of the modelled code is a value (\<open>InvalidOperation\<close> is the decimal module's). \<open>CalendarCoverageError\<close>, \<open>LeaseLost\<close>,
  \<open>RunnerFailure\<close> and \<open>BrokerSessionFailure\<close> are subclasses of \<open>ValueError\<close> in the sources;
  \<open>is_value_error\<close> is the \<open>except ValueError\<close> test.
\<close>

datatype exn =
    ValueError string
  | CalendarCoverageError
  | LeaseLost
  | BrokerSessionFailure string
  | RunnerFailure string
  | ValidationError "string list"
  | RuntimeError string
  | ZeroDivisionError
  | InvalidOperation
  | AssertionError
  | KeyError
  | IntegrityError
  | TypeError
  | FileNotFoundError
  | OverflowError

type_synonym 'a result = "exn + 'a"

definition is_value_error :: "exn \<Rightarrow> bool" where
  "is_value_error e = (case e of
      ValueError _ \<Rightarrow> True | CalendarCoverageError \<Rightarrow> True | LeaseLost \<Rightarrow> True
    | BrokerSessionFailure _ \<Rightarrow> True | RunnerFailure _ \<Rightarrow> True | ValidationError _ \<Rightarrow> True | _ \<Rightarrow> False)"

named_theorems result_simps \<open>inversion rules for successful results\<close>
named_theorems guard_defs \<open>definitions of the guards an operation evaluates\<close>

fun and_then :: "'a result \<Rightarrow> ('a \<Rightarrow> 'b result) \<Rightarrow> 'b result" where
  "and_then (Inl e) f = Inl e"
| "and_then (Inr x) f = f x"

lemma and_then_Inr [result_simps]:
  "and_then r f = Inr y \<longleftrightarrow> (\<exists>x. r = Inr x \<and> f x = Inr y)"
  by (cases r) auto

lemma and_then_Inl [result_simps]:
  "and_then r f = Inl e \<longleftrightarrow> r = Inl e \<or> (\<exists>x. r = Inr x \<and> f x = Inl e)"
  by (cases r) auto

lemma and_then_assoc: "and_then (and_then r f) g = and_then r (\<lambda>x. and_then (f x) g)"
  by (cases r) auto

lemma if_Inl_eq_Inr [result_simps]:
  "((if b then Inl e else r) = Inr x) \<longleftrightarrow> \<not> b \<and> r = Inr x"
  by simp

definition require :: "bool \<Rightarrow> exn \<Rightarrow> unit result" where
  "require b e = (if b then Inr () else Inl e)"

lemma require_Inr [result_simps]: "require b e = Inr u \<longleftrightarrow> b"
  by (simp add: require_def)

lemma and_then_require_Inr [result_simps]:
  "and_then (require b e) f = Inr y \<longleftrightarrow> b \<and> f () = Inr y"
  by (auto simp: require_def)

text \<open>The first exception of a list of results, as a loop that stops at its first raise.\<close>

fun map_result :: "('a \<Rightarrow> 'b result) \<Rightarrow> 'a list \<Rightarrow> 'b list result" where
  "map_result f [] = Inr []"
| "map_result f (x # xs) = and_then (f x) (\<lambda>y. and_then (map_result f xs) (\<lambda>ys. Inr (y # ys)))"

fun fold_result :: "('a \<Rightarrow> 's \<Rightarrow> 's result) \<Rightarrow> 'a list \<Rightarrow> 's \<Rightarrow> 's result" where
  "fold_result f [] s = Inr s"
| "fold_result f (x # xs) s = and_then (f x s) (fold_result f xs)"

lemma fold_result_invariant:
  assumes "fold_result f xs s = Inr t" and "P s"
    and "\<And>x a b. x \<in> set xs \<Longrightarrow> P a \<Longrightarrow> f x a = Inr b \<Longrightarrow> P b"
  shows "P t"
  using assms
proof (induction xs arbitrary: s)
  case Nil
  then show ?case by simp
next
  case (Cons x xs)
  from Cons.prems(1) obtain a where "f x s = Inr a" and t: "fold_result f xs a = Inr t"
    by (auto simp: result_simps)
  with Cons.prems(2,3) have "P a" by auto
  from Cons.IH [OF t this] Cons.prems(3) show ?case by auto
qed

lemma fold_result_append:
  "fold_result f (xs @ ys) s = and_then (fold_result f xs s) (fold_result f ys)"
proof (induction xs arbitrary: s)
  case Nil
  then show ?case by simp
next
  case (Cons x xs)
  then show ?case by (cases "f x s") auto
qed

lemma map_result_Inr:
  "map_result f xs = Inr ys \<Longrightarrow> list_all2 (\<lambda>x y. f x = Inr y) xs ys"
  by (induction xs arbitrary: ys) (auto simp: result_simps)

section \<open>Strings\<close>

text \<open>
  A string is a list of code points below 256 (\<open>char\<close>). \<open>str.isspace\<close> on that range: tab to
  carriage return, the four separators, space, next line and the no-break space.
\<close>

definition py_isspace :: "char \<Rightarrow> bool" where
  "py_isspace c = (let n = (of_char c :: nat) in
     (9 \<le> n \<and> n \<le> 13) \<or> (28 \<le> n \<and> n \<le> 32) \<or> n = 133 \<or> n = 160)"

definition strip :: "string \<Rightarrow> string" where
  "strip s = rev (dropWhile py_isspace (rev (dropWhile py_isspace s)))"

definition blank :: "string \<Rightarrow> bool" where
  "blank s = (strip s = [])"

lemma dropWhile_not_nil_iff: "dropWhile P xs = [] \<longleftrightarrow> (\<forall>x\<in>set xs. P x)"
  by (induction xs) auto

lemma dropWhile_self_not_nil: "dropWhile P xs \<noteq> [] \<Longrightarrow> \<not> P (hd (dropWhile P xs))"
  by (induction xs) auto

lemma dropWhile_fix: "xs \<noteq> [] \<Longrightarrow> \<not> P (hd xs) \<Longrightarrow> dropWhile P xs = xs"
  by (cases xs) auto

lemma blank_iff: "blank s \<longleftrightarrow> (\<forall>c\<in>set s. py_isspace c)"
proof
  assume b: "blank s"
  show "\<forall>c\<in>set s. py_isspace c"
  proof (rule ccontr)
    assume "\<not> (\<forall>c\<in>set s. py_isspace c)"
    then have ne: "dropWhile py_isspace s \<noteq> []" by (simp add: dropWhile_not_nil_iff)
    then have "\<not> py_isspace (hd (dropWhile py_isspace s))" by (rule dropWhile_self_not_nil)
    moreover from b have "\<forall>c\<in>set (dropWhile py_isspace s). py_isspace c"
      by (simp add: blank_def strip_def dropWhile_not_nil_iff)
    ultimately show False using ne hd_in_set by blast
  qed
next
  assume "\<forall>c\<in>set s. py_isspace c"
  then have "dropWhile py_isspace s = []" by (simp add: dropWhile_not_nil_iff)
  then show "blank s" unfolding blank_def strip_def by (simp only: list.simps rev.simps dropWhile.simps)
qed

lemma strip_id:
  assumes "s \<noteq> []" and "\<not> py_isspace (hd s)" and "\<not> py_isspace (last s)"
  shows "strip s = s"
proof -
  have "dropWhile py_isspace (rev s) = rev s"
    using assms by (intro dropWhile_fix) (auto simp: hd_rev)
  then show ?thesis
    using assms by (simp add: strip_def dropWhile_fix)
qed

text \<open>
  \<open>str.upper\<close>: the sharp s becomes two characters; the micro sign and the y with diaeresis have
  upper-case forms above 255 and keep their (equally non-ASCII) value here.
\<close>

definition py_upper_char :: "char \<Rightarrow> string" where
  "py_upper_char c = (let n = (of_char c :: nat) in
     if (97 \<le> n \<and> n \<le> 122) \<or> (224 \<le> n \<and> n \<le> 254 \<and> n \<noteq> 247) then [char_of (n - 32)]
     else if n = 223 then ''SS'' else [c])"

definition py_upper :: "string \<Rightarrow> string" where
  "py_upper s = concat (map py_upper_char s)"

definition char_between :: "char \<Rightarrow> char \<Rightarrow> char \<Rightarrow> bool" where
  "char_between a b c = ((of_char a :: nat) \<le> of_char c \<and> (of_char c :: nat) \<le> of_char b)"

definition after_prefix :: "string \<Rightarrow> string \<Rightarrow> string option" where
  "after_prefix p s = (if take (length p) s = p then Some (drop (length p) s) else None)"

lemma after_prefix_append [simp]: "after_prefix p (p @ s) = Some s"
  by (simp add: after_prefix_def)

text \<open>\<open>sep.join(parts)\<close> and \<open>s.split(c)\<close> for a one-character separator.\<close>

fun join :: "string \<Rightarrow> string list \<Rightarrow> string" where
  "join sep [] = []"
| "join sep [p] = p"
| "join sep (p # q # ps) = p @ sep @ join sep (q # ps)"

fun split_at_char :: "char \<Rightarrow> string \<Rightarrow> string list" where
  "split_at_char c [] = [[]]"
| "split_at_char c (x # xs) =
     (if x = c then [] # split_at_char c xs
      else (case split_at_char c xs of [] \<Rightarrow> [[x]] | p # ps \<Rightarrow> (x # p) # ps))"

lemma split_at_char_nonempty [simp]: "split_at_char c s \<noteq> []"
  by (induction s) (auto split: list.splits)

lemma split_at_char_prefix:
  "c \<notin> set p \<Longrightarrow> split_at_char c (p @ c # s) = p # split_at_char c s"
  by (induction p) auto

lemma split_at_char_none: "c \<notin> set p \<Longrightarrow> split_at_char c p = [p]"
  by (induction p) auto

section \<open>Validation\<close>

text \<open>
  A pydantic model reports the errors of all its fields together, and runs its \<open>mode="after"\<close>
  validators in order, each as a sequence of \<open>if condition: raise ValueError(message)\<close>, only when
  the fields have none; the first raise is then its only error. \<open>first_problem\<close> is such a
  sequence, and a model with an empty \<open>model_errors\<close> is accepted.
\<close>

fun first_problem :: "(bool \<times> string) list \<Rightarrow> string option" where
  "first_problem [] = None"
| "first_problem ((bad, message) # rest) = (if bad then Some message else first_problem rest)"

definition model_errors :: "string list \<Rightarrow> (bool \<times> string) list \<Rightarrow> string list" where
  "model_errors field_errors after = (if field_errors \<noteq> [] then field_errors
     else (case first_problem after of None \<Rightarrow> [] | Some m \<Rightarrow> [m]))"

definition error_if :: "bool \<Rightarrow> string \<Rightarrow> string list" where
  "error_if b m = (if b then [m] else [])"

lemma first_problem_None: "first_problem ps = None \<longleftrightarrow> (\<forall>p\<in>set ps. \<not> fst p)"
  by (induction ps rule: first_problem.induct) auto

lemma model_errors_Nil [result_simps]:
  "model_errors fs after = [] \<longleftrightarrow> fs = [] \<and> (\<forall>p\<in>set after. \<not> fst p)"
  unfolding model_errors_def first_problem_None [symmetric] by (auto split: option.splits)

lemma error_if_Nil [result_simps]: "error_if b m = [] \<longleftrightarrow> \<not> b"
  by (simp add: error_if_def)

text \<open>\<open>Field(min_length=..., max_length=...)\<close>, \<open>Field(ge=..., le=...)\<close> and \<open>Field(gt=0)\<close>.\<close>

definition length_errors :: "int \<Rightarrow> int \<Rightarrow> string \<Rightarrow> 'a list \<Rightarrow> string list" where
  "length_errors least most name s =
     error_if (int (length s) < least) (name @ '': too_short'') @
     error_if (most < int (length s)) (name @ '': too_long'')"

definition range_errors :: "rat \<Rightarrow> rat \<Rightarrow> string \<Rightarrow> rat \<Rightarrow> string list" where
  "range_errors least most name x =
     (if x < least then [name @ '': greater_than_equal'']
      else error_if (most < x) (name @ '': less_than_equal''))"

definition positive_errors :: "string \<Rightarrow> rat \<Rightarrow> string list" where
  "positive_errors name x = error_if (x \<le> 0) (name @ '': greater_than'')"

fun optional_errors :: "('a \<Rightarrow> string list) \<Rightarrow> 'a option \<Rightarrow> string list" where
  "optional_errors f None = []"
| "optional_errors f (Some x) = f x"

lemma length_errors_Nil [result_simps]:
  "length_errors least most name s = [] \<longleftrightarrow> least \<le> int (length s) \<and> int (length s) \<le> most"
  by (auto simp: length_errors_def error_if_def)

lemma range_errors_Nil [result_simps]: "range_errors least most name x = [] \<longleftrightarrow> least \<le> x \<and> x \<le> most"
  by (auto simp: range_errors_def error_if_def)

lemma positive_errors_Nil [result_simps]: "positive_errors name x = [] \<longleftrightarrow> 0 < x"
  by (auto simp: positive_errors_def error_if_def)

lemma optional_errors_Nil [result_simps]:
  "optional_errors f x = [] \<longleftrightarrow> (\<forall>y. x = Some y \<longrightarrow> f y = [])"
  by (cases x) auto

lemma is_none_iff [result_simps]: "Option.is_none x \<longleftrightarrow> x = None"
  by (cases x) auto

end
