(* ===== verification/Numerics.thy ===== *)
theory Numerics
  imports Prelude
begin

text \<open>
  Python's \<open>float\<close> and \<open>decimal.Decimal\<close> as exact rationals with the rounding of each operation
  written out. A float is a rational; \<open>fl\<close> rounds to binary64 (53 significant bits, least exponent
  -1074, ties to even), and every float operation of a source is one exact operation followed by
  \<open>fl\<close>. The exponent has no upper limit here, so an overflowing result is a value of magnitude at
  least \<open>2 ^ 1024\<close>, which \<open>isfinite\<close> rejects as Python rejects the infinities it stands for; NaN,
  which no operation on finite operands gives but division by zero (an exception in Python), has no
  value here. A Decimal operation rounds to the context's precision in base ten the same way.
\<close>

section \<open>Rounding to nearest, ties to even\<close>

definition rhe :: "rat \<Rightarrow> int" where
  "rhe x = (let f = \<lfloor>x\<rfloor>; d = x - of_int f in
     if d < 1 / 2 then f else if 1 / 2 < d then f + 1 else if even f then f else f + 1)"

lemma rhe_of_int [simp]: "rhe (of_int n) = n"
  by (simp add: rhe_def)

lemma rhe_numeral [simp]:
  "rhe 0 = 0" "rhe 1 = 1" "rhe (numeral k) = numeral k" "rhe (- numeral k) = - numeral k"
  using rhe_of_int [of 0] rhe_of_int [of 1] rhe_of_int [of "numeral k"]
    rhe_of_int [of "- numeral k"] by simp_all

lemma rhe_floor: "\<lfloor>x\<rfloor> \<le> rhe x \<and> rhe x \<le> \<lfloor>x\<rfloor> + 1"
  by (simp add: rhe_def Let_def)

lemma rhe_error: "\<bar>of_int (rhe x) - x\<bar> \<le> 1 / 2"
proof -
  define f where "f = \<lfloor>x\<rfloor>"
  have "of_int f \<le> x" and "x < of_int f + 1" unfolding f_def by linarith+
  then show ?thesis by (auto simp: rhe_def Let_def abs_if f_def [symmetric])
qed

lemma rhe_mono: assumes "x \<le> y" shows "rhe x \<le> rhe y"
proof (cases "\<lfloor>x\<rfloor> = \<lfloor>y\<rfloor>")
  case True
  then show ?thesis using assms by (simp add: rhe_def Let_def)
next
  case False
  with floor_mono [OF assms] have "\<lfloor>x\<rfloor> + 1 \<le> \<lfloor>y\<rfloor>" by linarith
  then show ?thesis using rhe_floor [of x] rhe_floor [of y] by linarith
qed

lemma rhe_minus: "rhe (- x) = - rhe x"
proof (cases "x = of_int \<lfloor>x\<rfloor>")
  case True
  then show ?thesis by (metis of_int_minus rhe_of_int)
next
  case False
  then have "\<lfloor>- x\<rfloor> = - \<lfloor>x\<rfloor> - 1" by linarith
  then show ?thesis by (simp add: rhe_def Let_def)
qed

section \<open>Significant digits\<close>

text \<open>
  \<open>ndigits \<beta> n\<close> counts the base-\<open>\<beta>\<close> digits of a positive integer, and \<open>expo \<beta> x\<close> is the
  exponent of the leading digit of \<open>x\<close>, from the digit counts of numerator and denominator.
\<close>

function ndigits :: "int \<Rightarrow> int \<Rightarrow> nat" where
  "ndigits \<beta> n = (if 0 < n \<and> 1 < \<beta> then Suc (ndigits \<beta> (n div \<beta>)) else 0)"
  by pat_completeness auto
termination
  by (relation "measure (\<lambda>(\<beta>, n). nat n)") (auto intro: int_div_less_self)

declare ndigits.simps [simp del]

lemma ndigits_bounds:
  assumes "0 < n" and "1 < \<beta>"
  shows "0 < ndigits \<beta> n \<and> \<beta> ^ (ndigits \<beta> n - 1) \<le> n \<and> n < \<beta> ^ ndigits \<beta> n"
  using assms
proof (induction \<beta> n rule: ndigits.induct)
  case (1 \<beta> n)
  define m where "m = n div \<beta>"
  have n: "n = m * \<beta> + n mod \<beta>" and r: "0 \<le> n mod \<beta>" "n mod \<beta> < \<beta>"
    using "1.prems" by (simp_all add: m_def)
  have e: "ndigits \<beta> n = Suc (ndigits \<beta> m)"
    using "1.prems" by (subst ndigits.simps) (simp add: m_def)
  show ?case
  proof (cases "0 < m")
    case True
    with "1.IH" "1.prems" have d: "0 < ndigits \<beta> m" "\<beta> ^ (ndigits \<beta> m - 1) \<le> m" "m < \<beta> ^ ndigits \<beta> m"
      by (auto simp: m_def)
    have "\<beta> ^ ndigits \<beta> m = \<beta> ^ (ndigits \<beta> m - 1) * \<beta>"
      using d(1) by (metis power_minus_mult)
    also have "\<dots> \<le> m * \<beta>" using d(2) "1.prems" by (intro mult_right_mono) auto
    finally have lower: "\<beta> ^ ndigits \<beta> m \<le> n" using n r by linarith
    have "(m + 1) * \<beta> \<le> \<beta> ^ ndigits \<beta> m * \<beta>" using d(3) "1.prems" by (intro mult_right_mono) auto
    then have "n < \<beta> ^ ndigits \<beta> m * \<beta>" using n r by (simp add: algebra_simps)
    with lower show ?thesis by (simp add: e mult.commute)
  next
    case False
    moreover have "0 \<le> m" using "1.prems" by (simp add: m_def pos_imp_zdiv_nonneg_iff)
    ultimately have "m = 0" by simp
    then have "ndigits \<beta> m = 0" by (subst ndigits.simps) simp
    with \<open>m = 0\<close> n r "1.prems" show ?thesis by (simp add: e)
  qed
qed

definition expo :: "int \<Rightarrow> rat \<Rightarrow> int" where
  "expo \<beta> x = (case quotient_of \<bar>x\<bar> of (p, q) \<Rightarrow>
     let k = int (ndigits \<beta> p) - int (ndigits \<beta> q) in
     if rat_of_int \<beta> powi k \<le> \<bar>x\<bar> then k else k - 1)"

lemma ndigits_rat_bounds:
  assumes "0 < n" and "1 < \<beta>"
  shows "rat_of_int \<beta> powi (int (ndigits \<beta> n) - 1) \<le> of_int n"
    and "of_int n < rat_of_int \<beta> powi int (ndigits \<beta> n)"
proof -
  let ?l = "ndigits \<beta> n"
  have b: "0 < ?l \<and> \<beta> ^ (?l - 1) \<le> n \<and> n < \<beta> ^ ?l" using ndigits_bounds [OF assms] .
  then have e: "int ?l - 1 = int (?l - 1)" by simp
  show "rat_of_int \<beta> powi (int ?l - 1) \<le> of_int n"
    unfolding e power_int_of_nat using b by (metis of_int_le_iff of_int_power)
  show "of_int n < rat_of_int \<beta> powi int ?l"
    unfolding power_int_of_nat using b by (metis of_int_less_iff of_int_power)
qed

lemma expo_bounds:
  assumes "x \<noteq> 0" and "1 < \<beta>"
  shows "rat_of_int \<beta> powi expo \<beta> x \<le> \<bar>x\<bar>" and "\<bar>x\<bar> < rat_of_int \<beta> powi (expo \<beta> x + 1)"
proof -
  obtain p q where pq: "quotient_of \<bar>x\<bar> = (p, q)" by force
  have q: "0 < q" using pq by (rule quotient_of_denom_pos)
  have x: "\<bar>x\<bar> = of_int p / of_int q" using pq by (rule quotient_of_div)
  have p: "0 < p"
  proof -
    have "0 < rat_of_int p / of_int q" using x assms(1) by simp
    then show ?thesis using q by (simp add: zero_less_divide_iff)
  qed
  define lp lq where "lp = int (ndigits \<beta> p)" and "lq = int (ndigits \<beta> q)"
  define b where "b = rat_of_int \<beta>"
  have b: "0 < b" "1 < b" using assms(2) by (simp_all add: b_def)
  note bp = ndigits_rat_bounds [OF p assms(2), folded lp_def b_def]
  note bq = ndigits_rat_bounds [OF q assms(2), folded lq_def b_def]
  have lower: "b powi (lp - lq - 1) \<le> \<bar>x\<bar>"
  proof -
    have "b powi (lp - 1) / b powi lq \<le> of_int p / of_int q"
      by (rule frac_le) (use bp bq b p q in \<open>auto intro: less_imp_le\<close>)
    moreover have "b powi (lp - 1) / b powi lq = b powi (lp - lq - 1)"
      using b by (simp add: power_int_diff [symmetric] algebra_simps)
    ultimately show ?thesis by (simp add: x)
  qed
  have upper: "\<bar>x\<bar> < b powi (lp - lq + 1)"
  proof -
    have "of_int p / of_int q < b powi lp / b powi (lq - 1)"
      by (rule frac_less) (use bp bq b p in \<open>auto intro: less_imp_le\<close>)
    moreover have "b powi lp / b powi (lq - 1) = b powi (lp - lq + 1)"
      using b by (simp add: power_int_diff [symmetric] algebra_simps)
    ultimately show ?thesis by (simp add: x)
  qed
  have e: "expo \<beta> x = (if b powi (lp - lq) \<le> \<bar>x\<bar> then lp - lq else lp - lq - 1)"
    by (simp add: expo_def pq lp_def lq_def b_def Let_def)
  show "rat_of_int \<beta> powi expo \<beta> x \<le> \<bar>x\<bar>"
    unfolding b_def [symmetric] e using lower by simp
  show "\<bar>x\<bar> < rat_of_int \<beta> powi (expo \<beta> x + 1)"
    unfolding b_def [symmetric] e using upper by (simp add: not_le)
qed

lemma powi_le_iff: "1 < b \<Longrightarrow> (b :: rat) powi m \<le> b powi n \<longleftrightarrow> m \<le> n"
  by (metis linorder_not_less power_int_increasing power_int_strict_increasing less_imp_le)

lemma powi_less_iff: "1 < b \<Longrightarrow> (b :: rat) powi m < b powi n \<longleftrightarrow> m < n"
  using powi_le_iff [of b n m] by (simp add: not_le [symmetric])

lemma expo_mono:
  assumes "x \<noteq> 0" and "\<bar>x\<bar> \<le> \<bar>y\<bar>" and "1 < \<beta>"
  shows "expo \<beta> x \<le> expo \<beta> y"
proof -
  have y: "y \<noteq> 0" using assms by auto
  have "rat_of_int \<beta> powi expo \<beta> x < rat_of_int \<beta> powi (expo \<beta> y + 1)"
    using expo_bounds(1) [OF assms(1,3)] expo_bounds(2) [OF y assms(3)] assms(2) by linarith
  then show ?thesis using assms(3) by (simp add: powi_less_iff)
qed

text \<open>
  \<open>sig_round \<beta> p emin x\<close> keeps \<open>p\<close> significant base-\<open>\<beta>\<close> digits of \<open>x\<close>, and no digit below
  position \<open>emin\<close>.
\<close>

definition quantum :: "int \<Rightarrow> nat \<Rightarrow> int \<Rightarrow> rat \<Rightarrow> int" where
  "quantum \<beta> p emin x = max (expo \<beta> x - (int p - 1)) emin"

definition sig_round :: "int \<Rightarrow> nat \<Rightarrow> int \<Rightarrow> rat \<Rightarrow> rat" where
  "sig_round \<beta> p emin x = (if x = 0 then 0 else
     let u = rat_of_int \<beta> powi quantum \<beta> p emin x in of_int (rhe (x / u)) * u)"

lemma sig_round_0 [simp]: "sig_round \<beta> p emin 0 = 0"
  by (simp add: sig_round_def)

lemma expo_minus [simp]: "expo \<beta> (- x) = expo \<beta> x"
  by (simp add: expo_def)

lemma sig_round_minus: "sig_round \<beta> p emin (- x) = - sig_round \<beta> p emin x"
  by (simp add: sig_round_def quantum_def Let_def rhe_minus)

lemma sig_round_nonneg:
  assumes x: "0 \<le> x" and "0 < \<beta>"
  shows "0 \<le> sig_round \<beta> p emin x"
proof -
  have u: "0 \<le> rat_of_int \<beta> powi quantum \<beta> p emin x"
    using assms(2) by (simp add: zero_le_power_int)
  have "0 \<le> rhe (x / rat_of_int \<beta> powi quantum \<beta> p emin x)"
    using rhe_mono [of 0] x u by simp
  then show ?thesis using u by (simp add: sig_round_def Let_def)
qed

lemma quantum_mono:
  assumes "x \<noteq> 0" and "\<bar>x\<bar> \<le> \<bar>y\<bar>" and "1 < \<beta>"
  shows "quantum \<beta> p emin x \<le> quantum \<beta> p emin y"
  using expo_mono [OF assms] by (simp add: quantum_def)

lemma rhe_of_powi: "1 < \<beta> \<Longrightarrow> 0 \<le> k \<Longrightarrow> of_int (rhe (rat_of_int \<beta> powi k)) = rat_of_int \<beta> powi k"
proof -
  assume "0 \<le> k"
  then have "rat_of_int \<beta> powi k = of_int (\<beta> ^ nat k)"
    by (simp add: power_int_nonneg_exp)
  then show ?thesis by (metis rhe_of_int)
qed

lemma sig_round_mono_pos:
  assumes "0 < x" and "x \<le> y" and "1 < \<beta>" and "0 < p"
  shows "sig_round \<beta> p emin x \<le> sig_round \<beta> p emin y"
proof -
  define b where "b = rat_of_int \<beta>"
  have b: "1 < b" "0 < b" using assms(3) by (simp_all add: b_def)
  define qx qy E where "qx = quantum \<beta> p emin x" and "qy = quantum \<beta> p emin y" and "E = expo \<beta> y"
  have ux: "0 < b powi qx" and uy: "0 < b powi qy" using b by simp_all
  have rx: "sig_round \<beta> p emin x = of_int (rhe (x / b powi qx)) * b powi qx"
    and ry: "sig_round \<beta> p emin y = of_int (rhe (y / b powi qy)) * b powi qy"
    using assms(1,2) by (simp_all add: sig_round_def qx_def qy_def b_def Let_def)
  have "qx \<le> qy" unfolding qx_def qy_def using assms by (intro quantum_mono) auto
  then consider "qx = qy" | "qx < qy" by linarith
  then show ?thesis
  proof cases
    case 1
    have "rhe (x / b powi qx) \<le> rhe (y / b powi qx)"
      using assms(2) ux by (intro rhe_mono) (simp add: divide_right_mono)
    with 1 ux show ?thesis by (simp add: rx ry)
  next
    case 2
    then have qy: "qy = E - (int p - 1)" and "expo \<beta> x < E"
      by (auto simp: qx_def qy_def quantum_def E_def)
    have scaled: "rat_of_int (rhe (b powi E / b powi q)) * b powi q = b powi E" if "q \<le> E" for q
      using rhe_of_powi [OF assms(3), of "E - q"] that b
      by (simp add: power_int_diff b_def)
    have "b powi E \<le> y" using expo_bounds(1) [of y \<beta>] assms by (simp add: b_def E_def)
    then have "rhe (b powi E / b powi qy) \<le> rhe (y / b powi qy)"
      using uy by (intro rhe_mono) (simp add: divide_right_mono)
    then have "rat_of_int (rhe (b powi E / b powi qy)) * b powi qy \<le> of_int (rhe (y / b powi qy)) * b powi qy"
      using uy by (intro mult_right_mono) simp_all
    then have upper: "b powi E \<le> sig_round \<beta> p emin y"
      using qy assms(4) by (simp add: ry scaled)
    have "x < b powi (expo \<beta> x + 1)" using expo_bounds(2) [of x \<beta>] assms by (simp add: b_def)
    also have "\<dots> \<le> b powi E" using \<open>expo \<beta> x < E\<close> b by (simp add: powi_le_iff)
    finally have "rhe (x / b powi qx) \<le> rhe (b powi E / b powi qx)"
      using ux by (intro rhe_mono) (simp add: divide_right_mono)
    then have "sig_round \<beta> p emin x \<le> rat_of_int (rhe (b powi E / b powi qx)) * b powi qx"
      using ux by (simp add: rx)
    also have "\<dots> = b powi E" using 2 qy assms(4) by (intro scaled) simp
    finally show ?thesis using upper by (rule order_trans)
  qed
qed

lemma sig_round_mono:
  assumes "x \<le> y" and "1 < \<beta>" and "0 < p"
  shows "sig_round \<beta> p emin x \<le> sig_round \<beta> p emin y"
proof -
  consider "0 < x" | "x \<le> 0" "0 \<le> y" | "y < 0" by linarith
  then show ?thesis
  proof cases
    case 1
    then show ?thesis using assms by (intro sig_round_mono_pos)
  next
    case 2
    have "0 \<le> sig_round \<beta> p emin (- x)" using 2 assms(2) by (intro sig_round_nonneg) simp_all
    moreover have "0 \<le> sig_round \<beta> p emin y" using 2 assms(2) by (intro sig_round_nonneg) simp_all
    ultimately show ?thesis by (simp add: sig_round_minus)
  next
    case 3
    have "sig_round \<beta> p emin (- y) \<le> sig_round \<beta> p emin (- x)"
      using 3 assms by (intro sig_round_mono_pos) auto
    then show ?thesis by (simp add: sig_round_minus)
  qed
qed

lemma sig_round_exact:
  assumes "\<bar>m\<bar> < \<beta> ^ p" and "emin \<le> k" and "1 < \<beta>"
  shows "sig_round \<beta> p emin (of_int m * rat_of_int \<beta> powi k) = of_int m * rat_of_int \<beta> powi k"
proof (cases "m = 0")
  case True
  then show ?thesis by simp
next
  case False
  define b where "b = rat_of_int \<beta>"
  have b: "1 < b" "0 < b" using assms(3) by (simp_all add: b_def)
  define x q where "x = of_int m * b powi k" and "q = quantum \<beta> p emin x"
  have x: "x \<noteq> 0" using False b by (simp add: x_def)
  have "rat_of_int \<bar>m\<bar> < b ^ p"
    using assms(1) by (metis b_def of_int_less_iff of_int_power)
  then have "\<bar>x\<bar> < b ^ p * b powi k" using b by (simp add: x_def abs_mult)
  also have "\<dots> = b powi (int p + k)" using b by (simp add: power_int_add)
  finally have "expo \<beta> x < int p + k"
    using expo_bounds(1) [OF x assms(3)] powi_less_iff [of b "expo \<beta> x" "int p + k"] b
    by (simp add: b_def)
  then have "q \<le> k" using assms(2) by (simp add: q_def quantum_def)
  then have "b powi (k - q) = of_int (\<beta> ^ nat (k - q))"
    by (simp add: b_def power_int_nonneg_exp)
  moreover have "x / b powi q = of_int m * b powi (k - q)"
    using b by (simp add: x_def power_int_diff)
  ultimately have "of_int (rhe (x / b powi q)) = x / b powi q"
    by (metis of_int_mult rhe_of_int)
  then have "sig_round \<beta> p emin x = x"
    using x b by (simp add: sig_round_def Let_def q_def [symmetric] b_def [symmetric])
  then show ?thesis by (simp add: x_def b_def)
qed

section \<open>Floats\<close>

type_synonym pyfloat = rat

definition fl :: "rat \<Rightarrow> pyfloat" where
  "fl = sig_round 2 53 (-1074)"

definition isfinite :: "pyfloat \<Rightarrow> bool" where
  "isfinite x = (\<bar>x\<bar> < 2 ^ 1024)"

definition fadd :: "pyfloat \<Rightarrow> pyfloat \<Rightarrow> pyfloat" where "fadd x y = fl (x + y)"
definition fsub :: "pyfloat \<Rightarrow> pyfloat \<Rightarrow> pyfloat" where "fsub x y = fl (x - y)"
definition fmul :: "pyfloat \<Rightarrow> pyfloat \<Rightarrow> pyfloat" where "fmul x y = fl (x * y)"

definition fdiv :: "pyfloat \<Rightarrow> pyfloat \<Rightarrow> pyfloat result" where
  "fdiv x y = (if y = 0 then Inl ZeroDivisionError else Inr (fl (x / y)))"

text \<open>
  \<open>sum\<close> of a sequence of floats, starting at the integer 0. Since Python 3.12 it is compensated
  (Neumaier): \<open>c\<close> collects the rounding error of every addition and is added at the end.
\<close>

fun fsum_loop :: "pyfloat \<Rightarrow> pyfloat \<Rightarrow> pyfloat list \<Rightarrow> pyfloat" where
  "fsum_loop f c [] = (if c \<noteq> 0 \<and> isfinite c then fadd f c else f)"
| "fsum_loop f c (x # xs) = (let t = fadd f x in
     fsum_loop t (fadd c (if \<bar>x\<bar> \<le> \<bar>f\<bar> then fadd (fsub f t) x else fadd (fsub x t) f)) xs)"

fun fsum :: "pyfloat list \<Rightarrow> pyfloat" where
  "fsum [] = 0"
| "fsum (x # xs) = fsum_loop x 0 xs"

text \<open>\<open>round(x, n)\<close>: the decimal nearest the exact value, ties to even, then the float nearest it.\<close>

definition py_round :: "nat \<Rightarrow> pyfloat \<Rightarrow> pyfloat" where
  "py_round n x = fl (of_int (rhe (x * 10 ^ n)) / 10 ^ n)"

lemma fl_0 [simp]: "fl 0 = 0"
  by (simp add: fl_def)

lemma fl_mono: "x \<le> y \<Longrightarrow> fl x \<le> fl y"
  by (simp add: fl_def sig_round_mono)

lemma fl_nonneg: "0 \<le> x \<Longrightarrow> 0 \<le> fl x"
  by (simp add: fl_def sig_round_nonneg)

lemma fl_minus: "fl (- x) = - fl x"
  by (simp add: fl_def sig_round_minus)

lemma fl_nonpos: "x \<le> 0 \<Longrightarrow> fl x \<le> 0"
  using fl_mono [of x 0] by simp

lemma fl_of_int: "\<bar>n\<bar> < 2 ^ 53 \<Longrightarrow> fl (of_int n) = of_int n"
  using sig_round_exact [of n 2 53 "-1074" 0] by (simp add: fl_def)

lemma fl_dyadic: "\<bar>m\<bar> < 2 ^ 53 \<Longrightarrow> - 1074 \<le> k \<Longrightarrow> fl (of_int m * 2 powi k) = of_int m * 2 powi k"
  using sig_round_exact [of m 2 53 "-1074" k] by (simp add: fl_def)

lemma fl_numeral: "(numeral k :: int) < 2 ^ 53 \<Longrightarrow> fl (numeral k) = numeral k"
  using fl_of_int [of "numeral k"] by simp

lemma fl_1 [simp]: "fl 1 = 1"
  using fl_of_int [of 1] by simp

lemma fsub_nonneg: "y \<le> x \<Longrightarrow> 0 \<le> fsub x y"
  by (simp add: fsub_def fl_nonneg)

lemma fadd_mono: "x \<le> x' \<Longrightarrow> y \<le> y' \<Longrightarrow> fadd x y \<le> fadd x' y'"
  by (simp add: fadd_def fl_mono add_mono)

lemma fmul_nonneg: "0 \<le> x \<Longrightarrow> 0 \<le> y \<Longrightarrow> 0 \<le> fmul x y"
  by (simp add: fmul_def fl_nonneg)

lemma fdiv_nonneg: "0 \<le> x \<Longrightarrow> 0 \<le> y \<Longrightarrow> fdiv x y = Inr z \<Longrightarrow> 0 \<le> z"
  by (auto simp: fdiv_def fl_nonneg split: if_splits)

lemma py_round_mono: "x \<le> y \<Longrightarrow> py_round n x \<le> py_round n y"
  by (simp add: py_round_def fl_mono divide_right_mono rhe_mono mult_right_mono)

lemma py_round_nonneg: "0 \<le> x \<Longrightarrow> 0 \<le> py_round n x"
  using py_round_mono [of 0 x n] by (simp add: py_round_def)

section \<open>Decimals\<close>

text \<open>
  A Decimal operation under a context of precision \<open>p\<close> (28 by default). \<open>quantize_cents\<close> is
  \<open>quantize(Decimal("0.01"))\<close>; \<open>quantize\<close> raises when the result needs more digits than the
  context has.
\<close>

definition dec :: "nat \<Rightarrow> rat \<Rightarrow> rat" where
  "dec p = sig_round 10 p (-1999998)"

definition quantize :: "nat \<Rightarrow> nat \<Rightarrow> rat \<Rightarrow> rat result" where
  "quantize p n x = (let r = rhe (x * 10 ^ n) in
     if 10 ^ p \<le> \<bar>r\<bar> then Inl InvalidOperation else Inr (of_int r / 10 ^ n))"

text \<open>
  \<open>Decimal(str(x))\<close> of a float: the shortest decimal that rounds to \<open>x\<close>, of those the nearest to
  it. \<open>digits_at p x\<close> are the two neighbours of \<open>x\<close> with \<open>p\<close> significant digits.
\<close>

definition digits_at :: "nat \<Rightarrow> rat \<Rightarrow> rat list" where
  "digits_at p x = (let u = 10 powi (expo 10 x - (int p - 1)); n = \<lfloor>x / u\<rfloor> in
     map (\<lambda>k. of_int k * u) (if 2 * (x / u - of_int n) \<le> 1 then [n, n + 1] else [n + 1, n]))"

fun repr_search :: "nat \<Rightarrow> nat \<Rightarrow> pyfloat \<Rightarrow> rat" where
  "repr_search 0 p x = x"
| "repr_search (Suc k) p x = (case filter (\<lambda>y. fl y = x) (digits_at p x) of
     y # _ \<Rightarrow> y | [] \<Rightarrow> repr_search k (Suc p) x)"

definition decimal_of_float :: "pyfloat \<Rightarrow> rat" where
  "decimal_of_float x = (if x = 0 then 0 else repr_search 17 1 x)"

text \<open>\<open>sum(xs, Decimal(0))\<close> and the digit limits of a pydantic Decimal field.\<close>

definition dec_sum :: "nat \<Rightarrow> rat list \<Rightarrow> rat" where
  "dec_sum p xs = foldl (\<lambda>a x. dec p (a + x)) 0 xs"

definition decimal_limits :: "nat \<Rightarrow> nat \<Rightarrow> rat \<Rightarrow> bool" where
  "decimal_limits digits places x = (of_int \<lfloor>x * 10 ^ places\<rfloor> = x * 10 ^ places \<and>
     \<bar>x\<bar> < 10 ^ (digits - places))"

lemma dec_mono: "0 < p \<Longrightarrow> x \<le> y \<Longrightarrow> dec p x \<le> dec p y"
  by (simp add: dec_def sig_round_mono)

lemma dec_nonneg: "0 \<le> x \<Longrightarrow> 0 \<le> dec p x"
  by (simp add: dec_def sig_round_nonneg)

lemma dec_of_int: "\<bar>n\<bar> < 10 ^ p \<Longrightarrow> dec p (of_int n) = of_int n"
  using sig_round_exact [of n 10 p "-1999998" 0] by (simp add: dec_def)

lemma dec_cents: "\<bar>n\<bar> < 10 ^ p \<Longrightarrow> dec p (of_int n / 100) = of_int n / 100"
  using sig_round_exact [of n 10 p "-1999998" "-2"] by (simp add: dec_def power_int_minus field_simps)

lemma dec_0 [simp]: "dec p 0 = 0"
  by (simp add: dec_def)

lemma dec_numeral: "(numeral k :: int) < 10 ^ p \<Longrightarrow> dec p (numeral k) = numeral k"
  using dec_of_int [of "numeral k" p] by simp

lemma dec_1: "0 < p \<Longrightarrow> dec p 1 = 1"
  using dec_of_int [of 1 p] by simp

end
