(* ===== verification/PyTime.thy ===== *)
theory PyTime
  imports Numerics
begin

text \<open>
  Python's \<open>datetime\<close> values. An aware \<open>datetime\<close> is its instant, in microseconds since the epoch
  (aware datetimes compare and subtract as instants); a \<open>date\<close> is its day number since 1970-01-01;
  a naive \<open>time\<close> is its microsecond of the day. \<open>America/New_York\<close> follows the United States rule in
  force since 2007: summer time from the second Sunday of March at 02:00 to the first Sunday of
  November at 02:00, wall clock.
\<close>

type_synonym instant = int
type_synonym pydate = int
type_synonym daytime = int

definition microsecond :: int where "microsecond = 1"
definition second :: int where "second = 1000000"
definition minute :: int where "minute = 60 * second"
definition hour :: int where "hour = 60 * minute"
definition day_length :: int where "day_length = 24 * hour"

lemmas time_unit_defs = second_def minute_def hour_def day_length_def

definition clock :: "int \<Rightarrow> int \<Rightarrow> daytime" where
  "clock h m = h * hour + m * minute"

section \<open>Civil dates\<close>

definition ymd :: "int \<Rightarrow> int \<Rightarrow> int \<Rightarrow> pydate" where
  "ymd y m d = (let y' = (if m \<le> 2 then y - 1 else y); era = y' div 400; yoe = y' - era * 400;
     doy = (153 * (if 2 < m then m - 3 else m + 9) + 2) div 5 + d - 1;
     doe = yoe * 365 + yoe div 4 - yoe div 100 + doy
   in era * 146097 + doe - 719468)"

definition civil :: "pydate \<Rightarrow> int \<times> int \<times> int" where
  "civil n = (let z = n + 719468; era = z div 146097; doe = z - era * 146097;
     yoe = (doe - doe div 1460 + doe div 36524 - doe div 146096) div 365;
     doy = doe - (365 * yoe + yoe div 4 - yoe div 100); mp = (5 * doy + 2) div 153;
     d = doy - (153 * mp + 2) div 5 + 1; m = (if mp < 10 then mp + 3 else mp - 9)
   in (yoe + era * 400 + (if m \<le> 2 then 1 else 0), m, d))"

definition year_of :: "pydate \<Rightarrow> int" where
  "year_of n = fst (civil n)"

text \<open>Monday is 0, as in \<open>date.weekday\<close>; day 0 was a Thursday.\<close>

definition weekday :: "pydate \<Rightarrow> int" where
  "weekday n = (n + 3) mod 7"

lemma weekday_bounds: "0 \<le> weekday n \<and> weekday n < 7"
  by (simp add: weekday_def)

section \<open>New York time\<close>

definition first_sunday :: "pydate \<Rightarrow> pydate" where
  "first_sunday n = n + (6 - weekday n) mod 7"

definition dst_start_day :: "int \<Rightarrow> pydate" where
  "dst_start_day y = first_sunday (ymd y 3 1) + 7"

definition dst_end_day :: "int \<Rightarrow> pydate" where
  "dst_end_day y = first_sunday (ymd y 11 1)"

text \<open>The offset at an instant: clocks move at 07:00 UTC in spring and 06:00 UTC in autumn.\<close>

definition ny_utcoffset :: "instant \<Rightarrow> int" where
  "ny_utcoffset t = (let y = year_of (t div day_length) in
     if dst_start_day y * day_length + 7 * hour \<le> t \<and> t < dst_end_day y * day_length + 6 * hour
     then - 4 * hour else - 5 * hour)"

text \<open>
  The offset \<open>zoneinfo\<close> gives a wall-clock time with \<open>fold = 0\<close>: a time the spring change skips
  keeps the earlier offset, a time the autumn change repeats is its first occurrence.
\<close>

definition ny_wall_utcoffset :: "int \<Rightarrow> int" where
  "ny_wall_utcoffset w = (let y = year_of (w div day_length) in
     if dst_start_day y * day_length + 3 * hour \<le> w \<and> w < dst_end_day y * day_length + 2 * hour
     then - 4 * hour else - 5 * hour)"

definition ny_wall :: "instant \<Rightarrow> int" where
  "ny_wall t = t + ny_utcoffset t"

definition ny_date :: "instant \<Rightarrow> pydate" where
  "ny_date t = ny_wall t div day_length"

definition ny_combine :: "pydate \<Rightarrow> daytime \<Rightarrow> instant" where
  "ny_combine d tod = (let w = d * day_length + tod in w - ny_wall_utcoffset w)"

definition utc_date :: "instant \<Rightarrow> pydate" where
  "utc_date t = t div day_length"

lemma ny_offset_bounds: "- 5 * hour \<le> ny_utcoffset t \<and> ny_utcoffset t \<le> - 4 * hour"
  by (simp add: ny_utcoffset_def Let_def time_unit_defs)

lemma ny_wall_offset_bounds: "- 5 * hour \<le> ny_wall_utcoffset t \<and> ny_wall_utcoffset t \<le> - 4 * hour"
  by (simp add: ny_wall_utcoffset_def Let_def time_unit_defs)

lemma ny_combine_bounds:
  "d * day_length + tod + 4 * hour \<le> ny_combine d tod \<and> ny_combine d tod \<le> d * day_length + tod + 5 * hour"
  using ny_wall_offset_bounds [of "d * day_length + tod"] by (simp add: ny_combine_def Let_def)

lemma ny_date_bounds:
  "ny_date t * day_length + 4 * hour \<le> t \<and> t < (ny_date t + 1) * day_length + 5 * hour"
proof -
  have "ny_date t * day_length \<le> ny_wall t"
    using div_mult_mod_eq [of "ny_wall t" day_length] pos_mod_sign [of day_length "ny_wall t"]
    unfolding ny_date_def by (simp add: time_unit_defs)
  moreover have "ny_wall t < (ny_date t + 1) * day_length"
    using div_mult_mod_eq [of "ny_wall t" day_length] pos_mod_bound [of day_length "ny_wall t"]
    unfolding ny_date_def by (simp add: time_unit_defs)
  ultimately show ?thesis using ny_offset_bounds [of t] unfolding ny_wall_def by linarith
qed

text \<open>A later New York day's afternoon is a later instant, whatever the offsets.\<close>

lemma ny_date_less_combine:
  assumes "ny_date t < d" and "2 * hour \<le> tod"
  shows "t < ny_combine d tod"
proof -
  have "(ny_date t + 1) * day_length \<le> d * day_length"
    using assms(1) by (intro mult_right_mono) (simp_all add: time_unit_defs)
  with assms(2) ny_date_bounds [of t] ny_combine_bounds [of d tod] show ?thesis
    by (simp add: time_unit_defs)
qed

lemma ny_combine_day_mono:
  assumes "d < d'" and "tod \<le> tod' + 23 * hour"
  shows "ny_combine d tod \<le> ny_combine d' tod'"
proof -
  have "(d + 1) * day_length \<le> d' * day_length"
    using assms(1) by (intro mult_right_mono) (simp_all add: time_unit_defs)
  then have "d * day_length + 24 * hour \<le> d' * day_length"
    by (simp add: time_unit_defs)
  with assms(2) ny_combine_bounds [of d tod] ny_combine_bounds [of d' tod'] show ?thesis by linarith
qed

section \<open>Formatting\<close>

definition digit :: "int \<Rightarrow> char" where
  "digit k = char_of (nat (48 + k mod 10))"

fun padded :: "nat \<Rightarrow> int \<Rightarrow> string" where
  "padded 0 n = []"
| "padded (Suc k) n = padded k (n div 10) @ [digit n]"

text \<open>\<open>date.isoformat()\<close>, and \<open>strftime("%Y%m%dT%H%M%S%fZ")\<close> of a UTC datetime.\<close>

definition date_isoformat :: "pydate \<Rightarrow> string" where
  "date_isoformat n = (case civil n of (y, m, d) \<Rightarrow> padded 4 y @ ''-'' @ padded 2 m @ ''-'' @ padded 2 d)"

definition compact_timestamp :: "instant \<Rightarrow> string" where
  "compact_timestamp t = (case civil (utc_date t) of (y, m, d) \<Rightarrow> let s = t mod day_length in
     padded 4 y @ padded 2 m @ padded 2 d @ ''T'' @ padded 2 (s div hour) @
     padded 2 (s mod hour div minute) @ padded 2 (s mod minute div second) @
     padded 6 (s mod second) @ ''Z'')"

section \<open>SQLite's \<open>julianday\<close>\<close>

text \<open>
  SQLite resolves a time to the millisecond before it compares; instants in one millisecond are
  equal to \<open>julianday\<close>. The development uses only that it never reverses two instants.
\<close>

definition julianday :: "instant \<Rightarrow> int" where
  "julianday t = t div 1000"

lemma julianday_mono: "s \<le> t \<Longrightarrow> julianday s \<le> julianday t"
  by (simp add: julianday_def zdiv_mono1)

end
