(* ===== verification/Calendar.thy ===== *)
theory Calendar
  imports PyTime
begin

text \<open>
  The NYSE calendar of \<open>app/x/calendar.py\<close>: regular sessions between 2026 and 2028, their closes,
  the last completed session at an instant, and the digest slots of a day.
\<close>

definition COVERAGE_START :: pydate where "COVERAGE_START = ymd 2026 1 1"
definition COVERAGE_END :: pydate where "COVERAGE_END = ymd 2028 12 31"

definition FULL_CLOSES :: "pydate list" where
  "FULL_CLOSES = map (\<lambda>(y, m, d). ymd y m d)
    [(2026, 1, 1), (2026, 1, 19), (2026, 2, 16), (2026, 4, 3), (2026, 5, 25), (2026, 6, 19),
     (2026, 7, 3), (2026, 9, 7), (2026, 11, 26), (2026, 12, 25),
     (2027, 1, 1), (2027, 1, 18), (2027, 2, 15), (2027, 3, 26), (2027, 5, 31), (2027, 6, 18),
     (2027, 7, 5), (2027, 9, 6), (2027, 11, 25), (2027, 12, 24),
     (2028, 1, 17), (2028, 2, 21), (2028, 4, 14), (2028, 5, 29), (2028, 6, 19), (2028, 7, 4),
     (2028, 9, 4), (2028, 11, 23), (2028, 12, 25)]"

definition HALF_DAYS :: "pydate list" where
  "HALF_DAYS = map (\<lambda>(y, m, d). ymd y m d)
    [(2026, 11, 27), (2026, 12, 24), (2027, 11, 26), (2028, 7, 3), (2028, 11, 24)]"

definition is_session :: "pydate \<Rightarrow> bool result" where
  "is_session day = (if \<not> (COVERAGE_START \<le> day \<and> day \<le> COVERAGE_END) then Inl CalendarCoverageError
     else Inr (weekday day < 5 \<and> day \<notin> set FULL_CLOSES))"

definition session_close :: "pydate \<Rightarrow> instant option result" where
  "session_close day = and_then (is_session day) (\<lambda>s.
     Inr (if s then Some (ny_combine day (clock (if day \<in> set HALF_DAYS then 13 else 16) 0)) else None))"

text \<open>
  The loop of \<open>previous_session\<close> walks back one day at a time; it stops at a session or raises when
  it leaves the coverage.
\<close>

function session_at_or_before :: "pydate \<Rightarrow> pydate result" where
  "session_at_or_before candidate = (case is_session candidate of
     Inl e \<Rightarrow> Inl e
   | Inr s \<Rightarrow> if s then Inr candidate else session_at_or_before (candidate - 1))"
  by pat_completeness auto
termination
  by (relation "measure (\<lambda>c. nat (c + 1 - COVERAGE_START))") (auto simp: is_session_def split: if_splits)

declare session_at_or_before.simps [simp del]

definition previous_session :: "pydate \<Rightarrow> pydate result" where
  "previous_session day = and_then (is_session day) (\<lambda>_. session_at_or_before (day - 1))"

definition completed_session :: "instant \<Rightarrow> pydate result" where
  "completed_session observed_at = (let day = ny_date observed_at in
     and_then (session_close day) (\<lambda>close. case close of
       Some c \<Rightarrow> if c \<le> observed_at then Inr day else previous_session day
     | None \<Rightarrow> previous_session day))"

definition run_slots :: "pydate \<Rightarrow> (string \<times> daytime) list result" where
  "run_slots d = and_then (is_session d) (\<lambda>eligible. Inr (
     if weekday d = 6 then [(''weekly'', clock 18 0)]
     else if \<not> eligible then []
     else if d \<in> set HALF_DAYS then [(''morning'', clock 8 45), (''close'', clock 14 45)]
     else [(''morning'', clock 8 45), (''midday'', clock 12 30), (''afternoon'', clock 14 15),
           (''close'', clock 17 45)]))"

definition slot_should_run :: "pydate \<Rightarrow> string \<Rightarrow> daytime option result" where
  "slot_should_run d slot = and_then (run_slots d) (\<lambda>slots. Inr (map_of slots slot))"

text \<open>\<open>time.max\<close> is the last microsecond of the day.\<close>

definition completed_through :: "pydate \<Rightarrow> instant \<Rightarrow> pydate result" where
  "completed_through day observed_at = and_then (is_session day) (\<lambda>_.
     completed_session (min (ny_combine day (day_length - 1)) observed_at))"

section \<open>Sessions and closes\<close>

lemma is_session_Inl [result_simps]:
  "is_session d = Inl e \<longleftrightarrow> e = CalendarCoverageError \<and> \<not> (COVERAGE_START \<le> d \<and> d \<le> COVERAGE_END)"
  by (auto simp: is_session_def)

lemma session_close_Some:
  "session_close d = Inr (Some c) \<longleftrightarrow>
     is_session d = Inr True \<and> c = ny_combine d (clock (if d \<in> set HALF_DAYS then 13 else 16) 0)"
  by (auto simp: session_close_def result_simps split: if_splits)

lemma session_close_None: "session_close d = Inr None \<longleftrightarrow> is_session d = Inr False"
  by (auto simp: session_close_def result_simps split: if_splits)

lemma session_at_or_before_Inr:
  "session_at_or_before c = Inr d \<Longrightarrow>
     is_session d = Inr True \<and> d \<le> c \<and> (\<forall>e. d < e \<and> e \<le> c \<longrightarrow> is_session e = Inr False)"
proof (induction c rule: session_at_or_before.induct)
  case (1 c)
  from "1.prems" obtain s where s: "is_session c = Inr s"
    by (subst (asm) session_at_or_before.simps) (auto split: sum.splits)
  show ?case
  proof (cases s)
    case True
    with "1.prems" s show ?thesis by (auto simp: session_at_or_before.simps [of c])
  next
    case False
    with "1.prems" s have "session_at_or_before (c - 1) = Inr d"
      by (simp add: session_at_or_before.simps [of c])
    with "1.IH" [OF s] False
    have d: "is_session d = Inr True" "d \<le> c - 1" "\<forall>e. d < e \<and> e \<le> c - 1 \<longrightarrow> is_session e = Inr False"
      by auto
    have "is_session e = Inr False" if "d < e" "e \<le> c" for e
      using d(3) s False that by (cases "e = c") auto
    with d show ?thesis by auto
  qed
qed

lemma previous_session_Inr:
  assumes "previous_session day = Inr d"
  shows "is_session d = Inr True" and "d < day"
    and "\<And>e. d < e \<Longrightarrow> e < day \<Longrightarrow> is_session e = Inr False"
  using session_at_or_before_Inr [of "day - 1" d] assms
  by (auto simp: previous_session_def result_simps)

lemma session_close_mono:
  assumes "session_close d = Inr (Some c)" and "session_close d' = Inr (Some c')" and "d < d'"
  shows "c < c'"
proof -
  let ?tod = "\<lambda>d. clock (if d \<in> set HALF_DAYS then 13 else 16) 0"
  have c: "c = ny_combine d (?tod d)" "c' = ny_combine d' (?tod d')"
    using assms(1,2) by (auto simp: session_close_Some)
  have "(d + 1) * day_length \<le> d' * day_length"
    using assms(3) by (intro mult_right_mono) (simp_all add: time_unit_defs)
  then have "d * day_length + 24 * hour \<le> d' * day_length"
    by (simp add: time_unit_defs)
  moreover have "?tod d \<le> 16 * hour" "13 * hour \<le> ?tod d'"
    by (simp_all add: clock_def time_unit_defs)
  moreover have "0 < hour" by (simp add: time_unit_defs)
  ultimately show ?thesis
    using ny_combine_bounds [of d "?tod d"] ny_combine_bounds [of d' "?tod d'"] c by linarith
qed

lemma later_day_closes_later:
  assumes "session_close d = Inr (Some c)" and "ny_date t < d"
  shows "t < c"
  using assms by (auto simp: session_close_Some clock_def time_unit_defs intro!: ny_date_less_combine)

text \<open>
  The session \<open>completed_session\<close> names has closed by the observation, and no later day has a
  close at or before it: it is the last completed session.
\<close>

lemma completed_session_latest:
  assumes "completed_session t = Inr d"
  shows "\<exists>c. session_close d = Inr (Some c) \<and> c \<le> t \<and>
    (\<forall>d' c'. d < d' \<and> session_close d' = Inr (Some c') \<longrightarrow> t < c')"
proof -
  let ?day = "ny_date t"
  from assms obtain close where close: "session_close ?day = Inr close"
    and d: "(case close of Some c \<Rightarrow> if c \<le> t then Inr ?day else previous_session ?day
       | None \<Rightarrow> previous_session ?day) = Inr d"
    by (auto simp: completed_session_def Let_def result_simps)
  show ?thesis
  proof (cases "\<exists>c. close = Some c \<and> c \<le> t")
    case True
    with d close show ?thesis by (auto dest: later_day_closes_later)
  next
    case False
    with d have p: "previous_session ?day = Inr d" by (auto split: option.splits if_splits)
    obtain c where c: "session_close d = Inr (Some c)"
      using previous_session_Inr(1) [OF p] by (auto simp: session_close_Some)
    have "c \<le> t"
    proof -
      let ?tod = "clock (if d \<in> set HALF_DAYS then 13 else 16) 0"
      have "(d + 1) * day_length \<le> ?day * day_length"
        using previous_session_Inr(2) [OF p] by (intro mult_right_mono) (simp_all add: time_unit_defs)
      moreover have "c = ny_combine d ?tod" using c by (auto simp: session_close_Some)
      ultimately show ?thesis
        using ny_combine_bounds [of d ?tod] ny_date_bounds [of t]
        by (auto simp: clock_def time_unit_defs split: if_splits)
    qed
    moreover have "t < c'" if "d < d'" and "session_close d' = Inr (Some c')" for d' c'
    proof -
      consider "d' < ?day" | "d' = ?day" | "?day < d'" by linarith
      then show ?thesis
        using that previous_session_Inr(3) [OF p, of d'] close False
        by cases (auto simp: session_close_Some intro: later_day_closes_later)
    qed
    ultimately show ?thesis using c by blast
  qed
qed

text \<open>On 7 September 2026 (Labor Day) the last completed session is Friday the 4th.\<close>

lemma completed_session_latest_witness:
  "\<exists>c. session_close (ymd 2026 9 4) = Inr (Some c) \<and> c \<le> ny_combine (ymd 2026 9 7) (clock 20 0) \<and>
    ny_combine (ymd 2026 9 7) (clock 20 0) < ny_combine (ymd 2026 9 8) (clock 16 0)"
proof -
  have "completed_session (ny_combine (ymd 2026 9 7) (clock 20 0)) = Inr (ymd 2026 9 4)"
    by code_simp
  from completed_session_latest [OF this]
  obtain c where c: "session_close (ymd 2026 9 4) = Inr (Some c)" "c \<le> ny_combine (ymd 2026 9 7) (clock 20 0)"
    and later: "\<And>d' c'. ymd 2026 9 4 < d' \<Longrightarrow> session_close d' = Inr (Some c') \<Longrightarrow>
      ny_combine (ymd 2026 9 7) (clock 20 0) < c'"
    by blast
  have "session_close (ymd 2026 9 8) = Inr (Some (ny_combine (ymd 2026 9 8) (clock 16 0)))" by code_simp
  from later [OF _ this] c show ?thesis by (auto simp: ymd_def Let_def)
qed

end
