(* ===== verification/Store.thy ===== *)
theory Store
  imports Prelude
begin

text \<open>
  Tables of immutable rows. A table is the list of its rows in insertion order; \<open>insert_once\<close> is
  the pattern of the \<open>save_*\<close> functions: look the key up, accept the same content again, refuse
  different content, refuse a row that clashes with a UNIQUE column, else append. The locale
  \<open>immutable_store\<close> is what its callers rely on; every store of the development interprets it.
\<close>

definition find_row :: "('r \<Rightarrow> 'k) \<Rightarrow> 'k \<Rightarrow> 'r list \<Rightarrow> 'r option" where
  "find_row key k rows = find (\<lambda>r. key r = k) rows"

definition insert_once :: "('r \<Rightarrow> 'k) \<Rightarrow> ('r \<Rightarrow> 'r \<Rightarrow> bool) \<Rightarrow> exn \<Rightarrow> exn \<Rightarrow> 'r \<Rightarrow> 'r list \<Rightarrow>
    ('r list \<times> bool) result" where
  "insert_once key clash different taken r rows = (case find_row key (key r) rows of
     Some q \<Rightarrow> if q = r then Inr (rows, False) else Inl different
   | None \<Rightarrow> if \<exists>q\<in>set rows. clash r q then Inl taken else Inr (rows @ [r], True))"

text \<open>\<open>ORDER BY key DESC LIMIT 1\<close>, for a key whose values are distinct.\<close>

fun greatest :: "('r \<Rightarrow> 'k::linorder) \<Rightarrow> 'r list \<Rightarrow> 'r option" where
  "greatest key [] = None"
| "greatest key (r # rs) = (case greatest key rs of None \<Rightarrow> Some r
     | Some q \<Rightarrow> if key r \<le> key q then Some q else Some r)"

lemma greatest_None [simp]: "greatest key rows = None \<longleftrightarrow> rows = []"
  by (cases rows) (auto split: option.splits)

lemma greatest_Some: "greatest key rows = Some r \<Longrightarrow> r \<in> set rows \<and> (\<forall>q\<in>set rows. key q \<le> key r)"
proof (induction rows arbitrary: r)
  case (Cons p rows)
  show ?case
  proof (cases "greatest key rows")
    case None
    with Cons.prems show ?thesis by simp
  next
    case (Some q)
    with Cons.IH [OF Some] Cons.prems show ?thesis by (auto split: if_splits)
  qed
qed simp

lemma greatest_map:
  "(\<And>r. key (g r) = key r) \<Longrightarrow> greatest key (map g rows) = map_option g (greatest key rows)"
  by (induction rows) (auto split: option.splits)

lemma find_row_Some: "find_row key k rows = Some r \<Longrightarrow> r \<in> set rows \<and> key r = k"
  by (auto simp: find_row_def find_Some_iff)

lemma find_row_None: "find_row key k rows = None \<longleftrightarrow> k \<notin> key ` set rows"
  by (auto simp: find_row_def find_None_iff)

lemma find_row_append:
  "find_row key k (rows @ [r]) = (case find_row key k rows of Some q \<Rightarrow> Some q
     | None \<Rightarrow> if key r = k then Some r else None)"
  unfolding find_row_def by (induction rows) auto

lemma find_row_map:
  "(\<And>r. key (g r) = key r) \<Longrightarrow> find_row key k (map g rows) = map_option g (find_row key k rows)"
  unfolding find_row_def by (induction rows) auto

lemma find_row_key: "find_row key (key r) rows = Some r \<longleftrightarrow> find_row key (key r) rows = Some r \<and> r \<in> set rows"
  by (auto dest: find_row_Some)

lemma insert_once_cases:
  assumes "insert_once key clash e f r rows = Inr (rows', b)"
  obtains "\<not> b" "rows' = rows" "find_row key (key r) rows = Some r"
    | "b" "rows' = rows @ [r]" "find_row key (key r) rows = None" "\<forall>q\<in>set rows. \<not> clash r q"
  using assms by (auto simp: insert_once_def split: option.splits if_splits)

text \<open>The primary key stays a key.\<close>

lemma insert_once_distinct:
  assumes "insert_once key clash e f r rows = Inr (rows', b)" and "distinct (map key rows)"
  shows "distinct (map key rows')"
  using assms(1) by (rule insert_once_cases) (use assms(2) in \<open>auto simp: find_row_None\<close>)

lemma find_row_distinct:
  assumes "distinct (map key rows)" and "r \<in> set rows"
  shows "find_row key (key r) rows = Some r"
proof (cases "find_row key (key r) rows")
  case None
  with assms(2) show ?thesis by (auto simp: find_row_None)
next
  case (Some q)
  with find_row_Some [OF Some] assms show ?thesis by (auto simp: distinct_map inj_on_def)
qed

locale immutable_store =
  fixes lookup :: "'s \<Rightarrow> 'k \<Rightarrow> 'r option"
    and save :: "'r \<Rightarrow> 's \<Rightarrow> ('s \<times> bool) result"
    and key :: "'r \<Rightarrow> 'k"
  assumes stores: "save r s = Inr (s', b) \<Longrightarrow> lookup s' (key r) = Some r"
    and others: "save r s = Inr (s', b) \<Longrightarrow> k \<noteq> key r \<Longrightarrow> lookup s' k = lookup s k"
    and added: "save r s = Inr (s', b) \<Longrightarrow> b \<longleftrightarrow> lookup s (key r) = None"
    and refused: "save r s = Inr (s', False) \<Longrightarrow> s' = s \<and> lookup s (key r) = Some r"
    and again: "save r s = Inr (s', b) \<Longrightarrow> save r s' = Inr (s', False)"
    and kept: "save r s = Inr (s, False) \<Longrightarrow> save q s = Inr (s', b) \<Longrightarrow> save r s' = Inr (s', False)"
begin

lemma immutable:
  assumes "save r s = Inr (s', b)" and "lookup s k = Some q"
  shows "lookup s' k = Some q"
proof (cases "k = key r")
  case True
  with assms added [OF assms(1)] have "\<not> b" by simp
  with assms(1) refused [of r s s'] assms(2) show ?thesis by simp
next
  case False
  with others [OF assms(1)] assms(2) show ?thesis by simp
qed

lemma conflict: "lookup s (key r) = Some q \<Longrightarrow> q \<noteq> r \<Longrightarrow> \<exists>e. save r s = Inl e"
  using immutable stores by (cases "save r s") fastforce+

definition save_all :: "'r list \<Rightarrow> 's \<Rightarrow> 's result" where
  "save_all = fold_result (\<lambda>r s. and_then (save r s) (\<lambda>p. Inr (fst p)))"

lemma save_all_step:
  "save_all (r # rs) s = Inr t \<longleftrightarrow> (\<exists>u b. save r s = Inr (u, b) \<and> save_all rs u = Inr t)"
  by (fastforce simp: save_all_def result_simps)

lemma save_all_immutable: "save_all rs s = Inr t \<Longrightarrow> lookup s k = Some q \<Longrightarrow> lookup t k = Some q"
  by (induction rs arbitrary: s) (auto simp: save_all_def [of] result_simps dest: immutable)

lemma save_all_stores: "save_all rs s = Inr t \<Longrightarrow> r \<in> set rs \<Longrightarrow> lookup t (key r) = Some r"
proof (induction rs arbitrary: s)
  case (Cons q rs)
  from Cons.prems(1) obtain u b where u: "save q s = Inr (u, b)" and t: "save_all rs u = Inr t"
    unfolding save_all_step by blast
  from Cons.prems(2) consider "r = q" | "r \<in> set rs" by auto
  then show ?case
  proof cases
    case 1
    with stores [OF u] save_all_immutable [OF t] show ?thesis by blast
  next
    case 2
    then show ?thesis by (rule Cons.IH [OF t])
  qed
qed simp

lemma save_all_kept: "save_all rs s = Inr t \<Longrightarrow> save r s = Inr (s, False) \<Longrightarrow> save r t = Inr (t, False)"
proof (induction rs arbitrary: s)
  case (Cons q rs)
  from Cons.prems(1) obtain u b where u: "save q s = Inr (u, b)" and t: "save_all rs u = Inr t"
    unfolding save_all_step by blast
  from kept [OF Cons.prems(2) u] show ?case by (rule Cons.IH [OF t])
qed (simp add: save_all_def)

lemma save_all_accepts: "save_all rs s = Inr t \<Longrightarrow> r \<in> set rs \<Longrightarrow> save r t = Inr (t, False)"
proof (induction rs arbitrary: s)
  case (Cons q rs)
  from Cons.prems(1) obtain u b where u: "save q s = Inr (u, b)" and t: "save_all rs u = Inr t"
    unfolding save_all_step by blast
  from Cons.prems(2) consider "r = q" | "r \<in> set rs" by auto
  then show ?case
  proof cases
    case 1
    with again [OF u] save_all_kept [OF t] show ?thesis by blast
  next
    case 2
    then show ?thesis by (rule Cons.IH [OF t])
  qed
qed simp

text \<open>Saving a batch again, whole or in part and in any order, changes nothing.\<close>

lemma save_all_replay:
  assumes "save_all rs s = Inr t" and "set qs \<subseteq> set rs"
  shows "save_all qs t = Inr t"
  using assms(2)
proof (induction qs)
  case (Cons q qs)
  then show ?case using save_all_accepts [OF assms(1), of q] unfolding save_all_step by auto
qed (simp add: save_all_def)

end

text \<open>The plain table is a store.\<close>

lemma insert_once_store:
  "immutable_store (\<lambda>rows k. find_row key k rows) (insert_once key clash e f) key"
proof unfold_locales
  fix r s s' b assume i: "insert_once key clash e f r s = Inr (s', b)"
  from i show "find_row key (key r) s' = Some r"
    by (rule insert_once_cases) (auto simp: find_row_append)
  from i show "find_row key k s' = find_row key k s" if "k \<noteq> key r" for k
    by (rule insert_once_cases) (use that in \<open>auto simp: find_row_append split: option.splits\<close>)
  from i show "b \<longleftrightarrow> find_row key (key r) s = None"
    by (rule insert_once_cases) auto
  from i show "insert_once key clash e f r s' = Inr (s', False)"
    by (rule insert_once_cases) (auto simp: insert_once_def find_row_append)
next
  fix r s s' assume i: "insert_once key clash e f r s = Inr (s', False)"
  from i show "s' = s \<and> find_row key (key r) s = Some r"
    by (rule insert_once_cases) auto
next
  fix r q s s' b assume r: "insert_once key clash e f r s = Inr (s, False)"
    and q: "insert_once key clash e f q s = Inr (s', b)"
  from r have "find_row key (key r) s = Some r" by (rule insert_once_cases) auto
  with q show "insert_once key clash e f r s' = Inr (s', False)"
    by (elim insert_once_cases) (auto simp: insert_once_def find_row_append)
qed

interpretation table: immutable_store "\<lambda>rows k. find_row key k rows" "insert_once key clash e f" key
  for key clash e f
  by (rule insert_once_store)

text \<open>
  A table inside a larger state, saved to behind a guard that does not read that table: again a
  store.
\<close>

locale guarded_table =
  fixes get :: "'s \<Rightarrow> 'r list"
    and put :: "'r list \<Rightarrow> 's \<Rightarrow> 's"
    and guard :: "'r \<Rightarrow> 's \<Rightarrow> unit result"
    and key :: "'r \<Rightarrow> 'k"
    and clash :: "'r \<Rightarrow> 'r \<Rightarrow> bool"
    and different :: "'r \<Rightarrow> exn"
    and taken :: "'r \<Rightarrow> exn"
    and save :: "'r \<Rightarrow> 's \<Rightarrow> ('s \<times> bool) result"
  assumes get_put: "get (put rows s) = rows"
    and put_get: "put (get s) s = s"
    and guard_put: "guard r (put rows s) = guard r s"
    and save_eq: "save r s = and_then (guard r s) (\<lambda>_. and_then
        (insert_once key clash (different r) (taken r) r (get s)) (\<lambda>(rows, b). Inr (put rows s, b)))"
begin

lemma save_Inr:
  "save r s = Inr (s', b) \<longleftrightarrow> guard r s = Inr () \<and> (\<exists>rows.
     insert_once key clash (different r) (taken r) r (get s) = Inr (rows, b) \<and> s' = put rows s)"
  by (auto simp: save_eq result_simps)

end

sublocale guarded_table \<subseteq> immutable_store "\<lambda>s k. find_row key k (get s)" save key
proof unfold_locales
  fix r s s' b assume s: "save r s = Inr (s', b)"
  then obtain rows where i: "insert_once key clash (different r) (taken r) r (get s) = Inr (rows, b)"
    and s': "s' = put rows s" and g: "guard r s = Inr ()"
    by (auto simp: save_Inr)
  show "find_row key (key r) (get s') = Some r"
    using table.stores [OF i] by (simp add: s' get_put)
  show "find_row key k (get s') = find_row key k (get s)" if "k \<noteq> key r" for k
    using table.others [OF i that] by (simp add: s' get_put)
  show "b \<longleftrightarrow> find_row key (key r) (get s) = None"
    using table.added [OF i] .
  show "save r s' = Inr (s', False)"
    using table.again [OF i] g put_get [of s'] by (simp add: save_Inr s' get_put guard_put)
next
  fix r s s' assume s: "save r s = Inr (s', False)"
  then obtain rows where i: "insert_once key clash (different r) (taken r) r (get s) = Inr (rows, False)"
    and s': "s' = put rows s"
    by (auto simp: save_Inr)
  show "s' = s \<and> find_row key (key r) (get s) = Some r"
    using table.refused [OF i] by (simp add: s' put_get)
next
  fix r q s s' b assume r: "save r s = Inr (s, False)" and q: "save q s = Inr (s', b)"
  from r obtain rows where ri: "insert_once key clash (different r) (taken r) r (get s) = Inr (rows, False)"
    and g: "guard r s = Inr ()"
    by (auto simp: save_Inr)
  from table.refused [OF ri] have stored: "find_row key (key r) (get s) = Some r" by simp
  from q obtain rows' where qi: "insert_once key clash (different q) (taken q) q (get s) = Inr (rows', b)"
    and s': "s' = put rows' s"
    by (auto simp: save_Inr)
  have "find_row key (key r) rows' = Some r"
    using table.immutable [OF qi stored] .
  then have "insert_once key clash (different r) (taken r) r rows' = Inr (rows', False)"
    by (simp add: insert_once_def)
  then show "save r s' = Inr (s', False)"
    using g put_get [of s'] by (simp add: save_Inr s' get_put guard_put)
qed

end
