(* ===== verification/PublicAuthoring.thy ===== *)
theory PublicAuthoring
  imports PyTime
begin

text \<open>
  The public narrative attached to a decision and the thesis review of a holding
  (\<open>app/schemas/public_authoring.py\<close>): their fields, length limits and validators, and the canonical
  form of an X status URL.
\<close>

definition text_errors :: "string \<Rightarrow> string \<Rightarrow> string list" where
  "text_errors = length_errors 1 4000"

definition reference_errors :: "string \<Rightarrow> string \<Rightarrow> string list" where
  "reference_errors = length_errors 1 200"

lemmas string_field_defs = text_errors_def reference_errors_def

record PublicClaimDraft =
  pc_claim_id :: string
  pc_text :: string
  pc_evidence_confidence :: "pyfloat option"
  pc_source_refs :: "string list"
  pc_approved_for_publication :: bool

definition claim_errors :: "PublicClaimDraft \<Rightarrow> string list" where
  "claim_errors c = reference_errors ''claim_id'' (pc_claim_id c) @ text_errors ''text'' (pc_text c) @
     optional_errors (range_errors 0 1 ''evidence_confidence'') (pc_evidence_confidence c) @
     length_errors 0 20 ''source_refs'' (pc_source_refs c) @
     concat (map (reference_errors ''source_refs'') (pc_source_refs c))"

datatype stage_name = initial_thesis_stage | counter_thesis_stage | adversarial_refinement_stage
  | refined_thesis_stage | what_is_priced_in_stage

record PublicStage =
  ps_stage :: stage_name
  ps_summary :: string
  ps_started_at :: "instant option"
  ps_completed_at :: "instant option"
  ps_claim_ids :: "string list"

definition stage_times :: "PublicStage \<Rightarrow> (bool \<times> string) list" where
  "stage_times s =
     [(case ps_completed_at s of None \<Rightarrow> False | Some completed \<Rightarrow>
         (case ps_started_at s of None \<Rightarrow> True | Some started \<Rightarrow> completed < started),
       ''completed stage requires an earlier start'')]"

definition stage_errors :: "PublicStage \<Rightarrow> string list" where
  "stage_errors s = model_errors
     (text_errors ''summary'' (ps_summary s) @ length_errors 0 30 ''claim_ids'' (ps_claim_ids s) @
      concat (map (reference_errors ''claim_ids'') (ps_claim_ids s)))
     (stage_times s)"

record PublicVariantPerception =
  pv_consensus :: "string option"
  pv_disagreement :: "string option"
  pv_evidence :: "string option"
  pv_falsification :: "string option"
  pv_claim_ids :: "string list"

definition variant_errors :: "PublicVariantPerception \<Rightarrow> string list" where
  "variant_errors v = optional_errors (text_errors ''consensus'') (pv_consensus v) @
     optional_errors (text_errors ''disagreement'') (pv_disagreement v) @
     optional_errors (text_errors ''evidence'') (pv_evidence v) @
     optional_errors (text_errors ''falsification'') (pv_falsification v) @
     length_errors 0 30 ''claim_ids'' (pv_claim_ids v) @
     concat (map (reference_errors ''claim_ids'') (pv_claim_ids v))"

record PublicConditions =
  pcd_add :: "string list"
  pcd_trim :: "string list"
  pcd_exit :: "string list"
  pcd_invalidation :: "string list"

definition text_list_errors :: "string \<Rightarrow> string list \<Rightarrow> string list" where
  "text_list_errors name xs = length_errors 0 20 name xs @ concat (map (text_errors name) xs)"

definition conditions_errors :: "PublicConditions \<Rightarrow> string list" where
  "conditions_errors c = text_list_errors ''add'' (pcd_add c) @ text_list_errors ''trim'' (pcd_trim c) @
     text_list_errors ''exit'' (pcd_exit c) @ text_list_errors ''invalidation'' (pcd_invalidation c)"

section \<open>X status URLs\<close>

definition handle_char :: "char \<Rightarrow> bool" where
  "handle_char c = (char_between CHR ''A'' CHR ''Z'' c \<or> char_between CHR ''a'' CHR ''z'' c \<or>
     char_between CHR ''0'' CHR ''9'' c \<or> c = CHR ''_'')"

definition digit_char :: "char \<Rightarrow> bool" where
  "digit_char c = char_between CHR ''0'' CHR ''9'' c"

text \<open>
  \<open>X_STATUS_URL\<close>: the host, a handle of 1 to 15 characters, \<open>/status/\<close> and 1 to 25 digits. The
  character after the handle is not one of its own, so the longest handle is the only one.
\<close>

definition x_status :: "string \<Rightarrow> (string \<times> string) option" where
  "x_status rest = (let handle = takeWhile handle_char rest in
     case after_prefix ''/status/'' (dropWhile handle_char rest) of None \<Rightarrow> None
     | Some ident \<Rightarrow> if handle \<noteq> [] \<and> length handle \<le> 15 \<and> ident \<noteq> [] \<and> length ident \<le> 25 \<and>
           list_all digit_char ident then Some (handle, ident) else None)"

definition X_STATUS_URL :: "string \<Rightarrow> (string \<times> string) option" where
  "X_STATUS_URL url = (case after_prefix ''https://x.com/'' url of Some rest \<Rightarrow> x_status rest
     | None \<Rightarrow> (case after_prefix ''https://twitter.com/'' url of Some rest \<Rightarrow> x_status rest
         | None \<Rightarrow> None))"

definition canonical_x_post :: "string \<Rightarrow> (string \<times> string) option" where
  "canonical_x_post url = X_STATUS_URL (strip url)"

definition x_post_url :: "string \<Rightarrow> string \<Rightarrow> string" where
  "x_post_url handle ident = ''https://x.com/'' @ handle @ ''/status/'' @ ident"

definition public_status_url :: "string \<Rightarrow> string result" where
  "public_status_url value = (case canonical_x_post value of
     None \<Rightarrow> Inl (ValueError ''X post must be a https://x.com/<handle>/status/<id> URL'')
   | Some (handle, ident) \<Rightarrow> Inr (x_post_url handle ident))"

datatype x_post_role = idea_source | supporting | counter_evidence | context_role

record PublicXPost =
  xp_url :: string
  xp_role :: x_post_role
  xp_summary :: string

definition x_post_errors :: "PublicXPost \<Rightarrow> string list" where
  "x_post_errors p = (case length_errors 1 200 ''url'' (xp_url p) of
       e # es \<Rightarrow> e # es
     | [] \<Rightarrow> (case public_status_url (xp_url p) of Inl (ValueError m) \<Rightarrow> [m] | _ \<Rightarrow> [])) @
     text_errors ''summary'' (xp_summary p)"

definition normalize_x_post :: "PublicXPost \<Rightarrow> PublicXPost" where
  "normalize_x_post p = (case public_status_url (xp_url p) of Inl _ \<Rightarrow> p | Inr u \<Rightarrow> p\<lparr>xp_url := u\<rparr>)"

section \<open>The narrative\<close>

record PublicNarrative =
  pn_company_name :: "string option"
  pn_approved_for_publication :: bool
  pn_required_source_refs :: "string list"
  pn_stages :: "PublicStage list"
  pn_claims :: "PublicClaimDraft list"
  pn_variant_perception :: "PublicVariantPerception option"
  pn_trigger_summary :: "string option"
  pn_x_summary :: "string option"
  pn_x_posts :: "PublicXPost list"
  pn_conviction_rationale :: "string option"
  pn_extraordinary_opportunity_summary :: "string option"
  pn_conditions :: "PublicConditions option"

definition narrative_refs :: "PublicNarrative \<Rightarrow> string list" where
  "narrative_refs n = concat (map ps_claim_ids (pn_stages n)) @
     (case pn_variant_perception n of None \<Rightarrow> [] | Some v \<Rightarrow> pv_claim_ids v)"

definition coherent_references :: "PublicNarrative \<Rightarrow> (bool \<times> string) list" where
  "coherent_references n =
     [(\<not> distinct (map pc_claim_id (pn_claims n)), ''duplicate public claim ID''),
      (\<not> distinct (map ps_stage (pn_stages n)), ''duplicate public stage''),
      (\<not> set (narrative_refs n) \<subseteq> set (map pc_claim_id (pn_claims n)),
       ''unknown public claim reference'')]"

definition narrative_errors :: "PublicNarrative \<Rightarrow> string list" where
  "narrative_errors n = model_errors
     (optional_errors (length_errors 1 200 ''company_name'') (pn_company_name n) @
      length_errors 0 30 ''required_source_refs'' (pn_required_source_refs n) @
      concat (map (reference_errors ''required_source_refs'') (pn_required_source_refs n)) @
      length_errors 0 5 ''stages'' (pn_stages n) @ concat (map stage_errors (pn_stages n)) @
      length_errors 0 50 ''claims'' (pn_claims n) @ concat (map claim_errors (pn_claims n)) @
      optional_errors variant_errors (pn_variant_perception n) @
      optional_errors (text_errors ''trigger_summary'') (pn_trigger_summary n) @
      optional_errors (text_errors ''x_summary'') (pn_x_summary n) @
      length_errors 0 10 ''x_posts'' (pn_x_posts n) @ concat (map x_post_errors (pn_x_posts n)) @
      optional_errors (text_errors ''conviction_rationale'') (pn_conviction_rationale n) @
      optional_errors (text_errors ''extraordinary_opportunity_summary'')
        (pn_extraordinary_opportunity_summary n) @
      optional_errors conditions_errors (pn_conditions n))
     (coherent_references n)"

definition normalize_narrative :: "PublicNarrative \<Rightarrow> PublicNarrative" where
  "normalize_narrative n = n\<lparr>pn_x_posts := map normalize_x_post (pn_x_posts n)\<rparr>"

section \<open>The thesis review of a holding\<close>

definition ticker_char :: "char \<Rightarrow> bool" where
  "ticker_char c = (char_between CHR ''A'' CHR ''Z'' c \<or> char_between CHR ''0'' CHR ''9'' c \<or>
     c = CHR ''.'' \<or> c = CHR ''-'')"

definition ticker_pattern :: "string \<Rightarrow> bool" where
  "ticker_pattern s = (case s of [] \<Rightarrow> False
     | c # cs \<Rightarrow> char_between CHR ''A'' CHR ''Z'' c \<and> list_all ticker_char cs \<and> length cs \<le> 11)"

datatype review_mode = live_review | paper_review
datatype review_author = agent | operator
datatype review_state = not_reviewed | intact | under_review | invalidated
datatype move_attribution = market_move | thesis_move | both_moves

record ThesisReview =
  tr_review_id :: string
  tr_mode :: review_mode
  tr_account_id :: string
  tr_episode_id :: string
  tr_ticker :: string
  tr_reviewed_at :: instant
  tr_recorded_at :: instant
  tr_author :: review_author
  tr_reasoning_run_id :: "string option"
  tr_runtime_attempt_id :: "string option"
  tr_state :: review_state
  tr_summary :: "string option"
  tr_narrative :: "PublicNarrative option"
  tr_approved_for_publication :: bool
  tr_private_notes :: "string option"
  tr_review_reasons :: "string list"
  tr_realization_price_low :: "pyfloat option"
  tr_realization_price_high :: "pyfloat option"
  tr_invalidation_price :: "pyfloat option"
  tr_range_basis :: "string option"
  tr_range_change_evidence :: "string option"
  tr_move_attribution :: "move_attribution option"

text \<open>The price-range conditions a review shares with the decision record.\<close>

definition both_and :: "'a option \<Rightarrow> 'a option \<Rightarrow> ('a \<Rightarrow> 'a \<Rightarrow> bool) \<Rightarrow> bool" where
  "both_and x y P = (case (x, y) of (Some a, Some b) \<Rightarrow> P a b | _ \<Rightarrow> False)"

lemma both_and_iff [result_simps]: "both_and x y P \<longleftrightarrow> (\<exists>a b. x = Some a \<and> y = Some b \<and> P a b)"
  by (auto simp: both_and_def split: option.splits)

definition range_problems :: "pyfloat option \<Rightarrow> pyfloat option \<Rightarrow> pyfloat option \<Rightarrow> (bool \<times> string) list" where
  "range_problems low high invalidation =
     [((low = None) \<noteq> (high = None),
       ''realization_price_low and realization_price_high are recorded together''),
      (both_and low high (\<lambda>l h. h < l), ''realization_price_low cannot exceed realization_price_high''),
      (both_and invalidation low (\<lambda>i l. l \<le> i), ''invalidation_price must sit below realization_price_low'')]"

definition ordered_prices :: "ThesisReview \<Rightarrow> (bool \<times> string) list" where
  "ordered_prices r = range_problems (tr_realization_price_low r) (tr_realization_price_high r)
     (tr_invalidation_price r)"

definition review_identity :: "ThesisReview \<Rightarrow> (bool \<times> string) list" where
  "review_identity r =
     [(tr_recorded_at r < tr_reviewed_at r, ''review cannot be recorded before it happened''),
      (tr_author r = agent \<and> tr_reasoning_run_id r = None \<and> tr_runtime_attempt_id r = None,
       ''agent review requires a recorded run'')]"

definition review_errors :: "ThesisReview \<Rightarrow> string list" where
  "review_errors r = model_errors
     (reference_errors ''review_id'' (tr_review_id r) @ reference_errors ''account_id'' (tr_account_id r) @
      reference_errors ''episode_id'' (tr_episode_id r) @
      error_if (\<not> ticker_pattern (tr_ticker r)) ''ticker: string_pattern_mismatch'' @
      optional_errors (reference_errors ''reasoning_run_id'') (tr_reasoning_run_id r) @
      optional_errors (reference_errors ''runtime_attempt_id'') (tr_runtime_attempt_id r) @
      optional_errors (text_errors ''summary'') (tr_summary r) @
      optional_errors narrative_errors (tr_narrative r) @
      optional_errors (text_errors ''private_notes'') (tr_private_notes r) @
      length_errors 0 10 ''review_reasons'' (tr_review_reasons r) @
      concat (map (length_errors 1 40 ''review_reasons'') (tr_review_reasons r)) @
      optional_errors (positive_errors ''realization_price_low'') (tr_realization_price_low r) @
      optional_errors (positive_errors ''realization_price_high'') (tr_realization_price_high r) @
      optional_errors (positive_errors ''invalidation_price'') (tr_invalidation_price r) @
      optional_errors (text_errors ''range_basis'') (tr_range_basis r) @
      optional_errors (text_errors ''range_change_evidence'') (tr_range_change_evidence r))
     (ordered_prices r @ review_identity r)"

section \<open>Canonical URLs are fixed points\<close>

lemma digit_not_space: "digit_char c \<Longrightarrow> \<not> py_isspace c"
  by (auto simp: digit_char_def char_between_def py_isspace_def Let_def)

lemma x_status_canonical:
  assumes "x_status rest = Some (h, n)"
  shows "h \<noteq> []" and "length h \<le> 15" and "list_all handle_char h" and "n \<noteq> []" and "length n \<le> 25"
    and "list_all digit_char n"
  using assms by (auto simp: x_status_def Let_def list_all_iff split: option.splits if_splits dest: set_takeWhileD)

lemma x_status_of_canonical:
  assumes "h \<noteq> []" and "length h \<le> 15" and "list_all handle_char h" and "n \<noteq> []" and "length n \<le> 25"
    and "list_all digit_char n"
  shows "x_status (h @ ''/status/'' @ n) = Some (h, n)"
proof -
  have slash: "\<not> handle_char CHR ''/''" by (simp add: handle_char_def char_between_def)
  have t: "takeWhile handle_char (h @ ''/status/'' @ n) = h"
    and d: "dropWhile handle_char (h @ ''/status/'' @ n) = ''/status/'' @ n"
    using assms(3) slash
    by (simp_all add: takeWhile_append2 dropWhile_append2 list_all_iff)
  show ?thesis
    unfolding x_status_def t d Let_def after_prefix_append using assms by simp
qed

lemma canonical_x_post_Some:
  assumes "canonical_x_post url = Some (h, n)"
  shows "h \<noteq> []" and "length h \<le> 15" and "list_all handle_char h" and "n \<noteq> []" and "length n \<le> 25"
    and "list_all digit_char n"
  using assms x_status_canonical unfolding canonical_x_post_def X_STATUS_URL_def
  by (auto split: option.splits)

lemma canonical_x_post_url:
  assumes "h \<noteq> []" and "length h \<le> 15" and "list_all handle_char h" and "n \<noteq> []" and "length n \<le> 25"
    and "list_all digit_char n"
  shows "canonical_x_post (x_post_url h n) = Some (h, n)"
proof -
  have "strip (x_post_url h n) = x_post_url h n"
    using assms(4,6) by (intro strip_id)
      (simp_all add: x_post_url_def list_all_iff digit_not_space, simp add: py_isspace_def)
  moreover have "after_prefix ''https://x.com/'' (x_post_url h n) = Some (h @ ''/status/'' @ n)"
    unfolding x_post_url_def by (rule after_prefix_append)
  ultimately show ?thesis
    by (simp add: canonical_x_post_def X_STATUS_URL_def x_status_of_canonical assms del: append.simps)
qed

text \<open>
  The URL a public X post is stored under is accepted again and stays as it is: parsing the
  canonical form gives back the handle and the status number it was built from.
\<close>

lemma public_status_url_idempotent:
  assumes "public_status_url value = Inr u"
  shows "public_status_url u = Inr u \<and> (\<exists>h n. canonical_x_post value = Some (h, n) \<and>
    canonical_x_post u = Some (h, n) \<and> u = ''https://x.com/'' @ h @ ''/status/'' @ n)"
proof -
  from assms obtain h n where p: "canonical_x_post value = Some (h, n)" and u: "u = x_post_url h n"
    by (auto simp: public_status_url_def split: option.splits)
  have "canonical_x_post u = Some (h, n)"
    unfolding u using canonical_x_post_Some [OF p] by (rule canonical_x_post_url)
  then show ?thesis using p u by (simp add: public_status_url_def x_post_url_def)
qed

lemma public_status_url_idempotent_witness:
  "public_status_url ''https://x.com/jack/status/20'' = Inr ''https://x.com/jack/status/20'' \<and>
   (\<exists>h n. canonical_x_post ''  https://twitter.com/jack/status/20 '' = Some (h, n) \<and>
     canonical_x_post ''https://x.com/jack/status/20'' = Some (h, n) \<and>
     ''https://x.com/jack/status/20'' = ''https://x.com/'' @ h @ ''/status/'' @ n)"
proof (rule public_status_url_idempotent)
  show "public_status_url ''  https://twitter.com/jack/status/20 '' = Inr ''https://x.com/jack/status/20''"
    by code_simp
qed

end
