(* ===== verification/ReportingSchema.thy ===== *)
theory ReportingSchema
  imports PublicAuthoring
begin

text \<open>
  Reporting facts (\<open>app/schemas/reporting.py\<close>): valuations, external flows, fills, corporate actions
  and coverage statements of one account, with their validators. Decimals are exact rationals; the
  validators compute under a context of 100 digits. The fields every observation has are the parent
  record \<open>Observation\<close>.
\<close>

datatype account_mode = LiveMode | PaperMode

definition money :: "rat \<Rightarrow> bool" where "money = decimal_limits 24 2"
definition quantity :: "rat \<Rightarrow> bool" where "quantity x = (decimal_limits 40 18 x \<and> 0 \<le> x)"

definition money_errors :: "string \<Rightarrow> rat \<Rightarrow> string list" where
  "money_errors name x = error_if (\<not> money x) (name @ '': decimal_limits'')"

definition nonneg_money_errors :: "string \<Rightarrow> rat \<Rightarrow> string list" where
  "nonneg_money_errors name x = error_if (\<not> (money x \<and> 0 \<le> x)) (name @ '': decimal_limits'')"

definition quantity_errors :: "string \<Rightarrow> rat \<Rightarrow> string list" where
  "quantity_errors name x = error_if (\<not> quantity x) (name @ '': decimal_limits'')"

section \<open>Positions\<close>

datatype price_quality = current_price | stale_price | missing_price
datatype asset_class = equity_class | etf_class | fixed_income_class | other_class | unknown_class

record ReportingPosition =
  rp_ticker :: string
  rp_quantity :: "rat option"
  rp_market_value :: "rat option"
  rp_average_cost :: "rat option"
  rp_price :: "rat option"
  rp_quote_at :: "instant option"
  rp_price_quality :: price_quality
  rp_name :: "string option"
  rp_theme :: "string option"
  rp_asset_class :: asset_class

definition consistent_price :: "ReportingPosition \<Rightarrow> (bool \<times> string) list" where
  "consistent_price p =
     [(rp_price_quality p = current_price \<and> (rp_price p = None \<or> rp_quote_at p = None),
       ''current prices require price and quote_at''),
      ((case (rp_quantity p, rp_price p, rp_market_value p) of
          (Some q, Some x, Some v) \<Rightarrow> quantize 100 2 (dec 100 (q * x)) \<noteq> Inr v | _ \<Rightarrow> False),
       ''position value does not equal rounded quantity times price'')]"

definition position_errors :: "ReportingPosition \<Rightarrow> string list" where
  "position_errors p = model_errors
     (error_if (\<not> ticker_pattern (rp_ticker p)) ''ticker: string_pattern_mismatch'' @
      optional_errors (quantity_errors ''quantity'') (rp_quantity p) @
      optional_errors (nonneg_money_errors ''market_value'') (rp_market_value p) @
      optional_errors (quantity_errors ''average_cost'') (rp_average_cost p) @
      optional_errors (quantity_errors ''price'') (rp_price p) @
      optional_errors (length_errors 0 200 ''name'') (rp_name p) @
      optional_errors (length_errors 0 100 ''theme'') (rp_theme p))
     (consistent_price p)"

section \<open>Observations\<close>

record Observation =
  ob_observation_id :: string
  ob_external_event_id :: string
  ob_mode :: account_mode
  ob_account_id :: string
  ob_occurred_at :: instant
  ob_recorded_at :: instant
  ob_sequence :: int
  ob_supersedes :: "string option"
  ob_voided :: bool

definition hex_char :: "char \<Rightarrow> bool" where
  "hex_char c = (char_between CHR ''0'' CHR ''9'' c \<or> char_between CHR ''a'' CHR ''f'' c)"

definition consistent_identity :: "('a) Observation_scheme \<Rightarrow> (bool \<times> string) list" where
  "consistent_identity b =
     [(ob_supersedes b = Some (ob_observation_id b), ''an observation cannot supersede itself''),
      (ob_mode b = LiveMode \<and> (length (ob_account_id b) \<noteq> 16 \<or> \<not> list_all hex_char (ob_account_id b)),
       ''live account_id must be the broker account fingerprint''),
      (ob_recorded_at b < ob_occurred_at b, ''recorded_at cannot precede occurred_at''),
      (ob_voided b \<and> ob_supersedes b = None, ''voided observations must correct an existing observation'')]"

definition observation_field_errors :: "('a) Observation_scheme \<Rightarrow> string list" where
  "observation_field_errors b = length_errors 1 200 ''observation_id'' (ob_observation_id b) @
     length_errors 1 200 ''external_event_id'' (ob_external_event_id b) @
     length_errors 1 200 ''account_id'' (ob_account_id b) @
     error_if (ob_sequence b < 0) ''sequence: greater_than_equal''"

definition HALF_CENT :: rat where "HALF_CENT = 5 / 1000"

text \<open>\<open>prec\<close> is the precision of the decimal context of the caller.\<close>

definition balance_reconciles :: "nat \<Rightarrow> rat \<Rightarrow> rat \<Rightarrow> int \<Rightarrow> bool" where
  "balance_reconciles prec parts equity position_count =
     (\<bar>dec prec (equity - parts)\<bar> \<le> dec prec (HALF_CENT * of_int (position_count + 2)))"

datatype phase = session_close_phase | intraday | before_flow | after_flow

record ValuationObservation = Observation +
  vo_equity :: "rat option"
  vo_cash :: "rat option"
  vo_receivables :: rat
  vo_liabilities :: rat
  vo_positions :: "ReportingPosition list option"
  vo_complete :: bool
  vo_phase :: phase
  vo_session_date :: "pydate option"
  vo_previous_session_date :: "pydate option"

definition balance_total :: "ValuationObservation \<Rightarrow> rat \<Rightarrow> ReportingPosition list \<Rightarrow> rat" where
  "balance_total v cash positions =
     dec 100 (dec 100 (dec 100 (cash + vo_receivables v) - vo_liabilities v) +
       dec_sum 100 (List.map_filter rp_market_value positions))"

definition reconcile_balance :: "ValuationObservation \<Rightarrow> (bool \<times> string) list" where
  "reconcile_balance v =
     [(vo_phase v = session_close_phase \<and> vo_session_date v = None, ''session close requires a session date''),
      ((case vo_previous_session_date v of None \<Rightarrow> False
        | Some p \<Rightarrow> (case vo_session_date v of None \<Rightarrow> True | Some d \<Rightarrow> d \<le> p)),
       ''previous session must precede session date'')] @
     (case vo_positions v of None \<Rightarrow> [] | Some ps \<Rightarrow>
       [(\<not> distinct (map rp_ticker ps), ''valuation tickers must be unique''),
        (\<exists>p\<in>set ps. (case rp_quote_at p of None \<Rightarrow> False | Some t \<Rightarrow> ob_occurred_at v < t),
         ''quotes cannot follow valuation time'')]) @
     (if \<not> vo_complete v then [] else
       (case (vo_equity v, vo_cash v, vo_positions v) of
          (Some e, Some c, Some ps) \<Rightarrow>
            [(\<exists>p\<in>set ps. rp_market_value p = None \<or> rp_price_quality p \<noteq> current_price,
              ''complete valuation requires current position values''),
             (\<not> balance_reconciles 100 (balance_total v c ps) e (int (length ps)),
              ''complete balance does not reconcile'')]
        | _ \<Rightarrow> [(True, ''complete valuation requires equity, cash and positions'')]))"

definition valuation_errors :: "ValuationObservation \<Rightarrow> string list" where
  "valuation_errors v = model_errors
     (observation_field_errors v @
      optional_errors (nonneg_money_errors ''equity'') (vo_equity v) @
      optional_errors (money_errors ''cash'') (vo_cash v) @
      money_errors ''receivables'' (vo_receivables v) @
      nonneg_money_errors ''liabilities'' (vo_liabilities v) @
      optional_errors (\<lambda>ps. concat (map position_errors ps)) (vo_positions v))
     (consistent_identity v @ reconcile_balance v)"

datatype flow_type = deposit | withdrawal | flow_transfer_in | flow_transfer_out

record FlowObservation = Observation +
  fo_flow_type :: flow_type
  fo_amount :: rat
  fo_before_valuation_id :: "string option"
  fo_after_valuation_id :: "string option"

definition consistent_flow :: "FlowObservation \<Rightarrow> (bool \<times> string) list" where
  "consistent_flow f =
     [(fo_amount f = 0 \<or> (0 < fo_amount f) \<noteq> (fo_flow_type f \<in> {deposit, flow_transfer_in}),
       ''external flow amount has the wrong sign''),
      (fo_before_valuation_id f \<noteq> None \<and> fo_before_valuation_id f = fo_after_valuation_id f,
       ''flow boundaries must be distinct'')]"

definition flow_errors :: "FlowObservation \<Rightarrow> string list" where
  "flow_errors f = model_errors (observation_field_errors f @ money_errors ''amount'' (fo_amount f))
     (consistent_identity f @ consistent_flow f)"

datatype fill_side = FILL_BUY | FILL_SELL
datatype fill_origin = agent_origin | external_origin
datatype order_state = partially_filled | filled | canceled

record FillObservation = Observation +
  fi_ticker :: string
  fi_side :: fill_side
  fi_quantity :: rat
  fi_price :: rat
  fi_gross_notional :: rat
  fi_fee :: "rat option"
  fi_origin :: fill_origin
  fi_decision_id :: "string option"
  fi_order_external_id :: "string option"
  fi_order_state :: order_state
  fi_canceled_quantity :: rat
  fi_settled_at :: "instant option"

definition consistent_fill :: "FillObservation \<Rightarrow> (bool \<times> string) list" where
  "consistent_fill f =
     [(quantize 100 2 (dec 100 (fi_quantity f * fi_price f)) \<noteq> Inr (fi_gross_notional f),
       ''fill notional must match rounded quantity times price''),
      ((fi_origin f = agent_origin) \<noteq> (fi_decision_id f \<noteq> None), ''only agent fills require a decision link''),
      (fi_canceled_quantity f \<noteq> 0 \<and> fi_order_state f \<noteq> canceled,
       ''canceled remainder requires canceled order state''),
      ((case fi_settled_at f of None \<Rightarrow> False | Some t \<Rightarrow> t < ob_occurred_at f),
       ''settlement cannot precede fill'')]"

definition fill_errors :: "FillObservation \<Rightarrow> string list" where
  "fill_errors f = model_errors
     (observation_field_errors f @
      error_if (\<not> ticker_pattern (fi_ticker f)) ''ticker: string_pattern_mismatch'' @
      error_if (\<not> (quantity (fi_quantity f) \<and> 0 < fi_quantity f)) ''quantity: greater_than'' @
      error_if (\<not> (quantity (fi_price f) \<and> 0 < fi_price f)) ''price: greater_than'' @
      error_if (\<not> (money (fi_gross_notional f) \<and> 0 < fi_gross_notional f)) ''gross_notional: greater_than'' @
      optional_errors (nonneg_money_errors ''fee'') (fi_fee f) @
      quantity_errors ''canceled_quantity'' (fi_canceled_quantity f))
     (consistent_identity f @ consistent_fill f)"

datatype corporate_action = dividend | fee | split_action | action_transfer_in | action_transfer_out

record CorporateActionObservation = Observation +
  ca_action :: corporate_action
  ca_ticker :: "string option"
  ca_amount :: "rat option"
  ca_quantity :: "rat option"
  ca_split_ratio :: "rat option"
  ca_flow_external_id :: "string option"

definition consistent_action :: "CorporateActionObservation \<Rightarrow> (bool \<times> string) list" where
  "consistent_action a =
     (if ca_action a \<in> {dividend, fee} then
        [((case ca_amount a of None \<Rightarrow> True | Some x \<Rightarrow> x \<le> 0) \<or> ca_quantity a \<noteq> None \<or>
            ca_split_ratio a \<noteq> None, ''dividend/fee requires a positive cash amount only'')]
      else if ca_action a = split_action then
        [(ca_ticker a = None \<or> ca_split_ratio a = None \<or> ca_amount a \<noteq> None \<or> ca_quantity a \<noteq> None,
          ''split requires ticker and ratio only'')]
      else
        [(ca_ticker a = None \<or> (case ca_quantity a of None \<Rightarrow> True | Some q \<Rightarrow> q \<le> 0) \<or>
            ca_flow_external_id a = None \<or> ca_split_ratio a \<noteq> None,
          ''security transfer requires ticker, quantity and linked external flow'')])"

definition action_errors :: "CorporateActionObservation \<Rightarrow> string list" where
  "action_errors a = model_errors
     (observation_field_errors a @
      optional_errors (\<lambda>t. error_if (\<not> ticker_pattern t) ''ticker: string_pattern_mismatch'') (ca_ticker a) @
      optional_errors (money_errors ''amount'') (ca_amount a) @
      optional_errors (quantity_errors ''quantity'') (ca_quantity a) @
      optional_errors (positive_errors ''split_ratio'') (ca_split_ratio a))
     (consistent_identity a @ consistent_action a)"

record CoverageObservation = Observation +
  co_start_at :: instant
  co_end_at :: instant
  co_external_flows_complete :: bool
  co_activity_complete :: bool

definition consistent_coverage :: "CoverageObservation \<Rightarrow> (bool \<times> string) list" where
  "consistent_coverage c =
     [(co_end_at c \<le> co_start_at c \<or> ob_occurred_at c < co_end_at c,
       ''coverage must describe an observed positive interval'')]"

definition coverage_errors :: "CoverageObservation \<Rightarrow> string list" where
  "coverage_errors c = model_errors (observation_field_errors c) (consistent_identity c @ consistent_coverage c)"

section \<open>The discriminated union\<close>

datatype ReportingObservation = Valuation ValuationObservation | Flow FlowObservation
  | Fill FillObservation | CorporateAction CorporateActionObservation | Coverage CoverageObservation

datatype observation_kind = valuation_kind | flow_kind | fill_kind | corporate_action_kind | coverage_kind

fun base :: "ReportingObservation \<Rightarrow> Observation" where
  "base (Valuation v) = Observation.truncate v"
| "base (Flow f) = Observation.truncate f"
| "base (Fill f) = Observation.truncate f"
| "base (CorporateAction a) = Observation.truncate a"
| "base (Coverage c) = Observation.truncate c"

fun kind :: "ReportingObservation \<Rightarrow> observation_kind" where
  "kind (Valuation _) = valuation_kind"
| "kind (Flow _) = flow_kind"
| "kind (Fill _) = fill_kind"
| "kind (CorporateAction _) = corporate_action_kind"
| "kind (Coverage _) = coverage_kind"

fun observation_errors :: "ReportingObservation \<Rightarrow> string list" where
  "observation_errors (Valuation v) = valuation_errors v"
| "observation_errors (Flow f) = flow_errors f"
| "observation_errors (Fill f) = fill_errors f"
| "observation_errors (CorporateAction a) = action_errors a"
| "observation_errors (Coverage c) = coverage_errors c"

definition OBSERVATION_ADAPTER :: "ReportingObservation \<Rightarrow> ReportingObservation result" where
  "OBSERVATION_ADAPTER x = (if observation_errors x = [] then Inr x
     else Inl (ValidationError (observation_errors x)))"

lemma valuation_accepted:
  assumes "valuation_errors v = []"
  shows "\<forall>p\<in>set (consistent_identity v @ reconcile_balance v). \<not> fst p"
  using assms by (simp add: valuation_errors_def model_errors_Nil)

section \<open>The balance is exact\<close>

text \<open>
  Amounts of money are whole numbers of cents below \<open>10 ^ 22\<close>, so no sum of them that an account can have leaves the
  100 digits of the context: the validator's rounded arithmetic is exact arithmetic.
\<close>

definition cents :: "int \<Rightarrow> rat \<Rightarrow> bool" where
  "cents b x = (\<exists>m. x = of_int m / 100 \<and> \<bar>m\<bar> \<le> b)"

lemma cents_plus: "cents b x \<Longrightarrow> cents c y \<Longrightarrow> cents (b + c) (x + y)"
proof (unfold cents_def, elim exE conjE)
  fix m k assume "x = of_int m / 100" "\<bar>m\<bar> \<le> b" "y = of_int k / 100" "\<bar>k\<bar> \<le> c"
  then show "\<exists>m. x + y = of_int m / 100 \<and> \<bar>m\<bar> \<le> b + c" by (intro exI [of _ "m + k"]) (simp add: add_divide_distrib)
qed

lemma cents_minus: "cents b x \<Longrightarrow> cents c y \<Longrightarrow> cents (b + c) (x - y)"
proof (unfold cents_def, elim exE conjE)
  fix m k assume "x = of_int m / 100" "\<bar>m\<bar> \<le> b" "y = of_int k / 100" "\<bar>k\<bar> \<le> c"
  then show "\<exists>m. x - y = of_int m / 100 \<and> \<bar>m\<bar> \<le> b + c" by (intro exI [of _ "m - k"]) (simp add: diff_divide_distrib)
qed

lemma cents_exact: "cents b x \<Longrightarrow> b < 10 ^ 100 \<Longrightarrow> dec 100 x = x"
proof (unfold cents_def, elim exE conjE)
  fix m assume b: "b < 10 ^ 100" "\<bar>m\<bar> \<le> b" and x: "x = of_int m / 100"
  show "dec 100 x = x" unfolding x by (rule dec_cents) (use b in linarith)
qed

lemma money_cents: "money x \<Longrightarrow> cents (10 ^ 24) x"
proof -
  assume m: "money x"
  then have x: "of_int \<lfloor>x * 100\<rfloor> = x * 100" "\<bar>x\<bar> < 10 ^ 22" by (simp_all add: money_def decimal_limits_def)
  have "rat_of_int \<bar>\<lfloor>x * 100\<rfloor>\<bar> = \<bar>x\<bar> * 100" unfolding of_int_abs x(1) by (simp add: abs_mult)
  also have "\<dots> \<le> of_int (10 ^ 24)" using x(2) by simp
  finally have "\<bar>\<lfloor>x * 100\<rfloor>\<bar> \<le> 10 ^ 24" unfolding of_int_le_iff .
  moreover have "x = of_int \<lfloor>x * 100\<rfloor> / 100" unfolding x(1) by simp
  ultimately show ?thesis unfolding cents_def by blast
qed

lemma sum_exact:
  assumes "cents b a" and "\<forall>x\<in>set xs. cents c x" and "b + int (length xs) * c < 10 ^ 100" and "0 \<le> c"
  shows "foldl (\<lambda>a x. dec 100 (a + x)) a xs = a + sum_list xs \<and> cents (b + int (length xs) * c) (a + sum_list xs)"
  using assms
proof (induction xs arbitrary: a b)
  case (Cons x xs)
  have c: "cents (b + c) (a + x)" using Cons.prems(1,2) by (intro cents_plus) simp_all
  have "b + c \<le> b + int (length (x # xs)) * c" using Cons.prems(4) by (simp add: algebra_simps)
  then have e: "dec 100 (a + x) = a + x" using Cons.prems(3) by (intro cents_exact [OF c]) simp
  from Cons.IH [OF c] Cons.prems show ?case by (simp add: e algebra_simps)
qed simp

lemma balance_exact:
  assumes e: "money e" and c: "money c" and r: "money (vo_receivables v)" and l: "money (vo_liabilities v)"
    and ps: "\<forall>p\<in>set ps. \<exists>x. rp_market_value p = Some x \<and> money x" and n: "length ps \<le> 10 ^ 70"
  shows "dec 100 (e - balance_total v c ps) =
    e - (c + vo_receivables v - vo_liabilities v + (\<Sum>p\<leftarrow>ps. the (rp_market_value p)))"
proof -
  let ?b = "10 ^ 24 :: int" and ?n = "int (length ps)"
  have n': "?n \<le> 10 ^ 70" using n by (metis of_nat_le_iff of_nat_numeral of_nat_power)
  have small: "4 * ?b + ?n * ?b < 10 ^ 100"
  proof -
    have "?n * ?b \<le> 10 ^ 70 * ?b" using n' by (intro mult_right_mono) simp_all
    then show ?thesis by simp
  qed
  have worths: "List.map_filter rp_market_value ps = map (\<lambda>p. the (rp_market_value p)) ps"
    using ps by (induction ps) (auto simp: map_filter_simps)
  have x: "cents (?b + ?b) (c + vo_receivables v)" using c r by (intro cents_plus money_cents)
  have y: "cents (?b + ?b + ?b) (c + vo_receivables v - vo_liabilities v)" using x l by (intro cents_minus money_cents)
  have "cents 0 0" by (simp add: cents_def)
  moreover have "\<forall>x\<in>set (map (\<lambda>p. the (rp_market_value p)) ps). cents ?b x"
    using ps by (fastforce intro: money_cents)
  ultimately have s: "dec_sum 100 (map (\<lambda>p. the (rp_market_value p)) ps) = (\<Sum>p\<leftarrow>ps. the (rp_market_value p))"
    and z: "cents (?n * ?b) (\<Sum>p\<leftarrow>ps. the (rp_market_value p))"
    using sum_exact [of 0 0 "map (\<lambda>p. the (rp_market_value p)) ps" ?b] small by (simp_all add: dec_sum_def)
  note total = cents_plus [OF y z] and diff = cents_minus [OF money_cents [OF e] cents_plus [OF y z]]
  have "balance_total v c ps = c + vo_receivables v - vo_liabilities v + (\<Sum>p\<leftarrow>ps. the (rp_market_value p))"
    unfolding balance_total_def worths s using small
    by (subst cents_exact [OF x], simp, subst cents_exact [OF y], simp, subst cents_exact [OF total]) simp_all
  then show ?thesis using small by (simp only: cents_exact [OF diff] add.assoc)
qed

text \<open>
  C5. An accepted complete valuation has an equity, a cash balance and positions with distinct
  tickers, every one priced by a quote no later than the valuation, and its equity equals cash plus
  receivables less liabilities plus the sum of the position values, in exact arithmetic, to half a cent for each
  position and for each of the equity and the cash. The number of positions is at most \<open>10 ^ 70\<close>, where the validator's
  100 digits are enough.
\<close>

lemma complete_valuation_reconciles:
  assumes "valuation_errors v = []" and "vo_complete v"
  shows "\<exists>e c ps. vo_equity v = Some e \<and> vo_cash v = Some c \<and> vo_positions v = Some ps \<and>
    distinct (map rp_ticker ps) \<and>
    (\<forall>p\<in>set ps. rp_market_value p \<noteq> None \<and> (\<exists>t. rp_quote_at p = Some t \<and> t \<le> ob_occurred_at v)) \<and>
    (length ps \<le> 10 ^ 70 \<longrightarrow>
       \<bar>e - (c + vo_receivables v - vo_liabilities v + (\<Sum>p\<leftarrow>ps. the (rp_market_value p)))\<bar>
         \<le> (of_nat (length ps) + 2) * (5 / 1000))"
proof -
  note ok = valuation_accepted [OF assms(1)]
  from ok assms(2) obtain e c ps where some: "vo_equity v = Some e" "vo_cash v = Some c" "vo_positions v = Some ps"
    by (auto simp: reconcile_balance_def split: option.splits)
  have accepted: "position_errors p = []" if "p \<in> set ps" for p
    using assms(1) that some by (auto simp: valuation_errors_def model_errors_Nil)
  have quotes: "rp_quote_at p \<noteq> None" if "p \<in> set ps" "rp_price_quality p = current_price" for p
    using accepted [OF that(1)] that(2) by (simp add: position_errors_def model_errors_Nil consistent_price_def)
  have worth: "money x" if "p \<in> set ps" "rp_market_value p = Some x" for p x
    using accepted [OF that(1)] that(2) by (simp add: position_errors_def model_errors_Nil nonneg_money_errors_def error_if_Nil)
  from assms(1) some have amounts: "money e" "money c" "money (vo_receivables v)" "money (vo_liabilities v)"
    by (simp_all add: valuation_errors_def model_errors_Nil nonneg_money_errors_def money_errors_def error_if_Nil)
  from ok assms(2) some have facts: "distinct (map rp_ticker ps)"
    "\<forall>p\<in>set ps. rp_market_value p \<noteq> None \<and> rp_price_quality p = current_price \<and>
       (\<forall>t. rp_quote_at p = Some t \<longrightarrow> t \<le> ob_occurred_at v)"
    "balance_reconciles 100 (balance_total v c ps) e (int (length ps))"
    by (auto simp: reconcile_balance_def not_less split: option.splits)
  have "\<bar>e - (c + vo_receivables v - vo_liabilities v + (\<Sum>p\<leftarrow>ps. the (rp_market_value p)))\<bar>
      \<le> (of_nat (length ps) + 2) * (5 / 1000)" if n: "length ps \<le> 10 ^ 70"
  proof -
    have "\<forall>p\<in>set ps. \<exists>x. rp_market_value p = Some x \<and> money x" using facts(2) worth by fastforce
    note exact = balance_exact [OF amounts this n]
    have "int (length ps) \<le> 10 ^ 70" using n by (metis of_nat_le_iff of_nat_numeral of_nat_power)
    then have d: "dec 100 (of_int (5 * (int (length ps) + 2)) * 10 powi (- 3)) = of_int (5 * (int (length ps) + 2)) * 10 powi (- 3)"
      using sig_round_exact [of "5 * (int (length ps) + 2)" 10 100 "-1999998" "-3"] by (simp add: dec_def)
    have "rat_of_int (5 * (int (length ps) + 2)) * 10 powi (- 3) = (of_nat (length ps) + 2) * (5 / 1000)"
      by (simp add: power_int_minus field_simps)
    moreover have "HALF_CENT * of_int (int (length ps) + 2) = (of_nat (length ps) + 2) * (5 / 1000)"
      by (simp add: HALF_CENT_def)
    ultimately have "dec 100 (HALF_CENT * of_int (int (length ps) + 2)) = (of_nat (length ps) + 2) * (5 / 1000)"
      using d by (simp only:)
    with facts(3) exact show ?thesis by (simp add: balance_reconciles_def)
  qed
  then show ?thesis
    using some quotes facts(1,2) by fastforce
qed

definition sample_position :: ReportingPosition where
  "sample_position = \<lparr>rp_ticker = ''SPY'', rp_quantity = Some 1, rp_market_value = Some 100,
     rp_average_cost = None, rp_price = Some 100, rp_quote_at = Some 50,
     rp_price_quality = current_price, rp_name = None, rp_theme = None, rp_asset_class = etf_class\<rparr>"

definition sample_valuation :: ValuationObservation where
  "sample_valuation = \<lparr>ob_observation_id = ''v1'', ob_external_event_id = ''e1'', ob_mode = PaperMode,
     ob_account_id = ''paper'', ob_occurred_at = 100, ob_recorded_at = 100, ob_sequence = 0,
     ob_supersedes = None, ob_voided = False, vo_equity = Some 1000, vo_cash = Some 900,
     vo_receivables = 0, vo_liabilities = 0,
     vo_positions = Some [sample_position],
     vo_complete = True, vo_phase = intraday, vo_session_date = None, vo_previous_session_date = None\<rparr>"

lemma sample_position_accepted: "position_errors sample_position = []"
  by (simp add: position_errors_def sample_position_def model_errors_Nil consistent_price_def quantize_def
      dec_numeral length_errors_def error_if_def quantity_errors_def quantity_def nonneg_money_errors_def
      money_def decimal_limits_def) code_simp

lemma sample_valuation_accepted: "valuation_errors sample_valuation = []"
  using sample_position_accepted
  by (simp add: valuation_errors_def sample_valuation_def model_errors_Nil observation_field_errors_def
      length_errors_def error_if_def consistent_identity_def reconcile_balance_def balance_total_def
      balance_reconciles_def dec_numeral dec_sum_def money_errors_def nonneg_money_errors_def
      money_def decimal_limits_def dec_nonneg HALF_CENT_def)
   (simp add: sample_position_def map_filter_simps dec_numeral dec_nonneg)

lemma complete_valuation_reconciles_witness:
  "\<exists>e c ps. vo_equity sample_valuation = Some e \<and> vo_cash sample_valuation = Some c \<and>
    vo_positions sample_valuation = Some ps \<and> distinct (map rp_ticker ps) \<and>
    \<bar>e - (c + vo_receivables sample_valuation - vo_liabilities sample_valuation +
      (\<Sum>p\<leftarrow>ps. the (rp_market_value p)))\<bar> \<le> (of_nat (length ps) + 2) * (5 / 1000)"
proof -
  have c: "vo_complete sample_valuation" by (simp add: sample_valuation_def)
  have n: "vo_positions sample_valuation = Some [sample_position]" by (simp add: sample_valuation_def)
  from complete_valuation_reconciles [OF sample_valuation_accepted c] n show ?thesis by auto
qed

end
