(* ===== verification/DecisionRecord.thy ===== *)
theory DecisionRecord
  imports PublicAuthoring
begin

text \<open>
  The investment decision record (\<open>app/schemas/decision_record.py\<close>): its enumerations, fields, field
  constraints, ticker normalisation and model validators. \<open>validate_record\<close> is
  \<open>InvestmentDecisionRecord.model_validate\<close> on fields of the right types.
\<close>

datatype AssetType = EQUITY | ETF
datatype Decision = BUY | ADD | TRIM | SELL | HOLD | PASS | WATCHLIST | SHORT_WATCHLIST
  | SHORT_WATCHLIST_REMOVE
datatype OperatingMode = CAPITAL_DEPLOYMENT | PORTFOLIO_MANAGEMENT | DE_RISKING
datatype RegimeState = GREEN | YELLOW | RED
datatype XSignalUsageType = IDEA_SOURCE | CONFIRMATION | COUNTER_THESIS | CROWDING_WARNING | IRRELEVANT
datatype SourceType = SEC | COMPANY_IR | NEWS | X_POST | PRICE_DATA | MACRO | ETF_ISSUER | INTERNAL_MEMO

fun decision_value :: "Decision \<Rightarrow> string" where
  "decision_value BUY = ''BUY''"
| "decision_value ADD = ''ADD''"
| "decision_value TRIM = ''TRIM''"
| "decision_value SELL = ''SELL''"
| "decision_value HOLD = ''HOLD''"
| "decision_value PASS = ''PASS''"
| "decision_value WATCHLIST = ''WATCHLIST''"
| "decision_value SHORT_WATCHLIST = ''SHORT_WATCHLIST''"
| "decision_value SHORT_WATCHLIST_REMOVE = ''SHORT_WATCHLIST_REMOVE''"

fun regime_value :: "RegimeState \<Rightarrow> string" where
  "regime_value GREEN = ''GREEN''"
| "regime_value YELLOW = ''YELLOW''"
| "regime_value RED = ''RED''"

text \<open>
  An aware datetime whose own offset matters, because the code takes its local \<open>date()\<close>: the
  instant and the offset it was written with.
\<close>

type_synonym aware = "instant \<times> int"

definition aware_date :: "aware \<Rightarrow> pydate" where
  "aware_date t = (fst t + snd t) div day_length"

record SourceClaim =
  sc_claim :: string
  sc_source_ids :: "string list"
  sc_source_type :: SourceType
  sc_source_timestamp :: instant
  sc_confidence :: pyfloat
  sc_public_safe :: bool

definition source_claim_errors :: "SourceClaim \<Rightarrow> string list" where
  "source_claim_errors c = error_if (sc_claim c = []) ''claim: too_short'' @
     error_if (sc_source_ids c = []) ''source_ids: too_short'' @
     range_errors 0 1 ''confidence'' (sc_confidence c)"

record XSignalUsage =
  xu_used :: bool
  xu_usage_type :: XSignalUsageType
  xu_summary :: string
  xu_confirmed_outside_x :: bool

definition require_summary_when_used :: "XSignalUsage \<Rightarrow> (bool \<times> string) list" where
  "require_summary_when_used u =
     (if xu_used u then
        [(blank (xu_summary u), ''x_signal_usage.summary is required when X is used''),
         (xu_usage_type u = IRRELEVANT, ''x_signal_usage.usage_type cannot be IRRELEVANT when X is used'')]
      else
        [(xu_usage_type u \<noteq> IRRELEVANT, ''x_signal_usage.usage_type must be IRRELEVANT when X is not used''),
         (xu_confirmed_outside_x u, ''x_signal_usage.confirmed_outside_x must be false when X is not used'')])"

record ShortRemovalConditions =
  sr_cover_below :: pyfloat
  sr_stop_above :: pyfloat
  sr_review_by :: pydate

definition removal_errors :: "ShortRemovalConditions \<Rightarrow> string list" where
  "removal_errors c = positive_errors ''cover_below'' (sr_cover_below c) @
     positive_errors ''stop_above'' (sr_stop_above c)"

record InvestmentDecisionRecord =
  decision_id :: string
  schema_version :: "string option"
  public_narrative :: "PublicNarrative option"
  created_at :: aware
  ticker :: string
  asset_type :: AssetType
  decision :: Decision
  theme_ids :: "string list"
  primary_theme_id :: "string option"
  strategy_belief_ids :: "string list"
  trigger_id :: "string option"
  operating_mode :: OperatingMode
  regime_state :: RegimeState
  extraordinary_opportunity :: bool
  extraordinary_justification :: string
  source_pack_id :: string
  initial_thesis :: string
  counter_thesis :: string
  adversarial_refinement :: string
  refined_thesis :: string
  what_is_priced_in :: string
  thesis_invalidation_criteria :: "string list"
  add_conditions :: "string list"
  trim_conditions :: "string list"
  exit_conditions :: "string list"
  proposed_target_weight :: pyfloat
  final_target_weight :: pyfloat
  entry_price_max :: "pyfloat option"
  entry_price_min :: "pyfloat option"
  reference_price :: "pyfloat option"
  reference_price_at :: "instant option"
  realization_price_low :: "pyfloat option"
  realization_price_high :: "pyfloat option"
  invalidation_price :: "pyfloat option"
  range_basis :: "string option"
  short_removal_conditions :: "ShortRemovalConditions option"
  source_claims :: "SourceClaim list"
  x_signal_usage :: XSignalUsage
  public_summary :: string
  internal_notes :: string
  record_order_intent_id :: "string option"
  broker_execution_record_id :: "string option"

definition actionable :: "Decision \<Rightarrow> bool" where
  "actionable d = (d \<in> {BUY, ADD, TRIM, SELL})"

definition increasing :: "Decision \<Rightarrow> bool" where
  "increasing d = (d \<in> {BUY, ADD})"

section \<open>Validators\<close>

definition ordered_entry_band :: "InvestmentDecisionRecord \<Rightarrow> (bool \<times> string) list" where
  "ordered_entry_band r =
     [(both_and (entry_price_min r) (entry_price_max r) (\<lambda>lo hi. hi < lo),
       ''entry_price_min cannot exceed entry_price_max''),
      ((reference_price r = None) \<noteq> (reference_price_at r = None),
       ''reference_price and reference_price_at are recorded together'')] @
     range_problems (realization_price_low r) (realization_price_high r) (invalidation_price r) @
     [(increasing (decision r) \<and> both_and (invalidation_price r) (reference_price r) (\<lambda>i p. p \<le> i),
       ''a BUY or ADD's invalidation_price must sit below its reference_price'')]"

definition normalize_ticker :: "string \<Rightarrow> string result" where
  "normalize_ticker value = (let normalized = py_upper (strip value) in
     if ticker_pattern normalized then Inr normalized
     else Inl (ValueError ''ticker must be 1-12 characters of A-Z, digits, '.' or '-', starting with a letter''))"

definition public_stage_times :: "InvestmentDecisionRecord \<Rightarrow> (bool \<times> string) list" where
  "public_stage_times r = (case public_narrative r of None \<Rightarrow> []
     | Some n \<Rightarrow> map (\<lambda>stage.
         (\<exists>moment\<in>set [ps_started_at stage, ps_completed_at stage].
            (case moment of None \<Rightarrow> False | Some t \<Rightarrow> fst (created_at r) < t),
          ''public stage cannot follow decision creation'')) (pn_stages n))"

definition validate_local_consistency :: "InvestmentDecisionRecord \<Rightarrow> (bool \<times> string) list" where
  "validate_local_consistency r =
     [(proposed_target_weight r < final_target_weight r,
       ''final_target_weight cannot exceed proposed_target_weight''),
      (actionable (decision r) \<and> blank (refined_thesis r),
       ''refined_thesis is required for actionable decisions''),
      (decision r = SHORT_WATCHLIST \<and> blank (refined_thesis r),
       ''refined_thesis is required for SHORT_WATCHLIST decisions''),
      (decision r = SHORT_WATCHLIST \<and> blank (counter_thesis r),
       ''counter_thesis is required for SHORT_WATCHLIST decisions''),
      (decision r = SHORT_WATCHLIST \<and> blank (what_is_priced_in r),
       ''what_is_priced_in is required for SHORT_WATCHLIST decisions''),
      (decision r = SHORT_WATCHLIST_REMOVE \<and> blank (refined_thesis r),
       ''refined_thesis must explain a SHORT_WATCHLIST_REMOVE''),
      (decision r = SHORT_WATCHLIST \<and> short_removal_conditions r = None,
       ''SHORT_WATCHLIST requires short_removal_conditions''),
      (decision r \<noteq> SHORT_WATCHLIST \<and> short_removal_conditions r \<noteq> None,
       ''short_removal_conditions belong only to a SHORT_WATCHLIST'')] @
     (case short_removal_conditions r of None \<Rightarrow> []
      | Some c \<Rightarrow>
         [(sr_stop_above c \<le> sr_cover_below c, ''cover_below must be under stop_above''),
          ((case reference_price r of None \<Rightarrow> False
            | Some p \<Rightarrow> \<not> (sr_cover_below c < p \<and> p < sr_stop_above c)),
           ''reference_price must sit between cover_below and stop_above''),
          (sr_review_by c \<le> aware_date (created_at r), ''review_by must follow the decision date'')]) @
     [(decision r \<in> {SHORT_WATCHLIST, SHORT_WATCHLIST_REMOVE} \<and>
         (proposed_target_weight r \<noteq> 0 \<or> final_target_weight r \<noteq> 0),
       decision_value (decision r) @ '' holds no position, so target weights must be 0''),
      (extraordinary_opportunity r \<and> blank (extraordinary_justification r),
       ''extraordinary_justification is required when extraordinary_opportunity is true''),
      ((case primary_theme_id r of None \<Rightarrow> False | Some t \<Rightarrow> t \<notin> set (theme_ids r)),
       ''primary_theme_id must be one of theme_ids''),
      (increasing (decision r) \<and> primary_theme_id r = None,
       ''primary_theme_id is required for BUY and ADD decisions'')]"

definition ticker_errors :: "string \<Rightarrow> string list" where
  "ticker_errors t = (case length_errors 1 12 ''ticker'' t of
       [] \<Rightarrow> (case normalize_ticker t of Inl (ValueError m) \<Rightarrow> [m] | _ \<Rightarrow> [])
     | errors \<Rightarrow> errors)"

definition field_errors :: "InvestmentDecisionRecord \<Rightarrow> string list" where
  "field_errors r =
     error_if (decision_id r = []) ''decision_id: too_short'' @
     optional_errors narrative_errors (public_narrative r) @
     ticker_errors (ticker r) @
     error_if (source_pack_id r = []) ''source_pack_id: too_short'' @
     range_errors 0 1 ''proposed_target_weight'' (proposed_target_weight r) @
     range_errors 0 1 ''final_target_weight'' (final_target_weight r) @
     optional_errors (positive_errors ''entry_price_max'') (entry_price_max r) @
     optional_errors (positive_errors ''entry_price_min'') (entry_price_min r) @
     optional_errors (positive_errors ''reference_price'') (reference_price r) @
     optional_errors (positive_errors ''realization_price_low'') (realization_price_low r) @
     optional_errors (positive_errors ''realization_price_high'') (realization_price_high r) @
     optional_errors (positive_errors ''invalidation_price'') (invalidation_price r) @
     optional_errors (length_errors 0 1000 ''range_basis'') (range_basis r) @
     optional_errors removal_errors (short_removal_conditions r) @
     concat (map source_claim_errors (source_claims r)) @
     model_errors [] (require_summary_when_used (x_signal_usage r))"

definition normalize_record :: "InvestmentDecisionRecord \<Rightarrow> InvestmentDecisionRecord" where
  "normalize_record r = r\<lparr>ticker := py_upper (strip (ticker r)),
     public_narrative := map_option normalize_narrative (public_narrative r)\<rparr>"

definition validate_record :: "InvestmentDecisionRecord \<Rightarrow> InvestmentDecisionRecord result" where
  "validate_record r = (let n = normalize_record r;
       errors = model_errors (field_errors r)
         (ordered_entry_band n @ public_stage_times n @ validate_local_consistency n) in
     if errors = [] then Inr n else Inl (ValidationError errors))"

section \<open>What validation gives\<close>

lemma validate_record_Inr:
  "validate_record r = Inr n \<longleftrightarrow> n = normalize_record r \<and> field_errors r = [] \<and>
     (\<forall>p\<in>set (ordered_entry_band n @ public_stage_times n @ validate_local_consistency n). \<not> fst p)"
  by (auto simp: validate_record_def Let_def model_errors_Nil)

lemma validate_record_fields:
  assumes "validate_record r = Inr n"
  shows "decision_id n = decision_id r" and "decision n = decision r"
    and "created_at n = created_at r" and "final_target_weight n = final_target_weight r"
  using assms by (simp_all add: validate_record_Inr normalize_record_def)

lemma ticker_char_upper: "ticker_char c \<Longrightarrow> py_upper_char c = [c]"
  by (auto simp: ticker_char_def py_upper_char_def char_between_def Let_def)

lemma ticker_char_not_space: "ticker_char c \<Longrightarrow> \<not> py_isspace c"
  by (auto simp: ticker_char_def py_isspace_def char_between_def Let_def)

lemma ticker_pattern_chars: "ticker_pattern s \<Longrightarrow> s \<noteq> [] \<and> length s \<le> 12 \<and> (\<forall>c\<in>set s. ticker_char c)"
  by (cases s) (auto simp: ticker_pattern_def list_all_iff ticker_char_def)

lemma ticker_pattern_normal:
  assumes "ticker_pattern s"
  shows "py_upper (strip s) = s"
proof -
  from ticker_pattern_chars [OF assms] have c: "s \<noteq> []" "\<forall>c\<in>set s. ticker_char c" by simp_all
  then have "strip s = s"
    by (intro strip_id) (auto dest: ticker_char_not_space)
  moreover have "concat (map py_upper_char s) = s"
    using c(2) by (induction s) (auto simp: ticker_char_upper)
  ultimately show ?thesis by (simp add: py_upper_def)
qed

lemma ticker_errors_Nil:
  "ticker_errors t = [] \<longleftrightarrow> 1 \<le> length t \<and> length t \<le> 12 \<and> ticker_pattern (py_upper (strip t))"
proof -
  have "length_errors 1 12 ''ticker'' t = [] \<longleftrightarrow> 1 \<le> length t \<and> length t \<le> 12"
    by (auto simp: length_errors_Nil)
  then show ?thesis
    by (auto simp: ticker_errors_def normalize_ticker_def Let_def split: list.splits if_splits)
qed

lemma x_post_errors_normalized:
  assumes "x_post_errors p = []"
  shows "x_post_errors (normalize_x_post p) = []"
    and "normalize_x_post (normalize_x_post p) = normalize_x_post p"
proof -
  from assms have e: "length_errors 1 200 ''url'' (xp_url p) = []"
    and s: "text_errors ''summary'' (xp_summary p) = []"
    by (auto simp: x_post_errors_def split: list.splits)
  from assms e obtain u where u: "public_status_url (xp_url p) = Inr u"
    by (auto simp: x_post_errors_def public_status_url_def split: option.splits)
  then obtain h n where c: "canonical_x_post (xp_url p) = Some (h, n)" and uu: "u = x_post_url h n"
    by (auto simp: public_status_url_def split: option.splits)
  have u': "public_status_url u = Inr u"
    using canonical_x_post_Some [OF c] by (simp add: uu public_status_url_def canonical_x_post_url)
  have "length_errors 1 200 ''url'' u = []"
    using canonical_x_post_Some(2,5) [OF c] by (simp add: uu length_errors_Nil x_post_url_def)
  with u u' s show "x_post_errors (normalize_x_post p) = []"
    by (simp add: x_post_errors_def normalize_x_post_def)
  from u u' show "normalize_x_post (normalize_x_post p) = normalize_x_post p"
    by (simp add: normalize_x_post_def)
qed

lemma narrative_normalized:
  assumes "narrative_errors n = []"
  shows "narrative_errors (normalize_narrative n) = []"
    and "normalize_narrative (normalize_narrative n) = normalize_narrative n"
    and "pn_stages (normalize_narrative n) = pn_stages n"
proof -
  from assms have posts: "\<forall>p\<in>set (pn_x_posts n). x_post_errors p = []"
    by (auto simp: narrative_errors_def model_errors_Nil)
  from assms posts show "narrative_errors (normalize_narrative n) = []"
    by (simp add: narrative_errors_def model_errors_Nil normalize_narrative_def coherent_references_def
        narrative_refs_def length_errors_def x_post_errors_normalized)
  from posts show "normalize_narrative (normalize_narrative n) = normalize_narrative n"
    by (simp add: normalize_narrative_def x_post_errors_normalized)
  show "pn_stages (normalize_narrative n) = pn_stages n" by (simp add: normalize_narrative_def)
qed

lemma validate_record_idem:
  assumes "validate_record r = Inr n"
  shows "validate_record n = Inr n" and "ticker_pattern (ticker n)"
proof -
  from assms have n: "n = normalize_record r" and f: "field_errors r = []"
    and v: "\<forall>p\<in>set (ordered_entry_band n @ public_stage_times n @ validate_local_consistency n). \<not> fst p"
    by (simp_all add: validate_record_Inr)
  from f have t: "ticker_pattern (ticker n)"
    by (simp add: field_errors_def ticker_errors_Nil n normalize_record_def)
  have te: "ticker_errors (ticker n) = []" "py_upper (strip (ticker n)) = ticker n"
    using ticker_pattern_chars [OF t] ticker_pattern_normal [OF t] t
    unfolding ticker_errors_Nil by (auto simp: Suc_le_eq)
  from f have ne: "\<forall>m. public_narrative r = Some m \<longrightarrow> narrative_errors m = []"
    by (simp add: field_errors_def optional_errors_Nil)
  then have pn: "\<forall>m. public_narrative n = Some m \<longrightarrow> narrative_errors m = [] \<and> normalize_narrative m = m"
    by (auto simp: n normalize_record_def narrative_normalized)
  have opt: "optional_errors narrative_errors (public_narrative n) = []"
    using pn by (simp add: optional_errors_Nil)
  have rest: "decision_id n = decision_id r" "source_pack_id n = source_pack_id r"
    "proposed_target_weight n = proposed_target_weight r" "final_target_weight n = final_target_weight r"
    "entry_price_max n = entry_price_max r" "entry_price_min n = entry_price_min r"
    "reference_price n = reference_price r" "realization_price_low n = realization_price_low r"
    "realization_price_high n = realization_price_high r" "invalidation_price n = invalidation_price r"
    "range_basis n = range_basis r" "short_removal_conditions n = short_removal_conditions r"
    "source_claims n = source_claims r" "x_signal_usage n = x_signal_usage r"
    by (simp_all add: n normalize_record_def)
  have "field_errors n = []"
    using f unfolding field_errors_def rest opt te(1) append_is_Nil_conv by blast
  moreover have "normalize_record n = n"
    using te(2) pn by (cases "public_narrative n") (simp_all add: normalize_record_def)
  ultimately show "validate_record n = Inr n" using v by (simp add: validate_record_Inr)
  show "ticker_pattern (ticker n)" by (fact t)
qed

text \<open>
  Validation is idempotent: the record a draft is accepted as (with its ticker and its X post
  URLs in canonical form) is itself accepted and unchanged, so what is stored as JSON is reloaded by
  \<open>model_validate_json\<close> as the same record; and its ticker matches \<open>TICKER_PATTERN\<close>.
\<close>

lemma validate_record_idempotent:
  assumes "validate_record r = Inr n"
  shows "validate_record n = Inr n \<and> ticker_pattern (ticker n)"
  using validate_record_idem [OF assms] by simp

definition sample_decision :: InvestmentDecisionRecord where
  "sample_decision = \<lparr>decision_id = ''d1'', schema_version = None, public_narrative = None,
     created_at = (0, 0), ticker = '' aapl'', asset_type = EQUITY, decision = BUY,
     theme_ids = [''ai''], primary_theme_id = Some ''ai'', strategy_belief_ids = [''b1''],
     trigger_id = None, operating_mode = CAPITAL_DEPLOYMENT, regime_state = GREEN,
     extraordinary_opportunity = False, extraordinary_justification = [], source_pack_id = ''sp'',
     initial_thesis = [], counter_thesis = [], adversarial_refinement = [],
     refined_thesis = ''grows'', what_is_priced_in = [], thesis_invalidation_criteria = [''x''],
     add_conditions = [], trim_conditions = [], exit_conditions = [],
     proposed_target_weight = 1 / 8, final_target_weight = 1 / 8,
     entry_price_max = Some 110, entry_price_min = Some 80, reference_price = Some 100,
     reference_price_at = Some 0, realization_price_low = Some 140, realization_price_high = Some 160,
     invalidation_price = Some 70, range_basis = None, short_removal_conditions = None,
     source_claims = [\<lparr>sc_claim = ''c'', sc_source_ids = [''s''], sc_source_type = NEWS,
       sc_source_timestamp = 0, sc_confidence = 1 / 2, sc_public_safe = True\<rparr>],
     x_signal_usage = \<lparr>xu_used = False, xu_usage_type = IRRELEVANT, xu_summary = [],
       xu_confirmed_outside_x = False\<rparr>,
     public_summary = [], internal_notes = [], record_order_intent_id = None,
     broker_execution_record_id = None\<rparr>"

definition valid_decision :: InvestmentDecisionRecord where
  "valid_decision = sample_decision\<lparr>ticker := ''AAPL''\<rparr>"

lemma validate_sample: "validate_record sample_decision = Inr valid_decision"
  by code_simp

lemma validate_record_idempotent_witness:
  "validate_record valid_decision = Inr valid_decision \<and> ticker_pattern (ticker valid_decision)"
  using validate_sample by (rule validate_record_idempotent)

text \<open>
  In every accepted record the prices are ordered as the thesis needs them: the entry band and
  the realization band are not empty, the invalidation price lies below the realization band, and
  for a BUY or ADD below the reference price; weights lie in [0, 1], the final one at most the
  proposed one; a short call's reference price lies strictly between its cover and stop prices.
\<close>

lemma validated_price_order:
  assumes "validate_record r = Inr n"
  shows "(\<forall>lo hi. entry_price_min n = Some lo \<and> entry_price_max n = Some hi \<longrightarrow> 0 < lo \<and> lo \<le> hi) \<and>
    (\<forall>l. realization_price_low n = Some l \<longrightarrow> (\<exists>h. realization_price_high n = Some h \<and> 0 < l \<and> l \<le> h)) \<and>
    (\<forall>i l. invalidation_price n = Some i \<and> realization_price_low n = Some l \<longrightarrow> i < l) \<and>
    (\<forall>i p. decision n \<in> {BUY, ADD} \<and> invalidation_price n = Some i \<and> reference_price n = Some p \<longrightarrow>
       0 < i \<and> i < p) \<and>
    0 \<le> final_target_weight n \<and> final_target_weight n \<le> proposed_target_weight n \<and>
    proposed_target_weight n \<le> 1 \<and>
    (\<forall>c p. short_removal_conditions n = Some c \<and> reference_price n = Some p \<longrightarrow>
       decision n = SHORT_WATCHLIST \<and> sr_cover_below c < p \<and> p < sr_stop_above c \<and>
       proposed_target_weight n = 0)"
proof -
  from validate_record_idem(1) [OF assms] have f: "field_errors n = []"
    and v: "\<forall>p\<in>set (ordered_entry_band n @ public_stage_times n @ validate_local_consistency n). \<not> fst p"
    unfolding validate_record_Inr by blast+
  have band: "\<not> both_and (entry_price_min n) (entry_price_max n) (\<lambda>lo hi. hi < lo)"
    "(realization_price_low n = None) = (realization_price_high n = None)"
    "\<not> both_and (realization_price_low n) (realization_price_high n) (\<lambda>l h. h < l)"
    "\<not> both_and (invalidation_price n) (realization_price_low n) (\<lambda>i l. l \<le> i)"
    "\<not> (increasing (decision n) \<and> both_and (invalidation_price n) (reference_price n) (\<lambda>i p. p \<le> i))"
    using v by (auto simp: ordered_entry_band_def range_problems_def)
  have weights: "\<not> proposed_target_weight n < final_target_weight n"
    "decision n \<noteq> SHORT_WATCHLIST \<longrightarrow> short_removal_conditions n = None"
    "decision n = SHORT_WATCHLIST \<longrightarrow> proposed_target_weight n = 0"
    using v by (auto simp: validate_local_consistency_def)
  have short: "sr_cover_below c < p \<and> p < sr_stop_above c"
    if "short_removal_conditions n = Some c" and "reference_price n = Some p" for c p
    using v that by (simp add: validate_local_consistency_def)
  have positive: "optional_errors (positive_errors ''entry_price_min'') (entry_price_min n) = []"
    "optional_errors (positive_errors ''realization_price_low'') (realization_price_low n) = []"
    "optional_errors (positive_errors ''invalidation_price'') (invalidation_price n) = []"
    "range_errors 0 1 ''proposed_target_weight'' (proposed_target_weight n) = []"
    "range_errors 0 1 ''final_target_weight'' (final_target_weight n) = []"
    using f unfolding field_errors_def append_is_Nil_conv by blast+
  note positive' = positive [unfolded optional_errors_Nil positive_errors_Nil range_errors_Nil]
  show ?thesis
  proof (intro conjI allI impI)
    fix l assume l: "realization_price_low n = Some l"
    with band(2) obtain h where h: "realization_price_high n = Some h" by auto
    with l band(3) positive'(2) show "\<exists>h. realization_price_high n = Some h \<and> 0 < l \<and> l \<le> h"
      by (simp add: both_and_iff not_less)
  qed (use band weights short positive' in \<open>auto simp: both_and_iff increasing_def not_less not_le\<close>)
qed

lemma validated_price_order_witness:
  "(\<exists>i p. decision valid_decision \<in> {BUY, ADD} \<and> invalidation_price valid_decision = Some i \<and>
     reference_price valid_decision = Some p \<and> 0 < i \<and> i < p)"
  using validated_price_order [OF validate_sample] by (simp add: valid_decision_def sample_decision_def)

end
