(* ===== verification/Policy.thy ===== *)
theory Policy
  imports DecisionRecord
begin

text \<open>
  The deterministic decision policy: the rule catalog (\<open>app/policy/catalog.py\<close>), the evaluation of a
  record against it (\<open>app/policy/decision_policy.py\<close>), and the records of an evaluation
  (\<open>app/schemas/policy_reporting.py\<close>).
\<close>

section \<open>The rule catalog\<close>

definition MAX_EQUITY_TARGET_WEIGHT :: pyfloat where "MAX_EQUITY_TARGET_WEIGHT = fl (20 / 100)"
definition MAX_ETF_TARGET_WEIGHT :: pyfloat where "MAX_ETF_TARGET_WEIGHT = fl (50 / 100)"
definition MAX_BUY_ADD_TRADES_PER_DAY :: int where "MAX_BUY_ADD_TRADES_PER_DAY = 2"
definition MAX_BUY_ADD_TRADES_PER_DAY_BRAKE :: int where "MAX_BUY_ADD_TRADES_PER_DAY_BRAKE = 5"
definition MAX_SELL_TRIM_TRADES_PER_DAY :: int where "MAX_SELL_TRIM_TRADES_PER_DAY = 10"
definition MAX_HOLDINGS :: int where "MAX_HOLDINGS = 10"
definition MAX_PRIMARY_THEME_WEIGHT :: pyfloat where "MAX_PRIMARY_THEME_WEIGHT = fl (60 / 100)"
definition MAX_SHORT_REVIEW_DAYS :: int where "MAX_SHORT_REVIEW_DAYS = 30"
definition POLICY_VERSION :: string where "POLICY_VERSION = ''decision-policy-1''"
definition VALIDATOR_VERSION :: string where "VALIDATOR_VERSION = ''decision-record-public-1''"

lemmas limit_defs = MAX_BUY_ADD_TRADES_PER_DAY_def MAX_BUY_ADD_TRADES_PER_DAY_BRAKE_def
  MAX_SELL_TRIM_TRADES_PER_DAY_def MAX_HOLDINGS_def MAX_SHORT_REVIEW_DAYS_def

datatype pyval = PFloat pyfloat | PInt int | PBool bool | PStr string | PNone
datatype comparator = eq_comparator | lt_comparator | lte_comparator | gte_comparator
datatype unit_kind = fraction | count_unit | boolean | regime_unit
datatype scope = decision_scope | proposal | portfolio_scope

record RuleDefinition =
  rd_rule_id :: string
  rd_name :: string
  rd_failure_explanation :: string
  rd_threshold :: pyval
  rd_comparator :: comparator
  rd_unit :: unit_kind
  rd_scope :: scope

definition RULE_LABELS :: "(string \<times> string) list" where
  "RULE_LABELS =
    [(''regime_state_mismatch'', ''The decision's regime differs from the recorded regime.''),
     (''buy_or_add_in_red_requires_extraordinary_opportunity'',
      ''Increasing exposure in RED requires an extraordinary-opportunity exception.''),
     (''buy_or_add_in_derisking_requires_extraordinary_opportunity'',
      ''Increasing exposure while de-risking requires an extraordinary-opportunity exception.''),
     (''equity_target_weight_exceeds_limit'', ''The proposed equity position exceeds the entry limit.''),
     (''etf_target_weight_exceeds_limit'', ''The proposed ETF position exceeds the entry limit.''),
     (''missing_strategy_belief_mapping'', ''Increasing exposure requires a strategy-belief mapping.''),
     (''missing_invalidation_criteria'',
      ''An actionable or short-watchlist decision needs thesis-invalidation criteria.''),
     (''missing_source_claims'', ''An actionable or short-watchlist decision needs source claims.''),
     (''x_signal_not_confirmed_outside_x'', ''Thesis-supporting X evidence needs confirmation outside X.''),
     (''buy_add_circuit_breaker_tripped'', ''The daily risk-increasing trade circuit breaker is reached.''),
     (''daily_buy_add_limit_reached'', ''The daily risk-increasing trade limit needs an exception.''),
     (''sell_trim_circuit_breaker_tripped'', ''The daily sell/trim circuit breaker is reached.''),
     (''max_holdings_reached'', ''A new holding would exceed the holding-count limit.''),
     (''primary_theme_concentration_exceeded'', ''The proposed theme exposure exceeds the entry limit.''),
     (''short_watchlist_entry_missing'', ''Only a ticker on the short watchlist can be removed from it.''),
     (''short_review_horizon_exceeded'', ''A short call must be reviewed again within the horizon.''),
     (''watchlist_entry_restated'',
      ''A ticker already on the watchlist can only be restated with a different entry bound.''),
     (''buy_or_add_in_crisis_requires_extraordinary_opportunity'',
      ''Increasing exposure in crisis mode requires an extraordinary-opportunity exception.''),
     (''no_upside_to_realization'',
      ''A BUY or ADD needs upside left before its thesis is fully priced in.'')]"

definition rule_rows :: "(string \<times> string \<times> pyval \<times> comparator \<times> unit_kind \<times> scope) list" where
  "rule_rows =
    [(''regime_state_mismatch'', ''Regime consistency'', PNone, eq_comparator, regime_unit, decision_scope),
     (''buy_or_add_in_red_requires_extraordinary_opportunity'', ''RED exposure exception'',
      PBool True, eq_comparator, boolean, decision_scope),
     (''buy_or_add_in_derisking_requires_extraordinary_opportunity'', ''De-risking exposure exception'',
      PBool True, eq_comparator, boolean, decision_scope),
     (''equity_target_weight_exceeds_limit'', ''Equity entry concentration'',
      PFloat MAX_EQUITY_TARGET_WEIGHT, lte_comparator, fraction, proposal),
     (''etf_target_weight_exceeds_limit'', ''ETF entry concentration'',
      PFloat MAX_ETF_TARGET_WEIGHT, lte_comparator, fraction, proposal),
     (''missing_strategy_belief_mapping'', ''Strategy-belief mapping'',
      PInt 1, gte_comparator, count_unit, decision_scope),
     (''missing_invalidation_criteria'', ''Thesis-invalidation criteria'',
      PInt 1, gte_comparator, count_unit, decision_scope),
     (''missing_source_claims'', ''Source claims'', PInt 1, gte_comparator, count_unit, decision_scope),
     (''x_signal_not_confirmed_outside_x'', ''Independent X confirmation'',
      PBool True, eq_comparator, boolean, decision_scope),
     (''buy_add_circuit_breaker_tripped'', ''Risk-increasing trade circuit breaker'',
      PInt MAX_BUY_ADD_TRADES_PER_DAY_BRAKE, lt_comparator, count_unit, portfolio_scope),
     (''daily_buy_add_limit_reached'', ''Ordinary risk-increasing trade limit'',
      PInt MAX_BUY_ADD_TRADES_PER_DAY, lt_comparator, count_unit, portfolio_scope),
     (''sell_trim_circuit_breaker_tripped'', ''Sell/trim circuit breaker'',
      PInt MAX_SELL_TRIM_TRADES_PER_DAY, lt_comparator, count_unit, portfolio_scope),
     (''max_holdings_reached'', ''New holding capacity'', PInt MAX_HOLDINGS, lt_comparator,
      count_unit, portfolio_scope),
     (''primary_theme_concentration_exceeded'', ''Theme entry concentration'',
      PFloat MAX_PRIMARY_THEME_WEIGHT, lte_comparator, fraction, proposal),
     (''short_watchlist_entry_missing'', ''Short watchlist entry'', PBool True, eq_comparator,
      boolean, portfolio_scope),
     (''short_review_horizon_exceeded'', ''Short review horizon'', PInt MAX_SHORT_REVIEW_DAYS,
      lte_comparator, count_unit, decision_scope),
     (''watchlist_entry_restated'', ''Watchlist restatement'', PBool True, eq_comparator, boolean,
      portfolio_scope),
     (''buy_or_add_in_crisis_requires_extraordinary_opportunity'', ''Crisis exposure exception'',
      PBool True, eq_comparator, boolean, portfolio_scope),
     (''no_upside_to_realization'', ''Upside to thesis realization'', PBool True, eq_comparator,
      boolean, decision_scope)]"

definition RULES :: "(string \<times> RuleDefinition) list" where
  "RULES = map (\<lambda>(rule_id, name, threshold, cmp, u, sc).
     (rule_id, \<lparr>rd_rule_id = rule_id, rd_name = name,
        rd_failure_explanation = the (map_of RULE_LABELS rule_id), rd_threshold = threshold,
        rd_comparator = cmp, rd_unit = u, rd_scope = sc\<rparr>)) rule_rows"

section \<open>Inputs and checks\<close>

text \<open>Dictionaries are association lists, looked up with \<open>map_of\<close>.\<close>

record PortfolioInputs =
  holdings_count :: int
  buy_add_trades_today :: int
  swap_buy_trades_today :: int
  funded_by_same_review_sale :: bool
  crisis_mode :: bool
  sell_trim_trades_today :: int
  primary_theme_weights :: "(string \<times> pyfloat) list"
  short_watchlist_tickers :: "string list option"
  watchlist_entries :: "(string \<times> pyfloat option) list option"

definition portfolio_inputs_errors :: "PortfolioInputs \<Rightarrow> string list" where
  "portfolio_inputs_errors p = error_if (holdings_count p < 0) ''holdings_count: greater_than_equal'' @
     error_if (buy_add_trades_today p < 0) ''buy_add_trades_today: greater_than_equal'' @
     error_if (swap_buy_trades_today p < 0) ''swap_buy_trades_today: greater_than_equal'' @
     error_if (sell_trim_trades_today p < 0) ''sell_trim_trades_today: greater_than_equal''"

datatype check_result = passed | failed | not_applicable | missing_input

record RuleCheck =
  rc_name :: "string option"
  rc_failure_explanation :: "string option"
  rc_rule_id :: string
  rc_version :: string
  rc_scope :: scope
  rc_result :: check_result
  rc_observed :: pyval
  rc_threshold :: pyval
  rc_comparator :: comparator
  rc_unit :: unit_kind
  rc_headroom :: "pyfloat option"

record PolicyResult =
  approved :: bool
  reasons :: "string list"
  checks :: "RuleCheck list"

fun number :: "pyval \<Rightarrow> pyfloat option" where
  "number (PFloat x) = Some x"
| "number (PInt n) = Some (of_int n)"
| "number (PBool b) = Some (if b then 1 else 0)"
| "number _ = None"

text \<open>
  \<open>check\<close>. The head room of a count is an exact integer, of a fraction a float difference; \<open>fl\<close>
  is the identity on the integers below \<open>2 ^ 53\<close>.
\<close>

definition check :: "RegimeState option \<Rightarrow> string \<Rightarrow> bool \<Rightarrow> pyval \<Rightarrow> bool \<Rightarrow> bool \<Rightarrow> RuleCheck" where
  "check true_regime_state rule_id applicable observed ok missing =
     (let definition = the (map_of RULES rule_id);
          threshold = (case true_regime_state of
              Some s \<Rightarrow> if rule_id = ''regime_state_mismatch'' then PStr (regime_value s)
                else rd_threshold definition
            | None \<Rightarrow> rd_threshold definition);
          result = (if \<not> applicable then not_applicable else if missing then missing_input
            else if ok then passed else failed);
          headroom = (if result \<in> {passed, failed} \<and> rd_unit definition \<in> {fraction, count_unit}
            then (case (number observed, number threshold) of
                (Some x, Some t) \<Rightarrow> Some (if rd_comparator definition \<in> {lt_comparator, lte_comparator}
                   then fsub t x else fsub x t)
              | _ \<Rightarrow> None)
            else None)
      in \<lparr>rc_name = Some (rd_name definition),
          rc_failure_explanation = Some (rd_failure_explanation definition),
          rc_rule_id = rule_id, rc_version = POLICY_VERSION, rc_scope = rd_scope definition,
          rc_result = result, rc_observed = (if applicable \<and> \<not> missing then observed else PNone),
          rc_threshold = threshold, rc_comparator = rd_comparator definition,
          rc_unit = rd_unit definition, rc_headroom = headroom\<rparr>)"

section \<open>The evaluation\<close>

definition num_or_none :: "int option \<Rightarrow> pyval" where
  "num_or_none n = (case n of None \<Rightarrow> PNone | Some k \<Rightarrow> PInt k)"

definition theme_weight :: "InvestmentDecisionRecord \<Rightarrow> PortfolioInputs option \<Rightarrow> pyfloat option" where
  "theme_weight record portfolio = map_option (\<lambda>p. fadd
     (case map_of (primary_theme_weights p) (case primary_theme_id record of None \<Rightarrow> [] | Some t \<Rightarrow> t) of
        None \<Rightarrow> 0 | Some w \<Rightarrow> w)
     (final_target_weight record)) portfolio"

definition evaluation_checks ::
    "InvestmentDecisionRecord \<Rightarrow> PortfolioInputs option \<Rightarrow> RegimeState option \<Rightarrow> RuleCheck list" where
  "evaluation_checks record portfolio true_regime_state =
    (let increasing' = increasing (decision record);
         evidenced = actionable (decision record) \<or> decision record = SHORT_WATCHLIST;
         extraordinary = extraordinary_opportunity record;
         chk = check true_regime_state;
         count_of = (\<lambda>n. PInt (int n));
         usage = x_signal_usage record;
         supporting_x = xu_usage_type usage \<in> {IDEA_SOURCE, CONFIRMATION};
         buy_count = map_option buy_add_trades_today portfolio;
         brake = (case buy_count of None \<Rightarrow> False | Some n \<Rightarrow> MAX_BUY_ADD_TRADES_PER_DAY_BRAKE \<le> n);
         ordinary_buys = map_option (\<lambda>p. buy_add_trades_today p - swap_buy_trades_today p) portfolio;
         sell_count = map_option sell_trim_trades_today portfolio;
         holdings = map_option holdings_count portfolio;
         weight = theme_weight record portfolio;
         shorted = (case portfolio of None \<Rightarrow> None | Some p \<Rightarrow> short_watchlist_tickers p);
         on_short = (case shorted of None \<Rightarrow> False | Some ts \<Rightarrow> ticker record \<in> set ts);
         watchlist = (case portfolio of None \<Rightarrow> None | Some p \<Rightarrow> watchlist_entries p);
         duplicate = (case watchlist of None \<Rightarrow> False
           | Some w \<Rightarrow> map_of w (ticker record) = Some (entry_price_max record));
         has_upside = both_and (reference_price record) (realization_price_low record) (\<lambda>p l. p < l);
         horizon = map_option (\<lambda>c. sr_review_by c - aware_date (created_at record))
           (short_removal_conditions record)
     in
      [chk ''regime_state_mismatch'' True (PStr (regime_value (regime_state record)))
         (Some (regime_state record) = true_regime_state) (true_regime_state = None),
       chk ''buy_or_add_in_red_requires_extraordinary_opportunity''
         (increasing' \<and> regime_state record = RED) (PBool extraordinary) extraordinary False,
       chk ''buy_or_add_in_derisking_requires_extraordinary_opportunity''
         (increasing' \<and> operating_mode record = DE_RISKING) (PBool extraordinary) extraordinary False,
       chk ''equity_target_weight_exceeds_limit'' (increasing' \<and> asset_type record = EQUITY)
         (PFloat (final_target_weight record)) (final_target_weight record \<le> MAX_EQUITY_TARGET_WEIGHT) False,
       chk ''etf_target_weight_exceeds_limit'' (increasing' \<and> asset_type record = ETF)
         (PFloat (final_target_weight record)) (final_target_weight record \<le> MAX_ETF_TARGET_WEIGHT) False,
       chk ''missing_strategy_belief_mapping'' increasing' (count_of (length (strategy_belief_ids record)))
         (strategy_belief_ids record \<noteq> []) False,
       chk ''missing_invalidation_criteria'' evidenced (count_of (length (thesis_invalidation_criteria record)))
         (thesis_invalidation_criteria record \<noteq> []) False,
       chk ''missing_source_claims'' evidenced (count_of (length (source_claims record)))
         (source_claims record \<noteq> []) False,
       chk ''x_signal_not_confirmed_outside_x'' (evidenced \<and> xu_used usage \<and> supporting_x)
         (PBool (xu_confirmed_outside_x usage)) (xu_confirmed_outside_x usage) False,
       chk ''buy_add_circuit_breaker_tripped'' increasing' (num_or_none buy_count) (\<not> brake)
         (portfolio = None),
       chk ''daily_buy_add_limit_reached''
         (increasing' \<and> \<not> brake \<and> \<not> extraordinary \<and>
            \<not> (case portfolio of None \<Rightarrow> False | Some p \<Rightarrow> funded_by_same_review_sale p))
         (num_or_none ordinary_buys)
         (case ordinary_buys of None \<Rightarrow> False | Some n \<Rightarrow> n < MAX_BUY_ADD_TRADES_PER_DAY)
         (portfolio = None),
       chk ''sell_trim_circuit_breaker_tripped'' (decision record \<in> {TRIM, SELL}) (num_or_none sell_count)
         (case sell_count of None \<Rightarrow> False | Some n \<Rightarrow> n < MAX_SELL_TRIM_TRADES_PER_DAY)
         (portfolio = None),
       chk ''max_holdings_reached'' (decision record = BUY) (num_or_none holdings)
         (case holdings of None \<Rightarrow> False | Some n \<Rightarrow> n < MAX_HOLDINGS) (portfolio = None),
       chk ''primary_theme_concentration_exceeded'' (increasing' \<and> primary_theme_id record \<noteq> None)
         (case weight of None \<Rightarrow> PNone | Some w \<Rightarrow> PFloat w)
         (case weight of None \<Rightarrow> False | Some w \<Rightarrow> \<not> MAX_PRIMARY_THEME_WEIGHT < w) (portfolio = None),
       chk ''short_watchlist_entry_missing'' (decision record = SHORT_WATCHLIST_REMOVE) (PBool on_short)
         on_short (shorted = None),
       chk ''watchlist_entry_restated'' (decision record = WATCHLIST) (PBool (\<not> duplicate))
         (\<not> duplicate) (watchlist = None),
       chk ''buy_or_add_in_crisis_requires_extraordinary_opportunity''
         (increasing' \<and> (case portfolio of None \<Rightarrow> False | Some p \<Rightarrow> crisis_mode p))
         (PBool extraordinary) extraordinary False,
       chk ''no_upside_to_realization''
         (increasing' \<and> realization_price_low record \<noteq> None \<and> reference_price record \<noteq> None)
         (PBool has_upside) has_upside False,
       chk ''short_review_horizon_exceeded'' (short_removal_conditions record \<noteq> None)
         (num_or_none horizon)
         (case horizon of None \<Rightarrow> False | Some n \<Rightarrow> n \<le> MAX_SHORT_REVIEW_DAYS) False])"

definition evaluate_decision_policy ::
    "InvestmentDecisionRecord \<Rightarrow> PortfolioInputs option \<Rightarrow> RegimeState option \<Rightarrow> PolicyResult" where
  "evaluate_decision_policy record portfolio true_regime_state =
    (let cs = evaluation_checks record portfolio true_regime_state;
         failures = map rc_rule_id (filter (\<lambda>c. rc_result c = failed) cs)
     in \<lparr>approved = (failures = []), reasons = failures, checks = cs\<rparr>)"

section \<open>What an approval means\<close>

lemma rc_rule_id_check [simp]: "rc_rule_id (check t i a ob ok m) = i"
  by (simp add: check_def Let_def)

lemma rc_result_check:
  "rc_result (check t i a ob ok m) =
     (if \<not> a then not_applicable else if m then missing_input else if ok then passed else failed)"
  by (simp add: check_def Let_def)

lemma rc_result_failed: "rc_result (check t i a ob ok m) = failed \<longleftrightarrow> a \<and> \<not> m \<and> \<not> ok"
  by (simp add: rc_result_check)

lemma approved_no_reason [simp]:
  "approved (evaluate_decision_policy r p s) \<longleftrightarrow> reasons (evaluate_decision_policy r p s) = []"
  by (simp add: evaluate_decision_policy_def Let_def)

lemma approved_iff:
  "approved (evaluate_decision_policy r p s) \<longleftrightarrow> (\<forall>c\<in>set (evaluation_checks r p s). rc_result c \<noteq> failed)"
  by (simp add: evaluate_decision_policy_def Let_def filter_empty_conv)

definition evaluated_rules :: "string list" where
  "evaluated_rules = [''regime_state_mismatch'', ''buy_or_add_in_red_requires_extraordinary_opportunity'',
     ''buy_or_add_in_derisking_requires_extraordinary_opportunity'', ''equity_target_weight_exceeds_limit'',
     ''etf_target_weight_exceeds_limit'', ''missing_strategy_belief_mapping'',
     ''missing_invalidation_criteria'', ''missing_source_claims'', ''x_signal_not_confirmed_outside_x'',
     ''buy_add_circuit_breaker_tripped'', ''daily_buy_add_limit_reached'',
     ''sell_trim_circuit_breaker_tripped'', ''max_holdings_reached'',
     ''primary_theme_concentration_exceeded'', ''short_watchlist_entry_missing'',
     ''watchlist_entry_restated'', ''buy_or_add_in_crisis_requires_extraordinary_opportunity'',
     ''no_upside_to_realization'', ''short_review_horizon_exceeded'']"

lemma evaluation_rule_ids: "map rc_rule_id (evaluation_checks r p s) = evaluated_rules"
  by (simp add: evaluation_checks_def Let_def evaluated_rules_def)

lemma evaluated_rules_catalog: "set evaluated_rules = set (map fst RULES)"
  by code_simp

lemma evaluated_rules_distinct: "distinct evaluated_rules"
  by code_simp

text \<open>A reason is a plain token: no comma, no white space, never empty.\<close>

definition reason_token :: "string \<Rightarrow> bool" where
  "reason_token r = (r \<noteq> [] \<and> CHR '','' \<notin> set r \<and> list_all (\<lambda>c. \<not> py_isspace c) r)"

lemma lower_char_token:
  "c \<in> set ''abcdefghijklmnopqrstuvwxyz_'' \<Longrightarrow> \<not> py_isspace c \<and> c \<noteq> CHR '',''"
  by (auto simp: py_isspace_def)

lemma evaluated_rules_lower:
  "list_all (\<lambda>r. r \<noteq> [] \<and> list_all (\<lambda>c. c \<in> set ''abcdefghijklmnopqrstuvwxyz_'') r) evaluated_rules"
  by code_simp

lemma evaluated_rules_tokens: "list_all reason_token evaluated_rules"
  using evaluated_rules_lower lower_char_token
  unfolding list_all_iff reason_token_def by blast

lemma reasons_subset: "set (reasons (evaluate_decision_policy r p s)) \<subseteq> set evaluated_rules"
  unfolding evaluation_rule_ids [of r p s, symmetric]
  by (auto simp: evaluate_decision_policy_def Let_def)

text \<open>
  Every evaluation records one check for each of the catalog's rules, exactly once each; the
  reasons are the rules whose check failed, without repetition, each a rule of the catalog; and the
  decision is approved exactly when no check failed. A check with a missing input never rejects.
\<close>

lemma evaluation_complete:
  "set (map rc_rule_id (checks (evaluate_decision_policy r p s))) = set (map fst RULES) \<and>
   distinct (map rc_rule_id (checks (evaluate_decision_policy r p s))) \<and>
   distinct (reasons (evaluate_decision_policy r p s)) \<and>
   set (reasons (evaluate_decision_policy r p s)) =
     {rc_rule_id c | c. c \<in> set (checks (evaluate_decision_policy r p s)) \<and> rc_result c = failed} \<and>
   (approved (evaluate_decision_policy r p s) \<longleftrightarrow> reasons (evaluate_decision_policy r p s) = [])"
proof -
  have "distinct (map rc_rule_id (filter (\<lambda>c. rc_result c = failed) (evaluation_checks r p s)))"
    by (rule distinct_map_filter) (simp add: evaluation_rule_ids evaluated_rules_distinct)
  then show ?thesis
    unfolding evaluated_rules_catalog [symmetric] evaluation_rule_ids [of r p s, symmetric]
    using evaluated_rules_distinct [unfolded evaluation_rule_ids [of r p s, symmetric]]
    by (auto simp: evaluate_decision_policy_def Let_def)
qed

lemma approved_weight:
  assumes "approved (evaluate_decision_policy r p s)"
  shows "increasing (decision r) \<Longrightarrow> asset_type r = EQUITY \<Longrightarrow>
      final_target_weight r \<le> MAX_EQUITY_TARGET_WEIGHT"
    and "increasing (decision r) \<Longrightarrow> asset_type r = ETF \<Longrightarrow> final_target_weight r \<le> MAX_ETF_TARGET_WEIGHT"
proof -
  have "list_all (\<lambda>c. rc_result c \<noteq> failed) (evaluation_checks r p s)"
    using assms by (simp only: approved_iff list_all_iff)
  note checks = this [unfolded evaluation_checks_def Let_def list.pred_inject rc_result_failed]
  show "increasing (decision r) \<Longrightarrow> asset_type r = EQUITY \<Longrightarrow> final_target_weight r \<le> MAX_EQUITY_TARGET_WEIGHT"
    and "increasing (decision r) \<Longrightarrow> asset_type r = ETF \<Longrightarrow> final_target_weight r \<le> MAX_ETF_TARGET_WEIGHT"
    using checks by blast+
qed

text \<open>
  C4. An approved BUY or ADD with portfolio facts respects every limit: the entry weight of its
  asset type, the theme concentration, the holdings count, both daily trade limits, the evidence
  requirements and the upside to realization; in RED, while de-risking or in crisis mode it carries
  the extraordinary-opportunity exception; and its regime is the recorded one when that is known.
\<close>

theorem approved_entry_within_limits:
  assumes "approved (evaluate_decision_policy r (Some p) s)" and "decision r \<in> {BUY, ADD}"
  shows "(asset_type r = EQUITY \<longrightarrow> final_target_weight r \<le> MAX_EQUITY_TARGET_WEIGHT) \<and>
    (asset_type r = ETF \<longrightarrow> final_target_weight r \<le> MAX_ETF_TARGET_WEIGHT) \<and>
    (\<forall>t w. primary_theme_id r = Some t \<and> map_of (primary_theme_weights p) t = Some w \<longrightarrow>
       fadd w (final_target_weight r) \<le> MAX_PRIMARY_THEME_WEIGHT) \<and>
    (decision r = BUY \<longrightarrow> holdings_count p < 10) \<and>
    buy_add_trades_today p < 5 \<and>
    (\<not> extraordinary_opportunity r \<and> \<not> funded_by_same_review_sale p \<longrightarrow>
       buy_add_trades_today p - swap_buy_trades_today p < 2) \<and>
    strategy_belief_ids r \<noteq> [] \<and> thesis_invalidation_criteria r \<noteq> [] \<and> source_claims r \<noteq> [] \<and>
    (regime_state r = RED \<or> operating_mode r = DE_RISKING \<or> crisis_mode p \<longrightarrow> extraordinary_opportunity r) \<and>
    (\<forall>low ref. realization_price_low r = Some low \<and> reference_price r = Some ref \<longrightarrow> ref < low) \<and>
    (\<forall>state. s = Some state \<longrightarrow> regime_state r = state)"
proof -
  have a: "actionable (decision r)" "increasing (decision r)"
    using assms(2) by (auto simp: actionable_def increasing_def)
  have "list_all (\<lambda>c. rc_result c \<noteq> failed) (evaluation_checks r (Some p) s)"
    using assms(1) by (simp only: approved_iff list_all_iff)
  note checks = this [unfolded evaluation_checks_def Let_def list.pred_inject rc_result_failed
      option.map option.case both_and_def theme_weight_def limit_defs prod.case]
  show ?thesis
    by (intro conjI impI allI) (use checks a in \<open>(simp; fail) | (elim disjE conjE; simp) | auto\<close>)+
qed

definition sample_portfolio :: PortfolioInputs where
  "sample_portfolio = \<lparr>holdings_count = 3, buy_add_trades_today = 1, swap_buy_trades_today = 0,
     funded_by_same_review_sale = False, crisis_mode = False, sell_trim_trades_today = 0,
     primary_theme_weights = [(''ai'', 1 / 4)], short_watchlist_tickers = Some [],
     watchlist_entries = Some []\<rparr>"

lemma sample_weights:
  "1 \<le> MAX_EQUITY_TARGET_WEIGHT * 8" "\<not> MAX_PRIMARY_THEME_WEIGHT < fadd (1 / 4) (1 / 8)"
  by code_simp+

lemma sample_approved:
  "approved (evaluate_decision_policy valid_decision (Some sample_portfolio) (Some GREEN))"
proof -
  have "list_all (\<lambda>c. rc_result c \<noteq> failed)
      (evaluation_checks valid_decision (Some sample_portfolio) (Some GREEN))"
    unfolding evaluation_checks_def Let_def list.pred_inject rc_result_failed
    by (simp add: valid_decision_def sample_decision_def sample_portfolio_def sample_weights limit_defs
        theme_weight_def increasing_def actionable_def both_and_def)
  then show ?thesis by (simp only: approved_iff list_all_iff)
qed

lemma approved_entry_within_limits_witness:
  "final_target_weight valid_decision \<le> MAX_EQUITY_TARGET_WEIGHT \<and>
   fadd (1 / 4) (final_target_weight valid_decision) \<le> MAX_PRIMARY_THEME_WEIGHT \<and>
   holdings_count sample_portfolio < 10"
  using approved_entry_within_limits [OF sample_approved]
  by (simp add: valid_decision_def sample_decision_def sample_portfolio_def)

end
