(* ===== verification/Orders.thy ===== *)
theory Orders
  imports Policy
begin

text \<open>
  Order intents: the record and its validators (\<open>app/schemas/order_intent.py\<close>) and their creation
  from an approved decision (\<open>app/orders/create_order_intent.py\<close>).
\<close>

datatype OrderSide = SIDE_BUY | SIDE_SELL
datatype OrderType = LIMIT | MARKET
datatype OrderIntentStatus = CREATED
datatype ExecutionMode = PAPER | LIVE

record OrderIntent =
  oi_order_intent_id :: string
  oi_decision_id :: string
  oi_created_at :: instant
  oi_ticker :: string
  oi_side :: OrderSide
  oi_order_type :: OrderType
  oi_target_weight :: pyfloat
  oi_status :: OrderIntentStatus
  oi_execution_mode :: ExecutionMode
  oi_execution_profile_id :: string

definition require_profile_only_for_live_intents :: "OrderIntent \<Rightarrow> (bool \<times> string) list" where
  "require_profile_only_for_live_intents i =
     [(oi_execution_mode i = LIVE \<and> blank (oi_execution_profile_id i),
       ''execution_profile_id is required for live intents''),
      (oi_execution_mode i = PAPER \<and> oi_execution_profile_id i \<noteq> [],
       ''execution_profile_id must be empty for paper intents'')]"

text \<open>\<open>allow_inf_nan=False\<close> adds nothing to a weight already bounded by 1.\<close>

definition order_intent_errors :: "OrderIntent \<Rightarrow> string list" where
  "order_intent_errors i = model_errors
     (error_if (oi_order_intent_id i = []) ''order_intent_id: too_short'' @
      error_if (oi_decision_id i = []) ''decision_id: too_short'' @
      length_errors 1 12 ''ticker'' (oi_ticker i) @
      range_errors 0 1 ''target_weight'' (oi_target_weight i))
     (require_profile_only_for_live_intents i)"

definition validate_order_intent :: "OrderIntent \<Rightarrow> OrderIntent result" where
  "validate_order_intent i = (let errors = order_intent_errors i in
     if errors = [] then Inr i else Inl (ValidationError errors))"

fun INTENT_SIDES :: "Decision \<Rightarrow> OrderSide option" where
  "INTENT_SIDES BUY = Some SIDE_BUY"
| "INTENT_SIDES ADD = Some SIDE_BUY"
| "INTENT_SIDES TRIM = Some SIDE_SELL"
| "INTENT_SIDES SELL = Some SIDE_SELL"
| "INTENT_SIDES _ = None"

text \<open>\<open>now\<close> is \<open>datetime.now(UTC)\<close>, used when no time is given.\<close>

definition create_order_intent :: "instant \<Rightarrow> InvestmentDecisionRecord \<Rightarrow> PolicyResult \<Rightarrow> instant option \<Rightarrow>
    ExecutionMode \<Rightarrow> string \<Rightarrow> OrderIntent result" where
  "create_order_intent now record policy_result at_time mode profile =
     (if \<not> approved policy_result then
        Inl (ValueError ''cannot create an order intent from a rejected decision'')
      else (case INTENT_SIDES (decision record) of
        None \<Rightarrow> Inl (ValueError (''decision '' @ decision_value (decision record) @
          '' is not actionable and cannot produce an order intent''))
      | Some side \<Rightarrow> validate_order_intent
          \<lparr>oi_order_intent_id = ''oi_'' @ decision_id record, oi_decision_id = decision_id record,
           oi_created_at = (case at_time of None \<Rightarrow> now | Some t \<Rightarrow> t), oi_ticker = ticker record,
           oi_side = side, oi_order_type = LIMIT, oi_target_weight = final_target_weight record,
           oi_status = CREATED, oi_execution_mode = mode, oi_execution_profile_id = profile\<rparr>))"

lemma INTENT_SIDES_None [simp]: "INTENT_SIDES d = None \<longleftrightarrow> \<not> actionable d"
  by (cases d) (simp_all add: actionable_def)

lemma INTENT_SIDES_actionable: "INTENT_SIDES d = Some s \<Longrightarrow> actionable d"
  by (cases d) (simp_all add: actionable_def)

lemma create_order_intent_Inr:
  assumes "create_order_intent now r p t m prof = Inr i"
  shows "approved p" and "actionable (decision r)" and "INTENT_SIDES (decision r) = Some (oi_side i)"
    and "oi_decision_id i = decision_id r" and "oi_order_intent_id i = ''oi_'' @ decision_id r"
    and "oi_ticker i = ticker r" and "oi_target_weight i = final_target_weight r"
    and "oi_execution_mode i = m" and "oi_execution_profile_id i = prof"
    and "oi_order_type i = LIMIT" and "oi_status i = CREATED" and "order_intent_errors i = []"
    and "oi_created_at i = (case t of None \<Rightarrow> now | Some s \<Rightarrow> s)"
  using assms
  by (auto simp: create_order_intent_def validate_order_intent_def Let_def
      split: if_splits option.splits dest: INTENT_SIDES_actionable)

text \<open>
  For a validated decision an intent exists exactly when it is actionable and approved and the
  profile fits the execution mode; then it carries the decision's own ticker, weight and identity,
  and its side is BUY exactly for BUY and ADD.
\<close>

lemma order_intent_created_iff:
  assumes "validate_record d = Inr r"
  shows "((\<exists>i. create_order_intent now r p t m prof = Inr i) \<longleftrightarrow>
      approved p \<and> decision r \<in> {BUY, ADD, TRIM, SELL} \<and>
      (m = LIVE \<and> \<not> blank prof \<or> m = PAPER \<and> prof = [])) \<and>
    (\<forall>i. create_order_intent now r p t m prof = Inr i \<longrightarrow>
      oi_order_intent_id i = ''oi_'' @ decision_id r \<and> oi_ticker i = ticker r \<and>
      oi_target_weight i = final_target_weight r \<and> (oi_side i = SIDE_BUY \<longleftrightarrow> decision r \<in> {BUY, ADD}))"
proof -
  have v: "ticker_errors (ticker r) = []" "0 \<le> final_target_weight r" "final_target_weight r \<le> 1"
    "decision_id r \<noteq> []"
    using validate_record_idem(1) [OF assms]
    by (auto simp: validate_record_Inr field_errors_def result_simps)
  have "(\<exists>i. create_order_intent now r p t m prof = Inr i) \<longleftrightarrow>
      approved p \<and> actionable (decision r) \<and> (m = LIVE \<and> \<not> blank prof \<or> m = PAPER \<and> prof = [])"
    using v by (cases m) (auto simp: create_order_intent_def validate_order_intent_def order_intent_errors_def
        Let_def result_simps require_profile_only_for_live_intents_def ticker_errors_Nil
        split: option.splits dest: INTENT_SIDES_actionable)
  moreover have "oi_order_intent_id i = ''oi_'' @ decision_id r \<and> oi_ticker i = ticker r \<and>
      oi_target_weight i = final_target_weight r \<and> (oi_side i = SIDE_BUY \<longleftrightarrow> decision r \<in> {BUY, ADD})"
    if "create_order_intent now r p t m prof = Inr i" for i
    using create_order_intent_Inr [OF that] by (cases "decision r") auto
  ultimately show ?thesis by (auto simp: actionable_def)
qed

lemma order_intent_created_iff_witness:
  "(\<exists>i. create_order_intent 0 valid_decision
      (evaluate_decision_policy valid_decision (Some sample_portfolio) (Some GREEN)) None LIVE ''main'' = Inr i) \<and>
   \<not> (\<exists>i. create_order_intent 0 valid_decision
      (evaluate_decision_policy valid_decision (Some sample_portfolio) (Some GREEN)) None PAPER ''main'' = Inr i)"
proof -
  have "decision valid_decision = BUY" "\<not> blank ''main''" by code_simp+
  with order_intent_created_iff [OF validate_sample, of 0 _ None LIVE "''main''"]
    order_intent_created_iff [OF validate_sample, of 0 _ None PAPER "''main''"] sample_approved
  show ?thesis by simp
qed

end
