(* ===== verification/LiveSchemas.thy ===== *)
theory LiveSchemas
  imports ReportingSchema Orders
begin

text \<open>
  The schemas of live execution (\<open>app/schemas/live_execution.py\<close>, \<open>app/schemas/broker_execution.py\<close>)
  and of reasoning runs (\<open>app/schemas/reasoning_run.py\<close>): profiles, account snapshots, preflights,
  packets, broker records and events.
\<close>

text \<open>\<open>allow_inf_nan=False\<close>: every float field of these models must be finite.\<close>

definition finite_errors :: "string \<Rightarrow> pyfloat \<Rightarrow> string list" where
  "finite_errors name x = error_if (\<not> isfinite x) (name @ '': finite_number'')"

definition pos_float_errors :: "string \<Rightarrow> pyfloat \<Rightarrow> string list" where
  "pos_float_errors name x = (if \<not> isfinite x then finite_errors name x else positive_errors name x)"

definition nonneg_float_errors :: "string \<Rightarrow> pyfloat \<Rightarrow> string list" where
  "nonneg_float_errors name x = (if \<not> isfinite x then finite_errors name x
     else error_if (x < 0) (name @ '': greater_than_equal''))"

definition required_errors :: "string \<Rightarrow> string \<Rightarrow> string list" where
  "required_errors name s = error_if (s = []) (name @ '': too_short'')"

lemma float_errors_Nil [result_simps]:
  "pos_float_errors name x = [] \<longleftrightarrow> isfinite x \<and> 0 < x"
  "nonneg_float_errors name x = [] \<longleftrightarrow> isfinite x \<and> 0 \<le> x"
  "required_errors name s = [] \<longleftrightarrow> s \<noteq> []"
  by (auto simp: pos_float_errors_def nonneg_float_errors_def finite_errors_def required_errors_def
      positive_errors_Nil error_if_def positive_errors_def)

definition fingerprint_pattern :: "string \<Rightarrow> bool" where
  "fingerprint_pattern s = (length s = 16 \<and> list_all hex_char s)"

section \<open>Execution profiles\<close>

datatype AgentProvider = CODEX | CLAUDE

record ExecutionProfile =
  ep_execution_profile_id :: string
  ep_agent_provider :: AgentProvider
  ep_account_alias :: string
  ep_broker_account_fingerprint :: string
  ep_enabled :: bool
  ep_max_order_notional :: pyfloat
  ep_max_quote_age_seconds :: int
  ep_max_spread_bps :: pyfloat
  ep_crisis_max_spread_bps :: pyfloat
  ep_require_human_approval :: bool

definition require_fingerprint_for_enabled_profile :: "ExecutionProfile \<Rightarrow> (bool \<times> string) list" where
  "require_fingerprint_for_enabled_profile p =
     [(ep_enabled p \<and> length (ep_broker_account_fingerprint p) \<noteq> 16,
       ''enabled profiles require a broker_account_fingerprint'')]"

definition profile_errors :: "ExecutionProfile \<Rightarrow> string list" where
  "profile_errors p = model_errors
     (required_errors ''execution_profile_id'' (ep_execution_profile_id p) @
      required_errors ''account_alias'' (ep_account_alias p) @
      error_if (16 < length (ep_broker_account_fingerprint p) \<or>
        \<not> list_all hex_char (ep_broker_account_fingerprint p))
        ''broker_account_fingerprint: string_pattern_mismatch'' @
      pos_float_errors ''max_order_notional'' (ep_max_order_notional p) @
      error_if (ep_max_quote_age_seconds p < 30 \<or> 120 < ep_max_quote_age_seconds p)
        ''max_quote_age_seconds: out of range'' @
      pos_float_errors ''max_spread_bps'' (ep_max_spread_bps p) @
      pos_float_errors ''crisis_max_spread_bps'' (ep_crisis_max_spread_bps p))
     (require_fingerprint_for_enabled_profile p)"

definition require_unique_routing :: "ExecutionProfile list \<Rightarrow> (bool \<times> string) list" where
  "require_unique_routing ps =
     [(\<not> distinct (map ep_execution_profile_id ps), ''execution_profile_id values must be unique''),
      (\<not> distinct (map ep_account_alias ps), ''account_alias values must be unique''),
      (\<not> distinct (filter (\<lambda>f. f \<noteq> []) (map ep_broker_account_fingerprint ps)),
       ''broker_account_fingerprint values must be unique'')]"

definition profiles_config_errors :: "ExecutionProfile list \<Rightarrow> string list" where
  "profiles_config_errors ps = model_errors
     (error_if (ps = []) ''profiles: too_short'' @ concat (map profile_errors ps))
     (require_unique_routing ps)"

section \<open>Account snapshots\<close>

record LivePosition =
  lpos_ticker :: string
  lpos_market_value :: pyfloat
  lpos_primary_theme_id :: string

definition live_position_errors :: "LivePosition \<Rightarrow> string list" where
  "live_position_errors p =
     (case length_errors 1 12 ''ticker'' (lpos_ticker p) of
        [] \<Rightarrow> error_if (\<not> ticker_pattern (lpos_ticker p))
          ''ticker must be uppercase and use supported characters''
      | es \<Rightarrow> es) @ nonneg_float_errors ''market_value'' (lpos_market_value p)"

record LivePortfolioSnapshot =
  ls_portfolio_snapshot_id :: string
  ls_execution_profile_id :: string
  ls_broker_account_fingerprint :: string
  ls_captured_at :: instant
  ls_account_equity :: pyfloat
  ls_buying_power :: pyfloat
  ls_positions :: "LivePosition list"
  ls_reporting :: "ValuationObservation option"
  ls_collector_model :: "string option"
  ls_index_prices :: "(string \<times> pyfloat) list"

text \<open>Equality of two dictionaries built by comprehension: a later key replaces an earlier one.\<close>

definition dict_eq :: "('k \<times> 'v) list \<Rightarrow> ('k \<times> 'v) list \<Rightarrow> bool" where
  "dict_eq d e = (\<forall>k\<in>set (map fst (d @ e)). map_of (rev d) k = map_of (rev e) k)"

definition require_unique_positions :: "LivePortfolioSnapshot \<Rightarrow> (bool \<times> string) list" where
  "require_unique_positions s =
     (case ls_reporting s of None \<Rightarrow> [] | Some r \<Rightarrow>
       [(ob_mode r \<noteq> LiveMode \<or> ob_account_id r \<noteq> ls_broker_account_fingerprint s \<or>
           ob_occurred_at r \<noteq> ls_captured_at s \<or>
           vo_equity r \<noteq> Some (decimal_of_float (ls_account_equity s)),
         ''reporting valuation must match execution snapshot identity and equity''),
        (case vo_positions r of None \<Rightarrow> False | Some ps \<Rightarrow>
           \<not> dict_eq (map (\<lambda>p. (rp_ticker p, rp_market_value p)) ps)
              (map (\<lambda>p. (lpos_ticker p, Some (decimal_of_float (lpos_market_value p)))) (ls_positions s)),
         ''reporting holdings must match execution snapshot holdings'')]) @
     [(\<not> distinct (map lpos_ticker (ls_positions s)), ''position tickers must be unique'')]"

definition snapshot_errors :: "LivePortfolioSnapshot \<Rightarrow> string list" where
  "snapshot_errors s = model_errors
     (required_errors ''portfolio_snapshot_id'' (ls_portfolio_snapshot_id s) @
      required_errors ''execution_profile_id'' (ls_execution_profile_id s) @
      error_if (\<not> fingerprint_pattern (ls_broker_account_fingerprint s))
        ''broker_account_fingerprint: string_pattern_mismatch'' @
      pos_float_errors ''account_equity'' (ls_account_equity s) @
      nonneg_float_errors ''buying_power'' (ls_buying_power s) @
      concat (map live_position_errors (ls_positions s)) @
      optional_errors valuation_errors (ls_reporting s) @
      concat (map (\<lambda>(_, x). finite_errors ''index_prices'' x) (ls_index_prices s)))
     (require_unique_positions s)"

section \<open>Preflights and packets\<close>

record BrokerPreflight =
  bp_execution_profile_id :: string
  bp_broker_account_fingerprint :: string
  bp_account_equity :: pyfloat
  bp_buying_power :: pyfloat
  bp_ticker :: string
  bp_current_position_value :: pyfloat
  bp_bid :: pyfloat
  bp_ask :: pyfloat
  bp_quote_at :: instant
  bp_tradable :: bool
  bp_fractionable :: bool
  bp_regular_market_hours :: bool

definition require_ordered_quote :: "BrokerPreflight \<Rightarrow> (bool \<times> string) list" where
  "require_ordered_quote p = [(bp_ask p < bp_bid p, ''ask cannot be below bid'')]"

definition preflight_errors :: "BrokerPreflight \<Rightarrow> string list" where
  "preflight_errors p = model_errors
     (required_errors ''execution_profile_id'' (bp_execution_profile_id p) @
      error_if (\<not> fingerprint_pattern (bp_broker_account_fingerprint p))
        ''broker_account_fingerprint: string_pattern_mismatch'' @
      pos_float_errors ''account_equity'' (bp_account_equity p) @
      nonneg_float_errors ''buying_power'' (bp_buying_power p) @
      length_errors 0 12 ''ticker'' (bp_ticker p) @
      nonneg_float_errors ''current_position_value'' (bp_current_position_value p) @
      pos_float_errors ''bid'' (bp_bid p) @ pos_float_errors ''ask'' (bp_ask p))
     (require_ordered_quote p)"

record LiveExecutionPacket =
  pk_execution_packet_id :: string
  pk_order_intent_id :: string
  pk_decision_id :: string
  pk_execution_profile_id :: string
  pk_agent_provider :: AgentProvider
  pk_account_alias :: string
  pk_created_at :: instant
  pk_expires_at :: instant
  pk_ticker :: string
  pk_side :: OrderSide
  pk_order_type :: OrderType
  pk_target_weight :: pyfloat
  pk_account_equity :: pyfloat
  pk_current_position_value :: pyfloat
  pk_notional :: pyfloat
  pk_limit_price :: pyfloat
  pk_quote_at :: instant
  pk_spread_bps :: pyfloat
  pk_require_human_approval :: bool

definition require_consistent_times :: "LiveExecutionPacket \<Rightarrow> (bool \<times> string) list" where
  "require_consistent_times p =
     [(pk_created_at p < pk_quote_at p, ''quote_at cannot be after created_at''),
      (pk_expires_at p \<le> pk_created_at p, ''expires_at must be after created_at'')]"

definition packet_errors :: "LiveExecutionPacket \<Rightarrow> string list" where
  "packet_errors p = model_errors
     (required_errors ''execution_packet_id'' (pk_execution_packet_id p) @
      required_errors ''order_intent_id'' (pk_order_intent_id p) @
      required_errors ''decision_id'' (pk_decision_id p) @
      required_errors ''execution_profile_id'' (pk_execution_profile_id p) @
      required_errors ''account_alias'' (pk_account_alias p) @
      length_errors 1 12 ''ticker'' (pk_ticker p) @
      range_errors 0 1 ''target_weight'' (pk_target_weight p) @
      pos_float_errors ''account_equity'' (pk_account_equity p) @
      nonneg_float_errors ''current_position_value'' (pk_current_position_value p) @
      pos_float_errors ''notional'' (pk_notional p) @
      pos_float_errors ''limit_price'' (pk_limit_price p) @
      nonneg_float_errors ''spread_bps'' (pk_spread_bps p))
     (require_consistent_times p)"

section \<open>Broker records and events\<close>

datatype BrokerExecutionStatus = REVIEWED | SUBMITTED | FILLED | PARTIALLY_FILLED | CANCELED | FAILED

record BrokerExecutionRecord =
  br_broker_execution_record_id :: string
  br_order_intent_id :: string
  br_execution_packet_id :: string
  br_execution_profile_id :: string
  br_account_alias :: string
  br_ticker :: string
  br_side :: OrderSide
  br_order_type :: OrderType
  br_requested_notional :: pyfloat
  br_limit_price :: pyfloat
  br_submitted_at :: instant
  br_status :: BrokerExecutionStatus
  br_broker_order_id :: string
  br_execution_price :: pyfloat

definition require_execution_price_for_fills :: "BrokerExecutionRecord \<Rightarrow> (bool \<times> string) list" where
  "require_execution_price_for_fills r =
     [(br_status r \<in> {FILLED, PARTIALLY_FILLED} \<and> br_execution_price r \<le> 0,
       ''execution_price must be positive for filled executions'')]"

definition broker_record_errors :: "BrokerExecutionRecord \<Rightarrow> string list" where
  "broker_record_errors r = model_errors
     (required_errors ''broker_execution_record_id'' (br_broker_execution_record_id r) @
      required_errors ''order_intent_id'' (br_order_intent_id r) @
      required_errors ''execution_packet_id'' (br_execution_packet_id r) @
      required_errors ''execution_profile_id'' (br_execution_profile_id r) @
      required_errors ''account_alias'' (br_account_alias r) @
      length_errors 1 12 ''ticker'' (br_ticker r) @
      pos_float_errors ''requested_notional'' (br_requested_notional r) @
      nonneg_float_errors ''limit_price'' (br_limit_price r) @
      required_errors ''broker_order_id'' (br_broker_order_id r) @
      nonneg_float_errors ''execution_price'' (br_execution_price r))
     (require_execution_price_for_fills r)"

record BrokerExecutionEvent =
  be_broker_event_id :: string
  be_broker_execution_record_id :: string
  be_order_intent_id :: string
  be_execution_packet_id :: string
  be_execution_profile_id :: string
  be_status :: BrokerExecutionStatus
  be_occurred_at :: instant
  be_detail :: string

definition broker_event_errors :: "BrokerExecutionEvent \<Rightarrow> string list" where
  "broker_event_errors e =
     required_errors ''broker_event_id'' (be_broker_event_id e) @
     required_errors ''broker_execution_record_id'' (be_broker_execution_record_id e) @
     required_errors ''order_intent_id'' (be_order_intent_id e) @
     required_errors ''execution_packet_id'' (be_execution_packet_id e) @
     required_errors ''execution_profile_id'' (be_execution_profile_id e)"

section \<open>Reasoning runs\<close>

datatype ReasoningRunResult = PREPARED | NO_ACTION | DECISIONS_AUTHORED | RUN_FAILED

record ReasoningRun =
  rr_reasoning_run_id :: string
  rr_session_date :: pydate
  rr_slot :: string
  rr_execution_profile_id :: string
  rr_model_label :: string
  rr_shared_bundle_path :: string
  rr_shared_bundle_sha256 :: string
  rr_portfolio_snapshot_id :: string
  rr_started_at :: instant
  rr_completed_at :: "instant option"
  rr_result :: ReasoningRunResult
  rr_decision_ids :: "string list"
  rr_public_summary :: string

definition require_consistent_result :: "ReasoningRun \<Rightarrow> (bool \<times> string) list" where
  "require_consistent_result r =
     (\<not> distinct (rr_decision_ids r), ''decision_ids must be unique'') #
     (if rr_result r = PREPARED then
        [(rr_completed_at r \<noteq> None \<or> rr_decision_ids r \<noteq> [] \<or> rr_public_summary r \<noteq> [],
          ''PREPARED runs cannot contain completion data'')]
      else
        [(rr_completed_at r = None \<or> blank (rr_public_summary r),
          ''completed runs require completed_at and public_summary''),
         (rr_result r = NO_ACTION \<and> rr_decision_ids r \<noteq> [], ''NO_ACTION runs cannot contain decision_ids''),
         (rr_result r = DECISIONS_AUTHORED \<and> rr_decision_ids r = [],
          ''DECISIONS_AUTHORED runs require decision_ids'')])"

definition reasoning_run_errors :: "ReasoningRun \<Rightarrow> string list" where
  "reasoning_run_errors r = model_errors
     (required_errors ''reasoning_run_id'' (rr_reasoning_run_id r) @ required_errors ''slot'' (rr_slot r) @
      required_errors ''execution_profile_id'' (rr_execution_profile_id r) @
      required_errors ''model_label'' (rr_model_label r) @
      required_errors ''shared_bundle_path'' (rr_shared_bundle_path r) @
      error_if (length (rr_shared_bundle_sha256 r) \<noteq> 64 \<or> \<not> list_all hex_char (rr_shared_bundle_sha256 r))
        ''shared_bundle_sha256: string_pattern_mismatch'' @
      required_errors ''portfolio_snapshot_id'' (rr_portfolio_snapshot_id r))
     (require_consistent_result r)"

definition identifier_char :: "char \<Rightarrow> bool" where
  "identifier_char c = (handle_char c \<or> c = CHR ''.'' \<or> c = CHR ''-'')"

definition reasoning_run_id :: "pydate \<Rightarrow> string \<Rightarrow> string \<Rightarrow> string result" where
  "reasoning_run_id session_date slot profile =
     (let run_id = ''rr_'' @ date_isoformat session_date @ ''_'' @ slot @ ''_'' @ profile in
      if list_all identifier_char run_id then Inr run_id
      else Inl (ValueError ''reasoning run identifiers contain unsupported characters''))"

end
