(* ===== verification/Database.thy ===== *)
theory Database
  imports Store LiveSchemas
begin

text \<open>
  The tables of the decision and execution core (\<open>app/storage/database.py\<close>) and the functions that
  write them (\<open>app/storage/records.py\<close>, \<open>app/storage/policy_records.py\<close>). A table is its rows in
  insertion order; a JSON column is the record it encodes, since every record is reloaded through the
  validation that accepted it. A function that raises returns no state: its caller's transaction
  rolls the statements back.
\<close>

datatype DecisionStatus = DECISION_RECORD_CREATED | SCHEMA_VALIDATED | SCHEMA_FAILED
  | POLICY_APPROVED | POLICY_REJECTED | ORDER_INTENT_CREATED

record StatusEvent =
  se_subject_id :: string
  se_status :: DecisionStatus
  se_occurred_at :: instant
  se_detail :: string

record Component =
  cm_value :: pyfloat
  cm_points :: int

record RegimeSnapshot =
  rg_snapshot_date :: pydate
  rg_regime :: RegimeState
  rg_raw_regime :: RegimeState
  rg_score :: int
  rg_components :: "(string \<times> Component) list"
  rg_computed_at :: instant

record PolicyInputIdentity =
  pi_portfolio_snapshot_id :: "string option"
  pi_regime_snapshot_id :: "string option"
  pi_regime_snapshot_hash :: "string option"
  pi_current_weight :: "pyfloat option"

definition no_identity :: PolicyInputIdentity where
  "no_identity = \<lparr>pi_portfolio_snapshot_id = None, pi_regime_snapshot_id = None,
     pi_regime_snapshot_hash = None, pi_current_weight = None\<rparr>"

record PolicyEvaluationRecord =
  pe_decision_id :: string
  pe_execution_mode :: ExecutionMode
  pe_execution_profile_id :: string
  pe_evaluated_at :: instant
  pe_policy_version :: string
  pe_validator_version :: string
  pe_validator_schema_sha256 :: string
  pe_authored_schema_version :: "string option"
  pe_approved :: bool
  pe_reasons :: "string list"
  pe_checks :: "RuleCheck list"
  pe_portfolio :: "PortfolioInputs option"
  pe_true_regime_state :: "RegimeState option"
  pe_input_identity :: PolicyInputIdentity
  pe_regime_snapshot :: "RegimeSnapshot option"
  pe_portfolio_snapshot :: "LivePortfolioSnapshot option"

record RunDecisionLink =
  rl_reasoning_run_id :: string
  rl_decision_id :: string
  rl_submission_snapshot_id :: string

record core_db =
  decision_records :: "InvestmentDecisionRecord list"
  order_intents :: "OrderIntent list"
  status_events :: "StatusEvent list"
  policy_evaluations :: "PolicyEvaluationRecord list"
  regime_snapshots :: "RegimeSnapshot list"
  live_portfolio_snapshots :: "LivePortfolioSnapshot list"
  live_execution_packets :: "LiveExecutionPacket list"
  broker_execution_records :: "BrokerExecutionRecord list"
  broker_execution_events :: "BrokerExecutionEvent list"
  reasoning_runs :: "ReasoningRun list"
  reasoning_run_decisions :: "RunDecisionLink list"
  reporting_observations :: "ReportingObservation list"

definition empty_db :: core_db where
  "empty_db = \<lparr>decision_records = [], order_intents = [], status_events = [], policy_evaluations = [],
     regime_snapshots = [], live_portfolio_snapshots = [], live_execution_packets = [],
     broker_execution_records = [], broker_execution_events = [], reasoning_runs = [],
     reasoning_run_decisions = [], reporting_observations = []\<rparr>"

section \<open>Lookups\<close>

definition get_decision_record :: "core_db \<Rightarrow> string \<Rightarrow> InvestmentDecisionRecord option" where
  "get_decision_record db i = find_row decision_id i (decision_records db)"

definition get_order_intent :: "core_db \<Rightarrow> string \<Rightarrow> OrderIntent option" where
  "get_order_intent db i = find_row oi_order_intent_id i (order_intents db)"

definition get_execution_packet :: "core_db \<Rightarrow> string \<Rightarrow> LiveExecutionPacket option" where
  "get_execution_packet db i = find_row pk_execution_packet_id i (live_execution_packets db)"

definition get_broker_execution_record :: "core_db \<Rightarrow> string \<Rightarrow> BrokerExecutionRecord option" where
  "get_broker_execution_record db i = find_row br_broker_execution_record_id i (broker_execution_records db)"

definition get_live_portfolio_snapshot :: "core_db \<Rightarrow> string \<Rightarrow> LivePortfolioSnapshot option" where
  "get_live_portfolio_snapshot db i = find_row ls_portfolio_snapshot_id i (live_portfolio_snapshots db)"

definition get_reasoning_run :: "core_db \<Rightarrow> string \<Rightarrow> ReasoningRun option" where
  "get_reasoning_run db i = find_row rr_reasoning_run_id i (reasoning_runs db)"

lemmas lookup_defs = get_decision_record_def get_order_intent_def get_execution_packet_def
  get_broker_execution_record_def get_live_portfolio_snapshot_def get_reasoning_run_def

section \<open>Decisions and order intents\<close>

text \<open>
  Two records are equal in Python when their creation times are the same instant, whatever the offsets they were
  written with; so a record can be saved again under another offset, and the first one stays.
\<close>

definition same_decision :: "InvestmentDecisionRecord \<Rightarrow> InvestmentDecisionRecord \<Rightarrow> bool" where
  "same_decision r q = (r\<lparr>created_at := (fst (created_at r), 0)\<rparr> = q\<lparr>created_at := (fst (created_at q), 0)\<rparr>)"

definition save_decision_record :: "InvestmentDecisionRecord \<Rightarrow> core_db \<Rightarrow> (core_db \<times> bool) result" where
  "save_decision_record record db = (case get_decision_record db (decision_id record) of
     Some existing \<Rightarrow> if same_decision existing record then Inr (db, False)
       else Inl (ValueError (''decision record '' @ decision_id record @ '' already exists with different content''))
   | None \<Rightarrow> Inr (db\<lparr>decision_records := decision_records db @ [record]\<rparr>, True))"

lemma same_decision_refl [simp]: "same_decision r r"
  by (simp add: same_decision_def)

lemma same_decision_sym: "same_decision r q \<Longrightarrow> same_decision q r"
  by (simp add: same_decision_def)

lemma same_decision_trans: "same_decision r q \<Longrightarrow> same_decision q p \<Longrightarrow> same_decision r p"
  by (simp add: same_decision_def)

text \<open>The same decision differs in the offset only.\<close>

lemma same_decision_fields:
  assumes "same_decision r q"
  shows "q = r\<lparr>created_at := created_at q\<rparr>" and "fst (created_at q) = fst (created_at r)"
    and "decision_id q = decision_id r" and "decision q = decision r" and "ticker q = ticker r"
    and "final_target_weight q = final_target_weight r" and "asset_type q = asset_type r"
  using assms by (cases r; cases q; simp add: same_decision_def prod_eq_iff)+

definition save_order_intent :: "OrderIntent \<Rightarrow> core_db \<Rightarrow> (core_db \<times> bool) result" where
  "save_order_intent intent db = and_then
     (insert_once oi_order_intent_id (\<lambda>i j. oi_decision_id i = oi_decision_id j)
        (ValueError (''order intent '' @ oi_order_intent_id intent @ '' already exists with different content''))
        (ValueError (''decision '' @ oi_decision_id intent @ '' already has a different order intent''))
        intent (order_intents db))
     (\<lambda>(rows, new). Inr (db\<lparr>order_intents := rows\<rparr>, new))"

section \<open>Execution packets and broker records\<close>

text \<open>The sides are compared as \<open>INTENT_SIDES.get(...) != packet.side\<close>, so a missing side differs.\<close>

definition packet_guard :: "LiveExecutionPacket \<Rightarrow> core_db \<Rightarrow> unit result" where
  "packet_guard packet db = (case get_order_intent db (pk_order_intent_id packet) of
     None \<Rightarrow> Inl (ValueError (''missing order intent '' @ pk_order_intent_id packet))
   | Some intent \<Rightarrow>
       if oi_execution_mode intent \<noteq> LIVE
         then Inl (ValueError (''order intent '' @ pk_order_intent_id packet @ '' is not live''))
       else if oi_execution_profile_id intent \<noteq> pk_execution_profile_id packet
         then Inl (ValueError ''execution packet profile does not match its order intent'')
       else if oi_ticker intent \<noteq> pk_ticker packet \<or> oi_side intent \<noteq> pk_side packet \<or>
           oi_decision_id intent \<noteq> pk_decision_id packet \<or>
           oi_target_weight intent \<noteq> pk_target_weight packet \<or> oi_order_type intent \<noteq> pk_order_type packet
         then Inl (ValueError ''execution packet does not match its order intent'')
       else (case get_decision_record db (pk_decision_id packet) of
           None \<Rightarrow> Inl (ValueError ''execution packet requires its persisted decision'')
         | Some d \<Rightarrow>
             if ticker d \<noteq> pk_ticker packet \<or> final_target_weight d \<noteq> pk_target_weight packet \<or>
                 INTENT_SIDES (decision d) \<noteq> Some (pk_side packet)
               then Inl (ValueError ''execution packet does not match its decision'')
             else Inr ()))"

definition save_execution_packet :: "LiveExecutionPacket \<Rightarrow> core_db \<Rightarrow> (core_db \<times> bool) result" where
  "save_execution_packet packet db = and_then (packet_guard packet db) (\<lambda>_. and_then
     (insert_once pk_execution_packet_id (\<lambda>_ _. False)
        (ValueError (''execution packet '' @ pk_execution_packet_id packet @ '' has conflicting content''))
        (ValueError ''execution packet conflicts with an existing packet'')
        packet (live_execution_packets db))
     (\<lambda>(rows, new). Inr (db\<lparr>live_execution_packets := rows\<rparr>, new)))"

definition SUBMISSION_AFTER_REVIEW :: int where
  "SUBMISSION_AFTER_REVIEW = 120 * second"

definition review_event :: "core_db \<Rightarrow> string \<Rightarrow> string \<Rightarrow> BrokerExecutionEvent option" where
  "review_event db record_id packet_id = find (\<lambda>e. be_broker_execution_record_id e = record_id \<and>
     be_execution_packet_id e = packet_id \<and> be_status e = REVIEWED) (broker_execution_events db)"

definition broker_record_guard :: "BrokerExecutionRecord \<Rightarrow> core_db \<Rightarrow> unit result" where
  "broker_record_guard record db = (case get_order_intent db (br_order_intent_id record) of
     None \<Rightarrow> Inl (ValueError (''missing order intent '' @ br_order_intent_id record))
   | Some intent \<Rightarrow>
       if oi_execution_mode intent \<noteq> LIVE
         then Inl (ValueError (''order intent '' @ br_order_intent_id record @ '' is not live''))
       else if oi_ticker intent \<noteq> br_ticker record \<or> oi_side intent \<noteq> br_side record
         then Inl (ValueError ''broker execution does not match its order intent'')
       else if oi_execution_profile_id intent \<noteq> br_execution_profile_id record
         then Inl (ValueError ''broker execution profile does not match its order intent'')
       else if br_status record \<noteq> SUBMITTED
         then Inl (ValueError ''a broker execution record must begin at SUBMITTED'')
       else (case get_execution_packet db (br_execution_packet_id record) of
           None \<Rightarrow> Inl (ValueError (''missing execution packet '' @ br_execution_packet_id record))
         | Some packet \<Rightarrow>
             if pk_order_intent_id packet \<noteq> br_order_intent_id record \<or>
                 pk_execution_profile_id packet \<noteq> br_execution_profile_id record \<or>
                 pk_account_alias packet \<noteq> br_account_alias record \<or>
                 pk_order_type packet \<noteq> br_order_type record \<or>
                 pk_notional packet \<noteq> br_requested_notional record
               then Inl (ValueError ''broker execution does not match its execution packet'')
             else if pk_limit_price packet \<noteq> br_limit_price record
               then Inl (ValueError ''broker execution limit price does not match its execution packet'')
             else if br_submitted_at record < pk_created_at packet
               then Inl (ValueError ''broker submission precedes packet creation'')
             else (case review_event db (br_broker_execution_record_id record)
                   (br_execution_packet_id record) of
                 None \<Rightarrow> Inl (ValueError ''broker execution packet was never reviewed'')
               | Some review \<Rightarrow>
                   if br_submitted_at record < be_occurred_at review
                     then Inl (ValueError ''broker submission precedes its review'')
                   else if SUBMISSION_AFTER_REVIEW < br_submitted_at record - be_occurred_at review
                     then Inl (ValueError ''broker submission came too long after its review'')
                   else Inr ())))"

definition save_broker_execution_record :: "BrokerExecutionRecord \<Rightarrow> core_db \<Rightarrow> (core_db \<times> bool) result" where
  "save_broker_execution_record record db = and_then (broker_record_guard record db) (\<lambda>_. and_then
     (insert_once br_broker_execution_record_id
        (\<lambda>r q. br_order_intent_id r = br_order_intent_id q \<or> br_broker_order_id r = br_broker_order_id q)
        (ValueError (''broker execution '' @ br_broker_execution_record_id record @
           '' already exists with different content''))
        (ValueError ''order intent or broker order already has an execution record'')
        record (broker_execution_records db))
     (\<lambda>(rows, new). Inr (db\<lparr>broker_execution_records := rows\<rparr>, new)))"

section \<open>Reasoning runs\<close>

definition save_reasoning_run :: "ReasoningRun \<Rightarrow> core_db \<Rightarrow> (core_db \<times> bool) result" where
  "save_reasoning_run run db = and_then
     (insert_once rr_reasoning_run_id
        (\<lambda>r q. rr_session_date r = rr_session_date q \<and> rr_slot r = rr_slot q \<and>
           rr_execution_profile_id r = rr_execution_profile_id q)
        (ValueError ''reasoning run already exists with different content'')
        (ValueError ''reasoning run conflicts with an existing date, slot, or profile'')
        run (reasoning_runs db))
     (\<lambda>(rows, new). Inr (db\<lparr>reasoning_runs := rows\<rparr>, new))"

definition run_identity :: "ReasoningRun \<Rightarrow>
    pydate \<times> string \<times> string \<times> string \<times> string \<times> string \<times> string \<times> instant" where
  "run_identity r = (rr_session_date r, rr_slot r, rr_execution_profile_id r, rr_model_label r,
     rr_shared_bundle_path r, rr_shared_bundle_sha256 r, rr_portfolio_snapshot_id r, rr_started_at r)"

definition linked_decisions :: "core_db \<Rightarrow> string \<Rightarrow> string set" where
  "linked_decisions db run_id = set (map rl_decision_id
     (filter (\<lambda>l. rl_reasoning_run_id l = run_id) (reasoning_run_decisions db)))"

definition complete_reasoning_run :: "ReasoningRun \<Rightarrow> core_db \<Rightarrow> (core_db \<times> ReasoningRun) result" where
  "complete_reasoning_run completed db = (case get_reasoning_run db (rr_reasoning_run_id completed) of
     None \<Rightarrow> Inl (ValueError ''missing reasoning run'')
   | Some existing \<Rightarrow>
       if existing = completed then Inr (db, existing)
       else if rr_result existing \<noteq> PREPARED then Inl (ValueError ''reasoning run is already complete'')
       else if run_identity existing \<noteq> run_identity completed
         then Inl (ValueError ''completed reasoning run changes immutable content'')
       else if rr_result completed = PREPARED
         then Inl (ValueError ''completion requires a terminal result'')
       else if set (rr_decision_ids completed) \<noteq> linked_decisions db (rr_reasoning_run_id completed)
         then Inl (ValueError ''completed reasoning run decision_ids do not match linked decisions'')
       else Inr (db\<lparr>reasoning_runs := map (\<lambda>r. if rr_reasoning_run_id r = rr_reasoning_run_id completed \<and>
             rr_result r = PREPARED then completed else r) (reasoning_runs db)\<rparr>, completed))"

section \<open>Policy evaluations\<close>

text \<open>
  What the code gets from outside the modelled language: the SHA-256 of the decision schema and of a
  regime row, and the text of a validation error, cut at 500 characters.
\<close>

record Environment =
  env_schema_sha256 :: string
  env_row_sha256 :: "RegimeSnapshot \<Rightarrow> string"
  env_error_text :: "string list \<Rightarrow> string"

definition recorded_regime :: "Environment \<Rightarrow> PolicyInputIdentity \<Rightarrow> RegimeState option \<Rightarrow> instant \<Rightarrow>
    core_db \<Rightarrow> RegimeSnapshot option result" where
  "recorded_regime env identity truth evaluated_at db =
    (if pi_regime_snapshot_id identity \<in> {None, Some []} then Inr None
     else (case find_row (\<lambda>g. date_isoformat (rg_snapshot_date g))
             (the (pi_regime_snapshot_id identity)) (regime_snapshots db) of
        None \<Rightarrow> Inl (ValueError ''policy regime snapshot is missing'')
      | Some row \<Rightarrow>
          if pi_regime_snapshot_hash identity \<notin> {None, Some [], Some (env_row_sha256 env row)}
            then Inl (ValueError ''policy regime snapshot changed after it was selected'')
          else if evaluated_at < rg_computed_at row \<or> Some (rg_regime row) \<noteq> truth
            then Inl (ValueError ''policy regime snapshot does not match evaluation time or input'')
          else Inr (Some row)))"

fun theme_weights :: "string \<Rightarrow> pyfloat \<Rightarrow> LivePosition list \<Rightarrow> (string \<times> pyfloat) list \<Rightarrow>
    (string \<times> pyfloat) list result" where
  "theme_weights own equity [] weights = Inr weights"
| "theme_weights own equity (p # ps) weights =
     (if lpos_ticker p = own then theme_weights own equity ps weights
      else and_then (fdiv (lpos_market_value p) equity) (\<lambda>share.
        let theme = lpos_primary_theme_id p;
            old = (case map_of weights theme of None \<Rightarrow> 0 | Some w \<Rightarrow> w)
        in theme_weights own equity ps (AList.update theme (fadd old share) weights)))"

definition snapshot_facts_match :: "InvestmentDecisionRecord \<Rightarrow> PortfolioInputs option \<Rightarrow>
    LivePortfolioSnapshot \<Rightarrow> bool result" where
  "snapshot_facts_match record portfolio snap =
    (let positions = filter (\<lambda>p. 0 < lpos_market_value p) (ls_positions snap) in
     and_then (theme_weights (ticker record) (ls_account_equity snap) positions []) (\<lambda>weights.
       Inr (case portfolio of None \<Rightarrow> False | Some facts \<Rightarrow>
         holdings_count facts = int (length positions) \<and>
         set (map fst weights) = set (map fst (primary_theme_weights facts)) \<and>
         list_all (\<lambda>(theme, w). \<not> fl (1 / 10 ^ 9) <
           \<bar>fsub w (the (map_of (primary_theme_weights facts) theme))\<bar>) weights)))"

definition bound_snapshot :: "InvestmentDecisionRecord \<Rightarrow> PortfolioInputs option \<Rightarrow> instant \<Rightarrow>
    PolicyInputIdentity \<Rightarrow> ExecutionMode \<Rightarrow> string \<Rightarrow> core_db \<Rightarrow> LivePortfolioSnapshot option result" where
  "bound_snapshot record portfolio evaluated_at identity mode profile db =
    (if pi_portfolio_snapshot_id identity \<in> {None, Some []} then Inr None
     else (case get_live_portfolio_snapshot db (the (pi_portfolio_snapshot_id identity)) of
        None \<Rightarrow> Inl (ValueError ''policy portfolio snapshot is missing'')
      | Some snap \<Rightarrow>
          if mode \<noteq> LIVE \<or> ls_execution_profile_id snap \<noteq> profile
            then Inl (ValueError ''policy portfolio snapshot does not match execution profile'')
          else and_then (snapshot_facts_match record portfolio snap) (\<lambda>match.
            if \<not> match then Inl (ValueError ''portfolio facts contradict the bound snapshot'')
            else if evaluated_at < ls_captured_at snap
              then Inl (ValueError ''policy portfolio snapshot follows evaluation'')
            else and_then (fdiv (fsum (map lpos_market_value
                (filter (\<lambda>p. lpos_ticker p = ticker record) (ls_positions snap)))) (ls_account_equity snap))
              (\<lambda>weight. case pi_current_weight identity of
                 Some w \<Rightarrow> if fl (1 / 10 ^ 9) < \<bar>fsub w weight\<bar>
                   then Inl (ValueError ''current weight does not match bound snapshot'')
                   else Inr (Some snap)
               | None \<Rightarrow> Inr (Some snap)))))"

definition save_policy_evaluation :: "Environment \<Rightarrow> InvestmentDecisionRecord \<Rightarrow> PolicyResult \<Rightarrow>
    PortfolioInputs option \<Rightarrow> RegimeState option \<Rightarrow> instant \<Rightarrow> PolicyInputIdentity option \<Rightarrow>
    ExecutionMode \<Rightarrow> string \<Rightarrow> core_db \<Rightarrow> (core_db \<times> PolicyEvaluationRecord) result" where
  "save_policy_evaluation env record result portfolio truth evaluated_at identity mode profile db =
    (let ident = (case identity of None \<Rightarrow> no_identity | Some i \<Rightarrow> i) in
     and_then (recorded_regime env ident truth evaluated_at db) (\<lambda>regime.
     and_then (bound_snapshot record portfolio evaluated_at ident mode profile db) (\<lambda>snap.
       let evaluation = \<lparr>pe_decision_id = decision_id record, pe_execution_mode = mode,
             pe_execution_profile_id = profile, pe_evaluated_at = evaluated_at,
             pe_policy_version = POLICY_VERSION, pe_validator_version = VALIDATOR_VERSION,
             pe_validator_schema_sha256 = env_schema_sha256 env,
             pe_authored_schema_version = schema_version record,
             pe_approved = approved result, pe_reasons = reasons result, pe_checks = checks result,
             pe_portfolio = portfolio, pe_true_regime_state = truth, pe_input_identity = ident,
             pe_regime_snapshot = regime, pe_portfolio_snapshot = snap\<rparr>
       in if get_decision_record db (decision_id record) = None \<and>
             find_row pe_decision_id (decision_id record) (policy_evaluations db) = None
            then Inl IntegrityError
          else and_then (insert_once pe_decision_id (\<lambda>_ _. False)
            (ValueError ''policy evaluation is immutable'') IntegrityError evaluation (policy_evaluations db))
            (\<lambda>(rows, _). Inr (db\<lparr>policy_evaluations := rows\<rparr>, evaluation)))))"

section \<open>The stores\<close>

lemma same_id_put_get [simp]:
  "db\<lparr>decision_records := decision_records db\<rparr> = db" "db\<lparr>order_intents := order_intents db\<rparr> = db"
  "db\<lparr>live_execution_packets := live_execution_packets db\<rparr> = db"
  "db\<lparr>broker_execution_records := broker_execution_records db\<rparr> = db"
  "db\<lparr>reasoning_runs := reasoning_runs db\<rparr> = db" "db\<lparr>policy_evaluations := policy_evaluations db\<rparr> = db"
  "db\<lparr>live_portfolio_snapshots := live_portfolio_snapshots db\<rparr> = db"
  "db\<lparr>reporting_observations := reporting_observations db\<rparr> = db"
  "db\<lparr>broker_execution_events := broker_execution_events db\<rparr> = db"
  by simp_all

lemma guards_put [simp]:
  "packet_guard p (db\<lparr>live_execution_packets := ps\<rparr>) = packet_guard p db"
  "broker_record_guard r (db\<lparr>broker_execution_records := rs\<rparr>) = broker_record_guard r db"
  unfolding packet_guard_def broker_record_guard_def lookup_defs review_event_def
  by (simp_all cong: option.case_cong if_cong)

text \<open>Decisions are immutable too, up to the offset of their creation time.\<close>

lemma save_decision_cases:
  assumes "save_decision_record r db = Inr (db', b)"
  obtains (again) q where "db' = db" "\<not> b" "get_decision_record db (decision_id r) = Some q" "same_decision q r"
    | (new) "db' = db\<lparr>decision_records := decision_records db @ [r]\<rparr>" "b" "get_decision_record db (decision_id r) = None"
  using assms by (auto simp: save_decision_record_def split: option.splits if_splits)

lemma save_decision_keeps:
  assumes "save_decision_record r db = Inr (db', b)" and "get_decision_record db i = Some q"
  shows "get_decision_record db' i = Some q"
  using assms(1) by (rule save_decision_cases) (use assms(2) in \<open>auto simp: get_decision_record_def find_row_append\<close>)

lemma save_decision_stores:
  assumes "save_decision_record r db = Inr (db', b)"
  obtains q where "get_decision_record db' (decision_id r) = Some q" "same_decision q r"
  using assms by (rule save_decision_cases) (auto simp: get_decision_record_def find_row_append)

interpretation intents: guarded_table order_intents "\<lambda>rows db. db\<lparr>order_intents := rows\<rparr>"
    "\<lambda>_ _. Inr ()" oi_order_intent_id "\<lambda>i j. oi_decision_id i = oi_decision_id j"
    "\<lambda>i. ValueError (''order intent '' @ oi_order_intent_id i @ '' already exists with different content'')"
    "\<lambda>i. ValueError (''decision '' @ oi_decision_id i @ '' already has a different order intent'')"
    save_order_intent
  by unfold_locales (simp_all add: save_order_intent_def)

interpretation packets: guarded_table live_execution_packets "\<lambda>rows db. db\<lparr>live_execution_packets := rows\<rparr>"
    packet_guard pk_execution_packet_id "\<lambda>_ _. False"
    "\<lambda>p. ValueError (''execution packet '' @ pk_execution_packet_id p @ '' has conflicting content'')"
    "\<lambda>_. ValueError ''execution packet conflicts with an existing packet''" save_execution_packet
  by unfold_locales (simp_all add: save_execution_packet_def)

interpretation executions: guarded_table broker_execution_records
    "\<lambda>rows db. db\<lparr>broker_execution_records := rows\<rparr>" broker_record_guard br_broker_execution_record_id
    "\<lambda>r q. br_order_intent_id r = br_order_intent_id q \<or> br_broker_order_id r = br_broker_order_id q"
    "\<lambda>r. ValueError (''broker execution '' @ br_broker_execution_record_id r @
       '' already exists with different content'')"
    "\<lambda>_. ValueError ''order intent or broker order already has an execution record''"
    save_broker_execution_record
  by unfold_locales (simp_all add: save_broker_execution_record_def)

interpretation runs: guarded_table reasoning_runs "\<lambda>rows db. db\<lparr>reasoning_runs := rows\<rparr>"
    "\<lambda>_ _. Inr ()" rr_reasoning_run_id
    "\<lambda>r q. rr_session_date r = rr_session_date q \<and> rr_slot r = rr_slot q \<and>
       rr_execution_profile_id r = rr_execution_profile_id q"
    "\<lambda>_. ValueError ''reasoning run already exists with different content''"
    "\<lambda>_. ValueError ''reasoning run conflicts with an existing date, slot, or profile''" save_reasoning_run
  by unfold_locales (simp_all add: save_reasoning_run_def)

end
