(* ===== verification/Lifecycles.thy ===== *)
theory Lifecycles
  imports Prelude
begin

text \<open>
  Status machines. A subject's history is the list of its statuses, oldest first; \<open>legal\<close> gives the
  statuses that may follow the latest one (\<open>None\<close> before the first). The locale \<open>status_machine\<close>
  carries a rank that never decreases along a transition, \<open>one_way\<close> a rank that always increases.
\<close>

definition latest :: "'s list \<Rightarrow> 's option" where
  "latest history = (if history = [] then None else Some (last history))"

lemma latest_simps [simp]: "latest [] = None" "latest (xs @ [s]) = Some s"
  by (simp_all add: latest_def)

lemma latest_None [simp]: "latest xs = None \<longleftrightarrow> xs = []"
  by (simp add: latest_def)

lemma latest_Some: "latest xs = Some s \<longleftrightarrow> xs \<noteq> [] \<and> last xs = s"
  by (auto simp: latest_def)

lemma latest_in: "latest xs = Some s \<Longrightarrow> s \<in> set xs"
  by (auto simp: latest_Some)

fun legal_path :: "('s option \<Rightarrow> 's set) \<Rightarrow> 's option \<Rightarrow> 's list \<Rightarrow> bool" where
  "legal_path legal current [] = True"
| "legal_path legal current (s # ss) = (s \<in> legal current \<and> legal_path legal (Some s) ss)"

lemma legal_path_append:
  "legal_path legal c (xs @ ys) \<longleftrightarrow>
     legal_path legal c xs \<and> legal_path legal (if xs = [] then c else Some (last xs)) ys"
  by (induction xs arbitrary: c) auto

lemma legal_path_snoc:
  "legal_path legal None (xs @ [s]) \<longleftrightarrow> legal_path legal None xs \<and> s \<in> legal (latest xs)"
  by (simp add: legal_path_append latest_def)

locale status_machine =
  fixes legal :: "'s option \<Rightarrow> 's set"
    and rank :: "'s \<Rightarrow> nat"
  assumes rank_mono: "t \<in> legal (Some s) \<Longrightarrow> rank s \<le> rank t"
begin

abbreviation path :: "'s list \<Rightarrow> bool" where
  "path \<equiv> legal_path legal None"

lemma path_from_ranks: "legal_path legal (Some s) xs \<Longrightarrow> x \<in> set xs \<Longrightarrow> rank s \<le> rank x"
proof (induction xs arbitrary: s)
  case (Cons y ys)
  then have "rank s \<le> rank y" using rank_mono by simp
  with Cons show ?case by (auto intro: order_trans)
qed simp

lemma path_sorted: "legal_path legal c xs \<Longrightarrow> sorted (map rank xs)"
proof (induction xs arbitrary: c)
  case (Cons y ys)
  then show ?case using path_from_ranks by auto
qed simp

lemma path_rank_latest: "path xs \<Longrightarrow> latest xs = Some s \<Longrightarrow> x \<in> set xs \<Longrightarrow> rank x \<le> rank s"
  by (cases xs rule: rev_cases) (auto dest!: path_sorted simp: sorted_append)

text \<open>A status nothing may follow can only be the last.\<close>

lemma terminal_last: "path xs \<Longrightarrow> s \<in> set xs \<Longrightarrow> legal (Some s) = {} \<Longrightarrow> latest xs = Some s"
proof (induction xs rule: rev_induct)
  case (snoc x xs)
  then show ?case by (auto simp: legal_path_snoc)
qed simp

lemma terminal_absorbing:
  "path (xs @ [t]) \<Longrightarrow> s \<in> set xs \<Longrightarrow> legal (Some s) \<noteq> {}"
  using terminal_last [of xs s] by (auto simp: legal_path_snoc)

lemma path_first: "path xs \<Longrightarrow> xs \<noteq> [] \<Longrightarrow> hd xs \<in> legal None"
  by (cases xs) auto

end

locale one_way = status_machine +
  assumes rank_strict: "t \<in> legal (Some s) \<Longrightarrow> rank s < rank t"
begin

lemma path_from_strict: "legal_path legal (Some s) xs \<Longrightarrow> x \<in> set xs \<Longrightarrow> rank s < rank x"
proof (induction xs arbitrary: s)
  case (Cons y ys)
  then have "rank s < rank y" using rank_strict by simp
  with Cons show ?case by (auto intro: less_trans)
qed simp

lemma path_distinct: "legal_path legal c xs \<Longrightarrow> distinct xs"
proof (induction xs arbitrary: c)
  case (Cons y ys)
  then show ?case using path_from_strict by fastforce
qed simp

lemma step_new: "path xs \<Longrightarrow> s \<in> legal (latest xs) \<Longrightarrow> s \<notin> set xs"
  using path_distinct [of None "xs @ [s]"] by (simp add: legal_path_snoc)

end

end
