(* ===== verification/Pipeline.thy ===== *)
theory Pipeline
  imports Database Lifecycles
begin

text \<open>
  The decision pipeline (\<open>app/state/pipeline.py\<close>): validation, the immutable record, policy
  evaluation and order intent of one submitted decision, with its append-only status history.
  \<open>process_decision_body\<close> is \<open>_process_decision\<close>; \<open>process_decision\<close> adds the transaction around
  it. \<open>env\<close> carries the hashes and the error text the code computes outside the model.
\<close>

fun LEGAL_TRANSITIONS :: "DecisionStatus option \<Rightarrow> DecisionStatus set" where
  "LEGAL_TRANSITIONS None = {DECISION_RECORD_CREATED, SCHEMA_FAILED}"
| "LEGAL_TRANSITIONS (Some DECISION_RECORD_CREATED) = {SCHEMA_VALIDATED}"
| "LEGAL_TRANSITIONS (Some SCHEMA_VALIDATED) = {POLICY_APPROVED, POLICY_REJECTED}"
| "LEGAL_TRANSITIONS (Some POLICY_APPROVED) = {ORDER_INTENT_CREATED}"
| "LEGAL_TRANSITIONS (Some POLICY_REJECTED) = {}"
| "LEGAL_TRANSITIONS (Some SCHEMA_FAILED) = {}"
| "LEGAL_TRANSITIONS (Some ORDER_INTENT_CREATED) = {}"

record ProcessOutcome =
  po_decision_id :: "string option"
  po_final_status :: DecisionStatus
  po_policy_reasons :: "string list"
  po_order_intent_id :: "string option"

definition subject_events :: "core_db \<Rightarrow> string \<Rightarrow> StatusEvent list" where
  "subject_events db subject = filter (\<lambda>e. se_subject_id e = subject) (status_events db)"

definition history :: "core_db \<Rightarrow> string \<Rightarrow> DecisionStatus list" where
  "history db subject = map se_status (subject_events db subject)"

definition latest_status :: "core_db \<Rightarrow> string \<Rightarrow> DecisionStatus option" where
  "latest_status db subject = latest (history db subject)"

definition append_status :: "string \<Rightarrow> DecisionStatus \<Rightarrow> string \<Rightarrow> instant \<Rightarrow> core_db \<Rightarrow> (core_db \<times> bool) result" where
  "append_status subject status detail occurred_at db =
     (if status \<in> set (history db subject) then Inr (db, False)
      else if status \<notin> LEGAL_TRANSITIONS (latest (history db subject))
        then Inl (ValueError (''illegal status transition for '' @ subject))
      else Inr (db\<lparr>status_events := status_events db @ [\<lparr>se_subject_id = subject, se_status = status,
          se_occurred_at = occurred_at, se_detail = detail\<rparr>]\<rparr>, True))"

definition rejection_detail :: "core_db \<Rightarrow> string \<Rightarrow> string" where
  "rejection_detail db subject =
     se_detail (last (filter (\<lambda>e. se_status e = POLICY_REJECTED) (subject_events db subject)))"

definition parse_reasons :: "string \<Rightarrow> string list" where
  "parse_reasons detail = filter (\<lambda>r. r \<noteq> []) (map strip (split_at_char CHR '','' detail))"

text \<open>
  What is submitted: fields of the right types, or data pydantic rejects before any field rule
  (with the \<open>decision_id\<close> it carries when that is a string).
\<close>

datatype submission = Draft InvestmentDecisionRecord | Malformed "string option" "string list"

fun submission_id :: "submission \<Rightarrow> string option" where
  "submission_id (Draft r) = (if decision_id r = [] then None else Some (decision_id r))"
| "submission_id (Malformed i errors) = (if i = Some [] then None else i)"

fun model_validate :: "submission \<Rightarrow> InvestmentDecisionRecord result" where
  "model_validate (Draft r) = validate_record r"
| "model_validate (Malformed i errors) = Inl (ValidationError errors)"

definition outcome :: "string option \<Rightarrow> DecisionStatus \<Rightarrow> string list \<Rightarrow> string option \<Rightarrow> ProcessOutcome" where
  "outcome i status rs intent = \<lparr>po_decision_id = i, po_final_status = status, po_policy_reasons = rs,
     po_order_intent_id = intent\<rparr>"

definition status_of :: "(core_db \<times> bool) result \<Rightarrow> core_db result" where
  "status_of r = and_then r (\<lambda>p. Inr (fst p))"

text \<open>The last steps shared by a new decision and a resumed one: the intent and its status.\<close>

definition finish_with_intent :: "InvestmentDecisionRecord \<Rightarrow> PolicyResult \<Rightarrow> instant \<Rightarrow> ExecutionMode \<Rightarrow>
    string \<Rightarrow> core_db \<Rightarrow> (core_db \<times> ProcessOutcome) result" where
  "finish_with_intent record result now mode profile db =
     and_then (case get_order_intent db (''oi_'' @ decision_id record) of
         Some intent \<Rightarrow> Inr (db, intent)
       | None \<Rightarrow> and_then (create_order_intent now record result (Some now) mode profile) (\<lambda>intent.
           and_then (save_order_intent intent db) (\<lambda>(db', _). Inr (db', intent))))
     (\<lambda>(db', intent). and_then
       (status_of (append_status (decision_id record) ORDER_INTENT_CREATED [] now db')) (\<lambda>db''.
         Inr (db'', outcome (Some (decision_id record)) ORDER_INTENT_CREATED [] (Some (oi_order_intent_id intent)))))"

text \<open>A replay of a decision already recorded; \<open>None\<close> is the fall-through to full processing.\<close>

definition replay :: "InvestmentDecisionRecord \<Rightarrow> InvestmentDecisionRecord \<Rightarrow> instant \<Rightarrow> ExecutionMode \<Rightarrow> string \<Rightarrow>
    core_db \<Rightarrow> (core_db \<times> ProcessOutcome) option result" where
  "replay existing record now mode profile db =
    (let i = decision_id record; current = latest_status db i in
     if (case find_row pe_decision_id i (policy_evaluations db) of None \<Rightarrow> False
         | Some e \<Rightarrow> pe_execution_mode e \<noteq> mode \<or> pe_execution_profile_id e \<noteq> profile)
       then Inl (ValueError ''decision replay execution scope mismatch'')
     else if \<not> same_decision existing record
       then Inl (ValueError (''decision record '' @ i @ '' already exists with different content''))
     else if current = Some ORDER_INTENT_CREATED then
       (case get_order_intent db (''oi_'' @ i) of
          None \<Rightarrow> Inl (ValueError (''decision '' @ i @ '' reached order_intent_created without an intent''))
        | Some intent \<Rightarrow> if oi_execution_mode intent \<noteq> mode \<or> oi_execution_profile_id intent \<noteq> profile
            then Inl (ValueError ''decision replay execution scope mismatch'')
            else Inr (Some (db, outcome (Some i) ORDER_INTENT_CREATED [] (Some (oi_order_intent_id intent)))))
     else if current = Some POLICY_REJECTED then
       Inr (Some (db, outcome (Some i) POLICY_REJECTED (parse_reasons (rejection_detail db i)) None))
     else if current = Some POLICY_APPROVED then
       (if \<not> actionable (decision record) then Inr (Some (db, outcome (Some i) POLICY_APPROVED [] None))
        else and_then (finish_with_intent record \<lparr>approved = True, reasons = [], checks = []\<rparr> now mode profile db)
          (\<lambda>r. Inr (Some r)))
     else Inr None)"

definition process_new :: "Environment \<Rightarrow> InvestmentDecisionRecord \<Rightarrow> PortfolioInputs option \<Rightarrow>
    RegimeState option \<Rightarrow> instant \<Rightarrow> PolicyInputIdentity option \<Rightarrow> ExecutionMode \<Rightarrow> string \<Rightarrow> core_db \<Rightarrow>
    (core_db \<times> ProcessOutcome) result" where
  "process_new env record portfolio truth now identity mode profile db =
    (let i = decision_id record in
     if now < fst (created_at record) then
       and_then (status_of (append_status i SCHEMA_FAILED ''created_at_cannot_be_in_future'' now db)) (\<lambda>db'.
         Inr (db', outcome (Some i) SCHEMA_FAILED [] None))
     else
       and_then (save_decision_record record db) (\<lambda>(db1, _).
       and_then (status_of (append_status i DECISION_RECORD_CREATED [] now db1)) (\<lambda>db2.
       and_then (status_of (append_status i SCHEMA_VALIDATED [] now db2)) (\<lambda>db3.
       let result = evaluate_decision_policy record portfolio truth in
       and_then (save_policy_evaluation env record result portfolio truth now identity mode profile db3) (\<lambda>(db4, _).
       if \<not> approved result then
         and_then (status_of (append_status i POLICY_REJECTED (join '', '' (reasons result)) now db4)) (\<lambda>db5.
           Inr (db5, outcome (Some i) POLICY_REJECTED (reasons result) None))
       else
         and_then (status_of (append_status i POLICY_APPROVED [] now db4)) (\<lambda>db5.
           if \<not> actionable (decision record) then Inr (db5, outcome (Some i) POLICY_APPROVED [] None)
           else finish_with_intent record result now mode profile db5))))))"

definition process_decision_body :: "Environment \<Rightarrow> submission \<Rightarrow> PortfolioInputs option \<Rightarrow>
    RegimeState option \<Rightarrow> instant \<Rightarrow> PolicyInputIdentity option \<Rightarrow> ExecutionMode \<Rightarrow> string \<Rightarrow> core_db \<Rightarrow>
    (core_db \<times> ProcessOutcome) result" where
  "process_decision_body env sub portfolio truth now identity mode profile db =
    (case model_validate sub of
       Inl error \<Rightarrow> and_then
         (case submission_id sub of None \<Rightarrow> Inr db
          | Some i \<Rightarrow> status_of (append_status i SCHEMA_FAILED
              (env_error_text env (case error of ValidationError es \<Rightarrow> es | _ \<Rightarrow> [])) now db))
         (\<lambda>db'. Inr (db', outcome (submission_id sub) SCHEMA_FAILED [] None))
     | Inr record \<Rightarrow> and_then
         (case get_decision_record db (decision_id record) of None \<Rightarrow> Inr None
          | Some existing \<Rightarrow> replay existing record now mode profile db)
         (\<lambda>r. case r of Some done \<Rightarrow> Inr done
          | None \<Rightarrow> process_new env record portfolio truth now identity mode profile db))"

section \<open>The transaction\<close>

text \<open>
  A connection: what is committed, what its open transaction sees, and whether one is open. The
  savepoint of \<open>process_decision\<close> keeps the state to roll back to.
\<close>

record 'd conn =
  committed :: 'd
  working :: 'd
  in_transaction :: bool

definition begin_tx :: "'d conn \<Rightarrow> 'd conn" where
  "begin_tx c = (if in_transaction c then c else c\<lparr>working := committed c, in_transaction := True\<rparr>)"

definition commit :: "'d conn \<Rightarrow> 'd conn" where
  "commit c = (if in_transaction c then c\<lparr>committed := working c, in_transaction := False\<rparr> else c)"

definition rollback :: "'d conn \<Rightarrow> 'd conn" where
  "rollback c = c\<lparr>working := committed c, in_transaction := False\<rparr>"

definition process_decision :: "Environment \<Rightarrow> submission \<Rightarrow> PortfolioInputs option \<Rightarrow>
    RegimeState option \<Rightarrow> instant \<Rightarrow> PolicyInputIdentity option \<Rightarrow> ExecutionMode \<Rightarrow> string \<Rightarrow> bool \<Rightarrow>
    core_db conn \<Rightarrow> core_db conn \<times> ProcessOutcome result" where
  "process_decision env sub portfolio truth now identity mode profile commit_flag c =
    (let started = \<not> in_transaction c; c1 = begin_tx c; savepoint = working c1 in
     case process_decision_body env sub portfolio truth now identity mode profile (working c1) of
       Inl e \<Rightarrow> let c2 = c1\<lparr>working := savepoint\<rparr> in ((if started then rollback c2 else c2), Inl e)
     | Inr (db, out) \<Rightarrow> let c2 = c1\<lparr>working := db\<rparr> in ((if commit_flag then commit c2 else c2), Inr out))"

section \<open>The status machine\<close>

fun status_rank :: "DecisionStatus \<Rightarrow> nat" where
  "status_rank DECISION_RECORD_CREATED = 0"
| "status_rank SCHEMA_VALIDATED = 1"
| "status_rank SCHEMA_FAILED = 4"
| "status_rank POLICY_APPROVED = 2"
| "status_rank POLICY_REJECTED = 3"
| "status_rank ORDER_INTENT_CREATED = 3"

lemma legal_rank: "t \<in> LEGAL_TRANSITIONS (Some s) \<Longrightarrow> status_rank s < status_rank t"
  by (cases s) auto

interpretation decision_status: one_way LEGAL_TRANSITIONS status_rank
  by unfold_locales (auto dest: legal_rank)

lemma subject_events_append [simp]:
  "subject_events (db\<lparr>status_events := status_events db @ [e]\<rparr>) i =
     subject_events db i @ (if se_subject_id e = i then [e] else [])"
  by (simp add: subject_events_def)

lemma subject_events_frame [simp]:
  "subject_events (db\<lparr>decision_records := a\<rparr>) = subject_events db"
  "subject_events (db\<lparr>order_intents := b\<rparr>) = subject_events db"
  "subject_events (db\<lparr>policy_evaluations := c\<rparr>) = subject_events db"
  by (simp_all add: subject_events_def fun_eq_iff)

lemma history_append [simp]:
  "history (db\<lparr>status_events := status_events db @ [e]\<rparr>) i =
     history db i @ (if se_subject_id e = i then [se_status e] else [])"
  by (simp add: history_def)

lemma history_frame [simp]:
  "history (db\<lparr>decision_records := a\<rparr>) = history db"
  "history (db\<lparr>order_intents := b\<rparr>) = history db"
  "history (db\<lparr>policy_evaluations := c\<rparr>) = history db"
  by (simp_all add: history_def fun_eq_iff)

lemma status_of_append:
  assumes "status_of (append_status i s d t db) = Inr db'"
  obtains "db' = db" "s \<in> set (history db i)"
    | "db' = db\<lparr>status_events := status_events db @ [\<lparr>se_subject_id = i, se_status = s,
        se_occurred_at = t, se_detail = d\<rparr>]\<rparr>" "s \<notin> set (history db i)"
      "s \<in> LEGAL_TRANSITIONS (latest (history db i))"
  using assms by (auto simp: status_of_def append_status_def result_simps split: if_splits)

lemma append_status_frame:
  assumes "status_of (append_status i s d t db) = Inr db'"
  shows "decision_records db' = decision_records db" and "order_intents db' = order_intents db"
    and "policy_evaluations db' = policy_evaluations db"
    and "s \<in> set (history db' i)" and "j \<noteq> i \<Longrightarrow> history db' j = history db j"
  using assms by (auto elim!: status_of_append)

section \<open>Rejection reasons survive their text\<close>

lemma split_join:
  assumes "\<forall>r\<in>set rs. reason_token r"
  shows "parse_reasons (join '', '' rs) = rs"
proof -
  have strips: "strip r = r" "strip (CHR '' '' # r) = r" if "reason_token r" for r
  proof -
    from that have r: "r \<noteq> []" "\<forall>c\<in>set r. \<not> py_isspace c" by (auto simp: reason_token_def list_all_iff)
    then show "strip r = r" by (intro strip_id) auto
    have "dropWhile py_isspace (CHR '' '' # r) = r"
      using r by (cases r) (auto simp: py_isspace_def)
    moreover have "dropWhile py_isspace (rev r) = rev r"
      using r by (intro dropWhile_fix) (auto simp: hd_rev)
    ultimately show "strip (CHR '' '' # r) = r" unfolding strip_def by simp
  qed
  have tail: "filter (\<lambda>r. r \<noteq> []) (map strip (split_at_char CHR '','' (CHR '' '' # join '', '' qs))) = qs"
    if "\<forall>r\<in>set qs. reason_token r" "qs \<noteq> []" for qs
    using that
  proof (induction qs rule: induct_list012)
    case (2 q)
    then have "CHR '','' \<notin> set (CHR '' '' # q)" "q \<noteq> []" by (auto simp: reason_token_def)
    then show ?case using 2 strips(2) [of q] split_at_char_none [of "CHR '',''" "CHR '' '' # q"] by simp
  next
    case (3 q q' qs)
    then have q: "CHR '','' \<notin> set (CHR '' '' # q)" "q \<noteq> []" by (auto simp: reason_token_def)
    have "split_at_char CHR '','' (CHR '' '' # join '', '' (q # q' # qs)) =
        (CHR '' '' # q) # split_at_char CHR '','' (CHR '' '' # join '', '' (q' # qs))"
      using split_at_char_prefix [OF q(1), of "CHR '' '' # join '', '' (q' # qs)"] by simp
    then show ?case using 3 strips(2) [of q] q by simp
  qed simp
  show ?thesis
  proof (cases rs)
    case Nil
    then show ?thesis by (simp add: parse_reasons_def strip_def)
  next
    case (Cons q qs)
    then have q: "CHR '','' \<notin> set q" "q \<noteq> []" "reason_token q" using assms by (auto simp: reason_token_def)
    show ?thesis
    proof (cases qs)
      case Nil
      then show ?thesis using Cons q strips by (simp add: parse_reasons_def split_at_char_none)
    next
      case (Cons q' qs')
      have "split_at_char CHR '','' (join '', '' rs) =
          q # split_at_char CHR '','' (CHR '' '' # join '', '' qs)"
        using split_at_char_prefix [OF q(1), of "CHR '' '' # join '', '' qs"] \<open>rs = q # qs\<close> Cons by simp
      then show ?thesis
        using tail [of qs] q strips(1) [of q] assms \<open>rs = q # qs\<close> Cons by (simp add: parse_reasons_def)
    qed
  qed
qed

end
