(* ===== verification/PipelineInvariant.thy ===== *)
theory PipelineInvariant
  imports Pipeline
begin

text \<open>
  The invariant of the pipeline's tables, kept by every step of \<open>process_decision\<close>: legal status
  histories, validated records, and order intents only for decisions that were approved.
\<close>

definition evaluation_of :: "core_db \<Rightarrow> string \<Rightarrow> PolicyEvaluationRecord option" where
  "evaluation_of db i = find_row pe_decision_id i (policy_evaluations db)"

definition paths_ok :: "core_db \<Rightarrow> bool" where
  "paths_ok db = (\<forall>i. legal_path LEGAL_TRANSITIONS None (history db i))"

definition records_ok :: "core_db \<Rightarrow> bool" where
  "records_ok db = (\<forall>r\<in>set (decision_records db). validate_record r = Inr r)"

definition intent_backed :: "core_db \<Rightarrow> OrderIntent \<Rightarrow> bool" where
  "intent_backed db x = (\<exists>r e. get_decision_record db (oi_decision_id x) = Some r \<and>
     evaluation_of db (oi_decision_id x) = Some e \<and> pe_approved e \<and>
     pe_execution_mode e = oi_execution_mode x \<and> pe_execution_profile_id e = oi_execution_profile_id x \<and>
     INTENT_SIDES (decision r) = Some (oi_side x) \<and> oi_ticker x = ticker r \<and>
     oi_target_weight x = final_target_weight r \<and> oi_order_type x = LIMIT \<and>
     oi_order_intent_id x = ''oi_'' @ oi_decision_id x)"

definition intents_ok :: "core_db \<Rightarrow> bool" where
  "intents_ok db = (\<forall>x\<in>set (order_intents db). intent_backed db x)"

definition status_backed :: "core_db \<Rightarrow> string \<Rightarrow> DecisionStatus \<Rightarrow> bool" where
  "status_backed db i s = (case s of
     POLICY_APPROVED \<Rightarrow> (\<exists>r e. get_decision_record db i = Some r \<and> evaluation_of db i = Some e \<and> pe_approved e)
   | POLICY_REJECTED \<Rightarrow> (\<exists>e. evaluation_of db i = Some e \<and> \<not> pe_approved e \<and> pe_reasons e \<noteq> [] \<and>
       set (pe_reasons e) \<subseteq> set evaluated_rules \<and> rejection_detail db i = join '', '' (pe_reasons e))
   | ORDER_INTENT_CREATED \<Rightarrow> get_order_intent db (''oi_'' @ i) \<noteq> None
   | _ \<Rightarrow> True)"

definition statuses_ok :: "core_db \<Rightarrow> bool" where
  "statuses_ok db = (\<forall>i. \<forall>s\<in>set (history db i). status_backed db i s)"

text \<open>
  The inputs an evaluation names are the rows it keeps: the regime it was judged by is that of the kept regime row,
  computed before the evaluation, and the kept snapshot is of the evaluation's own profile, captured before it, with
  the number of holdings the portfolio facts state. A row the identity names is kept.
\<close>

definition regime_bound :: "PolicyEvaluationRecord \<Rightarrow> bool" where
  "regime_bound e = (case pe_regime_snapshot e of
     None \<Rightarrow> pi_regime_snapshot_id (pe_input_identity e) \<in> {None, Some []}
   | Some g \<Rightarrow> pi_regime_snapshot_id (pe_input_identity e) = Some (date_isoformat (rg_snapshot_date g)) \<and>
       pe_true_regime_state e = Some (rg_regime g) \<and> rg_computed_at g \<le> pe_evaluated_at e)"

definition held_positions :: "LivePortfolioSnapshot \<Rightarrow> LivePosition list" where
  "held_positions snap = filter (\<lambda>p. 0 < lpos_market_value p) (ls_positions snap)"

definition portfolio_bound :: "PolicyEvaluationRecord \<Rightarrow> bool" where
  "portfolio_bound e = (case pe_portfolio_snapshot e of
     None \<Rightarrow> pi_portfolio_snapshot_id (pe_input_identity e) \<in> {None, Some []}
   | Some snap \<Rightarrow> pi_portfolio_snapshot_id (pe_input_identity e) = Some (ls_portfolio_snapshot_id snap) \<and>
       pe_execution_mode e = LIVE \<and> ls_execution_profile_id snap = pe_execution_profile_id e \<and>
       ls_captured_at snap \<le> pe_evaluated_at e \<and>
       (\<exists>facts. pe_portfolio e = Some facts \<and> holdings_count facts = int (length (held_positions snap))))"

definition evaluation_backed :: "core_db \<Rightarrow> PolicyEvaluationRecord \<Rightarrow> bool" where
  "evaluation_backed db e = (\<exists>r. get_decision_record db (pe_decision_id e) = Some r \<and>
     pe_approved e = approved (evaluate_decision_policy r (pe_portfolio e) (pe_true_regime_state e)) \<and>
     pe_reasons e = reasons (evaluate_decision_policy r (pe_portfolio e) (pe_true_regime_state e)) \<and>
     regime_bound e \<and> portfolio_bound e)"

definition evaluations_ok :: "core_db \<Rightarrow> bool" where
  "evaluations_ok db = (\<forall>e\<in>set (policy_evaluations db). evaluation_backed db e)"

definition tables_ok :: "core_db \<Rightarrow> bool" where
  "tables_ok db = (paths_ok db \<and> records_ok db \<and> intents_ok db \<and> statuses_ok db \<and> evaluations_ok db)"

lemmas tables_ok_defs = tables_ok_def paths_ok_def records_ok_def intents_ok_def statuses_ok_def
  evaluations_ok_def

lemma tables_ok_empty: "tables_ok empty_db"
  by (simp add: tables_ok_defs empty_db_def history_def subject_events_def)

text \<open>Tables only grow, so what backed an intent or a status still backs it.\<close>

definition extends :: "core_db \<Rightarrow> core_db \<Rightarrow> bool" where
  "extends db db' = ((\<forall>i r. get_decision_record db i = Some r \<longrightarrow> get_decision_record db' i = Some r) \<and>
     (\<forall>i e. evaluation_of db i = Some e \<longrightarrow> evaluation_of db' i = Some e) \<and>
     (\<forall>i x. get_order_intent db i = Some x \<longrightarrow> get_order_intent db' i = Some x) \<and>
     (\<forall>i. set (history db i) \<subseteq> set (history db' i)))"

lemma extends_refl [simp]: "extends db db"
  by (simp add: extends_def)

lemma extends_trans: "extends a b \<Longrightarrow> extends b c \<Longrightarrow> extends a c"
  unfolding extends_def by (meson subset_trans)

lemma intent_backed_extends: "extends db db' \<Longrightarrow> intent_backed db x \<Longrightarrow> intent_backed db' x"
  unfolding extends_def intent_backed_def by blast

lemma evaluation_backed_extends: "extends db db' \<Longrightarrow> evaluation_backed db e \<Longrightarrow> evaluation_backed db' e"
  unfolding extends_def evaluation_backed_def by blast

lemma status_backed_extends:
  assumes "extends db db'" and "rejection_detail db' i = rejection_detail db i" and "status_backed db i s"
  shows "status_backed db' i s"
  using assms by (cases s) (auto simp: extends_def status_backed_def)

lemma rejection_detail_frame [simp]:
  "rejection_detail (db\<lparr>decision_records := a\<rparr>) = rejection_detail db"
  "rejection_detail (db\<lparr>order_intents := b\<rparr>) = rejection_detail db"
  "rejection_detail (db\<lparr>policy_evaluations := c\<rparr>) = rejection_detail db"
  by (simp_all add: rejection_detail_def fun_eq_iff)

text \<open>A write to one of the three tables that only adds rows keeps the status part.\<close>

lemma tables_ok_extend:
  assumes "tables_ok db" and "extends db db'" and "status_events db' = status_events db"
    and "records_ok db'" and "\<forall>x\<in>set (order_intents db') - set (order_intents db). intent_backed db' x"
    and "\<forall>e\<in>set (policy_evaluations db') - set (policy_evaluations db). evaluation_backed db' e"
  shows "tables_ok db'"
proof -
  have h: "history db' = history db" "rejection_detail db' = rejection_detail db"
    using assms(3) by (simp_all add: history_def subject_events_def rejection_detail_def fun_eq_iff)
  have "intents_ok db'"
    using assms(1,5) intent_backed_extends [OF assms(2)] by (auto simp: tables_ok_defs)
  moreover have "evaluations_ok db'"
    using assms(1,6) evaluation_backed_extends [OF assms(2)] by (auto simp: tables_ok_defs)
  moreover have "statuses_ok db'"
    using assms(1) status_backed_extends [OF assms(2)] h by (simp add: tables_ok_defs)
  ultimately show ?thesis using assms(1,4) h by (simp add: tables_ok_def paths_ok_def)
qed

section \<open>The steps\<close>

lemma save_decision_step:
  assumes "save_decision_record r db = Inr (db', b)" and "tables_ok db" and "validate_record r = Inr r"
    and fresh: "get_decision_record db (decision_id r) = None"
  shows "tables_ok db'" and "extends db db'" and "get_decision_record db' (decision_id r) = Some r"
    and "history db' = history db" and "decision_records db' = decision_records db @ [r]"
proof -
  from assms(1) fresh have db': "db' = db\<lparr>decision_records := decision_records db @ [r]\<rparr>"
    by (auto elim: save_decision_cases)
  show "get_decision_record db' (decision_id r) = Some r"
    using fresh by (simp add: db' get_decision_record_def find_row_append)
  show e: "extends db db'"
    using save_decision_keeps [OF assms(1)] by (simp add: extends_def) (simp add: db' evaluation_of_def get_order_intent_def)
  have "records_ok db'" using assms(2,3) by (auto simp: db' tables_ok_defs)
  then show "tables_ok db'"
    by (intro tables_ok_extend [OF assms(2) e]) (simp_all add: db')
  show "history db' = history db" "decision_records db' = decision_records db @ [r]" by (simp_all add: db')
qed

text \<open>What the two lookups of the bound rows leave on the evaluation.\<close>

lemma recorded_regime_bound:
  assumes "recorded_regime env ident truth t db = Inr g"
  shows "case g of None \<Rightarrow> pi_regime_snapshot_id ident \<in> {None, Some []}
   | Some row \<Rightarrow> pi_regime_snapshot_id ident = Some (date_isoformat (rg_snapshot_date row)) \<and>
       truth = Some (rg_regime row) \<and> rg_computed_at row \<le> t"
proof (cases "pi_regime_snapshot_id ident \<in> {None, Some []}")
  case True
  with assms show ?thesis by (auto simp: recorded_regime_def)
next
  case False
  let ?found = "find_row (\<lambda>g. date_isoformat (rg_snapshot_date g)) (the (pi_regime_snapshot_id ident)) (regime_snapshots db)"
  show ?thesis
  proof (cases ?found)
    case None
    with assms show ?thesis unfolding recorded_regime_def if_not_P [OF False] by simp
  next
    case (Some row)
    from assms have "g = Some row \<and> truth = Some (rg_regime row) \<and> rg_computed_at row \<le> t"
      unfolding recorded_regime_def if_not_P [OF False] Some by (simp split: if_splits)
    with False find_row_Some [OF Some] show ?thesis by (cases "pi_regime_snapshot_id ident") auto
  qed
qed

lemma bound_snapshot_bound:
  assumes "bound_snapshot r p t ident m prof db = Inr s"
  shows "case s of None \<Rightarrow> pi_portfolio_snapshot_id ident \<in> {None, Some []}
   | Some snap \<Rightarrow> pi_portfolio_snapshot_id ident = Some (ls_portfolio_snapshot_id snap) \<and> m = LIVE \<and>
       ls_execution_profile_id snap = prof \<and> ls_captured_at snap \<le> t \<and>
       (\<exists>facts. p = Some facts \<and> holdings_count facts = int (length (held_positions snap)))"
proof (cases "pi_portfolio_snapshot_id ident \<in> {None, Some []}")
  case True
  with assms show ?thesis by (auto simp: bound_snapshot_def)
next
  case False
  with assms obtain snap where snap: "get_live_portfolio_snapshot db (the (pi_portfolio_snapshot_id ident)) = Some snap"
    "m = LIVE" "ls_execution_profile_id snap = prof" "ls_captured_at snap \<le> t" "s = Some snap"
    and facts: "snapshot_facts_match r p snap = Inr True"
    by (auto simp: bound_snapshot_def result_simps split: option.splits if_splits)
  from facts have "\<exists>facts. p = Some facts \<and> holdings_count facts = int (length (held_positions snap))"
    by (auto simp: snapshot_facts_match_def held_positions_def Let_def result_simps split: option.splits)
  with False snap find_row_Some [OF snap(1) [unfolded get_live_portfolio_snapshot_def]] show ?thesis
    by (cases "pi_portfolio_snapshot_id ident") auto
qed

lemma save_evaluation_step:
  assumes "save_policy_evaluation env r res p truth now ident m prof db = Inr (db', ev)" and "tables_ok db"
    and "get_decision_record db (decision_id r) = Some r" and "res = evaluate_decision_policy r p truth"
  shows "tables_ok db'" and "extends db db'" and "evaluation_of db' (decision_id r) = Some ev"
    and "pe_approved ev = approved res" and "pe_reasons ev = reasons res"
    and "pe_execution_mode ev = m" and "pe_execution_profile_id ev = prof" and "history db' = history db"
    and "decision_records db' = decision_records db"
proof -
  from assms(1) obtain rows b where i: "insert_once pe_decision_id (\<lambda>_ _. False)
      (ValueError ''policy evaluation is immutable'') IntegrityError ev (policy_evaluations db) = Inr (rows, b)"
    and db': "db' = db\<lparr>policy_evaluations := rows\<rparr>"
    and ev: "pe_decision_id ev = decision_id r" "pe_approved ev = approved res" "pe_reasons ev = reasons res"
      "pe_execution_mode ev = m" "pe_execution_profile_id ev = prof" "pe_portfolio ev = p"
      "pe_true_regime_state ev = truth"
    and rr: "recorded_regime env (pe_input_identity ev) truth (pe_evaluated_at ev) db = Inr (pe_regime_snapshot ev)"
    and bs: "bound_snapshot r p (pe_evaluated_at ev) (pe_input_identity ev) m prof db = Inr (pe_portfolio_snapshot ev)"
    by (auto simp: save_policy_evaluation_def Let_def result_simps split: if_splits)
  have bound: "regime_bound ev" "portfolio_bound ev"
    using recorded_regime_bound [OF rr] bound_snapshot_bound [OF bs] ev
    by (simp_all add: regime_bound_def portfolio_bound_def cong: option.case_cong)
  show "evaluation_of db' (decision_id r) = Some ev"
    using table.stores [OF i] ev by (simp add: evaluation_of_def db')
  show e: "extends db db'"
    using table.immutable [OF i] by (simp add: extends_def db' evaluation_of_def lookup_defs)
  have "set rows \<subseteq> insert ev (set (policy_evaluations db))"
    using i by (rule insert_once_cases) auto
  moreover have "evaluation_backed db' ev"
    using ev bound assms(3,4) by (simp add: evaluation_backed_def db' get_decision_record_def)
  ultimately show "tables_ok db'"
    using assms(2) by (intro tables_ok_extend [OF assms(2) e]) (auto simp: db' tables_ok_defs)
  show "pe_approved ev = approved res" "pe_reasons ev = reasons res" "pe_execution_mode ev = m"
    "pe_execution_profile_id ev = prof" by (simp_all add: ev)
  show "history db' = history db" "decision_records db' = decision_records db" by (simp_all add: db')
qed

lemma save_intent_step:
  assumes "save_order_intent x db = Inr (db', b)" and "tables_ok db" and "intent_backed db x"
  shows "tables_ok db'" and "extends db db'" and "get_order_intent db' (oi_order_intent_id x) = Some x"
    and "history db' = history db"
proof -
  from assms(1) obtain rows where rows: "insert_once oi_order_intent_id (\<lambda>i j. oi_decision_id i = oi_decision_id j)
      (ValueError (''order intent '' @ oi_order_intent_id x @ '' already exists with different content''))
      (ValueError (''decision '' @ oi_decision_id x @ '' already has a different order intent''))
      x (order_intents db) = Inr (rows, b)" and db': "db' = db\<lparr>order_intents := rows\<rparr>"
    by (auto simp: intents.save_Inr)
  show "get_order_intent db' (oi_order_intent_id x) = Some x"
    using intents.stores [OF assms(1)] by (simp add: get_order_intent_def)
  show e: "extends db db'"
    using intents.immutable [OF assms(1)]
    by (simp add: extends_def get_order_intent_def) (simp add: db' evaluation_of_def get_decision_record_def)
  have "set rows \<subseteq> insert x (set (order_intents db))"
    using rows by (rule insert_once_cases) auto
  then show "tables_ok db'"
    using assms(2) intent_backed_extends [OF e assms(3)]
    by (intro tables_ok_extend [OF assms(2) e]) (auto simp: db' tables_ok_defs)
  show "history db' = history db" by (simp add: db')
qed

lemma append_status_step:
  assumes a: "status_of (append_status i s d t db) = Inr db'" and ok: "tables_ok db"
    and approved: "s = POLICY_APPROVED \<Longrightarrow> status_backed db i s"
    and intent: "s = ORDER_INTENT_CREATED \<Longrightarrow> status_backed db i s"
    and rejected: "s = POLICY_REJECTED \<Longrightarrow> \<exists>e. evaluation_of db i = Some e \<and> \<not> pe_approved e \<and>
      pe_reasons e \<noteq> [] \<and> set (pe_reasons e) \<subseteq> set evaluated_rules \<and> d = join '', '' (pe_reasons e)"
  shows "tables_ok db'" and "extends db db'"
proof -
  from a have "tables_ok db' \<and> extends db db'"
  proof (rule status_of_append)
    assume new: "db' = db\<lparr>status_events := status_events db @ [\<lparr>se_subject_id = i, se_status = s,
          se_occurred_at = t, se_detail = d\<rparr>]\<rparr>"
      and fresh: "s \<notin> set (history db i)" and legal: "s \<in> LEGAL_TRANSITIONS (latest (history db i))"
    have e: "extends db db'" by (simp add: extends_def new evaluation_of_def lookup_defs)
    have "paths_ok db'"
      using ok legal by (auto simp: tables_ok_defs new legal_path_snoc)
    moreover have "status_backed db' j x" if x: "x \<in> set (history db' j)" for j x
    proof (cases "j = i \<and> x = s")
      case True
      have detail: "rejection_detail db' i = d" if "s = POLICY_REJECTED"
        by (simp add: rejection_detail_def new that)
      from True show ?thesis
        using approved intent rejected detail e
        by (cases s) (auto simp: status_backed_def extends_def)
    next
      case False
      then have old: "x \<in> set (history db j)" using x by (auto simp: new split: if_splits)
      then have "status_backed db j x" using ok by (simp add: tables_ok_defs)
      moreover have "rejection_detail db' j = rejection_detail db j" if "x = POLICY_REJECTED"
        using False that by (auto simp: rejection_detail_def new)
      ultimately show ?thesis
        using e by (cases x) (auto simp: status_backed_def extends_def)
    qed
    ultimately show ?thesis
      using ok e intent_backed_extends [OF e] evaluation_backed_extends [OF e]
      by (simp add: tables_ok_defs) (simp add: new)
  qed (use ok in simp)
  then show "tables_ok db'" "extends db db'" by simp_all
qed

section \<open>The operations\<close>

text \<open>
  \<open>approved_for\<close> is what holds when an intent is about to be made: the decision is stored, as it is submitted up to the
  offset of its creation time, with an approving evaluation in the requested execution scope.
\<close>

definition approved_for :: "core_db \<Rightarrow> InvestmentDecisionRecord \<Rightarrow> ExecutionMode \<Rightarrow> string \<Rightarrow> bool" where
  "approved_for db r m prof = ((\<exists>q. get_decision_record db (decision_id r) = Some q \<and> same_decision q r) \<and>
     (\<exists>e. evaluation_of db (decision_id r) = Some e \<and> pe_approved e \<and> pe_execution_mode e = m \<and>
        pe_execution_profile_id e = prof))"

lemma approved_for_extends: "extends db db' \<Longrightarrow> approved_for db r m prof \<Longrightarrow> approved_for db' r m prof"
  unfolding extends_def approved_for_def by blast

lemma finish_step:
  assumes f: "finish_with_intent r res now m prof db = Inr (db', out)" and ok: "tables_ok db"
    and a: "approved_for db r m prof"
  shows "tables_ok db'" and "extends db db'"
    and "\<exists>x. get_order_intent db' (''oi_'' @ decision_id r) = Some x \<and> oi_decision_id x = decision_id r \<and>
      intent_backed db' x \<and>
      out = outcome (Some (decision_id r)) ORDER_INTENT_CREATED [] (Some (''oi_'' @ decision_id r))"
    and "ORDER_INTENT_CREATED \<in> set (history db' (decision_id r))"
proof -
  let ?i = "decision_id r"
  from f obtain db1 x where made: "(case get_order_intent db (''oi_'' @ ?i) of
         Some intent \<Rightarrow> Inr (db, intent)
       | None \<Rightarrow> and_then (create_order_intent now r res (Some now) m prof) (\<lambda>intent.
           and_then (save_order_intent intent db) (\<lambda>(db', _). Inr (db', intent)))) = Inr (db1, x)"
    and st: "status_of (append_status ?i ORDER_INTENT_CREATED [] now db1) = Inr db'"
    and out: "out = outcome (Some ?i) ORDER_INTENT_CREATED [] (Some (oi_order_intent_id x))"
    by (auto simp: finish_with_intent_def result_simps)
  have mid: "tables_ok db1 \<and> extends db db1 \<and> get_order_intent db1 (''oi_'' @ ?i) = Some x \<and>
      oi_order_intent_id x = ''oi_'' @ ?i"
  proof (cases "get_order_intent db (''oi_'' @ ?i)")
    case (Some y)
    then show ?thesis using made ok by (auto simp: get_order_intent_def dest: find_row_Some)
  next
    case None
    with made obtain b where c: "create_order_intent now r res (Some now) m prof = Inr x"
      and s: "save_order_intent x db = Inr (db1, b)"
      by (auto simp: result_simps)
    note x = create_order_intent_Inr [OF c]
    from a obtain q where q: "get_decision_record db ?i = Some q" "same_decision q r" by (auto simp: approved_for_def)
    with a x same_decision_fields(4-6) [OF q(2)] have "intent_backed db x"
      by (auto simp: intent_backed_def approved_for_def)
    from save_intent_step [OF s ok this] x show ?thesis by simp
  qed
  then have b: "status_backed db1 ?i ORDER_INTENT_CREATED" by (simp add: status_backed_def)
  from append_status_step [OF st, of] mid b
  show ok': "tables_ok db'" by simp
  from append_status_step(2) [OF st] mid b have e1: "extends db1 db'" by simp
  with mid show "extends db db'" by (blast intro: extends_trans)
  from e1 mid have x: "get_order_intent db' (''oi_'' @ ?i) = Some x" by (simp add: extends_def)
  then have "intent_backed db' x"
    using ok' by (auto simp: tables_ok_defs get_order_intent_def dest: find_row_Some)
  moreover from this mid have "oi_decision_id x = ?i" by (auto simp: intent_backed_def)
  ultimately show "\<exists>x. get_order_intent db' (''oi_'' @ ?i) = Some x \<and> oi_decision_id x = ?i \<and>
      intent_backed db' x \<and> out = outcome (Some ?i) ORDER_INTENT_CREATED [] (Some (''oi_'' @ ?i))"
    using x mid out by auto
  show "ORDER_INTENT_CREATED \<in> set (history db' ?i)"
    using append_status_frame(4) [OF st] .
qed

lemma finish_records:
  "finish_with_intent r res now m prof db = Inr (db', out) \<Longrightarrow> decision_records db' = decision_records db"
  by (auto simp: finish_with_intent_def result_simps intents.save_Inr split: option.splits
      dest!: append_status_frame(1))

lemma latest_status_in: "latest_status db i = Some s \<Longrightarrow> s \<in> set (history db i)"
  unfolding latest_status_def by (rule latest_in)

lemma replay_step:
  assumes r: "replay existing r now m prof db = Inr (Some (db', out))" and ok: "tables_ok db"
    and stored: "get_decision_record db (decision_id r) = Some existing"
  shows "tables_ok db'" and "extends db db'" and "decision_records db' = decision_records db"
proof -
  let ?i = "decision_id r"
  from r have cases: "db' = db \<or> (latest_status db ?i = Some POLICY_APPROVED \<and> same_decision existing r \<and>
      finish_with_intent r \<lparr>approved = True, reasons = [], checks = []\<rparr> now m prof db = Inr (db', out))"
    by (auto simp: replay_def Let_def result_simps split: if_splits option.splits)
  have "approved_for db r m prof" if "latest_status db ?i = Some POLICY_APPROVED" "same_decision existing r"
  proof -
    from that(1) have "status_backed db ?i POLICY_APPROVED"
      using ok latest_status_in by (auto simp: tables_ok_defs)
    then obtain e where e: "evaluation_of db ?i = Some e" "pe_approved e"
      by (auto simp: status_backed_def)
    moreover from r e have "pe_execution_mode e = m \<and> pe_execution_profile_id e = prof"
      by (auto simp: replay_def Let_def evaluation_of_def split: if_splits)
    ultimately show ?thesis using stored that(2) by (auto simp: approved_for_def)
  qed
  with cases show "tables_ok db'" "extends db db'" "decision_records db' = decision_records db"
    using finish_step(1,2) [OF _ ok] ok finish_records by auto
qed

text \<open>
  Every stored decision was decided by policy: its history has an approval or a rejection, so a replay finds it settled
  and never runs the pipeline on it a second time.
\<close>

definition policy_decided :: "core_db \<Rightarrow> string \<Rightarrow> bool" where
  "policy_decided db i = (POLICY_APPROVED \<in> set (history db i) \<or> POLICY_REJECTED \<in> set (history db i))"

definition recorded_ok :: "core_db \<Rightarrow> bool" where
  "recorded_ok db = (\<forall>r\<in>set (decision_records db). policy_decided db (decision_id r))"

definition pipeline_ok :: "core_db \<Rightarrow> bool" where
  "pipeline_ok db = (tables_ok db \<and> recorded_ok db)"

lemmas pipeline_ok_defs = pipeline_ok_def tables_ok_defs recorded_ok_def

lemma pipeline_ok_empty: "pipeline_ok empty_db"
  using tables_ok_empty by (simp add: pipeline_ok_def recorded_ok_def empty_db_def)

lemma policy_decided_extends: "extends db db' \<Longrightarrow> policy_decided db i \<Longrightarrow> policy_decided db' i"
  unfolding extends_def policy_decided_def by blast

lemma recorded_ok_step:
  assumes "recorded_ok db" and "extends db db'"
    and "\<forall>r\<in>set (decision_records db') - set (decision_records db). policy_decided db' (decision_id r)"
  shows "recorded_ok db'"
  using assms policy_decided_extends [OF assms(2)] unfolding recorded_ok_def by blast

lemma process_new_step:
  assumes p: "process_new env r port truth now ident m prof db = Inr (db', out)" and ok: "tables_ok db"
    and v: "validate_record r = Inr r" and fresh: "get_decision_record db (decision_id r) = None"
  shows "tables_ok db'" and "extends db db'"
    and "decision_records db' = decision_records db \<or>
      decision_records db' = decision_records db @ [r] \<and> policy_decided db' (decision_id r)"
proof -
  let ?i = "decision_id r" and ?res = "evaluate_decision_policy r port truth"
  have "tables_ok db' \<and> extends db db' \<and> (decision_records db' = decision_records db \<or>
      decision_records db' = decision_records db @ [r] \<and> policy_decided db' ?i)"
  proof (cases "now < fst (created_at r)")
    case True
    with p have s: "status_of (append_status ?i SCHEMA_FAILED ''created_at_cannot_be_in_future'' now db) = Inr db'"
      by (auto simp: process_new_def Let_def result_simps)
    from append_status_step [OF s ok] append_status_frame(1) [OF s] show ?thesis by simp
  next
    case False
    with p obtain db1 b db2 db3 db4 ev where
      s1: "save_decision_record r db = Inr (db1, b)" and
      s2: "status_of (append_status ?i DECISION_RECORD_CREATED [] now db1) = Inr db2" and
      s3: "status_of (append_status ?i SCHEMA_VALIDATED [] now db2) = Inr db3" and
      s4: "save_policy_evaluation env r ?res port truth now ident m prof db3 = Inr (db4, ev)" and
      rest: "(if \<not> approved ?res then
         and_then (status_of (append_status ?i POLICY_REJECTED (join '', '' (reasons ?res)) now db4)) (\<lambda>db5.
           Inr (db5, outcome (Some ?i) POLICY_REJECTED (reasons ?res) None))
       else and_then (status_of (append_status ?i POLICY_APPROVED [] now db4)) (\<lambda>db5.
           if \<not> actionable (decision r) then Inr (db5, outcome (Some ?i) POLICY_APPROVED [] None)
           else finish_with_intent r ?res now m prof db5)) = Inr (db', out)"
      by (auto simp: process_new_def Let_def result_simps)
    note r1 = save_decision_step [OF s1 ok v fresh]
    note r2 = append_status_step [OF s2 r1(1)]
    note r3 = append_status_step [OF s3 r2(1)]
    have ok3: "tables_ok db3" and e3: "extends db db3" "extends db1 db3"
      using r1 r2 r3 by (auto intro: extends_trans)
    have rec3: "get_decision_record db3 ?i = Some r"
      using r1(3) e3(2) by (simp add: extends_def)
    note r4 = save_evaluation_step [OF s4 ok3 rec3 refl]
    have rec: "get_decision_record db4 ?i = Some r"
      using rec3 r4(2) by (simp add: extends_def)
    have rows: "decision_records db4 = decision_records db @ [r]"
      using r1(5) append_status_frame(1) [OF s2] append_status_frame(1) [OF s3] r4(9) by simp
    show ?thesis
    proof (cases "approved ?res")
      case False
      with rest have s5: "status_of (append_status ?i POLICY_REJECTED (join '', '' (reasons ?res)) now db4) = Inr db'"
        by (auto simp: result_simps)
      have "\<exists>e. evaluation_of db4 ?i = Some e \<and> \<not> pe_approved e \<and> pe_reasons e \<noteq> [] \<and>
        set (pe_reasons e) \<subseteq> set evaluated_rules \<and> join '', '' (reasons ?res) = join '', '' (pe_reasons e)"
        using r4(3,4,5) False reasons_subset [of r port truth] by simp
      from append_status_step [OF s5 r4(1) _ _ this] e3 r4(2) append_status_frame(1,4) [OF s5] rows show ?thesis
        by (auto intro: extends_trans simp: policy_decided_def)
    next
      case True
      with rest obtain db5 where s5: "status_of (append_status ?i POLICY_APPROVED [] now db4) = Inr db5"
        and last: "(if \<not> actionable (decision r) then Inr (db5, outcome (Some ?i) POLICY_APPROVED [] None)
           else finish_with_intent r ?res now m prof db5) = Inr (db', out)"
        by (auto simp: result_simps)
      have "status_backed db4 ?i POLICY_APPROVED"
        using rec r4(3,4) True by (simp add: status_backed_def)
      then have r5: "tables_ok db5" "extends db4 db5"
        using append_status_step [OF s5 r4(1)] by simp_all
      have af: "approved_for db5 r m prof"
        using r5(2) by (rule approved_for_extends) (use rec r4 True in \<open>simp add: approved_for_def\<close>)
      have e5: "extends db db5" using e3 r4(2) r5(2) by (blast intro: extends_trans)
      have d5: "policy_decided db5 ?i" "decision_records db5 = decision_records db @ [r]"
        using append_status_frame(1,4) [OF s5] rows by (simp_all add: policy_decided_def)
      show ?thesis
      proof (cases "actionable (decision r)")
        case True
        with last have f: "finish_with_intent r ?res now m prof db5 = Inr (db', out)" by simp
        note f' = finish_step(1,2) [OF f r5(1) af]
        from f' e5 d5 finish_records [OF f] policy_decided_extends [OF f'(2)] show ?thesis
          by (auto intro: extends_trans)
      qed (use last e5 r5 d5 in auto)
    qed
  qed
  then show "tables_ok db'" "extends db db'" "decision_records db' = decision_records db \<or>
      decision_records db' = decision_records db @ [r] \<and> policy_decided db' ?i" by blast+
qed

lemma approved_then_latest:
  "legal_path LEGAL_TRANSITIONS None h \<Longrightarrow> POLICY_APPROVED \<in> set h \<Longrightarrow>
     latest h \<in> {Some POLICY_APPROVED, Some ORDER_INTENT_CREATED}"
proof (induction h rule: rev_induct)
  case (snoc s h)
  then show ?case by (cases "POLICY_APPROVED \<in> set h") (auto simp: legal_path_snoc)
qed simp

lemma decided_latest:
  assumes "tables_ok db" and "policy_decided db i"
  shows "latest_status db i \<in> {Some POLICY_APPROVED, Some POLICY_REJECTED, Some ORDER_INTENT_CREATED}"
proof -
  have p: "legal_path LEGAL_TRANSITIONS None (history db i)" using assms(1) by (simp add: tables_ok_defs)
  show ?thesis
    using assms(2) approved_then_latest [OF p] decision_status.terminal_last [OF p, of POLICY_REJECTED]
    by (auto simp: policy_decided_def latest_status_def)
qed

text \<open>So a stored decision is answered by its replay, or refused.\<close>

lemma replay_answers:
  assumes "pipeline_ok db" and "get_decision_record db (decision_id r) = Some existing"
  shows "replay existing r now m prof db \<noteq> Inr None"
proof -
  from assms have "policy_decided db (decision_id r)"
    by (auto simp: pipeline_ok_def recorded_ok_def get_decision_record_def dest!: find_row_Some)
  with assms(1) have "latest_status db (decision_id r) \<in> {Some POLICY_APPROVED, Some POLICY_REJECTED, Some ORDER_INTENT_CREATED}"
    by (intro decided_latest) (simp_all add: pipeline_ok_def)
  then show ?thesis by (auto simp: replay_def Let_def result_simps split: if_splits option.splits)
qed

lemma body_cases:
  assumes "process_decision_body env sub port truth now ident m prof db = Inr (db', out)" and "pipeline_ok db"
  obtains (unread) e where "model_validate sub = Inl e" "submission_id sub = None" "db' = db"
      "po_final_status out = SCHEMA_FAILED"
    | (failed) e i d where "model_validate sub = Inl e" "status_of (append_status i SCHEMA_FAILED d now db) = Inr db'"
      "po_final_status out = SCHEMA_FAILED"
    | (fresh) r where "model_validate sub = Inr r" "get_decision_record db (decision_id r) = None"
      "process_new env r port truth now ident m prof db = Inr (db', out)"
    | (old) r existing where "model_validate sub = Inr r" "get_decision_record db (decision_id r) = Some existing"
      "replay existing r now m prof db = Inr (Some (db', out))"
proof (cases "model_validate sub")
  case (Inl e)
  with assms(1) show thesis
    by (cases "submission_id sub")
      (auto simp: process_decision_body_def result_simps outcome_def intro: unread failed)
next
  case (Inr r)
  show thesis
  proof (cases "get_decision_record db (decision_id r)")
    case None
    with assms(1) Inr show thesis by (intro fresh) (auto simp: process_decision_body_def)
  next
    case (Some existing)
    with assms(1) Inr replay_answers [OF assms(2) Some, of now m prof] show thesis
      by (intro old) (auto simp: process_decision_body_def result_simps split: option.splits)
  qed
qed

lemma model_validate_valid: "model_validate sub = Inr r \<Longrightarrow> validate_record r = Inr r"
  using validate_record_idem(1) by (cases sub) auto

lemma body_step:
  assumes p: "process_decision_body env sub port truth now ident m prof db = Inr (db', out)"
    and ok: "pipeline_ok db"
  shows "pipeline_ok db'" and "extends db db'"
proof -
  have t: "tables_ok db" and rec: "recorded_ok db" using ok by (simp_all add: pipeline_ok_def)
  from p ok have "tables_ok db' \<and> extends db db' \<and>
    (\<forall>r\<in>set (decision_records db') - set (decision_records db). policy_decided db' (decision_id r))"
  proof (cases rule: body_cases)
    case (unread e)
    then show ?thesis using t by simp
  next
    case (failed e i d)
    from append_status_step [OF failed(2) t] append_status_frame(1) [OF failed(2)] show ?thesis by simp
  next
    case (fresh r)
    from process_new_step [OF fresh(3) t model_validate_valid [OF fresh(1)] fresh(2)] show ?thesis by auto
  next
    case (old r existing)
    from replay_step [OF old(3) t old(2)] show ?thesis by simp
  qed
  then show "pipeline_ok db'" "extends db db'"
    using recorded_ok_step [OF rec] by (auto simp: pipeline_ok_def)
qed

section \<open>The reachable states\<close>

text \<open>
  The program writes many other tables between two decisions: the regime rows and the live snapshots a decision is
  judged by, reasoning runs, packets, broker records. \<open>elsewhere\<close> stands for any of these writes, and more: it changes
  every table the pipeline does not write in any way at all.
\<close>

definition same_pipeline_tables :: "core_db \<Rightarrow> core_db \<Rightarrow> bool" where
  "same_pipeline_tables db db' = (decision_records db' = decision_records db \<and> order_intents db' = order_intents db \<and>
     policy_evaluations db' = policy_evaluations db \<and> status_events db' = status_events db)"

inductive pipeline_step :: "core_db \<Rightarrow> core_db \<Rightarrow> bool" where
  decided: "process_decision_body env sub port truth now ident m prof db = Inr (db', out) \<Longrightarrow> pipeline_step db db'"
| elsewhere: "same_pipeline_tables db db' \<Longrightarrow> pipeline_step db db'"

inductive pipeline_reachable :: "core_db \<Rightarrow> bool" where
  start: "pipeline_reachable empty_db"
| step: "pipeline_reachable db \<Longrightarrow> pipeline_step db db' \<Longrightarrow> pipeline_reachable db'"

lemma same_pipeline_reads:
  assumes "same_pipeline_tables db db'"
  shows "history db' = history db" and "rejection_detail db' = rejection_detail db"
    and "get_decision_record db' = get_decision_record db" and "get_order_intent db' = get_order_intent db"
    and "evaluation_of db' = evaluation_of db"
  using assms by (simp_all add: same_pipeline_tables_def history_def rejection_detail_def subject_events_def
      get_decision_record_def get_order_intent_def evaluation_of_def fun_eq_iff)

lemma elsewhere_step:
  assumes "same_pipeline_tables db db'" and "pipeline_ok db"
  shows "pipeline_ok db'" and "extends db db'"
proof -
  note reads = same_pipeline_reads [OF assms(1)]
  have "status_backed db' = status_backed db" "intent_backed db' = intent_backed db"
    "evaluation_backed db' = evaluation_backed db" "policy_decided db' = policy_decided db"
    by (auto simp: fun_eq_iff status_backed_def intent_backed_def evaluation_backed_def policy_decided_def reads
        split: DecisionStatus.splits)
  with assms reads show "pipeline_ok db'" by (simp add: pipeline_ok_defs same_pipeline_tables_def)
  show "extends db db'" by (simp add: extends_def reads)
qed

lemma pipeline_step_ok: "pipeline_step db db' \<Longrightarrow> pipeline_ok db \<Longrightarrow> pipeline_ok db' \<and> extends db db'"
  by (induction rule: pipeline_step.induct) (auto dest: body_step elsewhere_step)

lemma pipeline_steps_ok: "pipeline_step\<^sup>*\<^sup>* db db' \<Longrightarrow> pipeline_ok db \<Longrightarrow> pipeline_ok db' \<and> extends db db'"
  by (induction rule: rtranclp_induct) (auto dest: pipeline_step_ok intro: extends_trans)

lemma pipeline_reachable_ok: "pipeline_reachable db \<Longrightarrow> pipeline_ok db"
  by (induction rule: pipeline_reachable.induct) (auto intro: pipeline_ok_empty dest: pipeline_step_ok)

end
