(* ===== verification/PipelineProperties.thy ===== *)
theory PipelineProperties
  imports PipelineInvariant
begin

text \<open>
  What the pipeline guarantees: legal and final status histories, intents only for approved
  decisions, and replays that answer what the first submission answered.
\<close>

section \<open>Outcomes\<close>

lemma intent_of_decision:
  assumes "tables_ok db" and "get_order_intent db (''oi_'' @ i) = Some x"
  shows "oi_decision_id x = i" and "intent_backed db x" and "oi_order_intent_id x = ''oi_'' @ i"
proof -
  from assms(2) have x: "x \<in> set (order_intents db)" "oi_order_intent_id x = ''oi_'' @ i"
    by (auto simp: get_order_intent_def dest: find_row_Some)
  then show b: "intent_backed db x" using assms(1) by (auto simp: tables_ok_defs)
  then show "oi_decision_id x = i" using x by (auto simp: intent_backed_def)
  show "oi_order_intent_id x = ''oi_'' @ i" by (fact x(2))
qed

text \<open>What a settled decision (any final status but a schema failure) leaves in the tables.\<close>

definition settled :: "core_db \<Rightarrow> InvestmentDecisionRecord \<Rightarrow> ExecutionMode \<Rightarrow> string \<Rightarrow> ProcessOutcome \<Rightarrow> bool" where
  "settled db r m prof out = (\<exists>q e. get_decision_record db (decision_id r) = Some q \<and>
     same_decision q r \<and> evaluation_of db (decision_id r) = Some e \<and> pe_execution_mode e = m \<and> pe_execution_profile_id e = prof \<and>
     (case po_final_status out of
        POLICY_REJECTED \<Rightarrow> POLICY_REJECTED \<in> set (history db (decision_id r)) \<and>
          out = outcome (Some (decision_id r)) POLICY_REJECTED (pe_reasons e) None
      | POLICY_APPROVED \<Rightarrow> POLICY_APPROVED \<in> set (history db (decision_id r)) \<and> \<not> actionable (decision r) \<and>
          out = outcome (Some (decision_id r)) POLICY_APPROVED [] None
      | ORDER_INTENT_CREATED \<Rightarrow> ORDER_INTENT_CREATED \<in> set (history db (decision_id r)) \<and>
          out = outcome (Some (decision_id r)) ORDER_INTENT_CREATED [] (Some (''oi_'' @ decision_id r))
      | _ \<Rightarrow> False))"

lemma settled_extends: "extends db db' \<Longrightarrow> settled db r m prof out \<Longrightarrow> settled db' r m prof out"
  unfolding extends_def settled_def by (cases "po_final_status out") (auto, blast+)

lemma settled_same:
  assumes "settled db r m prof out" and "same_decision r q"
  shows "settled db q m prof out"
proof -
  have "settled db r m prof out \<longrightarrow> settled db q m prof out"
    unfolding settled_def same_decision_fields(3,4) [OF assms(2)] using same_decision_trans [OF _ assms(2)] by blast
  with assms(1) show ?thesis by blast
qed

lemma po_final_status_outcome [simp]: "po_final_status (outcome i s rs x) = s"
  by (simp add: outcome_def)

lemma finish_settled:
  assumes f: "finish_with_intent r res now m prof db = Inr (db', out)" and ok: "tables_ok db"
    and a: "approved_for db r m prof"
  shows "settled db' r m prof out"
  using finish_step(2,3,4) [OF f ok a] approved_for_extends [OF finish_step(2) [OF f ok a] a]
  by (auto simp: settled_def approved_for_def)

lemma rejection_reasons:
  assumes "tables_ok db" and "POLICY_REJECTED \<in> set (history db i)"
  obtains e where "evaluation_of db i = Some e" and "parse_reasons (rejection_detail db i) = pe_reasons e"
proof -
  from assms have "status_backed db i POLICY_REJECTED" by (auto simp: tables_ok_defs)
  then obtain e where e: "evaluation_of db i = Some e" "set (pe_reasons e) \<subseteq> set evaluated_rules"
    "rejection_detail db i = join '', '' (pe_reasons e)"
    by (auto simp: status_backed_def)
  have "\<forall>r\<in>set (pe_reasons e). reason_token r"
    using e(2) evaluated_rules_tokens by (auto simp: list_all_iff)
  then show ?thesis using that e split_join by simp
qed

lemma evaluation_present:
  assumes "tables_ok db" and "latest_status db i \<in> {Some POLICY_REJECTED, Some POLICY_APPROVED, Some ORDER_INTENT_CREATED}"
  shows "evaluation_of db i \<noteq> None"
proof -
  from assms(2) obtain s where s: "latest_status db i = Some s" "s \<in> {POLICY_REJECTED, POLICY_APPROVED, ORDER_INTENT_CREATED}"
    by auto
  then have "status_backed db i s" using assms(1) latest_status_in by (auto simp: tables_ok_defs)
  then show ?thesis
    using s(2) intent_of_decision [OF assms(1), of i] by (auto simp: status_backed_def intent_backed_def)
qed

lemma replay_settled:
  assumes r: "replay existing r now m prof db = Inr (Some (db', out))" and ok: "tables_ok db"
    and stored: "get_decision_record db (decision_id r) = Some existing"
  shows "settled db' r m prof out"
proof -
  let ?i = "decision_id r"
  from r have latest: "latest_status db ?i \<in> {Some POLICY_REJECTED, Some POLICY_APPROVED, Some ORDER_INTENT_CREATED}"
    and same: "same_decision existing r"
    by (auto simp: replay_def Let_def split: if_splits option.splits)
  from evaluation_present [OF ok latest] r obtain e where e: "evaluation_of db ?i = Some e"
    "pe_execution_mode e = m" "pe_execution_profile_id e = prof"
    by (auto simp: replay_def Let_def evaluation_of_def split: if_splits)
  from latest consider (rej) "latest_status db ?i = Some POLICY_REJECTED"
    | (app) "latest_status db ?i = Some POLICY_APPROVED" | (ord) "latest_status db ?i = Some ORDER_INTENT_CREATED"
    by auto
  then show ?thesis
  proof cases
    case rej
    then have h: "POLICY_REJECTED \<in> set (history db ?i)" by (rule latest_status_in)
    from rejection_reasons [OF ok h] e have "parse_reasons (rejection_detail db ?i) = pe_reasons e" by auto
    then show ?thesis
      using r rej h e stored same by (auto simp: replay_def Let_def settled_def split: if_splits option.splits)
  next
    case app
    then have h: "POLICY_APPROVED \<in> set (history db ?i)" by (rule latest_status_in)
    show ?thesis
    proof (cases "actionable (decision r)")
      case False
      then show ?thesis
        using r app h e stored same by (auto simp: replay_def Let_def settled_def split: if_splits option.splits)
    next
      case True
      with r app have f: "finish_with_intent r \<lparr>approved = True, reasons = [], checks = []\<rparr> now m prof db = Inr (db', out)"
        by (auto simp: replay_def Let_def result_simps split: if_splits option.splits)
      from h ok have "status_backed db ?i POLICY_APPROVED" by (auto simp: tables_ok_defs)
      then have "approved_for db r m prof"
        using e stored same by (auto simp: approved_for_def status_backed_def)
      from finish_settled [OF f ok this] show ?thesis .
    qed
  next
    case ord
    then have h: "ORDER_INTENT_CREATED \<in> set (history db ?i)" by (rule latest_status_in)
    then show ?thesis
      using r ord e stored same intent_of_decision(3) [OF ok]
      by (auto simp: replay_def Let_def settled_def split: if_splits option.splits)
  qed
qed

lemma process_new_settled:
  assumes p: "process_new env r port truth now ident m prof db = Inr (db', out)" and ok: "tables_ok db"
    and v: "validate_record r = Inr r" and fresh: "get_decision_record db (decision_id r) = None" and nf: "po_final_status out \<noteq> SCHEMA_FAILED"
  shows "settled db' r m prof out"
proof -
  let ?i = "decision_id r" and ?res = "evaluate_decision_policy r port truth"
  from p nf obtain db1 b db2 db3 db4 ev where
    s1: "save_decision_record r db = Inr (db1, b)" and
    s2: "status_of (append_status ?i DECISION_RECORD_CREATED [] now db1) = Inr db2" and
    s3: "status_of (append_status ?i SCHEMA_VALIDATED [] now db2) = Inr db3" and
    s4: "save_policy_evaluation env r ?res port truth now ident m prof db3 = Inr (db4, ev)" and
    rest: "(if \<not> approved ?res then
       and_then (status_of (append_status ?i POLICY_REJECTED (join '', '' (reasons ?res)) now db4)) (\<lambda>db5.
         Inr (db5, outcome (Some ?i) POLICY_REJECTED (reasons ?res) None))
     else and_then (status_of (append_status ?i POLICY_APPROVED [] now db4)) (\<lambda>db5.
         if \<not> actionable (decision r) then Inr (db5, outcome (Some ?i) POLICY_APPROVED [] None)
         else finish_with_intent r ?res now m prof db5)) = Inr (db', out)"
    by (auto simp: process_new_def Let_def result_simps split: if_splits)
  note r1 = save_decision_step [OF s1 ok v fresh]
  note r2 = append_status_step [OF s2 r1(1), simplified]
  note r3 = append_status_step [OF s3 r2(1), simplified]
  have rec3: "get_decision_record db3 ?i = Some r"
    using r1(3) r2(2) r3(2) by (simp add: extends_def)
  note r4 = save_evaluation_step [OF s4 r3(1) rec3 refl]
  have rec: "get_decision_record db4 ?i = Some r"
    using rec3 r4(2) by (simp add: extends_def)
  show ?thesis
  proof (cases "approved ?res")
    case False
    with rest have s5: "status_of (append_status ?i POLICY_REJECTED (join '', '' (reasons ?res)) now db4) = Inr db'"
      and out: "out = outcome (Some ?i) POLICY_REJECTED (reasons ?res) None"
      by (auto simp: result_simps)
    from append_status_frame [OF s5] rec r4 out show ?thesis
      by (simp add: settled_def evaluation_of_def get_decision_record_def)
  next
    case True
    with rest obtain db5 where s5: "status_of (append_status ?i POLICY_APPROVED [] now db4) = Inr db5"
      and last: "(if \<not> actionable (decision r) then Inr (db5, outcome (Some ?i) POLICY_APPROVED [] None)
         else finish_with_intent r ?res now m prof db5) = Inr (db', out)"
      by (auto simp: result_simps)
    have "status_backed db4 ?i POLICY_APPROVED"
      using rec r4(3,4) True by (simp add: status_backed_def)
    then have r5: "tables_ok db5" "extends db4 db5"
      using append_status_step [OF s5 r4(1)] by simp_all
    have af: "approved_for db5 r m prof"
      using r5(2) by (rule approved_for_extends) (use rec r4 True in \<open>simp add: approved_for_def\<close>)
    show ?thesis
    proof (cases "actionable (decision r)")
      case True
      with last finish_settled [OF _ r5(1) af] show ?thesis by simp
    next
      case False
      with last append_status_frame(4) [OF s5] af show ?thesis
        by (auto simp: settled_def approved_for_def)
    qed
  qed
qed

lemma body_settled:
  assumes p: "process_decision_body env sub port truth now ident m prof db = Inr (db', out)"
    and ok: "pipeline_ok db" and nf: "po_final_status out \<noteq> SCHEMA_FAILED"
  shows "\<exists>r. model_validate sub = Inr r \<and> settled db' r m prof out"
proof -
  have t: "tables_ok db" using ok by (simp add: pipeline_ok_def)
  from p ok show ?thesis
  proof (cases rule: body_cases)
    case (fresh r)
    from process_new_settled [OF fresh(3) t model_validate_valid [OF fresh(1)] fresh(2) nf] fresh(1) show ?thesis by blast
  next
    case (old r existing)
    from replay_settled [OF old(3) t old(2)] old(1) show ?thesis by blast
  qed (use nf in simp_all)
qed

text \<open>Replaying a settled decision answers from the tables and writes nothing.\<close>

lemma settled_replay:
  assumes ok: "tables_ok db" and s: "settled db r m prof out"
    and rec: "get_decision_record db (decision_id r) = Some q"
  shows "replay q r now m prof db = Inr (Some (db, out))"
proof -
  let ?i = "decision_id r"
  from s rec obtain e where e: "evaluation_of db ?i = Some e" "pe_execution_mode e = m" "pe_execution_profile_id e = prof"
    and same: "same_decision q r"
    by (auto simp: settled_def)
  have path: "legal_path LEGAL_TRANSITIONS None (history db ?i)" using ok by (simp add: tables_ok_defs)
  have scope: "\<not> (case find_row pe_decision_id ?i (policy_evaluations db) of None \<Rightarrow> False
         | Some e \<Rightarrow> pe_execution_mode e \<noteq> m \<or> pe_execution_profile_id e \<noteq> prof)"
    using e by (simp add: evaluation_of_def)
  have rejected: "latest_status db ?i = Some POLICY_REJECTED" if "POLICY_REJECTED \<in> set (history db ?i)"
    unfolding latest_status_def using path that by (rule decision_status.terminal_last) simp
  have ordered: "latest_status db ?i = Some ORDER_INTENT_CREATED" if "ORDER_INTENT_CREATED \<in> set (history db ?i)"
    unfolding latest_status_def using path that by (rule decision_status.terminal_last) simp
  have intent: "\<exists>x. get_order_intent db (''oi_'' @ ?i) = Some x \<and> oi_order_intent_id x = ''oi_'' @ ?i \<and>
      oi_execution_mode x = m \<and> oi_execution_profile_id x = prof \<and> actionable (decision r)"
    if "ORDER_INTENT_CREATED \<in> set (history db ?i)"
  proof -
    from ok that have "status_backed db ?i ORDER_INTENT_CREATED" by (auto simp: tables_ok_defs)
    then obtain x where x: "get_order_intent db (''oi_'' @ ?i) = Some x" by (auto simp: status_backed_def)
    from intent_of_decision [OF ok x] e rec INTENT_SIDES_actionable same_decision_fields(4) [OF same] show ?thesis
      using x by (auto simp: intent_backed_def)
  qed
  consider (rej) "po_final_status out = POLICY_REJECTED" | (app) "po_final_status out = POLICY_APPROVED"
    | (ord) "po_final_status out = ORDER_INTENT_CREATED"
    using s by (cases "po_final_status out") (auto simp: settled_def)
  then show ?thesis
  proof cases
    case rej
    with s e have h: "POLICY_REJECTED \<in> set (history db ?i)"
      and out: "out = outcome (Some ?i) POLICY_REJECTED (pe_reasons e) None"
      by (auto simp: settled_def)
    from rejection_reasons [OF ok h] e have "parse_reasons (rejection_detail db ?i) = pe_reasons e" by auto
    then show ?thesis
      using rejected [OF h] scope out same by (simp add: replay_def Let_def)
  next
    case app
    with s e have h: "POLICY_APPROVED \<in> set (history db ?i)" and na: "\<not> actionable (decision r)"
      and out: "out = outcome (Some ?i) POLICY_APPROVED [] None"
      by (auto simp: settled_def)
    have "latest_status db ?i = Some POLICY_APPROVED"
      using approved_then_latest [OF path h] intent na latest_status_in [of db ?i ORDER_INTENT_CREATED]
      by (auto simp: latest_status_def)
    then show ?thesis using scope out na same by (simp add: replay_def Let_def)
  next
    case ord
    with s e have h: "ORDER_INTENT_CREATED \<in> set (history db ?i)"
      and out: "out = outcome (Some ?i) ORDER_INTENT_CREATED [] (Some (''oi_'' @ ?i))"
      by (auto simp: settled_def)
    from intent [OF h] ordered [OF h] scope out same show ?thesis
      by (auto simp: replay_def Let_def)
  qed
qed

section \<open>A processed decision\<close>

definition sample_env :: Environment where
  "sample_env = \<lparr>env_schema_sha256 = ''5ca1e'', env_row_sha256 = (\<lambda>_. ''a11''), env_error_text = join '',''\<rparr>"

text \<open>A live account with three positions and a regime row, stored before the decision is submitted with both bound.\<close>

definition sample_regime_row :: RegimeSnapshot where
  "sample_regime_row = \<lparr>rg_snapshot_date = 0, rg_regime = GREEN, rg_raw_regime = GREEN, rg_score = 6,
     rg_components = [], rg_computed_at = - minute\<rparr>"

definition sample_snapshot :: LivePortfolioSnapshot where
  "sample_snapshot = \<lparr>ls_portfolio_snapshot_id = ''s1'', ls_execution_profile_id = ''main'',
     ls_broker_account_fingerprint = ''f'', ls_captured_at = - minute, ls_account_equity = 1024, ls_buying_power = 512,
     ls_positions = [\<lparr>lpos_ticker = ''MSFT'', lpos_market_value = 128, lpos_primary_theme_id = ''ai''\<rparr>,
       \<lparr>lpos_ticker = ''NVDA'', lpos_market_value = 64, lpos_primary_theme_id = ''ai''\<rparr>,
       \<lparr>lpos_ticker = ''TSM'', lpos_market_value = 64, lpos_primary_theme_id = ''ai''\<rparr>],
     ls_reporting = None, ls_collector_model = None, ls_index_prices = []\<rparr>"

definition sample_identity :: PolicyInputIdentity where
  "sample_identity = \<lparr>pi_portfolio_snapshot_id = Some ''s1'', pi_regime_snapshot_id = Some (date_isoformat 0),
     pi_regime_snapshot_hash = Some ''a11'', pi_current_weight = Some 0\<rparr>"

definition sample_start :: core_db where
  "sample_start = empty_db\<lparr>regime_snapshots := [sample_regime_row], live_portfolio_snapshots := [sample_snapshot]\<rparr>"

abbreviation sample_run :: "core_db \<Rightarrow> (core_db \<times> ProcessOutcome) result" where
  "sample_run \<equiv> process_decision_body sample_env (Draft sample_decision) (Some sample_portfolio) (Some GREEN)
     0 (Some sample_identity) LIVE ''main''"

lemma sample_start_reachable: "pipeline_reachable sample_start"
  by (rule pipeline_reachable.step [OF pipeline_reachable.start], rule pipeline_step.elsewhere)
    (simp add: same_pipeline_tables_def sample_start_def)

lemma sample_start_ok: "pipeline_ok sample_start"
  by (rule pipeline_reachable_ok [OF sample_start_reachable])

lemma sample_regime_recorded:
  "regime_snapshots db = [sample_regime_row] \<Longrightarrow>
     recorded_regime sample_env sample_identity (Some GREEN) 0 db = Inr (Some sample_regime_row)"
  by (simp add: recorded_regime_def sample_identity_def sample_regime_row_def find_row_def sample_env_def minute_def
      second_def) (simp add: date_isoformat_def split: prod.split)

lemma sample_bound:
  assumes "live_portfolio_snapshots db = [sample_snapshot]"
  shows "bound_snapshot valid_decision (Some sample_portfolio) 0 sample_identity LIVE ''main'' db = Inr (Some sample_snapshot)"
proof -
  have "get_live_portfolio_snapshot db ''s1'' = Some sample_snapshot"
    using assms by (simp add: get_live_portfolio_snapshot_def find_row_def sample_snapshot_def)
  moreover have "snapshot_facts_match valid_decision (Some sample_portfolio) sample_snapshot = Inr True" by code_simp
  moreover have "fdiv (fsum (map lpos_market_value (filter (\<lambda>p. lpos_ticker p = ticker valid_decision)
      (ls_positions sample_snapshot)))) (ls_account_equity sample_snapshot) = Inr 0" by code_simp
  moreover have "\<not> fl (1 / 10 ^ 9) < \<bar>fsub 0 0\<bar>" by code_simp
  moreover have "ls_execution_profile_id sample_snapshot = ''main''" "\<not> 0 < ls_captured_at sample_snapshot"
    by (simp_all add: sample_snapshot_def minute_def second_def)
  ultimately show ?thesis by (simp add: bound_snapshot_def sample_identity_def)
qed

lemma valid_decision_fields:
  "decision_id valid_decision = ''d1''" "created_at valid_decision = (0, 0)" "ticker valid_decision = ''AAPL''"
  "decision valid_decision = BUY" "final_target_weight valid_decision = 1 / 8"
  by (simp_all add: valid_decision_def sample_decision_def)

lemma sample_intent:
  "\<exists>i. create_order_intent 0 valid_decision (evaluate_decision_policy valid_decision (Some sample_portfolio) (Some GREEN))
     (Some 0) LIVE ''main'' = Inr i \<and> oi_decision_id i = ''d1'' \<and> oi_order_intent_id i = ''oi_d1''"
  using sample_approved
  by (simp add: create_order_intent_def validate_order_intent_def valid_decision_fields Let_def
      order_intent_errors_def length_errors_def error_if_def model_errors_Nil
      require_profile_only_for_live_intents_def) (simp add: range_errors_def error_if_def blank_def strip_def py_isspace_def)

lemma sample_processed:
  "\<exists>db out. sample_run sample_start = Inr (db, out) \<and> po_final_status out = ORDER_INTENT_CREATED \<and>
     order_intents db \<noteq> []"
proof -
  from sample_intent obtain i where i: "create_order_intent 0 valid_decision
      (evaluate_decision_policy valid_decision (Some sample_portfolio) (Some GREEN)) (Some 0) LIVE ''main'' = Inr i"
    "oi_decision_id i = ''d1''" "oi_order_intent_id i = ''oi_d1''"
    by blast
  have act: "actionable BUY" by (simp add: actionable_def)
  note [simp] = valid_decision_fields i act sample_approved [simplified]
  show ?thesis
    using validate_sample
    by (simp add: process_decision_body_def process_new_def empty_db_def get_decision_record_def find_row_def
        save_decision_record_def insert_once_def status_of_def append_status_def history_def subject_events_def
        Let_def latest_def save_policy_evaluation_def sample_regime_recorded sample_bound sample_start_def
        finish_with_intent_def get_order_intent_def save_order_intent_def outcome_def
        del: set_map set_filter image_iff)
qed

section \<open>Properties\<close>

text \<open>
  C3. In every state the pipeline can reach, each decision's status history is a path of the
  transition table without repetition, and a final status (schema failure, rejection, intent) is
  the last one.
\<close>

theorem histories_legal:
  assumes "pipeline_reachable db"
  shows "legal_path LEGAL_TRANSITIONS None (history db i) \<and> distinct (history db i) \<and>
    (\<forall>s\<in>{SCHEMA_FAILED, POLICY_REJECTED, ORDER_INTENT_CREATED}. s \<in> set (history db i) \<longrightarrow>
       latest_status db i = Some s)"
proof -
  have p: "legal_path LEGAL_TRANSITIONS None (history db i)"
    using pipeline_reachable_ok [OF assms] by (simp add: pipeline_ok_defs)
  with decision_status.path_distinct [OF p] decision_status.terminal_last [OF p] show ?thesis
    by (auto simp: latest_status_def)
qed

lemma sample_reachable:
  obtains db out where "sample_run sample_start = Inr (db, out)" "pipeline_reachable db"
    "po_final_status out = ORDER_INTENT_CREATED" "order_intents db \<noteq> []"
  using sample_processed pipeline_reachable.step [OF sample_start_reachable pipeline_step.decided] by blast

lemma histories_legal_witness:
  "\<exists>db out. sample_run sample_start = Inr (db, out) \<and> distinct (history db ''d1'')"
  using histories_legal sample_reachable by metis

text \<open>
  C1. No order without approval, in any state reachable by submitted decisions and arbitrary writes to the tables the
  pipeline does not write (regime rows, live snapshots, runs, packets, broker records): every order intent belongs to a
  stored, validated decision that the deterministic policy approved on the recorded inputs, in the same
  execution mode and profile, with the decision's ticker, side and weight. A BUY of an equity
  therefore never has a target weight above the entry limit. The inputs are those the submission was bound to: a regime
  row the submission named is kept, was computed before the evaluation and has the regime the policy was given, and a
  portfolio snapshot it named is kept, is of the same live profile, was captured before the evaluation and has as many
  holdings as the policy was given.
\<close>

theorem order_intents_approved:
  assumes "pipeline_reachable db" and "x \<in> set (order_intents db)"
  shows "\<exists>r e. get_decision_record db (oi_decision_id x) = Some r \<and> validate_record r = Inr r \<and>
    evaluation_of db (oi_decision_id x) = Some e \<and>
    approved (evaluate_decision_policy r (pe_portfolio e) (pe_true_regime_state e)) \<and>
    pe_execution_mode e = oi_execution_mode x \<and> pe_execution_profile_id e = oi_execution_profile_id x \<and>
    oi_ticker x = ticker r \<and> oi_target_weight x = final_target_weight r \<and>
    INTENT_SIDES (decision r) = Some (oi_side x) \<and>
    (oi_side x = SIDE_BUY \<and> asset_type r = EQUITY \<longrightarrow> oi_target_weight x \<le> MAX_EQUITY_TARGET_WEIGHT) \<and>
    (\<forall>i. pi_regime_snapshot_id (pe_input_identity e) = Some i \<and> i \<noteq> [] \<longrightarrow>
       (\<exists>g. pe_regime_snapshot e = Some g \<and> date_isoformat (rg_snapshot_date g) = i \<and>
          pe_true_regime_state e = Some (rg_regime g) \<and> rg_computed_at g \<le> pe_evaluated_at e)) \<and>
    (\<forall>i. pi_portfolio_snapshot_id (pe_input_identity e) = Some i \<and> i \<noteq> [] \<longrightarrow>
       (\<exists>snap facts. pe_portfolio_snapshot e = Some snap \<and> ls_portfolio_snapshot_id snap = i \<and>
          oi_execution_mode x = LIVE \<and> ls_execution_profile_id snap = oi_execution_profile_id x \<and>
          ls_captured_at snap \<le> pe_evaluated_at e \<and> pe_portfolio e = Some facts \<and>
          holdings_count facts = int (length (filter (\<lambda>p. 0 < lpos_market_value p) (ls_positions snap)))))"
proof -
  note ok = pipeline_reachable_ok [OF assms(1)]
  with assms(2) have "intent_backed db x" by (simp add: pipeline_ok_defs)
  then obtain r e where r: "get_decision_record db (oi_decision_id x) = Some r"
    and e: "evaluation_of db (oi_decision_id x) = Some e" "pe_approved e"
    and x: "pe_execution_mode e = oi_execution_mode x" "pe_execution_profile_id e = oi_execution_profile_id x"
      "oi_ticker x = ticker r" "oi_target_weight x = final_target_weight r"
      "INTENT_SIDES (decision r) = Some (oi_side x)"
    by (auto simp: intent_backed_def)
  from r ok have v: "validate_record r = Inr r"
    by (auto simp: pipeline_ok_defs get_decision_record_def dest: find_row_Some)
  from e ok r have a: "approved (evaluate_decision_policy r (pe_portfolio e) (pe_true_regime_state e))"
    and bound: "regime_bound e" "portfolio_bound e"
    by (auto simp: pipeline_ok_defs evaluation_of_def evaluation_backed_def dest!: find_row_Some)
  have w: "oi_side x = SIDE_BUY \<and> asset_type r = EQUITY \<longrightarrow> oi_target_weight x \<le> MAX_EQUITY_TARGET_WEIGHT"
  proof
    assume buy: "oi_side x = SIDE_BUY \<and> asset_type r = EQUITY"
    with x(5) have "increasing (decision r)" by (cases "decision r") (auto simp: increasing_def)
    with approved_weight [OF a] buy x(4) show "oi_target_weight x \<le> MAX_EQUITY_TARGET_WEIGHT" by simp
  qed
  have g: "\<exists>g. pe_regime_snapshot e = Some g \<and> date_isoformat (rg_snapshot_date g) = i \<and>
      pe_true_regime_state e = Some (rg_regime g) \<and> rg_computed_at g \<le> pe_evaluated_at e"
    if "pi_regime_snapshot_id (pe_input_identity e) = Some i \<and> i \<noteq> []" for i
    using that bound(1) by (cases "pe_regime_snapshot e") (auto simp: regime_bound_def)
  have p: "\<exists>snap facts. pe_portfolio_snapshot e = Some snap \<and> ls_portfolio_snapshot_id snap = i \<and>
      oi_execution_mode x = LIVE \<and> ls_execution_profile_id snap = oi_execution_profile_id x \<and>
      ls_captured_at snap \<le> pe_evaluated_at e \<and> pe_portfolio e = Some facts \<and>
      holdings_count facts = int (length (filter (\<lambda>p. 0 < lpos_market_value p) (ls_positions snap)))"
    if "pi_portfolio_snapshot_id (pe_input_identity e) = Some i \<and> i \<noteq> []" for i
    using that bound(2) x(1,2) by (cases "pe_portfolio_snapshot e") (auto simp: portfolio_bound_def held_positions_def)
  from r v e(1) a x w g p show ?thesis by blast
qed

lemma order_intents_approved_witness:
  "\<exists>db out x r. sample_run sample_start = Inr (db, out) \<and> x \<in> set (order_intents db) \<and>
     get_decision_record db (oi_decision_id x) = Some r \<and> validate_record r = Inr r"
proof -
  obtain db out where db: "sample_run sample_start = Inr (db, out)" "pipeline_reachable db" "order_intents db \<noteq> []"
    by (rule sample_reachable)
  then have "hd (order_intents db) \<in> set (order_intents db)" by simp
  from order_intents_approved [OF db(2) this] db(1) this show ?thesis by blast
qed

text \<open>
  C2. Replay is exact: once a decision is settled (any outcome but a schema failure), submitting it again, after any
  further decisions and any writes to the tables the pipeline does not write, at a later time, with its creation time
  written in another offset, and whatever the portfolio and regime facts are by then, returns the first outcome (the
  same status, rejection reasons and intent) and writes nothing.
\<close>

theorem replay_exact:
  assumes "pipeline_reachable db"
    and "process_decision_body env sub port truth now ident m prof db = Inr (db1, out)"
    and "po_final_status out \<noteq> SCHEMA_FAILED"
    and "pipeline_step\<^sup>*\<^sup>* db1 db2"
    and "model_validate sub = Inr r" and "model_validate sub' = Inr r'" and "same_decision r r'"
  shows "process_decision_body env' sub' port' truth' now' ident' m prof db2 = Inr (db2, out)"
proof -
  note ok = pipeline_reachable_ok [OF assms(1)]
  from body_settled [OF assms(2) ok assms(3)] assms(5) have "settled db1 r m prof out" by simp
  moreover note later = pipeline_steps_ok [OF assms(4) body_step(1) [OF assms(2) ok]]
  ultimately have s: "settled db2 r' m prof out" using settled_extends settled_same [OF _ assms(7)] by blast
  then obtain q where q: "get_decision_record db2 (decision_id r') = Some q" by (auto simp: settled_def)
  have "tables_ok db2" using later by (simp add: pipeline_ok_def)
  from settled_replay [OF this s q] q assms(6) show ?thesis by (auto simp: process_decision_body_def)
qed

lemma validate_sample_offset:
  "validate_record (sample_decision\<lparr>created_at := (0, 60 * minute)\<rparr>) = Inr (valid_decision\<lparr>created_at := (0, 60 * minute)\<rparr>)"
  by code_simp

text \<open>The sample again, an hour later by its clock in another zone and without its regime row, which is gone.\<close>

lemma replay_exact_witness:
  "\<exists>db out. sample_run sample_start = Inr (db, out) \<and>
     process_decision_body sample_env (Draft (sample_decision\<lparr>created_at := (0, 60 * minute)\<rparr>)) None None (60 * minute)
       None LIVE ''main'' (db\<lparr>regime_snapshots := []\<rparr>) = Inr (db\<lparr>regime_snapshots := []\<rparr>, out)"
proof -
  obtain db out where db: "sample_run sample_start = Inr (db, out)" "po_final_status out = ORDER_INTENT_CREATED"
    by (rule sample_reachable)
  have later: "pipeline_step\<^sup>*\<^sup>* db (db\<lparr>regime_snapshots := []\<rparr>)"
    by (rule r_into_rtranclp, rule pipeline_step.elsewhere) (simp add: same_pipeline_tables_def)
  have r: "model_validate (Draft sample_decision) = Inr valid_decision" using validate_sample by simp
  have r': "model_validate (Draft (sample_decision\<lparr>created_at := (0, 60 * minute)\<rparr>)) =
      Inr (valid_decision\<lparr>created_at := (0, 60 * minute)\<rparr>)" using validate_sample_offset by simp
  have same: "same_decision valid_decision (valid_decision\<lparr>created_at := (0, 60 * minute)\<rparr>)"
    by (simp add: same_decision_def valid_decision_def sample_decision_def)
  from replay_exact [OF sample_start_reachable db(1) _ later r r' same] db show ?thesis by auto
qed

end
