(* ===== verification/Packet.thy ===== *)
theory Packet
  imports LiveSchemas
begin

text \<open>
  The execution packet of a live order (\<open>app/broker/packet.py\<close>): the price guard, the reasons that
  refuse a packet, and the packet itself. Prices are floats, so every operation rounds.
\<close>

definition LIMIT_ALLOWANCE :: pyfloat where "LIMIT_ALLOWANCE = fl (1 / 100)"

definition allowed_price :: "OrderIntent \<Rightarrow> InvestmentDecisionRecord \<Rightarrow> BrokerPreflight \<Rightarrow> pyfloat" where
  "allowed_price intent d preflight =
    (if oi_side intent = SIDE_BUY then
       let anchor = (case reference_price d of Some p \<Rightarrow> p | None \<Rightarrow> bp_ask preflight);
           limit = py_round 2 (fmul anchor (fadd 1 LIMIT_ALLOWANCE))
       in (case entry_price_max d of Some bound \<Rightarrow> min limit bound | None \<Rightarrow> limit)
     else
       let limit = py_round 2 (fmul (bp_bid preflight) (fsub 1 LIMIT_ALLOWANCE))
       in (case entry_price_min d of Some lowest \<Rightarrow> max limit lowest | None \<Rightarrow> limit))"

definition identity_reasons :: "OrderIntent \<Rightarrow> InvestmentDecisionRecord \<Rightarrow> ExecutionProfile \<Rightarrow>
    BrokerPreflight \<Rightarrow> string list" where
  "identity_reasons intent d profile preflight =
     error_if (\<not> ep_enabled profile) ''live_profile_disabled'' @
     error_if (oi_execution_mode intent \<noteq> LIVE) ''intent_is_not_live'' @
     error_if (oi_execution_profile_id intent = [] \<or>
         oi_execution_profile_id intent \<noteq> ep_execution_profile_id profile) ''intent_profile_mismatch'' @
     error_if (bp_execution_profile_id preflight \<noteq> ep_execution_profile_id profile)
       ''preflight_profile_mismatch'' @
     error_if (bp_broker_account_fingerprint preflight \<noteq> ep_broker_account_fingerprint profile)
       ''broker_account_mismatch'' @
     error_if (oi_decision_id intent \<noteq> decision_id d \<or> oi_ticker intent \<noteq> ticker d)
       ''decision_intent_mismatch'' @
     error_if (INTENT_SIDES (decision d) \<noteq> Some (oi_side intent) \<or>
         oi_target_weight intent \<noteq> final_target_weight d) ''decision_intent_mismatch'' @
     error_if (bp_ticker preflight \<noteq> oi_ticker intent) ''preflight_ticker_mismatch'' @
     error_if (asset_type d \<noteq> EQUITY) ''live_asset_type_not_allowed'' @
     error_if (oi_order_type intent \<noteq> LIMIT) ''live_order_type_not_allowed'' @
     error_if (\<not> bp_tradable preflight) ''ticker_not_tradable'' @
     error_if (\<not> bp_fractionable preflight) ''ticker_not_fractionable'' @
     error_if (\<not> bp_regular_market_hours preflight) ''outside_regular_market_hours''"

text \<open>\<open>(now - quote_at).total_seconds()\<close>, a float.\<close>

definition total_seconds :: "int \<Rightarrow> pyfloat" where
  "total_seconds us = fl (of_int us / 1000000)"

definition quote_reasons :: "ExecutionProfile \<Rightarrow> BrokerPreflight \<Rightarrow> instant \<Rightarrow> string list" where
  "quote_reasons profile preflight now =
     error_if (now < bp_quote_at preflight) ''quote_timestamp_in_future'' @
     error_if (of_int (ep_max_quote_age_seconds profile) \<le> total_seconds (now - bp_quote_at preflight))
       ''stale_quote''"

definition spread_bps :: "BrokerPreflight \<Rightarrow> pyfloat result" where
  "spread_bps preflight = and_then (fdiv (fadd (bp_bid preflight) (bp_ask preflight)) 2) (\<lambda>midpoint.
     and_then (fdiv (fsub (bp_ask preflight) (bp_bid preflight)) midpoint) (\<lambda>r. Inr (fmul r 10000)))"

definition spread_cap :: "OrderIntent \<Rightarrow> ExecutionProfile \<Rightarrow> bool \<Rightarrow> pyfloat" where
  "spread_cap intent profile crisis = (if crisis \<and> oi_side intent = SIDE_SELL
     then ep_crisis_max_spread_bps profile else ep_max_spread_bps profile)"

definition price_reasons :: "OrderIntent \<Rightarrow> InvestmentDecisionRecord \<Rightarrow> BrokerPreflight \<Rightarrow> string list" where
  "price_reasons intent d preflight =
    (let guard = allowed_price intent d preflight in
     if oi_side intent = SIDE_BUY then
       (case entry_price_max d of
          None \<Rightarrow> [''missing_entry_price_band'']
        | Some bound \<Rightarrow> if bound < bp_ask preflight then [''price_above_entry_band'']
            else error_if (guard < bp_ask preflight) ''price_above_allowed_range'')
     else if (case entry_price_min d of Some lowest \<Rightarrow> bp_bid preflight < lowest | None \<Rightarrow> False)
       then [''price_below_exit_band'']
     else error_if (bp_bid preflight < guard) ''price_below_allowed_range'')"

definition delta_value :: "OrderIntent \<Rightarrow> BrokerPreflight \<Rightarrow> pyfloat" where
  "delta_value intent preflight =
     fsub (fmul (oi_target_weight intent) (bp_account_equity preflight)) (bp_current_position_value preflight)"

definition size_reasons :: "OrderIntent \<Rightarrow> ExecutionProfile \<Rightarrow> BrokerPreflight \<Rightarrow> string list" where
  "size_reasons intent profile preflight =
    (let delta = delta_value intent preflight in
     error_if (oi_side intent = SIDE_BUY \<and> delta \<le> 0) ''buy_has_non_positive_delta'' @
     error_if (oi_side intent = SIDE_SELL \<and> 0 \<le> delta) ''sell_has_non_negative_delta'' @
     error_if (ep_max_order_notional profile < \<bar>delta\<bar>) ''max_order_notional_exceeded'' @
     error_if (oi_side intent = SIDE_BUY \<and> bp_buying_power preflight < \<bar>delta\<bar>)
       ''insufficient_buying_power'')"

text \<open>
  \<open>created_at\<close> is the UTC time passed in, or the current time. The packet's own validators run last.
\<close>

definition build_execution_packet :: "OrderIntent \<Rightarrow> InvestmentDecisionRecord \<Rightarrow> ExecutionProfile \<Rightarrow>
    BrokerPreflight \<Rightarrow> instant \<Rightarrow> bool \<Rightarrow> LiveExecutionPacket result" where
  "build_execution_packet intent d profile preflight now crisis =
     and_then (spread_bps preflight) (\<lambda>spread.
       let guard = allowed_price intent d preflight;
           problems = identity_reasons intent d profile preflight @ quote_reasons profile preflight now @
             error_if (spread_cap intent profile crisis < spread) ''spread_too_wide'' @
             price_reasons intent d preflight @ size_reasons intent profile preflight
       in if problems \<noteq> [] then Inl (ValueError (join '','' problems))
       else let packet =
         \<lparr>pk_execution_packet_id = ''ep_'' @ ep_execution_profile_id profile @ ''_'' @
            oi_order_intent_id intent @ ''_'' @ compact_timestamp now,
          pk_order_intent_id = oi_order_intent_id intent, pk_decision_id = oi_decision_id intent,
          pk_execution_profile_id = ep_execution_profile_id profile,
          pk_agent_provider = ep_agent_provider profile, pk_account_alias = ep_account_alias profile,
          pk_created_at = now,
          pk_expires_at = bp_quote_at preflight + ep_max_quote_age_seconds profile * second,
          pk_ticker = oi_ticker intent, pk_side = oi_side intent, pk_order_type = oi_order_type intent,
          pk_target_weight = oi_target_weight intent, pk_account_equity = bp_account_equity preflight,
          pk_current_position_value = bp_current_position_value preflight,
          pk_notional = py_round 2 \<bar>delta_value intent preflight\<bar>, pk_limit_price = guard,
          pk_quote_at = bp_quote_at preflight, pk_spread_bps = spread,
          pk_require_human_approval = ep_require_human_approval profile\<rparr>
       in if packet_errors packet = [] then Inr packet else Inl (ValidationError (packet_errors packet)))"

section \<open>What a packet guarantees\<close>

lemma total_seconds_int: "\<bar>n\<bar> < 2 ^ 53 \<Longrightarrow> total_seconds (n * second) = of_int n"
  by (simp add: total_seconds_def second_def fl_of_int)

lemma total_seconds_mono: "a \<le> b \<Longrightarrow> total_seconds a \<le> total_seconds b"
  by (simp add: total_seconds_def fl_mono divide_right_mono)

lemma packet_built:
  assumes "build_execution_packet intent d profile preflight now crisis = Inr p"
  shows "identity_reasons intent d profile preflight = []" and "quote_reasons profile preflight now = []"
    and "price_reasons intent d preflight = []" and "size_reasons intent profile preflight = []"
    and "\<not> spread_cap intent profile crisis < pk_spread_bps p" and "packet_errors p = []"
    and "pk_limit_price p = allowed_price intent d preflight" and "pk_created_at p = now"
    and "pk_notional p = py_round 2 \<bar>delta_value intent preflight\<bar>"
    and "pk_expires_at p = bp_quote_at preflight + ep_max_quote_age_seconds profile * second"
    and "pk_side p = oi_side intent" and "pk_ticker p = oi_ticker intent"
    and "pk_quote_at p = bp_quote_at preflight" and "pk_target_weight p = oi_target_weight intent"
    and "pk_order_intent_id p = oi_order_intent_id intent" and "pk_decision_id p = oi_decision_id intent"
    and "pk_execution_profile_id p = ep_execution_profile_id profile"
    and "pk_order_type p = oi_order_type intent"
  using assms by (auto simp: build_execution_packet_def Let_def result_simps split: if_splits)

text \<open>A quote younger than the profile's limit makes a packet that has not expired.\<close>

lemma fresh_quote:
  assumes "quote_reasons profile preflight now = []" and "0 \<le> ep_max_quote_age_seconds profile"
    and "ep_max_quote_age_seconds profile \<le> 120"
  shows "bp_quote_at preflight \<le> now"
    and "now < bp_quote_at preflight + ep_max_quote_age_seconds profile * second"
proof -
  let ?n = "ep_max_quote_age_seconds profile" and ?age = "now - bp_quote_at preflight"
  from assms(1) have "total_seconds ?age < of_int ?n" "bp_quote_at preflight \<le> now"
    by (auto simp: quote_reasons_def error_if_Nil not_le)
  then show "bp_quote_at preflight \<le> now" by simp
  have "total_seconds (?n * second) = of_int ?n" using assms(2,3) by (intro total_seconds_int) simp
  with \<open>total_seconds ?age < of_int ?n\<close> total_seconds_mono [of "?n * second" ?age]
  show "now < bp_quote_at preflight + ?n * second" by linarith
qed

text \<open>
  C8. A packet that is built respects every guard of the live profile: the account, profile,
  decision and intent agree; the quote is not in the future and is younger than the profile's maximal quote age, and
  the packet expires exactly when the quote reaches that age, so it has not expired when it is created;
  the order's value is the distance to the target weight, to the cent, within the profile's maximum and for a buy within
  the buying power; a buy's limit price is at least the ask it was quoted and at most the decision's
  entry bound and 1% above its reference price (or, without one, the ask), rounded to the cent; a sell's limit is at most
  the quoted bid and at least 1% below it, rounded to the cent, and at least the exit floor; the spread is within the
  cap of the side and mode.
\<close>

theorem packet_respects_guards:
  assumes built: "build_execution_packet intent d profile preflight now crisis = Inr p"
    and profile: "profile_errors profile = []"
  shows "ep_enabled profile \<and> oi_execution_mode intent = LIVE \<and>
    oi_execution_profile_id intent = ep_execution_profile_id profile \<and>
    bp_broker_account_fingerprint preflight = ep_broker_account_fingerprint profile \<and>
    pk_decision_id p = decision_id d \<and> pk_ticker p = ticker d \<and> bp_ticker preflight = ticker d \<and>
    INTENT_SIDES (decision d) = Some (pk_side p) \<and> asset_type d = EQUITY \<and>
    pk_created_at p = now \<and> bp_quote_at preflight \<le> now \<and>
    now - bp_quote_at preflight < ep_max_quote_age_seconds profile * second \<and>
    pk_expires_at p = bp_quote_at preflight + ep_max_quote_age_seconds profile * second \<and>
    pk_created_at p < pk_expires_at p \<and>
    pk_notional p = py_round 2 \<bar>fsub (fmul (final_target_weight d) (bp_account_equity preflight))
      (bp_current_position_value preflight)\<bar> \<and>
    0 < pk_notional p \<and> pk_notional p \<le> py_round 2 (ep_max_order_notional profile) \<and>
    (pk_side p = SIDE_BUY \<longrightarrow> pk_notional p \<le> py_round 2 (bp_buying_power preflight) \<and>
       (\<exists>bound. entry_price_max d = Some bound \<and> bp_ask preflight \<le> pk_limit_price p \<and>
          pk_limit_price p \<le> bound) \<and>
       pk_limit_price p \<le> py_round 2 (fmul (case reference_price d of Some ref \<Rightarrow> ref | None \<Rightarrow> bp_ask preflight)
         (fadd 1 (fl (1 / 100))))) \<and>
    (pk_side p = SIDE_SELL \<longrightarrow> pk_limit_price p \<le> bp_bid preflight \<and>
       py_round 2 (fmul (bp_bid preflight) (fsub 1 (fl (1 / 100)))) \<le> pk_limit_price p \<and>
       (\<forall>lowest. entry_price_min d = Some lowest \<longrightarrow> lowest \<le> pk_limit_price p)) \<and>
    pk_spread_bps p \<le> (if crisis \<and> pk_side p = SIDE_SELL then ep_crisis_max_spread_bps profile
       else ep_max_spread_bps profile)"
proof -
  note b = packet_built [OF built]
  have age: "0 \<le> ep_max_quote_age_seconds profile" "ep_max_quote_age_seconds profile \<le> 120"
    using profile by (auto simp: profile_errors_def model_errors_Nil error_if_Nil)
  note fresh = fresh_quote [OF b(2) age]
  have notional: "0 < pk_notional p"
    using b(6) by (simp add: packet_errors_def model_errors_Nil float_errors_Nil)
  have max: "\<bar>delta_value intent preflight\<bar> \<le> ep_max_order_notional profile"
    using b(4) by (auto simp: size_reasons_def Let_def error_if_Nil)
  have power: "oi_side intent = SIDE_BUY \<Longrightarrow> \<bar>delta_value intent preflight\<bar> \<le> bp_buying_power preflight"
    using b(4) by (auto simp: size_reasons_def Let_def error_if_Nil)
  have buy: "\<exists>bound. entry_price_max d = Some bound \<and> bp_ask preflight \<le> allowed_price intent d preflight \<and>
      allowed_price intent d preflight \<le> bound" if "oi_side intent = SIDE_BUY"
    using b(3) that by (auto simp: price_reasons_def allowed_price_def Let_def error_if_Nil not_less
        split: option.splits if_splits)
  have chase: "allowed_price intent d preflight \<le> py_round 2 (fmul (case reference_price d of Some ref \<Rightarrow> ref
      | None \<Rightarrow> bp_ask preflight) (fadd 1 (fl (1 / 100))))"
    if "oi_side intent = SIDE_BUY"
    using that by (auto simp: allowed_price_def LIMIT_ALLOWANCE_def Let_def split: option.splits)
  have lower: "py_round 2 (fmul (bp_bid preflight) (fsub 1 (fl (1 / 100)))) \<le> allowed_price intent d preflight"
    if "oi_side intent = SIDE_SELL"
    using that by (auto simp: allowed_price_def LIMIT_ALLOWANCE_def Let_def split: option.splits)
  have weight: "oi_target_weight intent = final_target_weight d"
    using b(1) by (simp add: identity_reasons_def error_if_Nil)
  then have size: "pk_notional p = py_round 2 \<bar>fsub (fmul (final_target_weight d) (bp_account_equity preflight))
      (bp_current_position_value preflight)\<bar>"
    using b(9) by (simp add: delta_value_def)
  have sell: "allowed_price intent d preflight \<le> bp_bid preflight \<and>
      (\<forall>lowest. entry_price_min d = Some lowest \<longrightarrow> lowest \<le> allowed_price intent d preflight)"
    if "oi_side intent = SIDE_SELL"
    using b(3) that by (auto simp: price_reasons_def allowed_price_def Let_def error_if_Nil not_less
        split: option.splits if_splits)
  have caps: "pk_notional p \<le> py_round 2 (ep_max_order_notional profile)"
    "oi_side intent = SIDE_BUY \<Longrightarrow> pk_notional p \<le> py_round 2 (bp_buying_power preflight)"
    using b(9) py_round_mono [OF max] py_round_mono [OF power] by simp_all
  have young: "now - bp_quote_at preflight < ep_max_quote_age_seconds profile * second" using fresh(2) by linarith
  have ids: "ep_enabled profile" "oi_execution_mode intent = LIVE"
    "oi_execution_profile_id intent = ep_execution_profile_id profile"
    "bp_broker_account_fingerprint preflight = ep_broker_account_fingerprint profile"
    "oi_decision_id intent = decision_id d" "oi_ticker intent = ticker d" "bp_ticker preflight = ticker d"
    "INTENT_SIDES (decision d) = Some (oi_side intent)" "asset_type d = EQUITY"
    using b(1) by (simp_all add: identity_reasons_def error_if_Nil)
  have cap: "pk_spread_bps p \<le> (if crisis \<and> oi_side intent = SIDE_SELL then ep_crisis_max_spread_bps profile
       else ep_max_spread_bps profile)"
    using b(5) by (simp add: spread_cap_def not_less split: if_splits)
  show ?thesis
    unfolding b(7,8,10,11,12,16)
    using ids fresh young size caps notional buy chase sell lower cap by blast
qed

definition sample_order :: OrderIntent where
  "sample_order = \<lparr>oi_order_intent_id = ''oi_d1'', oi_decision_id = ''d1'', oi_created_at = 0,
     oi_ticker = ''AAPL'', oi_side = SIDE_BUY, oi_order_type = LIMIT, oi_target_weight = 1 / 8,
     oi_status = CREATED, oi_execution_mode = LIVE, oi_execution_profile_id = ''main''\<rparr>"

definition sample_profile :: ExecutionProfile where
  "sample_profile = \<lparr>ep_execution_profile_id = ''main'', ep_agent_provider = CODEX,
     ep_account_alias = ''a'', ep_broker_account_fingerprint = ''0123456789abcdef'', ep_enabled = True,
     ep_max_order_notional = 500, ep_max_quote_age_seconds = 60, ep_max_spread_bps = 50,
     ep_crisis_max_spread_bps = 150, ep_require_human_approval = False\<rparr>"

definition sample_preflight :: BrokerPreflight where
  "sample_preflight = \<lparr>bp_execution_profile_id = ''main'',
     bp_broker_account_fingerprint = ''0123456789abcdef'', bp_account_equity = 1000,
     bp_buying_power = 400, bp_ticker = ''AAPL'', bp_current_position_value = 0, bp_bid = 100,
     bp_ask = 100, bp_quote_at = 0, bp_tradable = True, bp_fractionable = True,
     bp_regular_market_hours = True\<rparr>"

lemma sample_profile_accepted: "profile_errors sample_profile = []"
  by (simp add: profile_errors_def model_errors_Nil sample_profile_def float_errors_Nil isfinite_def
      error_if_Nil require_fingerprint_for_enabled_profile_def) code_simp

lemma sample_limit: "py_round 2 (fmul 100 (fadd 1 LIMIT_ALLOWANCE)) = 101"
  by code_simp

lemma sample_order_values:
  "delta_value sample_order sample_preflight = 125" "spread_bps sample_preflight = Inr 0"
  "allowed_price sample_order valid_decision sample_preflight = 101"
  using sample_limit fl_of_int [of 125] fl_of_int [of 0] fl_of_int [of 200] fl_of_int [of 100]
  by (simp_all add: delta_value_def sample_order_def sample_preflight_def fmul_def fsub_def spread_bps_def
      fadd_def fdiv_def allowed_price_def valid_decision_def sample_decision_def)

lemma sample_packet_built:
  "\<exists>p. build_execution_packet sample_order valid_decision sample_profile sample_preflight second False = Inr p"
proof -
  have round: "py_round 2 125 = 125"
    using fl_of_int [of 125] by (simp add: py_round_def)
  have age: "total_seconds second = 1" using fl_1 by (simp add: total_seconds_def second_def)
  have v: "ticker valid_decision = ''AAPL''" "decision_id valid_decision = ''d1''" "asset_type valid_decision = EQUITY"
    "decision valid_decision = BUY" "final_target_weight valid_decision = 1 / 8" "entry_price_max valid_decision = Some 110"
    by (simp_all add: valid_decision_def sample_decision_def)
  have ids: "identity_reasons sample_order valid_decision sample_profile sample_preflight = []"
    by (simp add: identity_reasons_def sample_order_def sample_profile_def sample_preflight_def v error_if_Nil)
  have quote: "quote_reasons sample_profile sample_preflight second = []"
    using age by (simp add: quote_reasons_def sample_profile_def sample_preflight_def error_if_Nil)
      (simp add: second_def)
  have price: "price_reasons sample_order valid_decision sample_preflight = []"
    by (simp add: price_reasons_def Let_def sample_order_values v error_if_Nil)
      (simp add: sample_order_def sample_preflight_def)
  have size: "size_reasons sample_order sample_profile sample_preflight = []"
    by (simp add: size_reasons_def Let_def sample_order_values error_if_Nil)
      (simp add: sample_profile_def sample_preflight_def sample_order_def)
  have cap: "\<not> spread_cap sample_order sample_profile False < 0"
    by (simp add: spread_cap_def sample_profile_def)
  have "\<exists>p. build_execution_packet sample_order valid_decision sample_profile sample_preflight second False = Inr p"
    by (simp add: build_execution_packet_def Let_def ids quote price size cap sample_order_values round
        error_if_def packet_errors_def model_errors_Nil float_errors_Nil isfinite_def length_errors_Nil
        range_errors_Nil require_consistent_times_def)
      (simp add: sample_order_def sample_profile_def sample_preflight_def second_def)
  then show ?thesis .
qed

lemma packet_respects_guards_witness:
  "\<exists>p. build_execution_packet sample_order valid_decision sample_profile sample_preflight second False = Inr p \<and>
     pk_created_at p < pk_expires_at p \<and> pk_notional p \<le> py_round 2 (ep_max_order_notional sample_profile)"
  using sample_packet_built packet_respects_guards [OF _ sample_profile_accepted] by blast

end
