(* ===== verification/BrokerLifecycle.thy ===== *)
theory BrokerLifecycle
  imports PipelineInvariant
begin

text \<open>
  The broker lifecycle (\<open>app/broker/lifecycle.py\<close>): the append-only events of a broker execution,
  their transition table, clock and bindings to intent, packet and execution record.
\<close>

fun BROKER_TRANSITIONS :: "BrokerExecutionStatus option \<Rightarrow> BrokerExecutionStatus set" where
  "BROKER_TRANSITIONS None = {REVIEWED, FAILED}"
| "BROKER_TRANSITIONS (Some REVIEWED) = {SUBMITTED, CANCELED, FAILED}"
| "BROKER_TRANSITIONS (Some SUBMITTED) = {PARTIALLY_FILLED, FILLED, CANCELED, FAILED}"
| "BROKER_TRANSITIONS (Some PARTIALLY_FILLED) = {PARTIALLY_FILLED, FILLED, CANCELED, FAILED}"
| "BROKER_TRANSITIONS (Some FILLED) = {}"
| "BROKER_TRANSITIONS (Some CANCELED) = {}"
| "BROKER_TRANSITIONS (Some FAILED) = {}"

definition record_events :: "core_db \<Rightarrow> string \<Rightarrow> BrokerExecutionEvent list" where
  "record_events db i = filter (\<lambda>e. be_broker_execution_record_id e = i) (broker_execution_events db)"

text \<open>
  \<open>ORDER BY julianday(occurred_at) DESC, rowid DESC LIMIT 1\<close>: the greatest millisecond, and of equal
  ones the row inserted last.
\<close>

fun latest_event :: "BrokerExecutionEvent list \<Rightarrow> BrokerExecutionEvent option" where
  "latest_event [] = None"
| "latest_event (e # es) = (case latest_event es of
     None \<Rightarrow> Some e
   | Some f \<Rightarrow> if julianday (be_occurred_at f) < julianday (be_occurred_at e) then Some e else Some f)"

definition latest_execution_status :: "core_db \<Rightarrow> string \<Rightarrow> BrokerExecutionStatus option" where
  "latest_execution_status db i = map_option be_status (latest_event (record_events db i))"

definition packet_event_guard :: "BrokerExecutionEvent \<Rightarrow> core_db \<Rightarrow> unit result" where
  "packet_event_guard event db = (case get_execution_packet db (be_execution_packet_id event) of
     None \<Rightarrow> Inl (ValueError (''missing execution packet '' @ be_execution_packet_id event))
   | Some packet \<Rightarrow>
       if pk_order_intent_id packet \<noteq> be_order_intent_id event \<or>
           pk_execution_profile_id packet \<noteq> be_execution_profile_id event
         then Inl (ValueError ''broker event profile does not match its execution packet'')
       else if be_occurred_at event < pk_created_at packet
         then Inl (ValueError ''broker event precedes packet creation'')
       else if be_status event = REVIEWED \<and> pk_expires_at packet \<le> be_occurred_at event
         then Inl (ValueError ''execution packet expired before broker review'')
       else Inr ())"

definition execution_event_guard :: "BrokerExecutionEvent \<Rightarrow> core_db \<Rightarrow> unit result" where
  "execution_event_guard event db =
    (case get_broker_execution_record db (be_broker_execution_record_id event) of
       None \<Rightarrow> Inl (ValueError (''missing broker execution record '' @ be_broker_execution_record_id event))
     | Some execution \<Rightarrow>
         if br_order_intent_id execution \<noteq> be_order_intent_id event
           then Inl (ValueError ''broker event does not match its execution record'')
         else if br_execution_packet_id execution \<noteq> be_execution_packet_id event
           then Inl (ValueError ''broker event packet does not match its execution record'')
         else Inr ())"

definition continuity_guard :: "BrokerExecutionEvent \<Rightarrow> core_db \<Rightarrow> unit result" where
  "continuity_guard event db = (case latest_event (record_events db (be_broker_execution_record_id event)) of
     None \<Rightarrow> Inr ()
   | Some l \<Rightarrow>
       if (be_order_intent_id l, be_execution_packet_id l, be_execution_profile_id l) \<noteq>
           (be_order_intent_id event, be_execution_packet_id event, be_execution_profile_id event)
         then Inl (ValueError ''broker event lifecycle identity mismatch'')
       else if be_occurred_at event < be_occurred_at l
         then Inl (ValueError ''broker event occurred_at cannot move backward'')
       else Inr ())"

definition intent_event_guard :: "BrokerExecutionEvent \<Rightarrow> core_db \<Rightarrow> unit result" where
  "intent_event_guard event db = (case get_order_intent db (be_order_intent_id event) of
     None \<Rightarrow> Inl (ValueError (''missing order intent '' @ be_order_intent_id event))
   | Some intent \<Rightarrow>
       if oi_execution_mode intent \<noteq> LIVE
         then Inl (ValueError (''order intent '' @ be_order_intent_id event @ '' is not live''))
       else if oi_execution_profile_id intent \<noteq> be_execution_profile_id event
         then Inl (ValueError ''broker event profile does not match its order intent'')
       else Inr ())"

text \<open>
  \<open>append_execution_event\<close> runs the body in one immediate transaction, so no other writer comes
  between its reads and its insert.
\<close>

definition append_execution_event :: "BrokerExecutionEvent \<Rightarrow> core_db \<Rightarrow> (core_db \<times> bool) result" where
  "append_execution_event event db =
    and_then (intent_event_guard event db) (\<lambda>_.
      case find_row be_broker_event_id (be_broker_event_id event) (broker_execution_events db) of
        Some existing \<Rightarrow> if existing = event then Inr (db, False)
          else Inl (ValueError (''broker event '' @ be_broker_event_id event @ '' has conflicting content''))
      | None \<Rightarrow>
          let current = latest_execution_status db (be_broker_execution_record_id event) in
          and_then (continuity_guard event db) (\<lambda>_.
          if be_status event \<notin> BROKER_TRANSITIONS current
            then Inl (ValueError (''illegal broker transition for '' @ be_broker_execution_record_id event))
          else and_then
            (if be_status event = REVIEWED \<or> (be_status event = CANCELED \<and> current = Some REVIEWED)
             then packet_event_guard event db else Inr ()) (\<lambda>_.
          and_then
            (if be_status event \<in> {SUBMITTED, PARTIALLY_FILLED, FILLED} \<or>
                (be_status event = CANCELED \<and> current \<noteq> Some REVIEWED)
             then execution_event_guard event db else Inr ()) (\<lambda>_.
          Inr (db\<lparr>broker_execution_events := broker_execution_events db @ [event]\<rparr>, True)))))"

section \<open>The latest event is the last one\<close>

text \<open>
  The invariant of a lifecycle: its statuses follow the table, its times never move back, and it
  keeps one intent, packet and profile.
\<close>

fun broker_rank :: "BrokerExecutionStatus \<Rightarrow> nat" where
  "broker_rank REVIEWED = 0"
| "broker_rank SUBMITTED = 1"
| "broker_rank PARTIALLY_FILLED = 2"
| "broker_rank FILLED = 3"
| "broker_rank CANCELED = 3"
| "broker_rank FAILED = 3"

lemma broker_rank_step: "t \<in> BROKER_TRANSITIONS (Some s) \<Longrightarrow> broker_rank s \<le> broker_rank t"
  by (cases s) auto

interpretation broker_status: status_machine BROKER_TRANSITIONS broker_rank
  by unfold_locales (rule broker_rank_step)

definition event_identity :: "BrokerExecutionEvent \<Rightarrow> string \<times> string \<times> string" where
  "event_identity e = (be_order_intent_id e, be_execution_packet_id e, be_execution_profile_id e)"

definition lifecycle_ok :: "BrokerExecutionEvent list \<Rightarrow> bool" where
  "lifecycle_ok es = (legal_path BROKER_TRANSITIONS None (map be_status es) \<and>
     sorted (map be_occurred_at es) \<and> (\<forall>e\<in>set es. \<forall>f\<in>set es. event_identity e = event_identity f))"

lemma latest_event_snoc:
  "sorted (map be_occurred_at (es @ [e])) \<Longrightarrow> latest_event (es @ [e]) = Some e"
proof (induction es)
  case (Cons f fs)
  then have "latest_event (fs @ [e]) = Some e" by simp
  moreover have "be_occurred_at f \<le> be_occurred_at e" using Cons.prems by (simp add: sorted_append)
  ultimately show ?case using julianday_mono [of "be_occurred_at f" "be_occurred_at e"] by simp
qed simp

lemma latest_event_last:
  "lifecycle_ok es \<Longrightarrow> latest_event es = (if es = [] then None else Some (last es))"
  by (cases es rule: rev_cases) (simp_all add: lifecycle_ok_def latest_event_snoc)

lemma append_execution_event_cases:
  assumes "append_execution_event event db = Inr (db', b)"
  obtains "\<not> b" "db' = db" "event \<in> set (broker_execution_events db)"
    | "b" "db' = db\<lparr>broker_execution_events := broker_execution_events db @ [event]\<rparr>"
      "be_status event \<in> BROKER_TRANSITIONS (latest_execution_status db (be_broker_execution_record_id event))"
      "continuity_guard event db = Inr ()" "intent_event_guard event db = Inr ()"
      "be_status event = REVIEWED \<Longrightarrow> packet_event_guard event db = Inr ()"
      "be_status event \<in> {SUBMITTED, PARTIALLY_FILLED, FILLED} \<Longrightarrow> execution_event_guard event db = Inr ()"
proof (cases "find_row be_broker_event_id (be_broker_event_id event) (broker_execution_events db)")
  case (Some e)
  with assms have "\<not> b" "db' = db" "e = event"
    by (auto simp: append_execution_event_def result_simps split: if_splits)
  with find_row_Some [OF Some] show ?thesis using that(1) by auto
next
  case None
  show ?thesis
    by (rule that(2)) (use assms None in \<open>auto simp: append_execution_event_def result_simps Let_def
      split: if_splits\<close>)
qed

lemma record_events_append [simp]:
  "record_events (db\<lparr>broker_execution_events := broker_execution_events db @ [e]\<rparr>) i =
     record_events db i @ (if be_broker_execution_record_id e = i then [e] else [])"
  by (simp add: record_events_def)

lemma lifecycle_step:
  assumes "append_execution_event event db = Inr (db', b)" and "\<And>i. lifecycle_ok (record_events db i)"
  shows "lifecycle_ok (record_events db' i)"
  using assms(1)
proof (rule append_execution_event_cases)
  assume db': "db' = db\<lparr>broker_execution_events := broker_execution_events db @ [event]\<rparr>"
    and legal: "be_status event \<in> BROKER_TRANSITIONS (latest_execution_status db (be_broker_execution_record_id event))"
    and cont: "continuity_guard event db = Inr ()"
  let ?es = "record_events db (be_broker_execution_record_id event)"
  show ?thesis
  proof (cases "i = be_broker_execution_record_id event")
    case False
    then show ?thesis using assms(2) db' by simp
  next
    case True
    have ok: "lifecycle_ok ?es" by (rule assms(2))
    then have "latest_execution_status db (be_broker_execution_record_id event) = latest (map be_status ?es)"
      by (simp add: latest_execution_status_def latest_event_last latest_def last_map)
    with legal ok have path: "legal_path BROKER_TRANSITIONS None (map be_status (?es @ [event]))"
      by (simp add: legal_path_snoc lifecycle_ok_def)
    have times: "sorted (map be_occurred_at (?es @ [event]))" and ids: "\<forall>e\<in>set ?es. event_identity e = event_identity event"
    proof -
      show "sorted (map be_occurred_at (?es @ [event]))"
      proof (cases ?es rule: rev_cases)
        case (snoc fs f)
        with cont ok have "be_occurred_at f \<le> be_occurred_at event"
          by (simp add: continuity_guard_def latest_event_last split: if_splits)
        moreover have "sorted (map be_occurred_at (fs @ [f]))" using ok snoc by (simp add: lifecycle_ok_def)
        ultimately show ?thesis using snoc by (auto simp: sorted_append intro: order_trans)
      qed simp
      show "\<forall>e\<in>set ?es. event_identity e = event_identity event"
      proof (cases ?es rule: rev_cases)
        case (snoc fs f)
        with cont ok have "event_identity f = event_identity event"
          by (simp add: continuity_guard_def latest_event_last event_identity_def split: if_splits)
        moreover have "f \<in> set ?es" using snoc by simp
        moreover have "\<forall>e\<in>set ?es. \<forall>g\<in>set ?es. event_identity e = event_identity g"
          using ok unfolding lifecycle_ok_def by blast
        ultimately show ?thesis by metis
      qed simp
    qed
    have "\<forall>e\<in>set (?es @ [event]). event_identity e = event_identity event"
      using ids unfolding set_append list.set by blast
    then have "\<forall>e\<in>set (?es @ [event]). \<forall>f\<in>set (?es @ [event]). event_identity e = event_identity f"
      by metis
    with path times have "lifecycle_ok (?es @ [event])" unfolding lifecycle_ok_def by blast
    then show ?thesis using True db' by simp
  qed
qed (use assms(2) in simp)

end
