(* ===== verification/ReportingStore.thy ===== *)
theory ReportingStore
  imports Database
begin

text \<open>
  Ingestion of reporting facts (\<open>app/performance/storage.py\<close>) and the account snapshot that carries
  one (\<open>save_live_portfolio_snapshot\<close> of \<open>app/storage/records.py\<close>). Observations are immutable; a
  correction names the one it supersedes. UTC ISO texts compare as the instants they denote.
\<close>

definition ob_id :: "ReportingObservation \<Rightarrow> string" where
  "ob_id x = ob_observation_id (base x)"

definition account :: "ReportingObservation \<Rightarrow> account_mode \<times> string" where
  "account x = (ob_mode (base x), ob_account_id (base x))"

definition external_identity :: "ReportingObservation \<Rightarrow> account_mode \<times> string \<times> observation_kind \<times> string" where
  "external_identity x = (ob_mode (base x), ob_account_id (base x), kind x, ob_external_event_id (base x))"

definition superseded :: "ReportingObservation list \<Rightarrow> string \<Rightarrow> bool" where
  "superseded rows i = (\<exists>c\<in>set rows. ob_supersedes (base c) = Some i)"

definition current :: "ReportingObservation list \<Rightarrow> ReportingObservation \<Rightarrow> bool" where
  "current rows x = (\<not> ob_voided (base x) \<and> \<not> superseded rows (ob_id x))"

text \<open>A correction target that is an empty string is falsy in the code and then fails the foreign key.\<close>

definition correction_target :: "ReportingObservation \<Rightarrow> string option" where
  "correction_target x = (case ob_supersedes (base x) of Some [] \<Rightarrow> None | t \<Rightarrow> t)"

definition correction_guard :: "ReportingObservation \<Rightarrow> ReportingObservation list \<Rightarrow> unit result" where
  "correction_guard x rows = (case correction_target x of
     Some target \<Rightarrow> (case find_row ob_id target rows of
         None \<Rightarrow> Inl (ValueError ''correction target does not exist'')
       | Some prior \<Rightarrow>
           if external_identity prior \<noteq> external_identity x
             then Inl (ValueError ''correction cannot change account, kind or external identity'')
           else if ob_recorded_at (base x) < ob_recorded_at (base prior)
             then Inl (ValueError ''correction cannot precede the previous observation'')
           else require (\<not> superseded rows target) (ValueError ''correction target is already superseded''))
   | None \<Rightarrow> require (\<not> (\<exists>y\<in>set rows. external_identity y = external_identity x))
       (ValueError ''external event already exists; submit an explicit correction''))"

definition flow_phase :: "phase \<Rightarrow> bool" where
  "flow_phase p = (p \<in> {before_flow, after_flow})"

definition instant_clash :: "ReportingObservation \<Rightarrow> ReportingObservation \<Rightarrow> bool" where
  "instant_clash x y = (case (x, y) of
     (Valuation v, Valuation w) \<Rightarrow> account x = account y \<and> ob_occurred_at v = ob_occurred_at w \<and>
       \<not> flow_phase (vo_phase w) \<and> Some (ob_observation_id w) \<noteq> ob_supersedes v
   | _ \<Rightarrow> False)"

definition valuation_guard :: "ReportingObservation \<Rightarrow> ReportingObservation list \<Rightarrow> unit result" where
  "valuation_guard x rows = (case x of
     Valuation v \<Rightarrow> require (flow_phase (vo_phase v) \<or> \<not> (\<exists>y\<in>set rows. current rows y \<and> instant_clash x y))
       (ValueError ''valuation instant already exists; use an explicit correction'')
   | _ \<Rightarrow> Inr ())"

fun mode_of :: "ExecutionMode \<Rightarrow> account_mode" where
  "mode_of PAPER = PaperMode"
| "mode_of LIVE = LiveMode"

fun side_of :: "OrderSide \<Rightarrow> fill_side" where
  "side_of SIDE_BUY = FILL_BUY"
| "side_of SIDE_SELL = FILL_SELL"

definition fill_guard :: "ReportingObservation \<Rightarrow> core_db \<Rightarrow> unit result" where
  "fill_guard x db = (case x of
     Fill f \<Rightarrow> (case fi_decision_id f of None \<Rightarrow> Inr () | Some [] \<Rightarrow> Inr () | Some d \<Rightarrow>
       (case find_row oi_decision_id d (order_intents db) of
          None \<Rightarrow> Inl (ValueError ''fill decision has no matching execution mode'')
        | Some intent \<Rightarrow>
            if mode_of (oi_execution_mode intent) \<noteq> ob_mode f \<or> oi_ticker intent \<noteq> fi_ticker f \<or>
                side_of (oi_side intent) \<noteq> fi_side f
              then Inl (ValueError ''fill decision has no matching execution mode'')
            else if ob_mode f = LiveMode \<and>
                set (map ls_broker_account_fingerprint (filter (\<lambda>s. ls_execution_profile_id s =
                  oi_execution_profile_id intent) (live_portfolio_snapshots db))) \<noteq> {ob_account_id f}
              then Inl (ValueError ''fill decision account linkage is missing or ambiguous'')
            else Inr ()))
   | _ \<Rightarrow> Inr ())"

definition boundary :: "FlowObservation \<Rightarrow> ReportingObservation list \<Rightarrow> string \<Rightarrow> phase \<Rightarrow>
    ValuationObservation result" where
  "boundary f rows reference p =
    (case find_row ob_id reference (filter (current rows) rows) of
       None \<Rightarrow> Inl (ValueError ''flow boundary is absent or superseded'')
     | Some (Valuation v) \<Rightarrow>
         if (ob_mode v, ob_account_id v, ob_occurred_at v, vo_phase v) =
             (ob_mode f, ob_account_id f, ob_occurred_at f, p) then Inr v
         else Inl (ValueError ''flow boundary does not match account, instant and phase'')
     | Some _ \<Rightarrow> Inl (ValueError ''flow boundary does not match account, instant and phase''))"

definition optional_boundary :: "FlowObservation \<Rightarrow> ReportingObservation list \<Rightarrow> string option \<Rightarrow> phase \<Rightarrow>
    ValuationObservation option result" where
  "optional_boundary f rows reference p = (case reference of None \<Rightarrow> Inr None
     | Some i \<Rightarrow> and_then (boundary f rows i p) (\<lambda>v. Inr (Some v)))"

definition flow_guard :: "ReportingObservation \<Rightarrow> ReportingObservation list \<Rightarrow> unit result" where
  "flow_guard x rows = (case x of
     Flow f \<Rightarrow>
       and_then (optional_boundary f rows (fo_before_valuation_id f) before_flow) (\<lambda>before.
       and_then (optional_boundary f rows (fo_after_valuation_id f) after_flow) (\<lambda>after.
         case (before, after) of
           (Some b, Some a) \<Rightarrow> (case (vo_equity b, vo_equity a) of
               (Some eb, Some ea) \<Rightarrow> require (dec 28 (ea - eb) = fo_amount f)
                 (ValueError ''flow boundary equities do not reconcile to external flow'')
             | _ \<Rightarrow> Inr ())
         | _ \<Rightarrow> Inr ()))
   | _ \<Rightarrow> Inr ())"

fun action_flow :: "corporate_action \<Rightarrow> flow_type option" where
  "action_flow action_transfer_in = Some flow_transfer_in"
| "action_flow action_transfer_out = Some flow_transfer_out"
| "action_flow _ = None"

definition action_guard :: "ReportingObservation \<Rightarrow> ReportingObservation list \<Rightarrow> unit result" where
  "action_guard x rows = (case x of
     CorporateAction a \<Rightarrow> (case ca_flow_external_id a of None \<Rightarrow> Inr () | Some [] \<Rightarrow> Inr () | Some i \<Rightarrow>
       (case filter (\<lambda>y. account y = account x \<and> kind y = flow_kind \<and>
             ob_external_event_id (base y) = i \<and> current rows y) rows of
          [Flow f] \<Rightarrow> require (Some (fo_flow_type f) = action_flow (ca_action a) \<and>
              ob_occurred_at f = ob_occurred_at a) (ValueError ''security transfer does not match linked flow'')
        | _ \<Rightarrow> Inl (ValueError ''security transfer requires its external flow observation'')))
   | _ \<Rightarrow> Inr ())"

definition ingest :: "ReportingObservation \<Rightarrow> core_db \<Rightarrow> (core_db \<times> bool) result" where
  "ingest x db = (let rows = reporting_observations db in
     case find_row ob_id (ob_id x) rows of
       Some y \<Rightarrow> if y = x then Inr (db, False)
         else Inl (ValueError ''observation ID already has different content'')
     | None \<Rightarrow>
         and_then (correction_guard x rows) (\<lambda>_. and_then (valuation_guard x rows) (\<lambda>_.
         and_then (fill_guard x db) (\<lambda>_. and_then (flow_guard x rows) (\<lambda>_.
         and_then (action_guard x rows) (\<lambda>_.
         if ob_supersedes (base x) = Some [] then Inl IntegrityError
         else Inr (db\<lparr>reporting_observations := rows @ [x]\<rparr>, True)))))))"

text \<open>\<open>ORDER BY occurred_at, observation_id\<close>; identifiers are unique, so the order is total.\<close>

definition current_observations :: "core_db \<Rightarrow> account_mode \<Rightarrow> string \<Rightarrow> ReportingObservation list" where
  "current_observations db mode account_id =
     (let rows = reporting_observations db in
      sort_key (\<lambda>x. (ob_occurred_at (base x), ob_id x))
        (filter (\<lambda>x. account x = (mode, account_id) \<and> current rows x) rows))"

section \<open>Account snapshots\<close>

definition save_live_portfolio_snapshot :: "ExecutionProfile \<Rightarrow> LivePortfolioSnapshot \<Rightarrow> core_db \<Rightarrow>
    (core_db \<times> bool) result" where
  "save_live_portfolio_snapshot profile snap db =
    (if ls_execution_profile_id snap \<noteq> ep_execution_profile_id profile
       then Inl (ValueError ''snapshot profile does not match execution profile'')
     else if ls_broker_account_fingerprint snap \<noteq> ep_broker_account_fingerprint profile
       then Inl (ValueError ''snapshot account does not match execution profile'')
     else case get_live_portfolio_snapshot db (ls_portfolio_snapshot_id snap) of
       Some existing \<Rightarrow> if existing = snap then Inr (db, False)
         else Inl (ValueError ''portfolio snapshot already exists with different content'')
     | None \<Rightarrow> and_then (case ls_reporting snap of None \<Rightarrow> Inr db
           | Some r \<Rightarrow> and_then (ingest (Valuation r) db) (\<lambda>p. Inr (fst p))) (\<lambda>db'.
         Inr (db'\<lparr>live_portfolio_snapshots := live_portfolio_snapshots db' @ [snap]\<rparr>, True)))"

section \<open>Stores\<close>

lemma ingest_cases:
  assumes "ingest x db = Inr (db', b)"
  obtains "\<not> b" "db' = db" "find_row ob_id (ob_id x) (reporting_observations db) = Some x"
    | "b" "db' = db\<lparr>reporting_observations := reporting_observations db @ [x]\<rparr>"
      "find_row ob_id (ob_id x) (reporting_observations db) = None"
      "correction_guard x (reporting_observations db) = Inr ()"
      "valuation_guard x (reporting_observations db) = Inr ()" "fill_guard x db = Inr ()"
      "flow_guard x (reporting_observations db) = Inr ()" "ob_supersedes (base x) \<noteq> Some []"
  using assms by (auto simp: ingest_def Let_def result_simps split: option.splits if_splits)

lemma ingest_stored:
  "find_row ob_id (ob_id x) (reporting_observations db) = Some x \<Longrightarrow> ingest x db = Inr (db, False)"
  by (simp add: ingest_def)

interpretation observations: immutable_store "\<lambda>db k. find_row ob_id k (reporting_observations db)" ingest ob_id
proof unfold_locales
  fix x db db' b assume i: "ingest x db = Inr (db', b)"
  from i show s: "find_row ob_id (ob_id x) (reporting_observations db') = Some x"
    by (rule ingest_cases) (auto simp: find_row_append)
  from i show "find_row ob_id k (reporting_observations db') = find_row ob_id k (reporting_observations db)"
    if "k \<noteq> ob_id x" for k
    by (rule ingest_cases) (use that in \<open>auto simp: find_row_append split: option.splits\<close>)
  from i show "b \<longleftrightarrow> find_row ob_id (ob_id x) (reporting_observations db) = None"
    by (rule ingest_cases) auto
  from s show "ingest x db' = Inr (db', False)" by (rule ingest_stored)
next
  fix x db db' assume i: "ingest x db = Inr (db', False)"
  then show "db' = db \<and> find_row ob_id (ob_id x) (reporting_observations db) = Some x"
    by (rule ingest_cases) auto
next
  fix x y db db' b assume "ingest x db = Inr (db, False)" and y: "ingest y db = Inr (db', b)"
  then have "find_row ob_id (ob_id x) (reporting_observations db) = Some x"
    by (auto elim: ingest_cases)
  with y have "find_row ob_id (ob_id x) (reporting_observations db') = Some x"
    by (auto elim!: ingest_cases simp: find_row_append)
  then show "ingest x db' = Inr (db', False)" by (rule ingest_stored)
qed

lemma ingest_snapshots: "ingest x db = Inr (db', b) \<Longrightarrow> live_portfolio_snapshots db' = live_portfolio_snapshots db"
  by (auto elim: ingest_cases)

lemma save_snapshot_cases:
  assumes "save_live_portfolio_snapshot profile snap db = Inr (db', b)"
  obtains "\<not> b" "db' = db" "get_live_portfolio_snapshot db (ls_portfolio_snapshot_id snap) = Some snap"
    | db1 where "b" "db' = db1\<lparr>live_portfolio_snapshots := live_portfolio_snapshots db @ [snap]\<rparr>"
      "get_live_portfolio_snapshot db (ls_portfolio_snapshot_id snap) = None"
      "ls_execution_profile_id snap = ep_execution_profile_id profile"
      "ls_broker_account_fingerprint snap = ep_broker_account_fingerprint profile"
  using assms
  by (auto simp: save_live_portfolio_snapshot_def result_simps split: option.splits if_splits
      dest: ingest_snapshots)

interpretation snapshots: immutable_store get_live_portfolio_snapshot "save_live_portfolio_snapshot profile"
    ls_portfolio_snapshot_id for profile
proof unfold_locales
  fix x db db' b assume i: "save_live_portfolio_snapshot profile x db = Inr (db', b)"
  from i show s: "get_live_portfolio_snapshot db' (ls_portfolio_snapshot_id x) = Some x"
    by (rule save_snapshot_cases) (auto simp: find_row_append get_live_portfolio_snapshot_def)
  from i show "get_live_portfolio_snapshot db' k = get_live_portfolio_snapshot db k"
    if "k \<noteq> ls_portfolio_snapshot_id x" for k
    by (rule save_snapshot_cases)
      (use that in \<open>auto simp: find_row_append get_live_portfolio_snapshot_def split: option.splits\<close>)
  from i show "b \<longleftrightarrow> get_live_portfolio_snapshot db (ls_portfolio_snapshot_id x) = None"
    by (rule save_snapshot_cases) auto
  from i s show "save_live_portfolio_snapshot profile x db' = Inr (db', False)"
    by (auto simp: save_live_portfolio_snapshot_def split: if_splits)
next
  fix x db db' assume i: "save_live_portfolio_snapshot profile x db = Inr (db', False)"
  then show "db' = db \<and> get_live_portfolio_snapshot db (ls_portfolio_snapshot_id x) = Some x"
    by (rule save_snapshot_cases) auto
next
  fix x y db db' b assume x: "save_live_portfolio_snapshot profile x db = Inr (db, False)"
    and y: "save_live_portfolio_snapshot profile y db = Inr (db', b)"
  from x have "get_live_portfolio_snapshot db (ls_portfolio_snapshot_id x) = Some x"
    by (rule save_snapshot_cases) auto
  with y have "get_live_portfolio_snapshot db' (ls_portfolio_snapshot_id x) = Some x"
    by (auto elim!: save_snapshot_cases simp: find_row_append get_live_portfolio_snapshot_def)
  then show "save_live_portfolio_snapshot profile x db' = Inr (db', False)"
    using x by (auto simp: save_live_portfolio_snapshot_def split: if_splits)
qed

section \<open>Corrections form chains\<close>

definition head_of :: "ReportingObservation list \<Rightarrow> account_mode \<times> string \<times> observation_kind \<times> string \<Rightarrow>
    ReportingObservation \<Rightarrow> bool" where
  "head_of rows k x = (x \<in> set rows \<and> external_identity x = k \<and> \<not> superseded rows (ob_id x))"

definition chains_ok :: "ReportingObservation list \<Rightarrow> bool" where
  "chains_ok rows = (distinct (map ob_id rows) \<and>
     (\<forall>c\<in>set rows. \<forall>t. ob_supersedes (base c) = Some t \<longrightarrow> t \<in> ob_id ` set rows) \<and>
     (\<forall>y\<in>set rows. \<exists>!x. head_of rows (external_identity y) x))"

lemma superseded_append: "superseded (rows @ [x]) i \<longleftrightarrow> superseded rows i \<or> ob_supersedes (base x) = Some i"
  by (auto simp: superseded_def)

lemma chains_step:
  assumes ok: "chains_ok rows" and fresh: "find_row ob_id (ob_id x) rows = None"
    and guard: "correction_guard x rows = Inr ()" and ne: "ob_supersedes (base x) \<noteq> Some []"
    and self: "ob_supersedes (base x) \<noteq> Some (ob_id x)"
  shows "chains_ok (rows @ [x])"
proof -
  let ?k = "external_identity x"
  from ok have distinct: "distinct (map ob_id rows)"
    and targets: "\<forall>c\<in>set rows. \<forall>t. ob_supersedes (base c) = Some t \<longrightarrow> t \<in> ob_id ` set rows"
    and heads: "\<forall>y\<in>set rows. \<exists>!x. head_of rows (external_identity y) x"
    by (auto simp: chains_ok_def)
  from fresh have new: "ob_id x \<notin> ob_id ` set rows" by (simp add: find_row_None)
  have unsup: "\<not> superseded (rows @ [x]) (ob_id x)"
    using targets new self by (auto simp: superseded_append superseded_def)
  have x_head: "head_of (rows @ [x]) ?k x" using unsup by (simp add: head_of_def)
  have same_head: "head_of (rows @ [x]) k y \<longleftrightarrow> head_of rows k y"
    if "k \<noteq> ?k" "\<And>t. ob_supersedes (base x) = Some t \<Longrightarrow> (\<forall>z\<in>set rows. ob_id z = t \<longrightarrow> external_identity z = ?k)" for k y
    using that by (auto simp: head_of_def superseded_append)
  show ?thesis
  proof (cases "ob_supersedes (base x)")
    case None
    with guard have no: "\<forall>y\<in>set rows. external_identity y \<noteq> ?k"
      by (auto simp: correction_guard_def correction_target_def result_simps)
    have "\<exists>!z. head_of (rows @ [x]) (external_identity y) z" if y: "y \<in> set (rows @ [x])" for y
    proof (cases "external_identity y = ?k")
      case True
      then show ?thesis using x_head no by (auto simp: head_of_def)
    next
      case False
      with y heads have "\<exists>!z. head_of rows (external_identity y) z" by auto
      then show ?thesis using same_head [OF False] None by simp
    qed
    then show ?thesis using distinct targets new None by (auto simp: chains_ok_def)
  next
    case (Some t)
    with guard ne obtain p where p: "find_row ob_id t rows = Some p" "external_identity p = ?k"
      and unsup_t: "\<not> superseded rows t"
      by (auto simp: correction_guard_def correction_target_def result_simps split: list.splits option.splits if_splits)
    from find_row_Some [OF p(1)] have p_in: "p \<in> set rows" "ob_id p = t" by simp_all
    have same_id: "z = p" if "z \<in> set rows" "ob_id z = t" for z
      using distinct p_in that by (auto simp: distinct_map inj_on_def)
    have p_head: "head_of rows ?k p" using p_in p(2) unsup_t by (simp add: head_of_def)
    have "\<exists>!z. head_of (rows @ [x]) (external_identity y) z" if y: "y \<in> set (rows @ [x])" for y
    proof (cases "external_identity y = ?k")
      case True
      have "z = x" if z: "head_of (rows @ [x]) ?k z" for z
      proof (rule ccontr)
        assume "z \<noteq> x"
        with z have "head_of rows ?k z" "ob_id z \<noteq> t"
          by (auto simp: head_of_def superseded_append Some)
        moreover have "\<exists>!z. head_of rows ?k z"
          using bspec [OF heads p_in(1)] unfolding p(2) .
        ultimately show False using p_head p_in by blast
      qed
      with x_head True show ?thesis by auto
    next
      case False
      with y heads have "\<exists>!z. head_of rows (external_identity y) z" by auto
      moreover have "head_of (rows @ [x]) (external_identity y) z \<longleftrightarrow> head_of rows (external_identity y) z" for z
        by (rule same_head [OF False]) (use Some same_id p(2) in auto)
      ultimately show ?thesis by simp
    qed
    then show ?thesis using distinct targets new Some p_in by (auto simp: chains_ok_def)
  qed
qed

inductive reporting_reachable :: "core_db \<Rightarrow> bool" where
  no_observation: "reporting_observations db = [] \<Longrightarrow> reporting_reachable db"
| ingested: "reporting_reachable db \<Longrightarrow> OBSERVATION_ADAPTER x = Inr x \<Longrightarrow> ingest x db = Inr (db', b) \<Longrightarrow>
    reporting_reachable db'"
| elsewhere: "reporting_reachable db \<Longrightarrow> reporting_observations db' = reporting_observations db \<Longrightarrow>
    reporting_reachable db'"

lemma accepted_not_self:
  assumes "OBSERVATION_ADAPTER x = Inr x"
  shows "ob_supersedes (base x) \<noteq> Some (ob_id x)"
proof -
  from assms have "observation_errors x = []" by (auto simp: OBSERVATION_ADAPTER_def split: if_splits)
  then show ?thesis
    by (cases x) (auto simp: valuation_errors_def flow_errors_def fill_errors_def action_errors_def
        coverage_errors_def model_errors_Nil consistent_identity_def ob_id_def Observation.truncate_def)
qed

lemma reachable_chains: "reporting_reachable db \<Longrightarrow> chains_ok (reporting_observations db)"
proof (induction rule: reporting_reachable.induct)
  case (no_observation db)
  then show ?case by (simp add: chains_ok_def)
next
  case (ingested db x db' b)
  from ingested.hyps(3) show ?case
  proof (rule ingest_cases)
    assume "db' = db\<lparr>reporting_observations := reporting_observations db @ [x]\<rparr>"
      "find_row ob_id (ob_id x) (reporting_observations db) = None"
      "correction_guard x (reporting_observations db) = Inr ()" "ob_supersedes (base x) \<noteq> Some []"
    with chains_step [OF ingested.IH] accepted_not_self [OF ingested.hyps(2)] show ?thesis by simp
  qed (use ingested.IH in simp)
qed simp

text \<open>
  C9. Every external event has exactly one current version: in a reachable state observation
  identifiers are unique, corrections name an observation that exists, and of the observations of
  one account, kind and external identity exactly one is not superseded.
\<close>

theorem one_version_per_event:
  assumes "reporting_reachable db" and "y \<in> set (reporting_observations db)"
  shows "distinct (map ob_id (reporting_observations db)) \<and>
    (\<forall>t. ob_supersedes (base y) = Some t \<longrightarrow> t \<in> ob_id ` set (reporting_observations db)) \<and>
    (\<exists>!x. x \<in> set (reporting_observations db) \<and> external_identity x = external_identity y \<and>
       \<not> superseded (reporting_observations db) (ob_id x))"
  using reachable_chains [OF assms(1)] assms(2) unfolding chains_ok_def head_of_def by blast

lemma one_version_per_event_witness:
  "\<exists>db. reporting_reachable db \<and> Valuation sample_valuation \<in> set (reporting_observations db) \<and>
    (\<exists>!x. x \<in> set (reporting_observations db) \<and>
       external_identity x = external_identity (Valuation sample_valuation) \<and>
       \<not> superseded (reporting_observations db) (ob_id x))"
proof -
  define db where "db = empty_db\<lparr>reporting_observations := [Valuation sample_valuation]\<rparr>"
  have "ingest (Valuation sample_valuation) empty_db = Inr (db, True)"
    by (simp add: ingest_def empty_db_def find_row_def correction_guard_def correction_target_def
        sample_valuation_def Observation.truncate_def require_def valuation_guard_def fill_guard_def
        flow_guard_def action_guard_def db_def)
  moreover have "OBSERVATION_ADAPTER (Valuation sample_valuation) = Inr (Valuation sample_valuation)"
    by (simp add: OBSERVATION_ADAPTER_def sample_valuation_accepted)
  moreover have "reporting_reachable empty_db"
    by (rule reporting_reachable.no_observation) (simp add: empty_db_def)
  ultimately have r: "reporting_reachable db" by (blast intro: reporting_reachable.ingested)
  have i: "Valuation sample_valuation \<in> set (reporting_observations db)" by (simp add: db_def)
  from one_version_per_event [OF r i] r i show ?thesis by blast
qed

end
