(* ===== verification/Prices.thy ===== *)
theory Prices
  imports PyTime Store
begin

text \<open>
  The price cache (\<open>app/prices/cache.py\<close>): daily bars keyed by ticker and date. \<open>INSERT OR REPLACE\<close>
  deletes the row with the key of the new one and appends it. ISO dates have the order of their days.
  Volumes fit SQLite's 64-bit integers; \<open>fetch\<close> stands for the download of
  \<open>app/prices/yfinance_source.py\<close>, whose rows come from a library outside the repository.
\<close>

record PriceBar =
  pb_ticker :: string
  pb_bar_date :: pydate
  pb_open :: pyfloat
  pb_high :: pyfloat
  pb_low :: pyfloat
  pb_close :: pyfloat
  pb_adj_close :: "pyfloat option"
  pb_volume :: int
  pb_source :: string
  pb_fetched_at :: instant

definition price_errors :: "PriceBar \<Rightarrow> string list" where
  "price_errors b = positive_errors ''open'' (pb_open b) @ positive_errors ''high'' (pb_high b) @
     positive_errors ''low'' (pb_low b) @ positive_errors ''close'' (pb_close b) @
     optional_errors (positive_errors ''adj_close'') (pb_adj_close b) @
     error_if (pb_volume b < 0) ''volume: greater_than_equal''"

definition bar_key :: "PriceBar \<Rightarrow> string \<times> pydate" where
  "bar_key b = (pb_ticker b, pb_bar_date b)"

definition replace_bar :: "PriceBar \<Rightarrow> PriceBar list \<Rightarrow> PriceBar list" where
  "replace_bar b rows = filter (\<lambda>q. bar_key q \<noteq> bar_key b) rows @ [b]"

definition upsert_daily_prices :: "PriceBar list \<Rightarrow> PriceBar list \<Rightarrow> PriceBar list \<times> int" where
  "upsert_daily_prices bars rows = (fold replace_bar bars rows, int (length bars))"

definition in_range :: "string \<Rightarrow> pydate option \<Rightarrow> pydate option \<Rightarrow> PriceBar \<Rightarrow> bool" where
  "in_range t start end b = (pb_ticker b = t \<and>
     (case start of None \<Rightarrow> True | Some d \<Rightarrow> d \<le> pb_bar_date b) \<and>
     (case end of None \<Rightarrow> True | Some d \<Rightarrow> pb_bar_date b \<le> d))"

definition get_daily_prices :: "PriceBar list \<Rightarrow> string \<Rightarrow> pydate option \<Rightarrow> pydate option \<Rightarrow> PriceBar list" where
  "get_daily_prices rows t start end = sort_key pb_bar_date (filter (in_range t start end) rows)"

definition latest_bar_date :: "PriceBar list \<Rightarrow> string \<Rightarrow> pydate option" where
  "latest_bar_date rows t =
     map_option pb_bar_date (greatest pb_bar_date (filter (\<lambda>b. pb_ticker b = t) rows))"

definition refresh_ticker :: "(string \<Rightarrow> pydate \<Rightarrow> pydate \<Rightarrow> PriceBar list result) \<Rightarrow> string \<Rightarrow> pydate \<Rightarrow>
    pydate \<Rightarrow> PriceBar list \<Rightarrow> (PriceBar list \<times> int) result" where
  "refresh_ticker fetch t start end rows =
     and_then (fetch t start end) (\<lambda>bars. Inr (upsert_daily_prices bars rows))"

section \<open>One bar per ticker and day\<close>

lemma sort_key_Nil [simp]: "sort_key f xs = [] \<longleftrightarrow> xs = []"
  by (metis set_empty set_sort)

lemma find_row_Nil [simp]: "find_row key k [] = None"
  by (simp add: find_row_def)

definition prices_ok :: "PriceBar list \<Rightarrow> bool" where
  "prices_ok rows = distinct (map bar_key rows)"

lemma prices_ok_empty [simp]: "prices_ok []"
  by (simp add: prices_ok_def)

lemma replace_bar_ok: "prices_ok rows \<Longrightarrow> prices_ok (replace_bar b rows)"
  by (auto simp: prices_ok_def replace_bar_def distinct_map inj_on_def)

lemma fold_replace_ok: "prices_ok rows \<Longrightarrow> prices_ok (fold replace_bar bars rows)"
  by (induction bars arbitrary: rows) (simp_all add: replace_bar_ok)

lemma upsert_ok: "prices_ok rows \<Longrightarrow> prices_ok (fst (upsert_daily_prices bars rows))"
  by (simp add: upsert_daily_prices_def fold_replace_ok)

lemma refresh_ok: "refresh_ticker fetch t s e rows = Inr (rows', n) \<Longrightarrow> prices_ok rows \<Longrightarrow> prices_ok rows'"
  by (auto simp: refresh_ticker_def result_simps upsert_daily_prices_def intro: fold_replace_ok)

lemma get_daily_prices_set: "set (get_daily_prices rows t s e) = {b \<in> set rows. in_range t s e b}"
  by (auto simp: get_daily_prices_def)

lemma get_daily_prices_sorted: "sorted (map pb_bar_date (get_daily_prices rows t s e))"
  by (simp add: get_daily_prices_def)

lemma get_daily_prices_distinct:
  assumes "prices_ok rows"
  shows "distinct (map pb_bar_date (get_daily_prices rows t s e))"
proof -
  have "distinct (map bar_key (filter (in_range t s e) rows))"
    using assms by (simp add: prices_ok_def distinct_map_filter)
  then have "distinct (map bar_key (get_daily_prices rows t s e))"
    by (simp add: get_daily_prices_def distinct_map)
  then show ?thesis
    by (auto simp: distinct_map inj_on_def bar_key_def get_daily_prices_set in_range_def)
qed

lemma get_daily_prices_last:
  assumes "get_daily_prices rows t s e \<noteq> []" and "in_range t s e b" and "b \<in> set rows"
  shows "pb_bar_date b \<le> pb_bar_date (last (get_daily_prices rows t s e))"
proof -
  let ?bs = "get_daily_prices rows t s e"
  from assms obtain xs y where bs: "?bs = xs @ [y]" by (metis append_butlast_last_id)
  have "sorted (map pb_bar_date (xs @ [y]))" using get_daily_prices_sorted [of rows t s e] by (simp only: bs)
  moreover have "b \<in> set (xs @ [y])" using assms(2,3) get_daily_prices_set [of rows t s e] by (simp add: bs)
  ultimately show ?thesis by (auto simp: bs sorted_append)
qed

lemma latest_bar_date_last:
  "latest_bar_date rows t = (case get_daily_prices rows t None None of [] \<Rightarrow> None
     | bs \<Rightarrow> Some (pb_bar_date (last bs)))"
proof (cases "get_daily_prices rows t None None = []")
  case True
  then have "filter (\<lambda>b. pb_ticker b = t) rows = []"
    by (simp add: get_daily_prices_def in_range_def filter_empty_conv)
  with True show ?thesis by (simp add: latest_bar_date_def)
next
  case False
  let ?bs = "get_daily_prices rows t None None"
  have ne: "filter (\<lambda>b. pb_ticker b = t) rows \<noteq> []"
    using False by (simp add: get_daily_prices_def in_range_def [abs_def])
  then obtain g where g: "greatest pb_bar_date (filter (\<lambda>b. pb_ticker b = t) rows) = Some g"
    by (cases "greatest pb_bar_date (filter (\<lambda>b. pb_ticker b = t) rows)") simp_all
  from greatest_Some [OF g] have "g \<in> set rows" "pb_ticker g = t"
    "\<And>q. q \<in> set rows \<Longrightarrow> pb_ticker q = t \<Longrightarrow> pb_bar_date q \<le> pb_bar_date g" by auto
  moreover have "last ?bs \<in> {b \<in> set rows. in_range t None None b}"
    using last_in_set [OF False] by (simp only: get_daily_prices_set)
  ultimately have "pb_bar_date g = pb_bar_date (last ?bs)"
    using get_daily_prices_last [OF False, of g] by (intro antisym) (auto simp: in_range_def)
  with False g show ?thesis by (simp add: latest_bar_date_def split: list.splits)
qed

section \<open>Point in time\<close>

text \<open>What was read up to a day does not change when bars of later days arrive.\<close>

lemma replace_bar_later:
  assumes "\<not> in_range t s (Some e) b" and "pb_ticker b = t \<Longrightarrow> e < pb_bar_date b"
  shows "filter (in_range t s (Some e)) (replace_bar b rows) = filter (in_range t s (Some e)) rows"
proof -
  have "bar_key q \<noteq> bar_key b" if "in_range t s (Some e) q" for q
    using that assms by (auto simp: bar_key_def in_range_def)
  then show ?thesis using assms(1) by (auto simp: replace_bar_def intro: filter_cong)
qed

lemma get_daily_prices_upsert_later:
  assumes "\<forall>b\<in>set bars. e < pb_bar_date b"
  shows "get_daily_prices (fst (upsert_daily_prices bars rows)) t s (Some e) = get_daily_prices rows t s (Some e)"
proof -
  have "filter (in_range t s (Some e)) (fold replace_bar bars rows) = filter (in_range t s (Some e)) rows"
    using assms
  proof (induction bars arbitrary: rows)
    case (Cons b bars)
    then have "\<not> in_range t s (Some e) b" by (auto simp: in_range_def)
    with Cons.IH [of "replace_bar b rows"] Cons.prems show ?case by (simp add: replace_bar_later)
  qed simp
  then show ?thesis by (simp add: get_daily_prices_def upsert_daily_prices_def)
qed

section \<open>What is stored is what is read\<close>

definition bar_on :: "PriceBar list \<Rightarrow> string \<Rightarrow> pydate \<Rightarrow> PriceBar option" where
  "bar_on rows t d = find_row bar_key (t, d) rows"

lemma bar_on_replace: "bar_on (replace_bar b rows) t d = (if bar_key b = (t, d) then Some b else bar_on rows t d)"
proof -
  have "find_row bar_key (t, d) (filter (\<lambda>q. bar_key q \<noteq> bar_key b) rows) = find_row bar_key (t, d) rows"
    if "bar_key b \<noteq> (t, d)"
    using that unfolding find_row_def by (induction rows) auto
  moreover have "find_row bar_key (bar_key b) (filter (\<lambda>q. bar_key q \<noteq> bar_key b) rows) = None"
    by (auto simp: find_row_None)
  ultimately show ?thesis
    by (auto simp: bar_on_def replace_bar_def find_row_append split: option.splits)
qed

lemma bar_on_fold:
  "bar_on (fold replace_bar bars rows) t d = (case find_row bar_key (t, d) (rev bars) of
     Some b \<Rightarrow> Some b | None \<Rightarrow> bar_on rows t d)"
  by (induction bars arbitrary: rows) (auto simp: bar_on_replace find_row_append split: option.splits)

end
