(* ===== verification/Regime.thy ===== *)
theory Regime
  imports Database Prices Calendar
begin

text \<open>
  The regime scorer (\<open>app/regime/rules.py\<close>) and the snapshots it publishes (\<open>app/regime/run.py\<close>), on
  binary floating point. \<open>statistics.pstdev\<close> of floats is the correctly rounded root of the exact
  variance; \<open>frac_sqrt\<close> follows the standard library's algorithm. A row of \<open>regime_snapshots\<close> holds
  its components sorted by name, as \<open>json.dumps(..., sort_keys=True)\<close> stores them.
\<close>

section \<open>Square roots\<close>

fun isqrt :: "nat \<Rightarrow> nat" where
  "isqrt n = (if n = 0 then 0 else let s = 2 * isqrt (n div 4) in if (s + 1) ^ 2 \<le> n then s + 1 else s)"

declare isqrt.simps [simp del]

lemma isqrt_correct: "isqrt n ^ 2 \<le> n \<and> n < (isqrt n + 1) ^ 2"
proof (induction n rule: isqrt.induct)
  case (1 n)
  show ?case
  proof (cases "n = 0")
    case True
    then show ?thesis by (simp add: isqrt.simps [of 0])
  next
    case False
    let ?r = "isqrt (n div 4)"
    from 1 [OF False] have "?r ^ 2 \<le> n div 4" "n div 4 < (?r + 1) ^ 2" by auto
    moreover have "4 * (n div 4) \<le> n" "n < 4 * (n div 4 + 1)" by simp_all
    moreover have "(2 * ?r) ^ 2 = 4 * ?r ^ 2" "(2 * ?r + 2) ^ 2 = 4 * (?r + 1) ^ 2"
      by (simp_all add: power2_eq_square algebra_simps)
    ultimately have "(2 * ?r) ^ 2 \<le> n" "n < (2 * ?r + 2) ^ 2" by linarith+
    with False show ?thesis by (auto simp: isqrt.simps [of n] Let_def)
  qed
qed

fun bit_length :: "nat \<Rightarrow> nat" where
  "bit_length n = (if n = 0 then 0 else Suc (bit_length (n div 2)))"

declare bit_length.simps [simp del]

text \<open>The root of \<open>n / m\<close> rounded to an odd integer when it is not exact.\<close>

definition isqrt_odd :: "nat \<Rightarrow> nat \<Rightarrow> nat" where
  "isqrt_odd n m = (let a = isqrt (n div m) in if a * a * m \<noteq> n \<and> even a then a + 1 else a)"

definition frac_sqrt :: "nat \<Rightarrow> nat \<Rightarrow> pyfloat" where
  "frac_sqrt n m = (let q = (int (bit_length n) - int (bit_length m) - 109) div 2 in
     if 0 \<le> q then fl (of_nat (isqrt_odd n (m * 2 ^ nat (2 * q)) * 2 ^ nat q))
     else fl (of_nat (isqrt_odd (n * 2 ^ nat (- 2 * q)) m) / 2 ^ nat (- q)))"

definition pstdev :: "pyfloat list \<Rightarrow> pyfloat" where
  "pstdev data = (let n = of_nat (length data); mean = sum_list data / n;
     variance = sum_list (map (\<lambda>x. (x - mean) ^ 2) data) / n; (a, b) = quotient_of variance
   in if variance = 0 then 0 else frac_sqrt (nat a) (nat b))"

section \<open>The rules\<close>

record RegimeScore =
  rs_raw_regime :: RegimeState
  rs_score :: int
  rs_components :: "(string \<times> Component) list"

definition component :: "pyfloat \<Rightarrow> int \<Rightarrow> Component" where
  "component v p = \<lparr>cm_value = v, cm_points = p\<rparr>"

definition trend :: "pyfloat \<Rightarrow> pyfloat \<Rightarrow> Component result" where
  "trend close sma_200 = and_then (fdiv close sma_200) (\<lambda>q.
     Inr (component (fsub q 1) (if sma_200 < close then 2 else - 2)))"

definition trend_slope :: "pyfloat \<Rightarrow> pyfloat \<Rightarrow> Component result" where
  "trend_slope sma_50 sma_200 = and_then (fdiv sma_50 sma_200) (\<lambda>q.
     Inr (component (fsub q 1) (if sma_200 < sma_50 then 1 else - 1)))"

definition drawdown_component :: "pyfloat \<Rightarrow> Component" where
  "drawdown_component drawdown = (let magnitude = \<bar>drawdown\<bar> in component drawdown
     (if magnitude < fl (1 / 20) then 2 else if magnitude < fl (1 / 10) then 0
      else if magnitude \<le> fl (1 / 5) then - 2 else - 4))"

definition volatility_component :: "pyfloat \<Rightarrow> Component" where
  "volatility_component percentile = component percentile
     (if percentile < 60 then 1 else if percentile \<le> 85 then - 1 else - 3)"

text \<open>\<open>values[-n:]\<close>\<close>

definition last_n :: "nat \<Rightarrow> 'a list \<Rightarrow> 'a list" where
  "last_n n xs = drop (length xs - n) xs"

definition sma :: "pyfloat list \<Rightarrow> nat \<Rightarrow> pyfloat result" where
  "sma values sessions = fdiv (fsum (last_n sessions values)) (of_nat sessions)"

definition daily_returns :: "pyfloat list \<Rightarrow> pyfloat list result" where
  "daily_returns closes = map_result (\<lambda>(now, before). and_then (fdiv now before) (\<lambda>q. Inr (fsub q 1)))
     (zip (drop 1 closes) closes)"

definition realized_volatility :: "pyfloat list \<Rightarrow> pyfloat result" where
  "realized_volatility closes = and_then (daily_returns closes) (\<lambda>returns.
     Inr (fmul (pstdev returns) (frac_sqrt 252 1)))"

definition volatility_percentile :: "pyfloat list \<Rightarrow> pyfloat result" where
  "volatility_percentile closes = (let window = last_n 504 closes in
     and_then (map_result (\<lambda>end. realized_volatility (take 21 (drop (end - 20) window))) [20..<length window])
       (\<lambda>values. let current = last values in
          and_then (fdiv (of_nat (length (filter (\<lambda>v. v < current) values))) (of_nat (length values)))
            (\<lambda>q. Inr (fmul q 100))))"

definition drawdown :: "pyfloat list \<Rightarrow> pyfloat result" where
  "drawdown closes = and_then (fdiv (last closes) (Max (set (last_n 252 closes)))) (\<lambda>q. Inr (fsub q 1))"

definition regime_of :: "int \<Rightarrow> RegimeState" where
  "regime_of score = (if 4 \<le> score then GREEN else if score \<le> - 4 then RED else YELLOW)"

definition score_closes :: "pyfloat list \<Rightarrow> pyfloat list \<Rightarrow> RegimeScore result" where
  "score_closes spy qqq =
    and_then (and_then (sma spy 200) (trend (last spy))) (\<lambda>spy_trend.
    and_then (and_then (sma qqq 200) (trend (last qqq))) (\<lambda>qqq_trend.
    and_then (and_then (sma spy 50) (\<lambda>a. and_then (sma spy 200) (trend_slope a))) (\<lambda>spy_slope.
    and_then (and_then (sma qqq 50) (\<lambda>a. and_then (sma qqq 200) (trend_slope a))) (\<lambda>qqq_slope.
    and_then (drawdown spy) (\<lambda>spy_drawdown. and_then (drawdown qqq) (\<lambda>qqq_drawdown.
    and_then (volatility_percentile spy) (\<lambda>percentile.
      let components = [(''spy_trend'', spy_trend), (''qqq_trend'', qqq_trend),
            (''spy_trend_slope'', spy_slope), (''qqq_trend_slope'', qqq_slope),
            (''drawdown'', drawdown_component (min spy_drawdown qqq_drawdown)),
            (''spy_volatility'', volatility_component percentile)];
          score = sum_list (map (\<lambda>c. cm_points (snd c)) components)
      in Inr \<lparr>rs_raw_regime = regime_of score, rs_score = score, rs_components = components\<rparr>)))))))"

definition score_regime :: "PriceBar list \<Rightarrow> PriceBar list \<Rightarrow> RegimeScore result" where
  "score_regime spy qqq = (if length spy < 504 \<or> length qqq < 504
     then Inl (ValueError ''regime scoring requires at least 504 sessions for SPY and QQQ'')
     else score_closes (map pb_close spy) (map pb_close qqq))"

definition publish_regime :: "RegimeState option \<Rightarrow> RegimeState list \<Rightarrow> RegimeState" where
  "publish_regime previous raw_history = (let current = last raw_history in case previous of
     None \<Rightarrow> current
   | Some p \<Rightarrow> if current \<noteq> p \<and> 2 \<le> length raw_history \<and> raw_history ! (length raw_history - 2) = current
       then current else p)"

section \<open>Snapshots\<close>

definition earlier_snapshots :: "core_db \<Rightarrow> pydate \<Rightarrow> RegimeSnapshot list" where
  "earlier_snapshots db d = sort_key rg_snapshot_date (filter (\<lambda>r. rg_snapshot_date r < d) (regime_snapshots db))"

definition published_on :: "core_db \<Rightarrow> pydate \<Rightarrow> RegimeScore \<Rightarrow> RegimeState" where
  "published_on db d score = (let rows = earlier_snapshots db d in
     publish_regime (if rows = [] then None else Some (rg_regime (last rows)))
       (map rg_raw_regime (last_n 1 rows) @ [rs_raw_regime score]))"

definition snapshot_row :: "pydate \<Rightarrow> RegimeState \<Rightarrow> RegimeScore \<Rightarrow> instant \<Rightarrow> RegimeSnapshot" where
  "snapshot_row d published score now = \<lparr>rg_snapshot_date = d, rg_regime = published,
     rg_raw_regime = rs_raw_regime score, rg_score = rs_score score,
     rg_components = sort_key fst (rs_components score), rg_computed_at = now\<rparr>"

definition same_output :: "RegimeSnapshot \<Rightarrow> RegimeSnapshot \<Rightarrow> bool" where
  "same_output r q = (rg_regime r = rg_regime q \<and> rg_raw_regime r = rg_raw_regime q \<and>
     rg_score r = rg_score q \<and> rg_components r = rg_components q)"

definition save_snapshot :: "instant \<Rightarrow> pydate \<Rightarrow> RegimeScore \<Rightarrow> core_db \<Rightarrow> (core_db \<times> RegimeState) result" where
  "save_snapshot now d score db = (let published = published_on db d score;
       row = snapshot_row d published score now in
     case find_row rg_snapshot_date d (regime_snapshots db) of
       Some existing \<Rightarrow> if same_output existing row then Inr (db, published)
         else Inl (ValueError (''snapshot '' @ date_isoformat d @ '' already exists with different rules output''))
     | None \<Rightarrow> if \<exists>r\<in>set (regime_snapshots db). d < rg_snapshot_date r
         then Inl (ValueError ''cannot insert regime history before existing future snapshots'')
         else Inr (db\<lparr>regime_snapshots := regime_snapshots db @ [row]\<rparr>, published))"

definition score_date :: "instant \<Rightarrow> instant \<Rightarrow> pydate \<Rightarrow> PriceBar list \<Rightarrow> core_db \<Rightarrow>
    (core_db \<times> RegimeState \<times> RegimeScore) result" where
  "score_date observed now requested prices db = and_then (completed_through requested observed) (\<lambda>target.
     and_then (score_regime (get_daily_prices prices ''SPY'' None (Some target))
       (get_daily_prices prices ''QQQ'' None (Some target))) (\<lambda>score.
     and_then (save_snapshot now target score db) (\<lambda>(db', published). Inr (db', published, score))))"

end
