(* ===== verification/LiveOrders.thy ===== *)
theory LiveOrders
  imports BrokerLifecycle Packet PipelineProperties ReportingStore Regime
begin

text \<open>
  The path of a live order through the tables: decision, intent, packet, review, broker record,
  fills. \<open>live_step\<close> has one rule for each operation that writes them, and one for any write to the other tables (the
  regime rows and snapshots a decision is bound to, reasoning runs, observations); the invariant is that every
  record is backed by the ones before it.
\<close>

definition same_live_tables :: "core_db \<Rightarrow> core_db \<Rightarrow> bool" where
  "same_live_tables db db' = (live_execution_packets db' = live_execution_packets db \<and>
     broker_execution_records db' = broker_execution_records db \<and>
     broker_execution_events db' = broker_execution_events db)"

inductive live_step :: "core_db \<Rightarrow> core_db \<Rightarrow> bool" where
  decide: "process_decision_body env sub port truth now ident m prof db = Inr (db', out) \<Longrightarrow> live_step db db'"
| packet: "save_execution_packet p db = Inr (db', b) \<Longrightarrow> packet_errors p = [] \<Longrightarrow> live_step db db'"
| event: "append_execution_event e db = Inr (db', b) \<Longrightarrow> live_step db db'"
| submit: "save_broker_execution_record r db = Inr (db', b) \<Longrightarrow> live_step db db'"
| elsewhere: "same_pipeline_tables db db' \<Longrightarrow> same_live_tables db db' \<Longrightarrow> live_step db db'"

inductive live_reachable :: "core_db \<Rightarrow> bool" where
  initially: "live_reachable empty_db"
| next_state: "live_reachable db \<Longrightarrow> live_step db db' \<Longrightarrow> live_reachable db'"

inductive_cases live_step_cases: "live_step db db'"

definition live_extends :: "core_db \<Rightarrow> core_db \<Rightarrow> bool" where
  "live_extends db db' = (extends db db' \<and>
     (\<forall>i p. get_execution_packet db i = Some p \<longrightarrow> get_execution_packet db' i = Some p) \<and>
     (\<forall>i r. get_broker_execution_record db i = Some r \<longrightarrow> get_broker_execution_record db' i = Some r) \<and>
     set (broker_execution_events db) \<subseteq> set (broker_execution_events db'))"

text \<open>A reviewed packet: recorded while it was valid, for a live intent.\<close>

definition event_intent :: "core_db \<Rightarrow> BrokerExecutionEvent \<Rightarrow> bool" where
  "event_intent db e = (\<exists>x. get_order_intent db (be_order_intent_id e) = Some x \<and>
     oi_execution_mode x = LIVE \<and> oi_execution_profile_id x = be_execution_profile_id e)"

definition reviewed_in_time :: "core_db \<Rightarrow> BrokerExecutionEvent \<Rightarrow> bool" where
  "reviewed_in_time db e = (\<exists>p. get_execution_packet db (be_execution_packet_id e) = Some p \<and>
     pk_order_intent_id p = be_order_intent_id e \<and> pk_created_at p \<le> be_occurred_at e \<and>
     be_occurred_at e < pk_expires_at p)"

definition event_executed :: "core_db \<Rightarrow> BrokerExecutionEvent \<Rightarrow> bool" where
  "event_executed db e = (\<exists>r. get_broker_execution_record db (be_broker_execution_record_id e) = Some r \<and>
     br_order_intent_id r = be_order_intent_id e \<and> br_execution_packet_id r = be_execution_packet_id e)"

definition event_backed :: "core_db \<Rightarrow> BrokerExecutionEvent \<Rightarrow> bool" where
  "event_backed db e = (event_intent db e \<and> (be_status e = REVIEWED \<longrightarrow> reviewed_in_time db e) \<and>
     (be_status e \<in> {SUBMITTED, PARTIALLY_FILLED, FILLED} \<longrightarrow> event_executed db e))"

definition execution_backed :: "core_db \<Rightarrow> BrokerExecutionRecord \<Rightarrow> bool" where
  "execution_backed db r = (\<exists>x p e. get_order_intent db (br_order_intent_id r) = Some x \<and>
     oi_execution_mode x = LIVE \<and> oi_ticker x = br_ticker r \<and> oi_side x = br_side r \<and>
     oi_execution_profile_id x = br_execution_profile_id r \<and>
     get_execution_packet db (br_execution_packet_id r) = Some p \<and>
     pk_order_intent_id p = br_order_intent_id r \<and> pk_notional p = br_requested_notional r \<and>
     pk_limit_price p = br_limit_price r \<and>
     e \<in> set (broker_execution_events db) \<and> be_status e = REVIEWED \<and>
     be_broker_execution_record_id e = br_broker_execution_record_id r \<and>
     be_execution_packet_id e = br_execution_packet_id r \<and>
     be_occurred_at e \<le> br_submitted_at r \<and> br_submitted_at r \<le> be_occurred_at e + 120 * second)"

definition packet_backed :: "core_db \<Rightarrow> LiveExecutionPacket \<Rightarrow> bool" where
  "packet_backed db p = (\<exists>x. get_order_intent db (pk_order_intent_id p) = Some x \<and>
     oi_execution_mode x = LIVE \<and> oi_ticker x = pk_ticker p \<and> oi_side x = pk_side p \<and>
     oi_decision_id x = pk_decision_id p \<and> oi_target_weight x = pk_target_weight p)"

definition live_ok :: "core_db \<Rightarrow> bool" where
  "live_ok db = (pipeline_ok db \<and> (\<forall>i. lifecycle_ok (record_events db i)) \<and>
     (\<forall>p\<in>set (live_execution_packets db). packet_backed db p) \<and>
     (\<forall>r\<in>set (broker_execution_records db). execution_backed db r) \<and>
     (\<forall>e\<in>set (broker_execution_events db). event_backed db e))"

lemma live_ok_empty: "live_ok empty_db"
  using pipeline_ok_empty by (simp add: live_ok_def empty_db_def record_events_def lifecycle_ok_def)

lemma backed_extends:
  assumes "live_extends db db'"
  shows "event_backed db e \<Longrightarrow> event_backed db' e" and "execution_backed db r \<Longrightarrow> execution_backed db' r"
    and "packet_backed db p \<Longrightarrow> packet_backed db' p"
proof -
  show "event_backed db e \<Longrightarrow> event_backed db' e"
    using assms unfolding live_extends_def extends_def event_backed_def event_intent_def reviewed_in_time_def
      event_executed_def by blast
  show "execution_backed db r \<Longrightarrow> execution_backed db' r"
    using assms unfolding live_extends_def extends_def execution_backed_def by blast
  show "packet_backed db p \<Longrightarrow> packet_backed db' p"
    using assms unfolding live_extends_def extends_def packet_backed_def by blast
qed

section \<open>The writes elsewhere\<close>

text \<open>The operations that store what a live decision is judged by, and the runs it belongs to, are such writes.\<close>

lemma elsewhere_writes:
  shows "save_live_portfolio_snapshot profile snap db = Inr (db', b) \<Longrightarrow> live_step db db'"
    and "save_snapshot now d score db = Inr (db', published) \<Longrightarrow> live_step db db'"
    and "ingest x db = Inr (db', b) \<Longrightarrow> live_step db db'"
    and "save_reasoning_run run db = Inr (db', b) \<Longrightarrow> live_step db db'"
    and "complete_reasoning_run run db = Inr (db', r) \<Longrightarrow> live_step db db'"
proof -
  have other: "live_step db db'" if "same_pipeline_tables db db' \<and> same_live_tables db db'" for db db'
    using that by (blast intro: live_step.elsewhere)
  have i: "same_pipeline_tables db db' \<and> same_live_tables db db'" if "ingest x db = Inr (db', b)" for x db db' b
    using that by (rule ingest_cases) (auto simp: same_pipeline_tables_def same_live_tables_def)
  then show "ingest x db = Inr (db', b) \<Longrightarrow> live_step db db'" by (blast intro: other)
  show "save_live_portfolio_snapshot profile snap db = Inr (db', b) \<Longrightarrow> live_step db db'"
    by (intro other) (auto simp: save_live_portfolio_snapshot_def result_simps same_pipeline_tables_def same_live_tables_def
        split: option.splits if_splits dest!: i)
  show "save_snapshot now d score db = Inr (db', published) \<Longrightarrow> live_step db db'"
    by (intro other) (auto simp: save_snapshot_def Let_def same_pipeline_tables_def same_live_tables_def
        split: option.splits if_splits)
  show "save_reasoning_run run db = Inr (db', b) \<Longrightarrow> live_step db db'"
    by (intro other) (auto simp: runs.save_Inr same_pipeline_tables_def same_live_tables_def)
  show "complete_reasoning_run run db = Inr (db', r) \<Longrightarrow> live_step db db'"
    by (intro other) (auto simp: complete_reasoning_run_def same_pipeline_tables_def same_live_tables_def
        split: option.splits if_splits)
qed

section \<open>Each operation keeps the invariant\<close>

lemma same_live_tables_trans: "same_live_tables a b \<Longrightarrow> same_live_tables b c \<Longrightarrow> same_live_tables a c"
  by (simp add: same_live_tables_def)

lemma append_status_live: "status_of (append_status i s d t db) = Inr db' \<Longrightarrow> same_live_tables db db'"
  by (auto simp: same_live_tables_def elim!: status_of_append)

lemma save_decision_live: "save_decision_record r db = Inr (db', b) \<Longrightarrow> same_live_tables db db'"
  by (auto simp: same_live_tables_def elim: save_decision_cases)

lemma save_intent_live: "save_order_intent r db = Inr (db', b) \<Longrightarrow> same_live_tables db db'"
  by (auto simp: same_live_tables_def intents.save_Inr)

lemma save_evaluation_live:
  "save_policy_evaluation env r res p truth now ident m prof db = Inr (db', ev) \<Longrightarrow> same_live_tables db db'"
  by (auto simp: same_live_tables_def save_policy_evaluation_def Let_def result_simps split: if_splits option.splits)

lemma finish_live: "finish_with_intent r res now m prof db = Inr (db', out) \<Longrightarrow> same_live_tables db db'"
  by (auto simp: finish_with_intent_def result_simps split: option.splits
      dest!: append_status_live save_intent_live intro: same_live_tables_trans)

lemma replay_live:
  "replay existing r now m prof db = Inr (Some (db', out)) \<Longrightarrow> same_live_tables db db'"
  by (auto simp: replay_def Let_def result_simps same_live_tables_def split: if_splits option.splits
      dest!: finish_live)

lemma process_new_live:
  "process_new env r port truth now ident m prof db = Inr (db', out) \<Longrightarrow> same_live_tables db db'"
  by (auto simp: process_new_def Let_def result_simps split: if_splits
      dest!: finish_live append_status_live save_evaluation_live save_decision_live)
    (simp_all add: same_live_tables_def)

lemma body_live:
  assumes "process_decision_body env sub port truth now ident m prof db = Inr (db', out)"
  shows "same_live_tables db db'"
  using assms
  by (auto simp: process_decision_body_def result_simps split: option.splits sum.splits
      dest!: replay_live process_new_live append_status_live) (simp_all add: same_live_tables_def)

lemma same_live_extends:
  assumes "same_live_tables db db'" and "extends db db'"
  shows "live_extends db db'" and "record_events db' = record_events db"
  using assms by (simp_all add: live_extends_def same_live_tables_def lookup_defs record_events_def fun_eq_iff)

lemma decide_ok:
  assumes "process_decision_body env sub port truth now ident m prof db = Inr (db', out)" and "live_ok db"
  shows "live_ok db'"
proof -
  have ok: "pipeline_ok db" using assms(2) by (simp add: live_ok_def)
  note b = body_step [OF assms(1) ok] and s = body_live [OF assms(1)]
  note e = same_live_extends [OF s b(2)]
  show ?thesis
    using assms(2) b(1) s e(2) backed_extends [OF e(1)] by (simp add: live_ok_def same_live_tables_def)
qed

lemma elsewhere_ok:
  assumes "same_pipeline_tables db db'" and "same_live_tables db db'" and "live_ok db"
  shows "live_ok db'"
proof -
  note e = same_live_extends [OF assms(2)]
  from elsewhere_step [OF assms(1)] assms(3) have p: "pipeline_ok db'" "extends db db'" by (simp_all add: live_ok_def)
  from assms p e(2) [OF p(2)] backed_extends [OF e(1) [OF p(2)]] show ?thesis
    by (simp add: live_ok_def same_live_tables_def)
qed

text \<open>The live tables are not read by the pipeline's invariant.\<close>

lemma pipeline_ok_frame [simp]:
  "pipeline_ok (db\<lparr>live_execution_packets := a\<rparr>) = pipeline_ok db"
  "pipeline_ok (db\<lparr>broker_execution_records := b\<rparr>) = pipeline_ok db"
  "pipeline_ok (db\<lparr>broker_execution_events := c\<rparr>) = pipeline_ok db"
  unfolding pipeline_ok_defs policy_decided_def intent_backed_def status_backed_def evaluation_backed_def evaluation_of_def
    rejection_detail_def history_def subject_events_def lookup_defs
  by (simp_all cong: DecisionStatus.case_cong)

lemma packet_ok:
  assumes s: "save_execution_packet p db = Inr (db', b)" and ok: "live_ok db"
  shows "live_ok db'"
proof -
  from s obtain rows where g: "packet_guard p db = Inr ()" and i: "insert_once pk_execution_packet_id (\<lambda>_ _. False)
      (ValueError (''execution packet '' @ pk_execution_packet_id p @ '' has conflicting content''))
      (ValueError ''execution packet conflicts with an existing packet'') p (live_execution_packets db) = Inr (rows, b)"
    and db': "db' = db\<lparr>live_execution_packets := rows\<rparr>"
    by (auto simp: packets.save_Inr)
  have e: "live_extends db db'"
    using packets.immutable [OF s]
    by (simp add: live_extends_def get_execution_packet_def) (simp add: db' extends_def evaluation_of_def lookup_defs history_def subject_events_def)
  have "packet_backed db p"
    using g by (auto simp: packet_backed_def packet_guard_def split: option.splits if_splits)
  moreover have "set rows \<subseteq> insert p (set (live_execution_packets db))"
    using i by (rule insert_once_cases) auto
  ultimately show ?thesis
    using ok backed_extends [OF e] by (auto simp: live_ok_def db' record_events_def)
qed

lemma submit_ok:
  assumes s: "save_broker_execution_record r db = Inr (db', b)" and ok: "live_ok db"
  shows "live_ok db'"
proof -
  from s obtain rows where g: "broker_record_guard r db = Inr ()"
    and i: "insert_once br_broker_execution_record_id
        (\<lambda>r q. br_order_intent_id r = br_order_intent_id q \<or> br_broker_order_id r = br_broker_order_id q)
        (ValueError (''broker execution '' @ br_broker_execution_record_id r @ '' already exists with different content''))
        (ValueError ''order intent or broker order already has an execution record'')
        r (broker_execution_records db) = Inr (rows, b)"
    and db': "db' = db\<lparr>broker_execution_records := rows\<rparr>"
    by (auto simp: executions.save_Inr)
  have e: "live_extends db db'"
    using executions.immutable [OF s]
    by (simp add: live_extends_def get_broker_execution_record_def)
      (simp add: db' extends_def evaluation_of_def lookup_defs history_def subject_events_def)
  from g obtain x p e where x: "get_order_intent db (br_order_intent_id r) = Some x" "oi_execution_mode x = LIVE"
      "oi_ticker x = br_ticker r" "oi_side x = br_side r" "oi_execution_profile_id x = br_execution_profile_id r"
    and p: "get_execution_packet db (br_execution_packet_id r) = Some p" "pk_order_intent_id p = br_order_intent_id r"
      "pk_notional p = br_requested_notional r" "pk_limit_price p = br_limit_price r"
    and e': "review_event db (br_broker_execution_record_id r) (br_execution_packet_id r) = Some e"
      "be_occurred_at e \<le> br_submitted_at r" "br_submitted_at r - be_occurred_at e \<le> 120 * second"
    by (auto simp: broker_record_guard_def SUBMISSION_AFTER_REVIEW_def not_less split: option.splits if_splits)
  from e'(1) have "e \<in> set (broker_execution_events db)" "be_status e = REVIEWED"
    "be_broker_execution_record_id e = br_broker_execution_record_id r"
    "be_execution_packet_id e = br_execution_packet_id r"
    by (auto simp: review_event_def find_Some_iff)
  with x p e'(2,3) have "execution_backed db r" unfolding execution_backed_def by force
  moreover have "set rows \<subseteq> insert r (set (broker_execution_records db))"
    using i by (rule insert_once_cases) auto
  ultimately show ?thesis
    using ok backed_extends [OF e] by (auto simp: live_ok_def db' record_events_def)
qed

lemma event_ok:
  assumes s: "append_execution_event e db = Inr (db', b)" and ok: "live_ok db"
  shows "live_ok db'"
proof -
  have life: "lifecycle_ok (record_events db' i)" for i
    using lifecycle_step [OF s] ok by (simp add: live_ok_def)
  from s show ?thesis
  proof (rule append_execution_event_cases)
    assume db': "db' = db\<lparr>broker_execution_events := broker_execution_events db @ [e]\<rparr>"
      and intent: "intent_event_guard e db = Inr ()"
      and review: "be_status e = REVIEWED \<Longrightarrow> packet_event_guard e db = Inr ()"
      and executed: "be_status e \<in> {SUBMITTED, PARTIALLY_FILLED, FILLED} \<Longrightarrow> execution_event_guard e db = Inr ()"
    have x: "live_extends db db'"
      by (auto simp: live_extends_def db' extends_def evaluation_of_def lookup_defs history_def subject_events_def)
    have "event_intent db e"
      using intent by (auto simp: event_intent_def intent_event_guard_def split: option.splits if_splits)
    moreover have "be_status e = REVIEWED \<Longrightarrow> reviewed_in_time db e"
      using review by (auto simp: reviewed_in_time_def packet_event_guard_def not_less split: option.splits if_splits)
    moreover have "be_status e \<in> {SUBMITTED, PARTIALLY_FILLED, FILLED} \<Longrightarrow> event_executed db e"
      using executed by (auto simp: event_executed_def execution_event_guard_def split: option.splits if_splits)
    ultimately have "event_backed db e" by (simp add: event_backed_def)
    then show ?thesis
      using ok life backed_extends [OF x] by (auto simp: live_ok_def) (auto simp: db')
  qed (use ok in simp)
qed

lemma live_reachable_ok: "live_reachable db \<Longrightarrow> live_ok db"
proof (induction rule: live_reachable.induct)
  case initially
  show ?case by (rule live_ok_empty)
next
  case (next_state db db')
  from next_state.hyps(2) next_state.IH show ?case
    by cases (auto intro: decide_ok packet_ok event_ok submit_ok elsewhere_ok)
qed

section \<open>Properties\<close>

text \<open>
  C6. Every broker event of a submission or fill in a reachable state traces back to an approved
  decision: a recorded execution of the same intent and packet, submitted within 120 seconds after a
  review that happened while the packet was valid, on the packet's notional and limit price, for a
  live intent of the same ticker and side whose decision the policy approved. The regime row and the portfolio snapshot
  that the approval was bound to, as \<open>reason/run.py\<close> binds every live decision, are the ones it was judged by: the
  regime was that of the row, the snapshot of the intent's profile, and both older than the evaluation.
\<close>

theorem fills_trace_to_approval:
  assumes "live_reachable db" and "e \<in> set (broker_execution_events db)"
    and "be_status e \<in> {SUBMITTED, PARTIALLY_FILLED, FILLED}"
  shows "\<exists>r p v x d ev. get_broker_execution_record db (be_broker_execution_record_id e) = Some r \<and>
    get_execution_packet db (be_execution_packet_id e) = Some p \<and>
    v \<in> set (broker_execution_events db) \<and> be_status v = REVIEWED \<and>
    be_broker_execution_record_id v = be_broker_execution_record_id e \<and>
    pk_created_at p \<le> be_occurred_at v \<and> be_occurred_at v < pk_expires_at p \<and>
    be_occurred_at v \<le> br_submitted_at r \<and> br_submitted_at r \<le> be_occurred_at v + 120 * second \<and>
    br_requested_notional r = pk_notional p \<and> br_limit_price r = pk_limit_price p \<and>
    get_order_intent db (be_order_intent_id e) = Some x \<and> oi_execution_mode x = LIVE \<and>
    br_ticker r = oi_ticker x \<and> br_side r = oi_side x \<and>
    get_decision_record db (oi_decision_id x) = Some d \<and> evaluation_of db (oi_decision_id x) = Some ev \<and>
    approved (evaluate_decision_policy d (pe_portfolio ev) (pe_true_regime_state ev)) \<and>
    ticker d = oi_ticker x \<and> INTENT_SIDES (decision d) = Some (oi_side x) \<and>
    (\<forall>g. pe_regime_snapshot ev = Some g \<longrightarrow>
       pe_true_regime_state ev = Some (rg_regime g) \<and> rg_computed_at g \<le> pe_evaluated_at ev) \<and>
    (\<forall>snap. pe_portfolio_snapshot ev = Some snap \<longrightarrow>
       ls_execution_profile_id snap = oi_execution_profile_id x \<and> ls_captured_at snap \<le> pe_evaluated_at ev)"
proof -
  note ok = live_reachable_ok [OF assms(1)]
  from ok assms(2,3) have "event_executed db e" by (auto simp: live_ok_def event_backed_def)
  then obtain r where r: "get_broker_execution_record db (be_broker_execution_record_id e) = Some r"
    "br_order_intent_id r = be_order_intent_id e" "br_execution_packet_id r = be_execution_packet_id e"
    by (auto simp: event_executed_def)
  from find_row_Some [OF r(1) [unfolded get_broker_execution_record_def]]
  have r_in: "r \<in> set (broker_execution_records db)"
    and r_id: "br_broker_execution_record_id r = be_broker_execution_record_id e" by simp_all
  from ok r_in have "execution_backed db r" by (simp add: live_ok_def)
  then obtain x p v where x: "get_order_intent db (be_order_intent_id e) = Some x" "oi_execution_mode x = LIVE"
      "oi_ticker x = br_ticker r" "oi_side x = br_side r"
    and p: "get_execution_packet db (be_execution_packet_id e) = Some p" "pk_notional p = br_requested_notional r"
      "pk_limit_price p = br_limit_price r"
    and v: "v \<in> set (broker_execution_events db)" "be_status v = REVIEWED"
      "be_broker_execution_record_id v = br_broker_execution_record_id r"
      "be_execution_packet_id v = be_execution_packet_id e"
      "be_occurred_at v \<le> br_submitted_at r" "br_submitted_at r \<le> be_occurred_at v + 120 * second"
    unfolding execution_backed_def r by blast
  from ok v(1,2) have "reviewed_in_time db v" by (simp add: live_ok_def event_backed_def)
  then have times: "pk_created_at p \<le> be_occurred_at v \<and> be_occurred_at v < pk_expires_at p"
    using p(1) v(4) by (auto simp: reviewed_in_time_def)
  from x(1) have "x \<in> set (order_intents db)"
    by (auto simp: get_order_intent_def dest: find_row_Some)
  with ok have "intent_backed db x" by (simp add: live_ok_def pipeline_ok_defs)
  then obtain d ev where d: "get_decision_record db (oi_decision_id x) = Some d"
      "evaluation_of db (oi_decision_id x) = Some ev" "pe_approved ev" "pe_execution_profile_id ev = oi_execution_profile_id x"
      "oi_ticker x = ticker d" "INTENT_SIDES (decision d) = Some (oi_side x)"
    by (auto simp: intent_backed_def)
  from ok d(1-3) have a: "approved (evaluate_decision_policy d (pe_portfolio ev) (pe_true_regime_state ev))"
    and bound: "regime_bound ev" "portfolio_bound ev"
    by (auto simp: live_ok_def pipeline_ok_defs evaluation_of_def evaluation_backed_def dest!: find_row_Some)
  from bound d(4) have "(\<forall>g. pe_regime_snapshot ev = Some g \<longrightarrow>
       pe_true_regime_state ev = Some (rg_regime g) \<and> rg_computed_at g \<le> pe_evaluated_at ev) \<and>
    (\<forall>snap. pe_portfolio_snapshot ev = Some snap \<longrightarrow>
       ls_execution_profile_id snap = oi_execution_profile_id x \<and> ls_captured_at snap \<le> pe_evaluated_at ev)"
    by (auto simp: regime_bound_def portfolio_bound_def)
  with a r(1) r_id x p v times d show ?thesis by metis
qed

text \<open>
  C7. The events of one broker execution form a legal lifecycle in every reachable state: they
  follow the transition table, never move back in time, keep one intent, packet and profile, and
  nothing follows a fill, a cancellation or a failure; the status reported is that of the event
  appended last.
\<close>

theorem broker_lifecycle_legal:
  assumes "live_reachable db"
  shows "legal_path BROKER_TRANSITIONS None (map be_status (record_events db i)) \<and>
    sorted (map be_occurred_at (record_events db i)) \<and>
    latest_execution_status db i = latest (map be_status (record_events db i)) \<and>
    (\<forall>s\<in>{FILLED, CANCELED, FAILED}. s \<in> set (map be_status (record_events db i)) \<longrightarrow>
       latest_execution_status db i = Some s) \<and>
    (\<forall>e\<in>set (record_events db i). \<forall>f\<in>set (record_events db i). event_identity e = event_identity f)"
proof -
  from live_reachable_ok [OF assms] have l: "lifecycle_ok (record_events db i)" by (simp add: live_ok_def)
  then have p: "legal_path BROKER_TRANSITIONS None (map be_status (record_events db i))"
    by (simp add: lifecycle_ok_def)
  have latest: "latest_execution_status db i = latest (map be_status (record_events db i))"
    using l by (simp add: latest_execution_status_def latest_event_last latest_def last_map)
  have final: "\<forall>s\<in>{FILLED, CANCELED, FAILED}. s \<in> set (map be_status (record_events db i)) \<longrightarrow>
       latest_execution_status db i = Some s"
    unfolding latest using broker_status.terminal_last [OF p] by simp
  from l have "sorted (map be_occurred_at (record_events db i))"
    "\<forall>e\<in>set (record_events db i). \<forall>f\<in>set (record_events db i). event_identity e = event_identity f"
    unfolding lifecycle_ok_def by blast+
  with p latest final show ?thesis by blast
qed

section \<open>A live order from decision to submission\<close>

definition sample_packet :: LiveExecutionPacket where
  "sample_packet = \<lparr>pk_execution_packet_id = ''p1'', pk_order_intent_id = ''oi_d1'', pk_decision_id = ''d1'',
     pk_execution_profile_id = ''main'', pk_agent_provider = CODEX, pk_account_alias = ''a'',
     pk_created_at = 0, pk_expires_at = 60 * second, pk_ticker = ''AAPL'', pk_side = SIDE_BUY,
     pk_order_type = LIMIT, pk_target_weight = 1 / 8, pk_account_equity = 1000,
     pk_current_position_value = 0, pk_notional = 125, pk_limit_price = 101, pk_quote_at = 0,
     pk_spread_bps = 0, pk_require_human_approval = False\<rparr>"

definition sample_event :: "string \<Rightarrow> BrokerExecutionStatus \<Rightarrow> BrokerExecutionEvent" where
  "sample_event i s = \<lparr>be_broker_event_id = i, be_broker_execution_record_id = ''r1'',
     be_order_intent_id = ''oi_d1'', be_execution_packet_id = ''p1'', be_execution_profile_id = ''main'',
     be_status = s, be_occurred_at = 10 * second, be_detail = []\<rparr>"

definition sample_execution :: BrokerExecutionRecord where
  "sample_execution = \<lparr>br_broker_execution_record_id = ''r1'', br_order_intent_id = ''oi_d1'',
     br_execution_packet_id = ''p1'', br_execution_profile_id = ''main'', br_account_alias = ''a'',
     br_ticker = ''AAPL'', br_side = SIDE_BUY, br_order_type = LIMIT, br_requested_notional = 125,
     br_limit_price = 101, br_submitted_at = 20 * second, br_status = SUBMITTED,
     br_broker_order_id = ''b1'', br_execution_price = 0\<rparr>"

lemma sample_decided:
  obtains db x d where "live_reachable db" "get_order_intent db ''oi_d1'' = Some x" "oi_execution_mode x = LIVE"
    "oi_execution_profile_id x = ''main''" "oi_ticker x = ''AAPL''" "oi_side x = SIDE_BUY"
    "oi_decision_id x = ''d1''" "oi_target_weight x = 1 / 8" "oi_order_type x = LIMIT"
    "get_decision_record db ''d1'' = Some d" "ticker d = ''AAPL''" "decision d = BUY" "final_target_weight d = 1 / 8"
    "same_live_tables sample_start db"
proof -
  from sample_processed obtain db out where run: "sample_run sample_start = Inr (db, out)"
    and final: "po_final_status out = ORDER_INTENT_CREATED" by blast
  then have nf: "po_final_status out \<noteq> SCHEMA_FAILED" by simp
  note ok = body_step(1) [OF run sample_start_ok]
  from body_settled [OF run sample_start_ok nf] validate_sample
  have s: "settled db valid_decision LIVE ''main'' out" by simp
  then have h: "ORDER_INTENT_CREATED \<in> set (history db ''d1'')"
    and ev: "\<exists>e. evaluation_of db ''d1'' = Some e \<and> pe_execution_mode e = LIVE \<and> pe_execution_profile_id e = ''main''"
    using final by (auto simp: settled_def valid_decision_fields)
  from s obtain d where d: "get_decision_record db ''d1'' = Some d" "same_decision valid_decision d"
    by (auto simp: settled_def valid_decision_fields dest: same_decision_sym)
  note fields = same_decision_fields(4,5,6) [OF d(2)]
  from h ok have "status_backed db ''d1'' ORDER_INTENT_CREATED" by (auto simp: pipeline_ok_defs)
  then obtain x where x: "get_order_intent db (''oi_'' @ ''d1'') = Some x" by (auto simp: status_backed_def)
  note i = intent_of_decision [OF _ x]
  have "live_reachable sample_start"
    by (rule live_reachable.next_state [OF live_reachable.initially], rule live_step.elsewhere)
      (simp_all add: same_pipeline_tables_def same_live_tables_def sample_start_def)
  then have "live_reachable db"
    using live_step.decide [OF run] live_reachable.next_state by blast
  then show thesis
    using that [of db x d] x i ok d ev fields body_live [OF run]
    by (auto simp: intent_backed_def valid_decision_fields pipeline_ok_def)
qed

lemma sample_submission:
  "\<exists>db. live_reachable db \<and> sample_event ''e2'' SUBMITTED \<in> set (broker_execution_events db)"
proof -
  obtain db x d where db: "live_reachable db" and x: "get_order_intent db ''oi_d1'' = Some x" "oi_execution_mode x = LIVE"
    "oi_execution_profile_id x = ''main''" "oi_ticker x = ''AAPL''" "oi_side x = SIDE_BUY"
    "oi_decision_id x = ''d1''" "oi_target_weight x = 1 / 8" "oi_order_type x = LIMIT"
    and d: "get_decision_record db ''d1'' = Some d" "ticker d = ''AAPL''" "decision d = BUY" "final_target_weight d = 1 / 8"
    and empty: "same_live_tables sample_start db"
    by (rule sample_decided)
  have tables: "live_execution_packets db = []" "broker_execution_records db = []" "broker_execution_events db = []"
    using empty by (simp_all add: same_live_tables_def sample_start_def empty_db_def)
  define db1 where "db1 = db\<lparr>live_execution_packets := [sample_packet]\<rparr>"
  have "save_execution_packet sample_packet db = Inr (db1, True)"
    using x d valid_decision_fields tables
    by (simp add: save_execution_packet_def packet_guard_def sample_packet_def insert_once_def find_row_def db1_def)
  moreover have "packet_errors sample_packet = []"
    by (simp add: sample_packet_def packet_errors_def model_errors_Nil float_errors_Nil length_errors_Nil
        range_errors_Nil isfinite_def require_consistent_times_def second_def)
  ultimately have r1: "live_reachable db1" using db by (blast intro: live_reachable.next_state live_step.packet)
  define db2 where "db2 = db1\<lparr>broker_execution_events := [sample_event ''e1'' REVIEWED]\<rparr>"
  have "append_execution_event (sample_event ''e1'' REVIEWED) db1 = Inr (db2, True)"
    using x tables
    by (simp add: append_execution_event_def intent_event_guard_def sample_event_def db1_def db2_def find_row_def
        get_order_intent_def continuity_guard_def record_events_def latest_execution_status_def
        packet_event_guard_def get_execution_packet_def sample_packet_def second_def)
  then have r2: "live_reachable db2" using r1 by (blast intro: live_reachable.next_state live_step.event)
  define db3 where "db3 = db2\<lparr>broker_execution_records := [sample_execution]\<rparr>"
  have "save_broker_execution_record sample_execution db2 = Inr (db3, True)"
    using x tables
    by (simp add: save_broker_execution_record_def broker_record_guard_def sample_execution_def db1_def db2_def
        db3_def get_order_intent_def get_execution_packet_def find_row_def sample_packet_def review_event_def
        sample_event_def second_def SUBMISSION_AFTER_REVIEW_def insert_once_def)
  then have r3: "live_reachable db3" using r2 by (blast intro: live_reachable.next_state live_step.submit)
  define db4 where "db4 = db3\<lparr>broker_execution_events :=
      [sample_event ''e1'' REVIEWED, sample_event ''e2'' SUBMITTED]\<rparr>"
  have "append_execution_event (sample_event ''e2'' SUBMITTED) db3 = Inr (db4, True)"
    using x tables
    by (simp add: append_execution_event_def intent_event_guard_def sample_event_def db1_def db2_def db3_def
        db4_def find_row_def get_order_intent_def continuity_guard_def record_events_def
        latest_execution_status_def execution_event_guard_def get_broker_execution_record_def sample_execution_def)
  then have "live_reachable db4" using r3 by (blast intro: live_reachable.next_state live_step.event)
  then show ?thesis by (auto simp: db4_def)
qed

lemma fills_trace_to_approval_witness:
  "\<exists>db r. live_reachable db \<and> get_broker_execution_record db ''r1'' = Some r \<and>
     sample_event ''e2'' SUBMITTED \<in> set (broker_execution_events db)"
proof -
  from sample_submission obtain db where db: "live_reachable db"
    "sample_event ''e2'' SUBMITTED \<in> set (broker_execution_events db)" by blast
  moreover have "be_status (sample_event ''e2'' SUBMITTED) \<in> {SUBMITTED, PARTIALLY_FILLED, FILLED}"
    "be_broker_execution_record_id (sample_event ''e2'' SUBMITTED) = ''r1''"
    by (simp_all add: sample_event_def)
  ultimately show ?thesis using fills_trace_to_approval [OF db] by metis
qed

lemma broker_lifecycle_legal_witness:
  "\<exists>db. live_reachable db \<and> sample_event ''e2'' SUBMITTED \<in> set (broker_execution_events db) \<and>
     sorted (map be_occurred_at (record_events db ''r1''))"
  using sample_submission broker_lifecycle_legal by blast

end
