(* ===== verification/Performance.thy ===== *)
theory Performance
  imports ReportingSchema Calendar
begin

text \<open>
  Reported returns (\<open>app/performance/calculate.py\<close>): coverage of an interval, returns linked across
  external flows, and the daily change of equity. Decimal results are their values; \<open>str\<close> only
  formats them. The exponent a decimal zero carries has no counterpart here, so a zero growth factor
  always passes the precision test.
\<close>

section \<open>Coverage\<close>

fun covered_loop :: "instant \<Rightarrow> instant \<Rightarrow> (CoverageObservation \<Rightarrow> bool) \<Rightarrow> CoverageObservation list \<Rightarrow> bool" where
  "covered_loop through end usable [] = False"
| "covered_loop through end usable (c # cs) =
     (if \<not> usable c then covered_loop through end usable cs
      else let through' = (if co_start_at c \<le> through \<and> through < co_end_at c then co_end_at c else through)
        in if end \<le> through' then True else covered_loop through' end usable cs)"

definition complete_for :: "bool \<Rightarrow> CoverageObservation \<Rightarrow> bool" where
  "complete_for activity c = (if activity then co_activity_complete c else co_external_flows_complete c)"

definition covered :: "instant \<Rightarrow> instant \<Rightarrow> CoverageObservation list \<Rightarrow> bool \<Rightarrow> bool" where
  "covered start end coverage activity =
     (start = end \<or> covered_loop start end (complete_for activity) (sort_key co_start_at coverage))"

section \<open>Linked returns\<close>

datatype return_result =
    Unavailable string
  | SingleObservation
  | Available rat rat rat rat \<comment> \<open>percent, growth factor, net external flows, investment P and L\<close>

record link_state =
  lk_factor :: rat
  lk_previous :: rat
  lk_funded :: bool
  lk_flow_at :: "instant option"

definition flow_boundary :: "(string \<times> ValuationObservation) list \<Rightarrow> string option \<Rightarrow> ValuationObservation option" where
  "flow_boundary valuations i = map_of valuations (case i of None \<Rightarrow> [] | Some s \<Rightarrow> s)"

text \<open>One flow: \<open>Inl\<close> is the reason the return is unavailable.\<close>

definition link_flow :: "(string \<times> ValuationObservation) list \<Rightarrow> FlowObservation \<Rightarrow> link_state \<Rightarrow>
    (string + link_state) result" where
  "link_flow valuations f s =
    (case (flow_boundary valuations (fo_before_valuation_id f), flow_boundary valuations (fo_after_valuation_id f)) of
       (Some before, Some after) \<Rightarrow>
         if \<not> vo_complete before \<or> \<not> vo_complete after then Inr (Inl ''external_flow_boundary_missing'')
         else (case (vo_equity before, vo_equity after) of
           (Some eb, Some ea) \<Rightarrow>
             if vo_phase before \<noteq> before_flow \<or> vo_phase after \<noteq> after_flow \<or>
                 ob_occurred_at before \<noteq> ob_occurred_at f \<or> ob_occurred_at after \<noteq> ob_occurred_at f \<or>
                 dec 40 (ea - eb) \<noteq> fo_amount f
               then Inr (Inl ''external_flow_boundary_mismatch'')
             else if lk_flow_at s = Some (ob_occurred_at f) \<and> eb \<noteq> lk_previous s
               then Inr (Inl ''simultaneous_flow_boundary_gap'')
             else if lk_previous s = 0 \<and> eb \<noteq> 0 then Inr (Inl ''zero_return_base'')
             else Inr (Inr
               \<lparr>lk_factor = (if lk_previous s = 0 then lk_factor s
                  else dec 40 (lk_factor s * dec 40 (eb / lk_previous s))),
                lk_previous = ea, lk_funded = (lk_funded s \<or> 0 < ea), lk_flow_at = Some (ob_occurred_at f)\<rparr>)
         | _ \<Rightarrow> Inl AssertionError)
     | _ \<Rightarrow> Inr (Inl ''external_flow_boundary_missing''))"

fun link_flows :: "(string \<times> ValuationObservation) list \<Rightarrow> FlowObservation list \<Rightarrow> link_state \<Rightarrow>
    (string + link_state) result" where
  "link_flows valuations [] s = Inr (Inr s)"
| "link_flows valuations (f # fs) s = and_then (link_flow valuations f s) (\<lambda>r. case r of
     Inl reason \<Rightarrow> Inr (Inl reason) | Inr s' \<Rightarrow> link_flows valuations fs s')"

definition net_flows :: "nat \<Rightarrow> FlowObservation list \<Rightarrow> rat" where
  "net_flows p events = dec_sum p (map fo_amount events)"

text \<open>\<open>factor.adjusted() >= context.prec - 8\<close>.\<close>

definition precision_exceeded :: "rat \<Rightarrow> bool" where
  "precision_exceeded factor = (factor \<noteq> 0 \<and> 32 \<le> expo 10 factor)"

definition finish_return :: "rat \<Rightarrow> rat \<Rightarrow> FlowObservation list \<Rightarrow> link_state \<Rightarrow> return_result result" where
  "finish_return start_equity end_equity events s =
    (if lk_previous s = 0 \<and> (end_equity \<noteq> 0 \<or> \<not> lk_funded s) then Inr (Unavailable ''zero_return_base'')
     else let factor = (if lk_previous s = 0 then lk_factor s
            else dec 40 (lk_factor s * dec 40 (end_equity / lk_previous s))) in
       if precision_exceeded factor then Inr (Unavailable ''return_precision_exceeded'')
       else and_then (quantize 40 6 (dec 40 (dec 40 (factor - 1) * 100))) (\<lambda>percent.
         and_then (quantize 40 2 (net_flows 40 events)) (\<lambda>net.
         and_then (quantize 40 2 (dec 40 (dec 40 (end_equity - start_equity) - net_flows 40 events))) (\<lambda>pnl.
           Inr (Available percent factor net pnl)))))"

definition account_of :: "'a Observation_scheme \<Rightarrow> account_mode \<times> string" where
  "account_of x = (ob_mode x, ob_account_id x)"

definition return_events :: "ValuationObservation \<Rightarrow> ValuationObservation \<Rightarrow> FlowObservation list \<Rightarrow> FlowObservation list" where
  "return_events start end flows = sort_key (\<lambda>f. (ob_occurred_at f, ob_sequence f, ob_observation_id f))
     (filter (\<lambda>f. ob_occurred_at start < ob_occurred_at f \<and> ob_occurred_at f \<le> ob_occurred_at end) flows)"

definition boundary_ids :: "FlowObservation list \<Rightarrow> string list" where
  "boundary_ids events = List.map_filter id
     (concat (map (\<lambda>f. [fo_before_valuation_id f, fo_after_valuation_id f]) events))"

definition is_flow_phase :: "phase \<Rightarrow> bool" where
  "is_flow_phase p = (p \<in> {before_flow, after_flow})"

definition linked_return :: "ValuationObservation \<Rightarrow> ValuationObservation \<Rightarrow>
    (string \<times> ValuationObservation) list \<Rightarrow> FlowObservation list \<Rightarrow> CoverageObservation list \<Rightarrow>
    return_result result" where
  "linked_return start end valuations flows coverage =
    (if account_of start \<noteq> account_of end
       then Inl (ValueError ''return endpoints must share one account'')
     else if \<not> (\<forall>v\<in>set (map snd valuations). account_of v = account_of start) \<or>
         \<not> (\<forall>f\<in>set flows. account_of f = account_of start) \<or>
         \<not> (\<forall>c\<in>set coverage. account_of c = account_of start)
       then Inl (ValueError ''return inputs must share one account'')
     else if is_flow_phase (vo_phase start) \<or> is_flow_phase (vo_phase end)
       then Inr (Unavailable ''flow_boundary_endpoint_unsupported'')
     else if \<exists>f\<in>set flows. ob_occurred_at f \<in> {ob_occurred_at start, ob_occurred_at end}
       then Inr (Unavailable ''coincident_flow_endpoint_order_unknown'')
     else if ob_observation_id start = ob_observation_id end then
       Inr (if \<not> vo_complete start then Unavailable ''incomplete_valuation'' else SingleObservation)
     else if ob_occurred_at end \<le> ob_occurred_at start then Inr (Unavailable ''insufficient_observations'')
     else if \<not> vo_complete start \<or> \<not> vo_complete end then Inr (Unavailable ''incomplete_valuation'')
     else if \<not> covered (ob_occurred_at start) (ob_occurred_at end) coverage False
       then Inr (Unavailable ''external_flow_coverage_missing'')
     else (case (vo_equity start, vo_equity end) of
       (Some es, Some ee) \<Rightarrow>
         (let events = return_events start end flows in
          if \<not> distinct (map (\<lambda>f. (ob_occurred_at f, ob_sequence f)) events)
            then Inr (Unavailable ''simultaneous_flow_order_unknown'')
          else if \<not> distinct (boundary_ids events)
            then Inr (Unavailable ''external_flow_boundary_reused'')
          else and_then (link_flows valuations events
              \<lparr>lk_factor = 1, lk_previous = es, lk_funded = (0 < es), lk_flow_at = None\<rparr>)
            (\<lambda>r. case r of Inl reason \<Rightarrow> Inr (Unavailable reason)
               | Inr s \<Rightarrow> finish_return es ee events s))
     | _ \<Rightarrow> Inl AssertionError))"

section \<open>Daily change\<close>

definition session_timestamp_reason :: "ValuationObservation \<Rightarrow> string option" where
  "session_timestamp_reason v = (case vo_session_date v of
     None \<Rightarrow> Some ''session_date_missing''
   | Some d \<Rightarrow> (case session_close d of
       Inl _ \<Rightarrow> Some ''session_calendar_out_of_coverage''
     | Inr None \<Rightarrow> Some ''session_not_eligible''
     | Inr (Some close) \<Rightarrow>
         if ny_date (ob_occurred_at v) \<noteq> d then Some ''session_timestamp_mismatch''
         else if vo_phase v = session_close_phase \<and> ob_occurred_at v < close
           then Some ''valuation_precedes_session_close''
         else None))"

datatype daily_result = DailyUnavailable string | DailyAmount rat rat instant

text \<open>
  \<open>session_timestamp_reason\<close> is \<open>None\<close> only when the date has a session, so \<open>previous_session\<close> and
  \<open>session_close\<close> can fail only at the edge of the calendar.
\<close>

definition daily_pnl :: "ValuationObservation \<Rightarrow> ValuationObservation list \<Rightarrow> FlowObservation list \<Rightarrow>
    CoverageObservation list \<Rightarrow> daily_result result" where
  "daily_pnl latest values flows coverage =
    (case (session_timestamp_reason latest, vo_session_date latest) of
       (Some reason, _) \<Rightarrow> Inr (DailyUnavailable reason)
     | (None, None) \<Rightarrow> Inr (DailyUnavailable ''prior_session_close_missing'')
     | (None, Some day) \<Rightarrow>
       (case and_then (previous_session day) (\<lambda>e. and_then (session_close e) (\<lambda>c. Inr (e, c))) of
          Inl _ \<Rightarrow> Inr (DailyUnavailable ''session_calendar_out_of_coverage'')
        | Inr (expected, expected_close) \<Rightarrow>
            if vo_previous_session_date latest \<notin> {None, Some expected}
              then Inr (DailyUnavailable ''previous_session_date_mismatch'')
            else (case find (\<lambda>v. vo_phase v = session_close_phase \<and> vo_session_date v = Some expected \<and>
                ob_occurred_at v < ob_occurred_at latest) (rev values) of
              None \<Rightarrow> Inr (DailyUnavailable ''prior_session_close_missing'')
            | Some baseline \<Rightarrow> (case session_timestamp_reason baseline of
                Some reason \<Rightarrow> Inr (DailyUnavailable reason)
              | None \<Rightarrow>
                  if (case expected_close of None \<Rightarrow> True | Some c \<Rightarrow> ob_occurred_at baseline < c)
                    then Inr (DailyUnavailable ''baseline_precedes_session_close'')
                  else if is_flow_phase (vo_phase latest) \<or> (\<exists>f\<in>set flows.
                      ob_occurred_at f \<in> {ob_occurred_at baseline, ob_occurred_at latest})
                    then Inr (DailyUnavailable ''coincident_flow_endpoint_order_unknown'')
                  else if \<not> vo_complete baseline \<or> \<not> vo_complete latest
                    then Inr (DailyUnavailable ''incomplete_valuation'')
                  else if \<not> covered (ob_occurred_at baseline) (ob_occurred_at latest) coverage False
                    then Inr (DailyUnavailable ''external_flow_coverage_missing'')
                  else (case (vo_equity latest, vo_equity baseline) of
                    (Some e, Some b) \<Rightarrow>
                      let net = net_flows 28 (filter (\<lambda>f. ob_occurred_at baseline < ob_occurred_at f \<and>
                        ob_occurred_at f \<le> ob_occurred_at latest) flows)
                      in Inr (DailyAmount (dec 28 (dec 28 (e - b) - net)) net (ob_occurred_at baseline))
                  | _ \<Rightarrow> Inl AssertionError)))))"

section \<open>Coverage is exact\<close>

lemma covered_loop_sound:
  "covered_loop through end usable cs \<Longrightarrow>
     \<forall>t. through \<le> t \<and> t < end \<longrightarrow> (\<exists>c\<in>set cs. usable c \<and> co_start_at c \<le> t \<and> t < co_end_at c)"
proof (induction cs arbitrary: through)
  case (Cons c cs)
  show ?case
  proof (cases "usable c \<and> co_start_at c \<le> through \<and> through < co_end_at c")
    case True
    with Cons show ?thesis by (fastforce simp: Let_def not_less split: if_splits)
  next
    case False
    with Cons show ?thesis by (fastforce simp: Let_def split: if_splits)
  qed
qed simp

lemma covered_loop_complete:
  assumes "sorted (map co_start_at cs)" and "through < end"
    and "\<forall>t. through \<le> t \<and> t < end \<longrightarrow> (\<exists>c\<in>set cs. usable c \<and> co_start_at c \<le> t \<and> t < co_end_at c)"
  shows "covered_loop through end usable cs"
  using assms
proof (induction cs arbitrary: through)
  case Nil
  then show ?case by (auto dest: spec [of _ through])
next
  case (Cons c cs)
  have sorted: "sorted (map co_start_at cs)" using Cons.prems(1) by simp
  show ?case
  proof (cases "usable c \<and> co_start_at c \<le> through \<and> through < co_end_at c")
    case True
    show ?thesis
    proof (cases "end \<le> co_end_at c")
      case False
      have "\<exists>d\<in>set cs. usable d \<and> co_start_at d \<le> t \<and> t < co_end_at d"
        if t: "co_end_at c \<le> t" "t < end" for t
      proof -
        from True t have "through \<le> t" by simp
        with Cons.prems(3) t(2) obtain d where "d \<in> set (c # cs)" "usable d" "co_start_at d \<le> t" "t < co_end_at d"
          by blast
        with t(1) show ?thesis by auto
      qed
      then have "covered_loop (co_end_at c) end usable cs" using False by (intro Cons.IH [OF sorted]) auto
      with True False show ?thesis by (simp add: Let_def)
    qed (use True in \<open>simp add: Let_def\<close>)
  next
    case False
    have rest: "\<exists>d\<in>set cs. usable d \<and> co_start_at d \<le> t \<and> t < co_end_at d" if t: "through \<le> t" "t < end" for t
    proof (cases "usable c \<and> co_start_at c \<le> t \<and> t < co_end_at c")
      case True
      obtain d where d: "d \<in> set (c # cs)" "usable d" "co_start_at d \<le> through" "through < co_end_at d"
        using Cons.prems(2,3) by blast
      with False have "d \<in> set cs" by auto
      then have "co_start_at c \<le> co_start_at d" using Cons.prems(1) by simp
      with True d(3,4) t False show ?thesis by auto
    qed (use Cons.prems(3) t in auto)
    have "covered_loop through end usable cs"
      by (rule Cons.IH [OF sorted Cons.prems(2)]) (use rest in blast)
    with False Cons.prems(2) show ?thesis by (auto simp: Let_def)
  qed
qed

text \<open>
  C10. \<open>covered\<close> decides coverage: for an interval of positive length it is true exactly when every
  instant of the interval lies in one of the statements that are complete for the purpose asked.
\<close>

theorem covered_iff:
  assumes "start < end"
  shows "covered start end coverage activity \<longleftrightarrow> (\<forall>t. start \<le> t \<and> t < end \<longrightarrow>
    (\<exists>c\<in>set coverage. complete_for activity c \<and> co_start_at c \<le> t \<and> t < co_end_at c))"
  using covered_loop_sound [of start "end" "complete_for activity" "sort_key co_start_at coverage"]
    covered_loop_complete [of "sort_key co_start_at coverage" start "end" "complete_for activity"] assms
  by (auto simp: covered_def)

definition sample_coverage :: "instant \<Rightarrow> instant \<Rightarrow> CoverageObservation" where
  "sample_coverage s e = \<lparr>ob_observation_id = ''c1'', ob_external_event_id = ''ce1'', ob_mode = PaperMode,
     ob_account_id = ''paper'', ob_occurred_at = e, ob_recorded_at = e, ob_sequence = 0,
     ob_supersedes = None, ob_voided = False, co_start_at = s, co_end_at = e,
     co_external_flows_complete = True, co_activity_complete = False\<rparr>"

lemma covered_iff_witness:
  "covered 0 9 [sample_coverage 4 10, sample_coverage 0 5] False \<and>
   \<not> covered 0 9 [sample_coverage 6 10, sample_coverage 0 5] False"
proof -
  have 1: "complete_for False (sample_coverage a b)" "co_start_at (sample_coverage a b) = a"
    "co_end_at (sample_coverage a b) = b" for a b
    by (simp_all add: sample_coverage_def complete_for_def)
  have "covered 0 9 [sample_coverage 4 10, sample_coverage 0 5] False"
    by (subst covered_iff) (auto simp: 1)
  moreover have "\<not> covered 0 9 [sample_coverage 6 10, sample_coverage 0 5] False"
    by (subst covered_iff) (auto simp: 1 intro!: exI [of _ 5])
  ultimately show ?thesis ..
qed

section \<open>Flows are not gains\<close>

text \<open>
  \<open>idle_between\<close> says that the account's equity changed only by the external flows: at each flow the
  equity before it is the equity left by the previous one.
\<close>

fun idle_between :: "(string \<times> ValuationObservation) list \<Rightarrow> rat \<Rightarrow> FlowObservation list \<Rightarrow> rat \<Rightarrow> bool" where
  "idle_between valuations previous [] final = (previous = final)"
| "idle_between valuations previous (f # fs) final = (\<exists>b a ea.
     flow_boundary valuations (fo_before_valuation_id f) = Some b \<and> vo_equity b = Some previous \<and>
     flow_boundary valuations (fo_after_valuation_id f) = Some a \<and> vo_equity a = Some ea \<and>
     idle_between valuations ea fs final)"

lemma link_flows_idle:
  assumes "idle_between valuations (lk_previous s) fs final" and "link_flows valuations fs s = Inr (Inr s')"
    and "lk_factor s = 1"
  shows "lk_factor s' = 1 \<and> lk_previous s' = final"
  using assms
proof (induction fs arbitrary: s)
  case (Cons f fs)
  then obtain b a ea where b: "flow_boundary valuations (fo_before_valuation_id f) = Some b"
      "vo_equity b = Some (lk_previous s)"
    and a: "flow_boundary valuations (fo_after_valuation_id f) = Some a" "vo_equity a = Some ea"
    and rest: "idle_between valuations ea fs final" by auto
  from Cons.prems(2) obtain s1 where s1: "link_flow valuations f s = Inr (Inr s1)"
    and l: "link_flows valuations fs s1 = Inr (Inr s')"
    by (cases "link_flow valuations f s") (auto split: sum.splits)
  have "lk_factor s1 = 1" "lk_previous s1 = ea"
    using s1 b a Cons.prems(3) by (auto simp: link_flow_def dec_1 split: if_splits)
  with Cons.IH [OF _ l] rest show ?case by simp
qed simp

text \<open>
  C11. External flows are not returns: when the equity of an account changes only by deposits,
  withdrawals and transfers between two valuations, the linked return that is reported is exactly
  zero percent with growth factor one, whatever the flows.
\<close>

theorem flows_are_not_returns:
  assumes "linked_return start end valuations flows coverage = Inr (Available percent factor net pnl)"
    and "vo_equity start = Some es" and "vo_equity end = Some ee"
    and "idle_between valuations es (return_events start end flows) ee"
  shows "percent = 0 \<and> factor = 1"
proof -
  from assms(1-3) obtain s where s: "link_flows valuations (return_events start end flows)
      \<lparr>lk_factor = 1, lk_previous = es, lk_funded = (0 < es), lk_flow_at = None\<rparr> = Inr (Inr s)"
    and fin: "finish_return es ee (return_events start end flows) s = Inr (Available percent factor net pnl)"
    by (cases "link_flows valuations (return_events start end flows)
      \<lparr>lk_factor = 1, lk_previous = es, lk_funded = (0 < es), lk_flow_at = None\<rparr>")
      (auto simp: linked_return_def Let_def split: if_splits sum.splits)
  from link_flows_idle [OF _ s] assms(4) have "lk_factor s = 1" "lk_previous s = ee" by simp_all
  then have "factor = 1" and q: "quantize 40 6 (dec 40 (dec 40 (factor - 1) * 100)) = Inr percent"
    using fin by (auto simp: finish_return_def Let_def result_simps dec_1 split: if_splits)
  then show ?thesis by (auto simp: quantize_def Let_def split: if_splits)
qed

definition sample_point :: "string \<Rightarrow> phase \<Rightarrow> instant \<Rightarrow> rat \<Rightarrow> ValuationObservation" where
  "sample_point i p t e = \<lparr>ob_observation_id = i, ob_external_event_id = i, ob_mode = PaperMode,
     ob_account_id = ''paper'', ob_occurred_at = t, ob_recorded_at = t, ob_sequence = 0,
     ob_supersedes = None, ob_voided = False, vo_equity = Some e, vo_cash = Some e,
     vo_receivables = 0, vo_liabilities = 0, vo_positions = Some [],
     vo_complete = True, vo_phase = p, vo_session_date = None, vo_previous_session_date = None\<rparr>"

definition sample_deposit :: FlowObservation where
  "sample_deposit = \<lparr>ob_observation_id = ''f1'', ob_external_event_id = ''f1'', ob_mode = PaperMode,
     ob_account_id = ''paper'', ob_occurred_at = 10, ob_recorded_at = 10, ob_sequence = 0,
     ob_supersedes = None, ob_voided = False, fo_flow_type = deposit, fo_amount = 500,
     fo_before_valuation_id = Some ''b'', fo_after_valuation_id = Some ''a''\<rparr>"

definition sample_boundaries :: "(string \<times> ValuationObservation) list" where
  "sample_boundaries = [(''b'', sample_point ''b'' before_flow 10 1000), (''a'', sample_point ''a'' after_flow 10 1500)]"

lemma flows_are_not_returns_witness:
  "\<exists>percent factor net pnl.
     linked_return (sample_point ''s'' intraday 0 1000) (sample_point ''e'' intraday 20 1500) sample_boundaries
       [sample_deposit] [sample_coverage 0 20] = Inr (Available percent factor net pnl) \<and>
     percent = 0 \<and> factor = 1"
proof -
  let ?s = "sample_point ''s'' intraday 0 1000" and ?e = "sample_point ''e'' intraday 20 1500"
  have ev: "return_events ?s ?e [sample_deposit] = [sample_deposit]"
    by (simp add: return_events_def sample_point_def sample_deposit_def)
  have ids: "boundary_ids [sample_deposit] = [''b'', ''a'']"
    by (simp add: boundary_ids_def sample_deposit_def map_filter_simps)
  have fb: "flow_boundary sample_boundaries (Some ''b'') = Some (sample_point ''b'' before_flow 10 1000)"
    "flow_boundary sample_boundaries (Some ''a'') = Some (sample_point ''a'' after_flow 10 1500)"
    by (simp_all add: flow_boundary_def sample_boundaries_def)
  have idle: "idle_between sample_boundaries 1000 [sample_deposit] 1500"
    by (simp add: sample_deposit_def fb) (simp add: sample_point_def)
  have cov: "covered 0 20 [sample_coverage 0 20] False"
    by (simp add: covered_def complete_for_def sample_coverage_def)
  have link: "link_flows sample_boundaries [sample_deposit]
      \<lparr>lk_factor = 1, lk_previous = 1000, lk_funded = True, lk_flow_at = None\<rparr> =
      Inr (Inr \<lparr>lk_factor = 1, lk_previous = 1500, lk_funded = True, lk_flow_at = Some 10\<rparr>)"
    by (simp add: link_flow_def sample_deposit_def fb)
      (simp add: sample_point_def dec_numeral dec_1)
  have "expo 10 1 = 0" by (simp add: expo_def ndigits.simps [of 10])
  then have fin: "\<exists>percent factor net pnl. finish_return 1000 1500 [sample_deposit]
      \<lparr>lk_factor = 1, lk_previous = 1500, lk_funded = True, lk_flow_at = Some 10\<rparr> =
      Inr (Available percent factor net pnl)"
    by (simp add: finish_return_def sample_deposit_def net_flows_def dec_sum_def dec_numeral dec_1 dec_0
        precision_exceeded_def quantize_def Let_def)
  have acc [simp]: "account_of (sample_point i p t e) = (PaperMode, ''paper'')"
    "account_of sample_deposit = (PaperMode, ''paper'')" "account_of (sample_coverage t u) = (PaperMode, ''paper'')"
    for i p t e u
    by (simp_all add: account_of_def sample_point_def sample_deposit_def sample_coverage_def)
  have at [simp]: "ob_occurred_at (sample_point i p t e) = t" "vo_phase (sample_point i p t e) = p"
    "vo_complete (sample_point i p t e)" "vo_equity (sample_point i p t e) = Some e"
    "ob_observation_id (sample_point i p t e) = i" "ob_occurred_at sample_deposit = 10" for i p t e
    by (simp_all add: sample_point_def sample_deposit_def)
  have "account_of (snd v) = (PaperMode, ''paper'')" if "v \<in> set sample_boundaries" for v
    using that by (auto simp: sample_boundaries_def)
  then have "linked_return ?s ?e sample_boundaries [sample_deposit] [sample_coverage 0 20] =
      finish_return 1000 1500 [sample_deposit]
        \<lparr>lk_factor = 1, lk_previous = 1500, lk_funded = True, lk_flow_at = Some 10\<rparr>"
    unfolding linked_return_def ev by (simp add: cov link ids is_flow_phase_def Let_def del: link_flows.simps)
  with fin obtain percent factor net pnl where
    l: "linked_return ?s ?e sample_boundaries [sample_deposit] [sample_coverage 0 20] =
      Inr (Available percent factor net pnl)" by auto
  have "vo_equity ?s = Some 1000" "vo_equity ?e = Some 1500" by (simp_all add: sample_point_def)
  with flows_are_not_returns [OF l] idle ev l show ?thesis by auto
qed

end
