(* ===== verification/RuntimeSchemas.thy ===== *)
theory RuntimeSchemas
  imports Database
begin

text \<open>
  Runtime facts (\<open>app/schemas/runtime.py\<close>): runs, schedules, observations and attempts, their
  constraints, and the runtime tables of \<open>app/storage/database.py\<close>. A field of one literal value
  (the time zone of a schedule) has no component; a naive \<open>time\<close> is a \<open>daytime\<close>, so the check that
  schedule times carry no offset has no counterpart.
\<close>

section \<open>Runs\<close>

datatype run_origin = OriginManual | OriginScheduled | OriginEvent

record RuntimeRun =
  ru_run_id :: string
  ru_mode :: account_mode
  ru_account_id :: string
  ru_execution_profile_id :: string
  ru_session_date :: pydate
  ru_slot :: string
  ru_prepared_at :: instant
  ru_intake_path :: string
  ru_intake_sha256 :: string
  ru_reasoning_run_id :: "string option"
  ru_occurrence_id :: "string option"
  ru_origin :: run_origin
  ru_trigger_ids :: "string list"

text \<open>\<open>bool(text)\<close> and \<open>text or ""\<close> of an optional string.\<close>

definition truthy :: "string option \<Rightarrow> bool" where
  "truthy s = (s \<notin> {None, Some []})"

definition text_or :: "string option \<Rightarrow> string \<Rightarrow> string" where
  "text_or s d = (if truthy s then the s else d)"

definition run_scope :: "RuntimeRun \<Rightarrow> (bool \<times> string) list" where
  "run_scope r =
    [(ru_origin r = OriginEvent \<and> ru_trigger_ids r = [], ''event runs require explicit trigger references''),
     (ru_origin r = OriginManual \<and> ru_trigger_ids r \<noteq> [], ''manual runs cannot claim event triggers''),
     ((ru_origin r = OriginScheduled) \<noteq> truthy (ru_occurrence_id r),
      ''scheduled origin requires an occurrence and other origins cannot reserve one''),
     (\<not> distinct (ru_trigger_ids r), ''duplicate trigger reference''),
     (\<exists>t\<in>set (ru_trigger_ids r). t = [] \<or> 200 < length t, ''invalid trigger reference''),
     (ru_mode r = LiveMode \<and> (ru_execution_profile_id r = [] \<or> \<not> truthy (ru_reasoning_run_id r)),
      ''live runtime requires profile and prepared reasoning run''),
     (ru_mode r = PaperMode \<and> (ru_account_id r \<noteq> ''paper'' \<or> ru_execution_profile_id r \<noteq> [] \<or>
        truthy (ru_reasoning_run_id r)),
      ''paper runtime requires the paper account without a live profile'')]"

definition run_errors :: "RuntimeRun \<Rightarrow> string list" where
  "run_errors r = model_errors
     (length_errors 1 200 ''run_id'' (ru_run_id r) @ length_errors 1 200 ''account_id'' (ru_account_id r) @
      length_errors 1 100 ''slot'' (ru_slot r) @ required_errors ''intake_path'' (ru_intake_path r) @
      error_if (length (ru_intake_sha256 r) \<noteq> 64 \<or> \<not> list_all hex_char (ru_intake_sha256 r))
        ''intake_sha256: string_pattern_mismatch'' @
      length_errors 0 30 ''trigger_ids'' (ru_trigger_ids r))
     (run_scope r)"

section \<open>Schedules\<close>

datatype schedule_mode = ScheduleManual | ScheduleScheduled

record ScheduleRevision =
  sc_schedule_id :: string
  sc_revision :: int
  sc_mode :: account_mode
  sc_account_id :: string
  sc_execution_profile_id :: string
  sc_configured_at :: instant
  sc_enabled :: bool
  sc_paused :: bool
  sc_schedule_mode :: schedule_mode
  sc_slot :: string
  sc_due_local :: daytime
  sc_early_close_due_local :: "daytime option"
  sc_grace_seconds :: int
  sc_observer_max_age_seconds :: int
  sc_task_name :: "string option"

definition local_times :: "ScheduleRevision \<Rightarrow> (bool \<times> string) list" where
  "local_times s =
    [(sc_mode s = LiveMode \<and> sc_execution_profile_id s = [], ''live schedule requires profile''),
     (sc_mode s = PaperMode \<and> (sc_account_id s \<noteq> ''paper'' \<or> sc_execution_profile_id s \<noteq> []),
      ''paper schedule requires the paper account'')]"

definition schedule_errors :: "ScheduleRevision \<Rightarrow> string list" where
  "schedule_errors s = model_errors
     (length_errors 1 100 ''schedule_id'' (sc_schedule_id s) @
      range_errors 1 (2 ^ 63 - 1) ''revision'' (of_int (sc_revision s)) @
      length_errors 1 200 ''account_id'' (sc_account_id s) @ length_errors 1 100 ''slot'' (sc_slot s) @
      range_errors 0 86400 ''grace_seconds'' (of_int (sc_grace_seconds s)) @
      range_errors 10 3600 ''observer_max_age_seconds'' (of_int (sc_observer_max_age_seconds s)) @
      optional_errors (length_errors 1 200 ''task_name'') (sc_task_name s))
     (local_times s)"

datatype observer = ObserverWorker | ObserverWindowsTask

record SchedulerObservation =
  so_schedule_id :: string
  so_revision :: int
  so_observed_at :: instant
  so_observer :: observer
  so_configured :: bool
  so_enabled :: bool
  so_next_run_at :: "instant option"

definition observation_model_errors :: "SchedulerObservation \<Rightarrow> string list" where
  "observation_model_errors o' = model_errors (error_if (so_revision o' < 1) ''revision: greater_than_equal'') []"

section \<open>Attempts\<close>

datatype attempt_status = AttemptRunning | AttemptCompleted | AttemptNoAction | AttemptFailed
  | AttemptBlocked | AttemptTimedOut | AttemptCanceled | AttemptExpired

datatype attempt_stage = StageStarting | StageAuthoring | StageValidating | StageSubmitting | StageFinished

record RuntimeAttempt =
  ra_attempt_id :: string
  ra_public_id :: string
  ra_run_id :: string
  ra_attempt_number :: int
  ra_fence :: int
  ra_status :: attempt_status
  ra_stage :: attempt_stage
  ra_model :: string
  ra_observed_model :: "string option"
  ra_started_at :: instant
  ra_heartbeat_at :: instant
  ra_finished_at :: "instant option"
  ra_reason :: "string option"
  ra_public_summary :: "string option"

section \<open>The runtime tables\<close>

record Lease =
  le_scope_key :: string
  le_fence :: int
  le_attempt_id :: "string option"
  le_expires_at :: "instant option"

datatype occurrence_status = OccurrenceWaiting | OccurrenceClaimed | OccurrenceSkipped

record Occurrence =
  oc_occurrence_id :: string
  oc_public_id :: string
  oc_schedule_id :: string
  oc_revision :: int
  oc_session_date :: pydate
  oc_due_at :: instant
  oc_status :: occurrence_status
  oc_reason :: "string option"
  oc_observed_at :: instant

record RunRow =
  rw_run :: RuntimeRun
  rw_public_id :: string

text \<open>
  The details of a trigger, one constructor per kind (\<open>app/triggers/evaluate.py\<close>): return, previous
  close and close; volume, average and multiple; event type and label; reason, handle and URL; due
  conditions, close, mode and declaring decision; the cause of an event review (\<open>app/reason/events.py\<close>).
\<close>

datatype trigger_details =
    PriceMove pyfloat pyfloat pyfloat
  | VolumeSpike int pyfloat pyfloat
  | CalendarUpcoming string string
  | DigestHeadline string string string
  | ShortRemovalDue "string list" "pyfloat option" ExecutionMode string
  | EventReviewCause string

datatype trigger_status = TriggerPending | TriggerConsumed | TriggerExpired

record TriggerEvent =
  te_trigger_id :: string
  te_trigger_type :: string
  te_subject :: string
  te_fired_at :: pydate
  te_status :: trigger_status
  te_details :: trigger_details

text \<open>
  The core tables, the runtime ones, the triggers and the column \<open>decision_records.runtime_attempt_id\<close>
  (an association from decisions; the column's default is the empty string).
\<close>

record runtime_db =
  rt_core :: core_db
  rt_triggers :: "TriggerEvent list"
  rt_runs :: "RunRow list"
  rt_attempts :: "RuntimeAttempt list"
  rt_leases :: "Lease list"
  rt_schedules :: "ScheduleRevision list"
  rt_observations :: "SchedulerObservation list"
  rt_occurrences :: "Occurrence list"
  rt_decision_attempts :: "(string \<times> string) list"

definition empty_runtime :: runtime_db where
  "empty_runtime = \<lparr>rt_core = empty_db, rt_triggers = [], rt_runs = [], rt_attempts = [], rt_leases = [],
     rt_schedules = [], rt_observations = [], rt_occurrences = [], rt_decision_attempts = []\<rparr>"

fun mode_name :: "account_mode \<Rightarrow> string" where
  "mode_name LiveMode = ''live''"
| "mode_name PaperMode = ''paper''"

definition scope_key :: "account_mode \<Rightarrow> string \<Rightarrow> string" where
  "scope_key mode account = mode_name mode @ ''/'' @ account"

lemma scope_key_eq [simp]: "scope_key m a = scope_key n b \<longleftrightarrow> m = n \<and> a = b"
  by (cases m; cases n) (auto simp: scope_key_def)

end
