(* ===== verification/Schedules.thy ===== *)
theory Schedules
  imports RuntimeSchemas Calendar
begin

text \<open>
  The schedule authority (\<open>app/storage/schedules.py\<close>): revisions, observations, occurrences and the
  guard of a scheduled claim. Every writing operation runs in one immediate transaction: a failed
  one returns no state. Aware datetimes compare as instants; a due time and its grace period lie
  between a weekday and the next day, so no change of the clocks falls between them.
\<close>

section \<open>Reading the schedule\<close>

definition latest_schedule :: "runtime_db \<Rightarrow> string \<Rightarrow> ScheduleRevision option" where
  "latest_schedule db i = greatest sc_revision (filter (\<lambda>s. sc_schedule_id s = i) (rt_schedules db))"

definition ny_hour :: "instant \<Rightarrow> int" where
  "ny_hour t = ny_wall t mod day_length div hour"

definition due_at :: "ScheduleRevision \<Rightarrow> pydate \<Rightarrow> instant option result" where
  "due_at schedule session = and_then (session_close session) (\<lambda>c. case c of
     None \<Rightarrow> Inr None
   | Some close \<Rightarrow>
       let local = (if ny_hour close = 13 then sc_early_close_due_local schedule
                    else Some (sc_due_local schedule))
       in Inr (map_option (ny_combine session) local))"

definition grace_end :: "ScheduleRevision \<Rightarrow> instant \<Rightarrow> instant" where
  "grace_end schedule due = due + sc_grace_seconds schedule * second"

definition observation_row :: "runtime_db \<Rightarrow> string \<Rightarrow> SchedulerObservation option" where
  "observation_row db i = find_row so_schedule_id i (rt_observations db)"

text \<open>
  \<open>total_seconds\<close> is a float, but an age of whole microseconds compares with a whole number of at
  most 3600 seconds as the exact quotient does.
\<close>

definition authority_reason :: "runtime_db \<Rightarrow> ScheduleRevision \<Rightarrow> instant \<Rightarrow> string option" where
  "authority_reason db schedule now =
    (if sc_paused schedule then Some ''paused''
     else if sc_schedule_mode schedule = ScheduleManual then Some ''manual''
     else if \<not> sc_enabled schedule then Some ''schedule_disabled''
     else (case observation_row db (sc_schedule_id schedule) of
       None \<Rightarrow> Some ''observer_missing''
     | Some o' \<Rightarrow>
         let age = now - so_observed_at o' in
         if so_revision o' \<noteq> sc_revision schedule \<or> age < 0 \<or>
             sc_observer_max_age_seconds schedule * second < age then Some ''observer_stale''
         else if \<not> so_configured o' \<or> \<not> so_enabled o' then Some ''observer_disabled''
         else None))"

definition occurrence_on :: "runtime_db \<Rightarrow> string \<Rightarrow> pydate \<Rightarrow> Occurrence option" where
  "occurrence_on db i day =
     find (\<lambda>oc. oc_schedule_id oc = i \<and> oc_session_date oc = day) (rt_occurrences db)"

section \<open>Revisions\<close>

text \<open>A new revision moves the occurrences that still wait to its own due time.\<close>

definition revise_occurrence :: "ScheduleRevision \<Rightarrow> Occurrence \<Rightarrow> Occurrence result" where
  "revise_occurrence r oc =
    (if oc_schedule_id oc = sc_schedule_id r \<and> oc_status oc = OccurrenceWaiting then
       and_then (due_at r (oc_session_date oc)) (\<lambda>due. Inr (oc\<lparr>
         oc_revision := sc_revision r,
         oc_due_at := (case due of Some d \<Rightarrow> d | None \<Rightarrow> oc_due_at oc),
         oc_status := (if due = None then OccurrenceSkipped else OccurrenceWaiting),
         oc_reason := Some (if due = None then ''schedule_ineligible''
           else if sc_paused r then ''paused'' else ''schedule_revised''),
         oc_observed_at := sc_configured_at r\<rparr>))
     else Inr oc)"

definition schedule_account :: "ScheduleRevision \<Rightarrow> account_mode \<times> string \<times> string" where
  "schedule_account s = (sc_mode s, sc_account_id s, sc_execution_profile_id s)"

definition revision_guard :: "ScheduleRevision \<Rightarrow> ScheduleRevision option \<Rightarrow> unit result" where
  "revision_guard r previous =
    (if sc_revision r \<noteq> (case previous of Some p \<Rightarrow> sc_revision p + 1 | None \<Rightarrow> 1)
       then Inl (ValueError ''schedule revision must follow the current revision'')
     else (case previous of None \<Rightarrow> Inr ()
       | Some p \<Rightarrow>
           if schedule_account p \<noteq> schedule_account r
             then Inl (ValueError ''schedule cannot change account identity'')
           else if sc_configured_at r < sc_configured_at p
             then Inl (ValueError ''schedule revision precedes its predecessor'')
           else Inr ()))"

definition save_schedule :: "ScheduleRevision \<Rightarrow> ExecutionProfile option \<Rightarrow> runtime_db \<Rightarrow> runtime_db result" where
  "save_schedule r profile db =
    (if sc_mode r = LiveMode \<and> (case profile of None \<Rightarrow> True
        | Some p \<Rightarrow> ep_execution_profile_id p \<noteq> sc_execution_profile_id r \<or>
            ep_broker_account_fingerprint p \<noteq> sc_account_id r)
       then Inl (ValueError ''schedule requires its account-bound execution profile'')
     else let previous = latest_schedule db (sc_schedule_id r) in
       if previous = Some r then Inr db
       else and_then (revision_guard r previous) (\<lambda>_.
         and_then (map_result (revise_occurrence r) (rt_occurrences db)) (\<lambda>occurrences.
           Inr (db\<lparr>rt_schedules := rt_schedules db @ [r], rt_occurrences := occurrences\<rparr>))))"

section \<open>Observations\<close>

definition observe :: "SchedulerObservation \<Rightarrow> runtime_db \<Rightarrow> runtime_db result" where
  "observe o' db = (case latest_schedule db (so_schedule_id o') of
     None \<Rightarrow> Inl (ValueError ''observer refers to a different schedule revision'')
   | Some s \<Rightarrow>
       if sc_revision s \<noteq> so_revision o'
         then Inl (ValueError ''observer refers to a different schedule revision'')
       else (case observation_row db (so_schedule_id o') of
           None \<Rightarrow> Inr (db\<lparr>rt_observations := rt_observations db @ [o']\<rparr>)
         | Some previous \<Rightarrow>
             if so_observed_at o' < so_observed_at previous
               then Inl (ValueError ''observer clock moved backwards'')
             else Inr (db\<lparr>rt_observations := map (\<lambda>q. if so_schedule_id q = so_schedule_id o' then o' else q)
               (rt_observations db)\<rparr>)))"

section \<open>Occurrences\<close>

text \<open>
  One day of \<open>record_due\<close>; \<open>ids\<close> are the fresh identifiers of a new occurrence. \<open>INSERT OR IGNORE\<close>
  keeps an existing row of the same schedule and session (or of the same identifier).
\<close>

definition insert_or_ignore :: "Occurrence \<Rightarrow> Occurrence list \<Rightarrow> Occurrence list" where
  "insert_or_ignore oc rows =
    (if \<exists>q\<in>set rows. oc_occurrence_id q = oc_occurrence_id oc \<or> oc_public_id q = oc_public_id oc \<or>
         (oc_schedule_id q = oc_schedule_id oc \<and> oc_session_date q = oc_session_date oc)
     then rows else rows @ [oc])"

definition expired_by :: "ScheduleRevision \<Rightarrow> instant \<Rightarrow> pydate \<Rightarrow> instant \<Rightarrow> bool" where
  "expired_by schedule due day now = (grace_end schedule due < now \<or> day < ny_date now)"

definition set_occurrence :: "string \<Rightarrow> (Occurrence \<Rightarrow> Occurrence) \<Rightarrow> runtime_db \<Rightarrow> runtime_db" where
  "set_occurrence i f db =
     db\<lparr>rt_occurrences := map (\<lambda>oc. if oc_occurrence_id oc = i then f oc else oc) (rt_occurrences db)\<rparr>"

definition record_day :: "(pydate \<Rightarrow> string \<times> string) \<Rightarrow> ScheduleRevision \<Rightarrow> instant \<Rightarrow> pydate \<Rightarrow>
    runtime_db \<times> string list \<Rightarrow> (runtime_db \<times> string list) result" where
  "record_day ids schedule now day = (\<lambda>(db, ready). and_then (due_at schedule day) (\<lambda>d. case d of
     None \<Rightarrow> Inr (db, ready)
   | Some due \<Rightarrow>
       if \<not> (sc_configured_at schedule \<le> due \<and> due \<le> now) then Inr (db, ready)
       else let expired = expired_by schedule due day now;
                fresh = \<lparr>oc_occurrence_id = fst (ids day), oc_public_id = snd (ids day),
                  oc_schedule_id = sc_schedule_id schedule, oc_revision = sc_revision schedule,
                  oc_session_date = day, oc_due_at = due,
                  oc_status = (if expired then OccurrenceSkipped else OccurrenceWaiting),
                  oc_reason = (if expired then Some ''grace_expired'' else None), oc_observed_at = now\<rparr>;
                db1 = db\<lparr>rt_occurrences := insert_or_ignore fresh (rt_occurrences db)\<rparr>
         in (case occurrence_on db1 (sc_schedule_id schedule) day of
               None \<Rightarrow> Inl TypeError
             | Some row \<Rightarrow>
                 if oc_status row \<noteq> OccurrenceWaiting then Inr (db1, ready)
                 else if expired then
                   Inr (set_occurrence (oc_occurrence_id row) (\<lambda>oc. oc\<lparr>oc_status := OccurrenceSkipped,
                     oc_reason := Some ''grace_expired'', oc_observed_at := now\<rparr>) db1, ready)
                 else Inr (db1, ready @ [oc_occurrence_id row]))))"

function record_days :: "(pydate \<Rightarrow> string \<times> string) \<Rightarrow> ScheduleRevision \<Rightarrow> instant \<Rightarrow> pydate \<Rightarrow>
    runtime_db \<times> string list \<Rightarrow> (runtime_db \<times> string list) result" where
  "record_days ids schedule now day s =
    (if day \<le> ny_date now then and_then (record_day ids schedule now day s)
       (record_days ids schedule now (day + 1)) else Inr s)"
  by pat_completeness auto
termination
  by (relation "measure (\<lambda>(_, _, now, day, _). nat (ny_date now + 1 - day))") auto

declare record_days.simps [simp del]

lemma record_days_step:
  "record_days ids s now day st = Inr st' \<longleftrightarrow> (if day \<le> ny_date now
     then \<exists>u. record_day ids s now day st = Inr u \<and> record_days ids s now (day + 1) u = Inr st' else st' = st)"
  by (subst record_days.simps) (auto simp: result_simps)

lemma record_days_invariant:
  assumes "record_days ids s now day st = Inr st'" and "P st"
    and "\<And>d a b. day \<le> d \<Longrightarrow> d \<le> ny_date now \<Longrightarrow> P a \<Longrightarrow> record_day ids s now d a = Inr b \<Longrightarrow> P b"
  shows "P st'"
  using assms
proof (induction ids s now day st rule: record_days.induct)
  case (1 ids s now day st)
  show ?case
  proof (cases "day \<le> ny_date now")
    case True
    with "1.prems"(1) obtain u where u: "record_day ids s now day st = Inr u"
      and r: "record_days ids s now (day + 1) u = Inr st'" unfolding record_days_step [of ids s now day] by auto
    have "P u" using "1.prems"(3) [OF order_refl True "1.prems"(2) u] .
    then show ?thesis by (rule "1.IH" [OF True r]) (rule "1.prems"(3), auto)
  next
    case False
    with "1.prems"(1,2) show ?thesis unfolding record_days_step [of ids s now day] by simp
  qed
qed

text \<open>ISO dates have the order of their days, so \<open>MAX(session_date)\<close> is the last day.\<close>

definition last_recorded :: "runtime_db \<Rightarrow> string \<Rightarrow> pydate option" where
  "last_recorded db i = map_option oc_session_date
     (greatest oc_session_date (filter (\<lambda>oc. oc_schedule_id oc = i) (rt_occurrences db)))"

definition record_due :: "(pydate \<Rightarrow> string \<times> string) \<Rightarrow> string \<Rightarrow> instant \<Rightarrow> runtime_db \<Rightarrow>
    (runtime_db \<times> string list) result" where
  "record_due ids i now db = (case latest_schedule db i of
     None \<Rightarrow> Inl (ValueError ''schedule not found'')
   | Some schedule \<Rightarrow>
       if authority_reason db schedule now \<noteq> None then Inr (db, [])
       else record_days ids schedule now
         (case last_recorded db i of Some d \<Rightarrow> d | None \<Rightarrow> ny_date (sc_configured_at schedule)) (db, []))"

section \<open>The guard of a claim\<close>

definition scope_schedules :: "runtime_db \<Rightarrow> string \<Rightarrow> ScheduleRevision list" where
  "scope_schedules db scope = filter (\<lambda>s. scope_key (sc_mode s) (sc_account_id s) = scope \<and>
     (\<forall>n\<in>set (rt_schedules db). sc_schedule_id n = sc_schedule_id s \<longrightarrow> sc_revision n \<le> sc_revision s))
     (rt_schedules db)"

definition run_scope_key :: "RuntimeRun \<Rightarrow> string" where
  "run_scope_key run = scope_key (ru_mode run) (ru_account_id run)"

definition occurrence_identity_matches :: "RuntimeRun \<Rightarrow> Occurrence \<Rightarrow> ScheduleRevision option \<Rightarrow> bool" where
  "occurrence_identity_matches run row schedule = (case schedule of None \<Rightarrow> False
   | Some s \<Rightarrow> \<not> (sc_revision s \<noteq> oc_revision row \<and> oc_status row \<noteq> OccurrenceClaimed) \<and>
       sc_mode s = ru_mode run \<and> sc_account_id s = ru_account_id run \<and>
       sc_execution_profile_id s = ru_execution_profile_id run \<and>
       ru_session_date run = oc_session_date row \<and> ru_slot run = sc_slot s)"

definition validate_claim :: "RuntimeRun \<Rightarrow> instant \<Rightarrow> bool \<Rightarrow> runtime_db \<Rightarrow> runtime_db result" where
  "validate_claim run now retry db =
    (if \<exists>s\<in>set (scope_schedules db (run_scope_key run)). sc_paused s then Inl (ValueError ''paused'')
     else if ru_origin run \<noteq> OriginScheduled then Inr db
     else (case ru_occurrence_id run of
         None \<Rightarrow> Inl (ValueError ''scheduled_run_requires_occurrence'')
       | Some i \<Rightarrow> (case find_row oc_occurrence_id i (rt_occurrences db) of
           None \<Rightarrow> Inl (ValueError ''scheduled_run_requires_occurrence'')
         | Some row \<Rightarrow>
           let found = latest_schedule db (oc_schedule_id row) in
           if \<not> occurrence_identity_matches run row found
             then Inl (ValueError ''schedule_occurrence_identity_mismatch'')
           else let schedule = the found in (case authority_reason db schedule now of
               Some reason \<Rightarrow> Inl (ValueError reason)
             | None \<Rightarrow> and_then (due_at schedule (ru_session_date run)) (\<lambda>d.
                 if d = None then Inl (ValueError ''occurrence_not_eligible'')
                 else if oc_status row \<notin> {OccurrenceWaiting, OccurrenceClaimed} \<or>
                     (\<not> (retry \<and> oc_status row = OccurrenceClaimed) \<and>
                      \<not> (oc_due_at row \<le> now \<and> now \<le> grace_end schedule (oc_due_at row)))
                   then Inl (ValueError ''occurrence_not_eligible'')
                 else Inr (set_occurrence i (\<lambda>oc. oc\<lparr>oc_status := OccurrenceClaimed,
                   oc_observed_at := now\<rparr>) db))))))"

section \<open>Previews\<close>

record schedule_preview =
  sp_schedule_mode :: schedule_mode
  sp_revision :: int
  sp_enabled :: bool
  sp_paused :: bool
  sp_next_due_at :: "instant option"
  sp_reason :: "string option"
  sp_as_of :: instant
  sp_observer_as_of :: "instant option"

definition may_become_due :: "runtime_db \<Rightarrow> ScheduleRevision \<Rightarrow> instant \<Rightarrow> pydate \<Rightarrow> instant option \<Rightarrow> bool" where
  "may_become_due db schedule now day due = (case due of None \<Rightarrow> False
   | Some t \<Rightarrow> sc_configured_at schedule \<le> t \<and> now \<le> grace_end schedule t \<and>
       (case occurrence_on db (sc_schedule_id schedule) day of None \<Rightarrow> True
        | Some oc \<Rightarrow> oc_status oc = OccurrenceWaiting))"

text \<open>The search of \<open>preview\<close>; \<open>CalendarCoverageError\<close> ends it like the end of the coverage.\<close>

function preview_days :: "runtime_db \<Rightarrow> ScheduleRevision \<Rightarrow> instant \<Rightarrow> pydate \<Rightarrow> instant option" where
  "preview_days db schedule now day =
    (if day \<le> COVERAGE_END then (case due_at schedule day of
         Inl _ \<Rightarrow> None
       | Inr due \<Rightarrow> if may_become_due db schedule now day due then due
           else preview_days db schedule now (day + 1))
     else None)"
  by pat_completeness auto
termination
  by (relation "measure (\<lambda>(_, _, _, day). nat (COVERAGE_END + 1 - day))") auto

declare preview_days.simps [simp del]

definition preview :: "runtime_db \<Rightarrow> ScheduleRevision \<Rightarrow> instant \<Rightarrow> schedule_preview" where
  "preview db schedule now =
    (let reason = authority_reason db schedule now; stale = (reason = Some ''observer_stale'');
         result = \<lparr>sp_schedule_mode = sc_schedule_mode schedule, sp_revision = sc_revision schedule,
           sp_enabled = sc_enabled schedule, sp_paused = sc_paused schedule, sp_next_due_at = None,
           sp_reason = reason, sp_as_of = now,
           sp_observer_as_of = map_option so_observed_at (observation_row db (sc_schedule_id schedule))\<rparr>
     in if reason \<noteq> None \<and> \<not> stale then result
        else (case preview_days db schedule now (ny_date now) of
            None \<Rightarrow> result\<lparr>sp_reason := Some ''calendar_out_of_coverage''\<rparr>
          | Some due \<Rightarrow> result\<lparr>sp_next_due_at := Some due,
              sp_reason := (if due \<le> now then Some (if stale then ''observer_stale'' else ''due'') else None)\<rparr>))"

function planned_days :: "ScheduleRevision \<Rightarrow> instant \<Rightarrow> nat \<Rightarrow> pydate \<Rightarrow> (pydate \<times> instant) list result" where
  "planned_days schedule now missing day =
    (if day \<le> COVERAGE_END \<and> 0 < missing then and_then (due_at schedule day) (\<lambda>due. case due of
         Some t \<Rightarrow> if now \<le> t
           then and_then (planned_days schedule now (missing - 1) (day + 1)) (\<lambda>items. Inr ((day, t) # items))
           else planned_days schedule now missing (day + 1)
       | None \<Rightarrow> planned_days schedule now missing (day + 1))
     else Inr [])"
  by pat_completeness auto
termination
  by (relation "measure (\<lambda>(_, _, _, day). nat (COVERAGE_END + 1 - day))") auto

declare planned_days.simps [simp del]

definition planned_preview :: "ScheduleRevision \<Rightarrow> instant \<Rightarrow> int \<Rightarrow> (pydate \<times> instant) list result" where
  "planned_preview schedule now limit =
    (if \<not> (1 \<le> limit \<and> limit \<le> 100) then Inl (ValueError ''preview limit must be 1 through 100'')
     else planned_days schedule now (nat limit) (ny_date now))"

end
