(* ===== verification/Leases.thy ===== *)
theory Leases
  imports Schedules
begin

text \<open>
  Runtime runs and their leases (\<open>app/storage/runtime.py\<close>). One account scope has one lease: a fence
  that grows with every claim and the attempt that holds it. Every operation is one immediate
  transaction, so a failed one leaves the state it found; identifiers from \<open>uuid4\<close> are arguments.
\<close>

section \<open>Runs\<close>

text \<open>The intake file at a path: its size and SHA-256, or \<open>None\<close> when there is no such file.\<close>

type_synonym intake_files = "string \<Rightarrow> (int \<times> string) option"

definition live_run_guard :: "RuntimeRun \<Rightarrow> core_db \<Rightarrow> unit result" where
  "live_run_guard run core = (case get_reasoning_run core (text_or (ru_reasoning_run_id run) []) of
     None \<Rightarrow> Inl (ValueError ''runtime run does not match prepared reasoning identity'')
   | Some legacy \<Rightarrow>
       if rr_execution_profile_id legacy \<noteq> ru_execution_profile_id run \<or>
           rr_session_date legacy \<noteq> ru_session_date run \<or> rr_slot legacy \<noteq> ru_slot run
         then Inl (ValueError ''runtime run does not match prepared reasoning identity'')
       else (case get_live_portfolio_snapshot core (rr_portfolio_snapshot_id legacy) of
           None \<Rightarrow> Inl (ValueError ''runtime account does not match prepared snapshot'')
         | Some snap \<Rightarrow> require (ls_broker_account_fingerprint snap = ru_account_id run)
             (ValueError ''runtime account does not match prepared snapshot'')))"

definition prepared :: "core_db \<Rightarrow> string \<Rightarrow> bool" where
  "prepared core i = (case get_reasoning_run core i of None \<Rightarrow> False | Some r \<Rightarrow> rr_result r = PREPARED)"

definition find_run :: "runtime_db \<Rightarrow> string \<Rightarrow> RunRow option" where
  "find_run db i = find_row (\<lambda>w. ru_run_id (rw_run w)) i (rt_runs db)"

definition run_clash :: "RunRow \<Rightarrow> RunRow \<Rightarrow> bool" where
  "run_clash w q = (rw_public_id w = rw_public_id q \<or>
     (ru_occurrence_id (rw_run w) \<noteq> None \<and> ru_occurrence_id (rw_run w) = ru_occurrence_id (rw_run q)) \<or>
     (ru_reasoning_run_id (rw_run w) \<noteq> None \<and> ru_reasoning_run_id (rw_run w) = ru_reasoning_run_id (rw_run q)))"

definition save_run :: "intake_files \<Rightarrow> RuntimeRun \<Rightarrow> string \<Rightarrow> runtime_db \<Rightarrow> (runtime_db \<times> string) result" where
  "save_run files run public_id db = and_then (is_session (ru_session_date run)) (\<lambda>eligible.
     if \<not> eligible \<and> ru_origin run = OriginScheduled
       then Inl (ValueError ''reasoning run requires an eligible session'')
     else if ny_date (ru_prepared_at run) \<noteq> ru_session_date run
       then Inl (ValueError ''prepared run session does not match local preparation day'')
     else (case files (ru_intake_path run) of None \<Rightarrow> Inl FileNotFoundError | Some (bytes, sha256) \<Rightarrow>
       if 512000 < bytes then Inl (ValueError ''intake_too_large'')
       else if sha256 \<noteq> ru_intake_sha256 run then Inl (ValueError ''prepared intake hash mismatch'')
       else if \<exists>t\<in>set (ru_trigger_ids run). find_row te_trigger_id t (rt_triggers db) = None
         then Inl (ValueError ''event run references an unknown trigger'')
       else and_then (if ru_mode run = LiveMode then live_run_guard run (rt_core db) else Inr ()) (\<lambda>_.
         case find_run db (ru_run_id run) of
           Some existing \<Rightarrow> if rw_run existing \<noteq> run then Inl (ValueError ''runtime run is immutable'')
             else Inr (db, rw_public_id existing)
         | None \<Rightarrow>
             if truthy (ru_reasoning_run_id run) \<and> \<not> prepared (rt_core db) (the (ru_reasoning_run_id run))
               then Inl (ValueError ''completed manual run cannot be wrapped as a new runtime run'')
             else let row = \<lparr>rw_run = run, rw_public_id = public_id\<rparr> in
               if \<exists>q\<in>set (rt_runs db). run_clash row q then Inl IntegrityError
               else Inr (db\<lparr>rt_runs := rt_runs db @ [row]\<rparr>, public_id))))"

definition get_run :: "runtime_db \<Rightarrow> string \<Rightarrow> RuntimeRun result" where
  "get_run db i = (case find_run db i of None \<Rightarrow> Inl (ValueError ''runtime run not found'')
     | Some w \<Rightarrow> Inr (rw_run w))"

definition get_attempt :: "runtime_db \<Rightarrow> string \<Rightarrow> RuntimeAttempt result" where
  "get_attempt db i = (case find_row ra_attempt_id i (rt_attempts db) of
     None \<Rightarrow> Inl (ValueError ''runtime attempt not found'') | Some a \<Rightarrow> Inr a)"

section \<open>Expiry and fences\<close>

definition set_attempt :: "string \<Rightarrow> (RuntimeAttempt \<Rightarrow> RuntimeAttempt) \<Rightarrow> runtime_db \<Rightarrow> runtime_db" where
  "set_attempt i f db =
     db\<lparr>rt_attempts := map (\<lambda>a. if ra_attempt_id a = i then f a else a) (rt_attempts db)\<rparr>"

definition release_lease :: "string \<Rightarrow> runtime_db \<Rightarrow> runtime_db" where
  "release_lease i db = db\<lparr>rt_leases := map (\<lambda>l. if le_attempt_id l = Some i
     then l\<lparr>le_attempt_id := None, le_expires_at := None\<rparr> else l) (rt_leases db)\<rparr>"

definition lease_expired :: "instant \<Rightarrow> Lease \<Rightarrow> bool" where
  "lease_expired now l = (le_attempt_id l \<noteq> None \<and>
     (case le_expires_at l of None \<Rightarrow> False | Some t \<Rightarrow> julianday t \<le> julianday now))"

definition expired_attempts :: "instant \<Rightarrow> runtime_db \<Rightarrow> string list" where
  "expired_attempts now db = map (\<lambda>l. the (le_attempt_id l)) (filter (lease_expired now) (rt_leases db))"

definition mark_expired :: "instant \<Rightarrow> RuntimeAttempt \<Rightarrow> RuntimeAttempt" where
  "mark_expired now a = (if ra_status a = AttemptRunning
     then a\<lparr>ra_status := AttemptExpired, ra_stage := StageFinished, ra_finished_at := Some now,
       ra_reason := Some ''lease_expired''\<rparr> else a)"

definition expire_attempt :: "instant \<Rightarrow> string \<Rightarrow> runtime_db \<Rightarrow> runtime_db" where
  "expire_attempt now i db = release_lease i (set_attempt i (mark_expired now) db)"

definition expire :: "instant \<Rightarrow> runtime_db \<Rightarrow> runtime_db \<times> int" where
  "expire now db = (let rows = expired_attempts now db in
     (fold (expire_attempt now) rows db, int (length rows)))"

definition validate_fence :: "runtime_db \<Rightarrow> string \<Rightarrow> int \<Rightarrow> instant \<Rightarrow> RuntimeAttempt result" where
  "validate_fence db i fence now = and_then (get_attempt db i) (\<lambda>attempt.
     if ra_status attempt \<noteq> AttemptRunning \<or> ra_fence attempt \<noteq> fence then Inl LeaseLost
     else (case find_row le_attempt_id (Some i) (rt_leases db) of
         None \<Rightarrow> Inl LeaseLost
       | Some l \<Rightarrow> if le_fence l \<noteq> fence then Inl LeaseLost
           else (case le_expires_at l of None \<Rightarrow> Inl TypeError
             | Some t \<Rightarrow> if t \<le> now then Inl LeaseLost else Inr attempt)))"

section \<open>Claims\<close>

definition latest_attempt :: "runtime_db \<Rightarrow> string \<Rightarrow> RuntimeAttempt option" where
  "latest_attempt db i = greatest ra_attempt_number (filter (\<lambda>a. ra_run_id a = i) (rt_attempts db))"

definition ensure_lease :: "string \<Rightarrow> runtime_db \<Rightarrow> runtime_db" where
  "ensure_lease scope db = (if scope \<in> le_scope_key ` set (rt_leases db) then db
     else db\<lparr>rt_leases := rt_leases db @
       [\<lparr>le_scope_key = scope, le_fence = 0, le_attempt_id = None, le_expires_at = None\<rparr>]\<rparr>)"

definition hold_lease :: "string \<Rightarrow> RuntimeAttempt \<Rightarrow> instant \<Rightarrow> runtime_db \<Rightarrow> runtime_db" where
  "hold_lease scope attempt expires db = db\<lparr>rt_leases := map (\<lambda>l. if le_scope_key l = scope
     then l\<lparr>le_fence := ra_fence attempt, le_attempt_id := Some (ra_attempt_id attempt),
       le_expires_at := Some expires\<rparr> else l) (rt_leases db)\<rparr>"

definition attempt_guard :: "RuntimeRun \<Rightarrow> RuntimeAttempt option \<Rightarrow> bool \<Rightarrow> core_db \<Rightarrow> unit result" where
  "attempt_guard run prior retry core =
    (if prior = None \<and> truthy (ru_reasoning_run_id run) \<and>
         \<not> prepared core (the (ru_reasoning_run_id run))
       then Inl (ValueError ''prepared reasoning run already completed manually'')
     else if (case prior of None \<Rightarrow> False
         | Some p \<Rightarrow> \<not> retry \<or> ra_status p \<in> {AttemptCompleted, AttemptNoAction})
       then Inl (ValueError ''explicit_retry_required_or_run_complete'')
     else if retry \<and> prior = None then Inl (ValueError ''retry_requires_prior_attempt'')
     else Inr ())"

definition start_attempt :: "RuntimeRun \<Rightarrow> string \<Rightarrow> instant \<Rightarrow> bool \<Rightarrow> int \<Rightarrow> string \<times> string \<Rightarrow>
    runtime_db \<Rightarrow> (runtime_db \<times> RuntimeAttempt) result" where
  "start_attempt run model now retry lease_seconds ids db =
    (let scope = run_scope_key run; db1 = ensure_lease scope db in
     case find_row le_scope_key scope (rt_leases db1) of
       None \<Rightarrow> Inl TypeError
     | Some lease \<Rightarrow>
         if le_attempt_id lease \<noteq> None then Inl (ValueError ''overlap'')
         else let prior = latest_attempt db1 (ru_run_id run) in
           and_then (attempt_guard run prior retry (rt_core db1)) (\<lambda>_.
           let attempt = \<lparr>ra_attempt_id = fst ids, ra_public_id = snd ids, ra_run_id = ru_run_id run,
                 ra_attempt_number = (case prior of None \<Rightarrow> 1 | Some p \<Rightarrow> ra_attempt_number p + 1),
                 ra_fence = le_fence lease + 1, ra_status = AttemptRunning, ra_stage = StageStarting,
                 ra_model = model, ra_observed_model = None, ra_started_at = now, ra_heartbeat_at = now,
                 ra_finished_at = None, ra_reason = None, ra_public_summary = None\<rparr>
           in if \<exists>a\<in>set (rt_attempts db1). ra_attempt_id a = fst ids \<or> ra_public_id a = snd ids
                then Inl IntegrityError
              else Inr (hold_lease scope attempt (now + lease_seconds * second)
                (db1\<lparr>rt_attempts := rt_attempts db1 @ [attempt]\<rparr>), attempt)))"

definition claim :: "string \<Rightarrow> string \<Rightarrow> instant \<Rightarrow> bool \<Rightarrow> int \<Rightarrow> string \<times> string \<Rightarrow> runtime_db \<Rightarrow>
    (runtime_db \<times> RuntimeAttempt) result" where
  "claim run_id model now retry lease_seconds ids db =
    (if blank model \<or> \<not> (10 \<le> lease_seconds \<and> lease_seconds \<le> 3600)
       then Inl (ValueError ''claim requires model and a lease between 10 and 3600 seconds'')
     else let db1 = fst (expire now db) in
       and_then (get_run db1 run_id) (\<lambda>run.
       and_then (validate_claim run now retry db1) (\<lambda>db2.
       if now < ru_prepared_at run then Inl (ValueError ''claim precedes preparation'')
       else if ru_session_date run \<noteq> ny_date now then Inl (ValueError ''prepared_session_stale'')
       else start_attempt run model now retry lease_seconds ids db2)))"

section \<open>Heartbeats\<close>

definition heartbeat :: "string \<Rightarrow> int \<Rightarrow> instant \<Rightarrow> attempt_stage option \<Rightarrow> int \<Rightarrow> runtime_db \<Rightarrow>
    (runtime_db \<times> RuntimeAttempt) result" where
  "heartbeat i fence now stage lease_seconds db =
    (if stage = Some StageFinished \<or> \<not> (10 \<le> lease_seconds \<and> lease_seconds \<le> 3600)
       then Inl (ValueError ''invalid heartbeat stage or lease duration'')
     else and_then (validate_fence db i fence now) (\<lambda>attempt.
       if now < ra_heartbeat_at attempt then Inl (ValueError ''heartbeat clock moved backwards'')
       else let db1 = set_attempt i (\<lambda>a. a\<lparr>ra_heartbeat_at := now,
                  ra_stage := (case stage of None \<Rightarrow> ra_stage attempt | Some s \<Rightarrow> s)\<rparr>) db;
                db2 = db1\<lparr>rt_leases := map (\<lambda>l. if le_attempt_id l = Some i
                  then l\<lparr>le_expires_at := Some (now + lease_seconds * second)\<rparr> else l) (rt_leases db1)\<rparr>
         in and_then (get_attempt db2 i) (\<lambda>a. Inr (db2, a))))"

section \<open>Completion\<close>

definition allowed_reasons :: "string list" where
  "allowed_reasons = [''intake_missing'', ''intake_changed'', ''intake_too_large'', ''runner_timeout'',
     ''runner_failed'', ''subprocess_pipe_cleanup_failed'', ''operator_canceled'', ''invalid_output'',
     ''insufficient_research'', ''submission_blocked'', ''snapshot_stale'', ''regime_missing'',
     ''regime_stale'', ''calendar_out_of_coverage'', ''dependency_missing'']"

definition run_decision_ids :: "core_db \<Rightarrow> string \<Rightarrow> string list" where
  "run_decision_ids core i =
     sort (map rl_decision_id (filter (\<lambda>l. rl_reasoning_run_id l = i) (reasoning_run_decisions core)))"

definition completed_run :: "ReasoningRun \<Rightarrow> string list \<Rightarrow> attempt_status \<Rightarrow> instant \<Rightarrow> string option \<Rightarrow>
    ReasoningRun" where
  "completed_run legacy decisions status now summary_text = legacy\<lparr>
     rr_result := (if status \<in> {AttemptCompleted, AttemptNoAction}
       then (if decisions \<noteq> [] then DECISIONS_AUTHORED else NO_ACTION) else RUN_FAILED),
     rr_completed_at := Some now, rr_decision_ids := decisions,
     rr_public_summary := text_or summary_text ''The reasoning attempt ended before completion.''\<rparr>"

definition finish_reasoning_run :: "RuntimeRun \<Rightarrow> attempt_status \<Rightarrow> instant \<Rightarrow> string option \<Rightarrow> core_db \<Rightarrow>
    core_db result" where
  "finish_reasoning_run run status now summary_text core =
    (if \<not> truthy (ru_reasoning_run_id run) then Inr core
     else (case get_reasoning_run core (the (ru_reasoning_run_id run)) of
         None \<Rightarrow> Inr core
       | Some legacy \<Rightarrow>
           if rr_result legacy \<noteq> PREPARED then Inr core
           else let done = completed_run legacy (run_decision_ids core (the (ru_reasoning_run_id run)))
                  status now summary_text;
                errors = reasoning_run_errors done
             in if errors \<noteq> [] then Inl (ValidationError errors)
                else and_then (complete_reasoning_run done core) (\<lambda>p. Inr (fst p))))"

definition terminal_statuses :: "attempt_status set" where
  "terminal_statuses = {AttemptCompleted, AttemptNoAction, AttemptFailed, AttemptBlocked, AttemptTimedOut,
     AttemptCanceled}"

definition attributed_decisions :: "runtime_db \<Rightarrow> string \<Rightarrow> (string \<times> string) list" where
  "attributed_decisions db i = filter (\<lambda>p. snd p = i) (rt_decision_attempts db)"

definition finish :: "string \<Rightarrow> int \<Rightarrow> instant \<Rightarrow> attempt_status \<Rightarrow> string option \<Rightarrow> string option \<Rightarrow>
    runtime_db \<Rightarrow> (runtime_db \<times> RuntimeAttempt) result" where
  "finish i fence now status reason summary_text db =
    (if status \<notin> terminal_statuses then Inl (ValueError ''invalid terminal status'')
     else if (case reason of None \<Rightarrow> False | Some r \<Rightarrow> r \<notin> set allowed_reasons) \<or>
         (case summary_text of None \<Rightarrow> False | Some s \<Rightarrow> 4000 < length s)
       then Inl (ValueError ''invalid public completion metadata'')
     else and_then (validate_fence db i fence now) (\<lambda>attempt.
       if now < ra_heartbeat_at attempt then Inl (ValueError ''completion clock moved backwards'')
       else if status = AttemptNoAction \<and> attributed_decisions db i \<noteq> []
         then Inl (ValueError ''no-action attempt has saved decisions'')
       else and_then (get_run db (ra_run_id attempt)) (\<lambda>run.
         and_then (finish_reasoning_run run status now summary_text (rt_core db)) (\<lambda>core.
         let db1 = release_lease i (set_attempt i (\<lambda>a. a\<lparr>ra_status := status, ra_stage := StageFinished,
               ra_finished_at := Some now, ra_reason := reason, ra_public_summary := summary_text\<rparr>)
               (db\<lparr>rt_core := core\<rparr>))
         in and_then (get_attempt db1 i) (\<lambda>a. Inr (db1, a))))))"

end
