(* ===== verification/LeaseInvariant.thy ===== *)
theory LeaseInvariant
  imports Leases
begin

text \<open>
  The lease protocol of \<open>app/storage/runtime.py\<close>: what every operation keeps of the lease tables, the
  fenced lock they implement, and the states the runtime can reach.
\<close>

section \<open>The invariant\<close>

definition attempt_scope :: "runtime_db \<Rightarrow> RuntimeAttempt \<Rightarrow> string option" where
  "attempt_scope db a = map_option (\<lambda>w. run_scope_key (rw_run w)) (find_run db (ra_run_id a))"

definition tables_keyed :: "runtime_db \<Rightarrow> bool" where
  "tables_keyed db = (distinct (map le_scope_key (rt_leases db)) \<and> distinct (map ra_attempt_id (rt_attempts db)))"

definition fences_bounded :: "runtime_db \<Rightarrow> bool" where
  "fences_bounded db = (\<forall>a\<in>set (rt_attempts db). \<exists>l\<in>set (rt_leases db).
     attempt_scope db a = Some (le_scope_key l) \<and> ra_fence a \<le> le_fence l)"

definition holders_running :: "runtime_db \<Rightarrow> bool" where
  "holders_running db = (\<forall>l\<in>set (rt_leases db). \<forall>i. le_attempt_id l = Some i \<longrightarrow> le_expires_at l \<noteq> None \<and>
     (\<exists>a\<in>set (rt_attempts db). ra_attempt_id a = i \<and> ra_status a = AttemptRunning \<and>
        ra_fence a = le_fence l \<and> attempt_scope db a = Some (le_scope_key l)))"

definition running_held :: "runtime_db \<Rightarrow> bool" where
  "running_held db = (\<forall>a\<in>set (rt_attempts db). ra_status a = AttemptRunning \<longrightarrow>
     (\<exists>l\<in>set (rt_leases db). le_attempt_id l = Some (ra_attempt_id a) \<and>
        attempt_scope db a = Some (le_scope_key l)))"

definition fences_unique :: "runtime_db \<Rightarrow> bool" where
  "fences_unique db = (\<forall>a\<in>set (rt_attempts db). \<forall>b\<in>set (rt_attempts db).
     attempt_scope db a = attempt_scope db b \<and> ra_fence a = ra_fence b \<longrightarrow> ra_attempt_id a = ra_attempt_id b)"

definition leases_ok :: "runtime_db \<Rightarrow> bool" where
  "leases_ok db = (tables_keyed db \<and> fences_bounded db \<and> holders_running db \<and> running_held db \<and>
     fences_unique db)"

lemmas leases_ok_defs = leases_ok_def tables_keyed_def fences_bounded_def holders_running_def
  running_held_def fences_unique_def

lemma leases_ok_empty: "leases_ok empty_runtime"
  by (simp add: leases_ok_defs empty_runtime_def)

text \<open>The lease tables and runs decide the invariant.\<close>

definition same_leases :: "runtime_db \<Rightarrow> runtime_db \<Rightarrow> bool" where
  "same_leases db db' = (rt_runs db' = rt_runs db \<and> rt_attempts db' = rt_attempts db \<and>
     rt_leases db' = rt_leases db)"

lemma same_leases_refl [simp]: "same_leases db db"
  by (simp add: same_leases_def)

lemma same_leases_scope: "same_leases db db' \<Longrightarrow> attempt_scope db' = attempt_scope db"
  by (auto simp: same_leases_def attempt_scope_def find_run_def fun_eq_iff)

lemma same_leases_ok: "same_leases db db' \<Longrightarrow> leases_ok db' = leases_ok db"
  using same_leases_scope [of db db'] by (simp add: leases_ok_defs same_leases_def)

section \<open>Ending and renewing attempts\<close>

definition keeps_identity :: "(RuntimeAttempt \<Rightarrow> RuntimeAttempt) \<Rightarrow> bool" where
  "keeps_identity f = (\<forall>a. ra_attempt_id (f a) = ra_attempt_id a \<and> ra_run_id (f a) = ra_run_id a \<and>
     ra_fence (f a) = ra_fence a \<and> ra_attempt_number (f a) = ra_attempt_number a)"

lemma set_attempt_fields [simp]:
  "rt_attempts (set_attempt i f db) = map (\<lambda>a. if ra_attempt_id a = i then f a else a) (rt_attempts db)"
  "rt_leases (set_attempt i f db) = rt_leases db" "rt_runs (set_attempt i f db) = rt_runs db"
  "rt_core (set_attempt i f db) = rt_core db" "rt_occurrences (set_attempt i f db) = rt_occurrences db"
  "rt_schedules (set_attempt i f db) = rt_schedules db"
  "rt_observations (set_attempt i f db) = rt_observations db"
  by (simp_all add: set_attempt_def)

lemma release_lease_fields [simp]:
  "rt_leases (release_lease i db) = map (\<lambda>l. if le_attempt_id l = Some i
     then l\<lparr>le_attempt_id := None, le_expires_at := None\<rparr> else l) (rt_leases db)"
  "rt_attempts (release_lease i db) = rt_attempts db" "rt_runs (release_lease i db) = rt_runs db"
  "rt_core (release_lease i db) = rt_core db" "rt_occurrences (release_lease i db) = rt_occurrences db"
  "rt_schedules (release_lease i db) = rt_schedules db"
  "rt_observations (release_lease i db) = rt_observations db"
  by (simp_all add: release_lease_def)

lemma attempt_scope_simps [simp]:
  "attempt_scope (set_attempt i f db) = attempt_scope db"
  "attempt_scope (release_lease i db) = attempt_scope db"
  by (simp_all add: attempt_scope_def find_run_def fun_eq_iff)

lemma keeps_identity_scope: "keeps_identity f \<Longrightarrow> attempt_scope db (f a) = attempt_scope db a"
  by (simp add: keeps_identity_def attempt_scope_def)

lemma keyed_map:
  "keeps_identity f \<Longrightarrow> map ra_attempt_id (map (\<lambda>a. if ra_attempt_id a = i then f a else a) as) = map ra_attempt_id as"
  by (simp add: keeps_identity_def)

lemma release_keys:
  "map le_scope_key (map (\<lambda>l. if le_attempt_id l = Some i
     then l\<lparr>le_attempt_id := None, le_expires_at := None\<rparr> else l) ls) = map le_scope_key ls"
  by simp

lemma set_attempt_preimage:
  assumes "keeps_identity f" and "a \<in> set (map (\<lambda>a. if ra_attempt_id a = i then f a else a) as)"
  obtains b where "b \<in> set as" "ra_attempt_id a = ra_attempt_id b" "ra_fence a = ra_fence b"
    "attempt_scope db a = attempt_scope db b" "a = (if ra_attempt_id b = i then f b else b)"
proof -
  from assms(2) obtain b where b: "b \<in> set as" "a = (if ra_attempt_id b = i then f b else b)" by auto
  with assms(1) show thesis by (intro that [of b]) (auto simp: keeps_identity_def attempt_scope_def)
qed

text \<open>The parts of the invariant that speak of identities only.\<close>

lemma identities_ok:
  assumes ok: "leases_ok db" and f: "keeps_identity f"
    and as: "rt_attempts db' = map (\<lambda>a. if ra_attempt_id a = i then f a else a) (rt_attempts db)"
    and keys: "map le_scope_key (rt_leases db') = map le_scope_key (rt_leases db)"
    and fences: "map le_fence (rt_leases db') = map le_fence (rt_leases db)"
    and sc: "attempt_scope db' = attempt_scope db"
  shows "tables_keyed db'" and "fences_bounded db'" and "fences_unique db'"
proof -
  show "tables_keyed db'"
    using ok keys unfolding leases_ok_def tables_keyed_def as keyed_map [OF f] by simp
  show "fences_bounded db'"
  proof (unfold fences_bounded_def as, intro ballI)
    fix a assume "a \<in> set (map (\<lambda>a. if ra_attempt_id a = i then f a else a) (rt_attempts db))"
    then obtain b where b: "b \<in> set (rt_attempts db)" "ra_fence a = ra_fence b"
      "attempt_scope db a = attempt_scope db b" by (rule set_attempt_preimage [OF f])
    with ok obtain l where l: "l \<in> set (rt_leases db)" "attempt_scope db b = Some (le_scope_key l)"
      "ra_fence b \<le> le_fence l" unfolding leases_ok_def fences_bounded_def by blast
    then obtain n where n: "n < length (rt_leases db)" "rt_leases db ! n = l" by (auto simp: in_set_conv_nth)
    have len: "length (rt_leases db') = length (rt_leases db)" using keys by (metis length_map)
    have "le_scope_key (rt_leases db' ! n) = le_scope_key l" "le_fence (rt_leases db' ! n) = le_fence l"
      using n len keys fences by (metis nth_map)+
    with b l n len show "\<exists>l\<in>set (rt_leases db'). attempt_scope db' a = Some (le_scope_key l) \<and> ra_fence a \<le> le_fence l"
      unfolding sc by (intro bexI [of _ "rt_leases db' ! n"]) auto
  qed
  show "fences_unique db'"
  proof (unfold fences_unique_def as, intro ballI impI)
    fix a b assume a: "a \<in> set (map (\<lambda>a. if ra_attempt_id a = i then f a else a) (rt_attempts db))"
      and b: "b \<in> set (map (\<lambda>a. if ra_attempt_id a = i then f a else a) (rt_attempts db))"
      and e: "attempt_scope db' a = attempt_scope db' b \<and> ra_fence a = ra_fence b"
    from f a obtain a' where "a' \<in> set (rt_attempts db)" "ra_attempt_id a = ra_attempt_id a'"
      "ra_fence a = ra_fence a'" "attempt_scope db a = attempt_scope db a'" by (rule set_attempt_preimage)
    moreover from f b obtain b' where "b' \<in> set (rt_attempts db)" "ra_attempt_id b = ra_attempt_id b'"
      "ra_fence b = ra_fence b'" "attempt_scope db b = attempt_scope db b'" by (rule set_attempt_preimage)
    moreover note e
    ultimately show "ra_attempt_id a = ra_attempt_id b"
      using ok unfolding sc leases_ok_def fences_unique_def by metis
  qed
qed

lemma end_attempt_ok:
  assumes ok: "leases_ok db" and f: "keeps_identity f" and ends: "\<And>a. ra_status (f a) \<noteq> AttemptRunning"
  shows "leases_ok (release_lease i (set_attempt i f db))"
proof -
  let ?db = "release_lease i (set_attempt i f db)"
  have "tables_keyed ?db \<and> fences_bounded ?db \<and> fences_unique ?db"
    using identities_ok [OF ok f, of ?db i] by simp
  moreover have "holders_running ?db"
  proof (unfold holders_running_def, intro ballI allI impI)
    fix l j assume l: "l \<in> set (rt_leases ?db)" and j: "le_attempt_id l = Some j"
    then have "l \<in> set (rt_leases db)" and ne: "j \<noteq> i" by (auto split: if_splits)
    with ok j obtain a where "le_expires_at l \<noteq> None" and a: "a \<in> set (rt_attempts db)" "ra_attempt_id a = j"
      "ra_status a = AttemptRunning" "ra_fence a = le_fence l" "attempt_scope db a = Some (le_scope_key l)"
      unfolding leases_ok_def holders_running_def by blast
    moreover have "a \<in> set (rt_attempts ?db)" using a ne by force
    ultimately show "le_expires_at l \<noteq> None \<and> (\<exists>a\<in>set (rt_attempts ?db). ra_attempt_id a = j \<and>
        ra_status a = AttemptRunning \<and> ra_fence a = le_fence l \<and>
        attempt_scope ?db a = Some (le_scope_key l))" by auto
  qed
  moreover have "running_held ?db"
  proof (unfold running_held_def, intro ballI impI)
    fix a assume a: "a \<in> set (rt_attempts ?db)" and r: "ra_status a = AttemptRunning"
    then have "a \<in> set (rt_attempts db)" and ne: "ra_attempt_id a \<noteq> i"
      using ends by (auto split: if_splits)
    with ok r obtain l where "l \<in> set (rt_leases db)" "le_attempt_id l = Some (ra_attempt_id a)"
      "attempt_scope db a = Some (le_scope_key l)"
      unfolding leases_ok_def running_held_def by blast
    with ne show "\<exists>l\<in>set (rt_leases ?db). le_attempt_id l = Some (ra_attempt_id a) \<and>
        attempt_scope ?db a = Some (le_scope_key l)" by force
  qed
  ultimately show ?thesis by (simp add: leases_ok_def)
qed

lemma renew_ok:
  assumes ok: "leases_ok db" and f: "keeps_identity f" and st: "\<And>a. ra_status (f a) = ra_status a"
    and ls: "ls = map (\<lambda>l. if le_attempt_id l = Some i then l\<lparr>le_expires_at := Some t\<rparr> else l) (rt_leases db)"
  shows "leases_ok ((set_attempt i f db)\<lparr>rt_leases := ls\<rparr>)"
proof -
  note id = f [unfolded keeps_identity_def, rule_format]
  let ?db = "(set_attempt i f db)\<lparr>rt_leases := ls\<rparr>"
  have sc: "attempt_scope ?db = attempt_scope db"
    by (simp add: attempt_scope_def find_run_def fun_eq_iff)
  note sf = keeps_identity_scope [OF f, of db]
  have "tables_keyed ?db \<and> fences_bounded ?db \<and> fences_unique ?db"
    using identities_ok [OF ok f, of ?db i] sc ls by simp
  moreover have "holders_running ?db"
  proof (unfold holders_running_def, intro ballI allI impI)
    fix l j assume "l \<in> set (rt_leases ?db)" and j: "le_attempt_id l = Some j"
    then obtain k where k: "k \<in> set (rt_leases db)" "le_scope_key l = le_scope_key k" "le_fence l = le_fence k"
      "le_attempt_id k = Some j" "l = k \<or> le_expires_at l = Some t"
      by (auto simp: ls split: if_splits)
    with ok obtain a where a: "le_expires_at k \<noteq> None" "a \<in> set (rt_attempts db)" "ra_attempt_id a = j"
      "ra_status a = AttemptRunning" "ra_fence a = le_fence k" "attempt_scope db a = Some (le_scope_key k)"
      unfolding leases_ok_def holders_running_def by blast
    let ?a = "if ra_attempt_id a = i then f a else a"
    have "?a \<in> set (rt_attempts ?db)" using a(2) by simp
    moreover have "ra_attempt_id ?a = j" "ra_status ?a = AttemptRunning" "ra_fence ?a = le_fence l"
      "attempt_scope ?db ?a = Some (le_scope_key l)"
      using a k id st sf by (simp_all add: sc)
    ultimately show "le_expires_at l \<noteq> None \<and> (\<exists>a\<in>set (rt_attempts ?db). ra_attempt_id a = j \<and>
        ra_status a = AttemptRunning \<and> ra_fence a = le_fence l \<and> attempt_scope ?db a = Some (le_scope_key l))"
      using k(5) a(1) by auto
  qed
  moreover have "running_held ?db"
  proof (unfold running_held_def, intro ballI impI)
    fix a assume a: "a \<in> set (rt_attempts ?db)" and r: "ra_status a = AttemptRunning"
    from a have "a \<in> set (map (\<lambda>a. if ra_attempt_id a = i then f a else a) (rt_attempts db))" by simp
    then obtain b where b: "b \<in> set (rt_attempts db)" "ra_attempt_id a = ra_attempt_id b"
      "attempt_scope db a = attempt_scope db b" "a = (if ra_attempt_id b = i then f b else b)"
      by (rule set_attempt_preimage [OF f])
    with r st have "ra_status b = AttemptRunning" by (auto split: if_splits)
    with ok b(1) obtain l where l: "l \<in> set (rt_leases db)" "le_attempt_id l = Some (ra_attempt_id b)"
      "attempt_scope db b = Some (le_scope_key l)"
      unfolding leases_ok_def running_held_def by blast
    let ?l = "if le_attempt_id l = Some i then l\<lparr>le_expires_at := Some t\<rparr> else l"
    have "?l \<in> set (rt_leases ?db)" using l(1) by (simp add: ls)
    with l b show "\<exists>l\<in>set (rt_leases ?db). le_attempt_id l = Some (ra_attempt_id a) \<and>
        attempt_scope ?db a = Some (le_scope_key l)"
      by (intro bexI [of _ ?l]) (auto simp: sc)
  qed
  ultimately show ?thesis by (simp add: leases_ok_def)
qed

section \<open>Acquiring a lease\<close>

lemma find_run_append:
  "find_run db i = Some w \<Longrightarrow> find_run (db\<lparr>rt_runs := rt_runs db @ [q]\<rparr>) i = Some w"
  by (simp add: find_run_def find_row_append)

lemma run_append_ok:
  assumes ok: "leases_ok db"
  shows "leases_ok (db\<lparr>rt_runs := rt_runs db @ [q]\<rparr>)"
proof -
  let ?db = "db\<lparr>rt_runs := rt_runs db @ [q]\<rparr>"
  have sc: "attempt_scope ?db a = attempt_scope db a" if a: "a \<in> set (rt_attempts db)" for a
  proof -
    from ok a have "attempt_scope db a \<noteq> None" unfolding leases_ok_def fences_bounded_def by force
    then show ?thesis by (auto simp: attempt_scope_def find_run_append)
  qed
  have "leases_ok ?db = leases_ok db"
    unfolding leases_ok_defs by (simp add: sc cong: ball_cong_simp bex_cong_simp)
  with ok show ?thesis by blast
qed

lemma ensure_lease_fields [simp]:
  "rt_attempts (ensure_lease k db) = rt_attempts db" "rt_runs (ensure_lease k db) = rt_runs db"
  "rt_core (ensure_lease k db) = rt_core db" "rt_occurrences (ensure_lease k db) = rt_occurrences db"
  "rt_schedules (ensure_lease k db) = rt_schedules db"
  "rt_observations (ensure_lease k db) = rt_observations db"
  "attempt_scope (ensure_lease k db) = attempt_scope db" "find_run (ensure_lease k db) = find_run db"
  "latest_attempt (ensure_lease k db) = latest_attempt db"
  by (simp_all add: ensure_lease_def attempt_scope_def find_run_def latest_attempt_def fun_eq_iff)

lemma ensure_lease_set:
  "set (rt_leases (ensure_lease k db)) = set (rt_leases db) \<union> (if k \<in> le_scope_key ` set (rt_leases db) then {}
     else {\<lparr>le_scope_key = k, le_fence = 0, le_attempt_id = None, le_expires_at = None\<rparr>})"
  by (simp add: ensure_lease_def)

lemma ensure_lease_ok:
  assumes ok: "leases_ok db"
  shows "leases_ok (ensure_lease k db)"
proof (cases "k \<in> le_scope_key ` set (rt_leases db)")
  case False
  let ?new = "\<lparr>le_scope_key = k, le_fence = 0, le_attempt_id = None, le_expires_at = None\<rparr>"
  have e: "set (rt_leases (ensure_lease k db)) = insert ?new (set (rt_leases db))"
    using False by (simp add: ensure_lease_set)
  have "tables_keyed (ensure_lease k db)"
    using ok False by (auto simp: leases_ok_def tables_keyed_def ensure_lease_def)
  moreover have "fences_bounded (ensure_lease k db)"
    using ok unfolding leases_ok_def fences_bounded_def ensure_lease_fields e by blast
  moreover have "holders_running (ensure_lease k db)"
    using ok unfolding leases_ok_def holders_running_def ensure_lease_fields e by simp
  moreover have "running_held (ensure_lease k db)"
    using ok unfolding leases_ok_def running_held_def ensure_lease_fields e by blast
  moreover have "fences_unique (ensure_lease k db)"
    using ok unfolding leases_ok_def fences_unique_def ensure_lease_fields by blast
  ultimately show ?thesis by (simp add: leases_ok_def)
qed (use ok in \<open>simp add: ensure_lease_def\<close>)

definition free_lease :: "string \<Rightarrow> int \<Rightarrow> runtime_db \<Rightarrow> bool" where
  "free_lease k f db = (\<exists>l\<in>set (rt_leases db). le_scope_key l = k \<and> le_fence l = f \<and> le_attempt_id l = None)"

lemma hold_lease_ok:
  assumes ok: "leases_ok db" and free: "free_lease k f db"
    and a: "ra_fence a = f + 1" "ra_status a = AttemptRunning" "attempt_scope db a = Some k"
    and fresh: "\<forall>b\<in>set (rt_attempts db). ra_attempt_id b \<noteq> ra_attempt_id a"
  shows "leases_ok (hold_lease k a t (db\<lparr>rt_attempts := rt_attempts db @ [a]\<rparr>))"
proof -
  let ?db = "hold_lease k a t (db\<lparr>rt_attempts := rt_attempts db @ [a]\<rparr>)"
  let ?h = "\<lambda>l. if le_scope_key l = k then l\<lparr>le_fence := ra_fence a, le_attempt_id := Some (ra_attempt_id a),
      le_expires_at := Some t\<rparr> else l"
  have L: "rt_leases ?db = map ?h (rt_leases db)" and A: "rt_attempts ?db = rt_attempts db @ [a]"
    and sc: "attempt_scope ?db = attempt_scope db"
    by (simp_all add: hold_lease_def attempt_scope_def find_run_def fun_eq_iff)
  from free obtain l0 where l0: "l0 \<in> set (rt_leases db)" "le_scope_key l0 = k" "le_fence l0 = f"
    "le_attempt_id l0 = None" by (auto simp: free_lease_def)
  have only: "l = l0" if "l \<in> set (rt_leases db)" "le_scope_key l = k" for l
    using ok that l0 by (auto simp: leases_ok_def tables_keyed_def distinct_map inj_on_def)
  have below: "ra_fence b \<le> f" if b: "b \<in> set (rt_attempts db)" "attempt_scope db b = Some k" for b
    using ok b only l0 unfolding leases_ok_def fences_bounded_def by (metis option.inject)
  have "tables_keyed ?db"
  proof -
    have "map le_scope_key (map ?h (rt_leases db)) = map le_scope_key (rt_leases db)" by simp
    then show ?thesis using ok fresh unfolding leases_ok_def tables_keyed_def L A by (auto simp del: map_map)
  qed
  moreover have "fences_bounded ?db"
  proof (unfold fences_bounded_def A sc, intro ballI)
    fix b assume "b \<in> set (rt_attempts db @ [a])"
    then consider "b \<in> set (rt_attempts db)" | "b = a" by auto
    then show "\<exists>l\<in>set (rt_leases ?db). attempt_scope db b = Some (le_scope_key l) \<and> ra_fence b \<le> le_fence l"
    proof cases
      case 1
      with ok obtain l where l: "l \<in> set (rt_leases db)" "attempt_scope db b = Some (le_scope_key l)"
        "ra_fence b \<le> le_fence l" unfolding leases_ok_def fences_bounded_def by blast
      then have "ra_fence b \<le> le_fence (?h l)" using below [OF 1] a(1) by fastforce
      with l show ?thesis unfolding L by (intro bexI [of _ "?h l"]) auto
    next
      case 2
      with l0 a show ?thesis unfolding L by (intro bexI [of _ "?h l0"]) auto
    qed
  qed
  moreover have "holders_running ?db"
  proof (unfold holders_running_def A sc, intro ballI allI impI)
    fix l j assume "l \<in> set (rt_leases ?db)" and j: "le_attempt_id l = Some j"
    then obtain m where m: "m \<in> set (rt_leases db)" "l = ?h m" unfolding L by auto
    show "le_expires_at l \<noteq> None \<and> (\<exists>b\<in>set (rt_attempts db @ [a]). ra_attempt_id b = j \<and>
        ra_status b = AttemptRunning \<and> ra_fence b = le_fence l \<and> attempt_scope db b = Some (le_scope_key l))"
    proof (cases "le_scope_key m = k")
      case True
      with m j a show ?thesis by auto
    next
      case False
      with m j ok have "le_expires_at l \<noteq> None \<and> (\<exists>b\<in>set (rt_attempts db). ra_attempt_id b = j \<and>
        ra_status b = AttemptRunning \<and> ra_fence b = le_fence l \<and> attempt_scope db b = Some (le_scope_key l))"
        unfolding leases_ok_def holders_running_def by simp
      then show ?thesis by auto
    qed
  qed
  moreover have "running_held ?db"
  proof (unfold running_held_def A sc, intro ballI impI)
    fix b assume b: "b \<in> set (rt_attempts db @ [a])" and r: "ra_status b = AttemptRunning"
    from b consider "b \<in> set (rt_attempts db)" | "b = a" by auto
    then show "\<exists>l\<in>set (rt_leases ?db). le_attempt_id l = Some (ra_attempt_id b) \<and>
        attempt_scope db b = Some (le_scope_key l)"
    proof cases
      case 1
      with ok r obtain l where l: "l \<in> set (rt_leases db)" "le_attempt_id l = Some (ra_attempt_id b)"
        "attempt_scope db b = Some (le_scope_key l)" unfolding leases_ok_def running_held_def by blast
      with only l0 have "le_scope_key l \<noteq> k" by force
      with l show ?thesis unfolding L by (intro bexI [of _ l]) force+
    next
      case 2
      with l0 a show ?thesis unfolding L by (intro bexI [of _ "?h l0"]) auto
    qed
  qed
  moreover have "fences_unique ?db"
    using ok below a unfolding fences_unique_def A sc leases_ok_def by fastforce
  ultimately show ?thesis by (simp add: leases_ok_def)
qed

section \<open>Every operation keeps the invariant\<close>

lemma mark_expired_keeps: "keeps_identity (mark_expired now)"
  by (simp add: keeps_identity_def mark_expired_def)

lemma mark_expired_ends: "ra_status (mark_expired now a) \<noteq> AttemptRunning"
  by (simp add: mark_expired_def)

lemma expire_ok: "leases_ok db \<Longrightarrow> leases_ok (fst (expire now db))"
proof -
  have "leases_ok db \<Longrightarrow> leases_ok (fold (expire_attempt now) is db)" for "is"
    by (induction "is" arbitrary: db)
      (simp_all add: expire_attempt_def end_attempt_ok [OF _ mark_expired_keeps mark_expired_ends])
  then show "leases_ok db \<Longrightarrow> leases_ok (fst (expire now db))" by (simp add: expire_def Let_def)
qed

lemma expire_fields [simp]:
  "rt_runs (fst (expire now db)) = rt_runs db" "rt_core (fst (expire now db)) = rt_core db"
  "rt_occurrences (fst (expire now db)) = rt_occurrences db"
  "rt_schedules (fst (expire now db)) = rt_schedules db"
  "rt_observations (fst (expire now db)) = rt_observations db"
proof -
  have "rt_runs (fold (expire_attempt now) is db) = rt_runs db \<and>
      rt_core (fold (expire_attempt now) is db) = rt_core db \<and>
      rt_occurrences (fold (expire_attempt now) is db) = rt_occurrences db \<and>
      rt_schedules (fold (expire_attempt now) is db) = rt_schedules db \<and>
      rt_observations (fold (expire_attempt now) is db) = rt_observations db" for "is"
    by (induction "is" arbitrary: db) (simp_all add: expire_attempt_def)
  then show "rt_runs (fst (expire now db)) = rt_runs db" "rt_core (fst (expire now db)) = rt_core db"
    "rt_occurrences (fst (expire now db)) = rt_occurrences db"
    "rt_schedules (fst (expire now db)) = rt_schedules db"
    "rt_observations (fst (expire now db)) = rt_observations db"
    by (simp_all add: expire_def Let_def)
qed

lemma validate_claim_frame:
  "validate_claim run now retry db = Inr db' \<Longrightarrow> same_leases db db' \<and> rt_core db' = rt_core db"
  by (auto simp: validate_claim_def same_leases_def set_occurrence_def Let_def result_simps
      split: if_splits option.splits)

definition new_attempt :: "RuntimeRun \<Rightarrow> string \<Rightarrow> instant \<Rightarrow> string \<times> string \<Rightarrow> int \<Rightarrow> RuntimeAttempt option \<Rightarrow>
    RuntimeAttempt" where
  "new_attempt run model now ids f prior = \<lparr>ra_attempt_id = fst ids, ra_public_id = snd ids,
     ra_run_id = ru_run_id run,
     ra_attempt_number = (case prior of None \<Rightarrow> 1 | Some p \<Rightarrow> ra_attempt_number p + 1),
     ra_fence = f + 1, ra_status = AttemptRunning, ra_stage = StageStarting,
     ra_model = model, ra_observed_model = None, ra_started_at = now, ra_heartbeat_at = now,
     ra_finished_at = None, ra_reason = None, ra_public_summary = None\<rparr>"

lemma start_attempt_Inr:
  assumes "start_attempt run model now retry ls ids db = Inr (db', a)"
  obtains f prior where "free_lease (run_scope_key run) f (ensure_lease (run_scope_key run) db)"
    "find_row le_scope_key (run_scope_key run) (rt_leases (ensure_lease (run_scope_key run) db)) \<noteq> None"
    "prior = latest_attempt db (ru_run_id run)"
    "attempt_guard run prior retry (rt_core db) = Inr ()"
    "a = new_attempt run model now ids f prior"
    "\<forall>b\<in>set (rt_attempts db). ra_attempt_id b \<noteq> fst ids \<and> ra_public_id b \<noteq> snd ids"
    "db' = hold_lease (run_scope_key run) a (now + ls * second) ((ensure_lease (run_scope_key run) db)
       \<lparr>rt_attempts := rt_attempts db @ [a]\<rparr>)"
proof -
  from assms obtain l where l: "find_row le_scope_key (run_scope_key run)
      (rt_leases (ensure_lease (run_scope_key run) db)) = Some l" "le_attempt_id l = None"
    by (auto simp: start_attempt_def Let_def split: option.splits if_splits)
  with assms find_row_Some [OF l(1)] show thesis
    by (intro that [of "le_fence l" "latest_attempt db (ru_run_id run)"])
      (auto simp: start_attempt_def Let_def result_simps new_attempt_def free_lease_def split: if_splits)
qed

lemma start_attempt_ok:
  assumes ok: "leases_ok db" and run: "find_run db (ru_run_id run) = Some w" "rw_run w = run"
    and s: "start_attempt run model now retry ls ids db = Inr (db', a)"
  shows "leases_ok db'"
proof -
  from s obtain f prior where f: "free_lease (run_scope_key run) f (ensure_lease (run_scope_key run) db)"
    and a: "a = new_attempt run model now ids f prior"
    and fresh: "\<forall>b\<in>set (rt_attempts db). ra_attempt_id b \<noteq> fst ids \<and> ra_public_id b \<noteq> snd ids"
    and db': "db' = hold_lease (run_scope_key run) a (now + ls * second) ((ensure_lease (run_scope_key run) db)
       \<lparr>rt_attempts := rt_attempts db @ [a]\<rparr>)"
    by (rule start_attempt_Inr)
  have scope: "attempt_scope (ensure_lease (run_scope_key run) db) a = Some (run_scope_key run)"
    using run by (simp add: attempt_scope_def [of db] a new_attempt_def)
  from hold_lease_ok [OF ensure_lease_ok [OF ok] f _ _ scope, of "now + ls * second"] fresh show ?thesis
    unfolding db' by (simp add: a new_attempt_def)
qed

lemma claim_Inr:
  assumes "claim i model now retry ls ids db = Inr (db', a)"
  obtains w db2 where "find_run db i = Some w" "ru_run_id (rw_run w) = i"
    "validate_claim (rw_run w) now retry (fst (expire now db)) = Inr db2"
    "ru_prepared_at (rw_run w) \<le> now" "ru_session_date (rw_run w) = ny_date now"
    "start_attempt (rw_run w) model now retry ls ids db2 = Inr (db', a)"
proof -
  have e: "find_run (fst (expire now db)) i = find_run db i" by (simp add: find_run_def)
  from assms obtain w where w: "find_run db i = Some w"
    by (auto simp: claim_def Let_def get_run_def e result_simps split: if_splits option.splits)
  with assms find_row_Some [OF w [unfolded find_run_def]] show thesis
    by (auto simp: claim_def Let_def get_run_def e result_simps split: if_splits intro: that)
qed

lemma claim_ok:
  assumes ok: "leases_ok db" and c: "claim i model now retry ls ids db = Inr (db', a)"
  shows "leases_ok db'"
proof -
  from c obtain w db2 where w: "find_run db i = Some w" "ru_run_id (rw_run w) = i"
    and v: "validate_claim (rw_run w) now retry (fst (expire now db)) = Inr db2"
    and s: "start_attempt (rw_run w) model now retry ls ids db2 = Inr (db', a)"
    by (rule claim_Inr)
  from validate_claim_frame [OF v] have f: "same_leases (fst (expire now db)) db2" by blast
  then have "leases_ok db2" using same_leases_ok expire_ok [OF ok] by blast
  moreover have "find_run db2 (ru_run_id (rw_run w)) = Some w"
    using w f by (simp add: find_run_def same_leases_def)
  ultimately show ?thesis using start_attempt_ok s by blast
qed

lemma heartbeat_ok:
  assumes ok: "leases_ok db" and h: "heartbeat i f now stage ls db = Inr (db', a)"
  shows "leases_ok db'"
proof -
  from h obtain st t where "db' = (set_attempt i (\<lambda>a. a\<lparr>ra_heartbeat_at := now, ra_stage := st\<rparr>) db)
      \<lparr>rt_leases := map (\<lambda>l. if le_attempt_id l = Some i then l\<lparr>le_expires_at := Some t\<rparr> else l) (rt_leases db)\<rparr>"
    by (auto simp: heartbeat_def Let_def result_simps split: if_splits)
  then show ?thesis using renew_ok [OF ok _ _ refl] by (simp add: keeps_identity_def)
qed

lemma finish_Inr:
  assumes "finish i f now status reason summary_text db = Inr (db', a)"
  obtains b core where "validate_fence db i f now = Inr b" "status \<in> terminal_statuses"
    "db' = release_lease i (set_attempt i (\<lambda>a. a\<lparr>ra_status := status, ra_stage := StageFinished,
       ra_finished_at := Some now, ra_reason := reason, ra_public_summary := summary_text\<rparr>)
       (db\<lparr>rt_core := core\<rparr>))"
    "get_attempt db' i = Inr a" "status = AttemptNoAction \<Longrightarrow> attributed_decisions db i = []"
  using assms by (auto simp: finish_def Let_def result_simps split: if_splits)

lemma finish_ok:
  assumes ok: "leases_ok db" and h: "finish i f now status reason summary_text db = Inr (db', a)"
  shows "leases_ok db'"
  using h
proof (rule finish_Inr)
  fix b core
  assume st: "status \<in> terminal_statuses" and db': "db' = release_lease i (set_attempt i (\<lambda>a. a\<lparr>ra_status := status,
    ra_stage := StageFinished, ra_finished_at := Some now, ra_reason := reason,
    ra_public_summary := summary_text\<rparr>) (db\<lparr>rt_core := core\<rparr>))"
  have "leases_ok (db\<lparr>rt_core := core\<rparr>)"
    using ok same_leases_ok [of db "db\<lparr>rt_core := core\<rparr>"] by (simp add: same_leases_def)
  from end_attempt_ok [OF this] st show ?thesis
    unfolding db' by (auto simp: keeps_identity_def terminal_statuses_def)
qed

lemma save_run_Inr:
  assumes "save_run files run pid db = Inr (db', p)"
  shows "db' = db \<or> (db' = db\<lparr>rt_runs := rt_runs db @ [\<lparr>rw_run = run, rw_public_id = pid\<rparr>]\<rparr> \<and>
    find_run db (ru_run_id run) = None \<and> (\<forall>q\<in>set (rt_runs db). \<not> run_clash \<lparr>rw_run = run, rw_public_id = pid\<rparr> q))"
  using assms by (auto simp: save_run_def Let_def result_simps split: if_splits option.splits prod.splits)

lemma save_run_ok: "leases_ok db \<Longrightarrow> save_run files run pid db = Inr (db', p) \<Longrightarrow> leases_ok db'"
  using save_run_Inr run_append_ok by blast

end
