(* ===== verification/Runtime.thy ===== *)
theory Runtime
  imports LeaseInvariant
begin

text \<open>
  The runtime as a transition system: one step per transaction of \<open>app/storage/runtime.py\<close> and
  \<open>app/storage/schedules.py\<close>, the two occurrence updates of \<open>app/reason/scheduler.py\<close>, and the
  transactions of other components, which leave the runtime tables alone. Clocks are arguments and
  need not agree. The lease tables refine an abstract lock with a fence.
\<close>

section \<open>Steps\<close>

definition mark_dependency_missing :: "string \<Rightarrow> instant \<Rightarrow> runtime_db \<Rightarrow> runtime_db" where
  "mark_dependency_missing i now = set_occurrence i (\<lambda>oc. if oc_status oc = OccurrenceWaiting
     then oc\<lparr>oc_reason := Some ''dependency_missing'', oc_observed_at := now\<rparr> else oc)"

definition skip_overlapping :: "string \<Rightarrow> instant \<Rightarrow> runtime_db \<Rightarrow> runtime_db" where
  "skip_overlapping i now = set_occurrence i (\<lambda>oc. if oc_status oc = OccurrenceWaiting
     then oc\<lparr>oc_status := OccurrenceSkipped, oc_reason := Some ''overlap'', oc_observed_at := now\<rparr> else oc)"

definition scope_busy :: "runtime_db \<Rightarrow> string \<Rightarrow> instant \<Rightarrow> bool" where
  "scope_busy db scope now = (\<exists>l\<in>set (rt_leases db). le_scope_key l = scope \<and> le_attempt_id l \<noteq> None \<and>
     (case le_expires_at l of None \<Rightarrow> False | Some t \<Rightarrow> julianday now < julianday t))"

inductive runtime_step :: "runtime_db \<Rightarrow> runtime_db \<Rightarrow> bool" where
  save: "save_run files run pid db = Inr (db', p) \<Longrightarrow> runtime_step db db'"
| claim: "claim i model now retry seconds ids db = Inr (db', a) \<Longrightarrow> runtime_step db db'"
| heartbeat: "heartbeat i fence now stage seconds db = Inr (db', a) \<Longrightarrow> runtime_step db db'"
| finish: "finish i fence now status reason summary_text db = Inr (db', a) \<Longrightarrow> runtime_step db db'"
| expire: "runtime_step db (fst (expire now db))"
| schedule: "save_schedule revision profile db = Inr db' \<Longrightarrow> runtime_step db db'"
| observe: "observe observation db = Inr db' \<Longrightarrow> runtime_step db db'"
| due: "record_due fresh schedule now db = Inr (db', ready) \<Longrightarrow> runtime_step db db'"
| missing: "runtime_step db (mark_dependency_missing i now db)"
| overlap: "scope_busy db scope now \<Longrightarrow> runtime_step db (skip_overlapping i now db)"
| other: "runtime_step db (db\<lparr>rt_core := core, rt_triggers := triggers, rt_decision_attempts := attributions\<rparr>)"

inductive runtime_reachable :: "runtime_db \<Rightarrow> bool" where
  start: "runtime_reachable empty_runtime"
| step: "runtime_reachable db \<Longrightarrow> runtime_step db db' \<Longrightarrow> runtime_reachable db'"

lemma runtime_reachable_steps: "runtime_step\<^sup>*\<^sup>* db db' \<Longrightarrow> runtime_reachable db \<Longrightarrow> runtime_reachable db'"
  by (induction rule: rtranclp_induct) (auto intro: runtime_reachable.step)

section \<open>The schedule operations leave the leases alone\<close>

lemma set_occurrence_leases [simp]: "same_leases db (set_occurrence i f db)"
  by (simp add: same_leases_def set_occurrence_def)

lemma same_leases_trans: "same_leases a b \<Longrightarrow> same_leases b c \<Longrightarrow> same_leases a c"
  by (simp add: same_leases_def)

lemma save_schedule_leases: "save_schedule r profile db = Inr db' \<Longrightarrow> same_leases db db'"
  by (auto simp: save_schedule_def same_leases_def Let_def result_simps split: if_splits)

lemma observe_leases: "observe o' db = Inr db' \<Longrightarrow> same_leases db db'"
  by (auto simp: observe_def same_leases_def split: if_splits option.splits)

lemma record_day_leases:
  assumes "record_day ids s now day (db, ready) = Inr (db', ready')"
  shows "same_leases db db'"
proof -
  from assms obtain d where d: "due_at s day = Inr d" by (auto simp: record_day_def result_simps)
  show ?thesis
  proof (cases d)
    case (Some due)
    with assms d show ?thesis
      by (auto simp: record_day_def same_leases_def set_occurrence_def Let_def split: if_splits option.splits)
  qed (use assms d in \<open>simp add: record_day_def\<close>)
qed

lemma record_days_leases:
  assumes "record_days ids s now day (db, ready) = Inr st"
  shows "same_leases db (fst st)"
  by (rule record_days_invariant [OF assms, where P = "\<lambda>st. same_leases db (fst st)"])
    (use record_day_leases same_leases_trans in \<open>force+\<close>)

lemma record_due_leases: "record_due ids i now db = Inr (db', ready) \<Longrightarrow> same_leases db db'"
  by (auto simp: record_due_def split: option.splits if_splits dest!: record_days_leases)

lemma runtime_step_ok: "runtime_step db db' \<Longrightarrow> leases_ok db \<Longrightarrow> leases_ok db'"
proof (induction rule: runtime_step.induct)
  case (expire db now)
  then show ?case by (rule expire_ok)
next
  case (other db as ts c)
  then show ?case
    using same_leases_ok [of db "db\<lparr>rt_core := c, rt_triggers := ts, rt_decision_attempts := as\<rparr>"]
    by (simp add: same_leases_def)
qed (auto intro: save_run_ok claim_ok heartbeat_ok finish_ok
    simp: mark_dependency_missing_def skip_overlapping_def same_leases_ok [OF set_occurrence_leases]
    dest: save_schedule_leases observe_leases record_due_leases same_leases_ok)

lemma runtime_reachable_ok: "runtime_reachable db \<Longrightarrow> leases_ok db"
  by (induction rule: runtime_reachable.induct) (auto intro: leases_ok_empty runtime_step_ok)

section \<open>Steps with their clock and their actor\<close>

text \<open>
  The same transactions, with the clock each reads and who acts: a heartbeat and a completion act for the attempt and
  the fence they are given, every other transaction for nobody.
\<close>

type_synonym actor = "(string \<times> int) option"

inductive clocked_step :: "instant \<Rightarrow> actor \<Rightarrow> runtime_db \<Rightarrow> runtime_db \<Rightarrow> bool" where
  save: "save_run files run pid db = Inr (db', p) \<Longrightarrow> clocked_step now None db db'"
| claim: "claim i model now retry seconds ids db = Inr (db', a) \<Longrightarrow> clocked_step now None db db'"
| heartbeat: "heartbeat i fence now stage seconds db = Inr (db', a) \<Longrightarrow> clocked_step now (Some (i, fence)) db db'"
| finish: "finish i fence now status reason summary_text db = Inr (db', a) \<Longrightarrow>
    clocked_step now (Some (i, fence)) db db'"
| expire: "clocked_step now None db (fst (expire now db))"
| schedule: "save_schedule revision profile db = Inr db' \<Longrightarrow> clocked_step now None db db'"
| observe: "observe observation db = Inr db' \<Longrightarrow> clocked_step now None db db'"
| due: "record_due fresh schedule now db = Inr (db', ready) \<Longrightarrow> clocked_step now None db db'"
| missing: "clocked_step now None db (mark_dependency_missing i now db)"
| overlap: "scope_busy db scope now \<Longrightarrow> clocked_step now None db (skip_overlapping i now db)"
| other: "clocked_step now None db
    (db\<lparr>rt_core := core, rt_triggers := triggers, rt_decision_attempts := attributions\<rparr>)"

lemma runtime_step_clocked: "runtime_step db db' \<longleftrightarrow> (\<exists>now actor. clocked_step now actor db db')"
proof
  show "runtime_step db db' \<Longrightarrow> \<exists>now actor. clocked_step now actor db db'"
    by (induction rule: runtime_step.induct) (blast intro: clocked_step.intros)+
  show "\<exists>now actor. clocked_step now actor db db' \<Longrightarrow> runtime_step db db'"
    by (elim exE, erule clocked_step.cases) (auto intro: runtime_step.intros)
qed

section \<open>The lock it implements\<close>

text \<open>
  The abstract lock of a scope: a fence, and the attempt that holds it with the time its lease ends. It is acquired only
  when free, with a greater fence. While it is held, only its holder, acting with the holder's fence before the lease
  ends, renews or releases it; nobody else moves it until its lease has ended, when it may lapse. Ends are compared as
  SQLite compares them, by \<open>julianday\<close>, when a lease lapses, and exactly when its holder acts.
\<close>

type_synonym lock_state = "int \<times> (string \<times> instant option) option"

inductive lock_step :: "instant \<Rightarrow> actor \<Rightarrow> lock_state \<Rightarrow> lock_state \<Rightarrow> bool" where
  acquire: "now < t \<Longrightarrow> lock_step now actor (f, None) (f + 1, Some (i, Some t))"
| renew: "now < t \<Longrightarrow> now < t' \<Longrightarrow> lock_step now (Some (i, f)) (f, Some (i, Some t)) (f, Some (i, Some t'))"
| release: "now < t \<Longrightarrow> lock_step now (Some (i, f)) (f, Some (i, Some t)) (f, None)"
| lapse: "julianday t \<le> julianday now \<Longrightarrow> lock_step now actor (f, Some (i, Some t)) (f, None)"

definition lock :: "runtime_db \<Rightarrow> string \<Rightarrow> lock_state" where
  "lock db k = (case find_row le_scope_key k (rt_leases db) of None \<Rightarrow> (0, None)
     | Some l \<Rightarrow> (le_fence l, map_option (\<lambda>i. (i, le_expires_at l)) (le_attempt_id l)))"

text \<open>Exclusion: however many steps a transaction takes, a lock held by another on a lease that has not ended stays.\<close>

lemma lock_excludes:
  assumes "(lock_step now actor)\<^sup>*\<^sup>* a b" and "a = (f, Some (i, Some t))" and "actor \<noteq> Some (i, f)"
    and "julianday now < julianday t"
  shows "b = a"
  using assms by (induction rule: rtranclp_induct) (auto elim!: lock_step.cases)

lemma lock_fence_mono: "(lock_step now actor)\<^sup>*\<^sup>* a b \<Longrightarrow> fst a \<le> fst b"
  by (induction rule: rtranclp_induct) (auto elim!: lock_step.cases)

lemma lock_same: "same_leases db db' \<Longrightarrow> lock db' k = lock db k"
  by (simp add: lock_def same_leases_def)

text \<open>An attempt holds one lock at most, and a lease that is held has an end.\<close>

lemma lease_of_holder:
  assumes "leases_ok db" and "l \<in> set (rt_leases db)" and "le_attempt_id l = Some i"
    and "m \<in> set (rt_leases db)" and "le_attempt_id m = Some i"
  shows "m = l"
proof -
  from assms obtain a b where ab: "a \<in> set (rt_attempts db)" "ra_attempt_id a = i" "attempt_scope db a = Some (le_scope_key l)"
    "b \<in> set (rt_attempts db)" "ra_attempt_id b = i" "attempt_scope db b = Some (le_scope_key m)"
    unfolding leases_ok_def holders_running_def by blast
  have "distinct (map ra_attempt_id (rt_attempts db))" "distinct (map le_scope_key (rt_leases db))"
    using assms(1) by (simp_all add: leases_ok_defs)
  with ab assms(2,4) show ?thesis by (metis distinct_map inj_onD option.inject)
qed

lemma lock_lease:
  assumes "leases_ok db" and "l \<in> set (rt_leases db)" and "le_scope_key l = k"
  shows "lock db k = (le_fence l, map_option (\<lambda>i. (i, le_expires_at l)) (le_attempt_id l))"
  using assms find_row_distinct [of le_scope_key "rt_leases db" l] by (simp add: lock_def leases_ok_defs)

lemma lock_held:
  assumes "leases_ok db" and "lock db k = (f, Some (i, x))"
  obtains l t where "l \<in> set (rt_leases db)" "le_scope_key l = k" "le_fence l = f" "le_attempt_id l = Some i"
    "le_expires_at l = Some t" "x = Some t"
proof -
  from assms(2) obtain l where l: "find_row le_scope_key k (rt_leases db) = Some l" "le_fence l = f"
    "le_attempt_id l = Some i" "x = le_expires_at l"
    by (auto simp: lock_def split: option.splits)
  from find_row_Some [OF l(1)] have lin: "l \<in> set (rt_leases db)" "le_scope_key l = k" by simp_all
  from assms(1) have "holders_running db" by (simp add: leases_ok_def)
  with l(3) lin(1) obtain t where "le_expires_at l = Some t" unfolding holders_running_def by blast
  with l lin that show thesis by simp
qed

lemma lock_release_lease:
  "lock (release_lease i (set_attempt i f db)) k = (case lock db k of
     (n, Some (j, t)) \<Rightarrow> if j = i then (n, None) else (n, Some (j, t)) | (n, None) \<Rightarrow> (n, None))"
  by (auto simp: lock_def find_row_map split: option.splits)

lemma lock_expire_attempts:
  "lock (fold (expire_attempt now) is db) k = (case lock db k of
     (n, Some (j, t)) \<Rightarrow> if j \<in> set is then (n, None) else (n, Some (j, t)) | (n, None) \<Rightarrow> (n, None))"
proof (induction "is" arbitrary: db)
  case (Cons i "is")
  have "lock (expire_attempt now i db) k = (case lock db k of
     (n, Some (j, t)) \<Rightarrow> if j = i then (n, None) else (n, Some (j, t)) | (n, None) \<Rightarrow> (n, None))"
    by (simp only: expire_attempt_def lock_release_lease)
  with Cons.IH [of "expire_attempt now i db"] show ?case
    by (cases "lock db k"; cases "snd (lock db k)") auto
qed (auto split: prod.split option.split)

lemma lock_expire:
  assumes ok: "leases_ok db"
  shows "(lock_step now actor)\<^sup>*\<^sup>* (lock db k) (lock (fst (expire now db)) k)"
proof (cases "lock (fst (expire now db)) k = lock db k")
  case False
  then obtain f i x where h: "lock db k = (f, Some (i, x))" and i: "i \<in> set (expired_attempts now db)"
    and lock': "lock (fst (expire now db)) k = (f, None)"
    by (auto simp: expire_def Let_def lock_expire_attempts split: prod.splits option.splits if_splits)
  obtain l t where l: "l \<in> set (rt_leases db)" "le_attempt_id l = Some i" "le_expires_at l = Some t" "x = Some t"
    using lock_held [OF ok h] by metis
  from i obtain m where m: "m \<in> set (rt_leases db)" "le_attempt_id m = Some i" "lease_expired now m"
    by (auto simp: expired_attempts_def lease_expired_def)
  from lease_of_holder [OF ok l(1,2) m(1,2)] m(3) l(3) have "julianday t \<le> julianday now"
    by (simp add: lease_expired_def)
  then show ?thesis unfolding h lock' l(4) by (blast intro: lock_step.lapse)
qed simp

lemma lock_ensure [simp]: "lock (ensure_lease s db) k = lock db k"
  using find_row_Some [of le_scope_key k "rt_leases db"]
  by (auto simp: lock_def ensure_lease_def find_row_append split: option.splits)

lemma free_lease_lock:
  assumes "leases_ok db" and "free_lease k f db"
  shows "lock db k = (f, None)"
  using assms lock_lease [OF assms(1)] by (auto simp: free_lease_def)

lemma lock_hold:
  assumes "lock db k = (f, None)" and "find_row le_scope_key k (rt_leases db) \<noteq> None" and "ra_fence a = f + 1"
    and "now < t"
  shows "(lock_step now actor)\<^sup>*\<^sup>* (lock db q) (lock (hold_lease k a t (db\<lparr>rt_attempts := as\<rparr>)) q)"
  using assms
  by (cases "q = k") (auto simp: lock_def hold_lease_def find_row_map split: option.splits
      dest: find_row_Some intro!: lock_step.acquire r_into_rtranclp)

lemma lock_claim:
  assumes ok: "leases_ok db" and c: "claim i model now retry ls ids db = Inr (db', a)"
  shows "(lock_step now actor)\<^sup>*\<^sup>* (lock db k) (lock db' k)"
proof -
  have ls: "now < now + ls * second" using c by (auto simp: claim_def second_def split: if_splits)
  from c obtain w db2 where "find_run db i = Some w" "ru_run_id (rw_run w) = i"
    and v: "validate_claim (rw_run w) now retry (fst (expire now db)) = Inr db2"
    and "ru_prepared_at (rw_run w) \<le> now" "ru_session_date (rw_run w) = ny_date now"
    and s: "start_attempt (rw_run w) model now retry ls ids db2 = Inr (db', a)" by (rule claim_Inr)
  from validate_claim_frame [OF v] have f: "same_leases (fst (expire now db)) db2" by blast
  then have ok2: "leases_ok db2" using same_leases_ok expire_ok [OF ok] by blast
  let ?k = "run_scope_key (rw_run w)"
  from s obtain f prior where fl: "free_lease ?k f (ensure_lease ?k db2)"
    and some: "find_row le_scope_key ?k (rt_leases (ensure_lease ?k db2)) \<noteq> None"
    and "prior = latest_attempt db2 (ru_run_id (rw_run w))"
    and "attempt_guard (rw_run w) prior retry (rt_core db2) = Inr ()"
    and a: "a = new_attempt (rw_run w) model now ids f prior"
    and "\<forall>b\<in>set (rt_attempts db2). ra_attempt_id b \<noteq> fst ids \<and> ra_public_id b \<noteq> snd ids"
    and db': "db' = hold_lease ?k a (now + ls * second) ((ensure_lease ?k db2)
      \<lparr>rt_attempts := rt_attempts db2 @ [a]\<rparr>)"
    by (rule start_attempt_Inr)
  have "ra_fence a = f + 1" by (simp add: a new_attempt_def)
  then have "(lock_step now actor)\<^sup>*\<^sup>* (lock (ensure_lease ?k db2) k) (lock db' k)"
    unfolding db' using ls by (intro lock_hold [OF free_lease_lock [OF ensure_lease_ok [OF ok2] fl] some])
  with lock_expire [OF ok, of now actor k] lock_same [OF f, of k] show ?thesis by (simp add: rtranclp_trans)
qed

text \<open>What a holder's own operations do to its lock.\<close>

lemma validate_fence_lock:
  assumes ok: "leases_ok db" and v: "validate_fence db i fence now = Inr attempt" and h: "lock db k = (f, Some (i, x))"
  obtains t where "f = fence" "x = Some t" "now < t"
proof -
  obtain l t where l: "l \<in> set (rt_leases db)" "le_fence l = f" "le_attempt_id l = Some i" "le_expires_at l = Some t"
    "x = Some t" using lock_held [OF ok h] by metis
  from v obtain m where m: "find_row le_attempt_id (Some i) (rt_leases db) = Some m" "le_fence m = fence"
    "\<And>t. le_expires_at m = Some t \<Longrightarrow> now < t"
    by (auto simp: validate_fence_def result_simps split: option.splits if_splits)
  from lease_of_holder [OF ok l(1,3)] find_row_Some [OF m(1)] have "m = l" by simp
  with m l that show thesis by auto
qed

lemma lock_heartbeat:
  assumes ok: "leases_ok db" and h: "heartbeat i fence now stage ls db = Inr (db', a)"
  shows "(lock_step now (Some (i, fence)))\<^sup>*\<^sup>* (lock db k) (lock db' k)"
proof -
  from h obtain attempt where v: "validate_fence db i fence now = Inr attempt" and ls: "now < now + ls * second"
    and leases: "rt_leases db' = map (\<lambda>l. if le_attempt_id l = Some i
      then l\<lparr>le_expires_at := Some (now + ls * second)\<rparr> else l) (rt_leases db)"
    by (auto simp: heartbeat_def Let_def result_simps second_def split: if_splits)
  have lock': "lock db' k = (case lock db k of
     (n, Some (j, t)) \<Rightarrow> if j = i then (n, Some (i, Some (now + ls * second))) else (n, Some (j, t)) | (n, None) \<Rightarrow> (n, None))"
    by (auto simp: lock_def leases find_row_map split: option.splits)
  show ?thesis
  proof (cases "lock db' k = lock db k")
    case False
    with lock' obtain f x where held: "lock db k = (f, Some (i, x))" "lock db' k = (f, Some (i, Some (now + ls * second)))"
      by (auto split: prod.splits option.splits if_splits)
    obtain t where "f = fence" "x = Some t" "now < t" using validate_fence_lock [OF ok v held(1)] .
    with held lock_step.renew [OF _ ls] show ?thesis by (simp only: r_into_rtranclp)
  qed simp
qed

lemma lock_finish:
  assumes ok: "leases_ok db" and h: "finish i fence now status reason summary_text db = Inr (db', a)"
  shows "(lock_step now (Some (i, fence)))\<^sup>*\<^sup>* (lock db k) (lock db' k)"
proof -
  from h obtain attempt core g where v: "validate_fence db i fence now = Inr attempt"
    and db': "db' = release_lease i (set_attempt i g (db\<lparr>rt_core := core\<rparr>))"
    by (auto simp: finish_def Let_def result_simps split: if_splits)
  have "lock (db\<lparr>rt_core := core\<rparr>) k = lock db k" by (simp add: lock_def)
  note lock' = lock_release_lease [of i g "db\<lparr>rt_core := core\<rparr>" k, unfolded this, folded db']
  show ?thesis
  proof (cases "lock db' k = lock db k")
    case False
    with lock' obtain f x where held: "lock db k = (f, Some (i, x))" "lock db' k = (f, None)"
      by (auto split: prod.splits option.splits if_splits)
    obtain t where "f = fence" "x = Some t" "now < t" using validate_fence_lock [OF ok v held(1)] .
    with held show ?thesis by (auto intro: lock_step.release)
  qed simp
qed

text \<open>
  C13. The lease tables implement a fenced lock with exclusion. From any reachable state, every transaction moves the lock
  of every account by steps of the abstract lock at the transaction's clock: it is acquired only when free, with a
  greater fence; renewed and released only by its holder, with the holder's fence, before the lease ends; and lapses only
  when the lease has ended. In particular a transaction of anybody but the holder leaves a lock whose lease has not
  ended as it is.
\<close>

theorem leases_refine_lock:
  assumes "runtime_reachable db" and "clocked_step now actor db db'"
  shows "(lock_step now actor)\<^sup>*\<^sup>* (lock db k) (lock db' k) \<and>
    (\<forall>f i t. lock db k = (f, Some (i, Some t)) \<and> actor \<noteq> Some (i, f) \<and> julianday now < julianday t \<longrightarrow>
       lock db' k = lock db k)"
proof -
  note ok = runtime_reachable_ok [OF assms(1)]
  from assms(2) have "(lock_step now actor)\<^sup>*\<^sup>* (lock db k) (lock db' k)"
  proof cases
    case (claim i model retry seconds ids a)
    then show ?thesis using lock_claim [OF ok] by blast
  next
    case (heartbeat i fence stage seconds a)
    then show ?thesis using lock_heartbeat [OF ok] by blast
  next
    case (finish i fence status reason summary_text a)
    then show ?thesis using lock_finish [OF ok] by blast
  next
    case expire
    then show ?thesis using lock_expire [OF ok] by simp
  next
    case (save files run pid p)
    with save_run_Inr have "lock db' k = lock db k" by (fastforce simp: lock_def)
    then show ?thesis by simp
  next
    case (other core triggers attributions)
    then show ?thesis by (simp add: lock_def)
  qed (auto simp: mark_dependency_missing_def skip_overlapping_def lock_same [OF set_occurrence_leases]
      dest!: save_schedule_leases observe_leases record_due_leases lock_same [of db _ k])
  with lock_excludes show ?thesis by blast
qed

end
