(* ===== verification/RuntimeProperties.thy ===== *)
theory RuntimeProperties
  imports Runtime
begin

text \<open>
  Properties of the runtime: one holder per account, attempts that ended stay ended, a run completes at
  most once, and a crashed worker does not block its account.
\<close>

section \<open>Holding a lease\<close>

text \<open>
  What callers of \<open>validate_fence\<close> rely on: a client holds, or has ended, and never both; holders of
  one scope are the same client; what has ended stays ended.
\<close>

locale lease_protocol =
  fixes ok :: "'s \<Rightarrow> bool"
    and step :: "'s \<Rightarrow> 's \<Rightarrow> bool"
    and holds :: "'s \<Rightarrow> 'c \<Rightarrow> bool"
    and ended :: "'s \<Rightarrow> 'c \<Rightarrow> bool"
    and scope :: "'s \<Rightarrow> 'c \<Rightarrow> 'k option"
  assumes ok_step: "ok s \<Longrightarrow> step s s' \<Longrightarrow> ok s'"
    and exclusive: "ok s \<Longrightarrow> holds s c \<Longrightarrow> holds s d \<Longrightarrow> scope s c = scope s d \<Longrightarrow> c = d"
    and not_both: "ok s \<Longrightarrow> ended s c \<Longrightarrow> \<not> holds s c"
    and stays_ended: "ok s \<Longrightarrow> step s s' \<Longrightarrow> ended s c \<Longrightarrow> ended s' c"
begin

lemma ok_steps: "step\<^sup>*\<^sup>* s s' \<Longrightarrow> ok s \<Longrightarrow> ok s'"
  by (induction rule: rtranclp_induct) (auto intro: ok_step)

lemma ended_steps: "step\<^sup>*\<^sup>* s s' \<Longrightarrow> ok s \<Longrightarrow> ended s c \<Longrightarrow> ended s' c"
  by (induction rule: rtranclp_induct) (auto intro: stays_ended ok_steps)

lemma never_again: "step\<^sup>*\<^sup>* s s' \<Longrightarrow> ok s \<Longrightarrow> ended s c \<Longrightarrow> \<not> holds s' c"
  using ended_steps ok_steps not_both by blast

end

lemma validate_fence_Inr:
  assumes "validate_fence db i f now = Inr a"
  obtains l where "find_row ra_attempt_id i (rt_attempts db) = Some a" "ra_attempt_id a = i"
    "a \<in> set (rt_attempts db)" "ra_status a = AttemptRunning" "ra_fence a = f"
    "l \<in> set (rt_leases db)" "le_attempt_id l = Some i" "le_fence l = f"
    "\<exists>t. le_expires_at l = Some t \<and> now < t"
proof -
  from assms obtain l where "find_row le_attempt_id (Some i) (rt_leases db) = Some l"
    "find_row ra_attempt_id i (rt_attempts db) = Some a" "ra_status a = AttemptRunning" "ra_fence a = f"
    "le_fence l = f" "\<exists>t. le_expires_at l = Some t \<and> now < t"
    by (auto simp: validate_fence_def get_attempt_def result_simps not_le split: option.splits if_splits)
  with find_row_Some [of le_attempt_id "Some i" "rt_leases db" l]
    find_row_Some [of ra_attempt_id i "rt_attempts db" a] show thesis
    by (intro that [of l]) auto
qed

definition holds_lease :: "runtime_db \<Rightarrow> string \<Rightarrow> bool" where
  "holds_lease db i = (\<exists>a\<in>set (rt_attempts db). ra_attempt_id a = i \<and> ra_status a = AttemptRunning)"

definition attempt_ended :: "runtime_db \<Rightarrow> string \<Rightarrow> bool" where
  "attempt_ended db i = (\<exists>a\<in>set (rt_attempts db). ra_attempt_id a = i \<and> ra_status a \<noteq> AttemptRunning)"

definition scope_of_attempt :: "runtime_db \<Rightarrow> string \<Rightarrow> string option" where
  "scope_of_attempt db i = (case find_row ra_attempt_id i (rt_attempts db) of
     None \<Rightarrow> None | Some a \<Rightarrow> attempt_scope db a)"

lemma attempt_unique:
  "leases_ok db \<Longrightarrow> a \<in> set (rt_attempts db) \<Longrightarrow> b \<in> set (rt_attempts db) \<Longrightarrow>
     ra_attempt_id a = ra_attempt_id b \<Longrightarrow> a = b"
  by (auto simp: leases_ok_def tables_keyed_def distinct_map inj_on_def)

lemma scope_of_attempt_eq:
  "leases_ok db \<Longrightarrow> a \<in> set (rt_attempts db) \<Longrightarrow> scope_of_attempt db (ra_attempt_id a) = attempt_scope db a"
  using find_row_distinct [of ra_attempt_id "rt_attempts db" a]
  by (simp add: scope_of_attempt_def leases_ok_def tables_keyed_def)

lemma running_unique:
  assumes ok: "leases_ok db" and a: "a \<in> set (rt_attempts db)" "ra_status a = AttemptRunning"
    and b: "b \<in> set (rt_attempts db)" "ra_status b = AttemptRunning"
    and s: "attempt_scope db a = attempt_scope db b"
  shows "a = b"
proof -
  from ok a obtain l where l: "l \<in> set (rt_leases db)" "le_attempt_id l = Some (ra_attempt_id a)"
    "attempt_scope db a = Some (le_scope_key l)" unfolding leases_ok_def running_held_def by blast
  from ok b obtain m where m: "m \<in> set (rt_leases db)" "le_attempt_id m = Some (ra_attempt_id b)"
    "attempt_scope db b = Some (le_scope_key m)" unfolding leases_ok_def running_held_def by blast
  from l m s have "le_scope_key l = le_scope_key m" by simp
  with ok l(1) m(1) have "l = m" by (auto simp: leases_ok_def tables_keyed_def distinct_map inj_on_def)
  with l m have "ra_attempt_id a = ra_attempt_id b" by simp
  with attempt_unique [OF ok a(1) b(1)] show ?thesis by blast
qed

lemma free_scope_ended:
  assumes ok: "leases_ok db" and f: "free_lease k f db" and a: "a \<in> set (rt_attempts db)" "attempt_scope db a = Some k"
  shows "ra_status a \<noteq> AttemptRunning"
proof
  assume "ra_status a = AttemptRunning"
  with ok a obtain l where l: "l \<in> set (rt_leases db)" "le_attempt_id l = Some (ra_attempt_id a)" "le_scope_key l = k"
    unfolding leases_ok_def running_held_def by fastforce
  from f obtain m where m: "m \<in> set (rt_leases db)" "le_scope_key m = k" "le_attempt_id m = None"
    by (auto simp: free_lease_def)
  with ok l have "l = m" by (auto simp: leases_ok_def tables_keyed_def distinct_map inj_on_def)
  with l m show False by simp
qed

section \<open>Attempts that ended never change\<close>

text \<open>
  \<open>carries db db'\<close>: every attempt is still there with its identity, and unchanged once it has ended;
  runs are kept.
\<close>

definition carries :: "runtime_db \<Rightarrow> runtime_db \<Rightarrow> bool" where
  "carries db db' = ((\<forall>a\<in>set (rt_attempts db). \<exists>b\<in>set (rt_attempts db'). ra_attempt_id b = ra_attempt_id a \<and>
       ra_run_id b = ra_run_id a \<and> ra_fence b = ra_fence a \<and> ra_attempt_number b = ra_attempt_number a \<and>
       (ra_status a \<noteq> AttemptRunning \<longrightarrow> b = a)) \<and>
     (\<forall>i w. find_run db i = Some w \<longrightarrow> find_run db' i = Some w))"

lemma carries_refl [simp]: "carries db db"
  by (auto simp: carries_def)

lemma carries_trans [trans]:
  assumes "carries a b" and "carries b c"
  shows "carries a c"
  unfolding carries_def
proof (intro conjI ballI allI impI)
  fix x assume "x \<in> set (rt_attempts a)"
  with assms(1) obtain y where y: "y \<in> set (rt_attempts b)" "ra_attempt_id y = ra_attempt_id x"
    "ra_run_id y = ra_run_id x" "ra_fence y = ra_fence x" "ra_attempt_number y = ra_attempt_number x"
    "ra_status x \<noteq> AttemptRunning \<longrightarrow> y = x" unfolding carries_def by blast
  with assms(2) obtain z where "z \<in> set (rt_attempts c)" "ra_attempt_id z = ra_attempt_id y"
    "ra_run_id z = ra_run_id y" "ra_fence z = ra_fence y" "ra_attempt_number z = ra_attempt_number y"
    "ra_status y \<noteq> AttemptRunning \<longrightarrow> z = y" unfolding carries_def by blast
  with y show "\<exists>z\<in>set (rt_attempts c). ra_attempt_id z = ra_attempt_id x \<and> ra_run_id z = ra_run_id x \<and>
      ra_fence z = ra_fence x \<and> ra_attempt_number z = ra_attempt_number x \<and>
      (ra_status x \<noteq> AttemptRunning \<longrightarrow> z = x)" by (intro bexI [of _ z]) auto
next
  fix i w assume "find_run a i = Some w"
  with assms show "find_run c i = Some w" unfolding carries_def by blast
qed

lemma carries_set_attempt:
  assumes "keeps_identity f" and "\<And>a. a \<in> set (rt_attempts db) \<Longrightarrow> ra_attempt_id a = i \<Longrightarrow>
      ra_status a \<noteq> AttemptRunning \<Longrightarrow> f a = a"
    and "rt_attempts db' = map (\<lambda>a. if ra_attempt_id a = i then f a else a) (rt_attempts db)"
    and "rt_runs db' = rt_runs db"
  shows "carries db db'"
proof -
  have "\<exists>b\<in>set (rt_attempts db'). ra_attempt_id b = ra_attempt_id a \<and> ra_run_id b = ra_run_id a \<and>
      ra_fence b = ra_fence a \<and> ra_attempt_number b = ra_attempt_number a \<and>
      (ra_status a \<noteq> AttemptRunning \<longrightarrow> b = a)" if a: "a \<in> set (rt_attempts db)" for a
    using assms(1) assms(2) [OF a] a unfolding assms(3) keeps_identity_def
    by (intro bexI [of _ "if ra_attempt_id a = i then f a else a"]) auto
  then show ?thesis by (simp add: carries_def find_run_def assms(4))
qed

lemma carries_more:
  "rt_attempts db' = rt_attempts db @ as \<Longrightarrow> rt_runs db' = rt_runs db @ rs \<Longrightarrow> carries db db'"
proof -
  assume e: "rt_attempts db' = rt_attempts db @ as" "rt_runs db' = rt_runs db @ rs"
  have "find_row key k (xs @ ys) = (case find_row key k xs of None \<Rightarrow> find_row key k ys | Some x \<Rightarrow> Some x)"
    for key :: "RunRow \<Rightarrow> string" and k xs ys
    unfolding find_row_def by (induction xs) auto
  with e show ?thesis by (auto simp: carries_def find_run_def)
qed

lemma carries_expire: "carries db (fst (expire now db))"
proof -
  have one: "carries db (expire_attempt now i db)" for i db
    by (rule carries_set_attempt [OF mark_expired_keeps, of db i now])
      (auto simp: expire_attempt_def mark_expired_def)
  have "carries db (fold (expire_attempt now) is db)" for "is"
  proof (induction "is" arbitrary: db)
    case (Cons i "is")
    have "carries (expire_attempt now i db) (fold (expire_attempt now) (i # is) db)"
      using Cons.IH [of "expire_attempt now i db"] by simp
    with one show ?case by (rule carries_trans)
  qed simp
  then show ?thesis by (simp add: expire_def Let_def)
qed

lemma same_leases_carries: "same_leases db db' \<Longrightarrow> carries db db'"
  using carries_more [of db' db "[]" "[]"] by (simp add: same_leases_def)

lemma carries_claim:
  assumes c: "claim i model now retry ls ids db = Inr (db', a)"
  shows "carries db db'"
  using c
proof (rule claim_Inr)
  fix w db2
  assume v: "validate_claim (rw_run w) now retry (fst (expire now db)) = Inr db2"
    and s: "start_attempt (rw_run w) model now retry ls ids db2 = Inr (db', a)"
  have "carries db2 db'"
    using s by (rule start_attempt_Inr) (auto simp: hold_lease_def intro: carries_more [of _ _ "[a]" "[]"])
  with carries_expire same_leases_carries validate_claim_frame [OF v] show ?thesis
    using carries_trans by blast
qed

lemma fenced_running:
  "leases_ok db \<Longrightarrow> validate_fence db i f now = Inr b \<Longrightarrow> a \<in> set (rt_attempts db) \<Longrightarrow> ra_attempt_id a = i \<Longrightarrow>
     ra_status a = AttemptRunning"
  using attempt_unique by (auto elim!: validate_fence_Inr)

lemma step_carries:
  assumes ok: "leases_ok db" and "runtime_step db db'"
  shows "carries db db'"
  using assms(2)
proof cases
  case (save files run pid p)
  then show ?thesis
    using save_run_Inr carries_more [of db' db "[]" "[\<lparr>rw_run = run, rw_public_id = pid\<rparr>]"] by fastforce
next
  case (claim i model now retry seconds ids a)
  then show ?thesis by (rule carries_claim)
next
  case (heartbeat i fence now stage seconds a)
  then obtain b st ls where v: "validate_fence db i fence now = Inr b"
    and db': "db' = (set_attempt i (\<lambda>a. a\<lparr>ra_heartbeat_at := now, ra_stage := st\<rparr>) db)\<lparr>rt_leases := ls\<rparr>"
    by (auto simp: heartbeat_def Let_def result_simps split: if_splits)
  show ?thesis
    by (rule carries_set_attempt [of "\<lambda>a. a\<lparr>ra_heartbeat_at := now, ra_stage := st\<rparr>" _ i])
      (use fenced_running [OF ok v] in \<open>auto simp: db' keeps_identity_def\<close>)
next
  case (finish i fence now status reason summary_text a)
  then show ?thesis
  proof (rule finish_Inr)
    fix b core
    let ?f = "\<lambda>a. a\<lparr>ra_status := status, ra_stage := StageFinished, ra_finished_at := Some now,
      ra_reason := reason, ra_public_summary := summary_text\<rparr>"
    assume v: "validate_fence db i fence now = Inr b"
      and db': "db' = release_lease i (set_attempt i ?f (db\<lparr>rt_core := core\<rparr>))"
    show ?thesis
      by (rule carries_set_attempt [of ?f _ i])
        (use fenced_running [OF ok v] in \<open>auto simp: db' keeps_identity_def\<close>)
  qed
next
  case (expire now)
  then show ?thesis using carries_expire by simp
qed (auto intro: same_leases_carries same_leases_carries [OF set_occurrence_leases]
    simp: mark_dependency_missing_def skip_overlapping_def same_leases_def
    dest: save_schedule_leases observe_leases record_due_leases)

interpretation lease: lease_protocol leases_ok runtime_step holds_lease attempt_ended scope_of_attempt
proof unfold_locales
  show "leases_ok db \<Longrightarrow> runtime_step db db' \<Longrightarrow> leases_ok db'" for db db' by (rule runtime_step_ok)
  show "c = d" if "leases_ok db" "holds_lease db c" "holds_lease db d"
      "scope_of_attempt db c = scope_of_attempt db d" for db c d
    using that running_unique [OF that(1)] unfolding holds_lease_def by (metis scope_of_attempt_eq)
  show "\<not> holds_lease db c" if "leases_ok db" "attempt_ended db c" for db c
    using that attempt_unique by (fastforce simp: attempt_ended_def holds_lease_def)
  show "attempt_ended db' c" if "leases_ok db" "runtime_step db db'" "attempt_ended db c" for db db' c
    using step_carries [OF that(1,2)] that(3) unfolding attempt_ended_def carries_def by metis
qed

section \<open>Claims\<close>

lemma claim_result:
  assumes ok: "leases_ok db" and c: "claim i model now retry ls ids db = Inr (db', a)"
  shows "a \<in> set (rt_attempts db')" and "ra_status a = AttemptRunning" and "ra_run_id a = i"
    and "ra_attempt_id a = fst ids"
    and "\<And>b. b \<in> set (rt_attempts db) \<Longrightarrow> ra_attempt_id b \<noteq> ra_attempt_id a"
proof -
  from c obtain w db2 where w: "find_run db i = Some w" "ru_run_id (rw_run w) = i"
    and v: "validate_claim (rw_run w) now retry (fst (expire now db)) = Inr db2"
    and "ru_prepared_at (rw_run w) \<le> now" "ru_session_date (rw_run w) = ny_date now"
    and s: "start_attempt (rw_run w) model now retry ls ids db2 = Inr (db', a)" by (rule claim_Inr)
  let ?k = "run_scope_key (rw_run w)"
  from s obtain f prior where "free_lease ?k f (ensure_lease ?k db2)"
    and some: "find_row le_scope_key ?k (rt_leases (ensure_lease ?k db2)) \<noteq> None"
    and "prior = latest_attempt db2 (ru_run_id (rw_run w))"
    and "attempt_guard (rw_run w) prior retry (rt_core db2) = Inr ()"
    and a: "a = new_attempt (rw_run w) model now ids f prior"
    and fresh: "\<forall>b\<in>set (rt_attempts db2). ra_attempt_id b \<noteq> fst ids \<and> ra_public_id b \<noteq> snd ids"
    and db': "db' = hold_lease ?k a (now + ls * second) ((ensure_lease ?k db2)
      \<lparr>rt_attempts := rt_attempts db2 @ [a]\<rparr>)"
    by (rule start_attempt_Inr)
  show "a \<in> set (rt_attempts db')" by (simp add: db' hold_lease_def)
  show "ra_status a = AttemptRunning" "ra_run_id a = i" and id: "ra_attempt_id a = fst ids"
    by (simp_all add: a new_attempt_def w)
  have "carries db db2"
    using carries_expire same_leases_carries validate_claim_frame [OF v] carries_trans by blast
  then show "ra_attempt_id b \<noteq> ra_attempt_id a" if "b \<in> set (rt_attempts db)" for b
    using that fresh id unfolding carries_def by metis
qed

lemma carries_scope:
  assumes "leases_ok db" and "carries db db'" and "a \<in> set (rt_attempts db)" and "ra_run_id b = ra_run_id a"
  shows "attempt_scope db' b = attempt_scope db a"
proof -
  from assms(1,3) obtain k where "attempt_scope db a = Some k"
    unfolding leases_ok_def fences_bounded_def by blast
  then obtain w where "find_run db (ra_run_id a) = Some w" by (auto simp: attempt_scope_def)
  with assms(2,4) show ?thesis by (simp add: attempt_scope_def carries_def)
qed

text \<open>
  C12. One holder per account: in a reachable state two attempts of one account that pass the fence test,
  at whatever times, are the same attempt with the same fence; its fence is the greatest any attempt of
  the account was given, and no other attempt of the account is running.
\<close>

theorem one_holder_per_account:
  assumes "runtime_reachable db" and "validate_fence db i f now = Inr a" and "validate_fence db j g later = Inr b"
    and "attempt_scope db a = attempt_scope db b"
  shows "i = j \<and> f = g \<and> (\<forall>c\<in>set (rt_attempts db). attempt_scope db c = attempt_scope db a \<longrightarrow>
    ra_fence c \<le> f \<and> (ra_status c = AttemptRunning \<longrightarrow> ra_attempt_id c = i))"
proof -
  note ok = runtime_reachable_ok [OF assms(1)]
  from assms(2) obtain l where a: "ra_attempt_id a = i" "a \<in> set (rt_attempts db)"
    "ra_status a = AttemptRunning" "ra_fence a = f" and l: "l \<in> set (rt_leases db)" "le_attempt_id l = Some i"
    "le_fence l = f"
    by (auto elim: validate_fence_Inr)
  from assms(3) have b: "ra_attempt_id b = j" "b \<in> set (rt_attempts db)" "ra_status b = AttemptRunning" "ra_fence b = g"
    by (auto elim: validate_fence_Inr)
  have same: "a = b" using running_unique [OF ok a(2,3) b(2,3) assms(4)] .
  from ok l obtain a' where "a' \<in> set (rt_attempts db)" "ra_attempt_id a' = i" "attempt_scope db a' = Some (le_scope_key l)"
    unfolding leases_ok_def holders_running_def by blast
  with a attempt_unique [OF ok] have key: "attempt_scope db a = Some (le_scope_key l)" by metis
  have "ra_fence c \<le> f \<and> (ra_status c = AttemptRunning \<longrightarrow> ra_attempt_id c = i)"
    if c: "c \<in> set (rt_attempts db)" "attempt_scope db c = attempt_scope db a" for c
  proof -
    from ok c(1) obtain m where m: "m \<in> set (rt_leases db)" "attempt_scope db c = Some (le_scope_key m)"
      "ra_fence c \<le> le_fence m" unfolding leases_ok_def fences_bounded_def by blast
    with key c(2) have "le_scope_key m = le_scope_key l" by simp
    with ok m(1) l(1) have "m = l" by (auto simp: leases_ok_def tables_keyed_def distinct_map inj_on_def)
    with m l(3) a running_unique [OF ok c(1) _ a(2,3) c(2)] show ?thesis by auto
  qed
  with same a b show ?thesis by auto
qed

text \<open>
  C14. A stale worker is locked out for good: once another claim has succeeded for its account, the fence
  test fails for an earlier attempt in every state reached from there, whatever its clock says.
\<close>

theorem superseded_attempt_locked_out:
  assumes "runtime_reachable db" and "b \<in> set (rt_attempts db)"
    and "claim i model now retry seconds ids db = Inr (db1, a)"
    and "attempt_scope db1 a = attempt_scope db b" and "runtime_step\<^sup>*\<^sup>* db1 db2"
  shows "\<exists>e. validate_fence db2 (ra_attempt_id b) f later = Inl e"
proof -
  note ok = runtime_reachable_ok [OF assms(1)]
  note new = claim_result [OF ok assms(3)]
  have step: "runtime_step db db1" using assms(3) by (rule runtime_step.claim)
  note ok1 = runtime_step_ok [OF step ok]
  from step_carries [OF ok step] assms(2) obtain c where c: "c \<in> set (rt_attempts db1)"
    "ra_attempt_id c = ra_attempt_id b" "ra_run_id c = ra_run_id b" unfolding carries_def by blast
  have "attempt_scope db1 c = attempt_scope db1 a"
    using carries_scope [OF ok step_carries [OF ok step] assms(2) c(3)] assms(4) by simp
  moreover have "c \<noteq> a" using new(5) [OF assms(2)] c(2) by auto
  ultimately have "ra_status c \<noteq> AttemptRunning"
    using running_unique [OF ok1 c(1) _ new(1,2)] by blast
  with c have "attempt_ended db1 (ra_attempt_id b)" unfolding attempt_ended_def by blast
  from lease.never_again [OF assms(5) ok1 this] have "\<not> holds_lease db2 (ra_attempt_id b)" .
  then show ?thesis
    by (cases "validate_fence db2 (ra_attempt_id b) f later") (auto simp: holds_lease_def elim!: validate_fence_Inr)
qed

section \<open>A run completes at most once\<close>

definition concluded :: "RuntimeAttempt \<Rightarrow> bool" where
  "concluded a = (ra_status a \<in> {AttemptCompleted, AttemptNoAction})"

definition run_attempts :: "runtime_db \<Rightarrow> string \<Rightarrow> RuntimeAttempt list" where
  "run_attempts db i = filter (\<lambda>a. ra_run_id a = i) (rt_attempts db)"

definition attempts_numbered :: "runtime_db \<Rightarrow> bool" where
  "attempts_numbered db = (\<forall>i. map ra_attempt_number (run_attempts db i) =
     map int [1..<Suc (length (run_attempts db i))])"

definition earlier_failed :: "runtime_db \<Rightarrow> bool" where
  "earlier_failed db = (\<forall>a\<in>set (rt_attempts db). \<forall>b\<in>set (rt_attempts db). ra_run_id a = ra_run_id b \<and>
     ra_attempt_number a < ra_attempt_number b \<longrightarrow> ra_status a \<noteq> AttemptRunning \<and> \<not> concluded a)"

definition attempts_ok :: "runtime_db \<Rightarrow> bool" where
  "attempts_ok db = (attempts_numbered db \<and> earlier_failed db)"

lemma same_attempts_ok: "rt_attempts db' = rt_attempts db \<Longrightarrow> attempts_ok db' = attempts_ok db"
  by (simp add: attempts_ok_def attempts_numbered_def earlier_failed_def run_attempts_def)

lemma same_leases_attempts_ok: "same_leases db db' \<Longrightarrow> attempts_ok db \<Longrightarrow> attempts_ok db'"
  using same_attempts_ok [of db' db] by (simp add: same_leases_def)

lemma set_attempt_attempts_ok:
  assumes ok: "attempts_ok db" and f: "keeps_identity f"
    and ended: "\<And>a. a \<in> set (rt_attempts db) \<Longrightarrow> ra_attempt_id a = i \<Longrightarrow> ra_status a \<noteq> AttemptRunning \<Longrightarrow> f a = a"
    and as: "rt_attempts db' = map (\<lambda>a. if ra_attempt_id a = i then f a else a) (rt_attempts db)"
  shows "attempts_ok db'"
proof -
  let ?g = "\<lambda>a. if ra_attempt_id a = i then f a else a"
  have g: "ra_run_id (?g a) = ra_run_id a" "ra_attempt_number (?g a) = ra_attempt_number a" for a
    using f by (simp_all add: keeps_identity_def)
  have r: "run_attempts db' j = map ?g (run_attempts db j)" for j
    unfolding run_attempts_def as by (simp add: filter_map comp_def g cong: if_cong)
  have n: "map ra_attempt_number (map ?g xs) = map ra_attempt_number xs" for xs
    using g(2) by simp
  have "attempts_numbered db'"
    using ok unfolding attempts_ok_def attempts_numbered_def r n by simp
  moreover have "earlier_failed db'"
  proof (unfold earlier_failed_def, intro ballI impI)
    fix a b assume a: "a \<in> set (rt_attempts db')" and b: "b \<in> set (rt_attempts db')"
      and less: "ra_run_id a = ra_run_id b \<and> ra_attempt_number a < ra_attempt_number b"
    from a obtain a0 where a0: "a0 \<in> set (rt_attempts db)" "a = ?g a0" unfolding as by auto
    from b obtain b0 where b0: "b0 \<in> set (rt_attempts db)" "b = ?g b0" unfolding as by auto
    from less have "ra_run_id a0 = ra_run_id b0 \<and> ra_attempt_number a0 < ra_attempt_number b0"
      unfolding a0(2) b0(2) g .
    with ok a0(1) b0(1) have e: "ra_status a0 \<noteq> AttemptRunning" "\<not> concluded a0"
      unfolding attempts_ok_def earlier_failed_def by blast+
    with ended [OF a0(1)] have "a = a0" unfolding a0(2) by simp
    with e show "ra_status a \<noteq> AttemptRunning \<and> \<not> concluded a" by simp
  qed
  ultimately show ?thesis by (simp add: attempts_ok_def)
qed

lemma expire_attempts_ok: "attempts_ok db \<Longrightarrow> attempts_ok (fst (expire now db))"
proof -
  have one: "attempts_ok db \<Longrightarrow> attempts_ok (expire_attempt now i db)" for i db
    by (rule set_attempt_attempts_ok [OF _ mark_expired_keeps, of db i now])
      (auto simp: expire_attempt_def mark_expired_def)
  have "attempts_ok db \<Longrightarrow> attempts_ok (fold (expire_attempt now) is db)" for "is"
    by (induction "is" arbitrary: db) (auto intro: one)
  then show "attempts_ok db \<Longrightarrow> attempts_ok (fst (expire now db))" by (simp add: expire_def Let_def)
qed

lemma numbers_distinct: "attempts_numbered db \<Longrightarrow> a \<in> set (run_attempts db i) \<Longrightarrow> b \<in> set (run_attempts db i) \<Longrightarrow>
    ra_attempt_number a = ra_attempt_number b \<Longrightarrow> a = b"
proof -
  assume n: "attempts_numbered db" and ab: "a \<in> set (run_attempts db i)" "b \<in> set (run_attempts db i)"
    "ra_attempt_number a = ra_attempt_number b"
  have "distinct (map ra_attempt_number (run_attempts db i))"
    using n unfolding attempts_numbered_def by (simp add: distinct_map)
  with ab show "a = b" by (auto simp: distinct_map inj_on_def)
qed

lemma latest_attempt_number:
  assumes "attempts_numbered db"
  shows "(case latest_attempt db i of None \<Rightarrow> 1 | Some p \<Rightarrow> ra_attempt_number p + 1) =
    int (length (run_attempts db i)) + 1"
proof (cases "latest_attempt db i")
  case None
  then show ?thesis by (simp add: latest_attempt_def run_attempts_def)
next
  case (Some p)
  let ?n = "length (run_attempts db i)"
  from Some have p: "p \<in> set (run_attempts db i)"
    and top: "\<And>q. q \<in> set (run_attempts db i) \<Longrightarrow> ra_attempt_number q \<le> ra_attempt_number p"
    using greatest_Some [OF Some [unfolded latest_attempt_def]] unfolding run_attempts_def by auto
  have nums: "ra_attempt_number ` set (run_attempts db i) = int ` {1..<Suc ?n}"
    using assms unfolding attempts_numbered_def by (metis list.set_map set_upt)
  from p have "0 < ?n" by (cases "run_attempts db i") auto
  then have "int ?n \<in> ra_attempt_number ` set (run_attempts db i)" unfolding nums by (intro imageI) (simp add: Suc_le_eq)
  with top have "int ?n \<le> ra_attempt_number p" by auto
  moreover have "ra_attempt_number p \<in> int ` {1..<Suc ?n}" using p nums by blast
  then have "ra_attempt_number p \<le> int ?n" by auto
  ultimately show ?thesis using Some by simp
qed

lemma start_attempt_attempts_ok:
  assumes ok: "leases_ok db" and aok: "attempts_ok db" and run: "find_run db (ru_run_id run) = Some w" "rw_run w = run"
    and s: "start_attempt run model now retry ls ids db = Inr (db', a)"
  shows "attempts_ok db'"
proof -
  let ?k = "run_scope_key run"
  from s obtain f prior where free: "free_lease ?k f (ensure_lease ?k db)"
    and "find_row le_scope_key ?k (rt_leases (ensure_lease ?k db)) \<noteq> None"
    and prior: "prior = latest_attempt db (ru_run_id run)"
    and guard: "attempt_guard run prior retry (rt_core db) = Inr ()"
    and a: "a = new_attempt run model now ids f prior"
    and "\<forall>b\<in>set (rt_attempts db). ra_attempt_id b \<noteq> fst ids \<and> ra_public_id b \<noteq> snd ids"
    and db': "db' = hold_lease ?k a (now + ls * second) ((ensure_lease ?k db)\<lparr>rt_attempts := rt_attempts db @ [a]\<rparr>)"
    by (rule start_attempt_Inr)
  have A: "rt_attempts db' = rt_attempts db @ [a]" by (simp add: db' hold_lease_def)
  have num: "attempts_numbered db" and early: "earlier_failed db" using aok by (simp_all add: attempts_ok_def)
  let ?n = "length (run_attempts db (ru_run_id run))"
  have an: "ra_attempt_number a = int ?n + 1" "ra_run_id a = ru_run_id run"
    using latest_attempt_number [OF num, of "ru_run_id run"] by (simp_all add: a new_attempt_def prior)
  have "attempts_numbered db'"
    unfolding attempts_numbered_def
  proof
    fix i
    show "map ra_attempt_number (run_attempts db' i) = map int [1..<Suc (length (run_attempts db' i))]"
      using num an unfolding attempts_numbered_def run_attempts_def A by (cases "i = ru_run_id run") auto
  qed
  moreover have "earlier_failed db'"
  proof (unfold earlier_failed_def A, intro ballI impI)
    fix c b assume cb: "c \<in> set (rt_attempts db @ [a])" "b \<in> set (rt_attempts db @ [a])"
      and less: "ra_run_id c = ra_run_id b \<and> ra_attempt_number c < ra_attempt_number b"
    have top: "ra_attempt_number q \<le> int ?n" if "q \<in> set (rt_attempts db)" "ra_run_id q = ru_run_id run" for q
    proof -
      have "ra_attempt_number q \<in> set (map ra_attempt_number (run_attempts db (ru_run_id run)))"
        using that by (auto simp: run_attempts_def)
      also have "\<dots> = int ` {1..<Suc ?n}" using num unfolding attempts_numbered_def by (metis list.set_map set_upt)
      finally show ?thesis by auto
    qed
    have c: "c \<in> set (rt_attempts db)" using cb less top [of b] an by fastforce
    show "ra_status c \<noteq> AttemptRunning \<and> \<not> concluded c"
    proof (cases "b \<in> set (rt_attempts db)")
      case True
      with c less early show ?thesis unfolding earlier_failed_def by blast
    next
      case False
      with cb less an have r: "ra_run_id c = ru_run_id run" by auto
      then have sc: "attempt_scope db c = Some ?k" using run by (simp add: attempt_scope_def)
      have "ra_status c \<noteq> AttemptRunning"
        using free_scope_ended [OF ensure_lease_ok [OF ok] free, of c] c sc by simp
      moreover have "\<not> concluded c"
      proof (cases prior)
        case None
        then have "run_attempts db (ru_run_id run) = []"
          unfolding prior latest_attempt_def run_attempts_def by simp
        with c r show ?thesis unfolding run_attempts_def by (auto simp: filter_empty_conv)
      next
        case (Some p)
        then have p: "p \<in> set (run_attempts db (ru_run_id run))" "ra_attempt_number c \<le> ra_attempt_number p"
          using greatest_Some c r unfolding prior latest_attempt_def run_attempts_def by fastforce+
        from guard Some have np: "\<not> concluded p"
          by (auto simp: attempt_guard_def concluded_def split: if_splits)
        have cr: "c \<in> set (run_attempts db (ru_run_id run))" using c r by (simp add: run_attempts_def)
        show ?thesis
        proof (cases "ra_attempt_number c = ra_attempt_number p")
          case True
          with numbers_distinct [OF num cr p(1)] np show ?thesis by simp
        next
          case False
          with p early c r show ?thesis unfolding earlier_failed_def run_attempts_def by fastforce
        qed
      qed
      ultimately show ?thesis ..
    qed
  qed
  ultimately show ?thesis by (simp add: attempts_ok_def)
qed

lemma step_attempts_ok:
  assumes ok: "leases_ok db" and aok: "attempts_ok db" and "runtime_step db db'"
  shows "attempts_ok db'"
  using assms(3)
proof cases
  case (save files run pid p)
  have "rt_attempts db' = rt_attempts db" using save_run_Inr [OF save] by auto
  then show ?thesis using same_attempts_ok aok by blast
next
  case (claim i model now retry seconds ids a)
  from claim(1) obtain w db2 where w: "find_run db i = Some w" "ru_run_id (rw_run w) = i"
    and v: "validate_claim (rw_run w) now retry (fst (Leases.expire now db)) = Inr db2"
    and "ru_prepared_at (rw_run w) \<le> now" "ru_session_date (rw_run w) = ny_date now"
    and s: "start_attempt (rw_run w) model now retry seconds ids db2 = Inr (db', a)" by (rule claim_Inr)
  from validate_claim_frame [OF v] have f: "same_leases (fst (Leases.expire now db)) db2" by blast
  have "leases_ok db2" using same_leases_ok [OF f] expire_ok [OF ok] by blast
  moreover have "attempts_ok db2"
    using same_attempts_ok [of db2] expire_attempts_ok [OF aok] f by (simp add: same_leases_def)
  moreover have "find_run db2 (ru_run_id (rw_run w)) = Some w"
    using w f by (simp add: find_run_def same_leases_def)
  ultimately show ?thesis using start_attempt_attempts_ok s by blast
next
  case (heartbeat i fence now stage seconds a)
  then obtain b st ls where v: "validate_fence db i fence now = Inr b"
    and db': "db' = (set_attempt i (\<lambda>a. a\<lparr>ra_heartbeat_at := now, ra_stage := st\<rparr>) db)\<lparr>rt_leases := ls\<rparr>"
    by (auto simp: heartbeat_def Let_def result_simps split: if_splits)
  show ?thesis
    by (rule set_attempt_attempts_ok [OF aok, of "\<lambda>a. a\<lparr>ra_heartbeat_at := now, ra_stage := st\<rparr>" i])
      (use fenced_running [OF ok v] in \<open>auto simp: db' keeps_identity_def\<close>)
next
  case (finish i fence now status reason summary_text a)
  then show ?thesis
  proof (rule finish_Inr)
    fix b core
    let ?f = "\<lambda>a. a\<lparr>ra_status := status, ra_stage := StageFinished, ra_finished_at := Some now,
      ra_reason := reason, ra_public_summary := summary_text\<rparr>"
    assume v: "validate_fence db i fence now = Inr b"
      and db': "db' = release_lease i (set_attempt i ?f (db\<lparr>rt_core := core\<rparr>))"
    show ?thesis
      by (rule set_attempt_attempts_ok [OF aok, of ?f i])
        (use fenced_running [OF ok v] in \<open>auto simp: db' keeps_identity_def\<close>)
  qed
next
  case (expire now)
  then show ?thesis using expire_attempts_ok [OF aok] by simp
next
  case (other core triggers attributions)
  then show ?thesis using same_attempts_ok [of db' db] aok by simp
qed (auto intro: same_leases_attempts_ok [OF _ aok] same_leases_attempts_ok [OF set_occurrence_leases aok]
    simp: mark_dependency_missing_def skip_overlapping_def
    dest: save_schedule_leases observe_leases record_due_leases)

lemma runtime_reachable_attempts: "runtime_reachable db \<Longrightarrow> attempts_ok db"
proof (induction rule: runtime_reachable.induct)
  case start
  then show ?case
    by (simp add: attempts_ok_def attempts_numbered_def earlier_failed_def run_attempts_def empty_runtime_def)
next
  case (step db db')
  then show ?case using step_attempts_ok runtime_reachable_ok by blast
qed

text \<open>
  C15. A run completes at most once: the attempts of a run are numbered from one in the order they were
  claimed, and an attempt that completed, with decisions or without, is the last of its run, so no
  other attempt of it completed and none is running.
\<close>

theorem run_completes_at_most_once:
  assumes "runtime_reachable db" and "a \<in> set (rt_attempts db)" and "concluded a"
  shows "map ra_attempt_number (run_attempts db (ra_run_id a)) =
      map int [1..<Suc (length (run_attempts db (ra_run_id a)))] \<and>
    ra_attempt_number a = int (length (run_attempts db (ra_run_id a))) \<and>
    (\<forall>b\<in>set (run_attempts db (ra_run_id a)). b \<noteq> a \<longrightarrow> \<not> concluded b \<and> ra_status b \<noteq> AttemptRunning)"
proof -
  have num: "attempts_numbered db" and early: "earlier_failed db"
    using runtime_reachable_attempts [OF assms(1)] by (simp_all add: attempts_ok_def)
  let ?r = "run_attempts db (ra_run_id a)" and ?n = "length (run_attempts db (ra_run_id a))"
  have a: "a \<in> set ?r" using assms(2) by (simp add: run_attempts_def)
  have nums: "ra_attempt_number ` set ?r = int ` {1..<Suc ?n}"
    using num unfolding attempts_numbered_def by (metis list.set_map set_upt)
  from a have "0 < ?n" by (cases ?r) auto
  then have "int ?n \<in> ra_attempt_number ` set ?r" unfolding nums by (intro imageI) (simp add: Suc_le_eq)
  then obtain z where z: "z \<in> set ?r" "ra_attempt_number z = int ?n" by auto
  have le: "ra_attempt_number b \<le> int ?n" if "b \<in> set ?r" for b
  proof -
    have "ra_attempt_number b \<in> int ` {1..<Suc ?n}" using that unfolding nums [symmetric] by (rule imageI)
    then show ?thesis by auto
  qed
  have "\<not> ra_attempt_number a < ra_attempt_number b" if "b \<in> set ?r" for b
    using early assms(2,3) that unfolding earlier_failed_def run_attempts_def by auto
  with z le a have top: "ra_attempt_number a = int ?n" by fastforce
  have "\<not> concluded b \<and> ra_status b \<noteq> AttemptRunning" if b: "b \<in> set ?r" "b \<noteq> a" for b
  proof -
    have "ra_attempt_number b \<noteq> int ?n" using numbers_distinct [OF num b(1) a] b(2) top by auto
    with le [OF b(1)] top have "ra_attempt_number b < ra_attempt_number a" by simp
    with early b(1) assms(2) show ?thesis unfolding earlier_failed_def run_attempts_def by auto
  qed
  with num top show ?thesis unfolding attempts_numbered_def by blast
qed

section \<open>A crashed worker does not block its account\<close>

lemma fold_expire_leases:
  "rt_leases (fold (expire_attempt now) is db) = map (\<lambda>l. if le_attempt_id l \<in> Some ` set is
     then l\<lparr>le_attempt_id := None, le_expires_at := None\<rparr> else l) (rt_leases db)"
  by (induction "is" arbitrary: db) (auto simp: expire_attempt_def comp_def image_iff)

lemma fold_expire_attempts:
  "rt_attempts (fold (expire_attempt now) is db) = map (\<lambda>a. if ra_attempt_id a \<in> set is
     then mark_expired now a else a) (rt_attempts db)"
  by (induction "is" arbitrary: db) (auto simp: expire_attempt_def mark_expired_def comp_def)

lemma latest_attempt_map:
  assumes "\<And>a. ra_run_id (g a) = ra_run_id a \<and> ra_attempt_number (g a) = ra_attempt_number a"
    and "rt_attempts db' = map g (rt_attempts db)"
  shows "latest_attempt db' i = map_option g (latest_attempt db i)"
  using assms by (simp add: latest_attempt_def filter_map comp_def greatest_map)

lemma latest_attempt_expire:
  "latest_attempt (fst (expire now db)) i = map_option (\<lambda>a. if ra_attempt_id a \<in> set (expired_attempts now db)
     then mark_expired now a else a) (latest_attempt db i)"
  by (rule latest_attempt_map) (simp_all add: expire_def Let_def fold_expire_attempts mark_expired_def)

lemma mark_expired_concluded: "concluded (mark_expired now a) = concluded a"
  by (simp add: concluded_def mark_expired_def)

lemma mark_expired_number: "ra_attempt_number (mark_expired now a) = ra_attempt_number a"
  by (simp add: mark_expired_def)

lemma expire_frees:
  assumes "\<forall>l\<in>set (rt_leases db). le_scope_key l = k \<longrightarrow>
      le_attempt_id l = None \<or> (\<exists>t. le_expires_at l = Some t \<and> t \<le> now)"
    and "l \<in> set (rt_leases (fst (expire now db)))" and "le_scope_key l = k"
  shows "le_attempt_id l = None"
proof -
  let ?h = "\<lambda>l. if le_attempt_id l \<in> Some ` set (expired_attempts now db)
    then l\<lparr>le_attempt_id := None, le_expires_at := None\<rparr> else l"
  from assms(2) obtain m where m: "m \<in> set (rt_leases db)" "l = ?h m"
    by (auto simp: expire_def Let_def fold_expire_leases)
  with assms(3) have "le_scope_key m = k" by (auto split: if_splits)
  with assms(1) m(1) consider "le_attempt_id m = None"
    | i t where "le_attempt_id m = Some i" "le_expires_at m = Some t" "t \<le> now"
    by (cases "le_attempt_id m") auto
  then show ?thesis
  proof cases
    case 1
    with m(2) show ?thesis by (simp split: if_splits)
  next
    case (2 i t)
    then have "lease_expired now m" by (simp add: lease_expired_def julianday_mono)
    with m(1) 2(1) have "i \<in> set (expired_attempts now db)" by (force simp: expired_attempts_def)
    with m(2) 2(1) show ?thesis by simp
  qed
qed

lemma running_lease:
  assumes ok: "leases_ok db" and a: "a \<in> set (rt_attempts db)" "ra_status a = AttemptRunning"
  obtains l where "find_row le_attempt_id (Some (ra_attempt_id a)) (rt_leases db) = Some l"
    "l \<in> set (rt_leases db)" "le_fence l = ra_fence a" "attempt_scope db a = Some (le_scope_key l)"
proof -
  from ok a have "Some (ra_attempt_id a) \<in> le_attempt_id ` set (rt_leases db)"
    unfolding leases_ok_def running_held_def by force
  then obtain l where l: "find_row le_attempt_id (Some (ra_attempt_id a)) (rt_leases db) = Some l"
    using find_row_None [of le_attempt_id "Some (ra_attempt_id a)" "rt_leases db"] by auto
  from find_row_Some [OF l] ok obtain b where b: "b \<in> set (rt_attempts db)" "ra_attempt_id b = ra_attempt_id a"
    "ra_fence b = le_fence l" "attempt_scope db b = Some (le_scope_key l)"
    unfolding leases_ok_def holders_running_def by blast
  have "a = b" using attempt_unique [OF ok a(1) b(1)] b(2) by simp
  with b l find_row_Some [OF l] show thesis by (intro that [of l]) auto
qed

lemma start_attempt_free:
  assumes ok: "leases_ok db" and run: "find_run db (ru_run_id run) = Some w" "rw_run w = run"
    and free: "\<And>l. l \<in> set (rt_leases db) \<Longrightarrow> le_scope_key l = run_scope_key run \<Longrightarrow> le_attempt_id l = None"
    and guard: "attempt_guard run (latest_attempt db (ru_run_id run)) retry (rt_core db) = Inr ()"
    and fresh: "\<forall>a\<in>set (rt_attempts db). ra_attempt_id a \<noteq> fst ids \<and> ra_public_id a \<noteq> snd ids"
    and secs: "0 < ls"
  shows "\<exists>db' a. start_attempt run model now retry ls ids db = Inr (db', a) \<and>
    validate_fence db' (ra_attempt_id a) (ra_fence a) now = Inr a \<and>
    ra_attempt_number a = (case latest_attempt db (ru_run_id run) of None \<Rightarrow> 1 | Some p \<Rightarrow> ra_attempt_number p + 1)"
proof -
  let ?k = "run_scope_key run" and ?db1 = "ensure_lease (run_scope_key run) db"
  have "?k \<in> le_scope_key ` set (rt_leases ?db1)" by (auto simp: ensure_lease_set)
  then obtain l where l: "find_row le_scope_key ?k (rt_leases ?db1) = Some l"
    using find_row_None [of le_scope_key ?k "rt_leases ?db1"] by auto
  from find_row_Some [OF l] free have none: "le_attempt_id l = None"
    by (auto simp: ensure_lease_set split: if_splits)
  define a where "a = new_attempt run model now ids (le_fence l) (latest_attempt db (ru_run_id run))"
  define db' where "db' = hold_lease ?k a (now + ls * second) (?db1\<lparr>rt_attempts := rt_attempts db @ [a]\<rparr>)"
  have s: "start_attempt run model now retry ls ids db = Inr (db', a)"
    using fresh by (auto simp: start_attempt_def Let_def l none guard db'_def a_def new_attempt_def)
  note ok' = start_attempt_ok [OF ok run s]
  have A: "rt_attempts db' = rt_attempts db @ [a]" by (simp add: db'_def hold_lease_def)
  have run_a: "a \<in> set (rt_attempts db')" "ra_status a = AttemptRunning" "ra_attempt_id a = fst ids"
    by (simp_all add: A a_def new_attempt_def)
  from running_lease [OF ok' run_a(1,2)] obtain m where
    m: "find_row le_attempt_id (Some (ra_attempt_id a)) (rt_leases db') = Some m" "m \<in> set (rt_leases db')"
      "le_fence m = ra_fence a" "attempt_scope db' a = Some (le_scope_key m)" .
  have "attempt_scope db' a = Some ?k"
    using run by (simp add: attempt_scope_def db'_def hold_lease_def find_run_def a_def new_attempt_def ensure_lease_def)
  with m(2,4) have "le_expires_at m = Some (now + ls * second)" by (auto simp: db'_def hold_lease_def)
  moreover have "find_row ra_attempt_id (fst ids) (rt_attempts db) = None"
    using fresh by (auto simp: find_row_None)
  then have "get_attempt db' (ra_attempt_id a) = Inr a"
    by (simp add: get_attempt_def A find_row_append run_a(3))
  ultimately have "validate_fence db' (ra_attempt_id a) (ra_fence a) now = Inr a"
    using m(1,3) run_a(2) secs by (simp add: validate_fence_def second_def)
  with s show ?thesis by (auto simp: a_def new_attempt_def)
qed

text \<open>Expiry touches neither the schedules nor the occurrences, so a claim is authorised after it as before.\<close>

lemma expire_schedules [simp]:
  "rt_schedules (fst (expire now db)) = rt_schedules db" "rt_occurrences (fst (expire now db)) = rt_occurrences db"
  "rt_observations (fst (expire now db)) = rt_observations db"
proof -
  have "rt_schedules (fold (expire_attempt now) is db) = rt_schedules db \<and>
    rt_occurrences (fold (expire_attempt now) is db) = rt_occurrences db \<and>
    rt_observations (fold (expire_attempt now) is db) = rt_observations db" for "is"
    by (induction "is" arbitrary: db) (simp_all add: expire_attempt_def set_attempt_def release_lease_def)
  then show "rt_schedules (fst (expire now db)) = rt_schedules db" "rt_occurrences (fst (expire now db)) = rt_occurrences db"
    "rt_observations (fst (expire now db)) = rt_observations db" by (simp_all add: expire_def Let_def)
qed

lemma retry_authorised:
  assumes "\<forall>s\<in>set (scope_schedules db (run_scope_key run)). \<not> sc_paused s"
    and "ru_origin run = OriginScheduled \<Longrightarrow> \<exists>o' row s d. ru_occurrence_id run = Some o' \<and>
      find_row oc_occurrence_id o' (rt_occurrences db) = Some row \<and> oc_status row = OccurrenceClaimed \<and>
      latest_schedule db (oc_schedule_id row) = Some s \<and> occurrence_identity_matches run row (Some s) \<and>
      authority_reason db s now = None \<and> due_at s (ru_session_date run) = Inr (Some d)"
  obtains db2 where "validate_claim run now True (fst (expire now db)) = Inr db2"
proof -
  have frame: "scope_schedules (fst (expire now db)) = scope_schedules db" "latest_schedule (fst (expire now db)) = latest_schedule db"
    "authority_reason (fst (expire now db)) = authority_reason db"
    by (simp_all add: fun_eq_iff scope_schedules_def latest_schedule_def authority_reason_def observation_row_def)
  show thesis
  proof (cases "ru_origin run = OriginScheduled")
    case True
    with assms(2) obtain o' row s d where "ru_occurrence_id run = Some o'"
      "find_row oc_occurrence_id o' (rt_occurrences db) = Some row" "oc_status row = OccurrenceClaimed"
      "latest_schedule db (oc_schedule_id row) = Some s" "occurrence_identity_matches run row (Some s)"
      "authority_reason db s now = None" "due_at s (ru_session_date run) = Inr (Some d)" by blast
    with assms(1) True show thesis by (intro that) (simp add: validate_claim_def frame)
  next
    case False
    with assms(1) False show thesis by (intro that) (simp add: validate_claim_def frame)
  qed
qed

text \<open>
  C16. A crashed worker does not block its account. Once the lease of the account is free or its time
  has passed, a retry of a run prepared for today that has not completed is granted, whatever
  state the crash left, and its attempt passes the fence test at once. As for every claim the account must not be
  paused; and for a scheduled run the occurrence must be the one the crashed attempt claimed, on a session day, under a
  schedule whose latest revision still matches the run and is still authorised by its observer. A run of another day is
  refused as stale, crash or not, so the theorem says nothing of it.
\<close>

theorem crashed_worker_recovers:
  assumes "runtime_reachable db" and "find_run db i = Some w"
    and "ru_origin (rw_run w) = OriginScheduled \<Longrightarrow> \<exists>o' row s d. ru_occurrence_id (rw_run w) = Some o' \<and>
      find_row oc_occurrence_id o' (rt_occurrences db) = Some row \<and> oc_status row = OccurrenceClaimed \<and>
      latest_schedule db (oc_schedule_id row) = Some s \<and> occurrence_identity_matches (rw_run w) row (Some s) \<and>
      authority_reason db s now = None \<and> due_at s (ru_session_date (rw_run w)) = Inr (Some d)"
    and "\<forall>s\<in>set (scope_schedules db (run_scope_key (rw_run w))). \<not> sc_paused s"
    and "ru_prepared_at (rw_run w) \<le> now" and "ru_session_date (rw_run w) = ny_date now"
    and "latest_attempt db i = Some p" and "\<not> concluded p"
    and "\<forall>l\<in>set (rt_leases db). le_scope_key l = run_scope_key (rw_run w) \<longrightarrow>
      le_attempt_id l = None \<or> (\<exists>t. le_expires_at l = Some t \<and> t \<le> now)"
    and "\<not> blank model" and "10 \<le> seconds" and "seconds \<le> 3600"
    and "\<forall>a\<in>set (rt_attempts db). ra_attempt_id a \<noteq> fst ids \<and> ra_public_id a \<noteq> snd ids"
  shows "\<exists>db' a. claim i model now True seconds ids db = Inr (db', a) \<and>
    validate_fence db' (ra_attempt_id a) (ra_fence a) now = Inr a \<and>
    ra_attempt_number a = ra_attempt_number p + 1"
proof -
  let ?run = "rw_run w" and ?db1 = "fst (expire now db)"
  note ok1 = expire_ok [OF runtime_reachable_ok [OF assms(1)], of now]
  have id: "ru_run_id ?run = i" using find_row_Some [OF assms(2) [unfolded find_run_def]] by simp
  have w: "find_run ?db1 i = Some w" using assms(2) by (simp add: find_run_def)
  obtain db2 where v: "validate_claim ?run now True ?db1 = Inr db2" using assms(3) by (rule retry_authorised [OF assms(4)])
  from validate_claim_frame [OF v] have frame: "rt_runs db2 = rt_runs ?db1" "rt_attempts db2 = rt_attempts ?db1"
    "rt_leases db2 = rt_leases ?db1" "rt_core db2 = rt_core ?db1" and same: "same_leases ?db1 db2"
    by (auto simp: same_leases_def)
  have w2: "find_run db2 i = Some w" using w frame(1) by (simp add: find_run_def)
  have ok2: "leases_ok db2" using same_leases_ok [OF same] ok1 by simp
  have latest2: "latest_attempt db2 i = latest_attempt ?db1 i" using frame(2) by (simp add: latest_attempt_def)
  obtain q where q: "latest_attempt ?db1 i = Some q" "\<not> concluded q" "ra_attempt_number q = ra_attempt_number p"
    using assms(7,8) that [of "if ra_attempt_id p \<in> set (expired_attempts now db) then mark_expired now p else p"]
    by (simp add: latest_attempt_expire mark_expired_concluded mark_expired_number)
  then have g: "attempt_guard ?run (latest_attempt db2 (ru_run_id ?run)) True (rt_core db2) = Inr ()"
    by (simp add: attempt_guard_def id concluded_def latest2)
  have fresh: "\<forall>a\<in>set (rt_attempts db2). ra_attempt_id a \<noteq> fst ids \<and> ra_public_id a \<noteq> snd ids"
    using assms(13) by (auto simp: frame(2) expire_def Let_def fold_expire_attempts mark_expired_def)
  have "\<exists>db' a. start_attempt ?run model now True seconds ids db2 = Inr (db', a) \<and>
      validate_fence db' (ra_attempt_id a) (ra_fence a) now = Inr a \<and>
      ra_attempt_number a = (case latest_attempt db2 (ru_run_id ?run) of None \<Rightarrow> 1 | Some p \<Rightarrow> ra_attempt_number p + 1)"
    using assms(9,11) id w2 frame(3)
    by (intro start_attempt_free [OF ok2 _ refl _ g fresh]) (auto intro: expire_frees)
  moreover have "claim i model now True seconds ids db = start_attempt ?run model now True seconds ids db2"
    using assms(5,6,10-12) w v by (simp add: claim_def Let_def get_run_def)
  ultimately show ?thesis using q(1,3) id latest2 by auto
qed

section \<open>A sample history\<close>

text \<open>A manual paper run of Monday 2026-07-06, claimed at 10:00, left to expire, and claimed again.\<close>

definition sample_now :: instant where "sample_now = ny_combine (ymd 2026 7 6) (clock 10 0)"

definition sample_later :: instant where "sample_later = sample_now + 10 * minute"

definition sample_manual :: RuntimeRun where
  "sample_manual = \<lparr>ru_run_id = ''r1'', ru_mode = PaperMode, ru_account_id = ''paper'',
     ru_execution_profile_id = [], ru_session_date = ymd 2026 7 6, ru_slot = ''close'',
     ru_prepared_at = sample_now, ru_intake_path = ''in'', ru_intake_sha256 = ''aa'',
     ru_reasoning_run_id = None, ru_occurrence_id = None, ru_origin = OriginManual, ru_trigger_ids = []\<rparr>"

definition sample_saved :: runtime_db where
  "sample_saved = empty_runtime\<lparr>rt_runs := [\<lparr>rw_run = sample_manual, rw_public_id = ''p1''\<rparr>]\<rparr>"

definition first_claim :: "(runtime_db \<times> RuntimeAttempt) result" where
  "first_claim = claim ''r1'' ''m'' sample_now False 120 (''a1'', ''q1'') sample_saved"

definition claimed_db :: runtime_db where "claimed_db = fst (projr first_claim)"
definition first_attempt :: RuntimeAttempt where "first_attempt = snd (projr first_claim)"

definition second_claim :: "(runtime_db \<times> RuntimeAttempt) result" where
  "second_claim = claim ''r1'' ''m'' sample_later True 120 (''a2'', ''q2'') claimed_db"

definition reclaimed_db :: runtime_db where "reclaimed_db = fst (projr second_claim)"
definition second_attempt :: RuntimeAttempt where "second_attempt = snd (projr second_claim)"

definition completion :: "(runtime_db \<times> RuntimeAttempt) result" where
  "completion = finish ''a1'' 1 sample_now AttemptNoAction None (Some ''none'') claimed_db"

lemma sample_save: "save_run (\<lambda>_. Some (10, ''aa'')) sample_manual ''p1'' empty_runtime = Inr (sample_saved, ''p1'')"
  by code_simp

lemma sample_claims: "first_claim = Inr (claimed_db, first_attempt)" "second_claim = Inr (reclaimed_db, second_attempt)"
  "completion = Inr (fst (projr completion), snd (projr completion))"
  by code_simp+

lemma sample_saved_reachable: "runtime_reachable sample_saved"
  using runtime_reachable.step [OF runtime_reachable.start runtime_step.save [OF sample_save]] .

lemma claimed_step: "runtime_step sample_saved claimed_db"
  using sample_claims(1) unfolding first_claim_def by (rule runtime_step.claim)

lemma claimed_reachable: "runtime_reachable claimed_db"
  using runtime_reachable.step [OF sample_saved_reachable claimed_step] .

lemma leases_refine_lock_witness:
  "(lock_step sample_now None)\<^sup>*\<^sup>* (lock sample_saved ''paper/paper'') (lock claimed_db ''paper/paper'') \<and>
   lock claimed_db ''paper/paper'' = (1, Some (''a1'', Some (sample_now + 120 * second)))"
proof
  show "lock claimed_db ''paper/paper'' = (1, Some (''a1'', Some (sample_now + 120 * second)))" by code_simp
  have "clocked_step sample_now None sample_saved claimed_db"
    using sample_claims(1) unfolding first_claim_def by (rule clocked_step.claim)
  from leases_refine_lock [OF sample_saved_reachable this]
  show "(lock_step sample_now None)\<^sup>*\<^sup>* (lock sample_saved ''paper/paper'') (lock claimed_db ''paper/paper'')" by blast
qed

lemma one_holder_per_account_witness:
  "validate_fence claimed_db ''a1'' 1 sample_now = Inr first_attempt \<and> ra_fence first_attempt \<le> 1"
proof -
  have v: "validate_fence claimed_db ''a1'' 1 sample_now = Inr first_attempt" by code_simp
  have a: "first_attempt \<in> set (rt_attempts claimed_db)" using v by (auto elim: validate_fence_Inr)
  from one_holder_per_account [OF claimed_reachable v v refl] a v show ?thesis by blast
qed

lemma superseded_attempt_locked_out_witness:
  "\<exists>e. validate_fence reclaimed_db ''a1'' 1 sample_now = Inl e"
proof -
  have v: "validate_fence claimed_db ''a1'' 1 sample_now = Inr first_attempt" by code_simp
  then have a: "first_attempt \<in> set (rt_attempts claimed_db)" "ra_attempt_id first_attempt = ''a1''"
    by (auto elim: validate_fence_Inr)
  have c: "claim ''r1'' ''m'' sample_later True 120 (''a2'', ''q2'') claimed_db = Inr (reclaimed_db, second_attempt)"
    using sample_claims(2) by (simp add: second_claim_def)
  have "attempt_scope reclaimed_db second_attempt = attempt_scope claimed_db first_attempt" by code_simp
  from superseded_attempt_locked_out [OF claimed_reachable a(1) c this rtranclp.rtrancl_refl] a(2)
  show ?thesis by simp
qed

lemma run_completes_at_most_once_witness:
  "ra_attempt_number (snd (projr completion)) = int (length (run_attempts (fst (projr completion)) ''r1'')) \<and>
   concluded (snd (projr completion))"
proof -
  let ?db = "fst (projr completion)" and ?a = "snd (projr completion)"
  have "runtime_step claimed_db ?db"
    using sample_claims(3) unfolding completion_def by (rule runtime_step.finish)
  then have r: "runtime_reachable ?db" using claimed_reachable runtime_reachable.step by blast
  have c: "concluded ?a" "ra_run_id ?a = ''r1''" by code_simp+
  have "get_attempt ?db ''a1'' = Inr ?a" by code_simp
  then have "?a \<in> set (rt_attempts ?db)" by (auto simp: get_attempt_def split: option.splits dest: find_row_Some)
  from run_completes_at_most_once [OF r this c(1)] c show ?thesis by simp
qed

lemma crashed_worker_recovers_witness:
  "\<exists>db' a. claim ''r1'' ''m'' sample_later True 120 (''a2'', ''q2'') claimed_db = Inr (db', a) \<and>
     ra_attempt_number a = 2"
proof -
  have w: "find_run claimed_db ''r1'' = Some \<lparr>rw_run = sample_manual, rw_public_id = ''p1''\<rparr>" by code_simp
  have p: "latest_attempt claimed_db ''r1'' = Some first_attempt" by code_simp
  have nc: "\<not> concluded first_attempt" "ra_attempt_number first_attempt = 1" by code_simp+
  have paused: "\<forall>s\<in>set (scope_schedules claimed_db (run_scope_key sample_manual)). \<not> sc_paused s" by code_simp
  have time: "ru_prepared_at sample_manual \<le> sample_later" "ru_session_date sample_manual = ny_date sample_later"
    "ru_origin sample_manual \<noteq> OriginScheduled" by code_simp+
  have manual: "ru_origin sample_manual = OriginScheduled \<Longrightarrow> P" for P using time(3) by blast
  have "rt_leases claimed_db = [\<lparr>le_scope_key = ''paper/paper'', le_fence = 1, le_attempt_id = Some ''a1'',
      le_expires_at = Some (sample_now + 120 * second)\<rparr>]" by code_simp
  then have free: "\<forall>l\<in>set (rt_leases claimed_db). le_scope_key l = run_scope_key sample_manual \<longrightarrow>
      le_attempt_id l = None \<or> (\<exists>t. le_expires_at l = Some t \<and> t \<le> sample_later)"
    by (simp add: sample_later_def minute_def second_def)
  have fresh: "\<forall>a\<in>set (rt_attempts claimed_db). ra_attempt_id a \<noteq> fst (''a2'', ''q2'') \<and>
      ra_public_id a \<noteq> snd (''a2'', ''q2'')" by code_simp
  have "\<not> blank ''m''" by code_simp
  have rw_simp: "rw_run \<lparr>rw_run = sample_manual, rw_public_id = ''p1''\<rparr> = sample_manual" by simp
  note this = \<open>\<not> blank ''m''\<close>
  from crashed_worker_recovers [OF claimed_reachable w, unfolded rw_simp, OF manual paused time(1,2) p nc(1) free this,
      of 120 "(''a2'', ''q2'')"] fresh nc(2)
  show ?thesis by auto
qed

end
