(* ===== verification/ScheduleProperties.thy ===== *)
theory ScheduleProperties
  imports RuntimeProperties
begin

text \<open>
  Properties of the schedule authority: occurrences are unique, recording what is due again changes
  nothing, and a scheduled claim is made inside its window.
\<close>

section \<open>Occurrences keep their identity\<close>

definition occurrence_key :: "Occurrence \<Rightarrow> string \<times> string \<times> pydate" where
  "occurrence_key oc = (oc_occurrence_id oc, oc_schedule_id oc, oc_session_date oc)"

definition occurrences_unique :: "runtime_db \<Rightarrow> bool" where
  "occurrences_unique db = (distinct (map oc_occurrence_id (rt_occurrences db)) \<and>
     distinct (map (\<lambda>oc. (oc_schedule_id oc, oc_session_date oc)) (rt_occurrences db)))"

definition occurrence_runs_unique :: "runtime_db \<Rightarrow> bool" where
  "occurrence_runs_unique db = (\<forall>w\<in>set (rt_runs db). \<forall>q\<in>set (rt_runs db).
     ru_occurrence_id (rw_run w) \<noteq> None \<and> ru_occurrence_id (rw_run w) = ru_occurrence_id (rw_run q) \<longrightarrow> w = q)"

definition schedules_ok :: "runtime_db \<Rightarrow> bool" where
  "schedules_ok db = (occurrences_unique db \<and> occurrence_runs_unique db)"

lemma occurrences_unique_keys:
  assumes "map occurrence_key (rt_occurrences db') = map occurrence_key (rt_occurrences db)"
  shows "occurrences_unique db' = occurrences_unique db"
proof -
  have "map fst (map occurrence_key (rt_occurrences db')) = map fst (map occurrence_key (rt_occurrences db))"
    "map snd (map occurrence_key (rt_occurrences db')) = map snd (map occurrence_key (rt_occurrences db))"
    using assms by simp_all
  then show ?thesis by (simp add: occurrences_unique_def occurrence_key_def comp_def)
qed

lemma set_occurrence_keys:
  "(\<And>oc. occurrence_key (f oc) = occurrence_key oc) \<Longrightarrow>
     map occurrence_key (rt_occurrences (set_occurrence i f db)) = map occurrence_key (rt_occurrences db)"
  by (simp add: set_occurrence_def)

lemma occurrence_on_set:
  assumes "\<And>oc. occurrence_key (f oc) = occurrence_key oc"
  shows "occurrence_on (set_occurrence i f db) k d =
    map_option (\<lambda>oc. if oc_occurrence_id oc = i then f oc else oc) (occurrence_on db k d)"
proof -
  have "oc_schedule_id (f oc) = oc_schedule_id oc" "oc_session_date (f oc) = oc_session_date oc" for oc
    using assms [of oc] by (simp_all add: occurrence_key_def)
  then have "find (\<lambda>oc. oc_schedule_id oc = k \<and> oc_session_date oc = d)
      (map (\<lambda>oc. if oc_occurrence_id oc = i then f oc else oc) ocs) =
    map_option (\<lambda>oc. if oc_occurrence_id oc = i then f oc else oc)
      (find (\<lambda>oc. oc_schedule_id oc = k \<and> oc_session_date oc = d) ocs)" for ocs
    by (induction ocs) auto
  then show ?thesis by (simp add: occurrence_on_def set_occurrence_def)
qed

lemma occurrence_on_Some:
  "occurrence_on db k d = Some oc \<Longrightarrow> oc \<in> set (rt_occurrences db) \<and> oc_schedule_id oc = k \<and> oc_session_date oc = d"
  by (auto simp: occurrence_on_def find_Some_iff)

lemma insert_or_ignore_unique:
  assumes "occurrences_unique db"
  shows "occurrences_unique (db\<lparr>rt_occurrences := insert_or_ignore oc (rt_occurrences db)\<rparr>)"
  using assms by (auto simp: occurrences_unique_def insert_or_ignore_def)

lemma record_day_cases:
  assumes "record_day ids s now day (db, ready) = Inr (db', ready')"
  obtains (idle) "db' = db" "ready' = ready" "due_at s day = Inr None \<or> (\<exists>due. due_at s day = Inr (Some due) \<and>
      \<not> (sc_configured_at s \<le> due \<and> due \<le> now))"
  | (due) due fresh db1 row where "due_at s day = Inr (Some due)" "sc_configured_at s \<le> due" "due \<le> now"
      "db1 = db\<lparr>rt_occurrences := insert_or_ignore fresh (rt_occurrences db)\<rparr>"
      "oc_schedule_id fresh = sc_schedule_id s" "oc_session_date fresh = day"
      "occurrence_on db1 (sc_schedule_id s) day = Some row"
      "if oc_status row \<noteq> OccurrenceWaiting then db' = db1 \<and> ready' = ready
       else if expired_by s due day now then db' = set_occurrence (oc_occurrence_id row)
         (\<lambda>oc. oc\<lparr>oc_status := OccurrenceSkipped, oc_reason := Some ''grace_expired'', oc_observed_at := now\<rparr>) db1 \<and>
         ready' = ready
       else db' = db1 \<and> ready' = ready @ [oc_occurrence_id row]"
proof -
  from assms obtain d where d: "due_at s day = Inr d" by (auto simp: record_day_def result_simps)
  show thesis
  proof (cases d)
    case None
    with assms d show ?thesis by (intro idle) (auto simp: record_day_def)
  next
    case (Some t)
    show ?thesis
    proof (cases "sc_configured_at s \<le> t \<and> t \<le> now")
      case False
      with assms d Some show ?thesis by (intro idle) (auto simp: record_day_def split: if_splits)
    next
      case True
      let ?expired = "expired_by s t day now"
      let ?fresh = "\<lparr>oc_occurrence_id = fst (ids day), oc_public_id = snd (ids day),
        oc_schedule_id = sc_schedule_id s, oc_revision = sc_revision s, oc_session_date = day, oc_due_at = t,
        oc_status = (if ?expired then OccurrenceSkipped else OccurrenceWaiting),
        oc_reason = (if ?expired then Some ''grace_expired'' else None), oc_observed_at = now\<rparr>"
      let ?db1 = "db\<lparr>rt_occurrences := insert_or_ignore ?fresh (rt_occurrences db)\<rparr>"
      from assms d Some True obtain row where row: "occurrence_on ?db1 (sc_schedule_id s) day = Some row"
        by (auto simp: record_day_def Let_def split: option.splits)
      with assms d Some True show ?thesis
        by (intro due [of t ?db1 ?fresh row]) (auto simp: record_day_def Let_def split: if_splits)
    qed
  qed
qed

lemma record_day_unique:
  assumes "record_day ids s now day (db, ready) = Inr (db', ready')" and u: "occurrences_unique db"
  shows "occurrences_unique db'"
  using assms(1)
proof (cases rule: record_day_cases)
  case idle
  with u show ?thesis by simp
next
  case (due d fresh db1 row)
  let ?skip = "\<lambda>oc. oc\<lparr>oc_status := OccurrenceSkipped, oc_reason := Some ''grace_expired'', oc_observed_at := now\<rparr>"
  have "occurrences_unique db1" unfolding due(4) by (rule insert_or_ignore_unique [OF u])
  moreover from this have "occurrences_unique (set_occurrence j ?skip db1)" for j
    using occurrences_unique_keys [OF set_occurrence_keys [of ?skip]] by (simp add: occurrence_key_def)
  ultimately show ?thesis using due(8) by (auto split: if_splits)
qed

lemma record_days_unique:
  "record_days ids s now day st = Inr st' \<Longrightarrow> occurrences_unique (fst st) \<Longrightarrow> occurrences_unique (fst st')"
  by (erule record_days_invariant [where P = "\<lambda>st. occurrences_unique (fst st)"])
    (auto dest: record_day_unique)

definition first_day :: "runtime_db \<Rightarrow> string \<Rightarrow> ScheduleRevision \<Rightarrow> pydate" where
  "first_day db i s = (case last_recorded db i of Some d \<Rightarrow> d
     | None \<Rightarrow> ny_date (sc_configured_at s))"

lemma latest_schedule_id: "latest_schedule db i = Some s \<Longrightarrow> sc_schedule_id s = i"
  by (auto simp: latest_schedule_def dest: greatest_Some)

lemma record_due_Inr:
  assumes "record_due ids i now db = Inr (db', ready)"
  obtains (blocked) s where "latest_schedule db i = Some s" "authority_reason db s now \<noteq> None" "db' = db" "ready = []"
  | (run) s where "latest_schedule db i = Some s" "sc_schedule_id s = i" "authority_reason db s now = None"
      "record_days ids s now (first_day db i s) (db, []) = Inr (db', ready)"
proof -
  from assms obtain s where s: "latest_schedule db i = Some s" by (auto simp: record_due_def split: option.splits)
  note id = latest_schedule_id [OF s]
  show thesis
  proof (cases "authority_reason db s now")
    case None
    with assms s id show ?thesis by (intro run [of s]) (simp_all add: record_due_def first_day_def)
  next
    case (Some r)
    with assms s show ?thesis by (intro blocked [of s]) (simp_all add: record_due_def)
  qed
qed

lemma revise_keys: "revise_occurrence r oc = Inr oc' \<Longrightarrow> occurrence_key oc' = occurrence_key oc"
  by (auto simp: revise_occurrence_def occurrence_key_def result_simps split: if_splits)

lemma map_result_keys:
  "map_result (revise_occurrence r) ocs = Inr ocs' \<Longrightarrow> map occurrence_key ocs' = map occurrence_key ocs"
  by (induction ocs arbitrary: ocs') (auto simp: result_simps dest: revise_keys)

lemma save_schedule_unique:
  assumes "save_schedule r profile db = Inr db'"
  shows "occurrences_unique db' = occurrences_unique db"
proof (rule occurrences_unique_keys)
  show "map occurrence_key (rt_occurrences db') = map occurrence_key (rt_occurrences db)"
    using assms by (auto simp: save_schedule_def Let_def result_simps dest: map_result_keys split: if_splits)
qed

lemma claim_unique:
  assumes c: "claim i model now retry ls ids db = Inr (db', a)"
  shows "occurrences_unique db' = occurrences_unique db"
  using c
proof (rule claim_Inr)
  fix w db2
  assume v: "validate_claim (rw_run w) now retry (fst (expire now db)) = Inr db2"
    and s: "start_attempt (rw_run w) model now retry ls ids db2 = Inr (db', a)"
  have "rt_occurrences db' = rt_occurrences db2"
    using s by (rule start_attempt_Inr) (simp add: hold_lease_def)
  moreover have "map occurrence_key (rt_occurrences db2) = map occurrence_key (rt_occurrences db)"
    using v by (auto simp: validate_claim_def Let_def result_simps set_occurrence_def occurrence_key_def
        split: if_splits option.splits)
  ultimately show ?thesis by (intro occurrences_unique_keys) simp
qed

lemma step_occurrences_unique:
  assumes "runtime_step db db'" and u: "occurrences_unique db"
  shows "occurrences_unique db'"
  using assms(1)
proof cases
  case (save files run pid p)
  have "rt_occurrences db' = rt_occurrences db" using save_run_Inr [OF save] by auto
  with u show ?thesis by (simp add: occurrences_unique_def)
next
  case (claim i model now retry seconds ids a)
  then show ?thesis using claim_unique u by blast
next
  case (heartbeat i fence now stage seconds a)
  then have "rt_occurrences db' = rt_occurrences db"
    by (auto simp: heartbeat_def Let_def result_simps split: if_splits)
  with u show ?thesis by (simp add: occurrences_unique_def)
next
  case (finish i fence now status reason summary_text a)
  then have "rt_occurrences db' = rt_occurrences db" by (rule finish_Inr) simp
  with u show ?thesis by (simp add: occurrences_unique_def)
next
  case (observe o')
  then have "rt_occurrences db' = rt_occurrences db" by (auto simp: observe_def split: if_splits option.splits)
  with u show ?thesis by (simp add: occurrences_unique_def)
next
  case (due fresh schedule now ready)
  then show ?thesis
  proof (cases rule: record_due_Inr)
    case (run s)
    with u record_days_unique [OF run(4)] show ?thesis by simp
  qed (use u in simp)
next
  case (missing i now)
  have "map occurrence_key (rt_occurrences db') = map occurrence_key (rt_occurrences db)"
    unfolding missing mark_dependency_missing_def by (rule set_occurrence_keys) (simp add: occurrence_key_def)
  with u occurrences_unique_keys show ?thesis by blast
next
  case (overlap scope now i)
  have "map occurrence_key (rt_occurrences db') = map occurrence_key (rt_occurrences db)"
    unfolding overlap skip_overlapping_def by (rule set_occurrence_keys) (simp add: occurrence_key_def)
  with u occurrences_unique_keys show ?thesis by blast
qed (use u save_schedule_unique in \<open>auto simp: occurrences_unique_def\<close>)

lemma runtime_reachable_schedules: "runtime_reachable db \<Longrightarrow> schedules_ok db"
proof (induction rule: runtime_reachable.induct)
  case start
  then show ?case
    by (simp add: schedules_ok_def occurrences_unique_def occurrence_runs_unique_def empty_runtime_def)
next
  case (step db db')
  then have u: "occurrences_unique db'" using step_occurrences_unique unfolding schedules_ok_def by blast
  have r: "occurrence_runs_unique db" using step.IH by (simp add: schedules_ok_def)
  from step.hyps(2) have "rt_runs db' = rt_runs db \<or> (\<exists>row. rt_runs db' = rt_runs db @ [row] \<and>
      (\<forall>q\<in>set (rt_runs db). \<not> run_clash row q))"
  proof cases
    case (save files run pid p)
    show ?thesis using save_run_Inr [OF save] by auto
  next
    case (claim i model now retry seconds ids a)
    then show ?thesis
    proof (rule claim_Inr)
      fix w db2
      assume v: "validate_claim (rw_run w) now retry (fst (Leases.expire now db)) = Inr db2"
        and s: "start_attempt (rw_run w) model now retry seconds ids db2 = Inr (db', a)"
      have "rt_runs db' = rt_runs db2" using s by (rule start_attempt_Inr) (simp add: hold_lease_def)
      with validate_claim_frame [OF v] show ?thesis by (simp add: same_leases_def)
    qed
  next
    case (heartbeat i fence now stage seconds a)
    then show ?thesis by (auto simp: heartbeat_def Let_def result_simps split: if_splits)
  next
    case (finish i fence now status reason summary_text a)
    then show ?thesis by (rule finish_Inr) simp
  qed (auto simp: mark_dependency_missing_def skip_overlapping_def set_occurrence_def same_leases_def
      dest!: save_schedule_leases observe_leases record_due_leases)
  then show ?case
  proof
    assume "rt_runs db' = rt_runs db"
    with u r show ?thesis by (simp add: schedules_ok_def occurrence_runs_unique_def)
  next
    assume "\<exists>row. rt_runs db' = rt_runs db @ [row] \<and> (\<forall>q\<in>set (rt_runs db). \<not> run_clash row q)"
    then obtain row where row: "rt_runs db' = rt_runs db @ [row]" "\<forall>q\<in>set (rt_runs db). \<not> run_clash row q" by blast
    have "occurrence_runs_unique db'"
      unfolding occurrence_runs_unique_def row(1)
    proof (intro ballI impI)
      fix w q assume w: "w \<in> set (rt_runs db @ [row])" and q: "q \<in> set (rt_runs db @ [row])"
        and e: "ru_occurrence_id (rw_run w) \<noteq> None \<and> ru_occurrence_id (rw_run w) = ru_occurrence_id (rw_run q)"
      have no: "x = row" if "x \<in> set (rt_runs db @ [row])" "ru_occurrence_id (rw_run x) = ru_occurrence_id (rw_run row)"
          "ru_occurrence_id (rw_run row) \<noteq> None" for x
        using that row(2) unfolding run_clash_def by auto
      show "w = q"
      proof (cases "w = row \<or> q = row")
        case True
        with no w q e show ?thesis by metis
      next
        case False
        with w q e r show ?thesis unfolding occurrence_runs_unique_def by auto
      qed
    qed
    with u show ?thesis by (simp add: schedules_ok_def)
  qed
qed

text \<open>
  A session of a schedule is authored by one run: in a reachable state no two runs reserve
  occurrences of the same schedule for the same session day.
\<close>

theorem one_run_per_session:
  assumes "runtime_reachable db" and "w \<in> set (rt_runs db)" and "q \<in> set (rt_runs db)"
    and "oc \<in> set (rt_occurrences db)" and "ru_occurrence_id (rw_run w) = Some (oc_occurrence_id oc)"
    and "pc \<in> set (rt_occurrences db)" and "ru_occurrence_id (rw_run q) = Some (oc_occurrence_id pc)"
    and "oc_schedule_id oc = oc_schedule_id pc" and "oc_session_date oc = oc_session_date pc"
  shows "w = q"
proof -
  note ok = runtime_reachable_schedules [OF assms(1)]
  then have "oc = pc"
    using assms(4,6,8,9) unfolding schedules_ok_def occurrences_unique_def distinct_map inj_on_def by blast
  with ok assms(2,3,5,7) show ?thesis unfolding schedules_ok_def occurrence_runs_unique_def by simp
qed

section \<open>Recording what is due\<close>

text \<open>A day is settled when \<open>record_due\<close> has nothing left to do on it.\<close>

definition settled_day :: "ScheduleRevision \<Rightarrow> instant \<Rightarrow> runtime_db \<Rightarrow> pydate \<Rightarrow> bool" where
  "settled_day s now db day = (case due_at s day of Inl _ \<Rightarrow> False | Inr None \<Rightarrow> True
   | Inr (Some due) \<Rightarrow> \<not> (sc_configured_at s \<le> due \<and> due \<le> now) \<or>
       (\<exists>row. occurrence_on db (sc_schedule_id s) day = Some row \<and>
          (oc_status row = OccurrenceWaiting \<longrightarrow> \<not> expired_by s due day now)))"

definition ready_on :: "ScheduleRevision \<Rightarrow> instant \<Rightarrow> runtime_db \<Rightarrow> pydate \<Rightarrow> string list" where
  "ready_on s now db day = (case due_at s day of Inr (Some due) \<Rightarrow>
       (if sc_configured_at s \<le> due \<and> due \<le> now then
          (case occurrence_on db (sc_schedule_id s) day of Some row \<Rightarrow>
             if oc_status row = OccurrenceWaiting then [oc_occurrence_id row] else [] | None \<Rightarrow> [])
        else [])
   | _ \<Rightarrow> [])"

lemma insert_or_ignore_present:
  "occurrence_on db (oc_schedule_id oc) (oc_session_date oc) = Some row \<Longrightarrow>
     insert_or_ignore oc (rt_occurrences db) = rt_occurrences db"
  by (auto simp: insert_or_ignore_def dest!: occurrence_on_Some)

lemma record_day_settled:
  assumes "settled_day s now db day"
  shows "record_day ids s now day (db, r) = Inr (db, r @ ready_on s now db day)"
proof -
  from assms obtain d where d: "due_at s day = Inr d" by (auto simp: settled_day_def split: sum.splits)
  show ?thesis
  proof (cases d)
    case None
    with d show ?thesis by (simp add: record_day_def ready_on_def)
  next
    case (Some due)
    show ?thesis
    proof (cases "sc_configured_at s \<le> due \<and> due \<le> now")
      case False
      with d Some show ?thesis by (auto simp: record_day_def ready_on_def)
    next
      case True
      with assms d Some obtain row where row: "occurrence_on db (sc_schedule_id s) day = Some row"
        "oc_status row = OccurrenceWaiting \<longrightarrow> \<not> expired_by s due day now"
        by (auto simp: settled_day_def)
      have same: "db\<lparr>rt_occurrences := rt_occurrences db\<rparr> = db" by simp
      show ?thesis
        using d Some True row insert_or_ignore_present [of db _ row]
        by (auto simp: record_day_def ready_on_def Let_def same)
    qed
  qed
qed

lemma record_days_settled:
  "\<forall>d. day \<le> d \<and> d \<le> ny_date now \<longrightarrow> settled_day s now db d \<Longrightarrow>
     record_days ids s now day (db, r) = Inr (db, r @ concat (map (ready_on s now db) [day..ny_date now]))"
proof (induction "nat (ny_date now + 1 - day)" arbitrary: day r)
  case 0
  then show ?case by (simp add: record_days.simps [of ids s now day])
next
  case (Suc n)
  then have le: "day \<le> ny_date now" by simp
  with Suc.prems have "record_day ids s now day (db, r) = Inr (db, r @ ready_on s now db day)"
    by (intro record_day_settled) simp
  moreover have "record_days ids s now (day + 1) (db, r @ ready_on s now db day) =
      Inr (db, (r @ ready_on s now db day) @ concat (map (ready_on s now db) [day + 1..ny_date now]))"
    using Suc.hyps(2) Suc.prems by (intro Suc.hyps(1)) auto
  ultimately show ?case using le by (simp add: record_days.simps [of ids s now day] upto_rec1)
qed

lemma occurrence_on_append:
  "oc_session_date oc \<noteq> d \<or> oc_schedule_id oc \<noteq> k \<Longrightarrow>
     occurrence_on (db\<lparr>rt_occurrences := insert_or_ignore oc (rt_occurrences db)\<rparr>) k d = occurrence_on db k d"
proof -
  assume ne: "oc_session_date oc \<noteq> d \<or> oc_schedule_id oc \<noteq> k"
  have "find P (xs @ [oc]) = find P xs" if "\<not> P oc" for P and xs
    using that by (induction xs) auto
  with ne show ?thesis by (auto simp: occurrence_on_def insert_or_ignore_def)
qed

lemma insert_or_ignore_keeps:
  "occurrence_on db k d \<noteq> None \<Longrightarrow>
     occurrence_on (db\<lparr>rt_occurrences := insert_or_ignore oc (rt_occurrences db)\<rparr>) k d \<noteq> None"
  by (auto simp: occurrence_on_def insert_or_ignore_def find_None_iff)

lemma record_day_settles:
  assumes "record_day ids s now day (db, r) = Inr (db', r')" and u: "occurrences_unique db"
  shows "settled_day s now db' day \<and> r' = r @ ready_on s now db' day \<and>
    (\<forall>d. d \<noteq> day \<longrightarrow> occurrence_on db' (sc_schedule_id s) d = occurrence_on db (sc_schedule_id s) d) \<and>
    (\<forall>d. occurrence_on db (sc_schedule_id s) d \<noteq> None \<longrightarrow> occurrence_on db' (sc_schedule_id s) d \<noteq> None)"
  using assms(1)
proof (cases rule: record_day_cases)
  case idle
  then show ?thesis by (auto simp: settled_day_def ready_on_def)
next
  case (due t fresh db1 row)
  let ?k = "sc_schedule_id s"
  have other: "occurrence_on db1 ?k d = occurrence_on db ?k d" if "d \<noteq> day" for d
    unfolding due(4) using due(6) that by (intro occurrence_on_append) simp
  have keep: "occurrence_on db1 ?k d \<noteq> None" if "occurrence_on db ?k d \<noteq> None" for d
    unfolding due(4) using that by (rule insert_or_ignore_keeps)
  show ?thesis
  proof (cases "oc_status row = OccurrenceWaiting \<and> expired_by s t day now")
    case False
    with due(8) have "db' = db1" by (auto split: if_splits)
    with False due other keep show ?thesis by (auto simp: settled_day_def ready_on_def split: if_splits)
  next
    case True
    let ?skip = "\<lambda>oc. oc\<lparr>oc_status := OccurrenceSkipped, oc_reason := Some ''grace_expired'', oc_observed_at := now\<rparr>"
    from True due(8) have db': "db' = set_occurrence (oc_occurrence_id row) ?skip db1" and r': "r' = r" by simp_all
    have on: "occurrence_on db' ?k d = map_option (\<lambda>oc. if oc_occurrence_id oc = oc_occurrence_id row
        then ?skip oc else oc) (occurrence_on db1 ?k d)" for d
      unfolding db' by (rule occurrence_on_set) (simp add: occurrence_key_def)
    have u1: "occurrences_unique db1" unfolding due(4) by (rule insert_or_ignore_unique [OF u])
    have "occurrence_on db' ?k d = occurrence_on db1 ?k d" if d: "d \<noteq> day" for d
    proof (cases "occurrence_on db1 ?k d")
      case (Some q)
      with occurrence_on_Some [OF Some] occurrence_on_Some [OF due(7)] d u1
      have "oc_occurrence_id q \<noteq> oc_occurrence_id row"
        unfolding occurrences_unique_def distinct_map inj_on_def by metis
      with Some on show ?thesis by simp
    qed (simp add: on)
    moreover have "occurrence_on db' ?k day = Some (?skip row)" using on due(7) by simp
    ultimately show ?thesis using due r' other keep on by (auto simp: settled_day_def ready_on_def)
  qed
qed

lemma day_facts_cong:
  "occurrence_on db' (sc_schedule_id s) d = occurrence_on db (sc_schedule_id s) d \<Longrightarrow>
     settled_day s now db' d = settled_day s now db d \<and> ready_on s now db' d = ready_on s now db d"
  unfolding settled_day_def ready_on_def by presburger

lemma record_days_settles:
  "record_days ids s now day (db, r) = Inr (db', r') \<Longrightarrow> occurrences_unique db \<Longrightarrow>
     (\<forall>d. day \<le> d \<and> d \<le> ny_date now \<longrightarrow> settled_day s now db' d) \<and>
     r' = r @ concat (map (ready_on s now db') [day..ny_date now]) \<and>
     (\<forall>d. \<not> (day \<le> d \<and> d \<le> ny_date now) \<longrightarrow>
        occurrence_on db' (sc_schedule_id s) d = occurrence_on db (sc_schedule_id s) d) \<and>
     (\<forall>d. occurrence_on db (sc_schedule_id s) d \<noteq> None \<longrightarrow> occurrence_on db' (sc_schedule_id s) d \<noteq> None)"
proof (induction "nat (ny_date now + 1 - day)" arbitrary: day db r)
  case 0
  then show ?case by (auto simp: record_days.simps [of ids s now day])
next
  case (Suc n)
  then have le: "day \<le> ny_date now" by simp
  with Suc.prems(1) obtain db1 r1 where one: "record_day ids s now day (db, r) = Inr (db1, r1)"
    and rest: "record_days ids s now (day + 1) (db1, r1) = Inr (db', r')"
    by (auto simp: record_days_step [of ids s now day])
  note day1 = record_day_settles [OF one Suc.prems(2)]
  note IH = Suc.hyps(1) [OF _ rest record_day_unique [OF one Suc.prems(2)]]
  have n: "n = nat (ny_date now + 1 - (day + 1))" using Suc.hyps(2) by simp
  note ih = IH [OF n]
  have same: "occurrence_on db' (sc_schedule_id s) day = occurrence_on db1 (sc_schedule_id s) day" using ih by auto
  note cong = day_facts_cong [OF same]
  have "settled_day s now db' d" if "day \<le> d" "d \<le> ny_date now" for d
  proof (cases "d = day")
    case True
    with day1 cong [of now] show ?thesis by simp
  next
    case False
    with that ih show ?thesis by simp
  qed
  moreover have "r' = r @ concat (map (ready_on s now db') [day..ny_date now])"
    using ih day1 cong [of now] le by (simp add: upto_rec1)
  moreover have "occurrence_on db' (sc_schedule_id s) d = occurrence_on db (sc_schedule_id s) d"
    if "\<not> (day \<le> d \<and> d \<le> ny_date now)" for d
  proof -
    have "d \<noteq> day" "\<not> (day + 1 \<le> d \<and> d \<le> ny_date now)" using that le by auto
    with ih day1 show ?thesis by simp
  qed
  moreover have "occurrence_on db' (sc_schedule_id s) d \<noteq> None" if "occurrence_on db (sc_schedule_id s) d \<noteq> None" for d
    using ih day1 that by blast
  ultimately show ?case by blast
qed

lemma last_recorded_Some:
  assumes "last_recorded db i = Some d"
  shows "occurrence_on db i d \<noteq> None" and "\<And>e. occurrence_on db i e \<noteq> None \<Longrightarrow> e \<le> d"
proof -
  from assms obtain oc where oc: "greatest oc_session_date (filter (\<lambda>oc. oc_schedule_id oc = i) (rt_occurrences db)) = Some oc"
    and d: "oc_session_date oc = d" by (auto simp: last_recorded_def)
  from greatest_Some [OF oc] d show "occurrence_on db i d \<noteq> None"
    by (auto simp: occurrence_on_def find_None_iff)
  show "e \<le> d" if "occurrence_on db i e \<noteq> None" for e
    using that greatest_Some [OF oc] d by (auto dest!: occurrence_on_Some)
qed

lemma last_recorded_None: "last_recorded db i = None \<Longrightarrow> occurrence_on db i e = None"
  by (auto simp: last_recorded_def occurrence_on_def find_None_iff filter_empty_conv)

lemma ready_on_past: "settled_day s now db d \<Longrightarrow> d < ny_date now \<Longrightarrow> ready_on s now db d = []"
  by (auto simp: settled_day_def ready_on_def expired_by_def split: sum.splits option.splits)

lemma ready_today:
  assumes "\<forall>d. day \<le> d \<and> d \<le> ny_date now \<longrightarrow> settled_day s now db d" and "day \<le> ny_date now"
  shows "concat (map (ready_on s now db) [day..ny_date now]) = ready_on s now db (ny_date now)"
proof -
  have "ready_on s now db d = []" if "d \<in> set [day..ny_date now - 1]" for d
    using that assms(1) by (intro ready_on_past) auto
  then have "concat (map (ready_on s now db) [day..ny_date now - 1]) = []" by simp
  then show ?thesis using assms(2) by (simp add: upto_rec2)
qed

lemma record_days_frame:
  assumes "record_days ids s now day (db, r) = Inr st'"
  shows "rt_schedules (fst st') = rt_schedules db \<and> rt_observations (fst st') = rt_observations db"
proof (rule record_days_invariant [OF assms, where P = "\<lambda>st. rt_schedules (fst st) = rt_schedules db \<and>
    rt_observations (fst st) = rt_observations db"])
  fix d and a b :: "runtime_db \<times> string list"
  assume a: "rt_schedules (fst a) = rt_schedules db \<and> rt_observations (fst a) = rt_observations db"
    and b: "record_day ids s now d a = Inr b"
  obtain x y x' y' where "a = (x, y)" "b = (x', y')" by (cases a, cases b)
  with b have "record_day ids s now d (x, y) = Inr (x', y')" by simp
  then have "rt_schedules x' = rt_schedules x \<and> rt_observations x' = rt_observations x"
    by (cases rule: record_day_cases) (auto simp: set_occurrence_def split: if_splits)
  with a \<open>a = (x, y)\<close> \<open>b = (x', y')\<close>
  show "rt_schedules (fst b) = rt_schedules db \<and> rt_observations (fst b) = rt_observations db" by simp
qed simp

text \<open>
  Recording what is due is idempotent: in a reachable state, a second \<open>record_due\<close> at the same
  instant, whatever identifiers it draws, reports the same occurrences as ready and changes nothing.
\<close>

theorem record_due_idempotent:
  assumes "runtime_reachable db" and "record_due ids i now db = Inr (db', ready)"
  shows "record_due ids' i now db' = Inr (db', ready)"
  using assms(2)
proof (cases rule: record_due_Inr)
  case (blocked s)
  then show ?thesis by (auto simp: record_due_def)
next
  case (run s)
  have u: "occurrences_unique db" using runtime_reachable_schedules [OF assms(1)] by (simp add: schedules_ok_def)
  let ?start = "first_day db i s" and ?start' = "first_day db' i s"
  note st = record_days_settles [OF run(4) u, unfolded run(2)]
  from record_days_frame [OF run(4)] have f: "rt_schedules db' = rt_schedules db"
    "rt_observations db' = rt_observations db" by simp_all
  have "authority_reason db' s now = authority_reason db s now"
    unfolding authority_reason_def observation_row_def f ..
  moreover have "latest_schedule db' i = latest_schedule db i" unfolding latest_schedule_def f ..
  ultimately have "latest_schedule db' i = Some s" "authority_reason db' s now = None" using run(1,3) by simp_all
  then have again: "record_due ids' i now db' = record_days ids' s now ?start' (db', [])"
    by (simp add: record_due_def first_day_def)
  show ?thesis
  proof (cases "?start \<le> ny_date now")
    case False
    then have "db' = db" "ready = []" using run(4) by (simp_all add: record_days.simps [of ids s now ?start])
    with False again show ?thesis by (simp add: record_days.simps [of ids' s now ?start])
  next
    case True
    have "?start \<le> ?start' \<and> ?start' \<le> ny_date now"
    proof (cases "last_recorded db' i")
      case None
      have "last_recorded db i = None"
      proof (rule ccontr)
        assume "last_recorded db i \<noteq> None"
        then obtain d where "last_recorded db i = Some d" by auto
        with last_recorded_Some(1) st last_recorded_None [OF None] show False by blast
      qed
      with None True show ?thesis by (simp add: first_day_def)
    next
      case (Some e)
      note e = last_recorded_Some [OF Some]
      have "?start \<le> e"
      proof (cases "last_recorded db i")
        case None
        with e(1) st last_recorded_None [OF None, of e] show ?thesis by metis
      next
        case (Some d)
        with last_recorded_Some(1) [OF Some] st e(2) show ?thesis by (auto simp: first_day_def)
      qed
      moreover have "e \<le> ny_date now"
      proof (rule ccontr)
        assume "\<not> e \<le> ny_date now"
        with st e(1) have "occurrence_on db i e \<noteq> None" by auto
        then have "e \<le> ?start"
          using last_recorded_Some(2) last_recorded_None by (cases "last_recorded db i") (auto simp: first_day_def)
        with True \<open>\<not> e \<le> ny_date now\<close> show False by simp
      qed
      ultimately show ?thesis using Some by (simp add: first_day_def)
    qed
    then have range: "?start \<le> ?start'" "?start' \<le> ny_date now" by simp_all
    have settled: "\<forall>d. ?start' \<le> d \<and> d \<le> ny_date now \<longrightarrow> settled_day s now db' d" using st range by auto
    have "record_days ids' s now ?start' (db', []) = Inr (db', ready_on s now db' (ny_date now))"
      using record_days_settled [OF settled, of ids' "[]"] ready_today [OF settled range(2)] by simp
    moreover have "ready = ready_on s now db' (ny_date now)"
      using st ready_today [of ?start now s db'] True by simp
    ultimately show ?thesis using again by simp
  qed
qed

section \<open>Scheduled claims\<close>

text \<open>
  C17. A scheduled claim is inside its authority: when a claim of a scheduled run succeeds, its
  occurrence belongs to an enabled schedule of the same account and profile that is not paused, for
  today's session and slot, and was waiting or claimed; the scheduler was observed on its current
  revision no longer ago than the schedule allows; and unless it retries a claimed occurrence, the
  occurrence was due and its grace period had not passed.
\<close>

theorem scheduled_claim_authorised:
  assumes "claim i model now retry seconds ids db = Inr (db', a)" and "find_run db i = Some w"
    and "ru_origin (rw_run w) = OriginScheduled"
  shows "\<exists>oc s o'. ru_occurrence_id (rw_run w) = Some (oc_occurrence_id oc) \<and> oc \<in> set (rt_occurrences db) \<and>
    latest_schedule db (oc_schedule_id oc) = Some s \<and> \<not> sc_paused s \<and> sc_enabled s \<and>
    sc_schedule_mode s = ScheduleScheduled \<and> schedule_account s =
      (ru_mode (rw_run w), ru_account_id (rw_run w), ru_execution_profile_id (rw_run w)) \<and>
    oc_session_date oc = ny_date now \<and> ru_slot (rw_run w) = sc_slot s \<and>
    observation_row db (sc_schedule_id s) = Some o' \<and> so_revision o' = sc_revision s \<and> so_enabled o' \<and>
    so_observed_at o' \<le> now \<and> now \<le> so_observed_at o' + sc_observer_max_age_seconds s * second \<and>
    oc_status oc \<noteq> OccurrenceSkipped \<and>
    (\<not> (retry \<and> oc_status oc = OccurrenceClaimed) \<longrightarrow>
       oc_due_at oc \<le> now \<and> now \<le> grace_end s (oc_due_at oc))"
  using assms(1)
proof (rule claim_Inr)
  fix w2 db2
  assume "find_run db i = Some w2" and today: "ru_session_date (rw_run w2) = ny_date now"
    and v: "validate_claim (rw_run w2) now retry (fst (expire now db)) = Inr db2"
  with assms(2) have w: "w2 = w" by simp
  let ?r = "rw_run w" and ?db = "fst (expire now db)"
  from v [unfolded w] assms(3) obtain oi oc where oc: "ru_occurrence_id ?r = Some oi"
      "find_row oc_occurrence_id oi (rt_occurrences db) = Some oc"
    by (auto simp: validate_claim_def Let_def split: if_splits option.splits)
  with v [unfolded w] assms(3) obtain s where s: "latest_schedule ?db (oc_schedule_id oc) = Some s"
      "occurrence_identity_matches ?r oc (Some s)"
    by (auto simp: validate_claim_def Let_def occurrence_identity_matches_def split: if_splits option.splits)
  from v [unfolded w] assms(3) oc s have auth: "authority_reason ?db s now = None"
    by (auto simp: validate_claim_def Let_def split: if_splits option.splits)
  with v [unfolded w] assms(3) oc s have elig: "oc_status oc \<in> {OccurrenceWaiting, OccurrenceClaimed}"
      "\<not> (retry \<and> oc_status oc = OccurrenceClaimed) \<longrightarrow> oc_due_at oc \<le> now \<and> now \<le> grace_end s (oc_due_at oc)"
    by (auto simp: validate_claim_def Let_def result_simps split: if_splits)
  from auth obtain o' where o': "observation_row db (sc_schedule_id s) = Some o'" "so_revision o' = sc_revision s"
      "so_enabled o'" "so_observed_at o' \<le> now" "now \<le> so_observed_at o' + sc_observer_max_age_seconds s * second"
      "\<not> sc_paused s" "sc_enabled s" "sc_schedule_mode s \<noteq> ScheduleManual"
    by (auto simp: authority_reason_def observation_row_def Let_def split: if_splits option.splits)
  have "sc_schedule_mode s = ScheduleScheduled" using o'(8) by (cases "sc_schedule_mode s") auto
  moreover have "latest_schedule db (oc_schedule_id oc) = Some s" using s(1) by (simp add: latest_schedule_def)
  ultimately show ?thesis
    using find_row_Some [OF oc(2)] oc(1) s(2) elig o' today w
    by (intro exI [of _ oc] exI [of _ s] exI [of _ o'])
      (auto simp: occurrence_identity_matches_def schedule_account_def)
qed

section \<open>A sample schedule\<close>

definition due_now :: instant where "due_now = ny_combine (ymd 2026 7 6) (clock 17 50)"

definition sample_schedule :: ScheduleRevision where
  "sample_schedule = \<lparr>sc_schedule_id = ''s1'', sc_revision = 1, sc_mode = PaperMode, sc_account_id = ''paper'',
     sc_execution_profile_id = [], sc_configured_at = ny_combine (ymd 2026 7 6) (clock 9 0), sc_enabled = True,
     sc_paused = False, sc_schedule_mode = ScheduleScheduled, sc_slot = ''close'', sc_due_local = clock 17 45,
     sc_early_close_due_local = Some (clock 14 45), sc_grace_seconds = 1800,
     sc_observer_max_age_seconds = 180, sc_task_name = None\<rparr>"

definition sample_observation :: SchedulerObservation where
  "sample_observation = \<lparr>so_schedule_id = ''s1'', so_revision = 1, so_observed_at = due_now,
     so_observer = ObserverWorker, so_configured = True, so_enabled = True, so_next_run_at = None\<rparr>"

definition sample_scheduled :: RuntimeRun where
  "sample_scheduled = sample_manual\<lparr>ru_occurrence_id := Some ''oc1'', ru_origin := OriginScheduled,
     ru_prepared_at := due_now\<rparr>"

definition scheduled_db :: runtime_db where "scheduled_db = projr (save_schedule sample_schedule None empty_runtime)"
definition observed_db :: runtime_db where "observed_db = projr (observe sample_observation scheduled_db)"
definition sample_due :: instant where "sample_due = ny_combine (ymd 2026 7 6) (clock 17 45)"

definition sample_occurrence :: Occurrence where
  "sample_occurrence = \<lparr>oc_occurrence_id = ''oc1'', oc_public_id = ''po1'', oc_schedule_id = ''s1'', oc_revision = 1,
     oc_session_date = ymd 2026 7 6, oc_due_at = sample_due, oc_status = OccurrenceWaiting, oc_reason = None,
     oc_observed_at = due_now\<rparr>"

definition due_db :: runtime_db where "due_db = observed_db\<lparr>rt_occurrences := [sample_occurrence]\<rparr>"
definition prepared_db :: runtime_db where
  "prepared_db = due_db\<lparr>rt_runs := [\<lparr>rw_run = sample_scheduled, rw_public_id = ''p1''\<rparr>]\<rparr>"

lemma sample_day: "ny_date due_now = ymd 2026 7 6" "ny_date (sc_configured_at sample_schedule) = ymd 2026 7 6"
  "due_at sample_schedule (ymd 2026 7 6) = Inr (Some sample_due)"
  "sc_configured_at sample_schedule \<le> sample_due" "sample_due \<le> due_now"
  "\<not> expired_by sample_schedule sample_due (ymd 2026 7 6) due_now"
  by code_simp+

lemma sample_authority: "latest_schedule observed_db ''s1'' = Some sample_schedule"
  "authority_reason observed_db sample_schedule due_now = None" "last_recorded observed_db ''s1'' = None"
  "rt_occurrences observed_db = []"
  by code_simp+

lemma sample_record_due: "record_due (\<lambda>_. (''oc1'', ''po1'')) ''s1'' due_now observed_db = Inr (due_db, [''oc1''])"
proof -
  have d: "record_day (\<lambda>_. (''oc1'', ''po1'')) sample_schedule due_now (ymd 2026 7 6) (observed_db, []) =
      Inr (due_db, [''oc1''])"
    by (simp add: record_day_def sample_day sample_authority due_db_def insert_or_ignore_def Let_def
        occurrence_on_def sample_occurrence_def) (simp add: sample_schedule_def)
  show ?thesis
    by (simp add: record_due_def sample_authority record_days.simps [of _ _ _ "ymd 2026 7 6"]
        record_days.simps [of _ _ _ "ymd 2026 7 6 + 1"] sample_day d)
qed

lemma sample_schedule_steps:
  "save_schedule sample_schedule None empty_runtime = Inr scheduled_db"
  "observe sample_observation scheduled_db = Inr observed_db"
  "save_run (\<lambda>_. Some (10, ''aa'')) sample_scheduled ''p1'' due_db = Inr (prepared_db, ''p1'')"
  by code_simp+

lemma sample_schedule_reachable: "runtime_reachable observed_db" "runtime_reachable prepared_db"
proof -
  show o': "runtime_reachable observed_db"
    using runtime_reachable.start sample_schedule_steps(1,2)
    by (meson runtime_reachable.step runtime_step.schedule runtime_step.observe)
  then show "runtime_reachable prepared_db"
    using sample_record_due sample_schedule_steps(3) by (meson runtime_reachable.step runtime_step.due runtime_step.save)
qed

lemma record_due_idempotent_witness:
  "record_due (\<lambda>_. (''other'', ''more'')) ''s1'' due_now due_db = Inr (due_db, [''oc1''])"
  by (rule record_due_idempotent [OF sample_schedule_reachable(1) sample_record_due])

lemma one_run_per_session_witness:
  "hd (rt_runs prepared_db) = last (rt_runs prepared_db) \<and> rt_occurrences prepared_db \<noteq> []"
proof
  have w: "rt_runs prepared_db = [\<lparr>rw_run = sample_scheduled, rw_public_id = ''p1''\<rparr>]" by code_simp
  have o': "map oc_occurrence_id (rt_occurrences prepared_db) = [''oc1'']" by code_simp
  then show "rt_occurrences prepared_db \<noteq> []" by auto
  from o' obtain oc where oc: "oc \<in> set (rt_occurrences prepared_db)" "oc_occurrence_id oc = ''oc1''" by auto
  have r: "ru_occurrence_id (rw_run (hd (rt_runs prepared_db))) = Some (oc_occurrence_id oc)"
    "ru_occurrence_id (rw_run (last (rt_runs prepared_db))) = Some (oc_occurrence_id oc)"
    by (simp_all add: w oc sample_scheduled_def)
  show "hd (rt_runs prepared_db) = last (rt_runs prepared_db)"
    by (rule one_run_per_session [OF sample_schedule_reachable(2) _ _ oc(1) r(1) oc(1) r(2) refl refl])
      (simp_all add: w)
qed

lemma sample_claim_validated: "validate_claim sample_scheduled due_now False prepared_db =
    Inr (set_occurrence ''oc1'' (\<lambda>oc. oc\<lparr>oc_status := OccurrenceClaimed, oc_observed_at := due_now\<rparr>) prepared_db)"
proof -
  have "\<not> (\<exists>s\<in>set (scope_schedules prepared_db (run_scope_key sample_scheduled)). sc_paused s)" by code_simp
  moreover have "find_row oc_occurrence_id ''oc1'' (rt_occurrences prepared_db) = Some sample_occurrence" by code_simp
  moreover have "latest_schedule prepared_db ''s1'' = Some sample_schedule" by code_simp
  moreover have "occurrence_identity_matches sample_scheduled sample_occurrence (Some sample_schedule)" by code_simp
  moreover have "authority_reason prepared_db sample_schedule due_now = None" by code_simp
  moreover have "due_now \<le> grace_end sample_schedule sample_due" by code_simp
  moreover have "ru_session_date sample_scheduled = ymd 2026 7 6" "ru_origin sample_scheduled = OriginScheduled"
    "ru_occurrence_id sample_scheduled = Some ''oc1''"
    by (simp_all add: sample_scheduled_def sample_manual_def)
  moreover have "oc_schedule_id sample_occurrence = ''s1''" "oc_due_at sample_occurrence = sample_due"
    "oc_status sample_occurrence = OccurrenceWaiting" by (simp_all add: sample_occurrence_def)
  ultimately show ?thesis using sample_day(3,5) by (simp add: validate_claim_def Let_def)
qed

lemma scheduled_claim_authorised_witness:
  "\<exists>oc\<in>set (rt_occurrences prepared_db). \<exists>s. latest_schedule prepared_db (oc_schedule_id oc) = Some s \<and> \<not> sc_paused s \<and>
     oc_session_date oc = ymd 2026 7 6"
proof -
  have w: "find_run prepared_db ''r1'' = Some \<lparr>rw_run = sample_scheduled, rw_public_id = ''p1''\<rparr>" by code_simp
  have e: "fst (expire due_now prepared_db) = prepared_db"
    by (simp add: expire_def expired_attempts_def prepared_db_def due_db_def)
      (simp add: observed_db_def, code_simp)
  let ?db = "set_occurrence ''oc1'' (\<lambda>oc. oc\<lparr>oc_status := OccurrenceClaimed, oc_observed_at := due_now\<rparr>) prepared_db"
  let ?s = "start_attempt sample_scheduled ''m'' due_now False 120 (''a1'', ''q1'') ?db"
  have s: "?s = Inr (fst (projr ?s), snd (projr ?s))" by code_simp
  have "\<not> blank ''m''" "ru_prepared_at sample_scheduled \<le> due_now" "ru_session_date sample_scheduled = ny_date due_now"
    by (code_simp, simp_all add: sample_scheduled_def sample_manual_def sample_day)
  then have c: "claim ''r1'' ''m'' due_now False 120 (''a1'', ''q1'') prepared_db = Inr (fst (projr ?s), snd (projr ?s))"
    using s by (simp add: claim_def get_run_def w e sample_claim_validated)
  have "ru_origin (rw_run \<lparr>rw_run = sample_scheduled, rw_public_id = ''p1''\<rparr>) = OriginScheduled"
    by (simp add: sample_scheduled_def)
  from scheduled_claim_authorised [OF c w this] show ?thesis using sample_day(1) by auto
qed

end
