(* ===== verification/Watchlists.thy ===== *)
theory Watchlists
  imports Database Prices
begin

text \<open>
  The watchlist (\<open>app/storage/watchlist.py\<close>) and the short watchlist (\<open>app/storage/short_watchlist.py\<close>):
  neither is stored, both are folds over the policy-approved decisions in the order of their creation.
  A Python dict is an association list in insertion order. The calls of the short watchlist are
  shared objects: \<open>open_calls\<close> holds the position of a call in the list of calls.
\<close>

section \<open>Approved decisions\<close>

definition approved_in :: "core_db \<Rightarrow> ExecutionMode \<Rightarrow> string option \<Rightarrow> InvestmentDecisionRecord \<Rightarrow> bool" where
  "approved_in db mode profile d = (case find_row pe_decision_id (decision_id d) (policy_evaluations db) of
     None \<Rightarrow> False
   | Some e \<Rightarrow> pe_approved e \<and> pe_execution_mode e = mode \<and>
       (case profile of None \<Rightarrow> True | Some p \<Rightarrow> pe_execution_profile_id e = p))"

definition creation_order :: "InvestmentDecisionRecord \<Rightarrow> int \<times> string" where
  "creation_order d = (julianday (fst (created_at d)), decision_id d)"

definition approved_decisions :: "core_db \<Rightarrow> Decision list \<Rightarrow> ExecutionMode \<Rightarrow> string option \<Rightarrow>
    InvestmentDecisionRecord list" where
  "approved_decisions db kinds mode profile = sort_key creation_order
     (filter (\<lambda>d. decision d \<in> set kinds \<and> approved_in db mode profile d) (decision_records db))"

section \<open>The watchlist\<close>

record WatchlistEntry =
  we_ticker :: string
  we_decision_id :: string
  we_listed_at :: aware
  we_restated_at :: aware
  we_statements :: int
  we_entry_price_min :: "pyfloat option"
  we_entry_price_max :: "pyfloat option"

definition CLOSING :: "Decision list" where
  "CLOSING = [BUY, ADD, PASS]"

definition watch_step :: "InvestmentDecisionRecord \<Rightarrow> (string \<times> WatchlistEntry) list \<Rightarrow>
    (string \<times> WatchlistEntry) list" where
  "watch_step r entries =
    (if decision r \<in> set CLOSING then AList.delete (ticker r) entries
     else let listed = map_of entries (ticker r) in
       AList.update (ticker r)
         \<lparr>we_ticker = ticker r, we_decision_id = decision_id r,
          we_listed_at = (case listed of Some l \<Rightarrow> we_listed_at l | None \<Rightarrow> created_at r),
          we_restated_at = created_at r,
          we_statements = (case listed of Some l \<Rightarrow> we_statements l + 1 | None \<Rightarrow> 1),
          we_entry_price_min = entry_price_min r, we_entry_price_max = entry_price_max r\<rparr> entries)"

definition open_watchlist_entries :: "core_db \<Rightarrow> ExecutionMode \<Rightarrow> string option \<Rightarrow>
    (string \<times> WatchlistEntry) list" where
  "open_watchlist_entries db mode profile =
     fold watch_step (approved_decisions db [WATCHLIST, BUY, ADD, PASS] mode profile) []"

section \<open>The short watchlist\<close>

record ShortDeclaration =
  sd_decision_id :: string
  sd_declared_at :: aware
  sd_reference_price :: "pyfloat option"
  sd_thesis_invalidation_criteria :: "string list"
  sd_removal_conditions :: "ShortRemovalConditions option"

record ShortCall =
  sh_ticker :: string
  sh_declarations :: "ShortDeclaration list"
  sh_removed_at :: "aware option"
  sh_removal_decision_id :: "string option"
  sh_removal_price :: "pyfloat option"

definition declaration_of :: "InvestmentDecisionRecord \<Rightarrow> ShortDeclaration" where
  "declaration_of r = \<lparr>sd_decision_id = decision_id r, sd_declared_at = created_at r,
     sd_reference_price = reference_price r,
     sd_thesis_invalidation_criteria = thesis_invalidation_criteria r,
     sd_removal_conditions = short_removal_conditions r\<rparr>"

definition new_call :: "string \<Rightarrow> ShortCall" where
  "new_call t = \<lparr>sh_ticker = t, sh_declarations = [], sh_removed_at = None,
     sh_removal_decision_id = None, sh_removal_price = None\<rparr>"

definition declare_call :: "InvestmentDecisionRecord \<Rightarrow> ShortCall \<Rightarrow> ShortCall" where
  "declare_call r c = c\<lparr>sh_declarations := sh_declarations c @ [declaration_of r]\<rparr>"

definition remove_call :: "InvestmentDecisionRecord \<Rightarrow> ShortCall \<Rightarrow> ShortCall" where
  "remove_call r c = c\<lparr>sh_removed_at := Some (created_at r), sh_removal_decision_id := Some (decision_id r),
     sh_removal_price := reference_price r\<rparr>"

type_synonym short_calls = "ShortCall list \<times> (string \<times> nat) list"

definition short_step :: "InvestmentDecisionRecord \<Rightarrow> short_calls \<Rightarrow> short_calls" where
  "short_step r = (\<lambda>(calls, open_calls). case map_of open_calls (ticker r) of
     None \<Rightarrow> if decision r = SHORT_WATCHLIST
       then (calls @ [declare_call r (new_call (ticker r))], AList.update (ticker r) (length calls) open_calls)
       else (calls, open_calls)
   | Some i \<Rightarrow> if decision r = SHORT_WATCHLIST then (calls[i := declare_call r (calls ! i)], open_calls)
       else (calls[i := remove_call r (calls ! i)], AList.delete (ticker r) open_calls))"

definition short_watchlist_history :: "core_db \<Rightarrow> ExecutionMode \<Rightarrow> string option \<Rightarrow> ShortCall list" where
  "short_watchlist_history db mode profile =
     fst (fold short_step (approved_decisions db [SHORT_WATCHLIST, SHORT_WATCHLIST_REMOVE] mode profile) ([], []))"

text \<open>The last declaration of a call: a call is created with its first one.\<close>

definition short_removal_status :: "ShortCall \<Rightarrow> pyfloat option \<Rightarrow> pydate \<Rightarrow> string list" where
  "short_removal_status call latest_close on_date =
    (if sh_removed_at call \<noteq> None then []
     else (case sd_removal_conditions (last (sh_declarations call)) of
         None \<Rightarrow> []
       | Some c \<Rightarrow>
           error_if (case latest_close of None \<Rightarrow> False | Some p \<Rightarrow> p \<le> sr_cover_below c) ''cover_below_hit'' @
           error_if (case latest_close of None \<Rightarrow> False | Some p \<Rightarrow> sr_stop_above c \<le> p) ''stop_above_hit'' @
           error_if (sr_review_by c \<le> on_date) ''review_by_reached''))"

record ShortReport =
  sw_ticker :: string
  sw_status :: string
  sw_declared_at :: pydate
  sw_declared_price :: "pyfloat option"
  sw_declarations :: "pydate list"
  sw_latest_declared_at :: pydate
  sw_removed_at :: "pydate option"
  sw_end_price :: "pyfloat option"
  sw_ended_at :: "pydate option"
  sw_short_return_percent :: "pyfloat option"
  sw_days_listed :: int
  sw_removal_conditions :: "ShortRemovalConditions option"
  sw_due :: "string list"
  sw_decision_ids :: "string list"

definition short_percent :: "pyfloat option \<Rightarrow> pyfloat option \<Rightarrow> pyfloat option result" where
  "short_percent declared end_price = (case (declared, end_price) of
     (Some d, Some e) \<Rightarrow> if d \<noteq> 0 \<and> 0 < d
       then and_then (fdiv (fsub d e) d) (\<lambda>q. Inr (Some (fmul q 100))) else Inr None
   | _ \<Rightarrow> Inr None)"

definition report_call :: "PriceBar list \<Rightarrow> pydate \<Rightarrow> ShortCall \<Rightarrow> ShortReport result" where
  "report_call prices on_date call =
    (let first = hd (sh_declarations call); latest = last (sh_declarations call);
         bars = get_daily_prices prices (sh_ticker call) None (Some on_date);
         close = (if bars = [] then None else Some (pb_close (last bars)));
         removed = map_option aware_date (sh_removed_at call);
         end_price = (if sh_removed_at call \<noteq> None then sh_removal_price call else close)
     in and_then (short_percent (sd_reference_price first) end_price) (\<lambda>percent. Inr
       \<lparr>sw_ticker = sh_ticker call, sw_status = (if removed \<noteq> None then ''removed'' else ''open''),
        sw_declared_at = aware_date (sd_declared_at first), sw_declared_price = sd_reference_price first,
        sw_declarations = map (\<lambda>d. aware_date (sd_declared_at d)) (sh_declarations call),
        sw_latest_declared_at = aware_date (sd_declared_at latest), sw_removed_at = removed,
        sw_end_price = end_price,
        sw_ended_at = (if removed \<noteq> None then removed
          else if bars = [] then None else Some (pb_bar_date (last bars))),
        sw_short_return_percent = map_option (py_round 4) percent,
        sw_days_listed = (case removed of Some d \<Rightarrow> d | None \<Rightarrow> on_date) - aware_date (sd_declared_at first),
        sw_removal_conditions = sd_removal_conditions latest,
        sw_due = short_removal_status call close on_date,
        sw_decision_ids = map sd_decision_id (sh_declarations call) @
          (case sh_removal_decision_id call of None \<Rightarrow> [] | Some i \<Rightarrow> if i = [] then [] else [i])\<rparr>))"

definition short_call_report :: "PriceBar list \<Rightarrow> core_db \<Rightarrow> ExecutionMode \<Rightarrow> string option \<Rightarrow> pydate \<Rightarrow>
    ShortReport list result" where
  "short_call_report prices db mode profile on_date =
     map_result (report_call prices on_date) (short_watchlist_history db mode profile)"

section \<open>The watchlist refines the history of each ticker\<close>

text \<open>The statements of a ticker since it was last bought, added to or passed on.\<close>

definition statements :: "string \<Rightarrow> InvestmentDecisionRecord list \<Rightarrow> InvestmentDecisionRecord list" where
  "statements t rows = rev (takeWhile (\<lambda>r. decision r \<notin> set CLOSING) (rev (filter (\<lambda>r. ticker r = t) rows)))"

definition stretch :: "InvestmentDecisionRecord list \<Rightarrow> WatchlistEntry option" where
  "stretch rs = (if rs = [] then None else Some
     \<lparr>we_ticker = ticker (last rs), we_decision_id = decision_id (last rs), we_listed_at = created_at (hd rs),
      we_restated_at = created_at (last rs), we_statements = int (length rs),
      we_entry_price_min = entry_price_min (last rs), we_entry_price_max = entry_price_max (last rs)\<rparr>)"

lemma statements_snoc: "statements t (rows @ [r]) = (if ticker r \<noteq> t then statements t rows
    else if decision r \<in> set CLOSING then [] else statements t rows @ [r])"
  by (simp add: statements_def)

lemma stretch_snoc: "stretch (rs @ [r]) = Some
    \<lparr>we_ticker = ticker r, we_decision_id = decision_id r,
     we_listed_at = (case stretch rs of Some l \<Rightarrow> we_listed_at l | None \<Rightarrow> created_at r),
     we_restated_at = created_at r,
     we_statements = (case stretch rs of Some l \<Rightarrow> we_statements l + 1 | None \<Rightarrow> 1),
     we_entry_price_min = entry_price_min r, we_entry_price_max = entry_price_max r\<rparr>"
  by (simp add: stretch_def)

lemma watch_steps: "map_of (fold watch_step rows []) t = stretch (statements t rows)"
proof (induction rows arbitrary: t rule: rev_induct)
  case Nil
  then show ?case by (simp add: statements_def stretch_def)
next
  case (snoc r rows)
  show ?case
  proof (cases "decision r \<in> set CLOSING")
    case True
    with snoc.IH [of t] show ?thesis
      by (simp add: watch_step_def statements_snoc delete_conv' stretch_def)
  next
    case False
    with snoc.IH show ?thesis
      by (simp add: watch_step_def statements_snoc stretch_snoc update_conv' Let_def)
  qed
qed

lemma watch_steps_distinct: "distinct (map fst (fold watch_step rows []))"
  by (induction rows rule: rev_induct) (simp_all add: watch_step_def Let_def distinct_delete distinct_update)

text \<open>
  C20. The watchlist is exactly what the approved decisions say: the entry of a ticker summarises its
  WATCHLIST decisions since it was last bought, added to or passed on -- the first gives the listing,
  the last the bounds, their number the statements -- and a ticker without such decisions has none.
\<close>
theorem watchlist_refines_statements:
  "map_of (open_watchlist_entries db mode profile) t =
     stretch (statements t (approved_decisions db [WATCHLIST, BUY, ADD, PASS] mode profile)) \<and>
   distinct (map fst (open_watchlist_entries db mode profile))"
  unfolding open_watchlist_entries_def by (simp only: watch_steps watch_steps_distinct simp_thms)

section \<open>The calls of each ticker\<close>

definition call_step :: "InvestmentDecisionRecord \<Rightarrow> ShortCall list \<Rightarrow> ShortCall list" where
  "call_step r calls =
    (if calls = [] \<or> sh_removed_at (last calls) \<noteq> None
       then (if decision r = SHORT_WATCHLIST then calls @ [declare_call r (new_call (ticker r))] else calls)
     else butlast calls @ [(if decision r = SHORT_WATCHLIST then declare_call r else remove_call r) (last calls)])"

definition calls_of :: "string \<Rightarrow> ShortCall list \<Rightarrow> ShortCall list" where
  "calls_of t calls = filter (\<lambda>c. sh_ticker c = t) calls"

definition open_ok :: "short_calls \<Rightarrow> string \<Rightarrow> bool" where
  "open_ok s t = (case map_of (snd s) t of
     None \<Rightarrow> \<forall>j. j < length (fst s) \<longrightarrow> sh_ticker (fst s ! j) = t \<longrightarrow> sh_removed_at (fst s ! j) \<noteq> None
   | Some i \<Rightarrow> i < length (fst s) \<and> sh_ticker (fst s ! i) = t \<and> sh_removed_at (fst s ! i) = None \<and>
       (\<forall>j. i < j \<longrightarrow> j < length (fst s) \<longrightarrow> sh_ticker (fst s ! j) \<noteq> t) \<and>
       (\<forall>j. j < length (fst s) \<longrightarrow> j \<noteq> i \<longrightarrow> sh_ticker (fst s ! j) = t \<longrightarrow> sh_removed_at (fst s ! j) \<noteq> None))"

lemma filter_update_last:
  assumes "i < length xs" and "P (xs ! i)" and "P x" and "\<forall>j. i < j \<longrightarrow> j < length xs \<longrightarrow> \<not> P (xs ! j)"
  shows "filter P (xs[i := x]) = butlast (filter P xs) @ [x]" and "filter P xs \<noteq> []"
    and "last (filter P xs) = xs ! i"
proof -
  have none: "filter P (drop (Suc i) xs) = []"
    using assms(4) by (auto simp: filter_empty_conv in_set_conv_nth)
  have xs: "filter P xs = filter P (take i xs) @ [xs ! i]"
    using arg_cong [OF id_take_nth_drop [OF assms(1)], of "filter P"] assms(2) none by simp
  show "filter P (xs[i := x]) = butlast (filter P xs) @ [x]"
    using assms(1,3) none by (simp add: upd_conv_take_nth_drop xs)
  show "filter P xs \<noteq> []" "last (filter P xs) = xs ! i" by (simp_all add: xs)
qed

lemma filter_update_other:
  assumes "i < length xs" and "\<not> P (xs ! i)" and "\<not> P x"
  shows "filter P (xs[i := x]) = filter P xs"
  using arg_cong [OF id_take_nth_drop [OF assms(1)], of "filter P"] assms by (simp add: upd_conv_take_nth_drop)

lemma step_tickers [simp]: "sh_ticker (declare_call r c) = sh_ticker c" "sh_ticker (remove_call r c) = sh_ticker c"
  "sh_ticker (new_call t) = t" "sh_removed_at (new_call t) = None"
  "sh_removed_at (declare_call r c) = sh_removed_at c" "sh_removed_at (remove_call r c) = Some (created_at r)"
  by (simp_all add: declare_call_def remove_call_def new_call_def)

lemma open_ok_none_last:
  assumes "open_ok s t" and "map_of (snd s) t = None"
  shows "calls_of t (fst s) = [] \<or> sh_removed_at (last (calls_of t (fst s))) \<noteq> None"
proof (cases "calls_of t (fst s) = []")
  case False
  from last_in_set [OF this] assms show ?thesis by (auto simp: open_ok_def calls_of_def in_set_conv_nth)
qed simp

lemma short_step_calls:
  assumes "open_ok s (ticker r)"
  shows "calls_of t (fst (short_step r s)) =
    (if ticker r = t then call_step r (calls_of t (fst s)) else calls_of t (fst s))"
proof (cases "map_of (snd s) (ticker r)")
  case None
  with open_ok_none_last [OF assms None] show ?thesis
    by (cases s) (auto simp: short_step_def call_step_def calls_of_def)
next
  case (Some i)
  obtain calls opens where s: "s = (calls, opens)" by (cases s)
  from assms Some have i: "i < length calls" "sh_ticker (calls ! i) = ticker r" "sh_removed_at (calls ! i) = None"
    and later: "\<forall>j. i < j \<longrightarrow> j < length calls \<longrightarrow> sh_ticker (calls ! j) \<noteq> ticker r"
    by (simp_all add: open_ok_def s)
  note upd = filter_update_last [of i calls "\<lambda>c. sh_ticker c = ticker r", OF i(1,2) _ later]
  show ?thesis
  proof (cases "ticker r = t")
    case True
    have "calls_of t calls \<noteq> []" "last (calls_of t calls) = calls ! i"
      using upd(2,3) [of "calls ! i"] i(2) True by (simp_all add: calls_of_def)
    with True Some upd(1) i show ?thesis by (simp add: short_step_def call_step_def s calls_of_def)
  next
    case False
    with Some i show ?thesis
      by (simp add: short_step_def s calls_of_def filter_update_other)
  qed
qed

lemma short_step_ok:
  assumes "\<And>t. open_ok s t"
  shows "open_ok (short_step r s) t"
proof -
  obtain calls opens where s: "s = (calls, opens)" by (cases s)
  note r = assms [of "ticker r"] and t = assms [of t]
  show ?thesis
  proof (cases "map_of opens (ticker r)")
    case None
    then show ?thesis using r t
      by (auto simp: s short_step_def open_ok_def update_conv' nth_append less_Suc_eq in_set_conv_nth
        split: option.splits if_splits)
  next
    case (Some i)
    then show ?thesis using r t
      by (auto simp: s short_step_def open_ok_def delete_conv' nth_list_update in_set_conv_nth
        split: option.splits if_splits)
  qed
qed

lemma short_steps_ok: "open_ok (fold short_step rows ([], [])) t"
proof (induction rows arbitrary: t rule: rev_induct)
  case Nil
  then show ?case by (simp add: open_ok_def)
next
  case (snoc r rows)
  from short_step_ok [of "fold short_step rows ([], [])", OF snoc.IH] show ?case by simp
qed

lemma short_steps_calls:
  "calls_of t (fst (fold short_step rows ([], []))) = fold call_step (filter (\<lambda>r. ticker r = t) rows) []"
proof (induction rows rule: rev_induct)
  case Nil
  then show ?case by (simp add: calls_of_def)
next
  case (snoc r rows)
  then show ?case by (simp add: short_step_calls [OF short_steps_ok])
qed

lemma call_step_closed:
  "\<forall>c\<in>set (butlast calls). sh_removed_at c \<noteq> None \<Longrightarrow> \<forall>c\<in>set (butlast (call_step r calls)). sh_removed_at c \<noteq> None"
  by (cases calls rule: rev_cases) (auto simp: call_step_def butlast_append)

lemma call_steps_closed: "\<forall>c\<in>set (butlast (fold call_step rs [])). sh_removed_at c \<noteq> None"
proof (induction rs rule: rev_induct)
  case (snoc r rs)
  from call_step_closed [OF this] show ?case by simp
qed simp

lemma call_step_declared:
  "\<forall>c\<in>set calls. sh_declarations c \<noteq> [] \<Longrightarrow> \<forall>c\<in>set (call_step r calls). sh_declarations c \<noteq> []"
  by (cases calls rule: rev_cases) (auto simp: call_step_def declare_call_def remove_call_def)

lemma call_steps_declared: "\<forall>c\<in>set (fold call_step rs []). sh_declarations c \<noteq> []"
proof (induction rs rule: rev_induct)
  case (snoc r rs)
  from call_step_declared [OF this] show ?case by simp
qed simp

text \<open>
  The short watchlist keeps every ticker apart although its calls share one list and one table of
  open calls: the calls of a ticker are what its own approved decisions give, only the last of them
  can be open, and no call is without a declaration.
\<close>
theorem short_calls_per_ticker:
  "let calls = filter (\<lambda>c. sh_ticker c = t) (short_watchlist_history db mode profile);
       own = filter (\<lambda>r. ticker r = t)
         (approved_decisions db [SHORT_WATCHLIST, SHORT_WATCHLIST_REMOVE] mode profile)
   in calls = fold call_step own [] \<and> list_all (\<lambda>c. sh_removed_at c \<noteq> None) (butlast calls) \<and>
      list_all (\<lambda>c. sh_declarations c \<noteq> []) calls"
  unfolding short_watchlist_history_def Let_def
  using short_steps_calls [of t] call_steps_closed call_steps_declared by (simp add: calls_of_def list_all_iff)

end
