(* ===== verification/PaperBroker.thy ===== *)
theory PaperBroker
  imports Watchlists
begin

text \<open>
  The paper broker (\<open>app/paper/broker.py\<close>) and the portfolio context it gives the policy
  (\<open>app/paper/context.py\<close>). Fills are an append-only ledger, positions are derived from them.
  \<open>settle\<close> and \<open>rebuild_positions\<close> run in one immediate transaction, so a raise leaves the state as
  it was. A scan without ORDER BY yields the rows in insertion order. \<open>datetime.now(UTC)\<close> is read once
  per fill: \<open>now n\<close> is its value for the n-th fill of a settlement.
\<close>

definition STARTING_CASH :: pyfloat where
  "STARTING_CASH = 5000"

record PaperFill =
  pf_fill_id :: string
  pf_order_intent_id :: string
  pf_ticker :: string
  pf_side :: OrderSide
  pf_shares :: pyfloat
  pf_price :: pyfloat
  pf_fill_date :: pydate
  pf_filled_at :: instant

record PaperPosition =
  pp_ticker :: string
  pp_shares :: pyfloat
  pp_avg_cost :: pyfloat
  pp_opened_at :: pydate
  pp_primary_theme_id :: string

record paper_db =
  pd_core :: core_db
  pd_prices :: "PriceBar list"
  pd_fills :: "PaperFill list"
  pd_positions :: "PaperPosition list"

section \<open>The ledger\<close>

definition unscoped_fill :: "core_db \<Rightarrow> PaperFill \<Rightarrow> bool" where
  "unscoped_fill core f = (case get_order_intent core (pf_order_intent_id f) of
     None \<Rightarrow> True
   | Some o' \<Rightarrow> oi_execution_mode o' \<noteq> PAPER \<or> oi_execution_profile_id o' \<noteq> [] \<or>
       pf_ticker f \<noteq> oi_ticker o' \<or> pf_side f \<noteq> oi_side o')"

definition validate_paper_ledger :: "paper_db \<Rightarrow> unit result" where
  "validate_paper_ledger db = require (\<not> (\<exists>f\<in>set (pd_fills db). unscoped_fill (pd_core db) f))
     (ValueError ''paper_ledger_contains_unscoped_or_live_fills'')"

definition cash_flow :: "PaperFill \<Rightarrow> pyfloat" where
  "cash_flow f = fmul (fmul (pf_shares f) (pf_price f)) (if pf_side f = SIDE_BUY then - 1 else 1)"

definition cash_balance :: "paper_db \<Rightarrow> pydate option \<Rightarrow> pyfloat result" where
  "cash_balance db on_date = and_then (validate_paper_ledger db) (\<lambda>_. Inr (foldl
     (\<lambda>cash f. fadd cash (cash_flow f)) STARTING_CASH
     (filter (\<lambda>f. case on_date of None \<Rightarrow> True | Some d \<Rightarrow> pf_fill_date f \<le> d) (pd_fills db))))"

definition position_of :: "PaperPosition list \<Rightarrow> string \<Rightarrow> PaperPosition option" where
  "position_of positions t = find_row pp_ticker t positions"

definition replace_position :: "PaperPosition \<Rightarrow> PaperPosition list \<Rightarrow> PaperPosition list" where
  "replace_position p positions = filter (\<lambda>q. pp_ticker q \<noteq> pp_ticker p) positions @ [p]"

text \<open>The tolerance \<open>1e-9\<close> is the float nearest it.\<close>

definition share_tolerance :: pyfloat where
  "share_tolerance = fl (1 / 10 ^ 9)"

definition average_cost :: "PaperPosition option \<Rightarrow> pyfloat \<Rightarrow> pyfloat \<Rightarrow> pyfloat \<Rightarrow> pyfloat result" where
  "average_cost position shares price new_shares = (case position of None \<Rightarrow> Inr price
   | Some p \<Rightarrow> fdiv (fadd (fmul (pp_shares p) (pp_avg_cost p)) (fmul shares price)) new_shares)"

definition apply_fill :: "core_db \<Rightarrow> OrderIntent \<Rightarrow> pyfloat \<Rightarrow> pyfloat \<Rightarrow> pydate \<Rightarrow> PaperPosition list \<Rightarrow>
    PaperPosition list result" where
  "apply_fill core intent shares price fill_date positions =
    (let position = position_of positions (oi_ticker intent);
         existing = (case position of None \<Rightarrow> 0 | Some p \<Rightarrow> pp_shares p)
     in if \<not> isfinite shares \<or> \<not> isfinite price \<or> shares \<le> 0 \<or> price \<le> 0
          then Inl (ValueError ''paper_fill_invalid_economics'')
        else if oi_side intent = SIDE_BUY then
          let new_shares = fadd existing shares in
          and_then (average_cost position shares price new_shares) (\<lambda>avg_cost.
            case get_decision_record core (oi_decision_id intent) of
              None \<Rightarrow> Inl (ValueError (''missing decision '' @ oi_decision_id intent))
            | Some d \<Rightarrow> Inr (replace_position
                \<lparr>pp_ticker = oi_ticker intent, pp_shares = new_shares, pp_avg_cost = avg_cost,
                 pp_opened_at = (case position of Some p \<Rightarrow> pp_opened_at p | None \<Rightarrow> fill_date),
                 pp_primary_theme_id = (case position of Some p \<Rightarrow> pp_primary_theme_id p
                   | None \<Rightarrow> (case primary_theme_id d of None \<Rightarrow> [] | Some t \<Rightarrow> t))\<rparr> positions))
        else if fadd existing share_tolerance < shares
          then Inl (ValueError ''paper_fill_exceeds_held_shares'')
        else let new_shares = fsub existing shares in
          if new_shares < share_tolerance
            then Inr (filter (\<lambda>q. pp_ticker q \<noteq> oi_ticker intent) positions)
          else Inr (map (\<lambda>q. if pp_ticker q = oi_ticker intent then q\<lparr>pp_shares := new_shares\<rparr> else q)
            positions))"

section \<open>Settlement\<close>

definition open_paper_intents :: "paper_db \<Rightarrow> OrderIntent list" where
  "open_paper_intents db = filter (\<lambda>i. oi_execution_mode i = PAPER \<and>
     oi_order_intent_id i \<notin> pf_order_intent_id ` set (pd_fills db)) (order_intents (pd_core db))"

text \<open>The first bar after the New York day of the intent, up to the day of the settlement.\<close>

definition next_bar :: "PriceBar list \<Rightarrow> pydate option \<Rightarrow> OrderIntent \<Rightarrow> PriceBar option" where
  "next_bar prices through i = (case sort_key pb_bar_date (filter (\<lambda>b. pb_ticker b = oi_ticker i \<and>
       ny_date (oi_created_at i) < pb_bar_date b \<and>
       (case through of None \<Rightarrow> True | Some d \<Rightarrow> pb_bar_date b \<le> d)) prices) of
     [] \<Rightarrow> None | b # _ \<Rightarrow> Some b)"

type_synonym candidate = "pydate \<times> OrderIntent \<times> pyfloat"

definition candidates :: "paper_db \<Rightarrow> pydate option \<Rightarrow> candidate list" where
  "candidates db through = sort_key (\<lambda>(d, i, _). (d, oi_created_at i, oi_order_intent_id i))
     (concat (map (\<lambda>i. case next_bar (pd_prices db) through i of None \<Rightarrow> []
        | Some b \<Rightarrow> [(pb_bar_date b, i, pb_open b)]) (open_paper_intents db)))"

definition unpriced :: "paper_db \<Rightarrow> pydate option \<Rightarrow> OrderIntent list" where
  "unpriced db through =
     filter (\<lambda>i. next_bar (pd_prices db) through i = None) (open_paper_intents db)"

definition marks :: "paper_db \<Rightarrow> pydate \<Rightarrow> (pyfloat \<times> pyfloat option) list" where
  "marks db day = map (\<lambda>p. (pp_shares p, map_option pb_open (bar_on (pd_prices db) (pp_ticker p) day)))
     (pd_positions db)"

definition late_fill :: "paper_db \<Rightarrow> pydate \<Rightarrow> bool" where
  "late_fill db day = (\<exists>f\<in>set (pd_fills db). day < pf_fill_date f)"

definition order_shares :: "OrderIntent \<Rightarrow> pyfloat \<Rightarrow> pyfloat \<Rightarrow> pyfloat \<Rightarrow> pyfloat \<Rightarrow> pyfloat result" where
  "order_shares intent open_price cash equity held =
    (let delta = fsub (fmul (oi_target_weight intent) equity) (fmul held open_price) in
     if oi_side intent = SIDE_BUY \<and> delta \<le> 0
       then Inl (ValueError (''BUY intent '' @ oi_order_intent_id intent @ '' has non-positive delta''))
     else if oi_side intent = SIDE_SELL \<and> 0 \<le> delta
       then Inl (ValueError (''SELL intent '' @ oi_order_intent_id intent @ '' has non-negative delta''))
     else if oi_side intent = SIDE_BUY \<and> cash < delta
       then Inl (ValueError ''paper_buy_insufficient_cash'')
     else and_then (fdiv \<bar>delta\<bar> open_price) (\<lambda>shares.
       Inr (if oi_side intent = SIDE_SELL then min shares held else shares)))"

definition new_fill :: "OrderIntent \<Rightarrow> pyfloat \<Rightarrow> pyfloat \<Rightarrow> pydate \<Rightarrow> instant \<Rightarrow> PaperFill" where
  "new_fill intent shares price day filled_at = \<lparr>pf_fill_id = ''fill_'' @ oi_order_intent_id intent,
     pf_order_intent_id = oi_order_intent_id intent, pf_ticker = oi_ticker intent,
     pf_side = oi_side intent, pf_shares = shares, pf_price = price, pf_fill_date = day,
     pf_filled_at = filled_at\<rparr>"

definition book_fill :: "PaperFill \<Rightarrow> OrderIntent \<Rightarrow> paper_db \<Rightarrow> paper_db result" where
  "book_fill f intent db =
    (if \<exists>q\<in>set (pd_fills db). pf_fill_id q = pf_fill_id f \<or> pf_order_intent_id q = pf_order_intent_id f
       then Inl IntegrityError
     else and_then (apply_fill (pd_core db) intent (pf_shares f) (pf_price f) (pf_fill_date f) (pd_positions db))
       (\<lambda>positions. Inr (db\<lparr>pd_fills := pd_fills db @ [f], pd_positions := positions\<rparr>)))"

type_synonym settlement = "paper_db \<times> nat \<times> nat"

definition settle_one :: "(nat \<Rightarrow> instant) \<Rightarrow> candidate \<Rightarrow> settlement \<Rightarrow> settlement result" where
  "settle_one now = (\<lambda>(day, intent, open_price) (db, settled, awaiting).
     if late_fill db day
       then Inl (ValueError ''late paper intent requires explicit chronological replay'')
     else if \<exists>m\<in>set (marks db day). snd m = None then Inr (db, settled, awaiting + 1)
     else and_then (cash_balance db (Some day)) (\<lambda>cash.
       if \<not> isfinite open_price \<or> open_price \<le> 0 \<or>
           (\<exists>m\<in>set (marks db day). \<not> isfinite (the (snd m)) \<or> the (snd m) \<le> 0)
         then Inl (ValueError ''paper_open_invalid_economics'')
       else let equity = fadd cash (fsum (map (\<lambda>m. fmul (fst m) (the (snd m))) (marks db day)));
                held = (case position_of (pd_positions db) (oi_ticker intent) of
                  None \<Rightarrow> 0 | Some p \<Rightarrow> pp_shares p)
         in and_then (order_shares intent open_price cash equity held) (\<lambda>shares.
            and_then (book_fill (new_fill intent shares open_price day (now settled)) intent db) (\<lambda>db'.
              Inr (db', settled + 1, awaiting)))))"

definition settle :: "(nat \<Rightarrow> instant) \<Rightarrow> pydate option \<Rightarrow> paper_db \<Rightarrow> settlement result" where
  "settle now through db = and_then (validate_paper_ledger db) (\<lambda>_.
     fold_result (settle_one now) (candidates db through) (db, 0, length (unpriced db through)))"

definition fill_order :: "PaperFill \<Rightarrow> pydate \<times> instant \<times> string" where
  "fill_order f = (pf_fill_date f, pf_filled_at f, pf_fill_id f)"

definition replay_fill :: "core_db \<Rightarrow> PaperFill \<Rightarrow> PaperPosition list \<Rightarrow> PaperPosition list result" where
  "replay_fill core f positions = (case get_order_intent core (pf_order_intent_id f) of
     None \<Rightarrow> Inl (ValueError (''missing intent '' @ pf_order_intent_id f))
   | Some i \<Rightarrow> apply_fill core i (pf_shares f) (pf_price f) (pf_fill_date f) positions)"

definition rebuild_positions :: "paper_db \<Rightarrow> paper_db result" where
  "rebuild_positions db = and_then (validate_paper_ledger db) (\<lambda>_. and_then
     (fold_result (replay_fill (pd_core db)) (sort_key fill_order (pd_fills db)) [])
     (\<lambda>positions. Inr (db\<lparr>pd_positions := positions\<rparr>)))"

section \<open>The context of the policy\<close>

definition position_tickers :: "paper_db \<Rightarrow> string list result" where
  "position_tickers db = and_then (validate_paper_ledger db) (\<lambda>_. Inr (sort (map pp_ticker (pd_positions db))))"

definition latest_close :: "PriceBar list \<Rightarrow> string \<Rightarrow> pydate \<Rightarrow> pyfloat result" where
  "latest_close prices t on_date = (case rev (get_daily_prices prices t None (Some on_date)) of
     [] \<Rightarrow> Inl (ValueError (''missing cached close for '' @ t @ '' on or before '' @ date_isoformat on_date))
   | b # _ \<Rightarrow> Inr (pb_close b))"

definition add_theme :: "string option \<Rightarrow> pyfloat \<Rightarrow> PaperPosition \<times> pyfloat \<Rightarrow> (string \<times> pyfloat) list \<Rightarrow>
    (string \<times> pyfloat) list result" where
  "add_theme exclude equity = (\<lambda>(p, v) weights.
     if Some (pp_ticker p) \<noteq> exclude \<and> pp_primary_theme_id p \<noteq> [] then
       and_then (fdiv v equity) (\<lambda>share. Inr (AList.update (pp_primary_theme_id p)
         (fadd (case map_of weights (pp_primary_theme_id p) of None \<Rightarrow> 0 | Some w \<Rightarrow> w) share) weights))
     else Inr weights)"

text \<open>
  \<open>stored_day\<close> gives the first ten characters of the stored \<open>created_at\<close>: the day in the datetime's own
  offset, which its instant does not carry.
\<close>

definition portfolio_context :: "(OrderIntent \<Rightarrow> pydate) \<Rightarrow> paper_db \<Rightarrow> pydate \<Rightarrow> string option \<Rightarrow>
    PortfolioInputs result" where
  "portfolio_context stored_day db on_date exclude = and_then
     (map_result (\<lambda>p. and_then (latest_close (pd_prices db) (pp_ticker p) on_date)
        (\<lambda>c. Inr (p, fmul (pp_shares p) c))) (pd_positions db)) (\<lambda>values.
     and_then (cash_balance db (Some on_date)) (\<lambda>cash.
     and_then (fold_result (add_theme exclude (fadd cash (fsum (map snd values)))) values []) (\<lambda>weights.
       let today = filter (\<lambda>i. stored_day i = on_date \<and> oi_execution_mode i = PAPER) (order_intents (pd_core db));
           trades = (\<lambda>side. int (length (filter (\<lambda>i. oi_side i = side) today)))
       in Inr \<lparr>holdings_count = int (length (pd_positions db)), buy_add_trades_today = trades SIDE_BUY,
         swap_buy_trades_today = 0, funded_by_same_review_sale = False, crisis_mode = False,
         sell_trim_trades_today = trades SIDE_SELL, primary_theme_weights = weights,
         short_watchlist_tickers = Some (sort (map sh_ticker (filter (\<lambda>c. sh_removed_at c = None)
           (short_watchlist_history (pd_core db) PAPER None)))),
         watchlist_entries = Some (map (\<lambda>(t, e). (t, we_entry_price_max e))
           (open_watchlist_entries (pd_core db) PAPER None))\<rparr>)))"

end
