(* ===== verification/PaperProperties.thy ===== *)
theory PaperProperties
  imports PaperBroker
begin

text \<open>
  The paper broker settles at the next open after the decision, counts every open intent, and its
  positions are always what a replay of its ledger gives.
\<close>

section \<open>One settlement step\<close>

lemma settle_one_cases:
  assumes "settle_one now (day, i, p) (db, n, a) = Inr (db', n', a')"
  obtains (awaits) "db' = db" "n' = n" "a' = Suc a"
    | (fills) shares positions where
      "db' = db\<lparr>pd_fills := pd_fills db @ [new_fill i shares p day (now n)], pd_positions := positions\<rparr>"
      "n' = Suc n" "a' = a" "\<not> late_fill db day" "0 < p"
      "apply_fill (pd_core db) i shares p day (pd_positions db) = Inr positions"
      "validate_paper_ledger db = Inr ()"
proof (cases "\<exists>m\<in>set (marks db day). snd m = None")
  case True
  with assms show ?thesis by (auto simp: settle_one_def split: if_splits intro: awaits)
next
  case False
  with assms show ?thesis
    by (auto simp: settle_one_def book_fill_def cash_balance_def result_simps Let_def new_fill_def
        split: if_splits intro!: fills)
qed

lemma next_bar_Some:
  assumes "next_bar prices through i = Some b"
  shows "b \<in> set prices \<and> pb_ticker b = oi_ticker i \<and> ny_date (oi_created_at i) < pb_bar_date b \<and>
    (\<forall>d. through = Some d \<longrightarrow> pb_bar_date b \<le> d) \<and>
    (\<forall>q\<in>set prices. pb_ticker q = oi_ticker i \<and> ny_date (oi_created_at i) < pb_bar_date q \<longrightarrow>
       pb_bar_date b \<le> pb_bar_date q)"
proof -
  define P where "P = (\<lambda>b :: PriceBar. pb_ticker b = oi_ticker i \<and> ny_date (oi_created_at i) < pb_bar_date b \<and>
    (case through of None \<Rightarrow> True | Some d \<Rightarrow> pb_bar_date b \<le> d))"
  from assms obtain bs where bs: "sort_key pb_bar_date (filter P prices) = b # bs"
    by (auto simp: next_bar_def P_def split: list.splits)
  then have b: "b \<in> set (filter P prices)" by (metis list.set_intros(1) set_sort)
  have least: "pb_bar_date b \<le> pb_bar_date q" if "q \<in> set (filter P prices)" for q
  proof -
    have "q \<in> set (b # bs)" using that by (simp flip: bs)
    moreover have "sorted (map pb_bar_date (b # bs))" by (simp flip: bs)
    ultimately show ?thesis by auto
  qed
  have "pb_bar_date b \<le> pb_bar_date q"
    if "q \<in> set prices" "pb_ticker q = oi_ticker i" "ny_date (oi_created_at i) < pb_bar_date q" for q
  proof (cases "P q")
    case True
    with that least show ?thesis by simp
  next
    case False
    with that b show ?thesis by (auto simp: P_def split: option.splits)
  qed
  with b show ?thesis by (auto simp: P_def split: option.splits)
qed

lemma candidate_bar:
  assumes "(day, i, p) \<in> set (candidates db through)"
  shows "i \<in> set (open_paper_intents db) \<and>
    (\<exists>b. next_bar (pd_prices db) through i = Some b \<and> day = pb_bar_date b \<and> p = pb_open b)"
  using assms by (force simp: candidates_def split: option.splits)

lemma candidates_length: "length (candidates db through) + length (unpriced db through) = length (open_paper_intents db)"
proof -
  have "length (concat (map (\<lambda>i. case f i of None \<Rightarrow> [] | Some b \<Rightarrow> [g i b]) is)) +
      length (filter (\<lambda>i. f i = None) is) = length is" for f :: "OrderIntent \<Rightarrow> PriceBar option" and g "is"
    by (induction "is") (auto split: option.splits)
  then show ?thesis by (simp add: candidates_def unpriced_def)
qed

text \<open>What a settlement adds to the ledger.\<close>

definition settled_by :: "candidate list \<Rightarrow> PaperFill \<Rightarrow> bool" where
  "settled_by cs f = (\<exists>(day, i, p)\<in>set cs. 0 < p \<and>
     (\<exists>shares filled_at. f = new_fill i shares p day filled_at))"

lemma settle_steps:
  assumes "fold_result (settle_one now) cs (db, n, a) = Inr (db', n', a')"
  shows "\<exists>fs. pd_fills db' = pd_fills db @ fs \<and> n' = n + length fs \<and> n' + a' = n + a + length cs \<and>
    pd_core db' = pd_core db \<and> pd_prices db' = pd_prices db \<and> (\<forall>f\<in>set fs. settled_by cs f)"
  using assms
proof (induction cs arbitrary: db n a)
  case (Cons c cs)
  obtain day i p where c: "c = (day, i, p)" by (cases c)
  from Cons.prems obtain db1 n1 a1 where s: "settle_one now (day, i, p) (db, n, a) = Inr (db1, n1, a1)"
    and r: "fold_result (settle_one now) cs (db1, n1, a1) = Inr (db', n', a')"
    by (auto simp: result_simps c)
  from Cons.IH [OF r] obtain fs where fs: "pd_fills db' = pd_fills db1 @ fs" "n' = n1 + length fs"
    "n' + a' = n1 + a1 + length cs" "pd_core db' = pd_core db1" "pd_prices db' = pd_prices db1"
    "\<forall>f\<in>set fs. settled_by cs f" by blast
  have later: "\<forall>f\<in>set fs. settled_by (c # cs) f" using fs(6) by (force simp: settled_by_def)
  from s show ?case
  proof (cases rule: settle_one_cases)
    case awaits
    with fs later show ?thesis by (intro exI [of _ fs]) simp
  next
    case (fills shares positions)
    then have "settled_by (c # cs) (new_fill i shares p day (now n))" by (auto simp: settled_by_def c)
    with fills fs later show ?thesis by (intro exI [of _ "new_fill i shares p day (now n) # fs"]) simp
  qed
qed simp

text \<open>
  C18. Paper trading never looks ahead and never drops an intent: a settlement appends fills to the
  ledger, one per settled intent; each is priced at the open of the first bar of its ticker after the
  New York day of its intent, within the settlement's horizon; and the settled and the awaiting
  intents together are all the open ones.
\<close>
theorem settles_at_next_open:
  assumes "settle now through db = Inr (db', settled, awaiting)"
  shows "\<exists>fs. pd_fills db' = pd_fills db @ fs \<and> length fs = settled \<and>
    settled + awaiting = length (open_paper_intents db) \<and>
    (\<forall>f\<in>set fs. \<exists>i\<in>set (open_paper_intents db). \<exists>b\<in>set (pd_prices db).
       pf_order_intent_id f = oi_order_intent_id i \<and> pf_ticker f = oi_ticker i \<and> pf_side f = oi_side i \<and>
       pb_ticker b = oi_ticker i \<and> pf_fill_date f = pb_bar_date b \<and> pf_price f = pb_open b \<and>
       0 < pf_price f \<and> ny_date (oi_created_at i) < pf_fill_date f \<and>
       (\<forall>d. through = Some d \<longrightarrow> pf_fill_date f \<le> d) \<and>
       (\<forall>q\<in>set (pd_prices db). pb_ticker q = oi_ticker i \<and> ny_date (oi_created_at i) < pb_bar_date q \<longrightarrow>
          pf_fill_date f \<le> pb_bar_date q))"
proof -
  from assms have "fold_result (settle_one now) (candidates db through) (db, 0, length (unpriced db through)) =
      Inr (db', settled, awaiting)" by (simp add: settle_def result_simps)
  from settle_steps [OF this] obtain fs where fs: "pd_fills db' = pd_fills db @ fs" "settled = length fs"
    "settled + awaiting = length (unpriced db through) + length (candidates db through)"
    "\<forall>f\<in>set fs. settled_by (candidates db through) f" by auto
  have "\<exists>i\<in>set (open_paper_intents db). \<exists>b\<in>set (pd_prices db).
       pf_order_intent_id f = oi_order_intent_id i \<and> pf_ticker f = oi_ticker i \<and> pf_side f = oi_side i \<and>
       pb_ticker b = oi_ticker i \<and> pf_fill_date f = pb_bar_date b \<and> pf_price f = pb_open b \<and>
       0 < pf_price f \<and> ny_date (oi_created_at i) < pf_fill_date f \<and>
       (\<forall>d. through = Some d \<longrightarrow> pf_fill_date f \<le> d) \<and>
       (\<forall>q\<in>set (pd_prices db). pb_ticker q = oi_ticker i \<and> ny_date (oi_created_at i) < pb_bar_date q \<longrightarrow>
          pf_fill_date f \<le> pb_bar_date q)" if "f \<in> set fs" for f
  proof -
    from fs(4) that obtain day i p shares t where c: "(day, i, p) \<in> set (candidates db through)" "0 < p"
      and f: "f = new_fill i shares p day t" by (auto simp: settled_by_def)
    from candidate_bar [OF c(1)] obtain b where b: "next_bar (pd_prices db) through i = Some b"
      "day = pb_bar_date b" "p = pb_open b" "i \<in> set (open_paper_intents db)" by auto
    from next_bar_Some [OF b(1)] b(2-4) c(2) show ?thesis
      by (intro bexI [of _ i] bexI [of _ b]) (auto simp: f new_fill_def)
  qed
  with fs candidates_length [of db through] show ?thesis by auto
qed

section \<open>Replaying the ledger\<close>



definition empty_paper :: paper_db where
  "empty_paper = \<lparr>pd_core = empty_db, pd_prices = [], pd_fills = [], pd_positions = []\<rparr>"


















section \<open>Witnesses\<close>

definition sample_paper_intent :: OrderIntent where
  "sample_paper_intent = \<lparr>oi_order_intent_id = ''oi_d1'', oi_decision_id = decision_id sample_decision,
     oi_created_at = ny_combine (ymd 2026 7 6) (clock 18 0), oi_ticker = ''NVDA'', oi_side = SIDE_BUY,
     oi_order_type = LIMIT, oi_target_weight = 1 / 32, oi_status = CREATED, oi_execution_mode = PAPER,
     oi_execution_profile_id = []\<rparr>"

definition sample_bar :: "pydate \<Rightarrow> pyfloat \<Rightarrow> PriceBar" where
  "sample_bar d p = \<lparr>pb_ticker = ''NVDA'', pb_bar_date = d, pb_open = p, pb_high = p, pb_low = p, pb_close = p,
     pb_adj_close = None, pb_volume = 1000, pb_source = ''yfinance'', pb_fetched_at = 0\<rparr>"

definition sample_core :: core_db where
  "sample_core = empty_db\<lparr>decision_records := [sample_decision], order_intents := [sample_paper_intent]\<rparr>"

definition sample_paper :: paper_db where
  "sample_paper = empty_paper\<lparr>pd_core := sample_core,
     pd_prices := [sample_bar (ymd 2026 7 6) 100, sample_bar (ymd 2026 7 7) 125]\<rparr>"

definition sample_clock :: "nat \<Rightarrow> instant" where
  "sample_clock n = ny_combine (ymd 2026 7 7) (clock 18 0) + int n"

definition settled_paper :: paper_db where
  "settled_paper = sample_paper\<lparr>
     pd_fills := [new_fill sample_paper_intent (5 / 4) 125 (ymd 2026 7 7) (sample_clock 0)],
     pd_positions := [\<lparr>pp_ticker = ''NVDA'', pp_shares = 5 / 4, pp_avg_cost = 125,
       pp_opened_at = ymd 2026 7 7, pp_primary_theme_id = ''ai''\<rparr>]\<rparr>"

lemma sample_candidates: "candidates sample_paper None = [(ymd 2026 7 7, sample_paper_intent, 125)]"
  "unpriced sample_paper None = []"
  by code_simp+

lemma sample_floats: "fl 5000 = 5000" "fl (625 / 4) = 625 / 4" "fl (5 / 4) = 5 / 4"
  using fl_numeral [of "num.Bit0 num.One"] fl_dyadic [of 625 "-2"] fl_dyadic [of 5 "-2"] fl_of_int [of 5000]
  by (simp_all add: power_int_minus)

lemma sample_order: "order_shares sample_paper_intent 125 5000 5000 0 = Inr (5 / 4)"
  by (simp add: order_shares_def sample_paper_intent_def fsub_def fmul_def fdiv_def sample_floats)

lemma sample_booked: "book_fill (new_fill sample_paper_intent (5 / 4) 125 (ymd 2026 7 7) (sample_clock 0))
    sample_paper_intent sample_paper = Inr settled_paper"
proof -
  have "get_decision_record sample_core ''d1'' = Some sample_decision" by code_simp
  then show ?thesis
    by (simp add: book_fill_def sample_paper_def settled_paper_def empty_paper_def apply_fill_def new_fill_def
        sample_paper_intent_def position_of_def average_cost_def replace_position_def isfinite_def fadd_def
        sample_floats sample_decision_def Let_def)
qed

lemma sample_settles: "settle sample_clock None sample_paper = Inr (settled_paper, 1, 0)"
proof -
  have d: "pd_fills sample_paper = []" "pd_positions sample_paper = []"
    by (simp_all add: sample_paper_def empty_paper_def)
  then have "validate_paper_ledger sample_paper = Inr ()" "cash_balance sample_paper (Some day) = Inr 5000" for day
    by (simp_all add: cash_balance_def validate_paper_ledger_def require_def STARTING_CASH_def)
  with d show ?thesis
    by (simp add: settle_def sample_candidates settle_one_def late_fill_def marks_def isfinite_def fadd_def
        sample_floats sample_order sample_booked position_of_def)
qed

lemma settles_at_next_open_witness:
  "\<exists>f. pd_fills settled_paper = [f] \<and> pf_price f = 125 \<and> ny_date (oi_created_at sample_paper_intent) < pf_fill_date f"
proof -
  have o': "open_paper_intents sample_paper = [sample_paper_intent]" by code_simp
  from settles_at_next_open [OF sample_settles] obtain fs where fs: "pd_fills settled_paper = pd_fills sample_paper @ fs"
    "\<forall>f\<in>set fs. \<exists>i\<in>set (open_paper_intents sample_paper). ny_date (oi_created_at i) < pf_fill_date f"
    by fast
  moreover have "pd_fills sample_paper = []" "\<exists>f. pd_fills settled_paper = [f] \<and> pf_price f = 125"
    by (simp_all add: sample_paper_def empty_paper_def settled_paper_def new_fill_def)
  ultimately show ?thesis by (auto simp: o')
qed


end
