(* ===== verification/RegimeProperties.thy ===== *)
theory RegimeProperties
  imports Regime
begin

text \<open>
  The score of the regime rules is bounded and decides the raw regime; a published regime changes only
  when two snapshots in a row agree; and a score depends on no bar after the session it is for.
\<close>

section \<open>The score\<close>

lemma regime_points [simp]: "cm_points (component v p) = p"
  by (simp add: component_def)

lemma trend_points: "trend c a = Inr x \<Longrightarrow> cm_points x \<in> {2, - 2}"
  by (auto simp: trend_def result_simps split: if_splits)

lemma trend_slope_points: "trend_slope a b = Inr x \<Longrightarrow> cm_points x \<in> {1, - 1}"
  by (auto simp: trend_slope_def result_simps split: if_splits)

lemma drawdown_points: "cm_points (drawdown_component d) \<in> {2, 0, - 2, - 4}"
  by (simp add: drawdown_component_def Let_def)

lemma volatility_points: "cm_points (volatility_component p) \<in> {1, - 1, - 3}"
  by (simp add: volatility_component_def)

lemma score_closes_points:
  assumes "score_closes spy qqq = Inr s"
  obtains t1 t2 l1 l2 d v where "cm_points t1 \<in> {2, - 2}" "cm_points t2 \<in> {2, - 2}"
    "cm_points l1 \<in> {1, - 1}" "cm_points l2 \<in> {1, - 1}" "cm_points d \<in> {2, 0, - 2, - 4}"
    "cm_points v \<in> {1, - 1, - 3}"
    "rs_components s = [(''spy_trend'', t1), (''qqq_trend'', t2), (''spy_trend_slope'', l1),
      (''qqq_trend_slope'', l2), (''drawdown'', d), (''spy_volatility'', v)]"
    "rs_score s = sum_list (map (\<lambda>c. cm_points (snd c)) (rs_components s))"
    "rs_raw_regime s = regime_of (rs_score s)"
proof -
  from assms obtain t1 t2 l1 l2 d1 d2 p a1 a2 b1 b2 b3 b4 where
    "trend (last spy) a1 = Inr t1" "trend (last qqq) a2 = Inr t2" "trend_slope b1 b2 = Inr l1"
    "trend_slope b3 b4 = Inr l2"
    and s: "s = (let components = [(''spy_trend'', t1), (''qqq_trend'', t2), (''spy_trend_slope'', l1),
      (''qqq_trend_slope'', l2), (''drawdown'', drawdown_component (min d1 d2)),
      (''spy_volatility'', volatility_component p)];
      score = sum_list (map (\<lambda>c. cm_points (snd c)) components)
      in \<lparr>rs_raw_regime = regime_of score, rs_score = score, rs_components = components\<rparr>)"
    unfolding score_closes_def Let_def and_then_Inr by auto
  then show thesis
    using that [OF trend_points trend_points trend_slope_points trend_slope_points drawdown_points volatility_points]
    by (simp add: Let_def)
qed

text \<open>
  The score is the sum of six components, a number from -13 to 9, and decides the raw regime:
  GREEN from 4 up, RED from -4 down. GREEN needs both indexes or one index and calm: it excludes a
  deep drawdown together with a volatility spike.
\<close>
theorem regime_score_bounded:
  assumes "score_regime spy qqq = Inr s"
  shows "504 \<le> length spy \<and> 504 \<le> length qqq \<and> length (rs_components s) = 6 \<and>
    rs_score s = sum_list (map (\<lambda>c. cm_points (snd c)) (rs_components s)) \<and>
    - 13 \<le> rs_score s \<and> rs_score s \<le> 9 \<and>
    (rs_raw_regime s = GREEN \<longleftrightarrow> 4 \<le> rs_score s) \<and> (rs_raw_regime s = RED \<longleftrightarrow> rs_score s \<le> - 4) \<and>
    (rs_raw_regime s = GREEN \<longrightarrow> \<not> (cm_points (snd (rs_components s ! 4)) = - 4 \<and>
       cm_points (snd (rs_components s ! 5)) = - 3))"
proof -
  from assms have len: "504 \<le> length spy" "504 \<le> length qqq"
    and s: "score_closes (map pb_close spy) (map pb_close qqq) = Inr s"
    by (auto simp: score_regime_def split: if_splits)
  from s obtain t1 t2 l1 l2 d v where t: "cm_points t1 \<in> {2, - 2}" "cm_points t2 \<in> {2, - 2}"
    "cm_points l1 \<in> {1, - 1}" "cm_points l2 \<in> {1, - 1}" "cm_points d \<in> {2, 0, - 2, - 4}"
    "cm_points v \<in> {1, - 1, - 3}"
    and components: "rs_components s = [(''spy_trend'', t1), (''qqq_trend'', t2), (''spy_trend_slope'', l1),
      (''qqq_trend_slope'', l2), (''drawdown'', d), (''spy_volatility'', v)]"
    and score: "rs_score s = sum_list (map (\<lambda>c. cm_points (snd c)) (rs_components s))"
    and raw: "rs_raw_regime s = regime_of (rs_score s)"
    by (rule score_closes_points)
  have "- 13 \<le> rs_score s" "rs_score s \<le> 9"
    "4 \<le> rs_score s \<Longrightarrow> \<not> (cm_points d = - 4 \<and> cm_points v = - 3)"
    using t by (auto simp: score components)
  with len raw score show ?thesis by (auto simp: components regime_of_def)
qed

section \<open>The published regime\<close>

inductive regime_reachable :: "core_db \<Rightarrow> bool" where
  start: "regime_reachable empty_db"
| save: "regime_reachable db \<Longrightarrow> save_snapshot now d score db = Inr (db', published) \<Longrightarrow> regime_reachable db'"
| other: "regime_reachable db \<Longrightarrow> regime_snapshots db' = regime_snapshots db \<Longrightarrow> regime_reachable db'"

definition follows :: "RegimeSnapshot \<Rightarrow> RegimeSnapshot \<Rightarrow> bool" where
  "follows a b = (rg_snapshot_date a < rg_snapshot_date b \<and>
     rg_regime b = (if rg_raw_regime b \<noteq> rg_regime a \<and> rg_raw_regime a = rg_raw_regime b
       then rg_raw_regime b else rg_regime a))"

fun chained :: "RegimeSnapshot list \<Rightarrow> bool" where
  "chained [] = True"
| "chained [a] = (rg_regime a = rg_raw_regime a)"
| "chained rows = (chained (butlast rows) \<and> follows (last (butlast rows)) (last rows))"

lemma chained_snoc:
  "chained (rows @ [b]) \<longleftrightarrow> (if rows = [] then rg_regime b = rg_raw_regime b
     else chained rows \<and> follows (last rows) b)"
proof (cases rows)
  case (Cons a rest)
  then obtain c cs where "rows @ [b] = a # c # cs" by (cases rest) auto
  then have "chained (rows @ [b]) \<longleftrightarrow> chained (butlast (rows @ [b])) \<and>
      follows (last (butlast (rows @ [b]))) (last (rows @ [b]))"
    by (simp only: chained.simps(3))
  with Cons show ?thesis by (simp del: chained.simps)
qed simp

lemma chained_sorted: "chained rows \<Longrightarrow> sorted_wrt (<) (map rg_snapshot_date rows)"
proof (induction rows rule: rev_induct)
  case (snoc b rows)
  show ?case
  proof (cases "rows = []")
    case False
    with snoc have "sorted_wrt (<) (map rg_snapshot_date rows)" and f: "follows (last rows) b"
      by (simp_all add: chained_snoc)
    moreover have "rg_snapshot_date r < rg_snapshot_date b" if "r \<in> set rows" for r
    proof -
      from False obtain xs l where rows: "rows = xs @ [l]" by (metis rev_exhaust)
      with calculation that show ?thesis by (auto simp: sorted_wrt_append follows_def)
    qed
    ultimately show ?thesis by (simp add: sorted_wrt_append)
  qed simp
qed simp

lemma chained_step: "chained rows \<Longrightarrow> Suc i < length rows \<Longrightarrow> follows (rows ! i) (rows ! Suc i)"
proof (induction rows rule: rev_induct)
  case (snoc b rows)
  show ?case
  proof (cases "Suc i < length rows")
    case True
    with snoc show ?thesis by (auto simp: chained_snoc nth_append split: if_splits)
  next
    case False
    with snoc.prems have "i = length rows - 1" "rows \<noteq> []" by auto
    with snoc.prems show ?thesis by (simp add: chained_snoc nth_append last_conv_nth)
  qed
qed simp

lemma save_snapshot_chained:
  assumes "save_snapshot now d score db = Inr (db', published)" and "chained (regime_snapshots db)"
  shows "chained (regime_snapshots db')"
proof (cases "find_row rg_snapshot_date d (regime_snapshots db)")
  case (Some e)
  with assms show ?thesis by (simp add: save_snapshot_def Let_def split: if_splits)
next
  case None
  let ?rows = "regime_snapshots db"
  from None assms(1) have future: "\<forall>r\<in>set ?rows. rg_snapshot_date r \<le> d"
    and db': "db' = db\<lparr>regime_snapshots := ?rows @ [snapshot_row d (published_on db d score) score now]\<rparr>"
    by (auto simp: save_snapshot_def Let_def not_less split: if_splits)
  from None have "d \<notin> rg_snapshot_date ` set ?rows" by (simp add: find_row_None)
  with future have earlier: "\<forall>r\<in>set ?rows. rg_snapshot_date r < d" by fastforce
  have "sorted (map rg_snapshot_date ?rows)"
    using chained_sorted [OF assms(2)] by (rule strict_sorted_imp_sorted)
  with earlier have rows: "earlier_snapshots db d = ?rows"
    by (simp add: earlier_snapshots_def sort_key_id_if_sorted filter_id_conv)
  show ?thesis
  proof (cases "?rows = []")
    case True
    then show ?thesis
      by (simp add: db' snapshot_row_def published_on_def rows publish_regime_def)
  next
    case False
    have "last_n 1 ?rows = [last ?rows]" using False by (cases ?rows rule: rev_cases) (auto simp: last_n_def)
    with False earlier assms(2) show ?thesis
      by (simp add: db' chained_snoc follows_def snapshot_row_def published_on_def rows publish_regime_def Let_def)
  qed
qed

lemma regime_reachable_chained: "regime_reachable db \<Longrightarrow> chained (regime_snapshots db)"
  by (induction rule: regime_reachable.induct) (auto simp: empty_db_def intro: save_snapshot_chained)

text \<open>
  The published regime does not flip on one reading: the snapshots are in the order of their
  dates, and between neighbours the published regime changes only to a raw regime that both of them
  have; it then does change.
\<close>
theorem regime_changes_need_two_readings:
  assumes "regime_reachable db" and "Suc i < length (regime_snapshots db)"
  shows "let a = regime_snapshots db ! i; b = regime_snapshots db ! Suc i in
    rg_snapshot_date a < rg_snapshot_date b \<and>
    (rg_regime b \<noteq> rg_regime a \<longleftrightarrow> rg_raw_regime b \<noteq> rg_regime a \<and> rg_raw_regime a = rg_raw_regime b) \<and>
    (rg_regime b \<noteq> rg_regime a \<longrightarrow> rg_regime b = rg_raw_regime b)"
  using chained_step [OF regime_reachable_chained [OF assms(1)] assms(2)]
  by (auto simp: follows_def Let_def)

section \<open>Point in time\<close>

text \<open>
  The score of a session uses nothing after it: bars that arrive later, of any ticker and in any
  number, change neither the score nor what is stored. A backtest over the final table therefore
  scores what was known.
\<close>
theorem regime_scores_are_point_in_time:
  assumes "completed_through requested observed = Inr target" and "\<forall>b\<in>set bars. target < pb_bar_date b"
  shows "score_date observed now requested (fst (upsert_daily_prices bars prices)) db =
    score_date observed now requested prices db"
  using assms by (simp add: score_date_def get_daily_prices_upsert_later)

section \<open>Witnesses\<close>

lemma fsum_loop_replicate:
  assumes "0 \<le> a" and "0 \<le> x" and "a + int k * x < 2 ^ 53"
  shows "fsum_loop (of_int a) 0 (replicate k (of_int x)) = of_int (a + int k * x)"
  using assms
proof (induction k arbitrary: a)
  case (Suc k)
  have r: "0 \<le> int k * x" using Suc.prems by simp
  have t: "a + x + int k * x < 2 ^ 53" using Suc.prems(3) by (simp add: algebra_simps)
  have b: "\<bar>a + x\<bar> < 2 ^ 53" "\<bar>x\<bar> < 2 ^ 53" "\<bar>a\<bar> < 2 ^ 53"
    using r t Suc.prems(1,2) by linarith+
  have s: "fadd (of_int a) (of_int x) = of_int (a + x)"
    using fl_of_int [OF b(1)] by (simp add: fadd_def)
  have "fsub (of_int x) (of_int (a + x)) = of_int (- a)" "fsub (of_int a) (of_int (a + x)) = of_int (- x)"
    using fl_of_int [of "- a"] fl_of_int [of "- x"] b by (simp_all add: fsub_def)
  then have "fsum_loop (of_int a) 0 (replicate (Suc k) (of_int x)) = fsum_loop (of_int (a + x)) 0 (replicate k (of_int x))"
    by (simp add: s Let_def) (simp add: fadd_def)
  also have "\<dots> = of_int ((a + x) + int k * x)"
    using Suc.prems by (intro Suc.IH) (simp_all add: algebra_simps)
  finally show ?case by (simp add: algebra_simps)
qed simp

lemma fsum_replicate: "0 \<le> x \<Longrightarrow> int k * x < 2 ^ 53 \<Longrightarrow> fsum (replicate k (of_int x)) = of_int (int k * x)"
proof (cases k)
  case (Suc j)
  assume "0 \<le> x" "int k * x < 2 ^ 53"
  with Suc fsum_loop_replicate [of x x j] show ?thesis by (simp add: algebra_simps)
qed simp

lemma map_result_replicate: "f x = Inr y \<Longrightarrow> map_result f (replicate n x) = Inr (replicate n y)"
  by (induction n) auto

definition flat :: "nat \<Rightarrow> pyfloat list" where
  "flat n = replicate n 100"

lemma flat_windows: "last_n k (flat 504) = flat (min k 504)" "last (flat (Suc n)) = 100"
  "take k (drop j (flat n)) = flat (min k (n - j))" "set (flat (Suc n)) = {100}"
  by (simp_all add: last_n_def flat_def min_def del: replicate_Suc)

lemma flat_sma: "0 < k \<Longrightarrow> k \<le> 504 \<Longrightarrow> sma (flat 504) k = Inr 100"
proof -
  assume k: "0 < k" "k \<le> 504"
  then have "fsum (replicate k (of_int 100)) = of_int (int k * 100)" by (intro fsum_replicate) simp_all
  with k show ?thesis using fl_of_int [of 100] by (simp add: sma_def flat_windows fdiv_def min_def) (simp add: flat_def)
qed

lemma flat_quotient: "fdiv 100 100 = Inr 1" "fsub 1 1 = 0"
  by (simp_all add: fdiv_def fsub_def)

lemma flat_volatility: "realized_volatility (flat 21) = Inr 0"
proof -
  have "zip (drop 1 (flat 21)) (flat 21) = replicate 20 (100, 100)"
    by (simp add: flat_def eval_nat_numeral)
  then have "daily_returns (flat 21) = Inr (replicate 20 0)"
    unfolding daily_returns_def by (simp add: map_result_replicate flat_quotient)
  then show ?thesis by (simp add: realized_volatility_def pstdev_def fmul_def sum_list_replicate)
qed

lemma flat_percentile: "volatility_percentile (flat 504) = Inr 0"
proof -
  have "take 21 (drop (e - 20) (flat 504)) = flat 21" if "e < 504" for e
  proof -
    from that have "min 21 (504 - (e - 20)) = 21" by arith
    then show ?thesis by (simp only: flat_windows)
  qed
  then have "map_result (\<lambda>end. realized_volatility (take 21 (drop (end - 20) (flat 504)))) es = Inr (replicate (length es) 0)"
    if "\<forall>e\<in>set es. e < 504" for es
    using that by (induction es) (simp_all add: flat_volatility)
  from this [of "[20..<504]"]
  have v: "map_result (\<lambda>end. realized_volatility (take 21 (drop (end - 20) (flat 504)))) [20..<504] = Inr (replicate 484 0)"
    by (simp del: upt_rec_numeral upt_Suc)
  have l: "last_n 504 (flat 504) = flat 504" "length (flat 504) = 504"
    by (simp_all only: flat_windows min.idem) (simp add: flat_def)
  have "and_then (fdiv (of_nat (length (filter (\<lambda>v. v < last (replicate n 0)) (replicate n (0 :: pyfloat)))))
      (of_nat (length (replicate n (0 :: pyfloat))))) (\<lambda>q. Inr (fmul q 100)) = Inr (0 :: pyfloat)" if "0 < n" for n
    using that by (simp add: fdiv_def fmul_def)
  from this [of 484] show ?thesis
    unfolding volatility_percentile_def Let_def l v and_then.simps by (simp only: zero_less_numeral)
qed

lemma flat_score: "score_closes (flat 504) (flat 504) = Inr \<lparr>rs_raw_regime = YELLOW, rs_score = - 3,
    rs_components = [(''spy_trend'', component 0 (- 2)), (''qqq_trend'', component 0 (- 2)),
      (''spy_trend_slope'', component 0 (- 1)), (''qqq_trend_slope'', component 0 (- 1)),
      (''drawdown'', component 0 2), (''spy_volatility'', component 0 1)]\<rparr>"
proof -
  have "last (flat 504) = 100" using flat_windows(2) [of 503] by simp
  moreover have "set (flat 252) = {100}" using flat_windows(4) [of 251] by simp
  moreover have "0 < fl (1 / 20)" using fl_mono [of "1 / 32" "1 / 20"] fl_dyadic [of 1 "-5"]
    by (simp add: power_int_minus)
  ultimately show ?thesis
    by (simp add: score_closes_def flat_sma trend_def trend_slope_def drawdown_def flat_windows flat_percentile
        flat_quotient drawdown_component_def volatility_component_def regime_of_def Let_def)
qed

definition flat_bar :: "string \<Rightarrow> pydate \<Rightarrow> PriceBar" where
  "flat_bar t d = \<lparr>pb_ticker = t, pb_bar_date = d, pb_open = 100, pb_high = 100, pb_low = 100, pb_close = 100,
     pb_adj_close = None, pb_volume = 0, pb_source = [], pb_fetched_at = 0\<rparr>"

definition flat_bars :: "string \<Rightarrow> PriceBar list" where
  "flat_bars t = map (\<lambda>n. flat_bar t (int n)) [0..<504]"

lemma flat_bars_score: "\<exists>s. score_regime (flat_bars ''SPY'') (flat_bars ''QQQ'') = Inr s \<and> rs_score s = - 3 \<and>
    rs_raw_regime s = YELLOW"
proof -
  have "map pb_close (flat_bars t) = flat 504" for t
    by (simp add: flat_bars_def flat_bar_def o_def flat_def map_replicate_const del: upt_Suc)
  then show ?thesis by (simp add: score_regime_def flat_score flat_bars_def del: upt_Suc)
qed

lemma regime_score_bounded_witness:
  "\<exists>s :: RegimeScore. rs_score s = - 3 \<and> length (rs_components s) = 6 \<and> rs_raw_regime s \<noteq> GREEN"
proof -
  from flat_bars_score obtain s where s: "score_regime (flat_bars ''SPY'') (flat_bars ''QQQ'') = Inr s"
    "rs_score s = - 3" "rs_raw_regime s = YELLOW" by auto
  from regime_score_bounded [OF s(1)] s show ?thesis by auto
qed

definition raw_score :: "RegimeState \<Rightarrow> RegimeScore" where
  "raw_score r = \<lparr>rs_raw_regime = r, rs_score = 0, rs_components = []\<rparr>"

definition regime_day :: "pydate \<Rightarrow> RegimeState \<Rightarrow> core_db \<Rightarrow> core_db" where
  "regime_day d r db = fst (projr (save_snapshot 0 d (raw_score r) db))"

definition regime_history :: core_db where
  "regime_history = regime_day 3 RED (regime_day 2 RED (regime_day 1 GREEN empty_db))"

lemma regime_changes_need_two_readings_witness:
  "rg_regime (regime_snapshots regime_history ! 1) = GREEN \<and> rg_regime (regime_snapshots regime_history ! 2) = RED \<and>
   rg_raw_regime (regime_snapshots regime_history ! 1) = RED"
proof -
  have s: "save_snapshot 0 1 (raw_score GREEN) empty_db = Inr (regime_day 1 GREEN empty_db, GREEN)"
    "save_snapshot 0 2 (raw_score RED) (regime_day 1 GREEN empty_db) =
       Inr (regime_day 2 RED (regime_day 1 GREEN empty_db), GREEN)"
    "save_snapshot 0 3 (raw_score RED) (regime_day 2 RED (regime_day 1 GREEN empty_db)) = Inr (regime_history, RED)"
    by code_simp+
  have r: "regime_reachable regime_history"
    by (rule regime_reachable.save [OF regime_reachable.save [OF regime_reachable.save
      [OF regime_reachable.start s(1)] s(2)] s(3)])
  have n: "Suc 1 < length (regime_snapshots regime_history)" by code_simp
  have "rg_regime (regime_snapshots regime_history ! 1) = GREEN"
    "rg_regime (regime_snapshots regime_history ! 2) = RED" by code_simp+
  with regime_changes_need_two_readings [OF r n] show ?thesis by (simp add: Let_def numeral_2_eq_2)
qed

lemma regime_scores_are_point_in_time_witness:
  "\<exists>t. completed_through (ymd 2026 7 6) (ny_combine (ymd 2026 7 6) (clock 18 0)) = Inr t \<and>
     score_date (ny_combine (ymd 2026 7 6) (clock 18 0)) 0 (ymd 2026 7 6)
       (fst (upsert_daily_prices [flat_bar ''SPY'' (ymd 2026 7 7)] (flat_bars ''SPY''))) empty_db =
     score_date (ny_combine (ymd 2026 7 6) (clock 18 0)) 0 (ymd 2026 7 6) (flat_bars ''SPY'') empty_db"
proof -
  have t: "completed_through (ymd 2026 7 6) (ny_combine (ymd 2026 7 6) (clock 18 0)) = Inr (ymd 2026 7 6)"
    by code_simp
  have "ymd 2026 7 6 < ymd 2026 7 7" by code_simp
  then have "\<forall>b\<in>set [flat_bar ''SPY'' (ymd 2026 7 7)]. ymd 2026 7 6 < pb_bar_date b"
    by (simp add: flat_bar_def)
  with t regime_scores_are_point_in_time [OF t] show ?thesis by blast
qed

end
