(* ===== verification/Crisis.thy ===== *)
theory Crisis
  imports Regime
begin

text \<open>
  Market stress (\<open>app/storage/crisis.py\<close>): the reasons for crisis mode, the exposure check and the
  market-relative move of a holding. \<open>x ** 2\<close> of a float is its correctly rounded square. Snapshots
  of one profile are taken at different milliseconds, so \<open>ORDER BY julianday\<close> has no ties.
\<close>

section \<open>Crisis mode\<close>

definition CRISIS_DROP :: pyfloat where
  "CRISIS_DROP = fl (- 3 / 100)"

definition MARKET_INDEXES :: "(string \<times> string) list" where
  "MARKET_INDEXES = [(''SPY'', ''spy''), (''QQQ'', ''qqq'')]"

text \<open>\<open>now / before - 1 <= CRISIS_DROP\<close>\<close>

definition dropped :: "pyfloat \<Rightarrow> pyfloat \<Rightarrow> bool result" where
  "dropped now earlier = and_then (fdiv now earlier) (\<lambda>q. Inr (fsub q 1 \<le> CRISIS_DROP))"

text \<open>The closes before a day, the latest first.\<close>

definition closes_before :: "PriceBar list \<Rightarrow> string \<Rightarrow> pydate \<Rightarrow> nat \<Rightarrow> PriceBar list" where
  "closes_before prices t day n = take n (rev (get_daily_prices prices t None (Some (day - 1))))"

definition index_reasons :: "PriceBar list \<Rightarrow> LivePortfolioSnapshot \<Rightarrow> pydate \<Rightarrow> string \<times> string \<Rightarrow>
    string list result" where
  "index_reasons prices snap today = (\<lambda>(index, name).
     let closes = map pb_close (closes_before prices index today 2) in
     and_then (case closes of [a, b] \<Rightarrow> dropped a b | _ \<Rightarrow> Inr False) (\<lambda>fell.
     and_then (case (closes, map_of (ls_index_prices snap) index) of
         (a # _, Some p) \<Rightarrow> dropped p a | _ \<Rightarrow> Inr False) (\<lambda>down.
       Inr (error_if fell (name @ ''_fell_3_percent_at_the_last_close'') @
            error_if down (name @ ''_down_3_percent_today'')))))"

definition prior_snapshot :: "core_db \<Rightarrow> string \<Rightarrow> instant \<Rightarrow> LivePortfolioSnapshot option" where
  "prior_snapshot db profile opened = greatest (\<lambda>s. julianday (ls_captured_at s))
     (filter (\<lambda>s. ls_execution_profile_id s = profile \<and> julianday (ls_captured_at s) < julianday opened)
       (live_portfolio_snapshots db))"

definition regime_through :: "core_db \<Rightarrow> pydate \<Rightarrow> RegimeSnapshot option" where
  "regime_through db day = greatest rg_snapshot_date (filter (\<lambda>r. rg_snapshot_date r \<le> day) (regime_snapshots db))"

definition crisis_reasons :: "PriceBar list \<Rightarrow> core_db \<Rightarrow> LivePortfolioSnapshot \<Rightarrow> instant \<Rightarrow> string list result" where
  "crisis_reasons prices db snap as_of =
    (let today = ny_date as_of; opened = ny_combine today (clock 9 30) in
     and_then (map_result (index_reasons prices snap today) MARKET_INDEXES) (\<lambda>indexes.
     and_then (case prior_snapshot db (ls_execution_profile_id snap) opened of
         None \<Rightarrow> Inr False
       | Some p \<Rightarrow> if opened \<le> ls_captured_at snap then dropped (ls_account_equity snap) (ls_account_equity p)
           else Inr False) (\<lambda>account.
       Inr (concat indexes @ error_if account ''account_down_3_percent_today'' @
         error_if (case regime_through db today of None \<Rightarrow> False
           | Some r \<Rightarrow> rg_regime r = GREEN \<and> rg_raw_regime r \<noteq> GREEN) ''raw_regime_off_green''))))"

section \<open>Exposure\<close>

fun EXPOSURE_BANDS :: "RegimeState \<Rightarrow> pyfloat \<times> pyfloat" where
  "EXPOSURE_BANDS GREEN = (fl (4 / 5), 1)"
| "EXPOSURE_BANDS YELLOW = (fl (2 / 5), fl (7 / 10))"
| "EXPOSURE_BANDS RED = (0, fl (1 / 5))"

record ExposureCheck =
  xc_invested_percent :: pyfloat
  xc_published_regime :: RegimeState
  xc_published_band_percent :: "int \<times> int"
  xc_raw_regime :: RegimeState
  xc_raw_band_percent :: "int \<times> int"
  xc_over_exposed :: bool

definition band_percent :: "pyfloat \<times> pyfloat \<Rightarrow> int \<times> int" where
  "band_percent b = (rhe (fmul (fst b) 100), rhe (fmul (snd b) 100))"

definition exposure_check :: "core_db \<Rightarrow> LivePortfolioSnapshot \<Rightarrow> instant \<Rightarrow> ExposureCheck result" where
  "exposure_check db snap as_of =
     and_then (fdiv (fsum (map lpos_market_value (ls_positions snap))) (ls_account_equity snap)) (\<lambda>invested.
     let (published, raw) = (case regime_through db (ny_date as_of) of None \<Rightarrow> (GREEN, GREEN)
           | Some r \<Rightarrow> (rg_regime r, rg_raw_regime r))
     in Inr \<lparr>xc_invested_percent = py_round 1 (fmul invested 100), xc_published_regime = published,
       xc_published_band_percent = band_percent (EXPOSURE_BANDS published), xc_raw_regime = raw,
       xc_raw_band_percent = band_percent (EXPOSURE_BANDS raw),
       xc_over_exposed = (min (snd (EXPOSURE_BANDS published)) (snd (EXPOSURE_BANDS raw)) < invested)\<rparr>)"

section \<open>A holding against the market\<close>

definition BETA_SESSIONS :: nat where
  "BETA_SESSIONS = 60"

record RelativeMove =
  rm_move :: "pyfloat option"
  rm_qqq_move :: "pyfloat option"
  rm_beta :: "pyfloat option"
  rm_excess :: "pyfloat option"

definition observed_price :: "LivePortfolioSnapshot \<Rightarrow> string \<Rightarrow> pyfloat option" where
  "observed_price snap t = (case ls_reporting snap of None \<Rightarrow> None
   | Some v \<Rightarrow> (case find (\<lambda>p. rp_ticker p = t \<and> rp_price p \<noteq> None)
         (case vo_positions v of None \<Rightarrow> [] | Some ps \<Rightarrow> ps) of
       None \<Rightarrow> None | Some p \<Rightarrow> map_option fl (rp_price p)))"

definition move_percent :: "pyfloat option \<Rightarrow> pyfloat option \<Rightarrow> pyfloat option result" where
  "move_percent now earlier = (case (now, earlier) of
     (Some p, Some c) \<Rightarrow> if p = 0 \<or> c = 0 then Inr None
       else and_then (fdiv p c) (\<lambda>q. Inr (Some (fmul (fsub q 1) 100)))
   | _ \<Rightarrow> Inr None)"

definition return_pairs :: "(pydate \<times> pyfloat) list \<Rightarrow> (pydate \<times> pyfloat) list \<Rightarrow> (pyfloat \<times> pyfloat) list result" where
  "return_pairs own market =
    (let dates = filter (\<lambda>d. d \<in> set (map fst market)) (sort (map fst own));
         change = (\<lambda>closes now earlier. and_then (fdiv (the (map_of closes now)) (the (map_of closes earlier)))
           (\<lambda>q. Inr (fsub q 1)))
     in map_result (\<lambda>(earlier, now). and_then (change own now earlier) (\<lambda>x.
          and_then (change market now earlier) (\<lambda>y. Inr (x, y)))) (zip dates (drop 1 dates)))"

definition beta_of :: "(pyfloat \<times> pyfloat) list \<Rightarrow> pyfloat option result" where
  "beta_of pairs = (if length pairs < 20 then Inr None
     else and_then (fdiv (fsum (map fst pairs)) (of_nat (length pairs))) (\<lambda>mean_own.
       and_then (fdiv (fsum (map snd pairs)) (of_nat (length pairs))) (\<lambda>mean_market.
       let variance = fsum (map (\<lambda>p. fmul (fsub (snd p) mean_market) (fsub (snd p) mean_market)) pairs) in
       if variance = 0 then Inr None
       else and_then (fdiv (fsum (map (\<lambda>p. fmul (fsub (fst p) mean_own) (fsub (snd p) mean_market)) pairs)) variance)
         (\<lambda>b. Inr (Some b)))))"

definition market_relative_move :: "PriceBar list \<Rightarrow> LivePortfolioSnapshot \<Rightarrow> string \<Rightarrow> instant \<Rightarrow>
    RelativeMove result" where
  "market_relative_move prices snap t as_of =
    (let today = ny_date as_of;
         closes = (\<lambda>symbol. map (\<lambda>b. (pb_bar_date b, pb_close b))
           (closes_before prices symbol today (BETA_SESSIONS + 1)));
         own = closes t; market = closes ''QQQ'';
         latest = (\<lambda>cs. case cs of [] \<Rightarrow> None | c # _ \<Rightarrow> Some (snd c))
     in and_then (move_percent (observed_price snap t) (latest own)) (\<lambda>move.
        and_then (move_percent (map_of (ls_index_prices snap) ''QQQ'') (latest market)) (\<lambda>market_move.
        and_then (return_pairs own market) (\<lambda>pairs. and_then (beta_of pairs) (\<lambda>beta.
          let excess = (case (move, market_move, beta) of
                (Some m, Some q, Some b) \<Rightarrow> Some (fsub m (fmul b q)) | _ \<Rightarrow> None)
          in Inr \<lparr>rm_move = map_option (py_round 2) move, rm_qqq_move = map_option (py_round 2) market_move,
            rm_beta = map_option (py_round 2) beta, rm_excess = map_option (py_round 2) excess\<rparr>)))))"

end
