(* ===== verification/LiveContext.thy ===== *)
theory LiveContext
  imports Crisis Watchlists
begin

text \<open>
  The portfolio context of a live submission (\<open>app/reason/live_context.py\<close>): the facts of the bound
  snapshot, the day's orders of the profile and its watchlists. \<open>swap_pairs\<close> associates the decision
  of a buy with the decision of the sale that funds it.
\<close>

definition missing_themes :: "LivePosition list \<Rightarrow> string list" where
  "missing_themes positions = map lpos_ticker (filter (\<lambda>p. lpos_primary_theme_id p = []) positions)"

definition theme_share :: "string option \<Rightarrow> pyfloat \<Rightarrow> LivePosition \<Rightarrow> (string \<times> pyfloat) list \<Rightarrow>
    (string \<times> pyfloat) list result" where
  "theme_share exclude equity p weights =
    (if Some (lpos_ticker p) = exclude then Inr weights
     else and_then (fdiv (lpos_market_value p) equity) (\<lambda>share.
       let theme = lpos_primary_theme_id p;
           old = (case map_of weights theme of None \<Rightarrow> 0 | Some w \<Rightarrow> w)
       in Inr (AList.update theme (fadd old share) weights)))"

definition live_intents_on :: "core_db \<Rightarrow> string \<Rightarrow> pydate \<Rightarrow> OrderIntent list" where
  "live_intents_on db profile day =
    (let start = ny_combine day 0; end = ny_combine (day + 1) 0 in
     filter (\<lambda>i. oi_execution_mode i = LIVE \<and> oi_execution_profile_id i = profile \<and>
       julianday start \<le> julianday (oi_created_at i) \<and> julianday (oi_created_at i) < julianday end)
       (order_intents db))"

definition over_tolerance :: "LivePosition list \<Rightarrow> pyfloat \<Rightarrow> bool" where
  "over_tolerance positions equity =
    (fadd equity (max (fl (1 / 10 ^ 6)) (fmul equity (fl (1 / 10 ^ 9)))) < fsum (map lpos_market_value positions))"

definition live_portfolio_context :: "PriceBar list \<Rightarrow> (string \<times> string) list \<Rightarrow> core_db \<Rightarrow>
    LivePortfolioSnapshot \<Rightarrow> pydate \<Rightarrow> string option \<Rightarrow> bool \<Rightarrow> PortfolioInputs result" where
  "live_portfolio_context prices swap_pairs db snap on_date exclude funded =
    (let positions = filter (\<lambda>p. 0 < lpos_market_value p) (ls_positions snap);
         profile = ls_execution_profile_id snap; equity = ls_account_equity snap in
     if missing_themes positions \<noteq> []
       then Inl (ValueError (''positions missing primary theme: '' @ join '','' (missing_themes positions)))
     else if over_tolerance positions equity then Inl (ValueError ''position value exceeds account equity'')
     else and_then (fold_result (theme_share exclude equity) positions []) (\<lambda>weights.
       let today = live_intents_on db profile on_date;
           trades = (\<lambda>side. int (length (filter (\<lambda>i. oi_side i = side) today)));
           swaps = int (length (filter (\<lambda>i. oi_decision_id i \<in> fst ` set swap_pairs) today))
       in and_then (crisis_reasons prices db snap (ls_captured_at snap)) (\<lambda>crisis. Inr
         \<lparr>holdings_count = int (length positions), buy_add_trades_today = trades SIDE_BUY,
          swap_buy_trades_today = swaps, funded_by_same_review_sale = funded, crisis_mode = (crisis \<noteq> []),
          sell_trim_trades_today = trades SIDE_SELL, primary_theme_weights = weights,
          short_watchlist_tickers = Some (sort (map sh_ticker (filter (\<lambda>c. sh_removed_at c = None)
            (short_watchlist_history db LIVE (Some profile))))),
          watchlist_entries = Some (map (\<lambda>(t, e). (t, we_entry_price_max e))
            (open_watchlist_entries db LIVE (Some profile)))\<rparr>)))"

end
