(* ===== verification/TriggerStore.thy ===== *)
theory TriggerStore
  imports RuntimeSchemas
begin

text \<open>
  The trigger table (\<open>app/triggers/store.py\<close>): a trigger is inserted once, and leaves \<open>pending\<close> once.
  \<open>mark_triggers\<close> checks every identifier before it writes, so a raise leaves the table alone.
\<close>

definition trigger_id :: "string \<Rightarrow> string \<Rightarrow> pydate \<Rightarrow> string" where
  "trigger_id trigger_type subject event_date = trigger_type @ '':'' @ subject @ '':'' @ date_isoformat event_date"

definition insert_trigger :: "string \<Rightarrow> string \<Rightarrow> pydate \<Rightarrow> pydate \<Rightarrow> trigger_details \<Rightarrow> TriggerEvent list \<Rightarrow>
    TriggerEvent list \<times> bool" where
  "insert_trigger trigger_type subject event_date fired_at details rows =
    (let i = trigger_id trigger_type subject event_date in
     if i \<in> te_trigger_id ` set rows then (rows, False)
     else (rows @ [\<lparr>te_trigger_id = i, te_trigger_type = trigger_type, te_subject = subject,
       te_fired_at = fired_at, te_status = TriggerPending, te_details = details\<rparr>], True))"

fun trigger_status_name :: "trigger_status \<Rightarrow> string" where
  "trigger_status_name TriggerPending = ''pending''"
| "trigger_status_name TriggerConsumed = ''consumed''"
| "trigger_status_name TriggerExpired = ''expired''"

text \<open>\<open>{text!r}\<close> of a text without quotes, backslashes and control characters.\<close>

definition repr :: "string \<Rightarrow> string" where
  "repr s = [CHR 0x27] @ s @ [CHR 0x27]"

definition markable :: "TriggerEvent list \<Rightarrow> trigger_status \<Rightarrow> string \<Rightarrow> unit result" where
  "markable rows status i = (case find_row te_trigger_id i rows of
     None \<Rightarrow> Inl (ValueError (''unknown trigger_id '' @ repr i))
   | Some t \<Rightarrow> require (te_status t = TriggerPending) (ValueError (''trigger '' @ repr i @ '' cannot transition from '' @
       trigger_status_name (te_status t) @ '' to '' @ trigger_status_name status)))"

definition mark_triggers :: "string list \<Rightarrow> trigger_status \<Rightarrow> TriggerEvent list \<Rightarrow> (TriggerEvent list \<times> int) result" where
  "mark_triggers ids status rows =
    (if status \<notin> {TriggerConsumed, TriggerExpired}
       then Inl (ValueError (''invalid target trigger status '' @ repr (trigger_status_name status)))
     else and_then (map_result (markable rows status) ids) (\<lambda>_. Inr
       (map (\<lambda>t. if te_trigger_id t \<in> set ids then t\<lparr>te_status := status\<rparr> else t) rows, int (length ids))))"

definition expire_triggers :: "pydate \<Rightarrow> TriggerEvent list \<Rightarrow> TriggerEvent list \<times> int" where
  "expire_triggers before rows =
    (let stale = (\<lambda>t. te_status t = TriggerPending \<and> te_fired_at t < before) in
     (map (\<lambda>t. if stale t then t\<lparr>te_status := TriggerExpired\<rparr> else t) rows, int (length (filter stale rows))))"

section \<open>A trigger is settled once\<close>

definition trigger_keys :: "TriggerEvent list \<Rightarrow> string list" where
  "trigger_keys rows = map te_trigger_id rows"

lemma insert_trigger_keys: "distinct (trigger_keys rows) \<Longrightarrow>
    distinct (trigger_keys (fst (insert_trigger a s d f x rows)))"
  by (auto simp: insert_trigger_def trigger_keys_def Let_def)

lemma mark_triggers_keys [simp]: "mark_triggers ids s rows = Inr (rows', n) \<Longrightarrow> trigger_keys rows' = trigger_keys rows"
  by (auto simp: mark_triggers_def trigger_keys_def result_simps split: if_splits)

lemma expire_triggers_keys [simp]: "trigger_keys (fst (expire_triggers d rows)) = trigger_keys rows"
  by (simp add: expire_triggers_def trigger_keys_def Let_def)

lemma map_result_unit: "map_result f xs = Inr ys \<Longrightarrow> x \<in> set xs \<Longrightarrow> \<exists>y. f x = Inr y"
  by (induction xs arbitrary: ys) (auto simp: result_simps)

lemma mark_triggers_pending:
  assumes "mark_triggers ids s rows = Inr (rows', n)" and "i \<in> set ids"
  shows "\<exists>t. find_row te_trigger_id i rows = Some t \<and> te_status t = TriggerPending"
proof -
  from assms(1) obtain us where "map_result (markable rows s) ids = Inr us"
    by (auto simp: mark_triggers_def result_simps split: if_splits)
  from map_result_unit [OF this assms(2)] show ?thesis
    by (auto simp: markable_def require_def split: option.splits if_splits)
qed

text \<open>Settled triggers keep their status.\<close>

lemma mark_triggers_settled:
  assumes "mark_triggers ids s rows = Inr (rows', n)" and "distinct (trigger_keys rows)"
    and "t \<in> set rows" and "te_status t \<noteq> TriggerPending"
  shows "t \<in> set rows'"
proof -
  have "te_trigger_id t \<notin> set ids"
  proof
    assume "te_trigger_id t \<in> set ids"
    from mark_triggers_pending [OF assms(1) this] find_row_distinct [of te_trigger_id rows t] assms(2-4)
    show False by (simp add: trigger_keys_def)
  qed
  with assms(1,3) show ?thesis
    by (force simp: mark_triggers_def result_simps split: if_splits)
qed

lemma expire_triggers_settled: "t \<in> set rows \<Longrightarrow> te_status t \<noteq> TriggerPending \<Longrightarrow> t \<in> set (fst (expire_triggers d rows))"
  by (force simp: expire_triggers_def Let_def)

lemma insert_trigger_settled: "t \<in> set rows \<Longrightarrow> t \<in> set (fst (insert_trigger a s d f x rows))"
  by (auto simp: insert_trigger_def Let_def)

end
