(* ===== verification/Submission.thy ===== *)
theory Submission
  imports Leases Pipeline PaperBroker LiveContext TriggerStore
begin

text \<open>
  The submission of one authored decision (\<open>app/reason/run.py\<close>): the fence of its runtime attempt, the
  portfolio and regime it is judged by, the decision pipeline, its link to the reasoning run and its
  attribution, in one immediate transaction; then, outside of it, the triggers it consumed.
  \<open>submitted_at\<close> is always given below: it defaults to the clock.
\<close>

record review_db =
  rv_runtime :: runtime_db
  rv_prices :: "PriceBar list"
  rv_fills :: "PaperFill list"
  rv_positions :: "PaperPosition list"
  rv_swap_pairs :: "(string \<times> string) list"

definition rv_core :: "review_db \<Rightarrow> core_db" where
  "rv_core db = rt_core (rv_runtime db)"

definition paper_tables :: "review_db \<Rightarrow> paper_db" where
  "paper_tables db = \<lparr>pd_core = rv_core db, pd_prices = rv_prices db, pd_fills = rv_fills db,
     pd_positions = rv_positions db\<rparr>"

text \<open>The submitted dictionary: its record, and what \<open>.get\<close> gives for its ticker and decision.\<close>

record Submitted =
  sm_body :: submission
  sm_ticker :: "string option"
  sm_decision :: "string option"

definition draft :: "InvestmentDecisionRecord \<Rightarrow> Submitted" where
  "draft r = \<lparr>sm_body = Draft r, sm_ticker = Some (ticker r), sm_decision = Some (decision_value (decision r))\<rparr>"

definition normalized_ticker :: "Submitted \<Rightarrow> string" where
  "normalized_ticker s = py_upper (strip (case sm_ticker s of None \<Rightarrow> [] | Some t \<Rightarrow> t))"

definition starts_with :: "string \<Rightarrow> string \<Rightarrow> bool" where
  "starts_with p s = (take (length p) s = p)"

definition id_in_namespace :: "string \<Rightarrow> Submitted \<Rightarrow> bool" where
  "id_in_namespace p s = (case submission_id (sm_body s) of None \<Rightarrow> False | Some i \<Rightarrow> starts_with p i)"

record SubmitOptions =
  op_execution_mode :: ExecutionMode
  op_execution_profile_id :: string
  op_reasoning_run_id :: string
  op_submission_snapshot_id :: string
  op_execution_profile :: "ExecutionProfile option"
  op_runtime_attempt_id :: "string option"
  op_fence :: "int option"
  op_funded_by_sale :: bool
  op_max_snapshot_age :: int

definition LIVE_SNAPSHOT_MAX_AGE :: int where
  "LIVE_SNAPSHOT_MAX_AGE = 5 * minute"

definition STALE_SELL_MAX_AGE :: int where
  "STALE_SELL_MAX_AGE = 30 * minute"

section \<open>What a live submission must be bound to\<close>

definition session_stale :: "ReasoningRun \<Rightarrow> Submitted \<Rightarrow> pydate \<Rightarrow> instant \<Rightarrow> bool result" where
  "session_stale run s on_date now =
    (if on_date \<noteq> ny_date now \<or> rr_session_date run \<noteq> on_date then Inr True
     else if sm_decision s \<in> {Some ''BUY'', Some ''ADD'', Some ''TRIM'', Some ''SELL''}
       then and_then (is_session on_date) (\<lambda>open_day. Inr (\<not> open_day))
     else Inr False)"

definition live_binding :: "SubmitOptions \<Rightarrow> Submitted \<Rightarrow> pydate \<Rightarrow> instant \<Rightarrow> core_db \<Rightarrow>
    (ReasoningRun \<times> LivePortfolioSnapshot) result" where
  "live_binding o' s on_date now core = (case op_execution_profile o' of
     None \<Rightarrow> Inl (ValueError ''live submission requires an enabled execution profile'')
   | Some p \<Rightarrow>
       if \<not> ep_enabled p then Inl (ValueError ''live submission requires an enabled execution profile'')
       else if ep_execution_profile_id p \<noteq> op_execution_profile_id o'
         then Inl (ValueError ''live submission profile mismatch'')
       else (case get_reasoning_run core (op_reasoning_run_id o') of
           None \<Rightarrow> Inl (ValueError (''missing reasoning run '' @ op_reasoning_run_id o'))
         | Some run \<Rightarrow>
             if rr_result run \<noteq> PREPARED \<and> op_runtime_attempt_id o' = None
               then Inl (ValueError ''reasoning run is not PREPARED'')
             else if rr_execution_profile_id run \<noteq> op_execution_profile_id o'
               then Inl (ValueError ''reasoning run profile mismatch'')
             else if op_submission_snapshot_id o' = []
               then Inl (ValueError ''live submission requires a fresh portfolio snapshot'')
             else (case get_live_portfolio_snapshot core (op_submission_snapshot_id o') of
                 None \<Rightarrow> Inl (ValueError (''missing portfolio snapshot '' @ op_submission_snapshot_id o'))
               | Some snap \<Rightarrow>
                   if ls_execution_profile_id snap \<noteq> op_execution_profile_id o'
                     then Inl (ValueError ''portfolio snapshot profile mismatch'')
                   else if ls_broker_account_fingerprint snap \<noteq> ep_broker_account_fingerprint p
                     then Inl (ValueError ''portfolio snapshot account mismatch'')
                   else and_then (session_stale run s on_date now) (\<lambda>stale.
                     if stale then Inl (ValueError ''prepared_session_stale'')
                     else if now < ls_captured_at snap \<or> op_max_snapshot_age o' < now - ls_captured_at snap
                       then Inl (ValueError ''portfolio snapshot is stale'')
                     else if \<not> id_in_namespace (op_reasoning_run_id o' @ ''_'') s
                       then Inl (ValueError ''live decision_id must use the reasoning run namespace'')
                     else Inr (run, snap)))))"

definition regime_known :: "core_db \<Rightarrow> pydate \<Rightarrow> instant \<Rightarrow> RegimeSnapshot option" where
  "regime_known core day now = greatest rg_snapshot_date (filter (\<lambda>r. rg_snapshot_date r \<le> day \<and>
     julianday (rg_computed_at r) \<le> julianday now) (regime_snapshots core))"

definition live_regime :: "core_db \<Rightarrow> instant \<Rightarrow> RegimeSnapshot result" where
  "live_regime core now = and_then (completed_session now) (\<lambda>expected.
     case regime_known core expected now of
       None \<Rightarrow> Inl (ValueError ''regime_missing'')
     | Some row \<Rightarrow>
         if rg_snapshot_date row \<noteq> expected then Inl (ValueError ''regime_stale'')
         else and_then (session_close expected) (\<lambda>close.
           if (case close of None \<Rightarrow> True | Some c \<Rightarrow> rg_computed_at row < c)
             then Inl (ValueError ''regime_precedes_completed_session'') else Inr row))"

definition policy_identity :: "Environment \<Rightarrow> string \<Rightarrow> RegimeSnapshot option \<Rightarrow> pyfloat option \<Rightarrow>
    PolicyInputIdentity" where
  "policy_identity env snapshot_id regime weight =
    \<lparr>pi_portfolio_snapshot_id = (if snapshot_id = [] then None else Some snapshot_id),
     pi_regime_snapshot_id = map_option (\<lambda>r. date_isoformat (rg_snapshot_date r)) regime,
     pi_regime_snapshot_hash = map_option (env_row_sha256 env) regime, pi_current_weight = weight\<rparr>"

text \<open>A public stage that claims to have begun before its run.\<close>

definition early_stage :: "core_db \<Rightarrow> string \<Rightarrow> ReasoningRun \<Rightarrow> bool" where
  "early_stage core i run = (case get_decision_record core i of None \<Rightarrow> False
   | Some d \<Rightarrow> (case public_narrative d of None \<Rightarrow> False
     | Some n \<Rightarrow> \<exists>stage\<in>set (pn_stages n). (case ps_started_at stage of None \<Rightarrow> False | Some t \<Rightarrow> t < rr_started_at run)))"

definition link_decision :: "string \<Rightarrow> string \<Rightarrow> string \<Rightarrow> core_db \<Rightarrow> core_db result" where
  "link_decision run_id i snapshot_id core =
    (case find_row rl_decision_id i (reasoning_run_decisions core) of
       Some l \<Rightarrow> if rl_reasoning_run_id l \<noteq> run_id \<or> rl_submission_snapshot_id l \<noteq> snapshot_id
         then Inl (ValueError ''decision is linked to another reasoning run or snapshot'') else Inr core
     | None \<Rightarrow> Inr (core\<lparr>reasoning_run_decisions := reasoning_run_decisions core @
         [\<lparr>rl_reasoning_run_id = run_id, rl_decision_id = i, rl_submission_snapshot_id = snapshot_id\<rparr>]\<rparr>))"

section \<open>The two modes\<close>

definition submit_paper :: "Environment \<Rightarrow> (OrderIntent \<Rightarrow> pydate) \<Rightarrow> SubmitOptions \<Rightarrow> Submitted \<Rightarrow> pydate \<Rightarrow>
    instant \<Rightarrow> review_db \<Rightarrow> (core_db \<times> ProcessOutcome) result" where
  "submit_paper env stored_day o' s on_date now db =
     and_then (portfolio_context stored_day (paper_tables db) on_date (sm_ticker s)) (\<lambda>portfolio.
     let core = rv_core db; regime = regime_known core on_date now in
     process_decision_body env (sm_body s) (Some portfolio) (map_option rg_regime regime) now
       (Some (policy_identity env (op_submission_snapshot_id o') regime None))
       PAPER (op_execution_profile_id o') core)"

definition submit_live :: "Environment \<Rightarrow> SubmitOptions \<Rightarrow> Submitted \<Rightarrow> pydate \<Rightarrow> instant \<Rightarrow> review_db \<Rightarrow>
    (core_db \<times> ProcessOutcome) result" where
  "submit_live env o' s on_date now db = (let core = rv_core db in
     and_then (live_binding o' s on_date now core) (\<lambda>(run, snap).
     and_then (live_portfolio_context (rv_prices db) (rv_swap_pairs db) core snap on_date
       (case sm_ticker s of None \<Rightarrow> None | Some t \<Rightarrow> if t = [] then None else Some (py_upper (strip t)))
       (op_funded_by_sale o')) (\<lambda>portfolio.
     and_then (live_regime core now) (\<lambda>regime.
     and_then (fdiv (fsum (map lpos_market_value (filter (\<lambda>p. lpos_ticker p = normalized_ticker s)
       (ls_positions snap)))) (ls_account_equity snap)) (\<lambda>weight.
     and_then (process_decision_body env (sm_body s) (Some portfolio) (Some (rg_regime regime)) now
       (Some (policy_identity env (op_submission_snapshot_id o') (Some regime) (Some weight)))
       LIVE (op_execution_profile_id o') core) (\<lambda>(core', out).
     case po_decision_id out of
       None \<Rightarrow> Inl (ValueError ''live submission requires a valid decision_id'')
     | Some i \<Rightarrow>
         if early_stage core' i run then Inl (ValueError ''public stage precedes its reasoning run'')
         else and_then (link_decision (op_reasoning_run_id o') i (op_submission_snapshot_id o') core')
           (\<lambda>core''. Inr (core'', out))))))))"

section \<open>The transaction\<close>

fun mode_of_execution :: "ExecutionMode \<Rightarrow> account_mode" where
  "mode_of_execution LIVE = LiveMode"
| "mode_of_execution PAPER = PaperMode"

definition attempt_prefix :: "RuntimeRun \<Rightarrow> string \<Rightarrow> string" where
  "attempt_prefix run attempt_id = text_or (ru_reasoning_run_id run) (ru_run_id run) @ ''_'' @ attempt_id @ ''_''"

definition fenced_identity :: "SubmitOptions \<Rightarrow> Submitted \<Rightarrow> pydate \<Rightarrow> instant \<Rightarrow> runtime_db \<Rightarrow> unit result" where
  "fenced_identity o' s on_date now db = (case (op_runtime_attempt_id o', op_fence o') of
     (Some attempt_id, Some fence) \<Rightarrow>
       and_then (validate_fence db attempt_id fence now) (\<lambda>attempt.
       and_then (get_run db (ra_run_id attempt)) (\<lambda>run.
         if ru_mode run \<noteq> mode_of_execution (op_execution_mode o') \<or>
             ru_execution_profile_id run \<noteq> op_execution_profile_id o' \<or> ru_session_date run \<noteq> on_date \<or>
             ru_session_date run \<noteq> ny_date now \<or>
             ru_reasoning_run_id run \<noteq> (if op_reasoning_run_id o' = [] then None else Some (op_reasoning_run_id o'))
           then Inl (ValueError ''runtime submission identity mismatch'')
         else require (id_in_namespace (attempt_prefix run attempt_id) s)
           (ValueError ''decision must use its attempt namespace'')))
   | _ \<Rightarrow> Inr ())"

definition attributed_to :: "runtime_db \<Rightarrow> string \<Rightarrow> string" where
  "attributed_to db i = (case map_of (rt_decision_attempts db) i of None \<Rightarrow> [] | Some a \<Rightarrow> a)"

definition attribute_decision :: "string option \<Rightarrow> string option \<Rightarrow> runtime_db \<Rightarrow> runtime_db result" where
  "attribute_decision attempt_id decision_id' db = (case (attempt_id, decision_id') of
     (Some a, Some i) \<Rightarrow>
       if a = [] \<or> i = [] \<or> get_decision_record (rt_core db) i = None then Inr db
       else if attributed_to db i \<notin> {[], a} then Inl (ValueError ''decision belongs to another attempt'')
       else Inr (db\<lparr>rt_decision_attempts := AList.update i a (rt_decision_attempts db)\<rparr>)
   | _ \<Rightarrow> Inr db)"

definition submit_transaction :: "Environment \<Rightarrow> (OrderIntent \<Rightarrow> pydate) \<Rightarrow> SubmitOptions \<Rightarrow> Submitted \<Rightarrow>
    pydate \<Rightarrow> instant \<Rightarrow> review_db \<Rightarrow> (review_db \<times> ProcessOutcome) result" where
  "submit_transaction env stored_day o' s on_date now db =
     and_then (fenced_identity o' s on_date now (rv_runtime db)) (\<lambda>_.
     and_then (if op_execution_mode o' = PAPER then submit_paper env stored_day o' s on_date now db
       else submit_live env o' s on_date now db) (\<lambda>(core, out).
     and_then (attribute_decision (op_runtime_attempt_id o') (po_decision_id out)
       ((rv_runtime db)\<lparr>rt_core := core\<rparr>)) (\<lambda>runtime.
       Inr (db\<lparr>rv_runtime := runtime\<rparr>, out))))"

definition CONSIDERED_STATUSES :: "DecisionStatus set" where
  "CONSIDERED_STATUSES = {POLICY_APPROVED, POLICY_REJECTED, ORDER_INTENT_CREATED}"

definition consume_triggers :: "string list \<Rightarrow> DecisionStatus \<Rightarrow> review_db \<Rightarrow> review_db result" where
  "consume_triggers ids status db =
    (if ids = [] \<or> status \<notin> CONSIDERED_STATUSES then Inr db
     else and_then (mark_triggers ids TriggerConsumed (rt_triggers (rv_runtime db))) (\<lambda>(rows, _).
       Inr (db\<lparr>rv_runtime := (rv_runtime db)\<lparr>rt_triggers := rows\<rparr>\<rparr>)))"

definition submit_decision :: "Environment \<Rightarrow> (OrderIntent \<Rightarrow> pydate) \<Rightarrow> SubmitOptions \<Rightarrow> Submitted \<Rightarrow> pydate \<Rightarrow>
    string list \<Rightarrow> instant \<Rightarrow> review_db \<Rightarrow> review_db \<times> ProcessOutcome result" where
  "submit_decision env stored_day o' s on_date triggers now db =
    (if (op_runtime_attempt_id o' = None) \<noteq> (op_fence o' = None)
       then (db, Inl (ValueError ''runtime submission requires both attempt and fence''))
     else (case submit_transaction env stored_day o' s on_date now db of
         Inl e \<Rightarrow> (db, Inl e)
       | Inr (db1, out) \<Rightarrow> (case consume_triggers triggers (po_final_status out) db1 of
           Inl e \<Rightarrow> (db1, Inl e) | Inr db2 \<Rightarrow> (db2, Inr out))))"

end
