(* ===== verification/SubmissionProperties.thy ===== *)
theory SubmissionProperties
  imports Submission RuntimeProperties LiveOrders
begin

text \<open>
  What a submission is bound to: a live decision that went through belongs to the run, snapshot and
  regime it was judged by and, when an attempt submits it, to the holder of an unexpired lease. A
  decision keeps the attempt it was first attributed to.
\<close>

section \<open>What the guards leave\<close>

lemma live_binding_Inr:
  assumes "live_binding o' s day now core = Inr (run, snap)"
  shows "(\<exists>p. op_execution_profile o' = Some p \<and> ep_enabled p \<and>
      ls_broker_account_fingerprint snap = ep_broker_account_fingerprint p)"
    and "get_reasoning_run core (op_reasoning_run_id o') = Some run"
    and "rr_execution_profile_id run = op_execution_profile_id o'" "rr_session_date run = day"
    and "get_live_portfolio_snapshot core (op_submission_snapshot_id o') = Some snap"
    and "ls_execution_profile_id snap = op_execution_profile_id o'"
    and "day = ny_date now" "ls_captured_at snap \<le> now" "now \<le> ls_captured_at snap + op_max_snapshot_age o'"
    and "id_in_namespace (op_reasoning_run_id o' @ ''_'') s"
  using assms by (auto simp: live_binding_def session_stale_def result_simps
      split: option.splits if_splits)

lemma live_regime_Inr:
  assumes "live_regime core now = Inr row"
  shows "\<exists>c. completed_session now = Inr (rg_snapshot_date row) \<and> row \<in> set (regime_snapshots core) \<and>
    session_close (rg_snapshot_date row) = Inr (Some c) \<and> c \<le> rg_computed_at row"
proof -
  from assms obtain d close where d: "completed_session now = Inr d" and r: "regime_known core d now = Some row"
    and row: "rg_snapshot_date row = d" and close: "session_close d = Inr close"
    and c: "\<not> (case close of None \<Rightarrow> True | Some c \<Rightarrow> rg_computed_at row < c)"
    by (auto simp: live_regime_def result_simps split: option.splits)
  from r have "row \<in> set (regime_snapshots core)"
    by (auto simp: regime_known_def dest!: greatest_Some)
  with d row close c show ?thesis by (auto split: option.splits)
qed

lemma fenced_identity_Inr:
  assumes "fenced_identity o' s day now db = Inr u"
    and "op_runtime_attempt_id o' = Some a" and "op_fence o' = Some f"
  shows "\<exists>attempt run. validate_fence db a f now = Inr attempt \<and> get_run db (ra_run_id attempt) = Inr run \<and>
    ru_mode run = mode_of_execution (op_execution_mode o') \<and>
    ru_execution_profile_id run = op_execution_profile_id o' \<and> ru_session_date run = day \<and>
    id_in_namespace (attempt_prefix run a) s"
  using assms by (auto simp: fenced_identity_def result_simps)

lemma submit_decision_Inr:
  assumes "submit_decision env sd o' s day ids now db = (db', Inr out)"
  obtains db1 where "submit_transaction env sd o' s day now db = Inr (db1, out)"
    "consume_triggers ids (po_final_status out) db1 = Inr db'"
  using assms by (auto simp: submit_decision_def split: if_splits sum.splits prod.splits)

lemma consume_triggers_frame [simp]:
  assumes "consume_triggers ids st db = Inr db'"
  shows "rv_core db' = rv_core db" "rt_decision_attempts (rv_runtime db') = rt_decision_attempts (rv_runtime db)"
  using assms by (auto simp: consume_triggers_def rv_core_def result_simps split: if_splits)

lemma attribute_decision_frame:
  "attribute_decision a i db = Inr db' \<Longrightarrow> rt_core db' = rt_core db"
  by (auto simp: attribute_decision_def split: option.splits if_splits)

lemma link_decision_linked:
  "link_decision r i sn core = Inr core' \<Longrightarrow>
     \<exists>l\<in>set (reasoning_run_decisions core'). rl_decision_id l = i \<and> rl_reasoning_run_id l = r \<and>
       rl_submission_snapshot_id l = sn"
  by (auto simp: link_decision_def split: option.splits if_splits dest: find_row_Some)

section \<open>Attribution\<close>

lemma attribute_decision_keeps:
  assumes "attribute_decision a i db = Inr db'" and "attributed_to db k = x" and "x \<noteq> []"
  shows "attributed_to db' k = x"
  using assms by (auto simp: attribute_decision_def attributed_to_def update_conv' split: option.splits if_splits)

lemma submit_transaction_attribution:
  assumes "submit_transaction env sd o' s day now db = Inr (db1, out)"
    and "attributed_to (rv_runtime db) k = x" and "x \<noteq> []"
  shows "attributed_to (rv_runtime db1) k = x"
proof -
  from assms(1) obtain core runtime where
    "attribute_decision (op_runtime_attempt_id o') (po_decision_id out) ((rv_runtime db)\<lparr>rt_core := core\<rparr>) =
      Inr runtime" and "db1 = db\<lparr>rv_runtime := runtime\<rparr>"
    by (auto simp: submit_transaction_def result_simps)
  moreover have "attributed_to ((rv_runtime db)\<lparr>rt_core := core\<rparr>) k = x"
    using assms(2) by (simp add: attributed_to_def)
  ultimately show ?thesis using attribute_decision_keeps assms(3) by fastforce
qed

text \<open>
  C22. Attribution is for good: whatever is submitted afterwards, in either mode, by any attempt, and
  whether the submission succeeds or is refused, a decision attributed to an attempt stays with it.
\<close>
theorem attribution_is_final:
  assumes "attributed_to (rv_runtime db) k = x" and "x \<noteq> []"
  shows "attributed_to (rv_runtime (fst (submit_decision env sd o' s day ids now db))) k = x"
proof -
  have "attributed_to (rv_runtime db2) k = x"
    if "consume_triggers ids st db1 = Inr db2" "attributed_to (rv_runtime db1) k = x" for db1 db2 st
    using that by (simp add: attributed_to_def)
  with submit_transaction_attribution [OF _ assms] assms(1) show ?thesis
    by (auto simp: submit_decision_def split: sum.splits prod.splits)
qed

section \<open>What a new decision is judged by\<close>

text \<open>
  The evaluation the pipeline stores for a decision it has not seen: the facts it was called with, the regime row and
  the snapshot the identity names, and the verdict of the policy on exactly these.
\<close>

lemma process_new_evaluates:
  assumes p: "process_new env r port truth now ident m prof db = Inr (db', out)"
    and fresh: "get_decision_record db (decision_id r) = None" and nf: "po_final_status out \<noteq> SCHEMA_FAILED"
  obtains e dbe ident' where "evaluation_of db' (decision_id r) = Some e" "get_decision_record db' (decision_id r) = Some r"
    "po_decision_id out = Some (decision_id r)" "pe_evaluated_at e = now" "pe_true_regime_state e = truth"
    "pe_portfolio e = port" "pe_execution_mode e = m" "pe_execution_profile_id e = prof"
    "pe_approved e = approved (evaluate_decision_policy r port truth)"
    "ident' = (case ident of None \<Rightarrow> no_identity | Some i \<Rightarrow> i)"
    "recorded_regime env ident' truth now dbe = Inr (pe_regime_snapshot e)"
    "bound_snapshot r port now ident' m prof dbe = Inr (pe_portfolio_snapshot e)"
    "live_portfolio_snapshots dbe = live_portfolio_snapshots db"
proof -
  let ?i = "decision_id r" and ?res = "evaluate_decision_policy r port truth"
  from p nf obtain db1 b db2 db3 db4 ev where
    s1: "save_decision_record r db = Inr (db1, b)" and
    s2: "status_of (append_status ?i DECISION_RECORD_CREATED [] now db1) = Inr db2" and
    s3: "status_of (append_status ?i SCHEMA_VALIDATED [] now db2) = Inr db3" and
    s4: "save_policy_evaluation env r ?res port truth now ident m prof db3 = Inr (db4, ev)" and
    rest: "(if \<not> approved ?res then
       and_then (status_of (append_status ?i POLICY_REJECTED (join '', '' (reasons ?res)) now db4)) (\<lambda>db5.
         Inr (db5, outcome (Some ?i) POLICY_REJECTED (reasons ?res) None))
     else and_then (status_of (append_status ?i POLICY_APPROVED [] now db4)) (\<lambda>db5.
         if \<not> actionable (decision r) then Inr (db5, outcome (Some ?i) POLICY_APPROVED [] None)
         else finish_with_intent r ?res now m prof db5)) = Inr (db', out)"
    by (auto simp: process_new_def Let_def result_simps outcome_def split: if_splits)
  from s4 obtain rows b' where
    i: "insert_once pe_decision_id (\<lambda>_ _. False)
      (ValueError ''policy evaluation is immutable'') IntegrityError ev (policy_evaluations db3) = Inr (rows, b')"
    and db4: "db4 = db3\<lparr>policy_evaluations := rows\<rparr>"
    and ev: "pe_decision_id ev = ?i" "pe_evaluated_at ev = now" "pe_true_regime_state ev = truth" "pe_portfolio ev = port"
      "pe_execution_mode ev = m" "pe_execution_profile_id ev = prof" "pe_approved ev = approved ?res"
      "recorded_regime env (case ident of None \<Rightarrow> no_identity | Some i \<Rightarrow> i) truth now db3 = Inr (pe_regime_snapshot ev)"
      "bound_snapshot r port now (case ident of None \<Rightarrow> no_identity | Some i \<Rightarrow> i) m prof db3 = Inr (pe_portfolio_snapshot ev)"
    by (auto simp: save_policy_evaluation_def Let_def result_simps split: if_splits)
  have e4: "evaluation_of db4 ?i = Some ev" using table.stores [OF i] ev(1) by (simp add: evaluation_of_def db4)
  have rec1: "get_decision_record db1 ?i = Some r" and snaps1: "live_portfolio_snapshots db1 = live_portfolio_snapshots db"
    using s1 fresh by (auto elim!: save_decision_cases simp: get_decision_record_def find_row_append)
  have same2: "decision_records db2 = decision_records db1 \<and> live_portfolio_snapshots db2 = live_portfolio_snapshots db1"
    using s2 by (auto elim!: status_of_append)
  have same3: "decision_records db3 = decision_records db2 \<and> live_portfolio_snapshots db3 = live_portfolio_snapshots db2"
    using s3 by (auto elim!: status_of_append)
  have after: "decision_records db' = decision_records db4 \<and> policy_evaluations db' = policy_evaluations db4 \<and>
    po_decision_id out = Some ?i"
    using rest by (auto simp: result_simps outcome_def finish_with_intent_def intents.save_Inr split: if_splits option.splits
        elim!: status_of_append)
  show thesis
    by (rule that [of ev "case ident of None \<Rightarrow> no_identity | Some i \<Rightarrow> i" db3])
      (use e4 rec1 snaps1 same2 same3 after db4 ev in \<open>simp_all add: evaluation_of_def get_decision_record_def\<close>)
qed

section \<open>Live submissions\<close>

text \<open>
  A submission moves the live tables by the steps of \<open>LiveOrders\<close>: the pipeline on the bound inputs, then the link to
  the run. So the states the program reaches by its own live path are states its theorems speak of.
\<close>

lemma link_decision_step: "link_decision run_id i snapshot_id core = Inr core' \<Longrightarrow> live_step core core'"
  by (rule live_step.elsewhere)
    (auto simp: link_decision_def same_pipeline_tables_def same_live_tables_def split: option.splits if_splits)

lemma submit_transaction_reachable:
  assumes "submit_transaction env sd o' s day now db = Inr (db1, out)" and "live_reachable (rv_core db)"
  shows "live_reachable (rv_core db1)"
proof -
  from assms(1) obtain core runtime where
    mode: "(if op_execution_mode o' = PAPER then submit_paper env sd o' s day now db
       else submit_live env o' s day now db) = Inr (core, out)"
    and a: "attribute_decision (op_runtime_attempt_id o') (po_decision_id out) ((rv_runtime db)\<lparr>rt_core := core\<rparr>) = Inr runtime"
    and db1: "db1 = db\<lparr>rv_runtime := runtime\<rparr>"
    by (auto simp: submit_transaction_def result_simps)
  have "live_step\<^sup>*\<^sup>* (rv_core db) core"
  proof (cases "op_execution_mode o' = PAPER")
    case True
    with mode show ?thesis by (auto simp: submit_paper_def Let_def result_simps intro: live_step.decide)
  next
    case False
    with mode obtain core1 out1 sub port truth ident m prof i where
      "process_decision_body env sub port truth now ident m prof (rv_core db) = Inr (core1, out1)"
      "link_decision (op_reasoning_run_id o') i (op_submission_snapshot_id o') core1 = Inr core"
      by (auto simp: submit_live_def Let_def result_simps split: option.splits if_splits)
    then show ?thesis by (blast intro: live_step.decide link_decision_step rtranclp.rtrancl_into_rtrancl)
  qed
  then have "live_reachable core"
    using assms(2) by (induction rule: rtranclp_induct) (blast intro: live_reachable.next_state)+
  with attribute_decision_frame [OF a] show ?thesis by (simp add: db1 rv_core_def)
qed

lemma submissions_reachable:
  assumes "live_reachable (rv_core db)"
  shows "live_reachable (rv_core (fst (submit_decision env sd o' s day ids now db)))"
  using assms submit_transaction_reachable [OF _ assms]
  by (auto simp: submit_decision_def split: sum.splits prod.splits)

lemma submit_live_Inr:
  assumes "submit_live env o' s day now db = Inr (core', out)"
  obtains run snap row i core1 port where "live_binding o' s day now (rv_core db) = Inr (run, snap)"
    "live_regime (rv_core db) now = Inr row" "po_decision_id out = Some i"
    "\<exists>l\<in>set (reasoning_run_decisions core'). rl_decision_id l = i \<and>
       rl_reasoning_run_id l = op_reasoning_run_id o' \<and> rl_submission_snapshot_id l = op_submission_snapshot_id o'"
    "same_pipeline_tables core1 core'"
    "\<exists>w. process_decision_body env (sm_body s) (Some port) (Some (rg_regime row)) now
       (Some (policy_identity env (op_submission_snapshot_id o') (Some row) (Some w)))
       LIVE (op_execution_profile_id o') (rv_core db) = Inr (core1, out)"
proof -
  from assms obtain run snap row i core1 port w where r: "live_binding o' s day now (rv_core db) = Inr (run, snap)"
    "live_regime (rv_core db) now = Inr row" "po_decision_id out = Some i"
    and l: "link_decision (op_reasoning_run_id o') i (op_submission_snapshot_id o') core1 = Inr core'"
    and b: "process_decision_body env (sm_body s) (Some port) (Some (rg_regime row)) now
       (Some (policy_identity env (op_submission_snapshot_id o') (Some row) (Some w)))
       LIVE (op_execution_profile_id o') (rv_core db) = Inr (core1, out)"
    unfolding submit_live_def Let_def and_then_Inr by (auto simp: result_simps split: option.splits if_splits)
  have "same_pipeline_tables core1 core'"
    using l by (auto simp: link_decision_def same_pipeline_tables_def split: option.splits if_splits)
  from that [OF r link_decision_linked [OF l] this exI [of _ w], OF b] show thesis .
qed

text \<open>
  The evaluation of a decision that a live submission stored: judged at \<open>now\<close>, by the regime of \<open>row\<close> and the bound
  snapshot.
\<close>

lemma live_judgement:
  assumes b: "process_decision_body env (sm_body s) (Some port) (Some (rg_regime row)) now
       (Some (policy_identity env (op_submission_snapshot_id o') (Some row) (Some w)))
       LIVE (op_execution_profile_id o') core = Inr (core1, out)"
    and i: "po_decision_id out = Some i" and fresh: "get_decision_record core i = None"
    and nf: "po_final_status out \<noteq> SCHEMA_FAILED"
    and snap: "get_live_portfolio_snapshot core (op_submission_snapshot_id o') = Some snap"
    and named: "op_submission_snapshot_id o' \<noteq> []"
  shows "\<exists>d e facts g. get_decision_record core1 i = Some d \<and> evaluation_of core1 i = Some e \<and>
    pe_evaluated_at e = now \<and> pe_execution_mode e = LIVE \<and> pe_execution_profile_id e = op_execution_profile_id o' \<and>
    pe_portfolio e = Some facts \<and> holdings_count facts = int (length (held_positions snap)) \<and>
    pe_portfolio_snapshot e = Some snap \<and>
    pe_true_regime_state e = Some (rg_regime row) \<and> pe_regime_snapshot e = Some g \<and>
    date_isoformat (rg_snapshot_date g) = date_isoformat (rg_snapshot_date row) \<and> rg_regime g = rg_regime row \<and>
    pe_approved e = approved (evaluate_decision_policy d (Some facts) (Some (rg_regime row)))"
proof -
  obtain r where v: "model_validate (sm_body s) = Inr r"
    using b nf by (cases "model_validate (sm_body s)")
      (auto simp: process_decision_body_def result_simps outcome_def split: option.splits)
  have old: "decision_id r = i" if "get_decision_record core (decision_id r) = Some q" for q
    using b i that v by (auto simp: process_decision_body_def result_simps outcome_def replay_def process_new_def
        finish_with_intent_def Let_def split: option.splits if_splits)
  then have none: "get_decision_record core (decision_id r) = None" using fresh by (cases "get_decision_record core (decision_id r)") auto
  with b v have p: "process_new env r (Some port) (Some (rg_regime row)) now
       (Some (policy_identity env (op_submission_snapshot_id o') (Some row) (Some w)))
       LIVE (op_execution_profile_id o') core = Inr (core1, out)"
    by (simp add: process_decision_body_def)
  obtain e dbe ident' where e: "evaluation_of core1 (decision_id r) = Some e" "get_decision_record core1 (decision_id r) = Some r"
    "po_decision_id out = Some (decision_id r)" "pe_evaluated_at e = now" "pe_true_regime_state e = Some (rg_regime row)"
    "pe_portfolio e = Some port" "pe_execution_mode e = LIVE" "pe_execution_profile_id e = op_execution_profile_id o'"
    "pe_approved e = approved (evaluate_decision_policy r (Some port) (Some (rg_regime row)))"
    and ident': "ident' = policy_identity env (op_submission_snapshot_id o') (Some row) (Some w)"
    and rr: "recorded_regime env ident' (Some (rg_regime row)) now dbe = Inr (pe_regime_snapshot e)"
    and bs: "bound_snapshot r (Some port) now ident' LIVE (op_execution_profile_id o') dbe = Inr (pe_portfolio_snapshot e)"
    and snaps: "live_portfolio_snapshots dbe = live_portfolio_snapshots core"
    by (rule process_new_evaluates [OF p none nf]) auto
  have i': "decision_id r = i" using e(3) i by simp
  have "date_isoformat d \<noteq> []" for d by (simp add: date_isoformat_def split: prod.split)
  then obtain g where g: "pe_regime_snapshot e = Some g" "date_isoformat (rg_snapshot_date g) = date_isoformat (rg_snapshot_date row)"
    "rg_regime g = rg_regime row"
    using recorded_regime_bound [OF rr] by (auto simp: ident' policy_identity_def split: option.splits)
  from bound_snapshot_bound [OF bs] named obtain sn where sn: "pe_portfolio_snapshot e = Some sn"
    "ls_portfolio_snapshot_id sn = op_submission_snapshot_id o'" "holdings_count port = int (length (held_positions sn))"
    by (auto simp: ident' policy_identity_def split: option.splits)
  have "get_live_portfolio_snapshot dbe (op_submission_snapshot_id o') = Some sn"
    using bs sn(1) named by (auto simp: bound_snapshot_def ident' policy_identity_def result_simps split: option.splits if_splits)
  then have "sn = snap" using snap snaps by (simp add: get_live_portfolio_snapshot_def)
  with e g sn show ?thesis unfolding i' by blast
qed

text \<open>
  C21. Every live submission that goes through is bound: its profile is enabled, its reasoning run is of
  that profile and of today's New York date, its snapshot is of that profile and account and no older
  than the limit, and the regime it is judged by is that of the last completed session, computed after
  that session's close. The decision is then linked to the run and the snapshot. A decision that is new (and not a
  schema failure) is judged by exactly these: its stored evaluation, made at the time of the submission, has that
  regime and keeps a row of that date and regime, keeps that snapshot and counts its holdings, and its verdict is the
  policy's on them. When an attempt
  submits it, the attempt is the running holder of an unexpired lease with the given fence, its run has
  the same mode, profile and day, and the decision's identifier is in the attempt's namespace.
\<close>
theorem live_submission_is_bound:
  assumes "submit_decision env sd o' s day ids now db = (db', Inr out)"
    and "op_execution_mode o' = LIVE"
  shows "\<exists>run snap row c i.
    (\<exists>p. op_execution_profile o' = Some p \<and> ep_enabled p \<and>
      ls_broker_account_fingerprint snap = ep_broker_account_fingerprint p) \<and>
    get_reasoning_run (rv_core db) (op_reasoning_run_id o') = Some run \<and>
    rr_execution_profile_id run = op_execution_profile_id o' \<and> rr_session_date run = ny_date now \<and>
    day = ny_date now \<and>
    get_live_portfolio_snapshot (rv_core db) (op_submission_snapshot_id o') = Some snap \<and>
    ls_execution_profile_id snap = op_execution_profile_id o' \<and>
    ls_captured_at snap \<le> now \<and> now \<le> ls_captured_at snap + op_max_snapshot_age o' \<and>
    row \<in> set (regime_snapshots (rv_core db)) \<and> completed_session now = Inr (rg_snapshot_date row) \<and>
    session_close (rg_snapshot_date row) = Inr (Some c) \<and> c \<le> rg_computed_at row \<and>
    po_decision_id out = Some i \<and>
    (get_decision_record (rv_core db) i = None \<and> po_final_status out \<noteq> SCHEMA_FAILED \<longrightarrow>
      (\<exists>d e facts g. get_decision_record (rv_core db') i = Some d \<and> evaluation_of (rv_core db') i = Some e \<and>
        pe_evaluated_at e = now \<and> pe_execution_mode e = LIVE \<and> pe_execution_profile_id e = op_execution_profile_id o' \<and>
        pe_portfolio e = Some facts \<and> holdings_count facts = int (length (held_positions snap)) \<and>
        pe_portfolio_snapshot e = Some snap \<and>
        pe_true_regime_state e = Some (rg_regime row) \<and> pe_regime_snapshot e = Some g \<and>
        date_isoformat (rg_snapshot_date g) = date_isoformat (rg_snapshot_date row) \<and> rg_regime g = rg_regime row \<and>
        pe_approved e = approved (evaluate_decision_policy d (Some facts) (Some (rg_regime row))))) \<and>
    (\<exists>l\<in>set (reasoning_run_decisions (rv_core db')). rl_decision_id l = i \<and>
      rl_reasoning_run_id l = op_reasoning_run_id o' \<and> rl_submission_snapshot_id l = op_submission_snapshot_id o') \<and>
    (op_runtime_attempt_id o' = None \<and> op_fence o' = None \<or>
     (\<exists>a f attempt lease t rt_run. op_runtime_attempt_id o' = Some a \<and> op_fence o' = Some f \<and>
        attempt \<in> set (rt_attempts (rv_runtime db)) \<and> ra_attempt_id attempt = a \<and>
        ra_status attempt = AttemptRunning \<and> ra_fence attempt = f \<and>
        lease \<in> set (rt_leases (rv_runtime db)) \<and> le_attempt_id lease = Some a \<and> le_fence lease = f \<and>
        le_expires_at lease = Some t \<and> now < t \<and>
        get_run (rv_runtime db) (ra_run_id attempt) = Inr rt_run \<and> ru_mode rt_run = LiveMode \<and>
        ru_execution_profile_id rt_run = op_execution_profile_id o' \<and> ru_session_date rt_run = day \<and>
        id_in_namespace (attempt_prefix rt_run a) s))"
proof -
  obtain db1 where tx: "submit_transaction env sd o' s day now db = Inr (db1, out)"
    and consumed: "consume_triggers ids (po_final_status out) db1 = Inr db'"
    using assms(1) by (rule submit_decision_Inr)
  from tx assms(2) obtain u core runtime where
    fenced: "fenced_identity o' s day now (rv_runtime db) = Inr u"
    and live: "submit_live env o' s day now db = Inr (core, out)"
    and attr: "attribute_decision (op_runtime_attempt_id o') (po_decision_id out)
      ((rv_runtime db)\<lparr>rt_core := core\<rparr>) = Inr runtime"
    and db1: "db1 = db\<lparr>rv_runtime := runtime\<rparr>"
    by (auto simp: submit_transaction_def result_simps)
  have core': "rv_core db' = core"
    using consume_triggers_frame(1) [OF consumed] attribute_decision_frame [OF attr] by (simp add: db1 rv_core_def)
  obtain run snap row i core1 port where bound: "live_binding o' s day now (rv_core db) = Inr (run, snap)"
    and regime: "live_regime (rv_core db) now = Inr row" and i: "po_decision_id out = Some i"
    and link: "\<exists>l\<in>set (reasoning_run_decisions core). rl_decision_id l = i \<and>
       rl_reasoning_run_id l = op_reasoning_run_id o' \<and> rl_submission_snapshot_id l = op_submission_snapshot_id o'"
    and tables: "same_pipeline_tables core1 core"
    and body: "\<exists>w. process_decision_body env (sm_body s) (Some port) (Some (rg_regime row)) now
       (Some (policy_identity env (op_submission_snapshot_id o') (Some row) (Some w)))
       LIVE (op_execution_profile_id o') (rv_core db) = Inr (core1, out)"
    using live by (rule submit_live_Inr)
  from body obtain w where w: "process_decision_body env (sm_body s) (Some port) (Some (rg_regime row)) now
       (Some (policy_identity env (op_submission_snapshot_id o') (Some row) (Some w)))
       LIVE (op_execution_profile_id o') (rv_core db) = Inr (core1, out)" ..
  from bound have named: "get_live_portfolio_snapshot (rv_core db) (op_submission_snapshot_id o') = Some snap"
    "op_submission_snapshot_id o' \<noteq> []"
    by (auto simp: live_binding_def result_simps split: option.splits if_splits)
  note judged = live_judgement [OF w i _ _ named, folded same_pipeline_reads(3,5) [OF tables]]
  have both: "(op_runtime_attempt_id o' = None) = (op_fence o' = None)"
    using assms(1) by (auto simp: submit_decision_def split: if_splits)
  have held: "op_runtime_attempt_id o' = None \<and> op_fence o' = None \<or>
     (\<exists>a f attempt lease t rt_run. op_runtime_attempt_id o' = Some a \<and> op_fence o' = Some f \<and>
        attempt \<in> set (rt_attempts (rv_runtime db)) \<and> ra_attempt_id attempt = a \<and>
        ra_status attempt = AttemptRunning \<and> ra_fence attempt = f \<and>
        lease \<in> set (rt_leases (rv_runtime db)) \<and> le_attempt_id lease = Some a \<and> le_fence lease = f \<and>
        le_expires_at lease = Some t \<and> now < t \<and>
        get_run (rv_runtime db) (ra_run_id attempt) = Inr rt_run \<and> ru_mode rt_run = LiveMode \<and>
        ru_execution_profile_id rt_run = op_execution_profile_id o' \<and> ru_session_date rt_run = day \<and>
        id_in_namespace (attempt_prefix rt_run a) s)"
  proof (cases "op_runtime_attempt_id o'")
    case None
    with both show ?thesis by simp
  next
    case (Some a)
    with both obtain f where f: "op_fence o' = Some f" by auto
    from fenced_identity_Inr [OF fenced Some f] obtain attempt rt_run where
      v: "validate_fence (rv_runtime db) a f now = Inr attempt"
      and r: "get_run (rv_runtime db) (ra_run_id attempt) = Inr rt_run" "ru_mode rt_run = LiveMode"
        "ru_execution_profile_id rt_run = op_execution_profile_id o'" "ru_session_date rt_run = day"
        "id_in_namespace (attempt_prefix rt_run a) s"
      using assms(2) by auto
    from v show ?thesis by (rule validate_fence_Inr) (use Some f r in blast)
  qed
  have judged': "get_decision_record (rv_core db) i = None \<and> po_final_status out \<noteq> SCHEMA_FAILED \<longrightarrow>
      (\<exists>d e facts g. get_decision_record core i = Some d \<and> evaluation_of core i = Some e \<and>
        pe_evaluated_at e = now \<and> pe_execution_mode e = LIVE \<and> pe_execution_profile_id e = op_execution_profile_id o' \<and>
        pe_portfolio e = Some facts \<and> holdings_count facts = int (length (held_positions snap)) \<and>
        pe_portfolio_snapshot e = Some snap \<and>
        pe_true_regime_state e = Some (rg_regime row) \<and> pe_regime_snapshot e = Some g \<and>
        date_isoformat (rg_snapshot_date g) = date_isoformat (rg_snapshot_date row) \<and> rg_regime g = rg_regime row \<and>
        pe_approved e = approved (evaluate_decision_policy d (Some facts) (Some (rg_regime row))))"
    using judged by blast
  from live_regime_Inr [OF regime] obtain c where
    c: "completed_session now = Inr (rg_snapshot_date row)" "row \<in> set (regime_snapshots (rv_core db))"
    "session_close (rg_snapshot_date row) = Inr (Some c)" "c \<le> rg_computed_at row" by blast
  note b = live_binding_Inr [OF bound]
  have today: "rr_session_date run = ny_date now" using b(4,7) by simp
  show ?thesis unfolding core'
    by (rule exI [of _ run], rule exI [of _ snap], rule exI [of _ row], rule exI [of _ c], rule exI [of _ i],
        intro conjI) (fact b c i link judged' held today)+
qed

section \<open>Witnesses\<close>

text \<open>
  A live submission on 3 March 2026, before the open: the running attempt of a prepared run submits a BUY, which the
  policy approves.
\<close>

definition submit_sample_at :: instant where
  "submit_sample_at = ny_combine (ymd 2026 3 3) (clock 9 0)"

definition submit_sample_profile :: ExecutionProfile where
  "submit_sample_profile = \<lparr>ep_execution_profile_id = ''live'', ep_agent_provider = CODEX, ep_account_alias = ''main'',
     ep_broker_account_fingerprint = ''0123456789abcdef'', ep_enabled = True, ep_max_order_notional = 1000,
     ep_max_quote_age_seconds = 30, ep_max_spread_bps = 50, ep_crisis_max_spread_bps = 100,
     ep_require_human_approval = True\<rparr>"

definition submit_sample_snapshot :: LivePortfolioSnapshot where
  "submit_sample_snapshot = \<lparr>ls_portfolio_snapshot_id = ''s1'', ls_execution_profile_id = ''live'',
     ls_broker_account_fingerprint = ''0123456789abcdef'', ls_captured_at = submit_sample_at - minute,
     ls_account_equity = 1024, ls_buying_power = 1024, ls_positions = [], ls_reporting = None,
     ls_collector_model = None, ls_index_prices = []\<rparr>"

definition submit_sample_live_run :: ReasoningRun where
  "submit_sample_live_run = \<lparr>rr_reasoning_run_id = ''run'', rr_session_date = ymd 2026 3 3, rr_slot = ''morning'',
     rr_execution_profile_id = ''live'', rr_model_label = ''m'', rr_shared_bundle_path = ''b'',
     rr_shared_bundle_sha256 = [], rr_portfolio_snapshot_id = ''s1'', rr_started_at = submit_sample_at - 2 * minute,
     rr_completed_at = None, rr_result = PREPARED, rr_decision_ids = [], rr_public_summary = []\<rparr>"

definition submit_sample_regime_row :: RegimeSnapshot where
  "submit_sample_regime_row = \<lparr>rg_snapshot_date = ymd 2026 3 2, rg_regime = GREEN, rg_raw_regime = GREEN, rg_score = 6,
     rg_components = [], rg_computed_at = ny_combine (ymd 2026 3 2) (clock 18 0)\<rparr>"

definition submit_sample_run :: RuntimeRun where
  "submit_sample_run = \<lparr>ru_run_id = ''rt'', ru_mode = LiveMode, ru_account_id = ''0123456789abcdef'',
     ru_execution_profile_id = ''live'', ru_session_date = ymd 2026 3 3, ru_slot = ''morning'',
     ru_prepared_at = submit_sample_at - 2 * minute, ru_intake_path = ''in'', ru_intake_sha256 = ''aa'',
     ru_reasoning_run_id = Some ''run'', ru_occurrence_id = None, ru_origin = OriginManual, ru_trigger_ids = []\<rparr>"

definition submit_sample_attempt :: RuntimeAttempt where
  "submit_sample_attempt = new_attempt submit_sample_run ''m'' (submit_sample_at - minute) (''a1'', ''q1'') 0 None"

definition submit_sample_lease :: Lease where
  "submit_sample_lease = \<lparr>le_scope_key = run_scope_key submit_sample_run, le_fence = 1, le_attempt_id = Some ''a1'',
     le_expires_at = Some (submit_sample_at + minute)\<rparr>"

definition submit_sample_review :: review_db where
  "submit_sample_review = \<lparr>rv_runtime = empty_runtime\<lparr>rt_core := empty_db\<lparr>
     regime_snapshots := [submit_sample_regime_row], live_portfolio_snapshots := [submit_sample_snapshot],
     reasoning_runs := [submit_sample_live_run]\<rparr>,
     rt_runs := [\<lparr>rw_run = submit_sample_run, rw_public_id = ''p1''\<rparr>], rt_attempts := [submit_sample_attempt],
     rt_leases := [submit_sample_lease], rt_decision_attempts := [(''d0'', ''a0'')]\<rparr>,
     rv_prices = [], rv_fills = [], rv_positions = [], rv_swap_pairs = []\<rparr>"

definition submit_sample_options :: SubmitOptions where
  "submit_sample_options = \<lparr>op_execution_mode = LIVE, op_execution_profile_id = ''live'', op_reasoning_run_id = ''run'',
     op_submission_snapshot_id = ''s1'', op_execution_profile = Some submit_sample_profile, op_runtime_attempt_id = Some ''a1'',
     op_fence = Some 1, op_funded_by_sale = False, op_max_snapshot_age = LIVE_SNAPSHOT_MAX_AGE\<rparr>"

definition submit_sample_decision :: Submitted where
  "submit_sample_decision = draft (sample_decision\<lparr>decision_id := ''run_a1_d1''\<rparr>)"

definition submit_sample_env :: Environment where
  "submit_sample_env = \<lparr>env_schema_sha256 = ''h'', env_row_sha256 = (\<lambda>_. ''r''), env_error_text = (\<lambda>_. ''e'')\<rparr>"

definition submitted_sample :: "review_db \<times> ProcessOutcome result" where
  "submitted_sample = submit_decision submit_sample_env (\<lambda>_. 0) submit_sample_options submit_sample_decision (ymd 2026 3 3) []
     submit_sample_at submit_sample_review"

text \<open>The facts of the sample, one by one: the decision as validated, its portfolio, and the policy's verdict.\<close>

definition submit_sample_record :: InvestmentDecisionRecord where
  "submit_sample_record = valid_decision\<lparr>decision_id := ''run_a1_d1''\<rparr>"

definition submit_sample_facts :: PortfolioInputs where
  "submit_sample_facts = \<lparr>holdings_count = 0, buy_add_trades_today = 0, swap_buy_trades_today = 0,
     funded_by_same_review_sale = False, crisis_mode = False, sell_trim_trades_today = 0,
     primary_theme_weights = [], short_watchlist_tickers = Some [], watchlist_entries = Some []\<rparr>"

lemma submit_sample_guards:
  "live_binding submit_sample_options submit_sample_decision (ymd 2026 3 3) submit_sample_at
     (rv_core submit_sample_review) = Inr (submit_sample_live_run, submit_sample_snapshot)"
  "live_portfolio_context [] [] (rv_core submit_sample_review) submit_sample_snapshot (ymd 2026 3 3) (Some ''AAPL'') False =
     Inr submit_sample_facts"
  "live_regime (rv_core submit_sample_review) submit_sample_at = Inr submit_sample_regime_row"
  "fenced_identity submit_sample_options submit_sample_decision (ymd 2026 3 3) submit_sample_at
     (rv_runtime submit_sample_review) = Inr ()"
  "fdiv (fsum (map lpos_market_value (filter (\<lambda>p. lpos_ticker p = normalized_ticker submit_sample_decision)
     (ls_positions submit_sample_snapshot)))) (ls_account_equity submit_sample_snapshot) = Inr 0"
  "validate_record (sample_decision\<lparr>decision_id := ''run_a1_d1''\<rparr>) = Inr submit_sample_record"
  by code_simp+

lemma submit_sample_approved:
  "approved (evaluate_decision_policy submit_sample_record (Some submit_sample_facts) (Some GREEN))"
proof -
  have w: "\<not> MAX_PRIMARY_THEME_WEIGHT < fadd 0 (1 / 8)" by code_simp
  have "list_all (\<lambda>c. rc_result c \<noteq> failed)
      (evaluation_checks submit_sample_record (Some submit_sample_facts) (Some GREEN))"
    unfolding evaluation_checks_def Let_def list.pred_inject rc_result_failed
    by (simp add: submit_sample_record_def valid_decision_def sample_decision_def submit_sample_facts_def sample_weights w
        limit_defs theme_weight_def increasing_def actionable_def both_and_def)
  then show ?thesis by (simp only: approved_iff list_all_iff)
qed

lemma submit_sample_fields:
  "decision_id submit_sample_record = ''run_a1_d1''" "created_at submit_sample_record = (0, 0)"
  "ticker submit_sample_record = ''AAPL''" "decision submit_sample_record = BUY"
  "final_target_weight submit_sample_record = 1 / 8" "public_narrative submit_sample_record = None"
  by (simp_all add: submit_sample_record_def valid_decision_def sample_decision_def)

definition submit_sample_identity :: PolicyInputIdentity where
  "submit_sample_identity = policy_identity submit_sample_env ''s1'' (Some submit_sample_regime_row) (Some 0)"

lemma submit_sample_rows:
  "regime_snapshots db = [submit_sample_regime_row] \<Longrightarrow>
     recorded_regime submit_sample_env submit_sample_identity (Some GREEN) submit_sample_at db = Inr (Some submit_sample_regime_row)"
  "live_portfolio_snapshots db = [submit_sample_snapshot] \<Longrightarrow>
     bound_snapshot submit_sample_record (Some submit_sample_facts) submit_sample_at submit_sample_identity LIVE ''live'' db =
       Inr (Some submit_sample_snapshot)"
proof -
  have t: "\<not> submit_sample_at < rg_computed_at submit_sample_regime_row" "\<not> submit_sample_at < ls_captured_at submit_sample_snapshot"
    by code_simp+
  have dated: "date_isoformat d \<noteq> []" for d by (simp add: date_isoformat_def split: prod.split)
  show "recorded_regime submit_sample_env submit_sample_identity (Some GREEN) submit_sample_at db = Inr (Some submit_sample_regime_row)"
    if "regime_snapshots db = [submit_sample_regime_row]"
    using that t(1) dated by (simp add: recorded_regime_def submit_sample_identity_def policy_identity_def find_row_def)
      (simp add: submit_sample_regime_row_def)
  have m: "snapshot_facts_match submit_sample_record (Some submit_sample_facts) submit_sample_snapshot = Inr True" by code_simp
  have f: "fdiv (fsum (map lpos_market_value (filter (\<lambda>p. lpos_ticker p = ticker submit_sample_record)
      (ls_positions submit_sample_snapshot)))) (ls_account_equity submit_sample_snapshot) = Inr 0" by code_simp
  have e: "\<not> fl (1 / 10 ^ 9) < \<bar>fsub 0 0\<bar>" by code_simp
  have p: "ls_portfolio_snapshot_id submit_sample_snapshot = ''s1''" "ls_execution_profile_id submit_sample_snapshot = ''live''"
    by (simp_all add: submit_sample_snapshot_def)
  show "bound_snapshot submit_sample_record (Some submit_sample_facts) submit_sample_at submit_sample_identity LIVE ''live'' db =
       Inr (Some submit_sample_snapshot)"
    if "live_portfolio_snapshots db = [submit_sample_snapshot]"
    using that t(2) m f e p by (simp add: bound_snapshot_def submit_sample_identity_def policy_identity_def
        get_live_portfolio_snapshot_def find_row_def)
qed

lemma submit_sample_intent:
  "\<exists>i. create_order_intent submit_sample_at submit_sample_record
     (evaluate_decision_policy submit_sample_record (Some submit_sample_facts) (Some GREEN)) (Some submit_sample_at) LIVE ''live'' =
       Inr i \<and> oi_decision_id i = ''run_a1_d1'' \<and> oi_order_intent_id i = ''oi_run_a1_d1''"
  using submit_sample_approved
  by (simp add: create_order_intent_def validate_order_intent_def submit_sample_fields Let_def
      order_intent_errors_def length_errors_def error_if_def model_errors_Nil
      require_profile_only_for_live_intents_def) (simp add: range_errors_def error_if_def blank_def strip_def py_isspace_def)

lemma submit_sample_judged:
  "\<exists>core out. process_decision_body submit_sample_env (Draft (sample_decision\<lparr>decision_id := ''run_a1_d1''\<rparr>))
     (Some submit_sample_facts) (Some GREEN) submit_sample_at (Some submit_sample_identity) LIVE ''live''
     (rv_core submit_sample_review) = Inr (core, out) \<and> po_final_status out = ORDER_INTENT_CREATED \<and>
     po_decision_id out = Some ''run_a1_d1'' \<and> reasoning_run_decisions core = [] \<and>
     \<not> early_stage core ''run_a1_d1'' submit_sample_live_run"
proof -
  from submit_sample_intent obtain i where i: "create_order_intent submit_sample_at submit_sample_record
     (evaluate_decision_policy submit_sample_record (Some submit_sample_facts) (Some GREEN)) (Some submit_sample_at) LIVE ''live'' = Inr i"
    "oi_decision_id i = ''run_a1_d1''" "oi_order_intent_id i = ''oi_run_a1_d1''"
    by blast
  have act: "actionable BUY" by (simp add: actionable_def)
  have old: "\<not> submit_sample_at < 0" by code_simp
  note [simp] = submit_sample_fields i act submit_sample_approved [simplified] submit_sample_guards(6) old
  show ?thesis
    by (simp add: process_decision_body_def process_new_def empty_db_def get_decision_record_def find_row_def
        save_decision_record_def insert_once_def status_of_def append_status_def history_def subject_events_def
        Let_def latest_def save_policy_evaluation_def submit_sample_rows submit_sample_review_def rv_core_def
        empty_runtime_def finish_with_intent_def get_order_intent_def save_order_intent_def outcome_def early_stage_def
        del: set_map set_filter image_iff)
qed

lemma submitted_sample_ok:
  "\<exists>db' out. submitted_sample = (db', Inr out) \<and> po_decision_id out = Some ''run_a1_d1'' \<and>
     po_final_status out = ORDER_INTENT_CREATED"
proof -
  from submit_sample_judged obtain core out where body: "process_decision_body submit_sample_env
      (Draft (sample_decision\<lparr>decision_id := ''run_a1_d1''\<rparr>)) (Some submit_sample_facts) (Some GREEN) submit_sample_at
      (Some submit_sample_identity) LIVE ''live'' (rv_core submit_sample_review) = Inr (core, out)"
    and out: "po_final_status out = ORDER_INTENT_CREATED" "po_decision_id out = Some ''run_a1_d1''"
    and core: "reasoning_run_decisions core = []" "\<not> early_stage core ''run_a1_d1'' submit_sample_live_run" by blast
  have o': "op_execution_mode submit_sample_options = LIVE" "op_execution_profile_id submit_sample_options = ''live''"
    "op_submission_snapshot_id submit_sample_options = ''s1''" "op_funded_by_sale submit_sample_options = False"
    "op_runtime_attempt_id submit_sample_options = Some ''a1''" "op_fence submit_sample_options = Some 1"
    "op_reasoning_run_id submit_sample_options = ''run''"
    by (simp_all add: submit_sample_options_def)
  have s: "sm_body submit_sample_decision = Draft (sample_decision\<lparr>decision_id := ''run_a1_d1''\<rparr>)"
    by (simp add: submit_sample_decision_def draft_def)
  have ticker: "(case sm_ticker submit_sample_decision of None \<Rightarrow> None | Some t \<Rightarrow> if t = [] then None else Some (py_upper (strip t))) =
      Some ''AAPL''" by code_simp
  have tables: "rv_prices submit_sample_review = []" "rv_swap_pairs submit_sample_review = []"
    "rg_regime submit_sample_regime_row = GREEN"
    by (simp_all add: submit_sample_review_def submit_sample_regime_row_def)
  obtain core' where live: "submit_live submit_sample_env submit_sample_options submit_sample_decision (ymd 2026 3 3)
      submit_sample_at submit_sample_review = Inr (core', out)"
    using body out core by (simp add: submit_live_def Let_def submit_sample_guards o' s ticker tables
        link_decision_def find_row_def flip: submit_sample_identity_def)
  have "attributed_to ((rv_runtime submit_sample_review)\<lparr>rt_core := core'\<rparr>) ''run_a1_d1'' = []"
    by (simp add: attributed_to_def submit_sample_review_def)
  then have "\<exists>runtime. attribute_decision (Some ''a1'') (Some ''run_a1_d1'')
      ((rv_runtime submit_sample_review)\<lparr>rt_core := core'\<rparr>) = Inr runtime"
    by (simp add: attribute_decision_def)
  then obtain runtime where "attribute_decision (Some ''a1'') (Some ''run_a1_d1'')
      ((rv_runtime submit_sample_review)\<lparr>rt_core := core'\<rparr>) = Inr runtime" ..
  then have "submit_transaction submit_sample_env (\<lambda>_. 0) submit_sample_options submit_sample_decision (ymd 2026 3 3)
      submit_sample_at submit_sample_review = Inr (submit_sample_review\<lparr>rv_runtime := runtime\<rparr>, out)"
    using live by (simp add: submit_transaction_def submit_sample_guards(4) o' out)
  with out show ?thesis
    by (simp add: submitted_sample_def submit_decision_def o' consume_triggers_def)
qed

lemma live_submission_is_bound_witness:
  "\<exists>db' out e. submitted_sample = (db', Inr out) \<and> po_final_status out = ORDER_INTENT_CREATED \<and>
     evaluation_of (rv_core db') ''run_a1_d1'' = Some e \<and> pe_true_regime_state e = Some GREEN \<and>
     pe_portfolio_snapshot e = Some submit_sample_snapshot \<and> completed_session submit_sample_at = Inr (ymd 2026 3 2)"
proof -
  obtain db' out where s: "submitted_sample = (db', Inr out)" and i: "po_decision_id out = Some ''run_a1_d1''"
    and f: "po_final_status out = ORDER_INTENT_CREATED"
    using submitted_sample_ok by blast
  have m: "op_execution_mode submit_sample_options = LIVE" by (simp add: submit_sample_options_def)
  have rows: "regime_snapshots (rv_core submit_sample_review) = [submit_sample_regime_row]"
    "get_live_portfolio_snapshot (rv_core submit_sample_review) (op_submission_snapshot_id submit_sample_options) =
      Some submit_sample_snapshot"
    "get_decision_record (rv_core submit_sample_review) ''run_a1_d1'' = None"
    by (simp_all add: submit_sample_review_def rv_core_def empty_runtime_def empty_db_def get_decision_record_def
        find_row_def get_live_portfolio_snapshot_def submit_sample_options_def submit_sample_snapshot_def)
  from live_submission_is_bound [OF s [unfolded submitted_sample_def] m] rows i f obtain row e where
    "row \<in> {submit_sample_regime_row}" "completed_session submit_sample_at = Inr (rg_snapshot_date row)"
    "evaluation_of (rv_core db') ''run_a1_d1'' = Some e" "pe_true_regime_state e = Some (rg_regime row)"
    "pe_portfolio_snapshot e = Some submit_sample_snapshot"
    by auto
  then show ?thesis using s f by (auto simp: submit_sample_regime_row_def)
qed

lemma attribution_is_final_witness:
  "attributed_to (rv_runtime (fst submitted_sample)) ''d0'' = ''a0''"
  unfolding submitted_sample_def
  by (rule attribution_is_final) (simp_all add: submit_sample_review_def attributed_to_def)

end
