(* ===== verification/Executor.thy ===== *)
theory Executor
  imports LiveOrders LiveContext ReportingStore RuntimeSchemas
begin

text \<open>
  The executor (\<open>app/broker/executor.py\<close>), the broker's command line (\<open>app/broker/run.py\<close>) and the
  profile lookup (\<open>app/broker/config.py\<close>). A broker session is a process outside of the program: a
  function from the intent, the attempts before it and the tables to the tables it leaves (it calls the
  command line) and its report, or the text of its failure.
\<close>

section \<open>Profiles\<close>

definition get_live_profile :: "ExecutionProfile list \<Rightarrow> string \<Rightarrow> ExecutionProfile result" where
  "get_live_profile profiles i = (case find_row ep_execution_profile_id i profiles of
     None \<Rightarrow> Inl (ValueError (''unknown execution profile '' @ i)) | Some p \<Rightarrow> Inr p)"

definition account_fingerprint :: "(string \<Rightarrow> string) \<Rightarrow> string \<Rightarrow> string result" where
  "account_fingerprint sha256_hex identifier =
    (if strip identifier = [] then Inl (ValueError ''account identifier cannot be empty'')
     else Inr (take 16 (sha256_hex (strip identifier))))"

section \<open>The broker's command line\<close>

text \<open>
  What \<open>python -m app.broker.run\<close> does with a validated input, and what it prints; of a blocked packet
  the reason codes, the side and the allowed price (the rest repeats its input).
\<close>

datatype broker_command =
    RecordCommand BrokerExecutionRecord
  | EventCommand BrokerExecutionEvent
  | SnapshotCommand LivePortfolioSnapshot
  | PacketCommand string BrokerPreflight

datatype broker_reply =
    Stored bool
  | PacketReply bool LiveExecutionPacket
  | PacketBlocked "string list" OrderSide pyfloat

definition latest_snapshot :: "core_db \<Rightarrow> string \<Rightarrow> LivePortfolioSnapshot option" where
  "latest_snapshot db profile_id = greatest (\<lambda>s. julianday (ls_captured_at s))
     (filter (\<lambda>s. ls_execution_profile_id s = profile_id) (live_portfolio_snapshots db))"

text \<open>
  Only the \<open>ValueError\<close> of \<open>build_execution_packet\<close> is caught; a \<open>ValidationError\<close> is one of them.
  \<open>error_text\<close> is its text.
\<close>

fun blocked_text :: "(string list \<Rightarrow> string) \<Rightarrow> exn \<Rightarrow> string option" where
  "blocked_text error_text (ValueError text) = Some text"
| "blocked_text error_text (ValidationError errors) = Some (error_text errors)"
| "blocked_text error_text _ = None"

definition packet_command :: "(string list \<Rightarrow> string) \<Rightarrow> PriceBar list \<Rightarrow> ExecutionProfile list \<Rightarrow> string \<Rightarrow> BrokerPreflight \<Rightarrow> instant \<Rightarrow>
    core_db \<Rightarrow> (core_db \<times> broker_reply) result" where
  "packet_command error_text prices profiles intent_id preflight now db = (case get_order_intent db intent_id of
     None \<Rightarrow> Inl (ValueError (''missing order intent '' @ intent_id))
   | Some intent \<Rightarrow> (case get_decision_record db (oi_decision_id intent) of
       None \<Rightarrow> Inl (ValueError (''missing decision record '' @ oi_decision_id intent))
     | Some decision' \<Rightarrow>
         and_then (get_live_profile profiles (oi_execution_profile_id intent)) (\<lambda>profile.
         and_then (case latest_snapshot db (ep_execution_profile_id profile) of
             None \<Rightarrow> Inr [] | Some snap \<Rightarrow> crisis_reasons prices db snap now) (\<lambda>crisis.
         case build_execution_packet intent decision' profile preflight now (crisis \<noteq> []) of
           Inr packet \<Rightarrow> and_then (save_execution_packet packet db) (\<lambda>(db', new). Inr (db', PacketReply new packet))
         | Inl e \<Rightarrow> (case blocked_text error_text e of Some text \<Rightarrow> Inr (db, PacketBlocked (split_at_char CHR '','' text)
             (oi_side intent) (allowed_price intent decision' preflight)) | None \<Rightarrow> Inl e)))))"

definition broker_run :: "(string list \<Rightarrow> string) \<Rightarrow> PriceBar list \<Rightarrow> ExecutionProfile list \<Rightarrow> broker_command \<Rightarrow> instant \<Rightarrow> core_db \<Rightarrow>
    (core_db \<times> broker_reply) result" where
  "broker_run error_text prices profiles command now db = (case command of
     RecordCommand r \<Rightarrow> and_then (save_broker_execution_record r db) (\<lambda>(db', new). Inr (db', Stored new))
   | EventCommand e \<Rightarrow> and_then (append_execution_event e db) (\<lambda>(db', new). Inr (db', Stored new))
   | SnapshotCommand s \<Rightarrow> and_then (get_live_profile profiles (ls_execution_profile_id s)) (\<lambda>p.
       and_then (save_live_portfolio_snapshot p s db) (\<lambda>(db', new). Inr (db', Stored new)))
   | PacketCommand i preflight \<Rightarrow> packet_command error_text prices profiles i preflight now db)"

section \<open>Reports\<close>

definition MAX_ATTEMPTS_PER_INTENT :: int where "MAX_ATTEMPTS_PER_INTENT = 3"

definition MIN_RETRY_INTERVAL :: int where "MIN_RETRY_INTERVAL = 15 * minute"

datatype report_outcome = ReportFilled | ReportPartiallyFilled | ReportSubmitted | ReportCanceled
  | ReviewRejected | NotPlaced | ReportFailed | ReportBlocked

definition PLACED_OUTCOMES :: "report_outcome list" where
  "PLACED_OUTCOMES = [ReportSubmitted, ReportPartiallyFilled, ReportFilled]"

definition BLOCK_REASONS :: "string list" where
  "BLOCK_REASONS = [''price_above_allowed_range'', ''price_below_allowed_range'', ''price_above_entry_band'',
     ''price_below_exit_band'', ''missing_entry_price_band'', ''outside_regular_market_hours'',
     ''spread_too_wide'', ''stale_quote'', ''quote_timestamp_in_future'', ''insufficient_buying_power'',
     ''max_order_notional_exceeded'', ''buy_has_non_positive_delta'', ''sell_has_non_negative_delta'',
     ''ticker_not_tradable'', ''ticker_not_fractionable'', ''packet_expired'', ''broker_account_mismatch'',
     ''existing_order_found'', ''decision_intent_mismatch'', ''live_profile_disabled'', ''intent_is_not_live'',
     ''intent_profile_mismatch'', ''preflight_profile_mismatch'', ''preflight_ticker_mismatch'',
     ''live_asset_type_not_allowed'', ''live_order_type_not_allowed'']"

record ExecutionReport =
  xr_order_intent_id :: string
  xr_outcome :: report_outcome
  xr_execution_packet_id :: "string option"
  xr_broker_execution_record_id :: "string option"
  xr_broker_order_id :: "string option"
  xr_reason_code :: "string option"
  xr_notes :: string

definition report_valid :: "ExecutionReport \<Rightarrow> bool" where
  "report_valid r = (1 \<le> length (xr_order_intent_id r) \<and> length (xr_notes r) \<le> 2000 \<and>
     (case xr_reason_code r of None \<Rightarrow> True | Some c \<Rightarrow> c \<in> set BLOCK_REASONS))"

definition verify_report :: "core_db \<Rightarrow> OrderIntent \<Rightarrow> ExecutionReport \<Rightarrow> string list" where
  "verify_report db intent report =
    (let row = find_row br_order_intent_id (oi_order_intent_id intent) (broker_execution_records db) in
     error_if (xr_order_intent_id report \<noteq> oi_order_intent_id intent) ''report_intent_mismatch'' @
     (if xr_outcome report \<in> set PLACED_OUTCOMES then (case row of
         None \<Rightarrow> [''unrecorded_submission'']
       | Some r \<Rightarrow> error_if (truthy (xr_broker_order_id report) \<and>
           xr_broker_order_id report \<noteq> Some (br_broker_order_id r)) ''broker_order_id_mismatch'')
      else error_if (row \<noteq> None) ''record_without_reported_placement'') @
     error_if (xr_outcome report = ReportBlocked \<and> xr_reason_code report = None) ''unlabeled_block'' @
     error_if (truthy (xr_execution_packet_id report) \<and>
       get_execution_packet db (the (xr_execution_packet_id report)) = None) ''reported_packet_missing'')"

section \<open>Pending intents\<close>

definition session_open :: "instant \<Rightarrow> instant option" where
  "session_open now = (let day = ny_date now in
     case is_session day of Inr True \<Rightarrow> Some (ny_combine day (clock 9 30)) | _ \<Rightarrow> None)"

definition session_boundary :: "instant \<Rightarrow> instant option result" where
  "session_boundary now = and_then (completed_session now) session_close"

text \<open>
  \<open>created_at\<close> is written in UTC, where the order of the texts is the order of the instants.
\<close>

definition unrecorded_intents :: "core_db \<Rightarrow> ExecutionProfile \<Rightarrow> OrderIntent list" where
  "unrecorded_intents db profile = sort_key oi_created_at (filter (\<lambda>i. oi_execution_mode i = LIVE \<and>
     oi_execution_profile_id i = ep_execution_profile_id profile \<and>
     oi_order_intent_id i \<notin> br_order_intent_id ` set (broker_execution_records db)) (order_intents db))"

definition pending_live_intents :: "core_db \<Rightarrow> ExecutionProfile \<Rightarrow> instant \<Rightarrow> OrderIntent list" where
  "pending_live_intents db profile now = (case session_open now of None \<Rightarrow> []
     | Some opened \<Rightarrow> filter (\<lambda>i. opened \<le> oi_created_at i) (unrecorded_intents db profile))"

text \<open>Sales first; the cap of a tick only paces buys. A slice \<open>[:n]\<close> with \<open>n < 0\<close> drops from the end.\<close>

definition execution_order :: "int \<Rightarrow> OrderIntent list \<Rightarrow> OrderIntent list" where
  "execution_order max_intents pending =
    (let buys = filter (\<lambda>i. oi_side i = SIDE_BUY) pending in
     filter (\<lambda>i. oi_side i = SIDE_SELL) pending @
     take (nat (if max_intents < 0 then int (length buys) + max_intents else max_intents)) buys)"

section \<open>The ledger of sessions\<close>

text \<open>A line of \<open>executions.jsonl\<close>: an attempt on an intent, or a line that does not parse as one.\<close>

datatype ledger_line = LedgerAttempt string instant | LedgerOther

fun attempt_of :: "instant option \<Rightarrow> string \<Rightarrow> ledger_line \<Rightarrow> instant option" where
  "attempt_of since i (LedgerAttempt j t) =
     (if i = j \<and> (case since of None \<Rightarrow> True | Some s \<Rightarrow> s \<le> t) then Some t else None)"
| "attempt_of since i LedgerOther = None"

definition attempts_of :: "ledger_line list \<Rightarrow> instant option \<Rightarrow> string \<Rightarrow> instant list" where
  "attempts_of ledger since i = List.map_filter (attempt_of since i) ledger"

definition attempt_history :: "ledger_line list \<Rightarrow> instant option \<Rightarrow> string \<Rightarrow> int \<times> instant option" where
  "attempt_history ledger since i = (let ts = attempts_of ledger since i in
     (int (length ts), if ts = [] then None else Some (Max (set ts))))"

section \<open>One intent\<close>

record execution_db =
  xd_core :: core_db
  xd_swap_pairs :: "(string \<times> string) list"
  xd_sessions :: "(string \<times> instant \<times> string) list"
  xd_ledger :: "ledger_line list"

record SessionResult =
  se_order_intent_id :: string
  se_ticker :: string
  se_side :: OrderSide
  se_attempted_at :: instant
  se_session_failure :: "string option"
  se_report :: "ExecutionReport option"
  se_problems :: "string list"

datatype execution_result =
    Skipped string string
  | Attempted SessionResult
  | PostFillSnapshot string
  | PostFillFailed string

type_synonym broker_session = "OrderIntent \<Rightarrow> int \<Rightarrow> core_db \<Rightarrow> core_db \<times> (string + ExecutionReport)"

text \<open>The intent of the sale a buy waits for, and the identifier of its execution record.\<close>

definition funding_sale :: "execution_db \<Rightarrow> OrderIntent \<Rightarrow> (OrderIntent \<times> string option) option" where
  "funding_sale st intent = (case map_of (xd_swap_pairs st) (oi_decision_id intent) of None \<Rightarrow> None
   | Some sell \<Rightarrow> (case find_row oi_decision_id sell (order_intents (xd_core st)) of None \<Rightarrow> None
     | Some o' \<Rightarrow> Some (o', map_option br_broker_execution_record_id
         (find_row br_order_intent_id (oi_order_intent_id o') (broker_execution_records (xd_core st))))))"

definition sale_status :: "execution_db \<Rightarrow> string option \<Rightarrow> BrokerExecutionStatus option" where
  "sale_status st record_id =
     (if truthy record_id then latest_execution_status (xd_core st) (the record_id) else None)"

definition swap_hold :: "execution_db \<Rightarrow> OrderIntent \<Rightarrow> string option" where
  "swap_hold st intent = (case funding_sale st intent of None \<Rightarrow> None
   | Some (_, record_id) \<Rightarrow>
       if sale_status st record_id \<in> {Some FILLED, Some PARTIALLY_FILLED} then None
       else if sale_status st record_id \<in> {Some CANCELED, Some FAILED} then Some ''swap_sell_failed''
       else Some ''awaiting_swap_sale'')"

definition log_session :: "OrderIntent \<Rightarrow> instant \<Rightarrow> string \<Rightarrow> execution_db \<Rightarrow> execution_db" where
  "log_session intent started model st =
    (if \<exists>r\<in>set (xd_sessions st). fst r = oi_order_intent_id intent \<and> fst (snd r) = started then st
     else st\<lparr>xd_sessions := xd_sessions st @ [(oi_order_intent_id intent, started, model)]\<rparr>)"

definition session_problems :: "core_db \<Rightarrow> OrderIntent \<Rightarrow> string + ExecutionReport \<Rightarrow> string list" where
  "session_problems db intent answer = (case answer of
     Inr report \<Rightarrow> verify_report db intent report
   | Inl _ \<Rightarrow> [if find_row br_order_intent_id (oi_order_intent_id intent) (broker_execution_records db) = None
       then ''session_failed'' else ''session_failed_after_submission''])"

definition run_session :: "broker_session \<Rightarrow> OrderIntent \<Rightarrow> instant \<Rightarrow> string \<Rightarrow> int \<Rightarrow> execution_db \<Rightarrow>
    execution_db \<times> SessionResult" where
  "run_session session intent started model attempts st =
    (let st1 = log_session intent started model st;
         (core, answer) = session intent attempts (xd_core st1);
         row = \<lparr>se_order_intent_id = oi_order_intent_id intent, se_ticker = oi_ticker intent,
           se_side = oi_side intent, se_attempted_at = started,
           se_session_failure = (case answer of Inl e \<Rightarrow> Some e | Inr _ \<Rightarrow> None),
           se_report = (case answer of Inl _ \<Rightarrow> None | Inr r \<Rightarrow> Some r),
           se_problems = session_problems core intent answer\<rparr>
     in (st1\<lparr>xd_core := core, xd_ledger := xd_ledger st1 @ [LedgerAttempt (oi_order_intent_id intent) started]\<rparr>, row))"

definition slow_session :: "SessionResult \<Rightarrow> bool" where
  "slow_session row = (case se_report row of None \<Rightarrow> False
   | Some r \<Rightarrow> xr_outcome r = ReportBlocked \<and> xr_reason_code r \<in> {Some ''packet_expired'', Some ''stale_quote''})"

text \<open>\<open>for rerun in (False, True)\<close>: a session that was only slow runs once more.\<close>

fun session_loop :: "broker_session \<Rightarrow> OrderIntent \<Rightarrow> instant \<Rightarrow> string \<Rightarrow> int \<Rightarrow> bool list \<Rightarrow> int \<Rightarrow>
    execution_db \<Rightarrow> execution_db \<times> execution_result list" where
  "session_loop session intent started model cap [] attempts st = (st, [])"
| "session_loop session intent started model cap (rerun # left) attempts st =
    (let (st', row) = run_session session intent started model attempts st in
     if rerun \<or> cap \<le> attempts + 1 \<or> \<not> slow_session row then (st', [Attempted row])
     else let (st'', rows) = session_loop session intent started model cap left (attempts + 1) st'
       in (st'', Attempted row # rows))"

definition execute_intent :: "broker_session \<Rightarrow> instant \<Rightarrow> string \<Rightarrow> int \<Rightarrow> int \<Rightarrow> (string \<Rightarrow> int \<times> instant option) \<Rightarrow>
    OrderIntent \<Rightarrow> execution_db \<Rightarrow> execution_db \<times> execution_result list" where
  "execute_intent session started model cap retry_interval seen intent st =
    (let (attempts, last_attempt) = seen (oi_order_intent_id intent) in
     if cap \<le> attempts then (st, [Skipped (oi_order_intent_id intent) ''attempt_cap_reached''])
     else if (case last_attempt of None \<Rightarrow> False | Some t \<Rightarrow> started - t < retry_interval)
       then (st, [Skipped (oi_order_intent_id intent) ''retry_backoff''])
     else (case swap_hold st intent of
         Some label \<Rightarrow> (st, [Skipped (oi_order_intent_id intent) label])
       | None \<Rightarrow> session_loop session intent started model cap [False, True] attempts st))"

section \<open>A tick\<close>

fun execute_intents :: "(OrderIntent \<Rightarrow> execution_db \<Rightarrow> execution_db \<times> execution_result list) \<Rightarrow>
    OrderIntent list \<Rightarrow> execution_db \<Rightarrow> execution_db \<times> execution_result list" where
  "execute_intents f [] st = (st, [])"
| "execute_intents f (i # is) st = (let (st', rows) = f i st; (st'', more) = execute_intents f is st'
     in (st'', rows @ more))"

fun filled_result :: "execution_result \<Rightarrow> bool" where
  "filled_result (Attempted row) = (case se_report row of None \<Rightarrow> False
     | Some r \<Rightarrow> xr_outcome r \<in> {ReportFilled, ReportPartiallyFilled})"
| "filled_result _ = False"

text \<open>\<open>type(error).__name__\<close> of what a failed snapshot is caught as; other exceptions are not.\<close>

fun snapshot_failure :: "exn \<Rightarrow> string option" where
  "snapshot_failure (BrokerSessionFailure _) = Some ''BrokerSessionFailure''"
| "snapshot_failure (RunnerFailure _) = Some ''RunnerFailure''"
| "snapshot_failure (ValueError _) = Some ''ValueError''"
| "snapshot_failure (ValidationError _) = Some ''ValidationError''"
| "snapshot_failure LeaseLost = Some ''LeaseLost''"
| "snapshot_failure CalendarCoverageError = Some ''CalendarCoverageError''"
| "snapshot_failure FileNotFoundError = Some ''FileNotFoundError''"
| "snapshot_failure _ = None"

definition post_fill_snapshot :: "(core_db \<Rightarrow> core_db \<times> string result) option \<Rightarrow> execution_result list \<Rightarrow>
    execution_db \<Rightarrow> execution_db \<times> execution_result list result" where
  "post_fill_snapshot snapshot rows st = (case snapshot of None \<Rightarrow> (st, Inr rows)
   | Some take_snapshot \<Rightarrow> if \<not> list_ex filled_result rows then (st, Inr rows)
     else let (core, taken) = take_snapshot (xd_core st); st' = st\<lparr>xd_core := core\<rparr> in
       (st', case taken of Inr i \<Rightarrow> Inr (rows @ [PostFillSnapshot i])
         | Inl e \<Rightarrow> (case snapshot_failure e of None \<Rightarrow> Inl e | Some name \<Rightarrow> Inr (rows @ [PostFillFailed name]))))"

definition execute_pending :: "broker_session \<Rightarrow> (core_db \<Rightarrow> core_db \<times> string result) option \<Rightarrow>
    ExecutionProfile \<Rightarrow> string \<Rightarrow> instant \<Rightarrow> int \<Rightarrow> int \<Rightarrow> int \<Rightarrow> execution_db \<Rightarrow>
    execution_db \<times> execution_result list result" where
  "execute_pending session snapshot profile model started max_intents cap retry_interval st =
    (if \<not> ep_enabled profile then (st, Inl (ValueError (''execution profile '' @
         ep_execution_profile_id profile @ '' is disabled'')))
     else (case session_boundary started of
         Inl e \<Rightarrow> (st, Inl e)
       | Inr since \<Rightarrow>
           let intents = execution_order max_intents (pending_live_intents (xd_core st) profile started);
               (st', rows) = execute_intents (execute_intent session started model cap retry_interval
                 (attempt_history (xd_ledger st) since)) intents st
           in post_fill_snapshot snapshot rows st'))"

end
