(* ===== verification/ExecutorProperties.thy ===== *)
theory ExecutorProperties
  imports Executor
begin

text \<open>
  What a tick of the executor may do: a session runs only for an intent that is due, and the sessions
  of an intent never exceed its cap.
\<close>

section \<open>The ledger only grows\<close>

lemma attempts_of_append [simp]: "attempts_of (a @ b) since i = attempts_of a since i @ attempts_of b since i"
  by (simp add: attempts_of_def map_filter_def)

lemma attempts_of_Nil [simp]: "attempts_of [] since i = []"
  by (simp add: attempts_of_def map_filter_def)

lemma attempts_of_other: "i \<noteq> j \<Longrightarrow> attempts_of (replicate k (LedgerAttempt j t)) since i = []"
  by (induction k) (simp_all add: attempts_of_def map_filter_def)

lemma attempts_of_length: "length (attempts_of (replicate k (LedgerAttempt i t)) since i) \<le> k"
  by (induction k) (simp_all add: attempts_of_def map_filter_def)

lemma run_session_ledger:
  "run_session session intent started model n st = (st', row) \<Longrightarrow>
     xd_ledger st' = xd_ledger st @ [LedgerAttempt (oi_order_intent_id intent) started]"
  by (auto simp: run_session_def log_session_def Let_def split: prod.splits if_splits)

lemma session_loop_ledger:
  assumes "session_loop session intent started model cap bs n st = (st', rows)" and "n < cap"
  shows "\<exists>k. n + int k \<le> cap \<and>
    xd_ledger st' = xd_ledger st @ replicate k (LedgerAttempt (oi_order_intent_id intent) started)"
  using assms
proof (induction bs arbitrary: n st rows)
  case Nil
  then show ?case by (intro exI [of _ 0]) simp
next
  case (Cons rerun bs)
  let ?a = "LedgerAttempt (oi_order_intent_id intent) started"
  obtain st1 row where r: "run_session session intent started model n st = (st1, row)" by fastforce
  note l = run_session_ledger [OF r]
  show ?case
  proof (cases "rerun \<or> cap \<le> n + 1 \<or> \<not> slow_session row")
    case True
    with Cons.prems r have "st' = st1" by auto
    with l Cons.prems(2) show ?thesis by (intro exI [of _ 1]) simp
  next
    case False
    with Cons.prems(1) r obtain rows' where
      "session_loop session intent started model cap bs (n + 1) st1 = (st', rows')" by (auto split: prod.splits)
    from Cons.IH [OF this] False obtain k where k: "n + 1 + int k \<le> cap"
      "xd_ledger st' = xd_ledger st1 @ replicate k ?a" by auto
    with l show ?thesis by (intro exI [of _ "Suc k"]) simp
  qed
qed

lemma execute_intent_ledger:
  assumes "execute_intent session started model cap gap seen intent st = (st', rows)"
  obtains k where
    "xd_ledger st' = xd_ledger st @ replicate k (LedgerAttempt (oi_order_intent_id intent) started)"
    "k \<noteq> 0 \<Longrightarrow> fst (seen (oi_order_intent_id intent)) + int k \<le> cap \<and>
       (\<forall>t. snd (seen (oi_order_intent_id intent)) = Some t \<longrightarrow> gap \<le> started - t) \<and> swap_hold st intent = None"
proof (cases "xd_ledger st' = xd_ledger st")
  case True
  then show thesis by (intro that [of 0]) simp_all
next
  case False
  obtain n t where seen: "seen (oi_order_intent_id intent) = (n, t)" by fastforce
  with assms False have go: "n < cap" "\<forall>x. t = Some x \<longrightarrow> gap \<le> started - x" "swap_hold st intent = None"
    and l: "session_loop session intent started model cap [False, True] n st = (st', rows)"
    by (auto simp: execute_intent_def not_less split: if_splits option.splits)
  from session_loop_ledger [OF l go(1)] obtain k where "n + int k \<le> cap"
    "xd_ledger st' = xd_ledger st @ replicate k (LedgerAttempt (oi_order_intent_id intent) started)" by blast
  with go seen show thesis by (intro that [of k]) simp_all
qed

lemma execute_intents_other:
  assumes "execute_intents (execute_intent session started model cap gap seen) is st = (st', rows)"
    and "i \<notin> oi_order_intent_id ` set is"
  shows "attempts_of (xd_ledger st') since i = attempts_of (xd_ledger st) since i"
  using assms
proof (induction "is" arbitrary: st rows)
  case Nil
  then show ?case by simp
next
  case (Cons a "is")
  let ?f = "execute_intent session started model cap gap seen"
  from Cons.prems obtain st1 r1 r2 where s: "?f a st = (st1, r1)" "execute_intents ?f is st1 = (st', r2)"
    by (auto split: prod.splits)
  from s(1) obtain k where "xd_ledger st1 = xd_ledger st @ replicate k (LedgerAttempt (oi_order_intent_id a) started)"
    by (rule execute_intent_ledger)
  then have "attempts_of (xd_ledger st1) since i = attempts_of (xd_ledger st) since i"
    using Cons.prems(2) by (simp add: attempts_of_other)
  with Cons.IH [OF s(2)] Cons.prems(2) show ?case by simp
qed

lemma execute_intents_append:
  "execute_intents f (xs @ ys) st = (let (st1, r1) = execute_intents f xs st; (st2, r2) = execute_intents f ys st1
     in (st2, r1 @ r2))"
  by (induction xs arbitrary: st) (auto simp: Let_def split: prod.splits)

lemma distinct_map_split:
  assumes "distinct (map f xs)" and "\<And>x. P x \<Longrightarrow> \<not> Q x"
  shows "distinct (map f (filter P xs @ take n (filter Q xs)))"
proof -
  from assms(1) have d: "distinct (map f (filter R xs))" for R by (simp add: distinct_map_filter)
  have inj: "inj_on f (set xs)" using assms(1) by (simp add: distinct_map)
  have "f x \<noteq> f y" if x: "x \<in> set (filter P xs)" and y: "y \<in> set (take n (filter Q xs))" for x y
  proof
    assume "f x = f y"
    from y have "y \<in> set (filter Q xs)" by (rule in_set_takeD)
    with inj \<open>f x = f y\<close> x have "x = y" by (auto dest: inj_onD)
    with x \<open>y \<in> set (filter Q xs)\<close> assms(2) show False by simp
  qed
  then have "f ` set (filter P xs) \<inter> f ` set (take n (filter Q xs)) = {}" by blast
  moreover have "distinct (map f (take n (filter Q xs)))" using d [of Q] by (simp only: take_map [symmetric] distinct_take)
  ultimately show ?thesis using d [of P] by (simp only: map_append distinct_append set_map)
qed

lemma distinct_execution_order:
  "distinct (map oi_order_intent_id is) \<Longrightarrow> distinct (map oi_order_intent_id (execution_order n is))"
  unfolding execution_order_def Let_def by (rule distinct_map_split) simp_all

lemma post_fill_snapshot_ledger: "xd_ledger (fst (post_fill_snapshot snapshot rows st)) = xd_ledger st"
  by (auto simp: post_fill_snapshot_def Let_def split: option.splits prod.splits)

lemma post_fill_snapshot_frame:
  "post_fill_snapshot snapshot rows st = (st', r) \<Longrightarrow> xd_ledger st' = xd_ledger st"
  using post_fill_snapshot_ledger [of snapshot rows st] by simp

lemma execute_pending_cases:
  assumes "execute_pending session snapshot profile model started n cap gap st = (st', r)"
    and "session_boundary started = Inr since"
  shows "st' = st \<or> (\<exists>st1 rows. execute_intents (execute_intent session started model cap gap
      (attempt_history (xd_ledger st) since))
      (execution_order n (pending_live_intents (xd_core st) profile started)) st = (st1, rows) \<and>
    xd_ledger st' = xd_ledger st1)"
  using assms
  by (auto simp: execute_pending_def Let_def split: if_splits prod.splits dest!: post_fill_snapshot_frame)

lemma pending_distinct:
  "distinct (map oi_order_intent_id (order_intents db)) \<Longrightarrow>
     distinct (map oi_order_intent_id (pending_live_intents db profile now))"
proof -
  assume d: "distinct (map oi_order_intent_id (order_intents db))"
  then have "inj_on oi_order_intent_id (set (order_intents db))" by (simp add: distinct_map)
  moreover have "set (pending_live_intents db profile now) \<subseteq> set (order_intents db)"
    by (auto simp: pending_live_intents_def unrecorded_intents_def split: option.splits)
  moreover have "distinct (pending_live_intents db profile now)"
    using d by (auto simp: pending_live_intents_def unrecorded_intents_def distinct_map split: option.splits)
  ultimately show ?thesis by (auto simp: distinct_map intro: inj_on_subset)
qed

lemma execution_order_subset: "set (execution_order n is) \<subseteq> set is"
  by (auto simp: execution_order_def Let_def dest: in_set_takeD)

lemma pending_due:
  assumes "x \<in> set (pending_live_intents db profile now)"
  shows "x \<in> set (order_intents db) \<and> oi_execution_mode x = LIVE \<and>
    oi_execution_profile_id x = ep_execution_profile_id profile \<and>
    (\<forall>q\<in>set (broker_execution_records db). br_order_intent_id q \<noteq> oi_order_intent_id x) \<and>
    (\<exists>opened. session_open now = Some opened \<and> opened \<le> oi_created_at x)"
  using assms by (auto simp: pending_live_intents_def unrecorded_intents_def image_iff eq_commute
      split: option.splits)

text \<open>
  C23. A tick of the executor starts a session for an intent only when one is due. If the ledger of
  attempts since the last close has grown for an identifier, it is that of a live intent of the profile
  without a broker record, decided in today's session, whose earlier attempts lie at least the retry
  interval back; when its turn came, after the intents before it, the sale that funds it (if it is the
  buy of a swap) had filled at least in part; and all its attempts together stay within the cap.
\<close>
theorem sessions_only_when_due:
  assumes "execute_pending session snapshot profile model started n cap gap st = (st', r)"
    and since: "session_boundary started = Inr since"
    and keys: "distinct (map oi_order_intent_id (order_intents (xd_core st)))"
    and grown: "attempts_of (xd_ledger st') since i \<noteq> attempts_of (xd_ledger st) since i"
  shows "\<exists>x pre post st1 rows opened.
    execution_order n (pending_live_intents (xd_core st) profile started) = pre @ x # post \<and>
    oi_order_intent_id x = i \<and> x \<in> set (order_intents (xd_core st)) \<and> oi_execution_mode x = LIVE \<and>
    oi_execution_profile_id x = ep_execution_profile_id profile \<and>
    (\<forall>q\<in>set (broker_execution_records (xd_core st)). br_order_intent_id q \<noteq> i) \<and>
    session_open started = Some opened \<and> opened \<le> oi_created_at x \<and>
    execute_intents (execute_intent session started model cap gap (attempt_history (xd_ledger st) since))
      pre st = (st1, rows) \<and> swap_hold st1 x = None \<and>
    (\<forall>t\<in>set (attempts_of (xd_ledger st) since i). gap \<le> started - t) \<and>
    int (length (attempts_of (xd_ledger st') since i)) \<le> cap"
proof -
  let ?f = "execute_intent session started model cap gap (attempt_history (xd_ledger st) since)"
  let ?is = "execution_order n (pending_live_intents (xd_core st) profile started)"
  from execute_pending_cases [OF assms(1) since] grown obtain st2 rows where
    run: "execute_intents ?f ?is st = (st2, rows)" and ledger: "xd_ledger st' = xd_ledger st2" by auto
  have "i \<in> oi_order_intent_id ` set ?is"
  proof (rule ccontr)
    assume "i \<notin> oi_order_intent_id ` set ?is"
    from execute_intents_other [OF run this, of since] grown ledger show False by simp
  qed
  then obtain x pre post where x: "oi_order_intent_id x = i" and split: "?is = pre @ x # post"
    by (auto dest: split_list)
  have "distinct (map oi_order_intent_id ?is)"
    by (rule distinct_execution_order [OF pending_distinct [OF keys]])
  with x have other: "i \<notin> oi_order_intent_id ` set pre" "i \<notin> oi_order_intent_id ` set post"
    unfolding split by auto
  obtain st1 r1 where a: "execute_intents ?f pre st = (st1, r1)" by fastforce
  obtain st3 r3 where b: "?f x st1 = (st3, r3)" by fastforce
  obtain st4 r4 where c: "execute_intents ?f post st3 = (st4, r4)" by fastforce
  have "st4 = st2" using run a b c by (simp add: split execute_intents_append)
  with execute_intents_other [OF c other(2), of since] ledger
  have after: "attempts_of (xd_ledger st') since i = attempts_of (xd_ledger st3) since i" by simp
  have before: "attempts_of (xd_ledger st1) since i = attempts_of (xd_ledger st) since i"
    by (rule execute_intents_other [OF a other(1)])
  from b obtain k where k: "xd_ledger st3 = xd_ledger st1 @ replicate k (LedgerAttempt i started)"
    and due: "k \<noteq> 0 \<Longrightarrow> fst (attempt_history (xd_ledger st) since i) + int k \<le> cap \<and>
      (\<forall>t. snd (attempt_history (xd_ledger st) since i) = Some t \<longrightarrow> gap \<le> started - t) \<and> swap_hold st1 x = None"
    unfolding x [symmetric] by (rule execute_intent_ledger) blast
  have "k \<noteq> 0" using grown after before k by (intro notI) simp
  note due = due [OF this]
  have "int (length (attempts_of (xd_ledger st') since i)) \<le> cap"
    using due attempts_of_length [of k i started since]
    by (simp add: after k before attempt_history_def Let_def)
  moreover have "\<forall>t\<in>set (attempts_of (xd_ledger st) since i). gap \<le> started - t"
  proof
    fix t assume t: "t \<in> set (attempts_of (xd_ledger st) since i)"
    then have "gap \<le> started - Max (set (attempts_of (xd_ledger st) since i))"
      using due by (auto simp: attempt_history_def Let_def split: if_splits)
    moreover have "t \<le> Max (set (attempts_of (xd_ledger st) since i))" using t by simp
    ultimately show "gap \<le> started - t" by linarith
  qed
  moreover have "x \<in> set (pending_live_intents (xd_core st) profile started)"
    using execution_order_subset split by (metis in_set_conv_decomp subsetD)
  ultimately show ?thesis using split a x due pending_due [of x "xd_core st" profile started] by blast
qed

section \<open>Witness\<close>

text \<open>Two buys of 3 March 2026, the second of them attempted once an hour before; the session reports nothing.\<close>

definition executor_profile :: ExecutionProfile where
  "executor_profile = \<lparr>ep_execution_profile_id = ''live'', ep_agent_provider = CODEX, ep_account_alias = ''main'',
     ep_broker_account_fingerprint = ''0123456789abcdef'', ep_enabled = True, ep_max_order_notional = 1000,
     ep_max_quote_age_seconds = 30, ep_max_spread_bps = 50, ep_crisis_max_spread_bps = 100,
     ep_require_human_approval = True\<rparr>"

definition executor_intent :: "string \<Rightarrow> string \<Rightarrow> OrderSide \<Rightarrow> OrderIntent" where
  "executor_intent i d side = \<lparr>oi_order_intent_id = i, oi_decision_id = d,
     oi_created_at = ny_combine (ymd 2026 3 3) (clock 10 0), oi_ticker = ''ABC'', oi_side = side,
     oi_order_type = LIMIT, oi_target_weight = 0, oi_status = CREATED, oi_execution_mode = LIVE,
     oi_execution_profile_id = ''live''\<rparr>"

definition executor_state :: execution_db where
  "executor_state = \<lparr>xd_core = empty_db\<lparr>order_intents :=
       [executor_intent ''o1'' ''d1'' SIDE_BUY, executor_intent ''o2'' ''d2'' SIDE_BUY]\<rparr>,
     xd_swap_pairs = [], xd_sessions = [],
     xd_ledger = [LedgerOther, LedgerAttempt ''o2'' (ny_combine (ymd 2026 3 3) (clock 10 30))]\<rparr>"

definition executor_now :: instant where "executor_now = ny_combine (ymd 2026 3 3) (clock 11 30)"

definition executor_tick :: "execution_db \<times> execution_result list result" where
  "executor_tick = execute_pending (\<lambda>_ _ db. (db, Inl ''session_timeout'')) None executor_profile ''m'' executor_now
     2 MAX_ATTEMPTS_PER_INTENT MIN_RETRY_INTERVAL executor_state"

definition last_close :: "instant option" where
  "last_close = Some (ny_combine (ymd 2026 3 2) (clock 16 0))"

lemma sessions_only_when_due_witness:
  "length (attempts_of (xd_ledger (fst executor_tick)) last_close ''o2'') = 2 \<and>
   swap_hold executor_state (executor_intent ''o2'' ''d2'' SIDE_BUY) = None \<and>
   (\<exists>opened. session_open executor_now = Some opened)"
proof -
  have b: "session_boundary executor_now = Inr last_close" by code_simp
  have d: "distinct (map oi_order_intent_id (order_intents (xd_core executor_state)))" by code_simp
  have n: "attempts_of (xd_ledger (fst executor_tick)) last_close ''o2'' =
      [ny_combine (ymd 2026 3 3) (clock 10 30), executor_now]"
    "attempts_of (xd_ledger executor_state) last_close ''o2'' = [ny_combine (ymd 2026 3 3) (clock 10 30)]"
    by code_simp+
  have t: "executor_tick = (fst executor_tick, snd executor_tick)" by (rule prod.collapse [symmetric])
  have "attempts_of (xd_ledger (fst executor_tick)) last_close ''o2'' \<noteq>
      attempts_of (xd_ledger executor_state) last_close ''o2''" unfolding n by simp
  from sessions_only_when_due [OF t [unfolded executor_tick_def] b d this [unfolded executor_tick_def]]
  have "\<exists>opened. session_open executor_now = Some opened" by blast
  moreover have "swap_hold executor_state (executor_intent ''o2'' ''d2'' SIDE_BUY) = None" by code_simp
  ultimately show ?thesis using n by simp
qed

end
