(* ===== verification/XStore.thy ===== *)
theory XStore
  imports Calendar Store
begin

text \<open>
  The tables of the X pipeline and their posts, reads, accounts and signals (\<open>app/x/posts.py\<close>,
  \<open>app/x/accounts.py\<close>, \<open>app/x/signals.py\<close>). Every function commits before it returns, so a state is
  what is committed. \<open>now\<close> and \<open>month\<close> are what the clock gives (\<open>YYYY-MM\<close> for a month). Stored
  times are UTC texts, whose order is the order of their instants.
\<close>

section \<open>Rows\<close>

record MediaItem =
  mi_url :: string
  mi_media_type :: string
  mi_alt_text :: string

record XPost =
  xp_post_id :: string
  xp_handle :: string
  xp_posted_at :: instant
  xp_text :: string
  xp_url :: string
  xp_fetched_at :: instant
  xp_conversation_id :: string
  xp_reply_context :: string
  xp_media :: "MediaItem list"

datatype review_status = PostUnreviewed | PostCaptured | PostSkipped | PostSignificant

record PostRow =
  xw_post :: XPost
  xw_status :: review_status

record Account =
  ac_handle :: string
  ac_user_id :: "string option"
  ac_categories :: "string list"
  ac_included_reason :: string
  ac_tier :: string
  ac_status :: string

text \<open>What an account event says: the account was added, or a field changed from one value to another.\<close>

datatype field_value = NoneValue | TextValue string | ListValue "string list"

datatype account_change = AccountAdded | FieldChanged string field_value field_value

record AccountEvent =
  av_handle :: string
  av_change :: account_change
  av_occurred_at :: instant

record Checkpoint =
  cp_handle :: string
  cp_since_id :: "string option"
  cp_start_time :: "instant option"
  cp_next_token :: "string option"

datatype claim_type = FactClaim | InterpretationClaim

datatype stance = IdeaSource | Confirmation | CounterThesis | CrowdingWarning | ThemeDiscovery

datatype horizon = ShortHorizon | MediumHorizon | LongHorizon

datatype scrutiny_verdict = Substantiated | Unsupported | WrongClaim | Nonsense | CannotAssess

record CapturedSignal =
  cs_entry_id :: string
  cs_post_id :: string
  cs_captured_at :: instant
  cs_post_url :: string
  cs_handle :: string
  cs_posted_at :: instant
  cs_primary_theme_id :: string
  cs_tickers :: "string list"
  cs_claim :: string
  cs_claim_type :: claim_type
  cs_stance :: stance
  cs_horizon :: horizon
  cs_scrutiny_verdict :: scrutiny_verdict
  cs_why_it_matters :: string

datatype run_status = RunStarted | RunFailedFetch | RunExported | RunRouted | RunDigested

fun run_status_text :: "run_status \<Rightarrow> string" where
  "run_status_text RunStarted = ''started''"
| "run_status_text RunFailedFetch = ''failed''"
| "run_status_text RunExported = ''exported''"
| "run_status_text RunRouted = ''routed''"
| "run_status_text RunDigested = ''digested''"

record XRun =
  xn_run_id :: string
  xn_slot :: string
  xn_started_at :: instant
  xn_finished_at :: "instant option"
  xn_posts_fetched :: int
  xn_posts_exported :: int
  xn_reads_used :: int
  xn_status :: run_status

record RouteDecision =
  rd_post_id :: string
  rd_run_id :: string
  rd_route :: string
  rd_rank :: string
  rd_reason :: string
  rd_predictor :: string
  rd_decided_at :: instant
  rd_tickers :: "string list"

record QueuedArticle =
  qa_post_id :: string
  qa_queued_at :: instant
  qa_status :: string
  qa_resolution :: string

record DigestNote =
  dn_note_date :: pydate
  dn_slot :: string
  dn_synthesis :: string
  dn_author :: string
  dn_created_at :: instant
  dn_model :: "string option"
  dn_reasoning_effort :: "string option"

record x_db =
  x_accounts :: "Account list"
  x_account_events :: "AccountEvent list"
  x_posts :: "PostRow list"
  x_post_reads :: "(string \<times> int) list"
  x_signals :: "CapturedSignal list"
  x_checkpoints :: "Checkpoint list"
  x_runs :: "XRun list"
  x_routes :: "RouteDecision list"
  x_article_queue :: "QueuedArticle list"
  x_notes :: "DigestNote list"

definition empty_x :: x_db where
  "empty_x = \<lparr>x_accounts = [], x_account_events = [], x_posts = [], x_post_reads = [], x_signals = [],
     x_checkpoints = [], x_runs = [], x_routes = [], x_article_queue = [], x_notes = []\<rparr>"

section \<open>Posts\<close>

definition MAX_MONTHLY_POST_READS :: int where "MAX_MONTHLY_POST_READS = 5000"
definition POST_READ_WARNING_THRESHOLD :: int where "POST_READ_WARNING_THRESHOLD = 4000"

definition row_id :: "PostRow \<Rightarrow> string" where
  "row_id r = xp_post_id (xw_post r)"

definition insert_post :: "XPost \<Rightarrow> PostRow list \<Rightarrow> PostRow list" where
  "insert_post p rows = (if xp_post_id p \<in> row_id ` set rows then rows
     else rows @ [\<lparr>xw_post = p, xw_status = PostUnreviewed\<rparr>])"

definition insert_new_posts :: "XPost list \<Rightarrow> x_db \<Rightarrow> x_db \<times> int" where
  "insert_new_posts posts db = (let rows = fold insert_post posts (x_posts db) in
     (db\<lparr>x_posts := rows\<rparr>, int (length rows) - int (length (x_posts db))))"

definition reads_in :: "string \<Rightarrow> x_db \<Rightarrow> int" where
  "reads_in month db = (case map_of (x_post_reads db) month of None \<Rightarrow> 0 | Some n \<Rightarrow> n)"

definition record_post_reads :: "int \<Rightarrow> string \<Rightarrow> x_db \<Rightarrow> x_db result" where
  "record_post_reads count month db =
    (if count < 0 then Inl (ValueError ''post read count must be nonnegative'')
     else Inr (db\<lparr>x_post_reads := AList.update month (reads_in month db + count) (x_post_reads db)\<rparr>))"

definition set_post_reads :: "int \<Rightarrow> string \<Rightarrow> x_db \<Rightarrow> x_db result" where
  "set_post_reads count month db =
    (if count < 0 then Inl (ValueError ''post read count must be nonnegative'')
     else Inr (db\<lparr>x_post_reads := AList.update month count (x_post_reads db)\<rparr>))"

definition reads_remaining :: "string \<Rightarrow> x_db \<Rightarrow> int" where
  "reads_remaining month db = MAX_MONTHLY_POST_READS - reads_in month db"

definition unreviewed :: "x_db \<Rightarrow> XPost list" where
  "unreviewed db = map xw_post (filter (\<lambda>r. xw_status r = PostUnreviewed) (x_posts db))"

definition unreviewed_posts :: "nat \<Rightarrow> x_db \<Rightarrow> XPost list" where
  "unreviewed_posts limit db = take limit (sort_key xp_posted_at (unreviewed db))"

definition unreviewed_thread_posts :: "string \<Rightarrow> string \<Rightarrow> string \<Rightarrow> x_db \<Rightarrow> XPost list" where
  "unreviewed_thread_posts handle conversation exclude db = (if conversation = [] then []
     else sort_key xp_posted_at (filter (\<lambda>p. xp_handle p = handle \<and> xp_conversation_id p = conversation \<and>
       xp_post_id p \<noteq> exclude) (unreviewed db)))"

definition enrich :: "XPost \<Rightarrow> PostRow \<Rightarrow> PostRow" where
  "enrich p r = r\<lparr>xw_post := (xw_post r)\<lparr>xp_conversation_id := xp_conversation_id p,
     xp_reply_context := xp_reply_context p, xp_media := xp_media p\<rparr>\<rparr>"

definition open_row :: "string \<Rightarrow> PostRow \<Rightarrow> bool" where
  "open_row i r = (row_id r = i \<and> xw_status r = PostUnreviewed)"

definition on_open :: "string \<Rightarrow> (PostRow \<Rightarrow> PostRow) \<Rightarrow> PostRow list \<Rightarrow> PostRow list" where
  "on_open i f rows = map (\<lambda>r. if open_row i r then f r else r) rows"

definition update_post_enrichment :: "XPost \<Rightarrow> x_db \<Rightarrow> x_db \<times> bool" where
  "update_post_enrichment p db =
    (db\<lparr>x_posts := on_open (xp_post_id p) (enrich p) (x_posts db)\<rparr>,
     list_ex (open_row (xp_post_id p)) (x_posts db))"

text \<open>\<open>{text!r}\<close> of a text without quotes, backslashes and control characters.\<close>

definition quoted :: "string \<Rightarrow> string" where
  "quoted s = [CHR 0x27] @ s @ [CHR 0x27]"

definition mark_reviewed :: "string \<Rightarrow> review_status \<Rightarrow> x_db \<Rightarrow> x_db result" where
  "mark_reviewed i status db =
    (if status = PostUnreviewed then Inl (ValueError (''invalid review_status '' @ quoted ''unreviewed''))
     else if \<not> list_ex (open_row i) (x_posts db)
       then Inl (ValueError (''post '' @ i @ '' is not currently unreviewed''))
     else Inr (db\<lparr>x_posts := on_open i (\<lambda>r. r\<lparr>xw_status := status\<rparr>) (x_posts db)\<rparr>))"

section \<open>Signals\<close>

definition save_signal :: "CapturedSignal \<Rightarrow> x_db \<Rightarrow> (x_db \<times> bool) result" where
  "save_signal s db = (case find_row cs_entry_id (cs_entry_id s) (x_signals db) of
     Some existing \<Rightarrow> if existing = s then Inr (db, False)
       else Inl (ValueError (''signal '' @ cs_entry_id s @ '' already exists with different content''))
   | None \<Rightarrow> let db1 = db\<lparr>x_signals := x_signals db @ [s]\<rparr> in
       (case find_row row_id (cs_post_id s) (x_posts db1) of
          None \<Rightarrow> Inr (db1, True)
        | Some r \<Rightarrow> if xw_status r = PostUnreviewed
            then and_then (mark_reviewed (cs_post_id s) PostCaptured db1) (\<lambda>db2. Inr (db2, True))
            else Inr (db1, True)))"

section \<open>Accounts\<close>

text \<open>\<open>str.lower\<close>, \<open>str.lstrip(c)\<close> and \<open>re\<close>'s \<open>\w\<close> on the characters below 256.\<close>

definition py_lower_char :: "char \<Rightarrow> char" where
  "py_lower_char c = (let n = (of_char c :: nat) in
     if (65 \<le> n \<and> n \<le> 90) \<or> (192 \<le> n \<and> n \<le> 222 \<and> n \<noteq> 215) then char_of (n + 32) else c)"

definition lower :: "string \<Rightarrow> string" where
  "lower s = map py_lower_char s"

definition lstrip_char :: "char \<Rightarrow> string \<Rightarrow> string" where
  "lstrip_char c s = dropWhile (\<lambda>x. x = c) s"

definition word_char :: "char \<Rightarrow> bool" where
  "word_char c = (let n = (of_char c :: nat) in
     (48 \<le> n \<and> n \<le> 57) \<or> (65 \<le> n \<and> n \<le> 90) \<or> n = 95 \<or> (97 \<le> n \<and> n \<le> 122) \<or>
     n \<in> {170, 178, 179, 181, 185, 186, 188, 189, 190} \<or> (192 \<le> n \<and> n \<noteq> 215 \<and> n \<noteq> 247))"

definition normalize_handle :: "string \<Rightarrow> string" where
  "normalize_handle value = lower (lstrip_char CHR ''@'' (strip value))"

definition account_fields :: "Account \<Rightarrow> (string \<times> field_value) list" where
  "account_fields a = [(''user_id'', case ac_user_id a of None \<Rightarrow> NoneValue | Some i \<Rightarrow> TextValue i),
     (''categories'', ListValue (ac_categories a)), (''included_reason'', TextValue (ac_included_reason a)),
     (''tier'', TextValue (ac_tier a)), (''status'', TextValue (ac_status a))]"

definition account_changes :: "Account \<Rightarrow> Account \<Rightarrow> account_change list" where
  "account_changes old new = concat (map (\<lambda>((name, x), (_, y)). if x = y then [] else [FieldChanged name x y])
     (zip (account_fields old) (account_fields new)))"

definition log_changes :: "string \<Rightarrow> instant \<Rightarrow> account_change list \<Rightarrow> x_db \<Rightarrow> x_db" where
  "log_changes handle now changes db = db\<lparr>x_account_events := x_account_events db @
     map (\<lambda>c. \<lparr>av_handle = handle, av_change = c, av_occurred_at = now\<rparr>) changes\<rparr>"

definition upsert_account :: "Account \<Rightarrow> instant \<Rightarrow> x_db \<Rightarrow> x_db \<times> bool" where
  "upsert_account a now db = (case find_row ac_handle (ac_handle a) (x_accounts db) of
     None \<Rightarrow> (log_changes (ac_handle a) now [AccountAdded] (db\<lparr>x_accounts := x_accounts db @ [a]\<rparr>), True)
   | Some existing \<Rightarrow> if account_fields existing = account_fields a then (db, False)
       else (log_changes (ac_handle a) now (account_changes existing a)
         (db\<lparr>x_accounts := map (\<lambda>q. if ac_handle q = ac_handle a then a else q) (x_accounts db)\<rparr>), True))"

definition list_active_accounts :: "string option \<Rightarrow> x_db \<Rightarrow> Account list" where
  "list_active_accounts tier db = filter (\<lambda>a. ac_status a = ''active'' \<and>
     (case tier of None \<Rightarrow> True | Some t \<Rightarrow> ac_tier a = t)) (x_accounts db)"

text \<open>\<open>- @handle [a, b] - reason\<close>: the brackets are the first \<open>[\<close> that a \<open>]\<close> follows.\<close>

definition categories_of :: "string \<Rightarrow> string list" where
  "categories_of inside = filter (\<lambda>c. c \<noteq> []) (map strip (split_at_char CHR '','' inside))"

definition bracketed :: "string \<Rightarrow> (string \<times> string) option" where
  "bracketed rest = (case dropWhile (\<lambda>c. c \<noteq> CHR ''['') rest of [] \<Rightarrow> None
   | _ # after \<Rightarrow> if CHR '']'' \<notin> set after then None
       else Some (takeWhile (\<lambda>c. c \<noteq> CHR '']'') after, tl (dropWhile (\<lambda>c. c \<noteq> CHR '']'') after)))"

definition clean_reason :: "string \<Rightarrow> string" where
  "clean_reason reason = strip (lstrip_char CHR ''-'' (strip reason))"

definition parse_line :: "string \<Rightarrow> (string \<times> string list \<times> string) option" where
  "parse_line line = (case after_prefix ''-'' line of None \<Rightarrow> None
   | Some tail \<Rightarrow> (case after_prefix ''@'' (dropWhile py_isspace tail) of None \<Rightarrow> None
     | Some after \<Rightarrow> let handle = takeWhile word_char after; rest = dropWhile word_char after in
         if handle = [] then None
         else (case bracketed rest of
             None \<Rightarrow> Some (handle, [], clean_reason rest)
           | Some (inside, reason) \<Rightarrow> Some (handle, categories_of inside, clean_reason reason))))"

definition seed_account :: "x_db \<Rightarrow> string \<times> string list \<times> string \<Rightarrow> Account" where
  "seed_account db = (\<lambda>(handle, categories, reason).
     let h = lower handle; existing = find_row ac_handle h (x_accounts db) in
     \<lparr>ac_handle = normalize_handle h, ac_user_id = (case existing of None \<Rightarrow> None | Some a \<Rightarrow> ac_user_id a),
      ac_categories = categories, ac_included_reason = reason,
      ac_tier = (case existing of None \<Rightarrow> ''core'' | Some a \<Rightarrow> ac_tier a), ac_status = ''active''\<rparr>)"

definition seed_one :: "instant \<Rightarrow> string \<times> string list \<times> string \<Rightarrow> x_db \<times> int \<Rightarrow> x_db \<times> int" where
  "seed_one now parsed st = (let (db, changed) = upsert_account (seed_account (fst st) parsed) now (fst st) in
     (db, snd st + (if changed then 1 else 0)))"

definition park_one :: "instant \<Rightarrow> Account \<Rightarrow> x_db \<times> int \<Rightarrow> x_db \<times> int" where
  "park_one now a st = (let (db, changed) = upsert_account (a\<lparr>ac_status := ''parked''\<rparr>) now (fst st) in
     (db, snd st + (if changed then 1 else 0)))"

definition seed_from_manual_readme :: "string list \<Rightarrow> instant \<Rightarrow> x_db \<Rightarrow> x_db \<times> int" where
  "seed_from_manual_readme lines now db =
    (let parsed = List.map_filter parse_line lines;
         approved' = map (\<lambda>(handle, _). lower handle) parsed;
         (db1, n) = fold (seed_one now) parsed (db, 0);
         stale = filter (\<lambda>a. ac_handle a \<notin> set approved') (list_active_accounts None db1)
     in fold (park_one now) stale (db1, n))"

section \<open>A reviewed post is frozen\<close>

text \<open>
  The writers of the post table: what was reviewed keeps its row, and so does the pairing of a label
  with the text, context and media it was given for.
\<close>

inductive post_step :: "x_db \<Rightarrow> x_db \<Rightarrow> bool" where
  insert: "insert_new_posts ps db = (db', n) \<Longrightarrow> post_step db db'"
| enrich: "update_post_enrichment p db = (db', b) \<Longrightarrow> post_step db db'"
| review: "mark_reviewed i s db = Inr db' \<Longrightarrow> post_step db db'"
| signal: "save_signal sg db = Inr (db', b) \<Longrightarrow> post_step db db'"
| reads: "record_post_reads k m db = Inr db' \<Longrightarrow> post_step db db'"
| usage: "set_post_reads k m db = Inr db' \<Longrightarrow> post_step db db'"
| account: "upsert_account a now db = (db', b) \<Longrightarrow> post_step db db'"

lemma insert_post_mem: "r \<in> set rows \<Longrightarrow> r \<in> set (insert_post p rows)"
  by (simp add: insert_post_def)

lemma insert_post_ids: "distinct (map row_id rows) \<Longrightarrow> distinct (map row_id (insert_post p rows))"
  by (auto simp: insert_post_def row_id_def)

lemma fold_insert_mem: "r \<in> set rows \<Longrightarrow> r \<in> set (fold insert_post ps rows)"
  by (induction ps arbitrary: rows) (simp_all add: insert_post_mem)

lemma fold_insert_ids: "distinct (map row_id rows) \<Longrightarrow> distinct (map row_id (fold insert_post ps rows))"
  by (induction ps arbitrary: rows) (simp_all add: insert_post_ids)

lemma row_id_enrich [simp]: "row_id (enrich p r) = row_id r"
  by (simp add: enrich_def row_id_def)

lemma row_id_status [simp]: "row_id (r\<lparr>xw_status := s\<rparr>) = row_id r"
  by (simp add: row_id_def)

lemma map_open_mem: "r \<in> set rows \<Longrightarrow> xw_status r \<noteq> PostUnreviewed \<Longrightarrow> r \<in> set (on_open i f rows)"
  by (force simp: on_open_def open_row_def)

lemma map_open_ids:
  assumes "\<And>q. row_id (f q) = row_id q"
  shows "map row_id (on_open i f rows) = map row_id rows"
  by (simp add: on_open_def assms)

lemma mark_reviewed_posts:
  "mark_reviewed i s db = Inr db' \<Longrightarrow> x_posts db' = on_open i (\<lambda>r. r\<lparr>xw_status := s\<rparr>) (x_posts db)"
  by (auto simp: mark_reviewed_def split: if_splits)

lemma post_step_frozen:
  assumes "post_step db db'" and "r \<in> set (x_posts db)" and "xw_status r \<noteq> PostUnreviewed"
  shows "r \<in> set (x_posts db')"
  using assms
proof cases
  case (signal sg b)
  then have "x_posts db' = x_posts db \<or>
      (\<exists>db1. x_posts db1 = x_posts db \<and> mark_reviewed (cs_post_id sg) PostCaptured db1 = Inr db')"
    by (auto simp: save_signal_def Let_def result_simps split: option.splits if_splits)
  with assms(2,3) show ?thesis by (auto simp: mark_reviewed_posts map_open_mem)
qed (auto simp: insert_new_posts_def update_post_enrichment_def mark_reviewed_posts record_post_reads_def
    set_post_reads_def upsert_account_def log_changes_def Let_def fold_insert_mem map_open_mem
    split: option.splits if_splits)

lemma post_step_ids:
  assumes "post_step db db'" and "distinct (map row_id (x_posts db))"
  shows "distinct (map row_id (x_posts db'))"
  using assms
proof cases
  case (signal sg b)
  then have "x_posts db' = x_posts db \<or>
      (\<exists>db1. x_posts db1 = x_posts db \<and> mark_reviewed (cs_post_id sg) PostCaptured db1 = Inr db')"
    by (auto simp: save_signal_def Let_def result_simps split: option.splits if_splits)
  with assms(2) show ?thesis by (auto simp: mark_reviewed_posts map_open_ids)
qed (auto simp: insert_new_posts_def update_post_enrichment_def mark_reviewed_posts record_post_reads_def
    set_post_reads_def upsert_account_def log_changes_def Let_def fold_insert_ids map_open_ids
    split: option.splits if_splits)

text \<open>
  What was reviewed is frozen: whatever is fetched, backfilled, labelled or captured afterwards, a
  post that has a label keeps it, together with the text, context and media it was given for, and stays
  the only row of its identifier.
\<close>
theorem reviewed_posts_are_frozen:
  assumes "post_step\<^sup>*\<^sup>* db db'" and "distinct (map row_id (x_posts db))"
    and "r \<in> set (x_posts db)" and "xw_status r \<noteq> PostUnreviewed"
  shows "filter (\<lambda>q. row_id q = row_id r) (x_posts db') = [r]"
proof -
  from assms(1-3) have "r \<in> set (x_posts db') \<and> distinct (map row_id (x_posts db'))"
    by (induction rule: rtranclp_induct) (auto intro: post_step_frozen [OF _ _ assms(4)] post_step_ids)
  then obtain xs ys where x: "x_posts db' = xs @ r # ys" and d: "distinct (map row_id (xs @ r # ys))"
    by (metis split_list)
  then have "filter (\<lambda>q. row_id q = row_id r) xs = []" "filter (\<lambda>q. row_id q = row_id r) ys = []"
    by (force simp: filter_empty_conv image_iff)+
  with x show ?thesis by simp
qed

definition sample_post :: XPost where
  "sample_post = \<lparr>xp_post_id = ''1'', xp_handle = ''a'', xp_posted_at = 0, xp_text = ''t'', xp_url = ''u'',
     xp_fetched_at = 0, xp_conversation_id = [], xp_reply_context = [], xp_media = []\<rparr>"

lemma reviewed_posts_are_frozen_witness:
  "filter (\<lambda>q. row_id q = ''1'') (x_posts (fst (update_post_enrichment (sample_post\<lparr>xp_reply_context := ''late''\<rparr>)
     (empty_x\<lparr>x_posts := [\<lparr>xw_post = sample_post, xw_status = PostSkipped\<rparr>]\<rparr>)))) =
   [\<lparr>xw_post = sample_post, xw_status = PostSkipped\<rparr>]"
proof -
  let ?r = "\<lparr>xw_post = sample_post, xw_status = PostSkipped\<rparr>" and ?p = "sample_post\<lparr>xp_reply_context := ''late''\<rparr>"
  let ?db = "empty_x\<lparr>x_posts := [?r]\<rparr>"
  have "post_step ?db (fst (update_post_enrichment ?p ?db))" by (rule post_step.enrich [OF prod.collapse [symmetric]])
  then have s: "post_step\<^sup>*\<^sup>* ?db (fst (update_post_enrichment ?p ?db))" by blast
  have "row_id ?r = ''1''" by (simp add: row_id_def sample_post_def)
  with reviewed_posts_are_frozen [OF s, of ?r] show ?thesis by simp
qed

end
