(* ===== verification/XFetch.thy ===== *)
theory XFetch
  imports XStore
begin

text \<open>
  Reading posts from X (\<open>app/x/client.py\<close>, the commands of \<open>app/x/run.py\<close>). The HTTP responses are
  parameters, already parsed; a request fails with the exception of its transport. A command commits as
  it goes, so a failed one leaves what was committed before the failure.
\<close>

section \<open>The client\<close>

record FetchResult =
  fr_posts :: "XPost list"
  fr_billed_reads :: int
  fr_next_token :: "string option"

record UsageResult =
  us_post_reads :: int
  us_project_cap :: int
  us_cap_reset_day :: int

text \<open>A tweet and a media object of a response; a missing key is \<open>None\<close>.\<close>

record Tweet =
  tw_id :: string
  tw_created_at :: instant
  tw_text :: string
  tw_note_text :: "string option"
  tw_conversation_id :: "string option"
  tw_referenced :: "(string \<times> string) list"
  tw_media_keys :: "string list"

record Media =
  md_media_key :: string
  md_type :: string
  md_url :: "string option"
  md_preview_image_url :: "string option"
  md_alt_text :: "string option"

record ResponseBody =
  rb_data :: "Tweet list"
  rb_included_tweets :: "Tweet list"
  rb_included_media :: "Media list"
  rb_next_token :: "string option"

definition or_else :: "string option \<Rightarrow> string \<Rightarrow> string" where
  "or_else s d = (case s of None \<Rightarrow> d | Some [] \<Rightarrow> d | Some x \<Rightarrow> x)"

definition preferred_text :: "Tweet \<Rightarrow> string" where
  "preferred_text t = or_else (tw_note_text t) (tw_text t)"

definition map_media :: "Media \<Rightarrow> MediaItem option" where
  "map_media m = (let url = or_else (md_url m) (or_else (md_preview_image_url m) []) in
     if url = [] then None
     else Some \<lparr>mi_url = url, mi_media_type = md_type m,
       mi_alt_text = (case md_alt_text m of None \<Rightarrow> [] | Some a \<Rightarrow> a)\<rparr>)"

definition reference_of :: "string \<Rightarrow> Tweet \<Rightarrow> string option" where
  "reference_of kind t = map_option snd (find (\<lambda>r. fst r = kind) (tw_referenced t))"

definition included_text :: "(string \<times> string) list \<Rightarrow> string \<Rightarrow> Tweet \<Rightarrow> string option" where
  "included_text included kind t =
    (case reference_of kind t of None \<Rightarrow> None | Some i \<Rightarrow> map_of included i)"

text \<open>The text up to and with the first colon and space.\<close>

fun colon_prefix :: "string \<Rightarrow> string option" where
  "colon_prefix (a # b # s) = (if a = CHR '':'' \<and> b = CHR '' '' then Some [a, b]
     else map_option ((#) a) (colon_prefix (b # s)))"
| "colon_prefix _ = None"

definition retweet_text :: "string \<Rightarrow> string \<Rightarrow> string" where
  "retweet_text text full = (case (after_prefix ''RT @'' text, colon_prefix text) of
     (Some _, Some prefix) \<Rightarrow> prefix @ full | _ \<Rightarrow> ''RT: '' @ full)"

definition map_tweet :: "string \<Rightarrow> instant \<Rightarrow> (string \<times> string) list \<Rightarrow> (string \<times> MediaItem) list \<Rightarrow> Tweet \<Rightarrow> XPost" where
  "map_tweet handle fetched_at included media t =
    \<lparr>xp_post_id = tw_id t, xp_handle = handle, xp_posted_at = tw_created_at t,
     xp_text = (case included_text included ''retweeted'' t of None \<Rightarrow> preferred_text t
       | Some full \<Rightarrow> retweet_text (preferred_text t) full),
     xp_url = ''https://x.com/'' @ handle @ ''/status/'' @ tw_id t, xp_fetched_at = fetched_at,
     xp_conversation_id = (case tw_conversation_id t of None \<Rightarrow> [] | Some c \<Rightarrow> c),
     xp_reply_context = (case included_text included ''replied_to'' t of Some c \<Rightarrow> c
       | None \<Rightarrow> (case included_text included ''quoted'' t of Some c \<Rightarrow> c | None \<Rightarrow> [])),
     xp_media = List.map_filter (map_of media) (tw_media_keys t)\<rparr>"

text \<open>A later entry of a Python dictionary replaces an earlier one.\<close>

definition dict_of :: "('k \<times> 'v) list \<Rightarrow> ('k \<times> 'v) list" where
  "dict_of items = fold (\<lambda>(k, v). AList.update k v) items []"

definition parse_tweets_response :: "ResponseBody \<Rightarrow> string \<Rightarrow> instant \<Rightarrow> FetchResult" where
  "parse_tweets_response body handle fetched_at =
    (let included = dict_of (map (\<lambda>t. (tw_id t, preferred_text t)) (rb_included_tweets body));
         media = dict_of (List.map_filter (\<lambda>m. map_option (Pair (md_media_key m)) (map_media m))
           (rb_included_media body))
     in \<lparr>fr_posts = map (map_tweet handle fetched_at included media) (rb_data body),
         fr_billed_reads = int (length (rb_data body)) + int (length (rb_included_tweets body)),
         fr_next_token = rb_next_token body\<rparr>)"

record PostsRequest =
  pq_user_id :: string
  pq_max_results :: int
  pq_pagination_token :: "string option"
  pq_since_id :: "string option"
  pq_start_time :: "instant option"

definition whole_second :: "instant \<Rightarrow> instant" where
  "whole_second t = t div second * second"

definition fetch_user_posts :: "(PostsRequest \<Rightarrow> (ResponseBody \<times> instant) result) \<Rightarrow> string \<Rightarrow> string \<Rightarrow>
    string option \<Rightarrow> instant option \<Rightarrow> string option \<Rightarrow> FetchResult result" where
  "fetch_user_posts http user_id handle since_id start_time token =
    (if since_id \<noteq> None \<and> start_time \<noteq> None
       then Inl (ValueError ''since_id and start_time are mutually exclusive'')
     else and_then (http \<lparr>pq_user_id = user_id, pq_max_results = 100, pq_pagination_token = token,
         pq_since_id = since_id, pq_start_time = map_option whole_second start_time\<rparr>) (\<lambda>(body, fetched_at).
       Inr (parse_tweets_response body handle fetched_at)))"

definition fetch_posts_by_ids :: "(string list \<Rightarrow> (ResponseBody \<times> instant) result) \<Rightarrow> string list \<Rightarrow>
    FetchResult result" where
  "fetch_posts_by_ids http ids = and_then (http ids) (\<lambda>(body, fetched_at).
     Inr (parse_tweets_response body ''__rehydrate__'' fetched_at))"

section \<open>Fetching the accounts\<close>

definition BUDGET_FLOOR :: int where "BUDGET_FLOOR = 100"
definition RECOVERY_WINDOW :: int where "RECOVERY_WINDOW = 4 * day_length"

text \<open>\<open>CAST(post_id AS INTEGER)\<close> of an identifier that fits 64 bits: its leading digits.\<close>

definition is_digit :: "char \<Rightarrow> bool" where
  "is_digit c = char_between CHR ''0'' CHR ''9'' c"

definition cast_integer :: "string \<Rightarrow> int" where
  "cast_integer s = foldl (\<lambda>n c. 10 * n + (int (of_char c) - 48)) 0 (takeWhile is_digit s)"

definition int_text :: "int \<Rightarrow> string" where
  "int_text n = (if n = 0 then ''0'' else padded (ndigits 10 n) n)"

definition max_option :: "int list \<Rightarrow> int option" where
  "max_option xs = (if xs = [] then None else Some (Max (set xs)))"

record fetch_window =
  fw_since_id :: "string option"
  fw_start_time :: "instant option"
  fw_token :: "string option"

definition fresh_window :: "string \<Rightarrow> instant \<Rightarrow> x_db \<Rightarrow> fetch_window" where
  "fresh_window handle now db =
    (let own = filter (\<lambda>p. xp_handle p = handle) (map xw_post (x_posts db));
         newest = max_option (map xp_posted_at own);
         recovery_start = now - RECOVERY_WINDOW;
         use_since = (case newest of None \<Rightarrow> False | Some t \<Rightarrow> recovery_start \<le> t)
     in \<lparr>fw_since_id = (if use_since then map_option int_text (max_option (map (\<lambda>p. cast_integer (xp_post_id p)) own))
           else None),
         fw_start_time = (if use_since then None else Some recovery_start), fw_token = None\<rparr>)"

definition checkpoint_window :: "string \<Rightarrow> instant \<Rightarrow> x_db \<Rightarrow> x_db \<times> fetch_window" where
  "checkpoint_window handle now db = (case find_row cp_handle handle (x_checkpoints db) of
     Some c \<Rightarrow> (db, \<lparr>fw_since_id = cp_since_id c, fw_start_time = cp_start_time c, fw_token = cp_next_token c\<rparr>)
   | None \<Rightarrow> let w = fresh_window handle now db in
       (db\<lparr>x_checkpoints := x_checkpoints db @ [\<lparr>cp_handle = handle, cp_since_id = fw_since_id w,
          cp_start_time = fw_start_time w, cp_next_token = None\<rparr>]\<rparr>, w))"

text \<open>An empty continuation token is none.\<close>

definition token_of :: "string option \<Rightarrow> string option" where
  "token_of t = (if t = Some [] then None else t)"

definition save_continuation :: "string \<Rightarrow> string option \<Rightarrow> x_db \<Rightarrow> x_db" where
  "save_continuation handle token db = (case token_of token of
     Some t \<Rightarrow> db\<lparr>x_checkpoints := map (\<lambda>c. if cp_handle c = handle then c\<lparr>cp_next_token := Some t\<rparr> else c)
       (x_checkpoints db)\<rparr>
   | None \<Rightarrow> db\<lparr>x_checkpoints := filter (\<lambda>c. cp_handle c \<noteq> handle) (x_checkpoints db)\<rparr>)"

type_synonym post_fetcher = "string \<Rightarrow> string \<Rightarrow> string option \<Rightarrow> instant option \<Rightarrow> string option \<Rightarrow> FetchResult result"

text \<open>
  The readings of the clock: an account's resolution, and for the account at a place of the list the month its guard
  reads, the window, and the month its reads are recorded in. A month is read anew each time, in UTC.
\<close>

datatype fetch_reading = AtResolved nat | AtGuard nat | AtWindow nat | AtRecorded nat

definition utc_month :: "instant \<Rightarrow> string" where
  "utc_month t = take 7 (date_isoformat (utc_date t))"

definition fetch_account :: "post_fetcher \<Rightarrow> (fetch_reading \<Rightarrow> instant) \<Rightarrow> nat \<Rightarrow> string \<Rightarrow> string \<Rightarrow> x_db \<Rightarrow>
    x_db \<times> unit result" where
  "fetch_account fetch_posts tick n user_id handle db =
    (let (db1, w) = checkpoint_window handle (tick (AtWindow n)) db in
     case fetch_posts user_id handle (fw_since_id w) (fw_start_time w) (token_of (fw_token w)) of
       Inl e \<Rightarrow> (db1, Inl e)
     | Inr r \<Rightarrow> (case record_post_reads (fr_billed_reads r) (utc_month (tick (AtRecorded n))) db1 of
         Inl e \<Rightarrow> (db1, Inl e)
       | Inr db2 \<Rightarrow> (save_continuation handle (fr_next_token r) (fst (insert_new_posts (fr_posts r) db2)), Inr ())))"

text \<open>The loop over the accounts: a missing identifier skips one, the budget guard ends it.\<close>

fun fetch_accounts :: "post_fetcher \<Rightarrow> (fetch_reading \<Rightarrow> instant) \<Rightarrow> nat \<Rightarrow> Account list \<Rightarrow> x_db \<Rightarrow>
    x_db \<times> unit result" where
  "fetch_accounts fetch_posts tick n [] db = (db, Inr ())"
| "fetch_accounts fetch_posts tick n (a # as) db = (case ac_user_id a of
     None \<Rightarrow> fetch_accounts fetch_posts tick (Suc n) as db
   | Some user_id \<Rightarrow>
       if reads_remaining (utc_month (tick (AtGuard n))) db \<le> BUDGET_FLOOR then (db, Inr ())
       else (case fetch_account fetch_posts tick n user_id (ac_handle a) db of
           (db1, Inl e) \<Rightarrow> (db1, Inl e)
         | (db1, Inr _) \<Rightarrow> fetch_accounts fetch_posts tick (Suc n) as db1))"

definition resolved_account :: "(string \<times> string) list \<Rightarrow> Account \<Rightarrow> Account" where
  "resolved_account ids a = (case (ac_user_id a, map_of ids (ac_handle a)) of
     (None, Some i) \<Rightarrow> a\<lparr>ac_user_id := Some i\<rparr> | _ \<Rightarrow> a)"

definition save_resolved :: "(string \<times> string) list \<Rightarrow> (fetch_reading \<Rightarrow> instant) \<Rightarrow> nat \<times> Account \<Rightarrow> x_db \<Rightarrow> x_db" where
  "save_resolved ids tick = (\<lambda>(n, a) db. if ac_user_id a = None \<and> map_of ids (ac_handle a) \<noteq> None
     then fst (upsert_account (resolved_account ids a) (tick (AtResolved n)) db) else db)"

definition cmd_fetch :: "(string list \<Rightarrow> (string \<times> string) list result) \<Rightarrow> post_fetcher \<Rightarrow> (fetch_reading \<Rightarrow> instant) \<Rightarrow>
    x_db \<Rightarrow> x_db \<times> unit result" where
  "cmd_fetch resolve_ids fetch_posts tick db =
    (let accounts = list_active_accounts None db;
         missing = map ac_handle (filter (\<lambda>a. ac_user_id a = None) accounts)
     in case (if missing = [] then Inr [] else resolve_ids missing) of
          Inl e \<Rightarrow> (db, Inl e)
        | Inr ids \<Rightarrow> fetch_accounts fetch_posts tick 0 (map (resolved_account ids) accounts)
            (fold (save_resolved ids tick) (enumerate 0 accounts) db))"

section \<open>Rehydration and usage\<close>

text \<open>\<open>range(0, len(ids), 100)\<close> and its slices.\<close>

function batches_of :: "nat \<Rightarrow> 'a list \<Rightarrow> 'a list list" where
  "batches_of n xs = (if xs = [] \<or> n = 0 then [] else take n xs # batches_of n (drop n xs))"
  by pat_completeness auto
termination by (relation "measure (\<lambda>(n, xs). length xs)") auto

declare batches_of.simps [simp del]

record RehydrateCounts =
  rc_requested :: int
  rc_returned :: int
  rc_updated :: int

definition enrich_posts :: "XPost list \<Rightarrow> x_db \<Rightarrow> x_db \<times> int" where
  "enrich_posts posts db = fold (\<lambda>p (db, n). let (db', b) = update_post_enrichment p db in
     (db', n + (if b then 1 else 0))) posts (db, 0)"

fun rehydrate_batches :: "(string list \<Rightarrow> FetchResult result) \<Rightarrow> (fetch_reading \<Rightarrow> instant) \<Rightarrow> nat \<Rightarrow>
    string list list \<Rightarrow> RehydrateCounts \<Rightarrow> x_db \<Rightarrow> x_db \<times> RehydrateCounts result" where
  "rehydrate_batches fetch_by_ids tick k [] n db = (db, Inr n)"
| "rehydrate_batches fetch_by_ids tick k (ids # rest) n db =
    (if reads_remaining (utc_month (tick (AtGuard k))) db \<le> int (length ids) + BUDGET_FLOOR then (db, Inr n)
     else (case fetch_by_ids ids of
         Inl e \<Rightarrow> (db, Inl e)
       | Inr r \<Rightarrow> (case record_post_reads (fr_billed_reads r) (utc_month (tick (AtRecorded k))) db of
           Inl e \<Rightarrow> (db, Inl e)
         | Inr db1 \<Rightarrow> let (db2, u) = enrich_posts (fr_posts r) db1 in
             rehydrate_batches fetch_by_ids tick (Suc k) rest
               \<lparr>rc_requested = rc_requested n + int (length ids), rc_returned = rc_returned n + int (length (fr_posts r)),
                rc_updated = rc_updated n + u\<rparr> db2)))"

definition cmd_rehydrate :: "(string list \<Rightarrow> FetchResult result) \<Rightarrow> (fetch_reading \<Rightarrow> instant) \<Rightarrow> x_db \<Rightarrow>
    x_db \<times> RehydrateCounts result" where
  "cmd_rehydrate fetch_by_ids tick db = rehydrate_batches fetch_by_ids tick 0
     (batches_of 100 (map xp_post_id (sort_key xp_posted_at (filter (\<lambda>p. xp_conversation_id p = []) (unreviewed db)))))
     \<lparr>rc_requested = 0, rc_returned = 0, rc_updated = 0\<rparr> db"

definition cmd_usage_sync :: "UsageResult result \<Rightarrow> string \<Rightarrow> x_db \<Rightarrow> x_db result" where
  "cmd_usage_sync usage month db = and_then usage (\<lambda>u. set_post_reads (us_post_reads u) month db)"

definition posts_with :: "review_status \<Rightarrow> x_db \<Rightarrow> int" where
  "posts_with status db = int (length (filter (\<lambda>r. xw_status r = status) (x_posts db)))"

definition budget_warning :: "string \<Rightarrow> x_db \<Rightarrow> bool" where
  "budget_warning month db = (POST_READ_WARNING_THRESHOLD \<le> MAX_MONTHLY_POST_READS - reads_remaining month db)"

section \<open>The budget of reads\<close>

lemma reads_in_update [simp]:
  "reads_in m (db\<lparr>x_post_reads := AList.update k n rows\<rparr>) = (if k = m then n else reads_in m (db\<lparr>x_post_reads := rows\<rparr>))"
  by (simp add: reads_in_def update_conv')

lemma reads_in_frame [simp]:
  "reads_in m (db\<lparr>x_posts := ps\<rparr>) = reads_in m db" "reads_in m (db\<lparr>x_checkpoints := cs\<rparr>) = reads_in m db"
  "reads_in m (db\<lparr>x_accounts := as\<rparr>) = reads_in m db" "reads_in m (db\<lparr>x_account_events := es\<rparr>) = reads_in m db"
  "reads_in m (db\<lparr>x_post_reads := x_post_reads db\<rparr>) = reads_in m db"
  by (simp_all add: reads_in_def)

lemma reads_in_upsert [simp]: "reads_in m (fst (upsert_account a now db)) = reads_in m db"
  by (auto simp: upsert_account_def log_changes_def split: option.splits)

lemma reads_in_resolved [simp]: "reads_in m (fold (save_resolved ids tick) as db) = reads_in m db"
  by (induction as arbitrary: db) (simp_all add: save_resolved_def split: prod.split)

lemma reads_in_continuation [simp]: "reads_in m (save_continuation h t db) = reads_in m db"
  by (auto simp: save_continuation_def split: option.splits)

lemma reads_in_insert [simp]: "reads_in m (fst (insert_new_posts ps db)) = reads_in m db"
  by (simp add: insert_new_posts_def Let_def)

lemma reads_in_checkpoint: "checkpoint_window h now db = (db1, w) \<Longrightarrow> reads_in m db1 = reads_in m db"
  by (auto simp: checkpoint_window_def Let_def split: option.splits)

lemma reads_in_record: "record_post_reads n m db = Inr db' \<Longrightarrow> reads_in k db' = reads_in k db + (if k = m then n else 0) \<and> 0 \<le> n"
  by (auto simp: record_post_reads_def split: if_splits)

definition bills_at_most :: "int \<Rightarrow> post_fetcher \<Rightarrow> bool" where
  "bills_at_most B fetch_posts = (\<forall>u h s t k r. fetch_posts u h s t k = Inr r \<longrightarrow> fr_billed_reads r \<le> B)"

lemma fetch_account_reads:
  assumes "fetch_account fetch_posts tick n u h db = (db', r)"
    and "bills_at_most B fetch_posts" and "0 \<le> B"
  shows "reads_in m db' \<le> reads_in m db + (if utc_month (tick (AtRecorded n)) = m then B else 0)"
proof -
  obtain db1 w where w: "checkpoint_window h (tick (AtWindow n)) db = (db1, w)" by fastforce
  note same = reads_in_checkpoint [OF w, of m]
  show ?thesis
  proof (cases "fetch_posts u h (fw_since_id w) (fw_start_time w) (token_of (fw_token w))")
    case (Inl e)
    with assms(1,3) w same show ?thesis by (simp add: fetch_account_def)
  next
    case (Inr q)
    have bound: "fr_billed_reads q \<le> B" using assms(2) Inr by (auto simp: bills_at_most_def)
    show ?thesis
    proof (cases "record_post_reads (fr_billed_reads q) (utc_month (tick (AtRecorded n))) db1")
      case (Inl e)
      with assms(1,3) w same Inr show ?thesis by (simp add: fetch_account_def)
    next
      case (Inr db2)
      with assms(1) w same \<open>fetch_posts _ _ _ _ _ = _\<close> bound reads_in_record [OF Inr, of m]
      show ?thesis by (auto simp: fetch_account_def)
    qed
  qed
qed

text \<open>The requests whose guard reads another month than the one they are billed to.\<close>

definition billed_late :: "(fetch_reading \<Rightarrow> instant) \<Rightarrow> string \<Rightarrow> nat \<Rightarrow> bool" where
  "billed_late tick m n = (utc_month (tick (AtGuard n)) \<noteq> m \<and> utc_month (tick (AtRecorded n)) = m)"

lemma fetch_accounts_reads:
  assumes "bills_at_most B fetch_posts" and "0 \<le> B"
  shows "reads_in m (fst (fetch_accounts fetch_posts tick n as db)) \<le>
    max (reads_in m db) (MAX_MONTHLY_POST_READS - BUDGET_FLOOR - 1 + B) +
    B * int (length (filter (billed_late tick m) [n..<n + length as]))"
proof (induction as arbitrary: n db)
  case (Cons a as)
  let ?limit = "MAX_MONTHLY_POST_READS - BUDGET_FLOOR - 1 + B"
  let ?late = "\<lambda>n k. int (length (filter (billed_late tick m) [n..<n + k]))"
  have late: "?late n (length (a # as)) = (if billed_late tick m n then 1 else 0) + ?late (Suc n) (length as)"
    by (simp add: upt_conv_Cons del: upt_Suc)
  have more: "B * ?late (Suc n) (length as) \<le> B * ?late n (length (a # as))" "0 \<le> B * ?late n (length (a # as))"
    unfolding late using assms(2) by (simp_all add: distrib_left)
  show ?case
  proof (cases "ac_user_id a")
    case None
    with Cons.IH [of "Suc n" db] more show ?thesis by simp
  next
    case (Some u)
    show ?thesis
    proof (cases "reads_remaining (utc_month (tick (AtGuard n))) db \<le> BUDGET_FLOOR")
      case True
      with Some more(2) show ?thesis by simp
    next
      case False
      obtain db1 r where f: "fetch_account fetch_posts tick n u (ac_handle a) db = (db1, r)" by fastforce
      have "max (reads_in m db1) ?limit \<le> max (reads_in m db) ?limit + (if billed_late tick m n then B else 0)"
        using fetch_account_reads [OF f assms, of m] False assms(2)
        by (auto simp: billed_late_def reads_remaining_def max_def split: if_splits)
      then have step: "max (reads_in m db1) ?limit + B * ?late (Suc n) (length as) \<le>
          max (reads_in m db) ?limit + B * ?late n (length (a # as))"
        unfolding late by (simp add: distrib_left split: if_splits)
      show ?thesis
      proof (cases r)
        case (Inl e)
        have "reads_in m db1 \<le> max (reads_in m db1) ?limit + B * ?late (Suc n) (length as)"
          using assms(2) by (simp add: le_max_iff_disj add_increasing2)
        with step Inl Some False f show ?thesis by simp
      next
        case (Inr x)
        with step Cons.IH [of "Suc n" db1] Some False f show ?thesis by simp
      qed
    qed
  qed
qed simp

text \<open>
  C27. The monthly budget: if no request bills more than \<open>B\<close> reads, a fetch of all the accounts leaves
  a month's count at most \<open>B\<close> above the last value at which a request may still start (4899), however
  many accounts there are, unless it was above already, and whether the fetch succeeds or fails. The month is read
  from the clock at each guard and each record: only a request whose guard still read another month (one, of a clock
  that does not go back) is billed beside this, at most \<open>B\<close> each.
\<close>
theorem fetch_within_budget:
  assumes "bills_at_most B fetch_posts" and "0 \<le> B"
  shows "reads_in m (fst (cmd_fetch resolve_ids fetch_posts tick db)) \<le>
    max (reads_in m db) (MAX_MONTHLY_POST_READS - BUDGET_FLOOR - 1 + B) +
    B * int (length (filter (\<lambda>n. utc_month (tick (AtGuard n)) \<noteq> m \<and> utc_month (tick (AtRecorded n)) = m)
      [0..<length (list_active_accounts None db)]))"
proof -
  let ?accounts = "list_active_accounts None db"
  have late: "(\<lambda>n. utc_month (tick (AtGuard n)) \<noteq> m \<and> utc_month (tick (AtRecorded n)) = m) = billed_late tick m"
    by (simp add: billed_late_def fun_eq_iff)
  have "reads_in m (fst (fetch_accounts fetch_posts tick 0 (map (resolved_account ids) ?accounts)
      (fold (save_resolved ids tick) (enumerate 0 ?accounts) db))) \<le>
      max (reads_in m db) (MAX_MONTHLY_POST_READS - BUDGET_FLOOR - 1 + B) +
      B * int (length (filter (billed_late tick m) [0..<length ?accounts]))" for ids
    using fetch_accounts_reads [OF assms, of m tick 0 "map (resolved_account ids) ?accounts"
        "fold (save_resolved ids tick) (enumerate 0 ?accounts) db"] by simp
  then show ?thesis unfolding late using assms(2) by (simp add: cmd_fetch_def Let_def le_max_iff_disj add_increasing2 split: sum.splits)
qed

text \<open>
  A page with 100 posts that refer to 101 others bills 201 reads and leaves the count above the ceiling.
\<close>

definition page_of :: "int \<Rightarrow> post_fetcher" where
  "page_of n = (\<lambda>u h s t k. Inr \<lparr>fr_posts = [], fr_billed_reads = n, fr_next_token = None\<rparr>)"

definition fetch_state :: x_db where
  "fetch_state = empty_x\<lparr>x_accounts := [\<lparr>ac_handle = ''a'', ac_user_id = Some ''7'', ac_categories = [],
     ac_included_reason = [], ac_tier = ''core'', ac_status = ''active''\<rparr>],
     x_post_reads := [(utc_month 0, 4899)]\<rparr>"

lemma fetch_within_budget_witness:
  "reads_in (utc_month 0) (fst (cmd_fetch (\<lambda>_. Inr []) (page_of 100) (\<lambda>_. 0) fetch_state)) \<le> 4999"
  using fetch_within_budget [of 100 "page_of 100" "utc_month 0" "\<lambda>_. Inr []" "\<lambda>_. 0" fetch_state]
  by (simp add: bills_at_most_def page_of_def MAX_MONTHLY_POST_READS_def BUDGET_FLOOR_def fetch_state_def reads_in_def)

lemma budget_floor_overrun:
  "reads_in (utc_month 0) (fst (cmd_fetch (\<lambda>_. Inr []) (page_of 201) (\<lambda>_. 0) fetch_state)) = 5100"
  by code_simp

end
