(* ===== verification/XPipeline.thy ===== *)
theory XPipeline
  imports XFetch
begin

text \<open>
  The digest pipeline (\<open>app/x/pipeline.py\<close>, \<open>_cmd_verify\<close> of \<open>app/x/run.py\<close>): a cycle fetches, queues
  the posts that are only links and exports the rest for judging; the judged predictions are routed and
  the day's digest rendered. A run goes from \<open>started\<close> (or \<open>failed\<close>, and again) over \<open>exported\<close> and
  \<open>routed\<close> to \<open>digested\<close>. The state left by a raise is what was committed; the batches and the digest
  are values, not files.
\<close>

section \<open>Posts that are only a link\<close>

definition LINK_ONLY_MAX_CHARS :: nat where "LINK_ONLY_MAX_CHARS = 40"

text \<open>\<open>https?://\S+\<close> at the head of a text: what follows the match.\<close>

definition after_scheme :: "string \<Rightarrow> string option" where
  "after_scheme s = (case after_prefix ''https://'' s of Some r \<Rightarrow> Some r | None \<Rightarrow> after_prefix ''http://'' s)"

definition url_at :: "string \<Rightarrow> string option" where
  "url_at s = (case after_scheme s of None \<Rightarrow> None
   | Some [] \<Rightarrow> None
   | Some (c # r) \<Rightarrow> if py_isspace c then None else Some (dropWhile (\<lambda>x. \<not> py_isspace x) r))"

lemma after_prefix_length: "after_prefix p s = Some r \<Longrightarrow> length r \<le> length s"
  by (auto simp: after_prefix_def split: if_splits)

lemma url_at_shorter: "url_at s = Some r \<Longrightarrow> length r < length s"
proof -
  assume "url_at s = Some r"
  then obtain c q where "after_scheme s = Some (c # q)" "r = dropWhile (\<lambda>x. \<not> py_isspace x) q"
    by (auto simp: url_at_def split: option.splits list.splits if_splits)
  moreover from this(1) have "length (c # q) \<le> length s"
    by (auto simp: after_scheme_def split: option.splits dest: after_prefix_length)
  ultimately show ?thesis using length_dropWhile_le [of "\<lambda>x. \<not> py_isspace x" q] by simp
qed

text \<open>Whether the pattern occurs, and the text without its matches.\<close>

function strip_urls :: "string \<Rightarrow> bool \<times> string" where
  "strip_urls s = (case s of [] \<Rightarrow> (False, [])
   | c # cs \<Rightarrow> (case url_at s of
       Some r \<Rightarrow> (True, snd (strip_urls r))
     | None \<Rightarrow> (let (found, rest) = strip_urls cs in (found, c # rest))))"
  by pat_completeness auto
termination by (relation "measure length") (auto dest: url_at_shorter)

declare strip_urls.simps [simp del]

definition link_only :: "XPost \<Rightarrow> bool" where
  "link_only p = (let (found, rest) = strip_urls (xp_text p) in
     found \<and> xp_media p = [] \<and> length (filter (\<lambda>c. \<not> py_isspace c) rest) \<le> LINK_ONLY_MAX_CHARS)"

section \<open>A cycle\<close>

datatype cycle_outcome =
    CalendarNoOp
  | AlreadyRan
  | WeeklyAnchor
  | Exported "XPost list list" int

definition cycle_run_id :: "pydate \<Rightarrow> string \<Rightarrow> string" where
  "cycle_run_id day slot = date_isoformat day @ ''-'' @ slot"

definition set_run :: "string \<Rightarrow> (XRun \<Rightarrow> XRun) \<Rightarrow> x_db \<Rightarrow> x_db" where
  "set_run i f db = db\<lparr>x_runs := map (\<lambda>r. if xn_run_id r = i then f r else r) (x_runs db)\<rparr>"

definition new_run :: "string \<Rightarrow> string \<Rightarrow> instant \<Rightarrow> XRun" where
  "new_run i slot now = \<lparr>xn_run_id = i, xn_slot = slot, xn_started_at = now, xn_finished_at = None,
     xn_posts_fetched = 0, xn_posts_exported = 0, xn_reads_used = 0, xn_status = RunStarted\<rparr>"

definition fetched_since :: "instant \<Rightarrow> x_db \<Rightarrow> PostRow list" where
  "fetched_since started db = filter (\<lambda>r. started \<le> xp_fetched_at (xw_post r)) (x_posts db)"

definition queue_article :: "string \<Rightarrow> instant \<Rightarrow> XPost \<Rightarrow> x_db \<Rightarrow> x_db result" where
  "queue_article run_id now p db =
    (if xp_post_id p \<in> rd_post_id ` set (x_routes db) \<or> xp_post_id p \<in> qa_post_id ` set (x_article_queue db)
       then Inl IntegrityError
     else Inr (db\<lparr>x_routes := x_routes db @ [\<lparr>rd_post_id = xp_post_id p, rd_run_id = run_id,
          rd_route = ''article_queue'', rd_rank = [], rd_reason = [], rd_predictor = ''code:link_only'',
          rd_decided_at = now, rd_tickers = []\<rparr>],
        x_article_queue := x_article_queue db @ [\<lparr>qa_post_id = xp_post_id p, qa_queued_at = now,
          qa_status = ''pending'', qa_resolution = []\<rparr>]\<rparr>))"

definition export_cutoff :: "string \<Rightarrow> instant \<Rightarrow> x_db \<Rightarrow> instant" where
  "export_cutoff run_id now db =
    (case greatest (\<lambda>r. the (xn_finished_at r))
       (filter (\<lambda>r. xn_run_id r \<noteq> run_id \<and> xn_finished_at r \<noteq> None) (x_runs db)) of
       None \<Rightarrow> now - 24 * hour | Some r \<Rightarrow> xn_started_at r)"

definition exportable :: "instant \<Rightarrow> x_db \<Rightarrow> XPost list" where
  "exportable cutoff db = sort_key xp_post_id (filter (\<lambda>p. cutoff \<le> xp_fetched_at p \<and>
     xp_post_id p \<notin> rd_post_id ` set (x_routes db)) (unreviewed db))"

definition export_posts :: "bool \<Rightarrow> instant \<Rightarrow> x_db \<Rightarrow> XPost list list result" where
  "export_posts previous_batches cutoff db =
    (if previous_batches then Inl (ValueError ''export requires a directory without previous generated batches'')
     else Inr (batches_of 50 (exportable cutoff db)))"

text \<open>The run row a cycle works on, and the reads its failed tries have used.\<close>

definition open_cycle :: "string \<Rightarrow> string \<Rightarrow> instant \<Rightarrow> x_db \<Rightarrow> (x_db \<times> instant \<times> int) option result" where
  "open_cycle run_id slot now db = (case find_row xn_run_id run_id (x_runs db) of
     None \<Rightarrow> Inr (Some (db\<lparr>x_runs := x_runs db @ [new_run run_id slot now]\<rparr>, now, 0))
   | Some r \<Rightarrow>
       if xn_status r \<in> {RunRouted, RunDigested} then Inr None
       else if xn_status r \<noteq> RunFailedFetch then Inl (RuntimeError (run_id @ '' is stuck with status '' @ run_status_text (xn_status r)))
       else Inr (Some (set_run run_id (\<lambda>q. q\<lparr>xn_status := RunStarted, xn_finished_at := None\<rparr>) db,
         xn_started_at r, xn_reads_used r)))"

definition fail_cycle :: "string \<Rightarrow> instant \<Rightarrow> int \<Rightarrow> instant \<Rightarrow> x_db \<Rightarrow> x_db" where
  "fail_cycle run_id started reads now db = set_run run_id (\<lambda>q. q\<lparr>xn_posts_fetched :=
     int (length (fetched_since started db)), xn_reads_used := reads, xn_status := RunFailedFetch,
     xn_finished_at := Some now\<rparr>) db"

definition finish_cycle :: "string \<Rightarrow> instant \<Rightarrow> int \<Rightarrow> bool \<Rightarrow> instant \<Rightarrow> x_db \<Rightarrow> (x_db \<times> cycle_outcome) result" where
  "finish_cycle run_id started reads previous_batches now db =
    (let fresh = map xw_post (filter (\<lambda>r. xw_status r = PostUnreviewed) (fetched_since started db)) in
     and_then (fold_result (queue_article run_id now) (filter link_only fresh) db) (\<lambda>db1.
     and_then (export_posts previous_batches (export_cutoff run_id now db1) db1) (\<lambda>batches.
       Inr (set_run run_id (\<lambda>q. q\<lparr>xn_posts_fetched := int (length fresh),
           xn_posts_exported := int (length (concat batches)), xn_reads_used := reads,
           xn_status := RunExported, xn_finished_at := Some now\<rparr>) db1, Exported batches (int (length fresh))))))"

definition cycle :: "string \<Rightarrow> pydate \<Rightarrow> (x_db \<Rightarrow> x_db \<times> unit result) \<Rightarrow> bool \<Rightarrow> instant \<Rightarrow> instant \<Rightarrow> string \<Rightarrow> x_db \<Rightarrow>
    x_db \<times> cycle_outcome result" where
  "cycle slot day fetch previous_batches now done_at month db = (case slot_should_run day slot of
     Inl e \<Rightarrow> (db, Inl e)
   | Inr None \<Rightarrow> (db, Inr CalendarNoOp)
   | Inr (Some _) \<Rightarrow> let run_id = cycle_run_id day slot in
       (case open_cycle run_id slot now db of
          Inl e \<Rightarrow> (db, Inl e)
        | Inr None \<Rightarrow> (db, Inr AlreadyRan)
        | Inr (Some (db1, started, prior)) \<Rightarrow>
            if slot = ''weekly'' then
              (set_run run_id (\<lambda>q. q\<lparr>xn_status := RunRouted, xn_finished_at := Some done_at\<rparr>) db1, Inr WeeklyAnchor)
            else let (db2, fetched) = fetch db1;
                     reads = prior + reads_remaining month db1 - reads_remaining month db2 in
              (case fetched of
                 Inl e \<Rightarrow> (fail_cycle run_id started reads done_at db2, Inl e)
               | Inr _ \<Rightarrow> (case finish_cycle run_id started reads previous_batches done_at db2 of
                   Inl e \<Rightarrow> (db2, Inl e) | Inr (db3, out) \<Rightarrow> (db3, Inr out)))))"

section \<open>Routing\<close>

record Prediction =
  pr_post_id :: string
  pr_prediction :: string
  pr_rank :: string
  pr_reason :: string
  pr_tickers :: "string list option"

definition RANKS :: "string list" where
  "RANKS = [''headline'', ''notable'', ''context'']"

text \<open>\<open>^[A-Z][A-Z0-9.-]{0,11}$\<close> with \<open>match\<close>: the dollar also stands before a last newline.\<close>

definition ticker_text :: "string \<Rightarrow> bool" where
  "ticker_text t = (let core = (if t \<noteq> [] \<and> last t = CHR 0x0A then butlast t else t) in
     core \<noteq> [] \<and> length core \<le> 12 \<and> char_between CHR ''A'' CHR ''Z'' (hd core) \<and>
     list_all (\<lambda>c. char_between CHR ''A'' CHR ''Z'' c \<or> is_digit c \<or> c = CHR ''.'' \<or> c = CHR ''-'') (tl core))"

definition tickers_of :: "Prediction \<Rightarrow> string list" where
  "tickers_of p = (case pr_tickers p of None \<Rightarrow> [] | Some ts \<Rightarrow> ts)"

definition check_prediction :: "x_db \<Rightarrow> string \<Rightarrow> Prediction \<Rightarrow> unit result" where
  "check_prediction db run_id p =
    (if pr_prediction p \<notin> {''significant'', ''skip''}
       then Inl (ValueError (''invalid prediction '' @ quoted (pr_prediction p) @ '' for post '' @ pr_post_id p))
     else if pr_prediction p = ''significant'' \<and> pr_rank p \<notin> set RANKS
       then Inl (ValueError (''significant prediction requires valid rank for post '' @ pr_post_id p))
     else if pr_prediction p = ''skip'' \<and> pr_rank p \<noteq> []
       then Inl (ValueError (''skip prediction must not have rank for post '' @ pr_post_id p))
     else if \<not> list_all ticker_text (tickers_of p)
       then Inl (ValueError (''tickers must be a list of uppercase symbols for post '' @ pr_post_id p))
     else if pr_post_id p \<notin> row_id ` set (x_posts db)
       then Inl (ValueError (''unknown post_id '' @ quoted (pr_post_id p) @ '' not present in x_posts''))
     else (case find_row rd_post_id (pr_post_id p) (x_routes db) of None \<Rightarrow> Inr ()
       | Some r \<Rightarrow> require (rd_run_id r = run_id)
           (ValueError (''post '' @ pr_post_id p @ '' already routed by run '' @ rd_run_id r))))"

definition route_of :: "string \<Rightarrow> string \<Rightarrow> instant \<Rightarrow> Prediction \<Rightarrow> RouteDecision" where
  "route_of run_id predictor now p = \<lparr>rd_post_id = pr_post_id p, rd_run_id = run_id,
     rd_route = (if pr_prediction p = ''significant'' then ''digest'' else ''skip''), rd_rank = pr_rank p,
     rd_reason = pr_reason p, rd_predictor = predictor, rd_decided_at = now,
     rd_tickers = sort (remdups (tickers_of p))\<rparr>"

definition replace_route :: "RouteDecision \<Rightarrow> RouteDecision list \<Rightarrow> RouteDecision list" where
  "replace_route r rows = filter (\<lambda>q. rd_post_id q \<noteq> rd_post_id r) rows @ [r]"

definition route_predictions :: "string \<Rightarrow> string \<Rightarrow> Prediction list \<Rightarrow> instant \<Rightarrow> x_db \<Rightarrow> (x_db \<times> int) result" where
  "route_predictions run_id predictor records now db =
    (if run_id \<notin> xn_run_id ` set (x_runs db) then Inl (ValueError (''unknown run_id '' @ quoted run_id))
     else and_then (map_result (check_prediction db run_id) records) (\<lambda>_.
       Inr (set_run run_id (\<lambda>q. q\<lparr>xn_status := RunRouted, xn_finished_at := Some now\<rparr>)
         (db\<lparr>x_routes := fold (\<lambda>p. replace_route (route_of run_id predictor now p)) records (x_routes db)\<rparr>),
         int (length records))))"

section \<open>Notes and digests\<close>

definition note_key :: "DigestNote \<Rightarrow> pydate \<times> string" where
  "note_key n = (dn_note_date n, dn_slot n)"

definition store_note :: "pydate \<Rightarrow> string \<Rightarrow> string \<Rightarrow> string \<Rightarrow> instant \<Rightarrow> x_db \<Rightarrow> x_db" where
  "store_note day slot author synthesis now db = db\<lparr>x_notes := filter (\<lambda>n. note_key n \<noteq> (day, slot)) (x_notes db) @
     [\<lparr>dn_note_date = day, dn_slot = slot, dn_synthesis = synthesis, dn_author = author, dn_created_at = now,
       dn_model = None, dn_reasoning_effort = None\<rparr>]\<rparr>"

definition stamp_note_provenance :: "pydate \<Rightarrow> string \<Rightarrow> string \<Rightarrow> string \<Rightarrow> x_db \<Rightarrow> x_db \<times> bool" where
  "stamp_note_provenance day slot model effort db =
    (db\<lparr>x_notes := map (\<lambda>n. if note_key n = (day, slot)
       then n\<lparr>dn_model := Some model, dn_reasoning_effort := Some effort\<rparr> else n) (x_notes db)\<rparr>,
     (day, slot) \<in> note_key ` set (x_notes db))"

definition run_of_day :: "pydate \<Rightarrow> string \<Rightarrow> bool" where
  "run_of_day day run_id = (take 10 run_id = date_isoformat day)"

definition completed_status :: "run_status \<Rightarrow> bool" where
  "completed_status s = (s = RunRouted \<or> s = RunDigested)"

definition slot_order :: "DigestNote \<Rightarrow> nat" where
  "slot_order n = (case map_of [(''morning'', 0), (''midday'', 1), (''afternoon'', 2), (''close'', 3), (''weekly'', 4)]
     (dn_slot n) of None \<Rightarrow> 99 | Some k \<Rightarrow> k)"

text \<open>What a digest shows; its formatting is left out.\<close>

record Digest =
  dg_runs :: "XRun list"
  dg_ranked :: "(string \<times> (XPost \<times> string) list) list"
  dg_roster :: nat
  dg_completed :: nat
  dg_articles :: "(string \<times> instant) list"
  dg_notes :: "DigestNote list"
  dg_remaining_reads :: int

definition ranked_posts :: "pydate \<Rightarrow> string \<Rightarrow> x_db \<Rightarrow> (XPost \<times> string) list" where
  "ranked_posts day rank db = sort_key (\<lambda>x. xp_posted_at (fst x)) (List.map_filter (\<lambda>r.
     if rd_route r = ''digest'' \<and> rd_rank r = rank \<and> run_of_day day (rd_run_id r)
     then map_option (\<lambda>w. (xw_post w, rd_reason r)) (find_row row_id (rd_post_id r) (x_posts db)) else None)
     (x_routes db))"

definition pending_articles :: "x_db \<Rightarrow> (string \<times> instant) list" where
  "pending_articles db = sort_key snd (List.map_filter (\<lambda>q. if qa_status q = ''pending''
     then map_option (\<lambda>w. (xp_url (xw_post w), qa_queued_at q)) (find_row row_id (qa_post_id q) (x_posts db)) else None)
     (x_article_queue db))"

definition digest_of :: "pydate \<Rightarrow> x_db \<Rightarrow> Digest" where
  "digest_of day db = (let runs = sort_key xn_started_at (filter (\<lambda>r. run_of_day day (xn_run_id r)) (x_runs db)) in
     \<lparr>dg_runs = runs, dg_ranked = map (\<lambda>k. (k, ranked_posts day k db)) RANKS,
      dg_roster = length (list_active_accounts None db),
      dg_completed = length (filter (\<lambda>r. completed_status (xn_status r)) runs), dg_articles = pending_articles db,
      dg_notes = sort_key slot_order (filter (\<lambda>n. dn_note_date n = day) (x_notes db)),
      dg_remaining_reads = reads_remaining (take 7 (date_isoformat day)) db\<rparr>)"

definition render_digest :: "pydate \<Rightarrow> x_db \<Rightarrow> x_db \<times> Digest" where
  "render_digest day db = (db\<lparr>x_runs := map (\<lambda>r. if run_of_day day (xn_run_id r) \<and> xn_status r = RunRouted
     then r\<lparr>xn_status := RunDigested\<rparr> else r) (x_runs db)\<rparr>, digest_of day db)"

definition mark_weekly :: "pydate \<Rightarrow> x_db \<Rightarrow> x_db" where
  "mark_weekly end_date = set_run (cycle_run_id end_date ''weekly'') (\<lambda>r. r\<lparr>xn_status := RunDigested\<rparr>)"

datatype verify_outcome = VerifiedNoOp | VerifiedRendered Digest | Verified run_status

definition incomplete_text :: "string \<Rightarrow> string" where
  "incomplete_text status = '' didn'' @ [CHR 0x27] @ ''t complete; status='' @ status"

definition cmd_verify :: "string \<Rightarrow> pydate \<Rightarrow> x_db \<Rightarrow> (x_db \<times> verify_outcome) result" where
  "cmd_verify slot day db = and_then (slot_should_run day slot) (\<lambda>due. case due of
     None \<Rightarrow> Inr (db, VerifiedNoOp)
   | Some _ \<Rightarrow> (case find_row xn_run_id (cycle_run_id day slot) (x_runs db) of
       None \<Rightarrow> Inl (RuntimeError (cycle_run_id day slot @ incomplete_text ''missing''))
     | Some r \<Rightarrow> if \<not> completed_status (xn_status r)
         then Inl (RuntimeError (cycle_run_id day slot @ incomplete_text (run_status_text (xn_status r))))
         else if xn_status r = RunRouted \<and> slot \<noteq> ''weekly''
           then let (db', d) = render_digest day db in Inr (db', VerifiedRendered d)
         else Inr (db, Verified (xn_status r))))"

section \<open>Retrying a slot after a later one\<close>

text \<open>
  On 3 March 2026 the fetch of the morning fails, the midday cycle fetches a post that is only a link and
  queues it, and then the morning is tried again. Its row keeps the start of the first try, so it finds
  the queued post, too, and the second decision for it violates the key: the cycle raises, and as the
  status \<open>started\<close> is committed, every later try is refused.
\<close>

definition link_post :: XPost where
  "link_post = \<lparr>xp_post_id = ''1'', xp_handle = ''a'', xp_posted_at = 0, xp_text = ''https://t.co/x'', xp_url = ''u'',
     xp_fetched_at = ny_combine (ymd 2026 3 3) (clock 12 30), xp_conversation_id = [], xp_reply_context = [], xp_media = []\<rparr>"

definition morning_try :: "instant \<Rightarrow> (x_db \<Rightarrow> x_db \<times> unit result) \<Rightarrow> x_db \<Rightarrow> x_db \<times> cycle_outcome result" where
  "morning_try t fetch = cycle ''morning'' (ymd 2026 3 3) fetch False t t ''2026-03''"

definition failed_morning :: x_db where
  "failed_morning = fst (morning_try (ny_combine (ymd 2026 3 3) (clock 8 45)) (\<lambda>db. (db, Inl (RuntimeError ''offline''))) empty_x)"

definition midday_done :: x_db where
  "midday_done = fst (let t = ny_combine (ymd 2026 3 3) (clock 12 30) in
     cycle ''midday'' (ymd 2026 3 3) (\<lambda>db. (fst (insert_new_posts [link_post] db), Inr ())) False t t ''2026-03'' failed_morning)"

definition morning_again :: "x_db \<Rightarrow> x_db \<times> cycle_outcome result" where
  "morning_again = morning_try (ny_combine (ymd 2026 3 3) (clock 13 0)) (\<lambda>db. (db, Inr ()))"

lemma failed_slot_cannot_be_retried:
  "snd (morning_again midday_done) = Inl IntegrityError \<and>
   snd (morning_again (fst (morning_again midday_done))) =
     Inl (RuntimeError ''2026-03-03-morning is stuck with status started'')"
  by code_simp

end
