(* ===== verification/Events.thy ===== *)
theory Events
  imports XPipeline Prices
begin

text \<open>
  The event calendar (\<open>app/events/\<close>): meeting days of the Federal Reserve, the earnings dates of the
  followed tickers and the approved watchlist. Earnings come from a download, a parameter.
\<close>

datatype event_source = FederalReserve | YFinance | Agent

record CalendarEvent =
  ce_event_type :: string
  ce_ticker :: string
  ce_event_date :: pydate
  ce_label :: string
  ce_source :: event_source
  ce_fetched_at :: instant

definition event_key :: "CalendarEvent \<Rightarrow> string \<times> string \<times> pydate" where
  "event_key e = (ce_event_type e, ce_ticker e, ce_event_date e)"

section \<open>Meetings\<close>

definition FOMC_COVERAGE_START :: pydate where "FOMC_COVERAGE_START = ymd 2026 1 1"
definition FOMC_COVERAGE_END :: pydate where "FOMC_COVERAGE_END = ymd 2027 12 31"
definition FOMC_TENTATIVE_FROM :: pydate where "FOMC_TENTATIVE_FROM = ymd 2027 1 1"

definition FOMC_MEETING_DATES :: "pydate list" where
  "FOMC_MEETING_DATES = map (\<lambda>(y, m, d). ymd y m d)
    [(2026, 1, 27), (2026, 1, 28), (2026, 3, 17), (2026, 3, 18), (2026, 4, 28), (2026, 4, 29),
     (2026, 6, 16), (2026, 6, 17), (2026, 7, 28), (2026, 7, 29), (2026, 9, 15), (2026, 9, 16),
     (2026, 10, 27), (2026, 10, 28), (2026, 12, 8), (2026, 12, 9),
     (2027, 1, 26), (2027, 1, 27), (2027, 3, 16), (2027, 3, 17), (2027, 4, 27), (2027, 4, 28),
     (2027, 6, 8), (2027, 6, 9), (2027, 7, 27), (2027, 7, 28), (2027, 9, 14), (2027, 9, 15),
     (2027, 10, 26), (2027, 10, 27), (2027, 12, 7), (2027, 12, 8)]"

definition fomc_dates :: "pydate \<Rightarrow> pydate list result" where
  "fomc_dates through = (if FOMC_COVERAGE_START \<le> through \<and> through \<le> FOMC_COVERAGE_END
     then Inr (filter (\<lambda>d. d \<le> through) FOMC_MEETING_DATES)
     else Inl (ValueError (''FOMC calendar coverage ends at '' @ date_isoformat FOMC_COVERAGE_END)))"

definition meeting_event :: "instant \<Rightarrow> nat \<times> pydate \<Rightarrow> CalendarEvent" where
  "meeting_event now = (\<lambda>(index, d). \<lparr>ce_event_type = ''fomc'', ce_ticker = [], ce_event_date = d,
     ce_label = ''FOMC meeting day '' @ (if even index then ''1'' else ''2'') @
       (if FOMC_TENTATIVE_FROM \<le> d then '' (tentative)'' else []),
     ce_source = FederalReserve, ce_fetched_at = now\<rparr>)"

definition sync_fomc :: "pydate \<Rightarrow> instant \<Rightarrow> CalendarEvent list \<Rightarrow> (CalendarEvent list \<times> int) result" where
  "sync_fomc through now rows = and_then (fomc_dates through) (\<lambda>dates.
     Inr (filter (\<lambda>e. ce_event_type e \<noteq> ''fomc'') rows @ map (meeting_event now) (zip [0..<length dates] dates),
       int (length dates)))"

section \<open>Earnings\<close>

text \<open>\<open>INSERT OR IGNORE\<close> of an estimated date.\<close>

definition insert_estimate :: "string \<Rightarrow> instant \<Rightarrow> pydate \<Rightarrow> CalendarEvent list \<Rightarrow> CalendarEvent list" where
  "insert_estimate t now d rows =
    (let e = \<lparr>ce_event_type = ''earnings'', ce_ticker = t, ce_event_date = d, ce_label = ''estimated'',
       ce_source = YFinance, ce_fetched_at = now\<rparr>
     in if event_key e \<in> event_key ` set rows then rows else rows @ [e])"

definition stale_estimate :: "string \<Rightarrow> pydate \<Rightarrow> CalendarEvent \<Rightarrow> bool" where
  "stale_estimate t today e = (ce_event_type e = ''earnings'' \<and> ce_ticker e = t \<and> today \<le> ce_event_date e \<and>
     ce_source e = YFinance)"

definition refresh_earnings :: "(string \<Rightarrow> pydate list result) \<Rightarrow> string \<Rightarrow> pydate \<Rightarrow> instant \<Rightarrow>
    CalendarEvent list \<Rightarrow> (CalendarEvent list \<times> int) result" where
  "refresh_earnings fetch t today now rows = and_then (fetch t) (\<lambda>dates.
     let future = filter (\<lambda>d. today \<le> d) dates in
     Inr (fold (insert_estimate t now) future (filter (\<lambda>e. \<not> stale_estimate t today e) rows), int (length future)))"

text \<open>What a source answers, reduced to the sorted days from today; any failure is \<open>EarningsUnavailable\<close>.\<close>

definition fetch_earnings_dates :: "(string \<Rightarrow> pydate list option result) \<Rightarrow> pydate \<Rightarrow> string \<Rightarrow> pydate list result" where
  "fetch_earnings_dates source today t = (case source t of
     Inl _ \<Rightarrow> Inl (RuntimeError (''earnings calendar unavailable for '' @ t))
   | Inr None \<Rightarrow> Inr []
   | Inr (Some dates) \<Rightarrow> Inr (sort (remdups (filter (\<lambda>d. today \<le> d) dates))))"

text \<open>The refresh command: an unavailable ticker keeps the dates it has.\<close>

definition refresh_ticker_events :: "(string \<Rightarrow> pydate list result) \<Rightarrow> pydate \<Rightarrow> instant \<Rightarrow> string \<Rightarrow>
    CalendarEvent list \<Rightarrow> CalendarEvent list" where
  "refresh_ticker_events fetch today now t rows =
    (case refresh_earnings fetch t today now rows of Inl _ \<Rightarrow> rows | Inr (rows', _) \<Rightarrow> rows')"

definition refresh_events :: "(string \<Rightarrow> pydate list result) \<Rightarrow> string list \<Rightarrow> pydate \<Rightarrow> instant \<Rightarrow>
    CalendarEvent list \<Rightarrow> (CalendarEvent list \<times> int) result" where
  "refresh_events fetch tickers today now rows =
     sync_fomc FOMC_COVERAGE_END now (fold (refresh_ticker_events fetch today now) tickers rows)"

definition event_order :: "CalendarEvent \<Rightarrow> pydate \<times> string \<times> string" where
  "event_order e = (ce_event_date e, ce_event_type e, ce_ticker e)"

definition upcoming_events :: "pydate \<Rightarrow> int \<Rightarrow> CalendarEvent list \<Rightarrow> CalendarEvent list" where
  "upcoming_events start days rows =
     sort_key event_order (filter (\<lambda>e. start \<le> ce_event_date e \<and> ce_event_date e < start + days) rows)"

section \<open>The watchlist file\<close>

text \<open>
  A line is a hyphen, the ticker, an em dash and a reason; the em dash is the text \<open>dash\<close> here, since it is no \<open>char\<close>.
  The pattern's ticker is the longest text without spaces after the first spaces.
\<close>

definition watch_ticker :: "string \<Rightarrow> bool" where
  "watch_ticker t = (t \<noteq> [] \<and> length t \<le> 12 \<and>
     list_all (\<lambda>c. char_between CHR ''A'' CHR ''Z'' c \<or> c = CHR ''.'') t)"

definition watch_line :: "string \<Rightarrow> string \<Rightarrow> string option" where
  "watch_line dash line = (let tail = drop 1 line; after = dropWhile py_isspace tail;
      t = takeWhile (\<lambda>c. \<not> py_isspace c) after; rest = dropWhile (\<lambda>c. \<not> py_isspace c) after;
      body = dropWhile py_isspace rest
     in if after = tail \<or> t = [] \<or> body = rest then None
        else (case after_prefix dash body of None \<Rightarrow> None
          | Some reason \<Rightarrow> if reason = [] \<or> \<not> py_isspace (hd reason) \<or> length reason < 2 then None else Some t))"

definition parse_watchlist :: "string \<Rightarrow> string list \<Rightarrow> string list result" where
  "parse_watchlist dash lines = map_result (\<lambda>line. case watch_line dash line of
       Some t \<Rightarrow> if watch_ticker t then Inr t else Inl (ValueError (''malformed approved watchlist line: '' @ line))
     | None \<Rightarrow> Inl (ValueError (''malformed approved watchlist line: '' @ line)))
     (filter (\<lambda>line. after_prefix ''-'' line \<noteq> None) lines)"

end
