(* ===== verification/Triggers.thy ===== *)
theory Triggers
  imports Events TriggerStore Watchlists
begin

text \<open>
  The evaluation of triggers (\<open>app/triggers/evaluate.py\<close>): price moves and volume spikes of the followed
  tickers, calendar events ahead, headlines of the digest and short calls due for removal. Every insertion
  commits, so a failed evaluation keeps what it inserted.
\<close>

definition PRICE_MOVE_THRESHOLD :: pyfloat where "PRICE_MOVE_THRESHOLD = fl (1 / 20)"
definition VOLUME_SPIKE_MULT :: pyfloat where "VOLUME_SPIKE_MULT = 3"
definition CALENDAR_LOOKAHEAD_DAYS :: int where "CALENDAR_LOOKAHEAD_DAYS = 3"
definition TRIGGER_TTL_DAYS :: int where "TRIGGER_TTL_DAYS = 5"

text \<open>What an evaluation reads.\<close>

record trigger_inputs =
  ti_prices :: "PriceBar list"
  ti_calendar :: "CalendarEvent list"
  ti_x :: x_db
  ti_core :: core_db

record TriggerCounts =
  tc_price_move :: int
  tc_price_move_skipped :: int
  tc_volume_spike :: int
  tc_volume_spike_skipped :: int
  tc_calendar_upcoming :: int
  tc_calendar_upcoming_skipped :: int
  tc_digest_headline :: int
  tc_digest_headline_skipped :: int
  tc_short_removal_due :: int
  tc_expired :: int

definition no_counts :: TriggerCounts where
  "no_counts = \<lparr>tc_price_move = 0, tc_price_move_skipped = 0, tc_volume_spike = 0, tc_volume_spike_skipped = 0,
     tc_calendar_upcoming = 0, tc_calendar_upcoming_skipped = 0, tc_digest_headline = 0,
     tc_digest_headline_skipped = 0, tc_short_removal_due = 0, tc_expired = 0\<rparr>"

section \<open>What fires\<close>

definition price_move :: "PriceBar list \<Rightarrow> pydate \<Rightarrow> trigger_details option result" where
  "price_move bars day = (if length bars < 2 \<or> pb_bar_date (last bars) \<noteq> day then Inr None
     else let previous = pb_close (bars ! (length bars - 2)); now = pb_close (last bars) in
       and_then (fdiv now previous) (\<lambda>q. let r = fsub q 1 in
         Inr (if PRICE_MOVE_THRESHOLD \<le> \<bar>r\<bar> then Some (PriceMove r previous now) else None)))"

definition volume_spike :: "PriceBar list \<Rightarrow> pydate \<Rightarrow> trigger_details option result" where
  "volume_spike bars day = (if length bars < 21 \<or> pb_bar_date (last bars) \<noteq> day then Inr None
     else let earlier = drop (length bars - 21) (butlast bars);
              average = fl (of_int (sum_list (map pb_volume earlier)) / 20); volume = pb_volume (last bars) in
       and_then (if 0 < average then fdiv (fl (of_int volume)) average else Inr 0) (\<lambda>multiple.
         Inr (if VOLUME_SPIKE_MULT \<le> multiple then Some (VolumeSpike volume average multiple) else None)))"

definition fire :: "string \<Rightarrow> string \<Rightarrow> pydate \<Rightarrow> pydate \<Rightarrow> trigger_details option \<Rightarrow> TriggerEvent list \<Rightarrow>
    TriggerEvent list \<times> bool" where
  "fire k subject event_date day details rows = (case details of None \<Rightarrow> (rows, False)
     | Some d \<Rightarrow> insert_trigger k subject event_date day d rows)"

definition one :: "bool \<Rightarrow> int" where
  "one b = (if b then 1 else 0)"

type_synonym trigger_state = "TriggerEvent list \<times> TriggerCounts"

definition ticker_triggers :: "trigger_inputs \<Rightarrow> pydate \<Rightarrow> string \<Rightarrow> trigger_state \<Rightarrow>
    TriggerEvent list \<times> TriggerCounts result" where
  "ticker_triggers inp day t st =
    (let (rows, n) = st; bars = get_daily_prices (ti_prices inp) t None (Some day) in
     case price_move bars day of Inl e \<Rightarrow> (rows, Inl e)
     | Inr move \<Rightarrow> let (rows1, moved) = fire ''price_move'' t day day move rows in
         (case volume_spike bars day of Inl e \<Rightarrow> (rows1, Inl e)
          | Inr spike \<Rightarrow> let (rows2, spiked) = fire ''volume_spike'' t day day spike rows1 in
              (rows2, Inr (n\<lparr>tc_price_move := tc_price_move n + one moved,
                 tc_price_move_skipped := tc_price_move_skipped n + one (\<not> moved),
                 tc_volume_spike := tc_volume_spike n + one spiked,
                 tc_volume_spike_skipped := tc_volume_spike_skipped n + one (\<not> spiked)\<rparr>))))"

fun all_tickers :: "trigger_inputs \<Rightarrow> pydate \<Rightarrow> string list \<Rightarrow> trigger_state \<Rightarrow>
    TriggerEvent list \<times> TriggerCounts result" where
  "all_tickers inp day [] st = (fst st, Inr (snd st))"
| "all_tickers inp day (t # ts) st = (case ticker_triggers inp day t st of
     (rows, Inl e) \<Rightarrow> (rows, Inl e) | (rows, Inr n) \<Rightarrow> all_tickers inp day ts (rows, n))"

definition calendar_due :: "trigger_inputs \<Rightarrow> pydate \<Rightarrow> CalendarEvent list" where
  "calendar_due inp day = sort_key ce_event_date (filter (\<lambda>e. day < ce_event_date e \<and>
     ce_event_date e \<le> day + CALENDAR_LOOKAHEAD_DAYS) (ti_calendar inp))"

definition calendar_trigger :: "pydate \<Rightarrow> CalendarEvent \<Rightarrow> trigger_state \<Rightarrow> trigger_state" where
  "calendar_trigger day e st =
    (let (rows, fired) = insert_trigger ''calendar_upcoming'' (if ce_ticker e = [] then ''FOMC'' else ce_ticker e)
           (ce_event_date e) day (CalendarUpcoming (ce_event_type e) (ce_label e)) (fst st); n = snd st in
     (rows, n\<lparr>tc_calendar_upcoming := tc_calendar_upcoming n + one fired,
       tc_calendar_upcoming_skipped := tc_calendar_upcoming_skipped n + one (\<not> fired)\<rparr>))"

definition headlines :: "trigger_inputs \<Rightarrow> pydate \<Rightarrow> (RouteDecision \<times> XPost) list" where
  "headlines inp day = List.map_filter (\<lambda>r. if rd_rank r = ''headline'' \<and> utc_date (rd_decided_at r) = day
     then map_option (\<lambda>w. (r, xw_post w)) (find_row row_id (rd_post_id r) (x_posts (ti_x inp))) else None)
     (x_routes (ti_x inp))"

definition headline_trigger :: "pydate \<Rightarrow> RouteDecision \<times> XPost \<Rightarrow> trigger_state \<Rightarrow> trigger_state" where
  "headline_trigger day = (\<lambda>(r, p) st.
     let (rows, fired) = insert_trigger ''digest_headline'' (rd_post_id r) day day
           (DigestHeadline (rd_reason r) (XPost.xp_handle p) (XPost.xp_url p)) (fst st); n = snd st in
     (rows, n\<lparr>tc_digest_headline := tc_digest_headline n + one fired,
       tc_digest_headline_skipped := tc_digest_headline_skipped n + one (\<not> fired)\<rparr>))"

text \<open>The open short calls of both modes with the removal conditions their last close meets.\<close>

definition last_close_on :: "trigger_inputs \<Rightarrow> pydate \<Rightarrow> string \<Rightarrow> pyfloat option" where
  "last_close_on inp day t = (let bars = get_daily_prices (ti_prices inp) t None (Some day) in
     if bars = [] then None else Some (pb_close (last bars)))"

definition shorts_due :: "trigger_inputs \<Rightarrow> pydate \<Rightarrow> (string \<times> trigger_details) list" where
  "shorts_due inp day = concat (map (\<lambda>mode. List.map_filter (\<lambda>c.
     let price = last_close_on inp day (sh_ticker c); due = short_removal_status c price day in
     if sh_removed_at c \<noteq> None \<or> due = [] then None
     else Some (sh_ticker c, ShortRemovalDue due price mode (sd_decision_id (last (sh_declarations c)))))
     (short_watchlist_history (ti_core inp) mode None)) [PAPER, LIVE])"

definition short_trigger :: "pydate \<Rightarrow> string \<times> trigger_details \<Rightarrow> trigger_state \<Rightarrow> trigger_state" where
  "short_trigger day = (\<lambda>(t, details) st.
     let (rows, fired) = insert_trigger ''short_removal_due'' t day day details (fst st); n = snd st in
     (rows, n\<lparr>tc_short_removal_due := tc_short_removal_due n + one fired\<rparr>))"

definition evaluate_triggers :: "trigger_inputs \<Rightarrow> string list \<Rightarrow> pydate \<Rightarrow> TriggerEvent list \<Rightarrow>
    TriggerEvent list \<times> TriggerCounts result" where
  "evaluate_triggers inp tickers day rows = (case all_tickers inp day tickers (rows, no_counts) of
     (rows1, Inl e) \<Rightarrow> (rows1, Inl e)
   | (rows1, Inr n) \<Rightarrow>
       let (rows2, m) = fold (short_trigger day) (shorts_due inp day) (fold (headline_trigger day) (headlines inp day)
             (fold (calendar_trigger day) (calendar_due inp day) (rows1, n)));
           (rows3, k) = expire_triggers (day - TRIGGER_TTL_DAYS) rows2
       in (rows3, Inr (m\<lparr>tc_expired := k\<rparr>)))"

section \<open>Evaluating again\<close>

text \<open>\<open>present kind subject date rows\<close>: the trigger exists, in whatever status.\<close>

definition present :: "TriggerEvent list \<Rightarrow> string \<Rightarrow> bool" where
  "present rows i = (i \<in> te_trigger_id ` set rows)"

lemma insert_present: "present rows (trigger_id k s d) \<Longrightarrow> insert_trigger k s d f x rows = (rows, False)"
  by (simp add: insert_trigger_def present_def Let_def)

lemma insert_makes_present: "present (fst (insert_trigger k s d f x rows)) (trigger_id k s d)"
  by (auto simp: insert_trigger_def present_def Let_def)

lemma insert_keeps_present: "present rows i \<Longrightarrow> present (fst (insert_trigger k s d f x rows)) i"
  by (auto simp: insert_trigger_def present_def Let_def)

lemma fire_present: "(x \<noteq> None \<Longrightarrow> present rows (trigger_id k s e)) \<Longrightarrow> fire k s e f x rows = (rows, False)"
  by (auto simp: fire_def insert_present split: option.splits)

lemma fire_makes_present: "x \<noteq> None \<Longrightarrow> present (fst (fire k s e f x rows)) (trigger_id k s e)"
  by (auto simp: fire_def insert_makes_present split: option.splits)

lemma fire_keeps_present: "present rows i \<Longrightarrow> present (fst (fire k s e f x rows)) i"
  by (auto simp: fire_def insert_keeps_present split: option.splits)

text \<open>The tickers: what a first pass leaves in the table, a second pass finds there.\<close>

definition ticker_holds :: "trigger_inputs \<Rightarrow> pydate \<Rightarrow> TriggerEvent list \<Rightarrow> string \<Rightarrow> bool" where
  "ticker_holds inp day rows t = (let bars = get_daily_prices (ti_prices inp) t None (Some day) in
     (\<forall>d. price_move bars day = Inr (Some d) \<longrightarrow> present rows (trigger_id ''price_move'' t day)) \<and>
     (\<forall>d. volume_spike bars day = Inr (Some d) \<longrightarrow> present rows (trigger_id ''volume_spike'' t day)))"

lemma ticker_holds_mono: "ticker_holds inp day rows t \<Longrightarrow> (\<And>i. present rows i \<Longrightarrow> present rows' i) \<Longrightarrow>
    ticker_holds inp day rows' t"
  by (auto simp: ticker_holds_def Let_def)

lemma ticker_triggers_holds:
  assumes "ticker_triggers inp day t (rows, n) = (rows', Inr n')"
  shows "ticker_holds inp day rows' t" and "present rows i \<Longrightarrow> present rows' i"
proof -
  let ?bars = "get_daily_prices (ti_prices inp) t None (Some day)"
  obtain move spike where found: "price_move ?bars day = Inr move" "volume_spike ?bars day = Inr spike"
    using assms by (auto simp: ticker_triggers_def Let_def split: prod.splits sum.splits)
  let ?rows1 = "fst (fire ''price_move'' t day day move rows)"
  have rows': "rows' = fst (fire ''volume_spike'' t day day spike ?rows1)"
    using assms found by (auto simp: ticker_triggers_def Let_def split_beta)
  show "ticker_holds inp day rows' t"
    using found by (simp add: ticker_holds_def Let_def rows' fire_makes_present fire_keeps_present)
  show "present rows i \<Longrightarrow> present rows' i" by (simp add: rows' fire_keeps_present)
qed

definition nothing_fired :: "TriggerCounts \<Rightarrow> bool" where
  "nothing_fired n = (tc_price_move n = 0 \<and> tc_volume_spike n = 0 \<and> tc_calendar_upcoming n = 0 \<and>
     tc_digest_headline n = 0 \<and> tc_short_removal_due n = 0)"

lemma ticker_triggers_again:
  assumes "ticker_triggers inp day t (rows0, n0) = (rows1, Inr n1)" and "ticker_holds inp day rows t"
    and "nothing_fired n"
  shows "\<exists>n'. ticker_triggers inp day t (rows, n) = (rows, Inr n') \<and> nothing_fired n'"
proof -
  let ?bars = "get_daily_prices (ti_prices inp) t None (Some day)"
  obtain move spike where found: "price_move ?bars day = Inr move" "volume_spike ?bars day = Inr spike"
    using assms(1) by (auto simp: ticker_triggers_def Let_def split: prod.splits sum.splits)
  have "fire ''price_move'' t day day move rows = (rows, False)" "fire ''volume_spike'' t day day spike rows = (rows, False)"
    using assms(2) found by (auto simp: ticker_holds_def Let_def intro!: fire_present)
  with found assms(3) show ?thesis
    by (simp add: ticker_triggers_def Let_def nothing_fired_def one_def)
qed

lemma all_tickers_holds:
  assumes "all_tickers inp day ts (rows, n) = (rows', Inr n')"
  shows "list_all (ticker_holds inp day rows') ts \<and> (\<forall>i. present rows i \<longrightarrow> present rows' i)"
  using assms
proof (induction ts arbitrary: rows n)
  case (Cons t ts)
  then obtain rows1 n1 where first: "ticker_triggers inp day t (rows, n) = (rows1, Inr n1)"
    and rest: "all_tickers inp day ts (rows1, n1) = (rows', Inr n')"
    by (auto split: prod.splits sum.splits)
  show ?case
    using Cons.IH [OF rest] ticker_triggers_holds [OF first] ticker_holds_mono [of inp day rows1 t rows'] by auto
qed simp

lemma all_tickers_again:
  assumes "all_tickers inp day ts (rows0, n0) = (rows1, Inr n1)" and "list_all (ticker_holds inp day rows) ts"
    and "nothing_fired n"
  shows "\<exists>n'. all_tickers inp day ts (rows, n) = (rows, Inr n') \<and> nothing_fired n'"
  using assms
proof (induction ts arbitrary: rows0 n0 n)
  case (Cons t ts)
  then obtain r m where first: "ticker_triggers inp day t (rows0, n0) = (r, Inr m)"
    and rest: "all_tickers inp day ts (r, m) = (rows1, Inr n1)"
    by (auto split: prod.splits sum.splits)
  obtain n' where "ticker_triggers inp day t (rows, n) = (rows, Inr n')" "nothing_fired n'"
    using ticker_triggers_again [OF first] Cons.prems by auto
  then show ?case using Cons.IH [OF rest] Cons.prems by auto
qed simp

text \<open>
  The three folds insert one trigger per element: \<open>inserts key f\<close> says so of the step \<open>f\<close>, and the two laws
  below give for the whole fold what \<open>all_tickers_holds\<close> and \<open>all_tickers_again\<close> give for the tickers.
\<close>

definition inserts :: "('a \<Rightarrow> string) \<Rightarrow> ('a \<Rightarrow> trigger_state \<Rightarrow> trigger_state) \<Rightarrow> bool" where
  "inserts key f = (\<forall>x st. present (fst (f x st)) (key x) \<and>
     (\<forall>i. present (fst st) i \<longrightarrow> present (fst (f x st)) i) \<and>
     (present (fst st) (key x) \<longrightarrow> nothing_fired (snd st) \<longrightarrow> fst (f x st) = fst st \<and> nothing_fired (snd (f x st))))"

lemma inserts_laws:
  assumes "inserts key f"
  shows "present (fst (f x st)) (key x)" and "present (fst st) i \<Longrightarrow> present (fst (f x st)) i"
    and "present (fst st) (key x) \<Longrightarrow> nothing_fired (snd st) \<Longrightarrow> fst (f x st) = fst st"
    and "present (fst st) (key x) \<Longrightarrow> nothing_fired (snd st) \<Longrightarrow> nothing_fired (snd (f x st))"
  using assms unfolding inserts_def by blast+

lemma fold_inserts_keeps: "inserts key f \<Longrightarrow> present (fst st) i \<Longrightarrow> present (fst (fold f xs st)) i"
  by (induction xs arbitrary: st) (simp_all add: inserts_laws)

lemma fold_inserts_present:
  assumes "inserts key f" and "x \<in> set xs"
  shows "present (fst (fold f xs st)) (key x)"
  using assms(2)
proof (induction xs arbitrary: st)
  case (Cons y ys)
  then show ?case
    by (cases "x = y") (simp_all add: fold_inserts_keeps [OF assms(1)] inserts_laws [OF assms(1)])
qed simp

lemma fold_inserts_again:
  assumes "inserts key f" and "\<forall>x \<in> set xs. present (fst st) (key x)" and "nothing_fired (snd st)"
  shows "fst (fold f xs st) = fst st \<and> nothing_fired (snd (fold f xs st))"
  using assms(2,3) by (induction xs arbitrary: st) (simp_all add: inserts_laws [OF assms(1)])

definition calendar_key :: "CalendarEvent \<Rightarrow> string" where
  "calendar_key e = trigger_id ''calendar_upcoming'' (if ce_ticker e = [] then ''FOMC'' else ce_ticker e) (ce_event_date e)"

lemma calendar_trigger_inserts: "inserts calendar_key (calendar_trigger day)"
  by (auto simp: inserts_def calendar_trigger_def calendar_key_def insert_present nothing_fired_def one_def Let_def
      split_beta insert_makes_present insert_keeps_present)

lemma headline_trigger_inserts:
  "inserts (\<lambda>(r, p). trigger_id ''digest_headline'' (rd_post_id r) day) (headline_trigger day)"
  by (auto simp: inserts_def headline_trigger_def insert_present nothing_fired_def one_def Let_def
      split_beta insert_makes_present insert_keeps_present)

text \<open>
  The identifier of a removal trigger leaves out the mode: the call of the second mode on the same ticker and day
  finds the trigger of the first, and its own conditions are not recorded.
\<close>

lemma removal_trigger_masks_second_mode:
  "fst (fold (short_trigger day) [(t, ShortRemovalDue due price PAPER i), (t, ShortRemovalDue due' price' LIVE j)] ([], n)) =
    [\<lparr>te_trigger_id = trigger_id ''short_removal_due'' t day, te_trigger_type = ''short_removal_due'', te_subject = t,
      te_fired_at = day, te_status = TriggerPending, te_details = ShortRemovalDue due price PAPER i\<rparr>]"
  by (simp add: short_trigger_def insert_trigger_def Let_def)

lemma short_trigger_inserts:
  "inserts (\<lambda>(t, details). trigger_id ''short_removal_due'' t day) (short_trigger day)"
  by (auto simp: inserts_def short_trigger_def insert_present nothing_fired_def one_def Let_def
      split_beta insert_makes_present insert_keeps_present)

lemma expire_present [simp]: "present (fst (expire_triggers d rows)) i = present rows i"
proof -
  have "map te_trigger_id (fst (expire_triggers d rows)) = map te_trigger_id rows"
    by (simp add: expire_triggers_def Let_def)
  then show ?thesis unfolding present_def by (metis list.set_map)
qed

lemma expire_again:
  assumes "expire_triggers d rows = (rows', k)"
  shows "expire_triggers d rows' = (rows', 0)"
  using assms by (auto simp: expire_triggers_def Let_def filter_empty_conv intro!: map_idI)

text \<open>
  C26. An evaluation is idempotent. When it ends without an error, a second evaluation of the same day over the
  same inputs ends without one too, inserts nothing, expires nothing, leaves the table as it is and counts no
  fired trigger, whatever statuses the first left and whatever triggers were there before.
\<close>

theorem evaluate_triggers_idempotent:
  assumes "evaluate_triggers inp tickers day rows = (rows', Inr c)"
  shows "\<exists>c'. evaluate_triggers inp tickers day rows' = (rows', Inr c') \<and> nothing_fired c' \<and> tc_expired c' = 0"
proof -
  obtain rows1 n1 where first: "all_tickers inp day tickers (rows, no_counts) = (rows1, Inr n1)"
    using assms by (auto simp: evaluate_triggers_def split: prod.splits sum.splits)
  let ?cal = "fold (calendar_trigger day) (calendar_due inp day)"
  let ?head = "fold (headline_trigger day) (headlines inp day)"
  let ?short = "fold (short_trigger day) (shorts_due inp day)"
  let ?st = "?short (?head (?cal (rows1, n1)))"
  have rows': "rows' = fst (expire_triggers (day - TRIGGER_TTL_DAYS) (fst ?st))"
    using assms first by (auto simp: evaluate_triggers_def Let_def split_beta)
  note ins = calendar_trigger_inserts headline_trigger_inserts short_trigger_inserts
  note keep = ins [THEN fold_inserts_keeps] and made = ins [THEN fold_inserts_present]
  have up: "present rows' i" if "present rows1 i" for i
    using that by (simp add: rows' keep)
  have a: "list_all (ticker_holds inp day rows') tickers"
    using all_tickers_holds [OF first] ticker_holds_mono up by (metis list.pred_mono_strong)
  obtain n2 where again: "all_tickers inp day tickers (rows', no_counts) = (rows', Inr n2)" and z2: "nothing_fired n2"
    using all_tickers_again [OF first a, of no_counts] by (auto simp: nothing_fired_def no_counts_def)
  have cal: "fst (?cal (rows', n2)) = rows' \<and> nothing_fired (snd (?cal (rows', n2)))"
    using fold_inserts_again [OF ins(1), of "calendar_due inp day" "(rows', n2)"] z2
    by (simp add: rows' keep made)
  have head: "fst (?head (?cal (rows', n2))) = rows' \<and> nothing_fired (snd (?head (?cal (rows', n2))))"
    using fold_inserts_again [OF ins(2), of "headlines inp day" "?cal (rows', n2)"] cal keep made
    by (simp add: rows')
  have short: "fst (?short (?head (?cal (rows', n2)))) = rows' \<and> nothing_fired (snd (?short (?head (?cal (rows', n2)))))"
    using fold_inserts_again [OF ins(3), of "shorts_due inp day" "?head (?cal (rows', n2))"] head keep made
    by (simp add: rows')
  have "expire_triggers (day - TRIGGER_TTL_DAYS) rows' = (rows', 0)"
    unfolding rows' by (rule expire_again) (rule prod.collapse [symmetric])
  with again short show ?thesis
    by (auto simp: evaluate_triggers_def Let_def nothing_fired_def split_beta)
qed

text \<open>A meeting tomorrow: the first evaluation inserts its trigger, the second finds it.\<close>

definition meeting_ahead :: trigger_inputs where
  "meeting_ahead = \<lparr>ti_prices = [], ti_calendar = [\<lparr>ce_event_type = ''fomc'', ce_ticker = [], ce_event_date = 20001,
     ce_label = ''FOMC meeting'', ce_source = FederalReserve, ce_fetched_at = 0\<rparr>], ti_x = empty_x, ti_core = empty_db\<rparr>"

lemma meeting_ahead_first:
  "evaluate_triggers meeting_ahead [] 20000 [] =
    ([\<lparr>te_trigger_id = trigger_id ''calendar_upcoming'' ''FOMC'' 20001, te_trigger_type = ''calendar_upcoming'',
       te_subject = ''FOMC'', te_fired_at = 20000, te_status = TriggerPending,
       te_details = CalendarUpcoming ''fomc'' ''FOMC meeting''\<rparr>], Inr (no_counts\<lparr>tc_calendar_upcoming := 1\<rparr>))"
  by (simp add: evaluate_triggers_def meeting_ahead_def calendar_due_def calendar_trigger_def headlines_def empty_x_def
      shorts_due_def short_watchlist_history_def approved_decisions_def insert_trigger_def expire_triggers_def TRIGGER_TTL_DAYS_def
      CALENDAR_LOOKAHEAD_DAYS_def empty_db_def no_counts_def one_def Let_def map_filter_simps)

lemma evaluate_triggers_idempotent_witness:
  "length (fst (evaluate_triggers meeting_ahead [] 20000 [])) = 1 \<and>
   (\<exists>c. evaluate_triggers meeting_ahead [] 20000 (fst (evaluate_triggers meeting_ahead [] 20000 [])) =
      (fst (evaluate_triggers meeting_ahead [] 20000 []), Inr c) \<and> nothing_fired c \<and> tc_expired c = 0)"
  using evaluate_triggers_idempotent [OF meeting_ahead_first] unfolding meeting_ahead_first by simp

end
