(* ===== verification/HoldingReviews.thy ===== *)
theory HoldingReviews
  imports Triggers Crisis BrokerLifecycle
begin

text \<open>
  The holdings due a thesis review (\<open>app/storage/holding_reviews.py\<close>): the open episodes of an account read
  from its snapshots, the price range last stated for a holding, and the reasons why a review must answer for
  it. Snapshots of one account, reviews of one episode and orders of one ticker are taken in different
  milliseconds, so \<open>ORDER BY julianday\<close> has no ties. A \<open>datetime\<close> of New York is its wall clock where the
  source computes with it (two values of one zone compare as wall clocks), and its instant where it meets UTC.
\<close>

section \<open>Constants\<close>

definition REVIEW_POINTS :: "(int \<times> daytime) list" where
  "REVIEW_POINTS = [(0, clock 12 0), (2, clock 12 0), (4, clock 12 0)]"

definition REVIEW_POINT_GRACE :: int where "REVIEW_POINT_GRACE = 12 * hour"
definition SIGNIFICANT_WEIGHT :: pyfloat where "SIGNIFICANT_WEIGHT = fl (2 / 100)"
definition MAX_HEADLINES_TO_TRIAGE :: nat where "MAX_HEADLINES_TO_TRIAGE = 10"
definition CRISIS_HEADLINES_TO_TRIAGE :: nat where "CRISIS_HEADLINES_TO_TRIAGE = 3"
definition PRICE_MOVE_PERCENT :: pyfloat where "PRICE_MOVE_PERCENT = 5"
definition TRIGGER_COOLDOWN :: int where "TRIGGER_COOLDOWN = 3 * day_length"
definition DRAWDOWN_TRIGGER_PERCENT :: pyfloat where "DRAWDOWN_TRIGGER_PERCENT = - 15"
definition MANDATORY_REVIEW_RETURN_PERCENT :: pyfloat where "MANDATORY_REVIEW_RETURN_PERCENT = - 40"

definition TRIGGER_REASONS :: "string list" where
  "TRIGGER_REASONS = [''price_move'', ''volume_spike'', ''earnings_reported'', ''x_digest'', ''down_15_percent_from_cost'',
     ''realization_reached'', ''moved_since_review'']"

definition MANDATORY_REASONS :: "string list" where
  "MANDATORY_REASONS = [''down_40_percent_from_cost'', ''invalidated_without_exit'', ''above_realization_range'',
     ''below_invalidation_price'', ''range_missing'']"

text \<open>What a review reads; \<open>ri_triage\<close> holds the primary keys of \<open>x_triage\<close> (post, ticker, account).\<close>

record review_inputs =
  ri_core :: core_db
  ri_reviews :: "ThesisReview list"
  ri_triggers :: "TriggerEvent list"
  ri_calendar :: "CalendarEvent list"
  ri_x :: x_db
  ri_triage :: "(string \<times> string \<times> string) list"
  ri_prices :: "PriceBar list"

section \<open>Episodes\<close>

text \<open>\<open>datetime.isoformat()\<close> of a UTC value: the microseconds are left out when they are zero.\<close>

definition utc_isoformat :: "instant \<Rightarrow> string" where
  "utc_isoformat t = (let s = t mod day_length in
     date_isoformat (utc_date t) @ ''T'' @ padded 2 (s div hour) @ '':'' @ padded 2 (s mod hour div minute) @ '':'' @
     padded 2 (s mod minute div second) @
     (if s mod second = 0 then [] else ''.'' @ padded 6 (s mod second)) @ ''+00:00'')"

definition snapshots_through :: "core_db \<Rightarrow> instant \<Rightarrow> LivePortfolioSnapshot list" where
  "snapshots_through db as_of = sort_key (\<lambda>s. julianday (ls_captured_at s))
     (filter (\<lambda>s. julianday (ls_captured_at s) \<le> julianday as_of) (live_portfolio_snapshots db))"

definition open_step :: "string \<Rightarrow> LivePortfolioSnapshot \<Rightarrow> (string \<times> instant) list \<Rightarrow> (string \<times> instant) list" where
  "open_step account s opened = (if ls_broker_account_fingerprint s \<noteq> account then opened
     else map (\<lambda>p. (lpos_ticker p, case map_of opened (lpos_ticker p) of None \<Rightarrow> ls_captured_at s | Some t \<Rightarrow> t))
       (filter (\<lambda>p. 0 < lpos_market_value p) (ls_positions s)))"

record Episode =
  ep_episode_id :: string
  ep_ticker :: string
  ep_opened_at :: instant

definition live_holding_episodes :: "core_db \<Rightarrow> string \<Rightarrow> instant \<Rightarrow> (string \<times> Episode) list" where
  "live_holding_episodes db account as_of =
     map (\<lambda>(t, at_time). (t, \<lparr>ep_episode_id = ''live:'' @ account @ '':'' @ t @ '':'' @ utc_isoformat at_time,
         ep_ticker = t, ep_opened_at = at_time\<rparr>))
       (sort_key fst (fold (open_step account) (snapshots_through db as_of) []))"

section \<open>The stated range\<close>

record StatedRange =
  sg_realization_price_low :: "pyfloat option"
  sg_realization_price_high :: "pyfloat option"
  sg_invalidation_price :: "pyfloat option"
  sg_range_basis :: "string option"
  sg_set_at :: instant

definition episode_reviews :: "ThesisReview list \<Rightarrow> string \<Rightarrow> string \<Rightarrow> instant \<Rightarrow> ThesisReview list" where
  "episode_reviews reviews account episode as_of = rev (sort_key (\<lambda>r. julianday (tr_reviewed_at r))
     (filter (\<lambda>r. tr_mode r = live_review \<and> tr_account_id r = account \<and> tr_episode_id r = episode \<and>
       julianday (tr_reviewed_at r) \<le> julianday as_of) reviews))"

definition review_statement :: "ThesisReview \<Rightarrow> StatedRange" where
  "review_statement r = \<lparr>sg_realization_price_low = tr_realization_price_low r,
     sg_realization_price_high = tr_realization_price_high r, sg_invalidation_price = tr_invalidation_price r,
     sg_range_basis = tr_range_basis r, sg_set_at = tr_reviewed_at r\<rparr>"

definition order_statement :: "OrderIntent \<times> InvestmentDecisionRecord \<Rightarrow> StatedRange" where
  "order_statement = (\<lambda>(i, d). \<lparr>sg_realization_price_low = realization_price_low d,
     sg_realization_price_high = realization_price_high d, sg_invalidation_price = invalidation_price d,
     sg_range_basis = range_basis d, sg_set_at = oi_created_at i\<rparr>)"

definition priced_orders :: "core_db \<Rightarrow> string \<Rightarrow> string \<Rightarrow> instant \<Rightarrow>
    (OrderIntent \<times> InvestmentDecisionRecord) list" where
  "priced_orders db profile t as_of =
     filter (\<lambda>(i, d). oi_execution_mode i = LIVE \<and> oi_execution_profile_id i = profile \<and> oi_ticker i = t \<and>
         decision d \<in> {BUY, ADD} \<and> julianday (oi_created_at i) \<le> julianday as_of \<and> realization_price_low d \<noteq> None)
       (List.map_filter (\<lambda>i. map_option (Pair i) (get_decision_record db (oi_decision_id i))) (order_intents db))"

definition thesis_prices :: "core_db \<Rightarrow> ThesisReview list \<Rightarrow> string \<Rightarrow> string \<Rightarrow> string \<Rightarrow> string \<Rightarrow> instant \<Rightarrow>
    StatedRange option" where
  "thesis_prices db reviews account profile t episode as_of =
    (let reviewed = map_option review_statement
           (find (\<lambda>r. tr_realization_price_low r \<noteq> None) (episode_reviews reviews account episode as_of));
         ordered = map_option order_statement
           (greatest (\<lambda>x. julianday (oi_created_at (fst x))) (priced_orders db profile t as_of))
     in case (reviewed, ordered) of
          (None, s) \<Rightarrow> s | (s, None) \<Rightarrow> s
        | (Some r, Some i) \<Rightarrow> Some (if sg_set_at r < sg_set_at i then i else r))"

text \<open>A ratio is a float or the negative infinity.\<close>

datatype ratio = Ratio pyfloat | NegInfinity

definition reward_to_risk :: "StatedRange option \<Rightarrow> pyfloat option \<Rightarrow>
    (pyfloat option \<times> pyfloat option \<times> ratio option) result" where
  "reward_to_risk stated price = (case (stated, price) of
     (Some s, Some p) \<Rightarrow> if p = 0 then Inr (None, None, None)
       else (case sg_realization_price_low s of None \<Rightarrow> Inl TypeError
       | Some low \<Rightarrow> and_then (fdiv low p) (\<lambda>q. let upside = fmul (fsub q 1) 100 in
           (case sg_invalidation_price s of None \<Rightarrow> Inr (Some upside, None, None)
            | Some i \<Rightarrow> and_then (fdiv i p) (\<lambda>k. let downside = fmul (fsub 1 k) 100 in
                if 0 < downside
                  then and_then (fdiv upside downside) (\<lambda>x. Inr (Some upside, Some downside, Some (Ratio x)))
                else Inr (Some upside, Some downside, Some NegInfinity)))))
   | _ \<Rightarrow> Inr (None, None, None))"

section \<open>Stretches, sales and review points\<close>

definition stretch_step :: "instant \<Rightarrow> pyfloat \<Rightarrow> bool \<Rightarrow> instant \<times> pyfloat \<Rightarrow> instant option \<Rightarrow> instant option" where
  "stretch_step after limit upward = (\<lambda>(t, v) start.
     if t < after then start
     else if \<not> (if upward then limit \<le> v else v \<le> limit) then None
     else if start = None then Some t else start)"

definition stretch_start :: "(instant \<times> pyfloat) list \<Rightarrow> instant \<Rightarrow> pyfloat \<Rightarrow> bool \<Rightarrow> instant option" where
  "stretch_start hist after limit upward = fold (stretch_step after limit upward) hist None"

text \<open>An order without a broker record, or one whose last event is neither \<open>FAILED\<close> nor \<open>CANCELED\<close>.\<close>

definition may_fill :: "core_db \<Rightarrow> instant \<Rightarrow> OrderIntent \<Rightarrow> bool" where
  "may_fill db session_open i =
    (let records = filter (\<lambda>r. br_order_intent_id r = oi_order_intent_id i) (broker_execution_records db) in
     if records = [] then julianday session_open \<le> julianday (oi_created_at i)
     else list_ex (\<lambda>r. case latest_execution_status db (br_broker_execution_record_id r) of
         None \<Rightarrow> False | Some s \<Rightarrow> s \<notin> {FAILED, CANCELED}) records)"

definition sold_since :: "core_db \<Rightarrow> string \<Rightarrow> string \<Rightarrow> instant \<Rightarrow> instant \<Rightarrow> bool" where
  "sold_since db profile t since session_open =
     list_ex (\<lambda>i. oi_execution_mode i = LIVE \<and> oi_execution_profile_id i = profile \<and> oi_ticker i = t \<and>
       oi_side i = SIDE_SELL \<and> julianday since \<le> julianday (oi_created_at i) \<and> may_fill db session_open i)
     (order_intents db)"

text \<open>The review points of a day, on the wall clock, and the search of \<open>latest_review_point\<close> back through eight days.\<close>

definition review_points_of :: "pydate \<Rightarrow> int list" where
  "review_points_of day = map (\<lambda>(_, tod). day * day_length + tod) (filter (\<lambda>(w, _). weekday day = w) REVIEW_POINTS)"

fun review_point_search :: "int \<Rightarrow> pydate \<Rightarrow> nat \<Rightarrow> int result" where
  "review_point_search wall day 0 = Inl AssertionError"
| "review_point_search wall day (Suc n) = (case filter (\<lambda>w. w \<le> wall) (review_points_of day) of
     [] \<Rightarrow> review_point_search wall (day - 1) n | w # _ \<Rightarrow> Inr w)"

definition latest_review_point :: "instant \<Rightarrow> int result" where
  "latest_review_point moment = review_point_search (ny_wall moment) (ny_date moment) 8"

text \<open>The instant of a wall clock of New York.\<close>

definition ny_instant :: "int \<Rightarrow> instant" where
  "ny_instant w = w - ny_wall_utcoffset w"

section \<open>The reasons\<close>

type_synonym price_history = "(instant \<times> pyfloat) list"

text \<open>
  The observed prices of a ticker and its returns over the average cost (a Decimal ratio, made a float and then a
  percentage), over the snapshots of the account. \<open>prices.get(ticker, [])\<close> of the source's dictionaries is the list
  of one ticker here.
\<close>

definition observed_positions :: "core_db \<Rightarrow> string \<Rightarrow> instant \<Rightarrow> string \<Rightarrow> (instant \<times> ReportingPosition) list" where
  "observed_positions db account as_of t = concat (map (\<lambda>s. case ls_reporting s of None \<Rightarrow> []
       | Some v \<Rightarrow> map (Pair (ls_captured_at s)) (filter (\<lambda>h. rp_ticker h = t)
           (case vo_positions v of None \<Rightarrow> [] | Some ps \<Rightarrow> ps)))
     (filter (\<lambda>s. ls_broker_account_fingerprint s = account) (snapshots_through db as_of)))"

definition price_history :: "core_db \<Rightarrow> string \<Rightarrow> instant \<Rightarrow> string \<Rightarrow> price_history" where
  "price_history db account as_of t =
     List.map_filter (\<lambda>(at_time, h). map_option (\<lambda>p. (at_time, fl p)) (rp_price h))
       (observed_positions db account as_of t)"

definition return_percent :: "rat \<Rightarrow> rat \<Rightarrow> pyfloat" where
  "return_percent price cost = fmul (fl (dec 28 (dec 28 (price / cost) - 1))) 100"

definition return_history :: "core_db \<Rightarrow> string \<Rightarrow> instant \<Rightarrow> string \<Rightarrow> price_history" where
  "return_history db account as_of t =
     List.map_filter (\<lambda>(at_time, h). case (rp_average_cost h, rp_price h) of
         (Some c, Some p) \<Rightarrow> if c = 0 then None else Some (at_time, return_percent p c) | _ \<Rightarrow> None)
       (observed_positions db account as_of t)"

definition close_reasons :: "TriggerEvent list \<Rightarrow> string \<Rightarrow> instant \<Rightarrow> instant \<Rightarrow> string list" where
  "close_reasons triggers t since prepared_at = filter (\<lambda>k.
     list_ex (\<lambda>e. te_subject e = t \<and> te_trigger_type e = k \<and>
       since < ny_combine (te_fired_at e) (clock 16 0) \<and> ny_combine (te_fired_at e) (clock 16 0) \<le> prepared_at) triggers)
     [''price_move'', ''volume_spike'']"

text \<open>An earnings date between the days, confirmed by the agent or without a confirmed date within 30 days.\<close>

definition earnings_reported :: "CalendarEvent list \<Rightarrow> string \<Rightarrow> pydate \<Rightarrow> pydate \<Rightarrow> bool" where
  "earnings_reported events t from_day to_day =
     list_ex (\<lambda>e. ce_event_type e = ''earnings'' \<and> ce_ticker e = t \<and> from_day \<le> ce_event_date e \<and>
       ce_event_date e < to_day \<and> (ce_source e = Agent \<or>
         \<not> list_ex (\<lambda>a. ce_event_type a = ''earnings'' \<and> ce_ticker a = ce_ticker e \<and> ce_source a = Agent \<and>
             ce_label a = ''confirmed'' \<and> \<bar>ce_event_date a - ce_event_date e\<bar> \<le> 30) events)) events"

text \<open>
  \<open>(?<![A-Za-z0-9])\$?TICKER(?![A-Za-z0-9])\<close>, searched from each place of the text; \<open>before\<close> is the character
  before the place.
\<close>

definition plain_char :: "char \<Rightarrow> bool" where
  "plain_char c = (char_between CHR ''A'' CHR ''Z'' c \<or> char_between CHR ''a'' CHR ''z'' c \<or>
     char_between CHR ''0'' CHR ''9'' c)"

definition symbol_at :: "string \<Rightarrow> string \<Rightarrow> bool" where
  "symbol_at t text = (take (length t) text = t \<and>
     (case drop (length t) text of [] \<Rightarrow> True | c # _ \<Rightarrow> \<not> plain_char c))"

fun mentions_from :: "string \<Rightarrow> bool \<Rightarrow> string \<Rightarrow> bool" where
  "mentions_from t blocked [] = (\<not> blocked \<and> symbol_at t [])"
| "mentions_from t blocked (c # cs) =
    ((\<not> blocked \<and> (c = CHR ''$'' \<and> symbol_at t cs \<or> symbol_at t (c # cs))) \<or> mentions_from t (plain_char c) cs)"

definition mentions :: "string \<Rightarrow> string \<Rightarrow> bool" where
  "mentions t text = mentions_from t False text"

record XHeadline =
  xh_post_id :: string
  xh_handle :: string
  xh_url :: string
  xh_text :: string
  xh_digest_reason :: string

definition headlines_on :: "review_inputs \<Rightarrow> string \<Rightarrow> string \<Rightarrow> instant \<Rightarrow> instant \<Rightarrow> XHeadline list" where
  "headlines_on inp account t since prepared_at =
     List.map_filter (\<lambda>r. case find_row row_id (rd_post_id r) (x_posts (ri_x inp)) of
         None \<Rightarrow> None
       | Some w \<Rightarrow> let p = xw_post w in
           if t \<in> set (rd_tickers r) \<or> mentions t (xp_text p) \<or> mentions t (rd_reason r)
             then Some \<lparr>xh_post_id = rd_post_id r, xh_handle = XPost.xp_handle p, xh_url = XPost.xp_url p,
               xh_text = xp_text p, xh_digest_reason = rd_reason r\<rparr>
           else None)
       (rev (sort_key (\<lambda>r. julianday (rd_decided_at r)) (filter (\<lambda>r. rd_rank r = ''headline'' \<and>
          julianday since < julianday (rd_decided_at r) \<and> julianday (rd_decided_at r) \<le> julianday prepared_at \<and>
          (rd_post_id r, t, account) \<notin> set (ri_triage inp)) (x_routes (ri_x inp)))))"

definition drawdown_reasons :: "price_history \<Rightarrow> instant \<Rightarrow> instant \<Rightarrow> string list" where
  "drawdown_reasons returns opened since = List.map_filter (\<lambda>(threshold, reason).
     case stretch_start returns opened threshold False of
       None \<Rightarrow> None | Some crossed \<Rightarrow> if since < crossed then Some reason else None)
     [(DRAWDOWN_TRIGGER_PERCENT, ''down_15_percent_from_cost''),
      (MANDATORY_REVIEW_RETURN_PERCENT, ''down_40_percent_from_cost'')]"

text \<open>\<open>(price / close - 1) * 100\<close> and the moves of the session against the last close.\<close>

definition percent_move :: "pyfloat \<Rightarrow> pyfloat \<Rightarrow> pyfloat result" where
  "percent_move price close = and_then (fdiv price close) (\<lambda>q. Inr (fmul (fsub q 1) 100))"

definition session_moved :: "PriceBar list \<Rightarrow> price_history \<Rightarrow> string \<Rightarrow> pydate \<Rightarrow> instant \<Rightarrow> instant \<Rightarrow> bool result" where
  "session_moved prices hist t session_day session_open since =
     (case closes_before prices t session_day 1 of
        [] \<Rightarrow> Inr False
      | b # _ \<Rightarrow> and_then (map_result (\<lambda>(at_time, p). and_then (percent_move p (pb_close b)) (\<lambda>m. Inr (at_time, m)))
            (filter (\<lambda>x. session_open \<le> fst x) hist)) (\<lambda>today.
          Inr (list_ex (\<lambda>(limit, upward). case stretch_start today session_open limit upward of
              None \<Rightarrow> False | Some moved \<Rightarrow> since < moved)
            [(PRICE_MOVE_PERCENT, True), (- PRICE_MOVE_PERCENT, False)])))"

definition range_reasons :: "core_db \<Rightarrow> string \<Rightarrow> string \<Rightarrow> instant \<Rightarrow> instant \<Rightarrow> instant \<Rightarrow> price_history \<Rightarrow>
    StatedRange option \<Rightarrow> string list result" where
  "range_reasons db profile t opened since session_open hist stated = (case stated of
     None \<Rightarrow> Inr [''range_missing'']
   | Some s \<Rightarrow> if hist = [] then Inr []
       else (case (sg_realization_price_low s, sg_realization_price_high s) of
         (Some low, Some high) \<Rightarrow>
           let reached = (case stretch_start hist opened low True of None \<Rightarrow> False | Some r \<Rightarrow> since < r);
               price = snd (last hist);
               beyond = error_if (high \<le> price) ''above_realization_range'' @
                 error_if (case sg_invalidation_price s of None \<Rightarrow> False | Some i \<Rightarrow> price \<le> i) ''below_invalidation_price''
           in Inr (error_if reached ''realization_reached'' @
               (if beyond \<noteq> [] \<and> \<not> sold_since db profile t (sg_set_at s) session_open then beyond else []))
       | _ \<Rightarrow> Inl TypeError))"

section \<open>The holdings due\<close>

record HoldingDue =
  hd_episode :: Episode
  hd_last_reviewed_at :: "instant option"
  hd_reasons :: "string list"
  hd_x_headlines :: "XHeadline list"

definition scheduled_review :: "pyfloat \<Rightarrow> instant option \<Rightarrow> int \<Rightarrow> bool" where
  "scheduled_review weight last_reviewed point = (SIGNIFICANT_WEIGHT \<le> weight \<and>
     (case last_reviewed of None \<Rightarrow> True | Some t \<Rightarrow> t < ny_instant (point - REVIEW_POINT_GRACE)))"

text \<open>The time of the latest review a trigger caused.\<close>

definition triggered_at :: "ThesisReview list \<Rightarrow> instant option" where
  "triggered_at reviews = map_option tr_reviewed_at
     (find (\<lambda>r. set TRIGGER_REASONS \<inter> set (tr_review_reasons r) \<noteq> {}) reviews)"

definition in_cooldown :: "ThesisReview list \<Rightarrow> instant \<Rightarrow> bool" where
  "in_cooldown reviews prepared_at = (case triggered_at reviews of
     None \<Rightarrow> False | Some t \<Rightarrow> prepared_at < t + TRIGGER_COOLDOWN)"

definition moved_since_review :: "price_history \<Rightarrow> instant option \<Rightarrow> bool result" where
  "moved_since_review hist last_reviewed =
    (let seen = (case last_reviewed of None \<Rightarrow> [] | Some t \<Rightarrow> filter (\<lambda>x. fst x \<le> t) hist) in
     if seen = [] then Inr False
     else and_then (fdiv (snd (last hist)) (snd (last seen))) (\<lambda>q.
       Inr (PRICE_MOVE_PERCENT \<le> fmul \<bar>fsub q 1\<bar> 100)))"

definition cool_down :: "ThesisReview list \<Rightarrow> instant \<Rightarrow> price_history \<Rightarrow> instant option \<Rightarrow>
    string list \<times> XHeadline list \<Rightarrow> (string list \<times> XHeadline list) result" where
  "cool_down reviews prepared_at hist last_reviewed = (\<lambda>(reasons, headlines).
     if \<not> in_cooldown reviews prepared_at then Inr (reasons, headlines)
     else let kept = filter (\<lambda>r. r \<in> set MANDATORY_REASONS) reasons in
       and_then (moved_since_review hist last_reviewed) (\<lambda>moved.
         Inr (if moved then (kept @ [''moved_since_review''], headlines) else (kept, []))))"

text \<open>The reasons of one holding before the cooldown, in the order the source appends them.\<close>

definition all_reasons :: "review_inputs \<Rightarrow> LivePortfolioSnapshot \<Rightarrow> instant \<Rightarrow> int \<Rightarrow> LivePosition \<Rightarrow> Episode \<Rightarrow>
    ThesisReview list \<Rightarrow> string list result" where
  "all_reasons inp snap prepared_at point p ep reviews =
    (let db = ri_core inp; t = lpos_ticker p; account = ls_broker_account_fingerprint snap;
         profile = ls_execution_profile_id snap; captured = ls_captured_at snap;
         session_day = ny_date prepared_at; session_open = ny_combine session_day (clock 9 30);
         last_reviewed = (if reviews = [] then None else Some (tr_reviewed_at (hd reviews)));
         since = (case last_reviewed of None \<Rightarrow> ep_opened_at ep | Some r \<Rightarrow> r);
         hist = price_history db account captured t;
         closes = close_reasons (ri_triggers inp) t since prepared_at
     in and_then (fdiv (lpos_market_value p) (ls_account_equity snap)) (\<lambda>weight.
        and_then (if ''price_move'' \<in> set closes then Inr False
          else session_moved (ri_prices inp) hist t session_day session_open since) (\<lambda>moved.
        and_then (range_reasons db profile t (ep_opened_at ep) since session_open hist
            (thesis_prices db (ri_reviews inp) account profile t (ep_episode_id ep) prepared_at)) (\<lambda>ranges.
        Inr (error_if (scheduled_review weight last_reviewed point) ''scheduled_review'' @ closes @
          error_if (earnings_reported (ri_calendar inp) t (ny_date since) session_day) ''earnings_reported'' @
          drawdown_reasons (return_history db account captured t) (ep_opened_at ep) since @
          error_if moved ''price_move'' @ ranges @
          error_if (reviews \<noteq> [] \<and> tr_state (hd reviews) = invalidated \<and>
              \<not> sold_since db profile t (tr_reviewed_at (hd reviews)) session_open) ''invalidated_without_exit'')))))"

definition holding_due :: "review_inputs \<Rightarrow> LivePortfolioSnapshot \<Rightarrow> instant \<Rightarrow> bool \<Rightarrow> int \<Rightarrow>
    (string \<times> Episode) list \<Rightarrow> LivePosition \<Rightarrow> HoldingDue option result" where
  "holding_due inp snap prepared_at crisis point episodes p = (case map_of episodes (lpos_ticker p) of
     None \<Rightarrow> Inl KeyError
   | Some ep \<Rightarrow>
       let account = ls_broker_account_fingerprint snap; t = lpos_ticker p;
           reviews = episode_reviews (ri_reviews inp) account (ep_episode_id ep) prepared_at;
           last_reviewed = (if reviews = [] then None else Some (tr_reviewed_at (hd reviews)));
           since = (case last_reviewed of None \<Rightarrow> ep_opened_at ep | Some r \<Rightarrow> r);
           headlines = take (if crisis then CRISIS_HEADLINES_TO_TRIAGE else MAX_HEADLINES_TO_TRIAGE)
             (headlines_on inp account t since prepared_at)
       in and_then (all_reasons inp snap prepared_at point p ep reviews) (\<lambda>reasons.
          and_then (cool_down reviews prepared_at (price_history (ri_core inp) account (ls_captured_at snap) t)
              last_reviewed (reasons, headlines)) (\<lambda>(kept, listed).
          Inr (if kept \<noteq> [] \<or> listed \<noteq> []
            then Some \<lparr>hd_episode = ep, hd_last_reviewed_at = last_reviewed, hd_reasons = kept, hd_x_headlines = listed\<rparr>
            else None))))"

definition holdings_due :: "review_inputs \<Rightarrow> LivePortfolioSnapshot \<Rightarrow> instant \<Rightarrow> bool \<Rightarrow> HoldingDue list result" where
  "holdings_due inp snap prepared_at crisis =
    (let episodes = live_holding_episodes (ri_core inp) (ls_broker_account_fingerprint snap) (ls_captured_at snap) in
     and_then (latest_review_point prepared_at) (\<lambda>point.
     and_then (map_result (holding_due inp snap prepared_at crisis point episodes) (ls_positions snap)) (\<lambda>found.
       Inr (List.map_filter id found))))"

section \<open>A stretch is the last unbroken run\<close>

definition past_limit :: "pyfloat \<Rightarrow> bool \<Rightarrow> instant \<times> pyfloat \<Rightarrow> bool" where
  "past_limit limit upward x = (if upward then limit \<le> snd x else snd x \<le> limit)"

lemma stretch_start_run:
  "stretch_start hist after limit upward =
    (let run = takeWhile (past_limit limit upward) (rev (filter (\<lambda>x. after \<le> fst x) hist)) in
     if run = [] then None else Some (fst (last run)))"
proof (induction hist rule: rev_induct)
  case Nil
  then show ?case by (simp add: stretch_start_def)
next
  case (snoc x xs)
  then show ?case
    by (cases x) (auto simp: stretch_start_def stretch_step_def past_limit_def Let_def not_le split: if_splits)
qed

text \<open>An episode opened at the first of the latest unbroken run of snapshots that hold the ticker.\<close>

definition holds :: "string \<Rightarrow> LivePortfolioSnapshot \<Rightarrow> bool" where
  "holds t s = list_ex (\<lambda>p. lpos_ticker p = t \<and> 0 < lpos_market_value p) (ls_positions s)"

lemma map_of_positions:
  "map_of (map (\<lambda>p. (lpos_ticker p, f (lpos_ticker p))) ps) t = (if list_ex (\<lambda>p. lpos_ticker p = t) ps then Some (f t) else None)"
  by (induction ps) auto

lemma list_ex_filter: "list_ex P (filter Q xs) = list_ex (\<lambda>x. P x \<and> Q x) xs"
  by (induction xs) auto

lemma map_of_open_step: "map_of (open_step account s opened) t =
    (if ls_broker_account_fingerprint s \<noteq> account then map_of opened t
     else if \<not> holds t s then None
     else Some (case map_of opened t of None \<Rightarrow> ls_captured_at s | Some u \<Rightarrow> u))"
  unfolding open_step_def holds_def
    map_of_positions [of "\<lambda>t. case map_of opened t of None \<Rightarrow> ls_captured_at s | Some u \<Rightarrow> u"]
  by (simp add: if_distrib [of "\<lambda>xs. map_of xs t"] list_ex_filter
      map_of_positions [of "\<lambda>t. case map_of opened t of None \<Rightarrow> ls_captured_at s | Some u \<Rightarrow> u"])

lemma episode_runs:
  "map_of (fold (open_step account) snaps []) t =
    (let run = takeWhile (holds t) (rev (filter (\<lambda>s. ls_broker_account_fingerprint s = account) snaps)) in
     if run = [] then None else Some (ls_captured_at (last run)))"
  by (induction snaps rule: rev_induct) (auto simp: map_of_open_step Let_def)

section \<open>Every instant has a review point\<close>

definition review_point :: "int \<Rightarrow> bool" where
  "review_point w = (w \<in> set (review_points_of (w div day_length)))"

lemma clock_noon: "clock 12 0 = 43200000000"
  by (simp add: clock_def time_unit_defs)

lemma day_length_value: "day_length = 86400000000"
  by (simp add: time_unit_defs)

lemma review_points_of_noon: "review_points_of day =
    (if weekday day \<in> {0, 2, 4} then [day * day_length + clock 12 0] else [])"
  by (auto simp: review_points_of_def REVIEW_POINTS_def)

lemma review_point_iff: "review_point w \<longleftrightarrow> weekday (w div day_length) \<in> {0, 2, 4} \<and> w mod day_length = clock 12 0"
proof -
  have "w = w div day_length * day_length + clock 12 0 \<longleftrightarrow> w mod day_length = clock 12 0"
    by (metis add_left_cancel div_mult_mod_eq)
  then show ?thesis by (auto simp: review_point_def review_points_of_noon)
qed

text \<open>The search returns the first point at or before the wall clock among the days it visits.\<close>

lemma review_point_search_Suc: "review_point_search wall day (Suc n) =
    (if weekday day \<in> {0, 2, 4} \<and> day * day_length + clock 12 0 \<le> wall then Inr (day * day_length + clock 12 0)
     else review_point_search wall (day - 1) n)"
  by (simp add: review_points_of_noon)

declare review_point_search.simps(2) [simp del]

lemma review_point_search_latest:
  assumes "review_point_search wall day n = Inr w"
  shows "review_point w \<and> w \<le> wall \<and>
    (\<forall>v. review_point v \<longrightarrow> v div day_length \<le> day \<longrightarrow> v \<le> wall \<longrightarrow> v \<le> w)"
  using assms
proof (induction n arbitrary: day)
  case (Suc n)
  let ?here = "weekday day \<in> {0, 2, 4} \<and> day * day_length + clock 12 0 \<le> wall"
  show ?case
  proof (cases ?here)
    case True
    with Suc.prems have w: "w = day * day_length + clock 12 0" by (simp add: review_point_search_Suc)
    have "v \<le> w" if "review_point v" "v div day_length \<le> day" for v
    proof -
      have "v div day_length * day_length \<le> day * day_length"
        using that(2) by (intro mult_right_mono) (simp_all add: day_length_value)
      then show ?thesis
        using that(1) w div_mult_mod_eq [of v day_length] unfolding review_point_iff by linarith
    qed
    moreover have "review_point w" using True by (simp add: w review_point_iff day_length_value clock_noon)
    ultimately show ?thesis using True w by simp
  next
    case False
    with Suc.prems have rest: "review_point_search wall (day - 1) n = Inr w"
      unfolding review_point_search_Suc by (simp split: if_splits)
    have "v div day_length \<le> day - 1" if "review_point v" "v div day_length \<le> day" "v \<le> wall" for v
      using that False div_mult_mod_eq [of v day_length] unfolding review_point_iff
      by (cases "v div day_length = day") auto
    with Suc.IH [OF rest] show ?thesis by blast
  qed
qed simp

lemma weekday_before: "weekday (d - 1) = (weekday d + 6) mod 7"
proof -
  have "(d - 1 + 3) mod 7 = (d - 1 + 3 + 7) mod 7" by (rule mod_add_self2 [symmetric])
  also have "\<dots> = ((d + 3) + 6) mod 7" by (simp add: algebra_simps)
  also have "\<dots> = ((d + 3) mod 7 + 6) mod 7" by (rule mod_add_left_eq [symmetric])
  finally show ?thesis unfolding weekday_def .
qed

text \<open>Every position needs an open episode: one of no value, or a snapshot not stored, is a \<open>KeyError\<close>.\<close>

lemma unheld_position_raises:
  assumes "latest_review_point prepared_at = Inr point" and "ls_positions snap = p # ps"
    and "map_of (live_holding_episodes (ri_core inp) (ls_broker_account_fingerprint snap) (ls_captured_at snap))
      (lpos_ticker p) = None"
  shows "holdings_due inp snap prepared_at crisis = Inl KeyError"
  using assms by (simp add: holdings_due_def holding_due_def)

lemma review_point_search_finds:
  assumes "wall div day_length = day"
  shows "\<exists>w. review_point_search wall day 8 = Inr w \<and> wall < w + 3 * day_length"
proof -
  define noon where "noon = (\<lambda>d. d * day_length + clock 12 0)"
  have wall: "day * day_length \<le> wall" "wall < day * day_length + day_length"
    using assms div_mult_mod_eq [of wall day_length] pos_mod_bound [of day_length wall]
      pos_mod_sign [of day_length wall] by (auto simp: day_length_value)
  then have past: "noon (day - 1) \<le> wall" "noon (day - 1 - 1) \<le> wall" "noon (day - 1 - 1 - 1) \<le> wall"
    and near: "wall < noon day + 3 * day_length" "wall < noon (day - 1) + 3 * day_length"
      "wall < noon (day - 1 - 1) + 3 * day_length"
      "\<not> noon day \<le> wall \<Longrightarrow> wall < noon (day - 1 - 1 - 1) + 3 * day_length"
    by (simp_all add: noon_def clock_noon day_length_value)
  have n: "8 = Suc (Suc (Suc (Suc 4)))" by simp
  have step: "review_point_search wall d (Suc k) = (if weekday d \<in> {0, 2, 4} \<and> noon d \<le> wall then Inr (noon d)
      else review_point_search wall (d - 1) k)" for d k
    by (simp add: review_point_search_Suc noon_def)
  have "weekday day = 0 \<or> weekday day = 1 \<or> weekday day = 2 \<or> weekday day = 3 \<or> weekday day = 4 \<or> weekday day = 5 \<or>
      weekday day = 6"
    using weekday_bounds [of day] by linarith
  then show ?thesis
    unfolding n step weekday_before using past near by (cases "noon day \<le> wall"; elim disjE) simp_all
qed

text \<open>
  C25. The search for the review point always ends at one: for every instant \<open>latest_review_point\<close> returns, the
  assertion after its loop is never reached. The point it returns is a Monday, Wednesday or Friday noon at or before
  the New York wall clock of the instant and less than three days before it, and no later review point has passed.
\<close>

theorem latest_review_point_exists:
  "\<exists>w. latest_review_point moment = Inr w \<and> review_point w \<and> w \<le> ny_wall moment \<and>
     ny_wall moment < w + 3 * day_length \<and> {v. review_point v \<and> w < v \<and> v \<le> ny_wall moment} = {}"
proof -
  obtain w where w: "latest_review_point moment = Inr w" "ny_wall moment < w + 3 * day_length"
    using review_point_search_finds [of "ny_wall moment" "ny_date moment"]
    by (auto simp: latest_review_point_def ny_date_def)
  have "v div day_length \<le> ny_date moment" if "v \<le> ny_wall moment" for v
    unfolding ny_date_def using that by (rule zdiv_mono1) (simp add: day_length_value)
  with review_point_search_latest [OF w(1) [unfolded latest_review_point_def]] w show ?thesis by force
qed

section \<open>Every holding is answered for\<close>

lemma map_result_mem: "map_result f xs = Inr ys \<Longrightarrow> x \<in> set xs \<Longrightarrow> \<exists>y \<in> set ys. f x = Inr y"
  by (induction xs arbitrary: ys) (auto simp: result_simps)

text \<open>What a position's pass through the loop leaves behind: its reasons, and those the cooldown keeps.\<close>

lemma holding_answered:
  assumes "holdings_due inp snap prepared_at crisis = Inr due" and "p \<in> set (ls_positions snap)"
    and "latest_review_point prepared_at = Inr point"
    and "map_of (live_holding_episodes (ri_core inp) (ls_broker_account_fingerprint snap) (ls_captured_at snap))
      (lpos_ticker p) = Some ep"
    and "reviews = episode_reviews (ri_reviews inp) (ls_broker_account_fingerprint snap) (ep_episode_id ep) prepared_at"
  obtains why where "all_reasons inp snap prepared_at point p ep reviews = Inr why"
    and "\<And>r. r \<in> set why \<Longrightarrow> in_cooldown reviews prepared_at \<Longrightarrow> r \<in> set MANDATORY_REASONS \<Longrightarrow>
      \<exists>h \<in> set due. hd_episode h = ep \<and> r \<in> set (hd_reasons h)"
    and "\<And>r. r \<in> set why \<Longrightarrow> \<not> in_cooldown reviews prepared_at \<Longrightarrow>
      \<exists>h \<in> set due. hd_episode h = ep \<and> r \<in> set (hd_reasons h)"
proof -
  obtain found where found: "map_result (holding_due inp snap prepared_at crisis point
      (live_holding_episodes (ri_core inp) (ls_broker_account_fingerprint snap) (ls_captured_at snap)))
      (ls_positions snap) = Inr found" and due: "due = List.map_filter id found"
    using assms(1,3) by (auto simp: holdings_due_def Let_def result_simps)
  obtain h where h: "h \<in> set found" "holding_due inp snap prepared_at crisis point
      (live_holding_episodes (ri_core inp) (ls_broker_account_fingerprint snap) (ls_captured_at snap)) p = Inr h"
    using map_result_mem [OF found assms(2)] by blast
  have in_due: "x \<in> set due" if "h = Some x" for x
    using h(1) that by (auto simp: due List.map_filter_def intro!: image_eqI [of _ _ "Some x"])
  let ?hist = "price_history (ri_core inp) (ls_broker_account_fingerprint snap) (ls_captured_at snap) (lpos_ticker p)"
  let ?last = "if reviews = [] then None else Some (tr_reviewed_at (hd reviews))"
  obtain why kept listed headlines where r: "all_reasons inp snap prepared_at point p ep reviews = Inr why"
    and cool: "cool_down reviews prepared_at ?hist ?last (why, headlines) = Inr (kept, listed)"
    and h': "h = (if kept \<noteq> [] \<or> listed \<noteq> [] then Some \<lparr>hd_episode = ep, hd_last_reviewed_at = ?last,
      hd_reasons = kept, hd_x_headlines = listed\<rparr> else None)"
    using h(2) assms(4,5) by (auto simp: holding_due_def Let_def result_simps)
  have kept: "\<exists>h \<in> set due. hd_episode h = ep \<and> x \<in> set (hd_reasons h)" if "x \<in> set kept" for x
  proof -
    from that have "kept \<noteq> []" by auto
    then show ?thesis using in_due h' that by force
  qed
  show thesis
  proof (rule that [OF r])
    fix x assume "x \<in> set why" "in_cooldown reviews prepared_at" "x \<in> set MANDATORY_REASONS"
    then have "x \<in> set kept" using cool by (auto simp: cool_down_def Let_def result_simps split: if_splits)
    then show "\<exists>h \<in> set due. hd_episode h = ep \<and> x \<in> set (hd_reasons h)" by (rule kept)
  next
    fix x assume "x \<in> set why" "\<not> in_cooldown reviews prepared_at"
    then have "x \<in> set kept" using cool by (auto simp: cool_down_def)
    then show "\<exists>h \<in> set due. hd_episode h = ep \<and> x \<in> set (hd_reasons h)" by (rule kept)
  qed
qed

lemma all_reasons_scheduled:
  assumes "all_reasons inp snap prepared_at point p ep reviews = Inr why"
    and "fdiv (lpos_market_value p) (ls_account_equity snap) = Inr weight" and "SIGNIFICANT_WEIGHT \<le> weight"
    and "reviews = [] \<or> tr_reviewed_at (hd reviews) < ny_instant (point - REVIEW_POINT_GRACE)"
  shows "''scheduled_review'' \<in> set why"
proof -
  have "scheduled_review weight (if reviews = [] then None else Some (tr_reviewed_at (hd reviews))) point"
    using assms(3,4) by (auto simp: scheduled_review_def)
  then have "''scheduled_review'' \<in> set (error_if (scheduled_review weight
      (if reviews = [] then None else Some (tr_reviewed_at (hd reviews))) point) ''scheduled_review'' @ rest)" for rest
    by (simp add: error_if_def)
  with assms(1) show ?thesis
    unfolding all_reasons_def Let_def assms(2) and_then.simps and_then_Inr by (auto simp only: sum.inject)
qed

lemma all_reasons_invalidated:
  assumes "all_reasons inp snap prepared_at point p ep (r # reviews) = Inr why" and "tr_state r = invalidated"
    and "\<not> sold_since (ri_core inp) (ls_execution_profile_id snap) (lpos_ticker p) (tr_reviewed_at r)
      (ny_combine (ny_date prepared_at) (clock 9 30))"
  shows "''invalidated_without_exit'' \<in> set why"
  using assms by (auto simp: all_reasons_def Let_def result_simps error_if_def [of True])

text \<open>
  C24. A holding whose latest review found its thesis invalidated stays due until it is sold. When the holdings due
  are computed without an error, every position of the snapshot whose open episode was last reviewed as invalidated,
  with no sale since that filled or can still fill, is among them with that reason, whatever cooldown is in force;
  and outside a cooldown every significant position not reviewed since twelve hours before the latest review point
  is among them as a scheduled review.
\<close>

theorem holdings_answered_for:
  assumes "holdings_due inp snap prepared_at crisis = Inr due" and "p \<in> set (ls_positions snap)"
    and "latest_review_point prepared_at = Inr point"
    and "map_of (live_holding_episodes (ri_core inp) (ls_broker_account_fingerprint snap) (ls_captured_at snap))
      (lpos_ticker p) = Some ep"
    and "reviews = episode_reviews (ri_reviews inp) (ls_broker_account_fingerprint snap) (ep_episode_id ep) prepared_at"
  shows "(reviews \<noteq> [] \<and> tr_state (hd reviews) = invalidated \<and>
        \<not> sold_since (ri_core inp) (ls_execution_profile_id snap) (lpos_ticker p) (tr_reviewed_at (hd reviews))
          (ny_combine (ny_date prepared_at) (clock 9 30)) \<longrightarrow>
        (\<exists>h \<in> set due. hd_episode h = ep \<and> ''invalidated_without_exit'' \<in> set (hd_reasons h))) \<and>
      (\<not> in_cooldown reviews prepared_at \<and>
        fdiv (lpos_market_value p) (ls_account_equity snap) = Inr weight \<and> SIGNIFICANT_WEIGHT \<le> weight \<and>
        (reviews = [] \<or> tr_reviewed_at (hd reviews) < ny_instant (point - REVIEW_POINT_GRACE)) \<longrightarrow>
        (\<exists>h \<in> set due. hd_episode h = ep \<and> ''scheduled_review'' \<in> set (hd_reasons h)))"
proof -
  obtain why where r: "all_reasons inp snap prepared_at point p ep reviews = Inr why"
    and cooled: "\<And>r. r \<in> set why \<Longrightarrow> in_cooldown reviews prepared_at \<Longrightarrow> r \<in> set MANDATORY_REASONS \<Longrightarrow>
      \<exists>h \<in> set due. hd_episode h = ep \<and> r \<in> set (hd_reasons h)"
    and rest: "\<And>r. r \<in> set why \<Longrightarrow> \<not> in_cooldown reviews prepared_at \<Longrightarrow>
      \<exists>h \<in> set due. hd_episode h = ep \<and> r \<in> set (hd_reasons h)"
    using holding_answered [OF assms] by metis
  have mandatory: "''invalidated_without_exit'' \<in> set MANDATORY_REASONS" by (simp add: MANDATORY_REASONS_def)
  show ?thesis
    using all_reasons_scheduled [OF r] rest cooled [OF _ _ mandatory]
      all_reasons_invalidated [of inp snap prepared_at point p ep "hd reviews" "tl reviews" why] r
    by (metis list.collapse)
qed

text \<open>One holding, held since the epoch and found invalidated there.\<close>

definition sole_holding :: LivePortfolioSnapshot where
  "sole_holding = \<lparr>ls_portfolio_snapshot_id = ''s'', ls_execution_profile_id = ''main'',
     ls_broker_account_fingerprint = ''acct'', ls_captured_at = 0, ls_account_equity = 100, ls_buying_power = 0,
     ls_positions = [\<lparr>lpos_ticker = ''ABC'', lpos_market_value = 100, lpos_primary_theme_id = ''theme''\<rparr>],
     ls_reporting = None, ls_collector_model = None, ls_index_prices = []\<rparr>"

definition sole_episode :: Episode where
  "sole_episode = \<lparr>ep_episode_id = ''live:'' @ ''acct'' @ '':'' @ ''ABC'' @ '':'' @ utc_isoformat 0,
     ep_ticker = ''ABC'', ep_opened_at = 0\<rparr>"

definition broken_thesis :: ThesisReview where
  "broken_thesis = \<lparr>tr_review_id = ''r'', tr_mode = live_review, tr_account_id = ''acct'',
     tr_episode_id = ep_episode_id sole_episode, tr_ticker = ''ABC'', tr_reviewed_at = 0, tr_recorded_at = 0,
     tr_author = agent, tr_reasoning_run_id = Some ''run'', tr_runtime_attempt_id = None, tr_state = invalidated,
     tr_summary = None, tr_narrative = None, tr_approved_for_publication = False, tr_private_notes = None,
     tr_review_reasons = [], tr_realization_price_low = None, tr_realization_price_high = None,
     tr_invalidation_price = None, tr_range_basis = None, tr_range_change_evidence = None, tr_move_attribution = None\<rparr>"

definition sole_run :: ReasoningRun where
  "sole_run = \<lparr>rr_reasoning_run_id = ''prepared'', rr_session_date = 0, rr_slot = ''preclose'',
     rr_execution_profile_id = ''main'', rr_model_label = ''m'', rr_shared_bundle_path = ''b'',
     rr_shared_bundle_sha256 = [], rr_portfolio_snapshot_id = ''s'', rr_started_at = 0, rr_completed_at = None,
     rr_result = PREPARED, rr_decision_ids = [], rr_public_summary = []\<rparr>"

definition sole_inputs :: review_inputs where
  "sole_inputs = \<lparr>ri_core = empty_db\<lparr>live_portfolio_snapshots := [sole_holding], reasoning_runs := [sole_run]\<rparr>, ri_reviews = [broken_thesis],
     ri_triggers = [], ri_calendar = [], ri_x = empty_x, ri_triage = [], ri_prices = []\<rparr>"

lemma sole_episodes:
  "live_holding_episodes (ri_core sole_inputs) ''acct'' 0 = [(''ABC'', sole_episode)]"
  by (simp add: live_holding_episodes_def snapshots_through_def sole_inputs_def sole_holding_def open_step_def
      sole_episode_def)

lemma sole_reviews: "episode_reviews (ri_reviews sole_inputs) ''acct'' (ep_episode_id sole_episode) 0 = [broken_thesis]"
  by (simp add: episode_reviews_def sole_inputs_def broken_thesis_def)

lemma sole_due: "\<exists>point due. latest_review_point 0 = Inr point \<and> holdings_due sole_inputs sole_holding 0 False = Inr due"
proof -
  obtain point where point: "latest_review_point 0 = Inr point"
    using review_point_search_finds [of "ny_wall 0" "ny_date 0"] by (auto simp: latest_review_point_def ny_date_def)
  have unpriced: "price_history (ri_core sole_inputs) ''acct'' 0 t = []" for t
    by (simp add: price_history_def observed_positions_def snapshots_through_def sole_inputs_def sole_holding_def
        List.map_filter_def)
  have quiet: "session_moved (ri_prices sole_inputs) [] t d u s = Inr False" for t d u s
    by (simp add: session_moved_def closes_before_def get_daily_prices_def sole_inputs_def)
  have "\<exists>rs. range_reasons db f t u s e [] stated = Inr rs" for db f t u s e stated
    by (simp add: range_reasons_def split: option.split)
  then have "\<exists>why. all_reasons sole_inputs sole_holding 0 point
      \<lparr>lpos_ticker = ''ABC'', lpos_market_value = 100, lpos_primary_theme_id = ''theme''\<rparr> sole_episode [broken_thesis] = Inr why"
    using unpriced quiet by (simp add: all_reasons_def sole_holding_def fdiv_def Let_def) (metis and_then.simps(2))
  then show ?thesis
    using point sole_episodes sole_reviews
    by (auto simp: holdings_due_def holding_due_def sole_holding_def in_cooldown_def triggered_at_def cool_down_def
        broken_thesis_def Let_def)
qed

lemma holdings_answered_for_witness:
  "\<exists>due. holdings_due sole_inputs sole_holding 0 False = Inr due \<and>
     (\<exists>h \<in> set due. hd_episode h = sole_episode \<and> ''invalidated_without_exit'' \<in> set (hd_reasons h))"
proof -
  obtain point due where d: "latest_review_point 0 = Inr point" "holdings_due sole_inputs sole_holding 0 False = Inr due"
    using sole_due by blast
  show ?thesis
    using holdings_answered_for [OF d(2) _ d(1) _ refl,
        of "\<lparr>lpos_ticker = ''ABC'', lpos_market_value = 100, lpos_primary_theme_id = ''theme''\<rparr>" sole_episode 0] d(2)
      sole_episodes sole_reviews
    by (simp add: sole_holding_def broken_thesis_def sold_since_def sole_inputs_def empty_db_def)
qed

end
