(* ===== verification/Authored.thy ===== *)
theory Authored
  imports DecisionRecord
begin

text \<open>
  What a review authors (\<open>CitedXPost\<close> to \<open>AuthoredOutput\<close> of \<open>app/schemas/runtime.py\<close>): decisions, thesis
  reviews, the ledger of researched candidates, challengers of the holdings, verdicts on X headlines, earnings
  dates and the answer to the exposure check, with the constraints and normalizations of their models.
\<close>

section \<open>Reviews and candidates\<close>

record CitedXPost =
  cx_url :: string
  cx_role :: x_post_role

text \<open>The model's validator is the one of \<open>PublicXPost\<close>: the canonical URL of the post.\<close>

definition cited_post_errors :: "CitedXPost \<Rightarrow> string list" where
  "cited_post_errors p = (case length_errors 1 200 ''url'' (cx_url p) of
       e # es \<Rightarrow> e # es
     | [] \<Rightarrow> (case public_status_url (cx_url p) of Inl (ValueError m) \<Rightarrow> [m] | _ \<Rightarrow> []))"

definition normalize_cited :: "CitedXPost \<Rightarrow> CitedXPost" where
  "normalize_cited p = (case public_status_url (cx_url p) of Inl _ \<Rightarrow> p | Inr u \<Rightarrow> p\<lparr>cx_url := u\<rparr>)"

definition cited_posts_errors :: "CitedXPost list \<Rightarrow> string list" where
  "cited_posts_errors ps = length_errors 0 10 ''x_posts'' ps @ concat (map cited_post_errors ps)"

definition pattern_errors :: "string \<Rightarrow> string \<Rightarrow> string list" where
  "pattern_errors name t = error_if (\<not> ticker_pattern t) (name @ '': string_pattern_mismatch'')"

datatype holding_state = holding_intact | holding_invalidated

record AuthoredThesisReview =
  ar_episode_id :: string
  ar_ticker :: string
  ar_state :: holding_state
  ar_summary :: "string option"
  ar_narrative :: "PublicNarrative option"
  ar_approved_for_publication :: bool
  ar_private_notes :: "string option"
  ar_sources_opened :: "string list"
  ar_x_posts :: "CitedXPost list"
  ar_realization_price_low :: "pyfloat option"
  ar_realization_price_high :: "pyfloat option"
  ar_invalidation_price :: "pyfloat option"
  ar_range_basis :: "string option"
  ar_range_change_evidence :: "string option"
  ar_move_attribution :: "move_attribution option"

definition authored_review_errors :: "AuthoredThesisReview \<Rightarrow> string list" where
  "authored_review_errors r =
     length_errors 1 200 ''episode_id'' (ar_episode_id r) @ pattern_errors ''ticker'' (ar_ticker r) @
     optional_errors (length_errors 0 4000 ''summary'') (ar_summary r) @
     optional_errors narrative_errors (ar_narrative r) @
     optional_errors (length_errors 0 4000 ''private_notes'') (ar_private_notes r) @
     length_errors 0 12 ''sources_opened'' (ar_sources_opened r) @ cited_posts_errors (ar_x_posts r) @
     optional_errors (positive_errors ''realization_price_low'') (ar_realization_price_low r) @
     optional_errors (positive_errors ''realization_price_high'') (ar_realization_price_high r) @
     optional_errors (positive_errors ''invalidation_price'') (ar_invalidation_price r) @
     optional_errors (length_errors 0 1000 ''range_basis'') (ar_range_basis r) @
     optional_errors (length_errors 0 2000 ''range_change_evidence'') (ar_range_change_evidence r)"

definition normalize_review :: "AuthoredThesisReview \<Rightarrow> AuthoredThesisReview" where
  "normalize_review r = r\<lparr>ar_narrative := map_option normalize_narrative (ar_narrative r),
     ar_x_posts := map normalize_cited (ar_x_posts r)\<rparr>"

record CandidateConsidered =
  cc_ticker :: string
  cc_idea_source :: string
  cc_sources_opened :: "string list"
  cc_x_posts :: "CitedXPost list"
  cc_outcome :: Decision
  cc_reason :: string
  cc_clears_entry_bar :: bool

definition candidate_errors :: "CandidateConsidered \<Rightarrow> string list" where
  "candidate_errors c = pattern_errors ''ticker'' (cc_ticker c) @
     length_errors 1 300 ''idea_source'' (cc_idea_source c) @
     length_errors 0 12 ''sources_opened'' (cc_sources_opened c) @ cited_posts_errors (cc_x_posts c) @
     length_errors 1 2000 ''reason'' (cc_reason c)"

definition normalize_candidate :: "CandidateConsidered \<Rightarrow> CandidateConsidered" where
  "normalize_candidate c = c\<lparr>cc_x_posts := map normalize_cited (cc_x_posts c)\<rparr>"

section \<open>Challengers, dates, verdicts\<close>

datatype challenger_verdict = swap | keep_incumbent

record AuthoredChallenger =
  ch_candidate :: string
  ch_incumbent :: string
  ch_incumbent_episode_id :: string
  ch_why_weakest :: string
  ch_ranking_departure :: "string option"
  ch_verdict :: challenger_verdict
  ch_reasoning :: string

definition challenger_errors :: "AuthoredChallenger \<Rightarrow> string list" where
  "challenger_errors c = pattern_errors ''candidate'' (ch_candidate c) @
     pattern_errors ''incumbent'' (ch_incumbent c) @
     length_errors 1 200 ''incumbent_episode_id'' (ch_incumbent_episode_id c) @
     length_errors 1 500 ''why_weakest'' (ch_why_weakest c) @
     optional_errors (length_errors 0 1000 ''ranking_departure'') (ch_ranking_departure c) @
     length_errors 1 2000 ''reasoning'' (ch_reasoning c)"

text \<open>\<open>url.startswith(("https://", "http://"))\<close>, which is also the pattern \<open>^https?://\<close>.\<close>

definition http_url :: "string \<Rightarrow> bool" where
  "http_url url = (take 8 url = ''https://'' \<or> take 7 url = ''http://'')"

record AuthoredEarningsDate =
  ae_ticker :: string
  ae_event_date :: pydate
  ae_confirmed :: bool
  ae_source_url :: string

definition earnings_errors :: "AuthoredEarningsDate \<Rightarrow> string list" where
  "earnings_errors e = pattern_errors ''ticker'' (ae_ticker e) @
     (case length_errors 0 2000 ''source_url'' (ae_source_url e) of
        m # ms \<Rightarrow> m # ms
      | [] \<Rightarrow> error_if (\<not> http_url (ae_source_url e)) ''source_url: string_pattern_mismatch'')"

record AuthoredXTriage =
  xt_post_id :: string
  xt_ticker :: string
  xt_changes_thesis :: bool
  xt_note :: string

definition triage_errors :: "AuthoredXTriage \<Rightarrow> string list" where
  "triage_errors t = length_errors 1 64 ''post_id'' (xt_post_id t) @ pattern_errors ''ticker'' (xt_ticker t) @
     length_errors 1 300 ''note'' (xt_note t)"

datatype exposure_action = reduce_exposure | hold_exposure

record AuthoredExposureDecision =
  ax_action :: exposure_action
  ax_reasoning :: string

definition exposure_errors :: "AuthoredExposureDecision \<Rightarrow> string list" where
  "exposure_errors d = length_errors 1 2000 ''reasoning'' (ax_reasoning d)"

section \<open>The output\<close>

record AuthoredOutput =
  ao_decisions :: "InvestmentDecisionRecord list"
  ao_thesis_reviews :: "AuthoredThesisReview list"
  ao_earnings_dates :: "AuthoredEarningsDate list"
  ao_x_triage :: "AuthoredXTriage list"
  ao_challenger_reviews :: "AuthoredChallenger list"
  ao_exposure_decision :: "AuthoredExposureDecision option"
  ao_candidates_considered :: "CandidateConsidered list"
  ao_public_summary :: string

definition decision_errors :: "InvestmentDecisionRecord \<Rightarrow> string list" where
  "decision_errors d = (case validate_record d of Inl (ValidationError errors) \<Rightarrow> errors | _ \<Rightarrow> [])"

definition output_errors :: "AuthoredOutput \<Rightarrow> string list" where
  "output_errors o' =
     length_errors 0 20 ''decisions'' (ao_decisions o') @ concat (map decision_errors (ao_decisions o')) @
     length_errors 0 20 ''thesis_reviews'' (ao_thesis_reviews o') @
     concat (map authored_review_errors (ao_thesis_reviews o')) @
     length_errors 0 20 ''earnings_dates'' (ao_earnings_dates o') @
     concat (map earnings_errors (ao_earnings_dates o')) @
     length_errors 0 60 ''x_triage'' (ao_x_triage o') @ concat (map triage_errors (ao_x_triage o')) @
     length_errors 0 12 ''challenger_reviews'' (ao_challenger_reviews o') @
     concat (map challenger_errors (ao_challenger_reviews o')) @
     optional_errors exposure_errors (ao_exposure_decision o') @
     length_errors 0 12 ''candidates_considered'' (ao_candidates_considered o') @
     concat (map candidate_errors (ao_candidates_considered o')) @
     length_errors 1 4000 ''public_summary'' (ao_public_summary o')"

definition validate_output :: "AuthoredOutput \<Rightarrow> AuthoredOutput result" where
  "validate_output o' = (if output_errors o' \<noteq> [] then Inl (ValidationError (output_errors o'))
     else Inr (o'\<lparr>ao_decisions := map normalize_record (ao_decisions o'),
       ao_thesis_reviews := map normalize_review (ao_thesis_reviews o'),
       ao_candidates_considered := map normalize_candidate (ao_candidates_considered o')\<rparr>))"

section \<open>What validation gives\<close>

lemma normalize_cited_canonical:
  assumes "cited_post_errors p = []"
  shows "\<exists>handle ident. canonical_x_post (cx_url p) = Some (handle, ident) \<and>
    cx_url (normalize_cited p) = x_post_url handle ident"
  using assms
  by (auto simp: cited_post_errors_def normalize_cited_def public_status_url_def split: list.splits option.splits)

text \<open>The status id that a citation of a validated output names: what follows the last slash of its URL.\<close>

lemma canonical_status_id:
  assumes "canonical_x_post url = Some (handle, ident)"
  shows "last (split_at_char CHR ''/'' (x_post_url handle ident)) = ident"
proof -
  have h: "CHR ''/'' \<notin> set handle" and i: "CHR ''/'' \<notin> set ident"
    using canonical_x_post_Some [OF assms]
    by (auto simp: list_all_iff handle_char_def digit_char_def char_between_def)
  have "split_at_char CHR ''/'' (handle @ CHR ''/'' # ''status/'' @ ident) = [handle, ''status'', ident]"
    unfolding split_at_char_prefix [OF h] by (simp add: split_at_char_none [OF i])
  then show ?thesis by (simp add: x_post_url_def)
qed

end
