(* ===== verification/Narratives.thy ===== *)
theory Narratives
  imports Authored RuntimeSchemas
begin

text \<open>
  What of a narrative reaches the public trace: the registered sources and their revisions
  (\<open>save_public_source\<close> of \<open>app/storage/public_records.py\<close>, \<open>eligible_sources\<close> of \<open>app/public/explanations.py\<close>),
  the projection of a narrative onto them (\<open>narrative_projection\<close>), and the check of the trusted worker that a
  decision's reasoning would be published (\<open>public_narrative_gap\<close> of \<open>app/reason/worker.py\<close>). \<open>sha256\<close> stands
  for the hexadecimal digest of a text's UTF-8 bytes.
\<close>

section \<open>Registered sources\<close>

datatype public_source_type = SourceSec | SourceCompanyIr | SourceNews | SourceX | SourcePriceData | SourceMacro
  | SourceEtfIssuer

datatype source_access = public_access | authenticated_access | private_access

record PublicSourceRecord =
  psr_revision_id :: string
  psr_source_ref :: string
  psr_supersedes :: "string option"
  psr_recorded_at :: instant
  psr_title :: string
  psr_publisher :: string
  psr_published_on :: "pydate option"
  psr_source_type :: public_source_type
  psr_url :: "string option"
  psr_access :: source_access
  psr_approved_for_publication :: bool
  psr_excerpt :: "string option"
  psr_excerpt_approved :: bool

definition explicit_eligibility :: "PublicSourceRecord \<Rightarrow> (bool \<times> string) list" where
  "explicit_eligibility r =
     [(psr_approved_for_publication r \<and> psr_access r \<noteq> public_access, ''only public access sources may be approved''),
      (psr_supersedes r = Some (psr_revision_id r), ''source revision cannot supersede itself'')]"

record SourceRow =
  srw_public_id :: string
  srw_record :: PublicSourceRecord

definition source_revision :: "SourceRow \<Rightarrow> string" where
  "source_revision w = psr_revision_id (srw_record w)"

text \<open>
  The constraints of the table: the primary key, \<open>supersedes\<close> unique and naming a revision, and one root for
  each \<open>source_ref\<close>. An empty \<open>supersedes\<close> is not a reference to look up, and then names no revision.
\<close>

definition source_conflict :: "PublicSourceRecord \<Rightarrow> SourceRow list \<Rightarrow> bool" where
  "source_conflict r rows = (case psr_supersedes r of
       None \<Rightarrow> \<exists>w\<in>set rows. psr_supersedes (srw_record w) = None \<and> psr_source_ref (srw_record w) = psr_source_ref r
     | Some p \<Rightarrow> (\<exists>w\<in>set rows. psr_supersedes (srw_record w) = Some p) \<or>
         (p \<noteq> psr_revision_id r \<and> find_row source_revision p rows = None))"

definition insert_source :: "PublicSourceRecord \<Rightarrow> string \<Rightarrow> SourceRow list \<Rightarrow> (SourceRow list \<times> string) result" where
  "insert_source r public_id rows = (if source_conflict r rows then Inl IntegrityError
     else Inr (rows @ [\<lparr>srw_public_id = public_id, srw_record = r\<rparr>], public_id))"

definition save_public_source :: "string \<Rightarrow> PublicSourceRecord \<Rightarrow> SourceRow list \<Rightarrow> (SourceRow list \<times> string) result" where
  "save_public_source fresh r rows = (case find_row source_revision (psr_revision_id r) rows of
     Some w \<Rightarrow> if srw_record w \<noteq> r then Inl (ValueError ''public source revision is immutable'')
       else Inr (rows, srw_public_id w)
   | None \<Rightarrow> if \<not> truthy (psr_supersedes r) then insert_source r (''src_'' @ fresh) rows
       else (case find_row source_revision (the (psr_supersedes r)) rows of
           None \<Rightarrow> Inl (ValueError ''source revision predecessor is missing'')
         | Some previous \<Rightarrow> let prior = srw_record previous in
             if psr_source_ref prior \<noteq> psr_source_ref r \<or> psr_recorded_at r < psr_recorded_at prior
               then Inl (ValueError ''source revision changes identity or precedes its predecessor'')
             else insert_source r (srw_public_id previous) rows))"

record PublicSource =
  pq_public_id :: string
  pq_title :: string
  pq_publisher :: string
  pq_published_on :: "pydate option"
  pq_source_type :: public_source_type
  pq_url :: "string option"
  pq_excerpt :: "string option"

definition public_source_of :: "SourceRow \<Rightarrow> PublicSource" where
  "public_source_of w = (let r = srw_record w in
     \<lparr>pq_public_id = srw_public_id w, pq_title = psr_title r, pq_publisher = psr_publisher r,
      pq_published_on = psr_published_on r, pq_source_type = psr_source_type r, pq_url = psr_url r,
      pq_excerpt = (if psr_excerpt_approved r \<and> psr_source_type r \<noteq> SourceX then psr_excerpt r else None)\<rparr>)"

text \<open>The dictionary by source reference, its last row of a reference winning.\<close>

definition eligible_sources :: "SourceRow list \<Rightarrow> (string \<times> PublicSource) list" where
  "eligible_sources rows = fold (\<lambda>w. AList.update (psr_source_ref (srw_record w)) (public_source_of w))
     (filter (\<lambda>w. psr_approved_for_publication (srw_record w) \<and> psr_access (srw_record w) = public_access)
       (filter (\<lambda>w. Some (source_revision w) \<notin> (\<lambda>n. psr_supersedes (srw_record n)) ` set rows) rows)) []"

section \<open>The projection of a narrative\<close>

record ProjectedClaim =
  pjc_public_id :: string
  pjc_claim :: string
  pjc_evidence_confidence :: "pyfloat option"
  pjc_confidence_method :: "string option"
  pjc_source_ids :: "string list"

record ProjectedXPost =
  pjx_url :: string
  pjx_handle :: string
  pjx_role :: x_post_role
  pjx_summary :: string

record Projection =
  pj_company_name :: "string option"
  pj_stages :: "PublicStage list"
  pj_claims :: "ProjectedClaim list"
  pj_sources :: "PublicSource list"
  pj_variant_perception :: "PublicVariantPerception option"
  pj_trigger_summary :: "string option"
  pj_x_summary :: "string option"
  pj_x_posts :: "ProjectedXPost list"
  pj_conviction_rationale :: "string option"
  pj_extraordinary_opportunity_summary :: "string option"
  pj_conditions :: "PublicConditions option"

definition claim_public_id :: "(string \<Rightarrow> string) \<Rightarrow> string \<Rightarrow> string \<Rightarrow> string" where
  "claim_public_id sha256 public_id i = ''claim_'' @ take 24 (sha256 (public_id @ ''/'' @ i))"

definition published_claims :: "(string \<times> PublicSource) list \<Rightarrow> PublicNarrative \<Rightarrow> PublicClaimDraft list" where
  "published_claims sources n = filter (\<lambda>c. pc_approved_for_publication c \<and>
     set (pc_source_refs c) \<subseteq> fst ` set sources) (pn_claims n)"

definition project_claim :: "(string \<Rightarrow> string) \<Rightarrow> string \<Rightarrow> (string \<times> PublicSource) list \<Rightarrow> PublicClaimDraft \<Rightarrow>
    ProjectedClaim" where
  "project_claim sha256 public_id sources c =
    \<lparr>pjc_public_id = claim_public_id sha256 public_id (pc_claim_id c), pjc_claim = pc_text c,
     pjc_evidence_confidence = pc_evidence_confidence c,
     pjc_confidence_method = map_option (\<lambda>_. ''model_assessed_evidence'') (pc_evidence_confidence c),
     pjc_source_ids = map (\<lambda>r. pq_public_id (the (map_of sources r))) (pc_source_refs c)\<rparr>"

definition project_post :: "PublicXPost \<Rightarrow> ProjectedXPost" where
  "project_post p = \<lparr>pjx_url = PublicXPost.xp_url p,
     pjx_handle = (case canonical_x_post (PublicXPost.xp_url p) of None \<Rightarrow> [] | Some (handle, _) \<Rightarrow> handle),
     pjx_role = xp_role p, pjx_summary = xp_summary p\<rparr>"

text \<open>A projected stage and variant name their claims by public identifiers; the stage times keep their instants.\<close>

definition narrative_projection :: "(string \<Rightarrow> string) \<Rightarrow> PublicNarrative option \<Rightarrow> (string \<times> PublicSource) list \<Rightarrow>
    string \<Rightarrow> Projection option" where
  "narrative_projection sha256 narrative sources public_id = (case narrative of
     None \<Rightarrow> None
   | Some n \<Rightarrow>
       if \<not> pn_approved_for_publication n then None
       else if \<not> set (pn_required_source_refs n) \<subseteq> fst ` set sources then None
       else let claims = published_claims sources n; ids = pc_claim_id ` set claims;
           public_ids = map (claim_public_id sha256 public_id) in
         Some \<lparr>pj_company_name = pn_company_name n,
           pj_stages = map (\<lambda>s. s\<lparr>ps_claim_ids := public_ids (ps_claim_ids s)\<rparr>)
             (filter (\<lambda>s. set (ps_claim_ids s) \<subseteq> ids) (pn_stages n)),
           pj_claims = map (project_claim sha256 public_id sources) claims,
           pj_sources = map (\<lambda>r. the (map_of sources r))
             (sorted_list_of_set (set (pn_required_source_refs n) \<union> (\<Union>c\<in>set claims. set (pc_source_refs c)))),
           pj_variant_perception = (case pn_variant_perception n of None \<Rightarrow> None
             | Some v \<Rightarrow> if set (pv_claim_ids v) \<subseteq> ids then Some (v\<lparr>pv_claim_ids := public_ids (pv_claim_ids v)\<rparr>)
                 else None),
           pj_trigger_summary = pn_trigger_summary n, pj_x_summary = pn_x_summary n,
           pj_x_posts = map project_post (pn_x_posts n),
           pj_conviction_rationale = pn_conviction_rationale n,
           pj_extraordinary_opportunity_summary = pn_extraordinary_opportunity_summary n,
           pj_conditions = pn_conditions n\<rparr>)"

section \<open>The check of the trusted worker\<close>

fun stage_value :: "stage_name \<Rightarrow> string" where
  "stage_value initial_thesis_stage = ''initial_thesis''"
| "stage_value counter_thesis_stage = ''counter_thesis''"
| "stage_value adversarial_refinement_stage = ''adversarial_refinement''"
| "stage_value refined_thesis_stage = ''refined_thesis''"
| "stage_value what_is_priced_in_stage = ''what_is_priced_in''"

definition PUBLIC_STAGES :: "string list" where
  "PUBLIC_STAGES = [''adversarial_refinement'', ''counter_thesis'', ''initial_thesis'', ''refined_thesis'',
     ''what_is_priced_in'']"

text \<open>What keeps a decision's reasoning off the trace; each constructor is one of the messages.\<close>

datatype narrative_gap = NotApproved | MissingStages "string list" | NoInvalidation | NoXPosts

definition public_narrative_gap :: "(string \<Rightarrow> string) \<Rightarrow> InvestmentDecisionRecord \<Rightarrow> narrative_gap option" where
  "public_narrative_gap sha256 d = (case narrative_projection sha256 (public_narrative d) [] ''check'' of
     None \<Rightarrow> Some NotApproved
   | Some p \<Rightarrow>
       let missing = filter (\<lambda>s. s \<notin> stage_value ` ps_stage ` set (pj_stages p)) PUBLIC_STAGES in
       if missing \<noteq> [] then Some (MissingStages missing)
       else if \<not> truthy (pj_conviction_rationale p) \<or>
           (case pj_conditions p of None \<Rightarrow> True | Some c \<Rightarrow> pcd_invalidation c = [])
         then Some NoInvalidation
       else if xu_used (x_signal_usage d) \<and> pj_x_posts p = [] then Some NoXPosts
       else None)"

end
