(* ===== verification/ReviewGates.thy ===== *)
theory ReviewGates
  imports Narratives HoldingReviews Submission
begin

text \<open>
  What the trusted worker demands of a review before it accepts it (\<open>app/reason/worker.py\<close>): the hunt, the due
  short calls, the cited posts, the reviews of the holdings, the challengers cash cannot fund, the answer to the
  exposure check and the buys an earlier review had held back. The source joins the messages of the problems it
  finds into one text, or returns \<open>None\<close>; here a gate returns the list of its problems, each message a
  constructor with the values it names, and the empty list is \<open>None\<close>.
\<close>

section \<open>The tables\<close>

record HeldBackBuy =
  hb_decision_id :: string
  hb_ticker :: string
  hb_account_id :: string
  hb_cause :: string
  hb_held_at :: instant
  hb_decided_at :: "instant option"

record TriageRow =
  tg_post_id :: string
  tg_ticker :: string
  tg_account_id :: string
  tg_changes_thesis :: bool
  tg_note :: string
  tg_attempt_id :: string
  tg_decided_at :: instant

record Citation =
  ci_post_id :: string
  ci_attempt_id :: string
  ci_subject :: string
  ci_ticker :: string
  ci_role :: x_post_role
  ci_cited_at :: instant

text \<open>The ledger a review publishes: candidates, exposure decision, earnings dates and challengers.\<close>

record LedgerCandidate =
  lc_ticker :: string
  lc_outcome :: Decision
  lc_clears_entry_bar :: bool
  lc_idea_source :: string
  lc_reason :: string
  lc_sources :: "string list"
  lc_x_posts :: "CitedXPost list"

record LedgerChallenger =
  lh_candidate :: string
  lh_incumbent :: string
  lh_verdict :: challenger_verdict
  lh_why_weakest :: string
  lh_reasoning :: string

record ReviewLedger =
  lg_attempt_id :: string
  lg_candidates :: "LedgerCandidate list"
  lg_exposure :: "AuthoredExposureDecision option"
  lg_earnings :: "AuthoredEarningsDate list"
  lg_challengers :: "LedgerChallenger list"
  lg_recorded_at :: instant

record worker_db =
  wd_review :: review_db
  wd_thesis_reviews :: "ThesisReview list"
  wd_calendar :: "CalendarEvent list"
  wd_x :: x_db
  wd_triage :: "TriageRow list"
  wd_citations :: "Citation list"
  wd_held_back :: "HeldBackBuy list"
  wd_ledgers :: "ReviewLedger list"

definition wd_core :: "worker_db \<Rightarrow> core_db" where
  "wd_core db = rv_core (wd_review db)"

definition triage_key :: "TriageRow \<Rightarrow> string \<times> string \<times> string" where
  "triage_key w = (tg_post_id w, tg_ticker w, tg_account_id w)"

text \<open>What the selection of the due holdings reads.\<close>

definition due_inputs :: "worker_db \<Rightarrow> review_inputs" where
  "due_inputs db = \<lparr>ri_core = wd_core db, ri_reviews = wd_thesis_reviews db,
     ri_triggers = rt_triggers (rv_runtime (wd_review db)), ri_calendar = wd_calendar db, ri_x = wd_x db,
     ri_triage = map triage_key (wd_triage db), ri_prices = rv_prices (wd_review db)\<rparr>"

section \<open>Constants\<close>

definition HUNT_MINIMUM :: int where "HUNT_MINIMUM = 3"

definition MARKET_TESTED_REASONS :: "string list" where
  "MARKET_TESTED_REASONS = [''below_invalidation_price'', ''down_40_percent_from_cost'', ''down_15_percent_from_cost'']"

definition MARKET_EXCESS_TOLERANCE :: pyfloat where "MARKET_EXCESS_TOLERANCE = 5"
definition HUNT_SLOTS :: "string list" where "HUNT_SLOTS = [''morning'', ''midday'']"

definition PROTECTIVE_REASONS :: "string list" where
  "PROTECTIVE_REASONS = [''below_invalidation_price'', ''down_40_percent_from_cost'', ''invalidated_without_exit'']"

definition MIN_INITIAL_POSITION :: pyfloat where "MIN_INITIAL_POSITION = fl (1 / 20)"

definition priced_call :: "Decision \<Rightarrow> bool" where
  "priced_call d = (actionable d \<or> d \<in> {SHORT_WATCHLIST, SHORT_WATCHLIST_REMOVE})"

definition narrated_call :: "Decision \<Rightarrow> bool" where
  "narrated_call d = (actionable d \<or> d = SHORT_WATCHLIST)"

definition exit_of :: "InvestmentDecisionRecord \<Rightarrow> bool" where
  "exit_of d = (decision d \<in> {SELL, TRIM})"

definition exits :: "AuthoredOutput \<Rightarrow> string list" where
  "exits result = map ticker (filter exit_of (ao_decisions result))"

section \<open>The hunt\<close>

record Activity =
  act_searches :: int
  act_opens :: int
  act_reasoning_tokens :: int
  act_output_tokens :: int

datatype hunt_problem =
    ClosedMarketOrder Decision string
  | TooFewCandidates int
  | NoOpenedSource "string list"
  | NotInLedger Decision string
  | NoReferencePrice Decision string
  | NoRange Decision string
  | EntryAboveRange Decision string
  | NotPublished Decision string narrative_gap
  | TooFewPages int

text \<open>\<open>(text or "").strip()\<close> is empty.\<close>

definition unstated :: "string option \<Rightarrow> bool" where
  "unstated s = blank (case s of None \<Rightarrow> [] | Some t \<Rightarrow> t)"

definition entry_problem :: "InvestmentDecisionRecord \<Rightarrow> hunt_problem list" where
  "entry_problem d =
    (if None \<in> {realization_price_low d, realization_price_high d, invalidation_price d} \<or> unstated (range_basis d)
       then [NoRange (decision d) (ticker d)]
     else if both_and (entry_price_max d) (realization_price_low d) (\<lambda>entry low. low \<le> entry)
       then [EntryAboveRange (decision d) (ticker d)]
     else [])"

definition decision_problems :: "(string \<Rightarrow> string) \<Rightarrow> CandidateConsidered list \<Rightarrow> InvestmentDecisionRecord \<Rightarrow>
    hunt_problem list" where
  "decision_problems sha256 ledger d =
     (if map_of (rev (map (\<lambda>c. (cc_ticker c, cc_outcome c)) ledger)) (ticker d) \<noteq> Some (decision d)
        then [NotInLedger (decision d) (ticker d)] else []) @
     (if priced_call (decision d) \<and> reference_price d = None then [NoReferencePrice (decision d) (ticker d)] else []) @
     (if increasing (decision d) then entry_problem d else []) @
     (if narrated_call (decision d) then (case public_narrative_gap sha256 d of
          None \<Rightarrow> [] | Some gap \<Rightarrow> [NotPublished (decision d) (ticker d) gap]) else [])"

definition distinct_candidates :: "AuthoredOutput \<Rightarrow> string list \<Rightarrow> int" where
  "distinct_candidates result held =
     int (length (remdups (filter (\<lambda>t. t \<notin> set held) (map cc_ticker (ao_candidates_considered result)))))"

definition hunt_shortfall :: "(string \<Rightarrow> string) \<Rightarrow> AuthoredOutput \<Rightarrow> Activity \<Rightarrow> int \<Rightarrow> bool \<Rightarrow> string list \<Rightarrow>
    hunt_problem list" where
  "hunt_shortfall sha256 result activity minimum trading_open held =
    (if minimum \<le> 0 then []
     else let ledger = ao_candidates_considered result;
           unsourced = sort (map cc_ticker (filter (\<lambda>c. \<not> list_ex http_url (cc_sources_opened c)) ledger))
       in (if trading_open then []
           else map (\<lambda>d. ClosedMarketOrder (decision d) (ticker d)) (filter (\<lambda>d. actionable (decision d)) (ao_decisions result))) @
         (if distinct_candidates result held < minimum then [TooFewCandidates (distinct_candidates result held)] else []) @
         (if unsourced \<noteq> [] then [NoOpenedSource unsourced] else []) @
         concat (map (decision_problems sha256 ledger) (ao_decisions result)) @
         (if act_opens activity < minimum then [TooFewPages (act_opens activity)] else []))"

section \<open>Due short calls\<close>

datatype short_problem =
    ShortUnanswered string "string list"
  | ShortExtendedAgain string "string list"
  | ShortConditionsTripped string

definition account_scope :: "RuntimeRun \<Rightarrow> ExecutionMode \<times> string option" where
  "account_scope run = (case ru_mode run of LiveMode \<Rightarrow> (LIVE, Some (ru_execution_profile_id run))
     | PaperMode \<Rightarrow> (PAPER, None))"

definition short_answers :: "AuthoredOutput \<Rightarrow> (string \<times> InvestmentDecisionRecord) list" where
  "short_answers result = rev (map (\<lambda>d. (ticker d, d))
     (filter (\<lambda>d. decision d \<in> {SHORT_WATCHLIST, SHORT_WATCHLIST_REMOVE}) (ao_decisions result)))"

text \<open>The call with its last declaration's conditions replaced by the ones the review states.\<close>

definition reunderwritten :: "ShortCall \<Rightarrow> InvestmentDecisionRecord \<Rightarrow> ShortCall" where
  "reunderwritten call answer = call\<lparr>sh_declarations := butlast (sh_declarations call) @
     [(last (sh_declarations call))\<lparr>sd_removal_conditions := short_removal_conditions answer\<rparr>]\<rparr>"

definition short_problems :: "(string \<times> InvestmentDecisionRecord) list \<Rightarrow> pydate \<Rightarrow> pyfloat option \<Rightarrow> ShortCall \<Rightarrow>
    short_problem list" where
  "short_problems answers on_date close call =
    (let due = short_removal_status call close on_date in
     if sh_removed_at call \<noteq> None \<or> due = [] then []
     else (case map_of answers (sh_ticker call) of
         None \<Rightarrow> [ShortUnanswered (sh_ticker call) due]
       | Some answer \<Rightarrow>
           if decision answer \<noteq> SHORT_WATCHLIST then []
           else if 2 \<le> length (sh_declarations call) then [ShortExtendedAgain (sh_ticker call) due]
           else if short_removal_status (reunderwritten call answer) close on_date \<noteq> []
             then [ShortConditionsTripped (sh_ticker call)]
           else []))"

definition close_through :: "PriceBar list \<Rightarrow> string \<Rightarrow> pydate \<Rightarrow> pyfloat option" where
  "close_through prices t on_date = (case rev (get_daily_prices prices t None (Some on_date)) of
     [] \<Rightarrow> None | b # _ \<Rightarrow> Some (pb_close b))"

definition unanswered_short_calls :: "worker_db \<Rightarrow> RuntimeRun \<Rightarrow> pydate \<Rightarrow> AuthoredOutput \<Rightarrow> short_problem list" where
  "unanswered_short_calls db run on_date result = concat (map
     (\<lambda>call. short_problems (short_answers result) on_date
        (close_through (rv_prices (wd_review db)) (sh_ticker call) on_date) call)
     (short_watchlist_history (wd_core db) (fst (account_scope run)) (snd (account_scope run))))"

section \<open>Sources and citations\<close>

text \<open>The pages opened and the pages needed.\<close>

definition review_sources_gap :: "AuthoredOutput \<Rightarrow> Activity \<Rightarrow> int \<Rightarrow> (int \<times> int) option" where
  "review_sources_gap result activity minimum =
    (let needed = minimum + int (length (ao_thesis_reviews result)) in
     if minimum \<le> 0 \<or> needed \<le> act_opens activity then None else Some (act_opens activity, needed))"

text \<open>\<open>url.rsplit("/", 1)[1]\<close>: a validated URL is canonical, and its last part is the status id.\<close>

definition status_id :: "string \<Rightarrow> string" where
  "status_id url = last (split_at_char CHR ''/'' url)"

definition cited_posts :: "AuthoredOutput \<Rightarrow> (string \<times> string \<times> string \<times> x_post_role) list" where
  "cited_posts result =
     concat (map (\<lambda>c. map (\<lambda>p. (status_id (cx_url p), ''candidate'', cc_ticker c, cx_role p)) (cc_x_posts c))
       (ao_candidates_considered result)) @
     concat (map (\<lambda>r. map (\<lambda>p. (status_id (cx_url p), ''thesis_review'', ar_ticker r, cx_role p)) (ar_x_posts r))
       (ao_thesis_reviews result)) @
     concat (map (\<lambda>d. List.map_filter (\<lambda>p. map_option (\<lambda>(_, i). (i, ''decision'', ticker d, xp_role p))
         (canonical_x_post (PublicXPost.xp_url p)))
       (case public_narrative d of None \<Rightarrow> [] | Some n \<Rightarrow> pn_x_posts n)) (ao_decisions result))"

definition uncollected_x_citations :: "worker_db \<Rightarrow> AuthoredOutput \<Rightarrow> string list" where
  "uncollected_x_citations db result = sort (remdups (filter (\<lambda>i. find_row row_id i (x_posts (wd_x db)) = None)
     (map fst (cited_posts result))))"

definition undecided_held_back_buys :: "worker_db \<Rightarrow> RuntimeRun \<Rightarrow> AuthoredOutput \<Rightarrow> string list" where
  "undecided_held_back_buys db run result = sort (remdups (filter
     (\<lambda>t. t \<notin> set (map cc_ticker (ao_candidates_considered result)))
     (map hb_ticker (filter (\<lambda>h. hb_account_id h = ru_account_id run \<and> hb_decided_at h = None \<and>
        julianday (hb_held_at h) < julianday (ru_prepared_at run)) (wd_held_back db)))))"

definition starting_snapshot :: "worker_db \<Rightarrow> RuntimeRun \<Rightarrow> LivePortfolioSnapshot result" where
  "starting_snapshot db run = (case get_reasoning_run (wd_core db) (text_or (ru_reasoning_run_id run) []) of
     None \<Rightarrow> Inl (RunnerFailure ''snapshot_stale'')
   | Some legacy \<Rightarrow> (case get_live_portfolio_snapshot (wd_core db) (rr_portfolio_snapshot_id legacy) of
       None \<Rightarrow> Inl (RunnerFailure ''snapshot_stale'') | Some snap \<Rightarrow> Inr snap))"

end
