(* ===== verification/HoldingGates.thy ===== *)
theory HoldingGates
  imports ReviewGates
begin

text \<open>
  The demands a review of live holdings meets (\<open>app/reason/worker.py\<close>): the due holdings it left unanswered, the
  challengers cash cannot fund, the exposure decision it owed, and all the demands of the worker together
  (\<open>_review_shortfall\<close>).
\<close>

section \<open>Holdings left unanswered\<close>

datatype review_omission = NoReview | NoSummary | NoSource | NoRestatedRange

definition review_gap :: "AuthoredThesisReview \<Rightarrow> review_omission option" where
  "review_gap r =
    (if \<not> truthy (ar_summary r) then Some NoSummary
     else if \<not> list_ex http_url (ar_sources_opened r) then Some NoSource
     else if None \<in> {ar_realization_price_low r, ar_realization_price_high r, ar_invalidation_price r} \<or>
         unstated (ar_range_basis r) then Some NoRestatedRange
     else None)"

text \<open>The gap of a review looked up by its episode.\<close>

definition answer_gap :: "AuthoredThesisReview option \<Rightarrow> review_omission option" where
  "answer_gap r = (case r of None \<Rightarrow> Some NoReview | Some a \<Rightarrow> review_gap a)"

datatype holding_problem =
    UnknownEpisode string string
  | NoTriageVerdict string string
  | DueReview string "string list" string review_omission
  | NoExit string
  | InvalidatedWithoutExit string
  | MoveUnattributed string "string list"
  | MarketUnproven string "pyfloat option"
  | LoosenedWithoutFact string
  | AtOrAboveRange string pyfloat pyfloat
  | AtOrBelowInvalidation string pyfloat pyfloat

definition review_of :: "AuthoredOutput \<Rightarrow> string \<Rightarrow> AuthoredThesisReview option" where
  "review_of result = map_of (rev (map (\<lambda>r. (ar_episode_id r, r)) (ao_thesis_reviews result)))"

definition verdict_of :: "AuthoredOutput \<Rightarrow> string \<times> string \<Rightarrow> AuthoredXTriage option" where
  "verdict_of result = map_of (rev (map (\<lambda>v. ((xt_post_id v, xt_ticker v), v)) (ao_x_triage result)))"

text \<open>Whether a due holding needs a review: a reason other than a missing exit, or a thesis-changing headline.\<close>

definition needs_review :: "AuthoredOutput \<Rightarrow> HoldingDue \<Rightarrow> bool" where
  "needs_review result h = (set (hd_reasons h) - {''invalidated_without_exit''} \<noteq> {} \<or>
     list_ex (\<lambda>x. case verdict_of result (xh_post_id x, ep_ticker (hd_episode h)) of
        None \<Rightarrow> False | Some v \<Rightarrow> xt_changes_thesis v) (hd_x_headlines h))"

definition due_problems :: "AuthoredOutput \<Rightarrow> bool \<Rightarrow> HoldingDue \<Rightarrow> holding_problem list" where
  "due_problems result trading_open h =
    (let t = ep_ticker (hd_episode h); episode = ep_episode_id (hd_episode h) in
     map (\<lambda>x. NoTriageVerdict (xh_post_id x) t)
       (filter (\<lambda>x. verdict_of result (xh_post_id x, t) = None) (hd_x_headlines h)) @
     (if needs_review result h then (case answer_gap (review_of result episode) of
          None \<Rightarrow> [] | Some gap \<Rightarrow> [DueReview t (hd_reasons h) episode gap]) else []) @
     (if ''invalidated_without_exit'' \<in> set (hd_reasons h) \<and> trading_open \<and> t \<notin> set (exits result)
        then [NoExit t] else []))"

text \<open>The prices of the starting snapshot's reported positions.\<close>

definition reported_prices :: "LivePortfolioSnapshot \<Rightarrow> (string \<times> pyfloat) list" where
  "reported_prices snap = rev (List.map_filter (\<lambda>p. map_option (\<lambda>x. (rp_ticker p, fl x)) (rp_price p))
     (case ls_reporting snap of None \<Rightarrow> [] | Some v \<Rightarrow> (case vo_positions v of None \<Rightarrow> [] | Some ps \<Rightarrow> ps)))"

definition above :: "pyfloat \<Rightarrow> pyfloat option \<Rightarrow> bool result" where
  "above x bound = (case bound of None \<Rightarrow> Inl TypeError | Some b \<Rightarrow> Inr (b < x))"

definition loosened :: "StatedRange option \<Rightarrow> pyfloat \<Rightarrow> pyfloat \<Rightarrow> pyfloat \<Rightarrow> bool result" where
  "loosened stated low high floor_price = (case stated of None \<Rightarrow> Inr False
   | Some s \<Rightarrow> and_then (above low (sg_realization_price_low s)) (\<lambda>raised. if raised then Inr True
       else and_then (above high (sg_realization_price_high s)) (\<lambda>raised. if raised then Inr True
       else Inr (case sg_invalidation_price s of None \<Rightarrow> False | Some i \<Rightarrow> floor_price < i))))"

definition market_blame :: "worker_db \<Rightarrow> LivePortfolioSnapshot \<Rightarrow> RuntimeRun \<Rightarrow> AuthoredThesisReview \<Rightarrow> bool \<Rightarrow>
    holding_problem list result" where
  "market_blame db snap run r loose = (if \<not> loose \<or> ar_move_attribution r \<noteq> Some market_move then Inr []
     else and_then (market_relative_move (rv_prices (wd_review db)) snap (ar_ticker r) (ru_prepared_at run)) (\<lambda>m.
       Inr (if (case rm_excess m of None \<Rightarrow> True | Some x \<Rightarrow> MARKET_EXCESS_TOLERANCE < \<bar>x\<bar>)
         then [MarketUnproven (ar_ticker r) (rm_excess m)] else [])))"

definition price_problems :: "AuthoredOutput \<Rightarrow> bool \<Rightarrow> pyfloat option \<Rightarrow> string \<Rightarrow> pyfloat \<Rightarrow> pyfloat \<Rightarrow>
    holding_problem list" where
  "price_problems result trading_open price t high floor_price = (case price of None \<Rightarrow> []
   | Some p \<Rightarrow> if \<not> trading_open \<or> t \<in> set (exits result) then []
       else (if high \<le> p then [AtOrAboveRange t p high] else []) @
         (if p \<le> floor_price then [AtOrBelowInvalidation t p floor_price] else []))"

definition range_review_problems :: "worker_db \<Rightarrow> LivePortfolioSnapshot \<Rightarrow> RuntimeRun \<Rightarrow> AuthoredOutput \<Rightarrow> bool \<Rightarrow>
    (string \<times> Episode) list \<Rightarrow> HoldingDue list \<Rightarrow> AuthoredThesisReview \<Rightarrow> holding_problem list result" where
  "range_review_problems db snap run result trading_open episodes due r =
    (case (ar_realization_price_low r, ar_realization_price_high r, ar_invalidation_price r,
        map_of episodes (ar_ticker r)) of
      (Some low, Some high, Some floor_price, Some episode) \<Rightarrow>
        let t = ar_ticker r;
            stated = thesis_prices (wd_core db) (wd_thesis_reviews db) (ru_account_id run)
              (ru_execution_profile_id run) t (ep_episode_id episode) (ru_prepared_at run);
            price_reasons = sort (remdups (filter (\<lambda>x. x \<in> set MARKET_TESTED_REASONS)
              (concat (map hd_reasons (filter (\<lambda>h. ep_ticker (hd_episode h) = t) due)))))
        in and_then (loosened stated low high floor_price) (\<lambda>loose.
           and_then (market_blame db snap run r loose) (\<lambda>blamed.
           Inr ((if price_reasons \<noteq> [] \<and> ar_move_attribution r = None then [MoveUnattributed t price_reasons] else []) @
             blamed @
             (if loose \<and> unstated (ar_range_change_evidence r) then [LoosenedWithoutFact t] else []) @
             price_problems result trading_open (map_of (reported_prices snap) t) t high floor_price)))
    | _ \<Rightarrow> Inr [])"

definition unreviewed_holdings :: "worker_db \<Rightarrow> RuntimeRun \<Rightarrow> AuthoredOutput \<Rightarrow> bool \<Rightarrow> bool \<Rightarrow>
    holding_problem list result" where
  "unreviewed_holdings db run result trading_open crisis =
    (if ru_mode run \<noteq> LiveMode then Inr []
     else and_then (starting_snapshot db run) (\<lambda>snap.
       let episodes = live_holding_episodes (wd_core db) (ru_account_id run) (ls_captured_at snap);
           reviews = ao_thesis_reviews result
       in and_then (holdings_due (due_inputs db) snap (ru_prepared_at run) crisis) (\<lambda>due.
          and_then (map_result (range_review_problems db snap run result trading_open episodes due) reviews) (\<lambda>ranges.
          Inr (map (\<lambda>r. UnknownEpisode (ar_ticker r) (ar_episode_id r))
              (filter (\<lambda>r. ar_episode_id r \<notin> ep_episode_id ` snd ` set episodes) reviews) @
            concat (map (due_problems result trading_open) due) @
            map (\<lambda>r. InvalidatedWithoutExit (ar_ticker r)) (filter (\<lambda>r. ar_state r = holding_invalidated \<and>
              trading_open \<and> ar_ticker r \<notin> set (exits result)) reviews) @
            concat ranges)))))"

section \<open>Challengers\<close>

datatype challenger_problem =
    NoChallenger string bool
  | UnknownIncumbent string string string
  | IncumbentUnreviewed string string review_omission
  | NotTheLowest string string string
  | LostYetBought string string
  | SwapLegMissing string string
  | SwapUnderfunded string pyfloat pyfloat string pyfloat

text \<open>The order of \<open>ratios[ticker] or 0.0\<close>, the negative infinity below every float.\<close>

fun ratio_less :: "ratio \<Rightarrow> ratio \<Rightarrow> bool" where
  "ratio_less a NegInfinity = False"
| "ratio_less NegInfinity (Ratio y) = True"
| "ratio_less (Ratio x) (Ratio y) = (x < y)"

text \<open>\<open>min(ratios, key=...)\<close>: the first ticker of the least ratio.\<close>

fun least_ratio :: "(string \<times> ratio) list \<Rightarrow> (string \<times> ratio) option" where
  "least_ratio [] = None"
| "least_ratio (x # xs) = (case least_ratio xs of None \<Rightarrow> Some x
     | Some y \<Rightarrow> Some (if ratio_less (snd y) (snd x) then y else x))"

definition holding_ratio :: "worker_db \<Rightarrow> LivePortfolioSnapshot \<Rightarrow> RuntimeRun \<Rightarrow> (string \<times> Episode) list \<Rightarrow> string \<Rightarrow>
    (string \<times> ratio option) result" where
  "holding_ratio db snap run episodes t = (case map_of episodes t of None \<Rightarrow> Inl KeyError
   | Some e \<Rightarrow> and_then (reward_to_risk (thesis_prices (wd_core db) (wd_thesis_reviews db) (ru_account_id run)
         (ru_execution_profile_id run) t (ep_episode_id e) (ru_prepared_at run)) (map_of (reported_prices snap) t))
       (\<lambda>(_, _, x). Inr (t, x)))"

definition lowest_holding :: "(string \<times> ratio option) list \<Rightarrow> string option" where
  "lowest_holding ratios = (if None \<in> snd ` set ratios then None
     else map_option fst (least_ratio (map (\<lambda>(t, x). (t, the x)) ratios)))"

definition declared_candidates :: "AuthoredOutput \<Rightarrow> string list" where
  "declared_candidates result = map cc_ticker (filter cc_clears_entry_bar (ao_candidates_considered result))"

text \<open>A WATCHLIST whose own entry bound sits above the price the review read.\<close>

definition buyable_watchlist :: "AuthoredOutput \<Rightarrow> string list" where
  "buyable_watchlist result = map ticker (filter (\<lambda>d. decision d = WATCHLIST \<and>
     both_and (entry_price_max d) (reference_price d) (\<lambda>entry p. p \<le> entry)) (ao_decisions result))"

definition first_decision :: "AuthoredOutput \<Rightarrow> string \<Rightarrow> Decision set \<Rightarrow> InvestmentDecisionRecord option" where
  "first_decision result t ds = find (\<lambda>d. ticker d = t \<and> decision d \<in> ds) (ao_decisions result)"

text \<open>Half a percentage point absorbs rounding in the stated weights.\<close>

definition swap_problems :: "LivePortfolioSnapshot \<Rightarrow> AuthoredOutput \<Rightarrow> AuthoredChallenger \<Rightarrow> LivePosition \<Rightarrow>
    challenger_problem list result" where
  "swap_problems snap result c incumbent =
    (let sale = first_decision result (ch_incumbent c) {SELL, TRIM};
         buy = first_decision result (ch_candidate c) {BUY}
     in if ch_verdict c = keep_incumbent
       then Inr (if buy \<noteq> None then [LostYetBought (ch_candidate c) (ch_incumbent c)] else [])
     else (case (sale, buy) of
         (Some s, Some b) \<Rightarrow>
           and_then (fdiv (lpos_market_value incumbent) (ls_account_equity snap)) (\<lambda>weight.
           and_then (fdiv (ls_buying_power snap) (ls_account_equity snap)) (\<lambda>cash.
           let freed = fadd (fsub weight (final_target_weight s)) cash in
           Inr (if fadd freed (fl (5 / 1000)) < final_target_weight b
             then [SwapUnderfunded (ch_candidate c) (final_target_weight b) freed (ch_incumbent c) (final_target_weight s)]
             else [])))
       | _ \<Rightarrow> Inr [SwapLegMissing (ch_candidate c) (ch_incumbent c)]))"

definition candidate_problems :: "LivePortfolioSnapshot \<Rightarrow> AuthoredOutput \<Rightarrow> (string \<times> Episode) list \<Rightarrow> string option \<Rightarrow>
    string \<Rightarrow> challenger_problem list result" where
  "candidate_problems snap result episodes lowest candidate =
    (case map_of (rev (map (\<lambda>c. (ch_candidate c, c)) (ao_challenger_reviews result))) candidate of
      None \<Rightarrow> Inr [NoChallenger candidate (candidate \<in> set (declared_candidates result))]
    | Some c \<Rightarrow>
        (case (map_of (rev (map (\<lambda>p. (lpos_ticker p, p)) (ls_positions snap))) (ch_incumbent c),
            map_of episodes (ch_incumbent c)) of
          (Some incumbent, Some episode) \<Rightarrow>
            if ep_episode_id episode \<noteq> ch_incumbent_episode_id c
              then Inr [UnknownIncumbent candidate (ch_incumbent c) (ch_incumbent_episode_id c)]
            else and_then (swap_problems snap result c incumbent) (\<lambda>swaps.
              Inr ((case answer_gap (review_of result (ep_episode_id episode)) of None \<Rightarrow> []
                  | Some gap \<Rightarrow> [IncumbentUnreviewed candidate (ch_incumbent c) gap]) @
                (case lowest of None \<Rightarrow> [] | Some l \<Rightarrow> if ch_incumbent c \<noteq> l \<and> unstated (ch_ranking_departure c)
                   then [NotTheLowest candidate (ch_incumbent c) l] else []) @
                swaps))
        | _ \<Rightarrow> Inr [UnknownIncumbent candidate (ch_incumbent c) (ch_incumbent_episode_id c)]))"

definition unfunded_candidates :: "LivePortfolioSnapshot \<Rightarrow> AuthoredOutput \<Rightarrow> string list" where
  "unfunded_candidates snap result = sort (remdups (filter (\<lambda>t. t \<notin> lpos_ticker ` set (ls_positions snap))
     (declared_candidates result @ buyable_watchlist result)))"

definition unanswered_challengers :: "worker_db \<Rightarrow> RuntimeRun \<Rightarrow> AuthoredOutput \<Rightarrow> bool \<Rightarrow> bool \<Rightarrow>
    challenger_problem list result" where
  "unanswered_challengers db run result trading_open crisis =
    (if ru_mode run \<noteq> LiveMode \<or> \<not> trading_open \<or> crisis then Inr []
     else and_then (starting_snapshot db run) (\<lambda>snap.
       if fmul MIN_INITIAL_POSITION (ls_account_equity snap) \<le> ls_buying_power snap then Inr []
       else let episodes = live_holding_episodes (wd_core db) (ru_account_id run) (ls_captured_at snap) in
         and_then (map_result (holding_ratio db snap run episodes) (map lpos_ticker (ls_positions snap))) (\<lambda>ratios.
         and_then (map_result (candidate_problems snap result episodes (lowest_holding ratios))
           (unfunded_candidates snap result)) (\<lambda>problems. Inr (concat problems)))))"

section \<open>The exposure decision\<close>

datatype exposure_why = OverExposed ExposureCheck | LastBeforeWeekend

datatype exposure_problem = ExposureUnanswered exposure_why | ReducedWithoutSale exposure_why

definition unanswered_exposure :: "worker_db \<Rightarrow> RuntimeRun \<Rightarrow> AuthoredOutput \<Rightarrow> bool \<Rightarrow> instant \<Rightarrow>
    exposure_problem option result" where
  "unanswered_exposure db run result trading_open now =
    (if ru_mode run \<noteq> LiveMode \<or> \<not> trading_open then Inr None
     else and_then (starting_snapshot db run) (\<lambda>snap.
       and_then (exposure_check (wd_core db) snap (ru_prepared_at run)) (\<lambda>x.
       let weekend = (ru_slot run = ''preclose'' \<and> weekday (ny_date now) = 4);
           why = (if xc_over_exposed x then OverExposed x else LastBeforeWeekend)
       in Inr (if \<not> xc_over_exposed x \<and> \<not> weekend then None
         else (case ao_exposure_decision result of
             None \<Rightarrow> Some (ExposureUnanswered why)
           | Some d \<Rightarrow> if ax_action d = reduce_exposure \<and> \<not> list_ex exit_of (ao_decisions result)
               then Some (ReducedWithoutSale why) else None)))))"

section \<open>All the demands\<close>

datatype required_problem = Hunt hunt_problem | ShortCall_due short_problem | UncollectedPosts "string list"

text \<open>The public causes, in the order of the dictionary; a gap is known by its cause.\<close>

definition SOURCES_CAUSE :: string where "SOURCES_CAUSE = ''its holding reviews cited more sources than it opened''"
definition HOLDINGS_CAUSE :: string where "HOLDINGS_CAUSE = ''it left a holding's review unanswered''"
definition CHALLENGER_CAUSE :: string where "CHALLENGER_CAUSE = ''it left a challenger to a holding unanswered''"
definition EXPOSURE_CAUSE :: string where "EXPOSURE_CAUSE = ''it left the portfolio's exposure unanswered''"
definition HELD_BACK_CAUSE :: string where "HELD_BACK_CAUSE = ''it left a held-back buy undecided''"

lemmas cause_defs = SOURCES_CAUSE_def HOLDINGS_CAUSE_def CHALLENGER_CAUSE_def EXPOSURE_CAUSE_def HELD_BACK_CAUSE_def

datatype gap =
    SourcesGap int int
  | Unreviewed "holding_problem list"
  | Unchallenged "challenger_problem list"
  | Unexposed exposure_problem
  | Undecided "string list"

definition held_tickers :: "worker_db \<Rightarrow> RuntimeRun \<Rightarrow> string list result" where
  "held_tickers db run = (case ru_mode run of
     LiveMode \<Rightarrow> and_then (starting_snapshot db run) (\<lambda>snap. Inr (map lpos_ticker (ls_positions snap)))
   | PaperMode \<Rightarrow> position_tickers (paper_tables (wd_review db)))"

text \<open>\<open>on_date\<close> and \<open>now\<close> come from two readings of the clock.\<close>

definition review_shortfall :: "(string \<Rightarrow> string) \<Rightarrow> worker_db \<Rightarrow> RuntimeRun \<Rightarrow> AuthoredOutput \<Rightarrow> Activity \<Rightarrow> int \<Rightarrow>
    bool \<Rightarrow> pydate \<Rightarrow> instant \<Rightarrow> bool \<Rightarrow> (required_problem list \<times> (string \<times> gap) list) result" where
  "review_shortfall sha256 db run result activity required trading_open on_date now crisis =
     and_then (held_tickers db run) (\<lambda>held.
     and_then (unreviewed_holdings db run result trading_open crisis) (\<lambda>holdings.
     and_then (unanswered_challengers db run result trading_open crisis) (\<lambda>challengers.
     and_then (unanswered_exposure db run result trading_open now) (\<lambda>exposure.
     let uncollected = uncollected_x_citations db result; undecided = undecided_held_back_buys db run result in
     Inr (map Hunt (hunt_shortfall sha256 result activity required trading_open held) @
         map ShortCall_due (unanswered_short_calls db run on_date result) @
         (if uncollected \<noteq> [] then [UncollectedPosts uncollected] else []),
       (case review_sources_gap result activity required of None \<Rightarrow> []
          | Some (opened, needed) \<Rightarrow> [(SOURCES_CAUSE, SourcesGap opened needed)]) @
       (if holdings \<noteq> [] then [(HOLDINGS_CAUSE, Unreviewed holdings)] else []) @
       (if challengers \<noteq> [] then [(CHALLENGER_CAUSE, Unchallenged challengers)] else []) @
       (case exposure of None \<Rightarrow> [] | Some p \<Rightarrow> [(EXPOSURE_CAUSE, Unexposed p)]) @
       (if undecided \<noteq> [] then [(HELD_BACK_CAUSE, Undecided undecided)] else []))))))"

end
