(* ===== verification/PaperReport.thy ===== *)
theory PaperReport
  imports PaperBroker Calendar
begin

text \<open>
  The reporting observations of the paper account (\<open>app/performance/paper.py\<close>): the fills replayed session by
  session into fill and valuation observations, up to the moment of the report. Every Decimal operation rounds to
  the default context; a dictionary is an association list; an early return is the value \<open>Stopped\<close>.
\<close>

section \<open>The fills\<close>

record ReplayFill =
  rf_fill :: PaperFill
  rf_created_at :: instant
  rf_decision :: InvestmentDecisionRecord

text \<open>The first query: a fill without an intent or with one that isn't a paper one.\<close>

definition foreign_fill :: "core_db \<Rightarrow> PaperFill \<Rightarrow> bool" where
  "foreign_fill core f = (case get_order_intent core (pf_order_intent_id f) of
     None \<Rightarrow> True | Some i \<Rightarrow> oi_execution_mode i \<noteq> PAPER)"

definition replay_of :: "core_db \<Rightarrow> PaperFill \<Rightarrow> ReplayFill option" where
  "replay_of core f = (case get_order_intent core (pf_order_intent_id f) of
     None \<Rightarrow> None
   | Some i \<Rightarrow> if oi_execution_mode i \<noteq> PAPER then None
       else map_option (\<lambda>d. \<lparr>rf_fill = f, rf_created_at = oi_created_at i, rf_decision = d\<rparr>)
         (get_decision_record core (oi_decision_id i)))"

definition replay_order :: "ReplayFill \<Rightarrow> pydate \<times> instant \<times> string" where
  "replay_order r = (pf_fill_date (rf_fill r), pf_filled_at (rf_fill r), pf_fill_id (rf_fill r))"

definition replay_fills :: "paper_db \<Rightarrow> ReplayFill list" where
  "replay_fills db = sort_key replay_order (List.map_filter (replay_of (pd_core db)) (pd_fills db))"

text \<open>The days of the replay: those of the fills, and those priced from the first fill on.\<close>

definition replay_days :: "PriceBar list \<Rightarrow> ReplayFill list \<Rightarrow> pydate list" where
  "replay_days prices fills = (let tickers = map (\<lambda>r. pf_ticker (rf_fill r)) fills;
       first = pf_fill_date (rf_fill (hd fills)) in
     sort (remdups (map pb_bar_date (filter (\<lambda>b. pb_ticker b \<in> set tickers \<and> first \<le> pb_bar_date b) prices) @
       map (\<lambda>r. pf_fill_date (rf_fill r)) fills)))"

definition price_on :: "PriceBar list \<Rightarrow> string \<Rightarrow> pydate \<Rightarrow> rat option" where
  "price_on prices t day = map_option (\<lambda>b. decimal_of_float (pb_close b))
     (find (\<lambda>b. pb_ticker b = t \<and> pb_bar_date b = day) prices)"

section \<open>The replay\<close>

record PaperWalk =
  pw_quantities :: "(string \<times> rat) list"
  pw_costs :: "(string \<times> rat) list"
  pw_themes :: "(string \<times> string option) list"
  pw_cash :: rat
  pw_fills :: "ReplayFill list"
  pw_index :: int
  pw_observations :: "ReportingObservation list"

datatype walk = Stopped string | Walking PaperWalk

definition on_walk :: "(PaperWalk \<Rightarrow> walk result) \<Rightarrow> walk \<Rightarrow> walk result" where
  "on_walk f w = (case w of Stopped issue \<Rightarrow> Inr (Stopped issue) | Walking s \<Rightarrow> f s)"

definition amount_of :: "(string \<times> rat) list \<Rightarrow> string \<Rightarrow> rat" where
  "amount_of xs t = (case map_of xs t of None \<Rightarrow> 0 | Some x \<Rightarrow> x)"

definition dec_div :: "rat \<Rightarrow> rat \<Rightarrow> rat result" where
  "dec_div x y = (if y = 0 then Inl ZeroDivisionError else Inr (dec 28 (x / y)))"

definition observed :: "ReportingObservation \<Rightarrow> PaperWalk \<Rightarrow> PaperWalk result" where
  "observed x s = and_then (OBSERVATION_ADAPTER x) (\<lambda>y. Inr (s\<lparr>pw_observations := pw_observations s @ [y]\<rparr>))"

definition fill_observation :: "ReplayFill \<Rightarrow> instant \<Rightarrow> int \<Rightarrow> rat \<Rightarrow> rat \<Rightarrow> rat \<Rightarrow> FillObservation" where
  "fill_observation r fill_at index shares price notional = (let f = rf_fill r in
     \<lparr>ob_observation_id = pf_fill_id f, ob_external_event_id = pf_fill_id f, ob_mode = PaperMode,
      ob_account_id = ''paper'', ob_occurred_at = fill_at, ob_recorded_at = fill_at, ob_sequence = index,
      ob_supersedes = None, ob_voided = False, fi_ticker = pf_ticker f,
      fi_side = (if pf_side f = SIDE_BUY then FILL_BUY else FILL_SELL), fi_quantity = shares, fi_price = price,
      fi_gross_notional = notional, fi_fee = Some 0, fi_origin = agent_origin,
      fi_decision_id = Some (decision_id (rf_decision r)), fi_order_external_id = None, fi_order_state = filled,
      fi_canceled_quantity = 0, fi_settled_at = None\<rparr>)"

text \<open>The new quantity, the average cost after a purchase and the cash.\<close>

definition traded :: "ReplayFill \<Rightarrow> rat \<Rightarrow> rat \<Rightarrow> PaperWalk \<Rightarrow> PaperWalk result" where
  "traded r shares price s =
    (let t = pf_ticker (rf_fill r); previous = amount_of (pw_quantities s) t; paid = dec 28 (shares * price) in
     if pf_side (rf_fill r) = SIDE_BUY then
       and_then (dec_div (dec 28 (dec 28 (previous * amount_of (pw_costs s) t) + paid)) (dec 28 (previous + shares)))
         (\<lambda>cost. Inr (s\<lparr>pw_costs := AList.update t cost (pw_costs s),
           pw_quantities := AList.update t (dec 28 (previous + shares)) (pw_quantities s),
           pw_cash := dec 28 (pw_cash s - paid)\<rparr>))
     else Inr (s\<lparr>pw_quantities := AList.update t (dec 28 (previous - shares)) (pw_quantities s),
       pw_cash := dec 28 (pw_cash s + paid)\<rparr>))"

definition SHARE_DUST :: rat where "SHARE_DUST = 1 / 10 ^ 9"

definition settled_quantity :: "ReplayFill \<Rightarrow> PaperWalk \<Rightarrow> walk" where
  "settled_quantity r s = (let t = pf_ticker (rf_fill r); q = amount_of (pw_quantities s) t in
     if q < - SHARE_DUST then Stopped ''paper_position_activity_does_not_reconcile''
     else Walking (s\<lparr>pw_quantities := (if \<bar>q\<bar> < SHARE_DUST then AList.update t 0 (pw_quantities s) else pw_quantities s),
       pw_themes := AList.update t (primary_theme_id (rf_decision r)) (pw_themes s),
       pw_fills := tl (pw_fills s), pw_index := pw_index s + 1\<rparr>))"

definition replay_one :: "instant \<Rightarrow> ReplayFill \<Rightarrow> PaperWalk \<Rightarrow> walk result" where
  "replay_one observed_at r s =
    (let f = rf_fill r; shares = decimal_of_float (pf_shares f); price = decimal_of_float (pf_price f);
         fill_at = ny_combine (pf_fill_date f) (clock 9 30) in
     if observed_at < fill_at then Inr (Stopped ''paper_fill_not_yet_observable'')
     else and_then (quantize 28 2 (dec 28 (shares * price))) (\<lambda>notional.
          and_then (observed (Fill (fill_observation r fill_at (pw_index s) shares price notional)) s) (\<lambda>s1.
          and_then (traded r shares price s1) (\<lambda>s2. Inr (settled_quantity r s2)))))"

text \<open>The inner loop: the fills dated no later than the day, from the front of the remaining ones.\<close>

definition due_fills :: "pydate \<Rightarrow> PaperWalk \<Rightarrow> ReplayFill list" where
  "due_fills day s = takeWhile (\<lambda>r. pf_fill_date (rf_fill r) \<le> day) (pw_fills s)"

definition replay_day_fills :: "instant \<Rightarrow> pydate \<Rightarrow> PaperWalk \<Rightarrow> walk result" where
  "replay_day_fills observed_at day s =
     fold_result (\<lambda>r. on_walk (replay_one observed_at r)) (due_fills day s) (Walking s)"

definition held_position :: "PaperWalk \<Rightarrow> instant \<Rightarrow> rat option \<Rightarrow> string \<Rightarrow> rat \<Rightarrow> ReportingPosition result" where
  "held_position s instant close t q =
     and_then (quantize 28 18 q) (\<lambda>shares.
     and_then (case map_of (pw_costs s) t of None \<Rightarrow> Inl KeyError | Some c \<Rightarrow> quantize 28 8 c) (\<lambda>cost.
     and_then (case close of None \<Rightarrow> Inr None
         | Some p \<Rightarrow> and_then (quantize 28 2 (dec 28 (q * p))) (\<lambda>v. Inr (Some v))) (\<lambda>value.
     let p = \<lparr>rp_ticker = t, rp_quantity = Some shares, rp_market_value = value, rp_average_cost = Some cost,
       rp_price = close, rp_quote_at = (if close = None then None else Some instant),
       rp_price_quality = (if close = None then missing_price else current_price), rp_name = None,
       rp_theme = (case map_of (pw_themes s) t of None \<Rightarrow> None | Some theme \<Rightarrow> theme), rp_asset_class = unknown_class\<rparr>
     in if position_errors p = [] then Inr p else Inl (ValidationError (position_errors p)))))"

definition held_positions :: "PriceBar list \<Rightarrow> PaperWalk \<Rightarrow> bool \<Rightarrow> instant \<Rightarrow> pydate \<Rightarrow> ReportingPosition list result" where
  "held_positions prices s completed instant day =
     map_result (\<lambda>(t, q). held_position s instant (if completed then price_on prices t day else None) t q)
       (sort_key fst (filter (\<lambda>(t, q). q \<noteq> 0) (pw_quantities s)))"

definition day_valuation :: "PaperWalk \<Rightarrow> ReportingPosition list \<Rightarrow> bool \<Rightarrow> instant \<Rightarrow> pydate \<Rightarrow> pydate \<Rightarrow> rat \<Rightarrow>
    ValuationObservation" where
  "day_valuation s positions completed instant day previous cash =
    (let complete = list_all (\<lambda>p. rp_market_value p \<noteq> None) positions; i = ''paper_close_'' @ date_isoformat day in
     \<lparr>ob_observation_id = i, ob_external_event_id = i, ob_mode = PaperMode, ob_account_id = ''paper'',
      ob_occurred_at = instant, ob_recorded_at = instant, ob_sequence = 0, ob_supersedes = None, ob_voided = False,
      vo_equity = (if complete then Some (dec 28 (cash + dec_sum 28 (List.map_filter rp_market_value positions))) else None),
      vo_cash = Some cash, vo_receivables = 0, vo_liabilities = 0, vo_positions = Some positions,
      vo_complete = complete, vo_phase = (if completed then session_close_phase else intraday),
      vo_session_date = Some day, vo_previous_session_date = Some previous\<rparr>)"

definition value_day :: "PriceBar list \<Rightarrow> instant \<Rightarrow> pydate \<Rightarrow> pydate \<Rightarrow> instant \<Rightarrow> PaperWalk \<Rightarrow> walk result" where
  "value_day prices observed_at day previous close_at s =
    (let completed = (close_at \<le> observed_at); instant = (if completed then close_at else observed_at) in
     and_then (held_positions prices s completed instant day) (\<lambda>positions.
     and_then (quantize 28 2 (pw_cash s)) (\<lambda>cash.
     and_then (observed (Valuation (day_valuation s positions completed instant day previous cash)) s) (\<lambda>s'.
       Inr (Walking s')))))"

definition replay_day :: "PriceBar list \<Rightarrow> instant \<Rightarrow> pydate \<Rightarrow> PaperWalk \<Rightarrow> walk result" where
  "replay_day prices observed_at day s = (case (session_close day, previous_session day) of
     (Inl _, _) \<Rightarrow> Inr (Stopped ''paper_calendar_out_of_coverage'')
   | (_, Inl _) \<Rightarrow> Inr (Stopped ''paper_calendar_out_of_coverage'')
   | (Inr None, _) \<Rightarrow> Inr (Stopped ''paper_activity_on_non_session'')
   | (Inr (Some close_at), Inr previous) \<Rightarrow>
       if ny_date observed_at < day then Inr (Walking s)
       else and_then (replay_day_fills observed_at day s)
         (on_walk (value_day prices observed_at day previous close_at)))"

section \<open>The report\<close>

definition paper_inception :: "instant \<Rightarrow> ValuationObservation" where
  "paper_inception at_time = \<lparr>ob_observation_id = ''paper_inception'', ob_external_event_id = ''paper_inception'',
     ob_mode = PaperMode, ob_account_id = ''paper'', ob_occurred_at = at_time, ob_recorded_at = at_time,
     ob_sequence = 0, ob_supersedes = None, ob_voided = False, vo_equity = Some (decimal_of_float STARTING_CASH),
     vo_cash = Some (decimal_of_float STARTING_CASH), vo_receivables = 0, vo_liabilities = 0, vo_positions = Some [],
     vo_complete = True, vo_phase = intraday, vo_session_date = None, vo_previous_session_date = None\<rparr>"

definition paper_coverage :: "instant \<Rightarrow> instant \<Rightarrow> CoverageObservation" where
  "paper_coverage inception end_at = \<lparr>ob_observation_id = ''paper_coverage'', ob_external_event_id = ''paper_coverage'',
     ob_mode = PaperMode, ob_account_id = ''paper'', ob_occurred_at = end_at, ob_recorded_at = end_at, ob_sequence = 0,
     ob_supersedes = None, ob_voided = False, co_start_at = inception, co_end_at = end_at,
     co_external_flows_complete = True, co_activity_complete = True\<rparr>"

definition positions_agree :: "(string \<times> rat) list \<Rightarrow> PaperPosition list \<Rightarrow> bool" where
  "positions_agree quantities persisted =
    (let expected = map (\<lambda>(t, q). (t, fl q)) (filter (\<lambda>(t, q). q \<noteq> 0) quantities);
         kept = map (\<lambda>p. (pp_ticker p, pp_shares p)) persisted in
     set (map fst expected) = set (map fst kept) \<and>
     list_all (\<lambda>(t, x). case map_of kept t of None \<Rightarrow> False | Some y \<Rightarrow> \<bar>fsub x y\<bar> \<le> share_tolerance) expected)"

definition finish_report :: "paper_db \<Rightarrow> instant \<Rightarrow> PaperWalk \<Rightarrow> (ReportingObservation list \<times> string option) result" where
  "finish_report db inception s =
    (let issue = (if positions_agree (pw_quantities s) (pd_positions db) then None
           else Some ''paper_positions_do_not_reconcile'');
         end_at = ob_occurred_at (base (last (pw_observations s))) in
     if inception < end_at
       then and_then (observed (Coverage (paper_coverage inception end_at)) s) (\<lambda>s'. Inr (pw_observations s', issue))
       else Inr (pw_observations s, issue))"

definition paper_observations :: "paper_db \<Rightarrow> instant \<Rightarrow> (ReportingObservation list \<times> string option) result" where
  "paper_observations db observed_at =
    (let fills = replay_fills db in
     if list_ex (foreign_fill (pd_core db)) (pd_fills db)
       then Inr ([], Some ''paper_ledger_contains_unscoped_or_live_fills'')
     else if fills = [] then Inr ([], None)
     else let inception = foldl min (rf_created_at (hd fills)) (map rf_created_at fills) in
       and_then (observed (Valuation (paper_inception inception))
           \<lparr>pw_quantities = [], pw_costs = [], pw_themes = [], pw_cash = decimal_of_float STARTING_CASH,
            pw_fills = fills, pw_index = 0, pw_observations = []\<rparr>) (\<lambda>s.
       and_then (fold_result (\<lambda>day. on_walk (replay_day (pd_prices db) observed_at day))
           (replay_days (pd_prices db) fills) (Walking s)) (\<lambda>w.
       case w of Stopped issue \<Rightarrow> Inr ([], Some issue) | Walking s' \<Rightarrow> finish_report db inception s')))"

section \<open>Nothing is reported before it can be observed\<close>

definition timely :: "instant \<Rightarrow> ReportingObservation \<Rightarrow> PaperWalk \<Rightarrow> bool" where
  "timely observed_at h s = (pw_observations s \<noteq> [] \<and> hd (pw_observations s) = h \<and>
     list_all (\<lambda>x. ob_occurred_at (base x) \<le> observed_at) (tl (pw_observations s)))"

definition timely_walk :: "instant \<Rightarrow> ReportingObservation \<Rightarrow> walk \<Rightarrow> bool" where
  "timely_walk observed_at h w = (case w of Stopped _ \<Rightarrow> True | Walking s \<Rightarrow> timely observed_at h s)"

lemma observed_timely:
  assumes "observed x s = Inr s'" and "timely observed_at h s" and "ob_occurred_at (base x) \<le> observed_at"
  shows "timely observed_at h s'"
proof -
  have "s' = s\<lparr>pw_observations := pw_observations s @ [x]\<rparr>"
    using assms(1) by (auto simp: observed_def OBSERVATION_ADAPTER_def result_simps split: if_splits)
  with assms(2,3) show ?thesis by (cases "pw_observations s") (simp_all add: timely_def)
qed

lemma traded_observations: "traded r q p s = Inr s' \<Longrightarrow> pw_observations s' = pw_observations s"
  by (auto simp: traded_def Let_def result_simps split: if_splits)

lemma fill_observation_at [simp]: "ob_occurred_at (base (Fill (fill_observation r t i q p n))) = t"
  by (simp add: fill_observation_def Let_def Observation.defs)

lemma replay_one_timely:
  assumes "replay_one observed_at r s = Inr w" and "timely observed_at h s"
  shows "timely_walk observed_at h w"
proof -
  let ?fill_at = "ny_combine (pf_fill_date (rf_fill r)) (clock 9 30)"
  let ?q = "decimal_of_float (pf_shares (rf_fill r))" and ?p = "decimal_of_float (pf_price (rf_fill r))"
  consider "w = Stopped ''paper_fill_not_yet_observable''"
    | n s1 s2 where "?fill_at \<le> observed_at"
        "observed (Fill (fill_observation r ?fill_at (pw_index s) ?q ?p n)) s = Inr s1"
        "traded r ?q ?p s1 = Inr s2" "w = settled_quantity r s2"
    using assms(1) by (auto simp: replay_one_def Let_def result_simps split: if_splits)
  then show ?thesis
  proof cases
    case 1
    then show ?thesis by (simp add: timely_walk_def)
  next
    case (2 n s1 s2)
    then have "timely observed_at h s1"
      by (intro observed_timely [OF 2(2) assms(2)]) (simp only: fill_observation_at)
    with 2(3) have "timely observed_at h s2" using traded_observations by (simp add: timely_def)
    then show ?thesis by (simp add: 2(4) settled_quantity_def Let_def timely_walk_def timely_def)
  qed
qed

lemma on_walk_timely:
  assumes "on_walk f w = Inr w'" and "timely_walk observed_at h w"
    and "\<And>s. timely observed_at h s \<Longrightarrow> f s = Inr w' \<Longrightarrow> timely_walk observed_at h w'"
  shows "timely_walk observed_at h w'"
  using assms by (cases w) (auto simp: on_walk_def timely_walk_def)

lemma replay_day_fills_timely:
  assumes "replay_day_fills observed_at day s = Inr w" and "timely observed_at h s"
  shows "timely_walk observed_at h w"
  using assms(1) unfolding replay_day_fills_def
proof (rule fold_result_invariant [where P = "timely_walk observed_at h"])
  show "timely_walk observed_at h (Walking s)" using assms(2) by (simp add: timely_walk_def)
qed (metis on_walk_timely replay_one_timely)

lemma value_day_timely:
  assumes "value_day prices observed_at day previous close_at s = Inr w" and "timely observed_at h s"
  shows "timely_walk observed_at h w"
proof -
  define moment where "moment = (if close_at \<le> observed_at then close_at else observed_at)"
  obtain ps c s' where "w = Walking s'"
    and o: "observed (Valuation (day_valuation s ps (close_at \<le> observed_at) moment day previous c)) s = Inr s'"
    using assms(1) by (auto simp: value_day_def Let_def moment_def result_simps)
  moreover from o have "timely observed_at h s'"
    by (rule observed_timely [OF _ assms(2)]) (simp add: day_valuation_def Let_def Observation.defs moment_def)
  ultimately show ?thesis by (simp add: timely_walk_def)
qed

lemma replay_day_timely:
  assumes "replay_day prices observed_at day s = Inr w" and "timely observed_at h s"
  shows "timely_walk observed_at h w"
proof -
  consider m where "w = Stopped m" | "w = Walking s"
    | close_at previous w1 where "replay_day_fills observed_at day s = Inr w1"
        "on_walk (value_day prices observed_at day previous close_at) w1 = Inr w"
    using assms(1) by (auto simp: replay_day_def result_simps split: sum.splits option.splits if_splits)
  then show ?thesis
  proof cases
    case 1
    then show ?thesis by (simp add: timely_walk_def)
  next
    case 2
    then show ?thesis using assms(2) by (simp add: timely_walk_def)
  next
    case (3 close_at previous w1)
    show ?thesis
      by (rule on_walk_timely [OF 3(2) replay_day_fills_timely [OF 3(1) assms(2)]]) (metis value_day_timely)
  qed
qed

lemma replay_days_timely:
  assumes "fold_result (\<lambda>day. on_walk (replay_day prices observed_at day)) days (Walking s) = Inr w"
    and "timely observed_at h s"
  shows "timely_walk observed_at h w"
  using assms(1)
proof (rule fold_result_invariant [where P = "timely_walk observed_at h"])
  show "timely_walk observed_at h (Walking s)" using assms(2) by (simp add: timely_walk_def)
qed (metis on_walk_timely replay_day_timely)

lemma finish_report_timely:
  assumes "finish_report db inception s = Inr (xs, issue)" and "timely observed_at h s"
    and "ob_occurred_at (base h) = inception"
  shows "list_all (\<lambda>x. ob_occurred_at (base x) \<le> observed_at) (tl xs)"
proof -
  let ?last = "ob_occurred_at (base (last (pw_observations s)))"
  consider "xs = pw_observations s"
    | s' where "inception < ?last" "observed (Coverage (paper_coverage inception ?last)) s = Inr s'" "xs = pw_observations s'"
    using assms(1) by (auto simp: finish_report_def Let_def result_simps split: if_splits)
  then show ?thesis
  proof cases
    case 1
    then show ?thesis using assms(2) by (simp add: timely_def)
  next
    case (2 s')
    have "pw_observations s \<noteq> []" using assms(2) by (simp add: timely_def)
    moreover have "tl (pw_observations s) \<noteq> []"
      using 2(1) assms(3) assms(2) calculation by (cases "pw_observations s") (auto simp: timely_def)
    ultimately have "last (pw_observations s) \<in> set (tl (pw_observations s))"
      by (metis last_in_set last_tl)
    then have "?last \<le> observed_at" using assms(2) by (auto simp: timely_def list_all_iff)
    then have "timely observed_at h s'"
      by (intro observed_timely [OF 2(2) assms(2)]) (simp add: paper_coverage_def Observation.defs)
    then show ?thesis using 2(3) by (simp add: timely_def)
  qed
qed

text \<open>
  A report is point in time: apart from the inception of the account, which is the creation of its first filled
  order, no observation it holds happened after the moment it is made for.
\<close>

lemma paper_observations_timely:
  assumes "paper_observations db observed_at = Inr (xs, issue)"
  shows "list_all (\<lambda>x. ob_occurred_at (base x) \<le> observed_at) (tl xs)"
proof (cases "xs = []")
  case False
  define fills where "fills = replay_fills db"
  define inception where "inception = foldl min (rf_created_at (hd fills)) (map rf_created_at fills)"
  define h where "h = Valuation (paper_inception inception)"
  obtain s w where s: "observed h \<lparr>pw_quantities = [], pw_costs = [], pw_themes = [],
        pw_cash = decimal_of_float STARTING_CASH, pw_fills = fills, pw_index = 0, pw_observations = []\<rparr> = Inr s"
    and days: "fold_result (\<lambda>day. on_walk (replay_day (pd_prices db) observed_at day))
      (replay_days (pd_prices db) fills) (Walking s) = Inr w"
    and finish: "(case w of Stopped issue \<Rightarrow> Inr ([], Some issue) | Walking s' \<Rightarrow> finish_report db inception s') = Inr (xs, issue)"
    using assms False unfolding paper_observations_def fills_def [symmetric] inception_def [symmetric] Let_def h_def
    by (simp only: and_then_Inr split: if_splits) blast+
  obtain s' where w: "w = Walking s'" "finish_report db inception s' = Inr (xs, issue)"
    using finish False by (cases w) auto
  from s have "timely observed_at h s"
    by (auto simp: observed_def OBSERVATION_ADAPTER_def timely_def result_simps split: if_splits)
  from replay_days_timely [OF days this] have "timely observed_at h s'" by (simp add: timely_walk_def w(1))
  then show ?thesis
    by (rule finish_report_timely [OF w(2)]) (simp add: h_def paper_inception_def Observation.defs)
qed simp

end
