(* ===== verification/ReviewStore.thy ===== *)
theory ReviewStore
  imports PaperReport Performance HoldingReviews Leases ReportingStore
begin

text \<open>
  The store of thesis reviews (\<open>save_thesis_review\<close> of \<open>app/storage/public_records.py\<close>) and the holding episodes of an
  account's reported activity (\<open>holding_episodes\<close> of \<open>app/performance/report.py\<close>), which a review that names no
  episode of the broker's snapshots must match. Decimal operations round to the default context; \<open>sha256\<close> stands
  for the hexadecimal digest of a text.
\<close>

section \<open>Holding episodes\<close>

record HoldingEpisode =
  he_episode_id :: string
  he_ticker :: string
  he_opened_at :: "instant option"
  he_first_observed_at :: instant
  he_closed_at :: "instant option"
  he_open :: bool
  he_quantity :: rat

text \<open>
  \<open>items\<close> holds every episode; \<open>current\<close> names the open one of a ticker, the same object in the source and its index
  here.
\<close>

record EpisodeState =
  es_items :: "HoldingEpisode list"
  es_current :: "(string \<times> nat) list"
  es_quantities :: "(string \<times> rat) list"

definition holding_id :: "(string \<Rightarrow> string) \<Rightarrow> string \<Rightarrow> string \<Rightarrow> string \<Rightarrow> string" where
  "holding_id sha256 account_id external_id t =
     ''holding_'' @ take 24 (sha256 (account_id @ ''/'' @ external_id @ ''/'' @ t))"

definition add_episode :: "HoldingEpisode \<Rightarrow> EpisodeState \<Rightarrow> EpisodeState" where
  "add_episode e s = s\<lparr>es_items := es_items s @ [e],
     es_current := AList.update (he_ticker e) (length (es_items s)) (es_current s)\<rparr>"

definition open_position :: "(string \<Rightarrow> string) \<Rightarrow> ValuationObservation \<Rightarrow> ReportingPosition \<Rightarrow> EpisodeState \<Rightarrow>
    EpisodeState" where
  "open_position sha256 baseline p s = (case rp_quantity p of None \<Rightarrow> s
   | Some q \<Rightarrow> if q = 0 then s
       else let t = rp_ticker p in
         (add_episode \<lparr>he_episode_id = holding_id sha256 (ob_account_id baseline) (ob_external_event_id baseline) t,
            he_ticker = t, he_opened_at = None, he_first_observed_at = ob_occurred_at baseline,
            he_closed_at = None, he_open = True, he_quantity = q\<rparr> s)
           \<lparr>es_quantities := AList.update t q (es_quantities s)\<rparr>)"

definition is_activity :: "ReportingObservation \<Rightarrow> bool" where
  "is_activity x = (case x of Fill _ \<Rightarrow> True | CorporateAction _ \<Rightarrow> True | _ \<Rightarrow> False)"

definition event_ticker :: "ReportingObservation \<Rightarrow> string option" where
  "event_ticker x = (case x of Fill f \<Rightarrow> Some (fi_ticker f) | CorporateAction a \<Rightarrow> ca_ticker a | _ \<Rightarrow> None)"

definition ordered_event :: "ReportingObservation \<Rightarrow> bool" where
  "ordered_event x = (case x of Fill _ \<Rightarrow> True
   | CorporateAction a \<Rightarrow> ca_action a \<in> {split_action, action_transfer_in, action_transfer_out} | _ \<Rightarrow> False)"

definition activity_key :: "ReportingObservation \<Rightarrow> instant \<times> string option \<times> int" where
  "activity_key x = (ob_occurred_at (base x), event_ticker x, ob_sequence (base x))"

text \<open>The quantity after an event, where the event changes one.\<close>

definition quantity_after :: "rat \<Rightarrow> ReportingObservation \<Rightarrow> rat result" where
  "quantity_after previous x = (case x of
     Fill f \<Rightarrow> Inr (dec 28 (previous + dec 28 (fi_quantity f * (if fi_side f = FILL_BUY then 1 else - 1))))
   | CorporateAction a \<Rightarrow>
       if ca_action a = split_action
         then (case ca_split_ratio a of None \<Rightarrow> Inl AssertionError | Some r \<Rightarrow> Inr (dec 28 (previous * r)))
       else (case ca_quantity a of None \<Rightarrow> Inl AssertionError
         | Some q \<Rightarrow> Inr (dec 28 (previous + dec 28 (q * (if ca_action a = action_transfer_in then 1 else - 1)))))
   | _ \<Rightarrow> Inl AssertionError)"

definition update_current :: "string \<Rightarrow> rat \<Rightarrow> instant \<Rightarrow> EpisodeState \<Rightarrow> EpisodeState" where
  "update_current t q at_time s = (case map_of (es_current s) t of None \<Rightarrow> s
   | Some i \<Rightarrow> let e = (es_items s ! i)\<lparr>he_quantity := q\<rparr> in
       if q = 0 then s\<lparr>es_items := (es_items s)[i := e\<lparr>he_closed_at := Some at_time, he_open := False\<rparr>],
           es_current := AList.delete t (es_current s)\<rparr>
       else s\<lparr>es_items := (es_items s)[i := e]\<rparr>)"

text \<open>The state once an event leaves a ticker with a quantity, which opens an episode when there was none.\<close>

definition after_event :: "(string \<Rightarrow> string) \<Rightarrow> ReportingObservation \<Rightarrow> string \<Rightarrow> rat \<Rightarrow> rat \<Rightarrow> EpisodeState \<Rightarrow>
    EpisodeState" where
  "after_event sha256 x t previous q s =
    (let at_time = ob_occurred_at (base x);
         s1 = (if previous = 0 \<and> 0 < q then add_episode
             \<lparr>he_episode_id = holding_id sha256 (ob_account_id (base x)) (ob_external_event_id (base x)) t,
              he_ticker = t, he_opened_at = Some at_time, he_first_observed_at = at_time, he_closed_at = None,
              he_open = True, he_quantity = q\<rparr> s else s);
         s2 = update_current t q at_time s1
     in s2\<lparr>es_quantities := AList.update t q (es_quantities s2)\<rparr>)"

text \<open>\<open>None\<close> is the early return for activity that doesn't reconcile.\<close>

definition episode_event :: "(string \<Rightarrow> string) \<Rightarrow> ReportingObservation \<Rightarrow> EpisodeState \<Rightarrow> EpisodeState option result" where
  "episode_event sha256 x s =
    (if \<not> ordered_event x then Inr (Some s)
     else (case event_ticker x of None \<Rightarrow> Inl AssertionError
       | Some t \<Rightarrow> let previous = (case map_of (es_quantities s) t of None \<Rightarrow> 0 | Some q \<Rightarrow> q) in
           and_then (quantity_after previous x) (\<lambda>q.
             Inr (if q < 0 then None else Some (after_event sha256 x t previous q s)))))"

fun episode_events :: "(string \<Rightarrow> string) \<Rightarrow> ReportingObservation list \<Rightarrow> EpisodeState \<Rightarrow> EpisodeState option result" where
  "episode_events sha256 [] s = Inr (Some s)"
| "episode_events sha256 (x # xs) s = and_then (episode_event sha256 x s) (\<lambda>r.
     case r of None \<Rightarrow> Inr None | Some s' \<Rightarrow> episode_events sha256 xs s')"

datatype EpisodeHistory =
    EpisodesUnavailable string
  | EpisodesAvailable instant "HoldingEpisode list" int bool

definition no_episodes :: EpisodeState where
  "no_episodes = \<lparr>es_items = [], es_current = [], es_quantities = []\<rparr>"

definition position_quantities :: "ReportingPosition list \<Rightarrow> (string \<times> rat) list" where
  "position_quantities ps = List.map_filter (\<lambda>p. case rp_quantity p of None \<Rightarrow> None
     | Some q \<Rightarrow> if q = 0 then None else Some (rp_ticker p, q)) ps"

definition reconciles :: "ValuationObservation \<Rightarrow> EpisodeState \<Rightarrow> bool" where
  "reconciles ending s = (case vo_positions ending of None \<Rightarrow> True
   | Some ps \<Rightarrow> list_ex (\<lambda>p. rp_quantity p = None) ps \<or>
       dict_eq (position_quantities ps) (filter (\<lambda>(_, q). q \<noteq> 0) (es_quantities s)))"

definition last_items :: "nat option \<Rightarrow> 'a list \<Rightarrow> 'a list" where
  "last_items limit items = (case limit of None \<Rightarrow> items
   | Some l \<Rightarrow> if l = 0 then items else drop (length items - l) items)"

definition activity_between :: "instant \<Rightarrow> instant \<Rightarrow> ReportingObservation list \<Rightarrow> ReportingObservation list" where
  "activity_between start end_at observations = filter (\<lambda>x. is_activity x \<and> start < ob_occurred_at (base x) \<and>
     ob_occurred_at (base x) \<le> end_at) observations"

text \<open>\<open>values\<close> is not empty: its first and last items are the baseline and the latest valuation.\<close>

definition holding_episodes :: "(string \<Rightarrow> string) \<Rightarrow> ValuationObservation list \<Rightarrow> ReportingObservation list \<Rightarrow>
    CoverageObservation list \<Rightarrow> nat option \<Rightarrow> EpisodeHistory result" where
  "holding_episodes sha256 values observations coverage limit =
    (let baseline = hd values; ending = last values;
         events = activity_between (ob_occurred_at baseline) (ob_occurred_at ending) observations
     in case vo_positions baseline of
          None \<Rightarrow> Inr (EpisodesUnavailable ''opening_quantities_missing'')
        | Some ps \<Rightarrow>
            if list_ex (\<lambda>p. rp_quantity p = None) ps then Inr (EpisodesUnavailable ''opening_quantities_missing'')
            else if \<not> covered (ob_occurred_at baseline) (ob_occurred_at ending) coverage True
              then Inr (EpisodesUnavailable ''activity_coverage_missing'')
            else if \<not> distinct (map activity_key (filter ordered_event events))
              then Inr (EpisodesUnavailable ''activity_order_unknown'')
            else and_then (episode_events sha256
                (sort_key (\<lambda>x. (ob_occurred_at (base x), ob_sequence (base x), ob_observation_id (base x))) events)
                (fold (open_position sha256 baseline) ps no_episodes)) (\<lambda>r.
              case r of None \<Rightarrow> Inr (EpisodesUnavailable ''position_activity_does_not_reconcile'')
              | Some s \<Rightarrow> Inr (if \<not> reconciles ending s
                  then EpisodesUnavailable ''position_activity_does_not_reconcile''
                  else EpisodesAvailable (ob_occurred_at baseline) (last_items limit (es_items s))
                    (int (length (es_items s)))
                    (case limit of None \<Rightarrow> False | Some l \<Rightarrow> l < length (es_items s)))))"

section \<open>Thesis reviews\<close>

fun review_account_mode :: "review_mode \<Rightarrow> account_mode" where
  "review_account_mode live_review = LiveMode"
| "review_account_mode paper_review = PaperMode"

definition episode_values :: "ReportingObservation list \<Rightarrow> ValuationObservation list" where
  "episode_values observations = sort_key ob_occurred_at (List.map_filter (\<lambda>x. case x of
     Valuation v \<Rightarrow> if vo_phase v \<in> {before_flow, after_flow} then None else Some v | _ \<Rightarrow> None) observations)"

definition coverage_of :: "ReportingObservation list \<Rightarrow> CoverageObservation list" where
  "coverage_of = List.map_filter (\<lambda>x. case x of Coverage c \<Rightarrow> Some c | _ \<Rightarrow> None)"

text \<open>\<open>observed_at\<close> is the clock the paper report is built at.\<close>

definition reported_activity :: "paper_db \<Rightarrow> account_mode \<Rightarrow> string \<Rightarrow> instant \<Rightarrow> ReportingObservation list result" where
  "reported_activity db mode account_id observed_at =
    (let observations = current_observations (pd_core db) mode account_id in
     if observations = [] \<and> mode = PaperMode \<and> account_id = ''paper''
       then and_then (paper_observations db observed_at) (\<lambda>(found, issue).
         case issue of None \<Rightarrow> Inr found
         | Some i \<Rightarrow> if i = [] then Inr found else Inl (ValueError ''paper holding history is inconsistent''))
     else Inr observations)"

definition observed_episode :: "(string \<Rightarrow> string) \<Rightarrow> paper_db \<Rightarrow> instant \<Rightarrow> ThesisReview \<Rightarrow> unit result" where
  "observed_episode sha256 db observed_at r =
     and_then (reported_activity db (review_account_mode (tr_mode r)) (tr_account_id r) observed_at) (\<lambda>observations.
     let values = episode_values observations in
     if values = [] then Inl (ValueError ''holding episode history is unavailable'')
     else and_then (holding_episodes sha256 values observations (coverage_of observations) None) (\<lambda>h.
       let items = (case h of EpisodesUnavailable _ \<Rightarrow> [] | EpisodesAvailable _ items _ _ \<Rightarrow> items) in
       case find (\<lambda>e. he_episode_id e = tr_episode_id r) items of
         None \<Rightarrow> Inl (ValueError ''review does not match an observed holding episode'')
       | Some e \<Rightarrow>
           if he_ticker e \<noteq> tr_ticker r then Inl (ValueError ''review does not match an observed holding episode'')
           else if tr_reviewed_at r < he_first_observed_at e then Inl (ValueError ''review precedes holding episode'')
           else Inr ()))"

definition snapshot_episode :: "core_db \<Rightarrow> ThesisReview \<Rightarrow> bool" where
  "snapshot_episode core r = (tr_mode r = live_review \<and>
     (case map_of (live_holding_episodes core (tr_account_id r) (tr_reviewed_at r)) (tr_ticker r) of
        None \<Rightarrow> False | Some e \<Rightarrow> ep_episode_id e = tr_episode_id r))"

definition attempt_review :: "runtime_db \<Rightarrow> string \<Rightarrow> ThesisReview \<Rightarrow> unit result" where
  "attempt_review db attempt_id r = and_then (get_attempt db attempt_id) (\<lambda>attempt.
     and_then (get_run db (ra_run_id attempt)) (\<lambda>run.
       if ru_mode run \<noteq> review_account_mode (tr_mode r) \<or> ru_account_id run \<noteq> tr_account_id r \<or>
           tr_reasoning_run_id r \<noteq> ru_reasoning_run_id run
         then Inl (ValueError ''review attempt belongs to a different run or account'')
       else if tr_reviewed_at r < ra_started_at attempt \<or>
           (case ra_finished_at attempt of None \<Rightarrow> ra_heartbeat_at attempt | Some t \<Rightarrow> t) < tr_reviewed_at r
         then Inl (ValueError ''review falls outside its recorded attempt'')
       else Inr ()))"

definition run_review :: "core_db \<Rightarrow> string \<Rightarrow> ThesisReview \<Rightarrow> unit result" where
  "run_review core run_id r = (case get_reasoning_run core run_id of
     None \<Rightarrow> Inl (ValueError ''review run or bound snapshot is missing'')
   | Some run \<Rightarrow> (case get_live_portfolio_snapshot core (rr_portfolio_snapshot_id run) of
       None \<Rightarrow> Inl (ValueError ''review run or bound snapshot is missing'')
     | Some snap \<Rightarrow>
         if tr_mode r \<noteq> live_review \<or> ls_broker_account_fingerprint snap \<noteq> tr_account_id r \<or>
             ls_execution_profile_id snap \<noteq> rr_execution_profile_id run
           then Inl (ValueError ''review run belongs to a different account'')
         else if tr_reviewed_at r < rr_started_at run \<or>
             (case rr_completed_at run of None \<Rightarrow> False | Some t \<Rightarrow> t < tr_reviewed_at r)
           then Inl (ValueError ''review falls outside its recorded run'')
         else Inr ()))"

definition review_clash :: "ThesisReview \<Rightarrow> ThesisReview \<Rightarrow> bool" where
  "review_clash r q = (tr_mode q = tr_mode r \<and> tr_account_id q = tr_account_id r \<and>
     tr_episode_id q = tr_episode_id r \<and> tr_reviewed_at q = tr_reviewed_at r)"

text \<open>
  A review is written with UTC times, so two texts of one instant are equal. \<open>db\<close> is the runtime database, whose core
  tables the paper tables share.
\<close>

definition save_thesis_review :: "(string \<Rightarrow> string) \<Rightarrow> instant \<Rightarrow> runtime_db \<Rightarrow> paper_db \<Rightarrow> ThesisReview \<Rightarrow>
    ThesisReview list \<Rightarrow> ThesisReview list result" where
  "save_thesis_review sha256 observed_at db paper r rows = (case find_row tr_review_id (tr_review_id r) rows of
     Some q \<Rightarrow> if q \<noteq> r then Inl (ValueError ''thesis review is immutable'') else Inr rows
   | None \<Rightarrow>
       and_then (if snapshot_episode (rt_core db) r then Inr () else observed_episode sha256 paper observed_at r) (\<lambda>_.
       and_then (if truthy (tr_runtime_attempt_id r) then attempt_review db (the (tr_runtime_attempt_id r)) r
         else if truthy (tr_reasoning_run_id r) then run_review (rt_core db) (the (tr_reasoning_run_id r)) r
         else Inr ()) (\<lambda>_.
       if list_ex (review_clash r) rows then Inl IntegrityError else Inr (rows @ [r]))))"

section \<open>An available history agrees with the positions held\<close>

definition episodes_ok :: "EpisodeState \<Rightarrow> bool" where
  "episodes_ok s = (distinct (map fst (es_quantities s)) \<and>
     (\<forall>t i. map_of (es_current s) t = Some i \<longrightarrow> i < length (es_items s) \<and> he_ticker (es_items s ! i) = t \<and>
        he_open (es_items s ! i) \<and> map_of (es_quantities s) t = Some (he_quantity (es_items s ! i)) \<and>
        he_quantity (es_items s ! i) \<noteq> 0) \<and>
     (\<forall>i<length (es_items s). he_open (es_items s ! i) \<longrightarrow> map_of (es_current s) (he_ticker (es_items s ! i)) = Some i) \<and>
     (\<forall>t q. map_of (es_quantities s) t = Some q \<longrightarrow> q \<noteq> 0 \<longrightarrow> map_of (es_current s) t \<noteq> None))"

lemma no_episodes_ok: "episodes_ok no_episodes"
  by (simp add: episodes_ok_def no_episodes_def)

lemma episodes_ok_current:
  assumes "episodes_ok s" and "map_of (es_current s) t = Some i"
  shows "i < length (es_items s)" and "he_ticker (es_items s ! i) = t" and "he_open (es_items s ! i)"
    and "map_of (es_quantities s) t = Some (he_quantity (es_items s ! i))" and "he_quantity (es_items s ! i) \<noteq> 0"
  using assms unfolding episodes_ok_def by blast+

lemma episodes_ok_no_current:
  assumes "episodes_ok s" and "map_of (es_quantities s) t \<in> {None, Some 0}"
  shows "map_of (es_current s) t = None"
  using assms episodes_ok_current(4,5) [of s t] by (cases "map_of (es_current s) t") auto

lemma add_episode_ok:
  assumes ok: "episodes_ok s" and free: "map_of (es_quantities s) t \<in> {None, Some 0}" and "q \<noteq> 0"
    and e: "he_ticker e = t" "he_open e" "he_quantity e = q"
  shows "episodes_ok ((add_episode e s)\<lparr>es_quantities := AList.update t q (es_quantities s)\<rparr>)"
proof -
  have none: "map_of (es_current s) t = None" using episodes_ok_no_current [OF ok free] .
  have other: "he_ticker (es_items s ! i) \<noteq> t" if "i < length (es_items s)" "he_open (es_items s ! i)" for i
    using ok that none unfolding episodes_ok_def by force
  show ?thesis
    using ok none \<open>q \<noteq> 0\<close> e other unfolding episodes_ok_def add_episode_def
    by (auto simp: update_conv' distinct_update nth_append less_Suc_eq split: if_splits)
qed

lemma open_position_ok:
  assumes "episodes_ok s" and "map_of (es_quantities s) (rp_ticker p) = None"
  shows "episodes_ok (open_position sha256 baseline p s)"
  using assms add_episode_ok [OF assms(1)]
  by (auto simp: open_position_def Let_def add_episode_def split: option.splits)

lemma open_position_other:
  "t \<noteq> rp_ticker p \<Longrightarrow>
    map_of (es_quantities (open_position sha256 baseline p s)) t = map_of (es_quantities s) t"
  by (auto simp: open_position_def Let_def add_episode_def update_conv' split: option.splits)

lemma open_positions_ok:
  assumes "episodes_ok s" and "distinct (map rp_ticker ps)"
    and "\<forall>p\<in>set ps. map_of (es_quantities s) (rp_ticker p) = None"
  shows "episodes_ok (fold (open_position sha256 baseline) ps s)"
  using assms
proof (induction ps arbitrary: s)
  case Nil
  then show ?case by simp
next
  case (Cons p ps)
  have "episodes_ok (open_position sha256 baseline p s)" using Cons.prems open_position_ok by simp
  moreover have "\<forall>q\<in>set ps. map_of (es_quantities (open_position sha256 baseline p s)) (rp_ticker q) = None"
    using Cons.prems by (metis (no_types, lifting) distinct.simps(2) image_eqI list.map(2) list.set_intros(2) list.set_map
      open_position_other)
  ultimately show ?case using Cons.IH Cons.prems(2) by simp
qed

lemma update_current_added:
  assumes "he_ticker e = t" and "he_quantity e = q" and "q \<noteq> 0"
  shows "update_current t q at_time (add_episode e s) = add_episode e s"
  using assms by (simp add: update_current_def add_episode_def update_conv' Let_def)

lemma zero_quantity_ok:
  assumes "episodes_ok s" and "map_of (es_current s) t = None"
  shows "episodes_ok (s\<lparr>es_quantities := AList.update t 0 (es_quantities s)\<rparr>)"
  using assms unfolding episodes_ok_def by (auto simp: update_conv' distinct_update)

lemma closed_episode_ok:
  assumes ok: "episodes_ok s" and i: "map_of (es_current s) t = Some i"
    and e: "\<not> he_open e"
  shows "episodes_ok (s\<lparr>es_items := (es_items s)[i := e], es_current := AList.delete t (es_current s),
    es_quantities := AList.update t 0 (es_quantities s)\<rparr>)"
proof -
  have uniq: "j \<noteq> i" if "map_of (es_current s) u = Some j" "u \<noteq> t" for u j
    using episodes_ok_current(2) [OF ok that(1)] episodes_ok_current(2) [OF ok i] that(2) by blast
  have located: "map_of (es_current s) (he_ticker (es_items s ! j)) = Some j"
    if "j < length (es_items s)" "he_open (es_items s ! j)" for j using ok that unfolding episodes_ok_def by blast
  have other: "he_ticker (es_items s ! j) \<noteq> t" if "j < length (es_items s)" "he_open (es_items s ! j)" "j \<noteq> i" for j
    using located [OF that(1,2)] i that(3) by auto
  have held: "map_of (es_current s) u \<noteq> None" if "map_of (es_quantities s) u = Some x" "x \<noteq> 0" for u x
    using ok that unfolding episodes_ok_def by blast
  have all: "j < length (es_items s) \<and> he_ticker ((es_items s)[i := e] ! j) = u \<and> he_open ((es_items s)[i := e] ! j) \<and>
      map_of (AList.update t 0 (es_quantities s)) u = Some (he_quantity ((es_items s)[i := e] ! j)) \<and>
      he_quantity ((es_items s)[i := e] ! j) \<noteq> 0"
    if "map_of (AList.delete t (es_current s)) u = Some j" for u j
  proof -
    from that have "u \<noteq> t" and u: "map_of (es_current s) u = Some j" by (auto simp: delete_conv' split: if_splits)
    with episodes_ok_current [OF ok u] uniq [OF u] show ?thesis by (simp add: update_conv')
  qed
  show ?thesis
    unfolding episodes_ok_def
  proof (intro conjI allI impI, goal_cases)
    case 1
    then show ?case using ok by (simp add: episodes_ok_def distinct_update)
  next
    case (7 j)
    then show ?case using e located other by (cases "j = i") (auto simp: delete_conv')
  next
    case (8 u x)
    then show ?case using held by (auto simp: update_conv' delete_conv' split: if_splits)
  qed (use all in auto)
qed

lemma kept_episode_ok:
  assumes ok: "episodes_ok s" and i: "map_of (es_current s) t = Some i"
    and e: "he_open e" "he_ticker e = t" "he_quantity e = q" "q \<noteq> 0"
  shows "episodes_ok (s\<lparr>es_items := (es_items s)[i := e], es_quantities := AList.update t q (es_quantities s)\<rparr>)"
proof -
  note c = episodes_ok_current [OF ok i]
  have uniq: "j \<noteq> i" if "map_of (es_current s) u = Some j" "u \<noteq> t" for u j
    using episodes_ok_current(2) [OF ok that(1)] c(2) that(2) by blast
  have located: "map_of (es_current s) (he_ticker (es_items s ! j)) = Some j"
    if "j < length (es_items s)" "he_open (es_items s ! j)" for j using ok that unfolding episodes_ok_def by blast
  have held: "map_of (es_current s) u \<noteq> None" if "map_of (es_quantities s) u = Some x" "x \<noteq> 0" for u x
    using ok that unfolding episodes_ok_def by blast
  have all: "j < length (es_items s) \<and> he_ticker ((es_items s)[i := e] ! j) = u \<and> he_open ((es_items s)[i := e] ! j) \<and>
      map_of (AList.update t q (es_quantities s)) u = Some (he_quantity ((es_items s)[i := e] ! j)) \<and>
      he_quantity ((es_items s)[i := e] ! j) \<noteq> 0"
    if "map_of (es_current s) u = Some j" for u j
  proof (cases "u = t")
    case True
    then have "j = i" using that i by simp
    with True c(1) e show ?thesis by (simp add: update_conv')
  next
    case False
    with episodes_ok_current [OF ok that] uniq [OF that False] show ?thesis by (simp add: update_conv')
  qed
  show ?thesis
    unfolding episodes_ok_def
  proof (intro conjI allI impI, goal_cases)
    case 1
    then show ?case using ok by (simp add: episodes_ok_def distinct_update)
  next
    case (7 j)
    then show ?case using e i located by (cases "j = i") auto
  next
    case (8 u x)
    then show ?case using held i by (cases "u = t") (auto simp: update_conv')
  qed (use all in auto)
qed

lemma held_quantity_ok:
  assumes ok: "episodes_ok s" and i: "map_of (es_current s) t = Some i"
  shows "episodes_ok ((update_current t q at_time s)
    \<lparr>es_quantities := AList.update t q (es_quantities (update_current t q at_time s))\<rparr>)"
proof (cases "q = 0")
  case True
  then show ?thesis using closed_episode_ok [OF ok i] by (simp add: update_current_def i Let_def)
next
  case False
  then show ?thesis using kept_episode_ok [OF ok i, where e = "(es_items s ! i)\<lparr>he_quantity := q\<rparr>" and q = q]
      episodes_ok_current [OF ok i]
    by (simp add: update_current_def i Let_def)
qed

lemma after_event_ok:
  assumes ok: "episodes_ok s" and "0 \<le> q"
  shows "episodes_ok (after_event sha256 x t (case map_of (es_quantities s) t of None \<Rightarrow> 0 | Some q \<Rightarrow> q) q s)"
proof -
  consider (opened) "map_of (es_quantities s) t \<in> {None, Some 0}" "0 < q"
    | (none) "map_of (es_quantities s) t \<in> {None, Some 0}" "q = 0"
    | (held) p where "map_of (es_quantities s) t = Some p" "p \<noteq> 0"
    using \<open>0 \<le> q\<close> by (cases "map_of (es_quantities s) t") force+
  then show ?thesis
  proof cases
    case opened
    then have "(case map_of (es_quantities s) t of None \<Rightarrow> 0 | Some q \<Rightarrow> q) = 0" by auto
    with opened show ?thesis unfolding after_event_def Let_def
      using add_episode_ok [OF ok opened(1)] by (simp add: update_current_added) (simp add: add_episode_def)
  next
    case none
    have "map_of (es_current s) t = None" using episodes_ok_no_current [OF ok none(1)] .
    with none show ?thesis unfolding after_event_def Let_def by (simp add: update_current_def zero_quantity_ok [OF ok])
  next
    case held
    then obtain i where "map_of (es_current s) t = Some i" using ok unfolding episodes_ok_def by blast
    with held show ?thesis unfolding after_event_def Let_def by (simp add: held_quantity_ok [OF ok])
  qed
qed

lemma episode_event_ok:
  assumes ok: "episodes_ok s" and "episode_event sha256 x s = Inr (Some s')"
  shows "episodes_ok s'"
proof (cases "ordered_event x")
  case False
  with assms show ?thesis by (simp add: episode_event_def)
next
  case True
  show ?thesis
  proof (cases "event_ticker x")
    case None
    with True assms(2) show ?thesis by (simp add: episode_event_def)
  next
    case (Some t)
    with True assms(2) obtain q where "0 \<le> q"
      and "s' = after_event sha256 x t (case map_of (es_quantities s) t of None \<Rightarrow> 0 | Some q \<Rightarrow> q) q s"
      by (auto simp: episode_event_def result_simps Let_def not_less split: if_splits)
    then show ?thesis using after_event_ok [OF ok] by simp
  qed
qed

lemma episode_events_ok:
  "episodes_ok s \<Longrightarrow> episode_events sha256 xs s = Inr (Some s') \<Longrightarrow> episodes_ok s'"
proof (induction xs arbitrary: s)
  case Nil
  then show ?case by simp
next
  case (Cons x xs)
  from Cons.prems(2) obtain s1 where "episode_event sha256 x s = Inr (Some s1)"
    and rest: "episode_events sha256 xs s1 = Inr (Some s')"
    by (auto simp: result_simps split: option.splits)
  then show ?case using Cons.IH [OF episode_event_ok [OF Cons.prems(1)] rest] by simp
qed

text \<open>The open episodes are the tickers of a quantity other than zero.\<close>

lemma open_episodes:
  assumes ok: "episodes_ok s"
  shows "(\<lambda>e. (he_ticker e, he_quantity e)) ` {e \<in> set (es_items s). he_open e} =
    {(t, q). map_of (es_quantities s) t = Some q \<and> q \<noteq> 0}"
proof (intro equalityI subsetI)
  fix x assume "x \<in> (\<lambda>e. (he_ticker e, he_quantity e)) ` {e \<in> set (es_items s). he_open e}"
  then obtain i where i: "i < length (es_items s)" "he_open (es_items s ! i)"
    and x: "x = (he_ticker (es_items s ! i), he_quantity (es_items s ! i))"
    by (auto simp: in_set_conv_nth)
  then have "map_of (es_current s) (he_ticker (es_items s ! i)) = Some i" using ok unfolding episodes_ok_def by blast
  from episodes_ok_current [OF ok this] show "x \<in> {(t, q). map_of (es_quantities s) t = Some q \<and> q \<noteq> 0}"
    by (simp add: x)
next
  fix x assume "x \<in> {(t, q). map_of (es_quantities s) t = Some q \<and> q \<noteq> 0}"
  then obtain t q where x: "x = (t, q)" and q: "map_of (es_quantities s) t = Some q" "q \<noteq> 0" by auto
  then obtain i where "map_of (es_current s) t = Some i" using ok unfolding episodes_ok_def by blast
  from episodes_ok_current [OF ok this] q
  show "x \<in> (\<lambda>e. (he_ticker e, he_quantity e)) ` {e \<in> set (es_items s). he_open e}"
    by (auto simp: x intro!: image_eqI [of _ _ "es_items s ! i"])
qed

lemma position_quantities_keys: "set (map fst (position_quantities ps)) \<subseteq> rp_ticker ` set ps"
  by (auto simp: position_quantities_def List.map_filter_def split: option.splits if_splits)

lemma position_quantities_Cons:
  "position_quantities (p # ps) = (case rp_quantity p of None \<Rightarrow> position_quantities ps
   | Some q \<Rightarrow> if q = 0 then position_quantities ps else (rp_ticker p, q) # position_quantities ps)"
  by (simp add: position_quantities_def List.map_filter_simps split: option.splits)

lemma position_quantities_distinct: "distinct (map rp_ticker ps) \<Longrightarrow> distinct (map fst (position_quantities ps))"
proof (induction ps)
  case Nil
  then show ?case by (simp add: position_quantities_def List.map_filter_def)
next
  case (Cons p ps)
  have "rp_ticker p \<notin> set (map fst (position_quantities ps))"
    using position_quantities_keys [of ps] Cons.prems by auto
  with Cons show ?case unfolding position_quantities_Cons by (cases "rp_quantity p") simp_all
qed

lemma map_of_rev_distinct: "distinct (map fst d) \<Longrightarrow> map_of (rev d) = map_of d"
  by (subst map_of_inject_set) (auto simp: rev_map [symmetric])

lemma dict_eq_distinct:
  assumes "dict_eq d e" and "distinct (map fst d)" and "distinct (map fst e)"
  shows "set d = set e"
proof -
  have "map_of d k = map_of e k" for k
  proof (cases "k \<in> set (map fst (d @ e))")
    case True
    with assms show ?thesis
      unfolding dict_eq_def map_of_rev_distinct [OF assms(2)] map_of_rev_distinct [OF assms(3)] by blast
  next
    case False
    then have "map_of d k = None" and "map_of e k = None" by (simp_all add: map_of_eq_None_iff)
    then show ?thesis by simp
  qed
  then show ?thesis using map_of_inject_set [OF assms(2,3)] by auto
qed

lemma available_history:
  assumes "holding_episodes sha256 values observations coverage None = Inr (EpisodesAvailable start items n tr)"
    and "vo_positions (hd values) = Some initial"
  obtains s xs where
    "episode_events sha256 xs (fold (open_position sha256 (hd values)) initial no_episodes) = Inr (Some s)"
    and "reconciles (last values) s" and "items = es_items s"
proof -
  from assms obtain r xs where
    "episode_events sha256 xs (fold (open_position sha256 (hd values)) initial no_episodes) = Inr r"
    and "(case r of None \<Rightarrow> Inr (EpisodesUnavailable ''position_activity_does_not_reconcile'')
        | Some s \<Rightarrow> Inr (if \<not> reconciles (last values) s
            then EpisodesUnavailable ''position_activity_does_not_reconcile''
            else EpisodesAvailable (ob_occurred_at (hd values)) (last_items None (es_items s)) (int (length (es_items s)))
              (case None of None \<Rightarrow> False | Some l \<Rightarrow> l < length (es_items s)))) =
      (Inr (EpisodesAvailable start items n tr) :: EpisodeHistory result)"
    unfolding holding_episodes_def Let_def by (simp only: option.case and_then_Inr sum.inject EpisodeHistory.distinct split: if_splits) blast
  then show ?thesis using that by (cases r) (auto simp: last_items_def split: if_splits)
qed

text \<open>
  C32. A history of holding episodes that is available agrees with the latest valuation: when both the first and the
  last valuation state every quantity, the tickers and quantities of the open episodes are exactly those of the
  positions held at the end.
\<close>

theorem open_episodes_match_positions:
  assumes "holding_episodes sha256 values observations coverage None = Inr (EpisodesAvailable start items n tr)"
    and "vo_positions (hd values) = Some initial" and "distinct (map rp_ticker initial)"
    and "vo_positions (last values) = Some ps" and "list_all (\<lambda>p. rp_quantity p \<noteq> None) ps"
    and "distinct (map rp_ticker ps)"
  shows "(\<lambda>e. (he_ticker e, he_quantity e)) ` {e \<in> set items. he_open e} = set (position_quantities ps)"
proof -
  obtain s xs where "episode_events sha256 xs (fold (open_position sha256 (hd values)) initial no_episodes) = Inr (Some s)"
    and rec: "reconciles (last values) s" and items: "items = es_items s"
    using assms(1,2) by (rule available_history)
  then have ok: "episodes_ok s"
    using episode_events_ok [OF open_positions_ok [OF no_episodes_ok assms(3)]] by (simp add: no_episodes_def)
  then have d: "distinct (map fst (es_quantities s))" by (simp add: episodes_ok_def)
  let ?kept = "filter (\<lambda>(_, q). q \<noteq> 0) (es_quantities s)"
  have "dict_eq (position_quantities ps) ?kept"
    using rec assms(4,5) by (auto simp: reconciles_def list_all_iff list_ex_iff)
  moreover have "distinct (map fst ?kept)" using d by (simp add: distinct_map_filter)
  ultimately have "set (position_quantities ps) = set ?kept"
    using dict_eq_distinct position_quantities_distinct [OF assms(6)] by blast
  also have "\<dots> = {(t, q). map_of (es_quantities s) t = Some q \<and> q \<noteq> 0}" using d by (auto simp: map_of_eq_Some_iff)
  finally show ?thesis using open_episodes [OF ok] items by simp
qed

text \<open>A position of two shares, one more bought, and three shares at the end.\<close>

definition held_position_of :: "rat \<Rightarrow> ReportingPosition" where
  "held_position_of q = \<lparr>rp_ticker = ''ACME'', rp_quantity = Some q, rp_market_value = None, rp_average_cost = None,
     rp_price = None, rp_quote_at = None, rp_price_quality = missing_price, rp_name = None, rp_theme = None,
     rp_asset_class = equity_class\<rparr>"

definition valuation_at :: "instant \<Rightarrow> rat \<Rightarrow> ValuationObservation" where
  "valuation_at t q = \<lparr>ob_observation_id = ''v'', ob_external_event_id = ''v'', ob_mode = LiveMode,
     ob_account_id = ''a'', ob_occurred_at = t, ob_recorded_at = t, ob_sequence = 0, ob_supersedes = None,
     ob_voided = False, vo_equity = None, vo_cash = None, vo_receivables = 0, vo_liabilities = 0,
     vo_positions = Some [held_position_of q], vo_complete = False, vo_phase = intraday,
     vo_session_date = None, vo_previous_session_date = None\<rparr>"

definition bought_at :: "instant \<Rightarrow> FillObservation" where
  "bought_at t = \<lparr>ob_observation_id = ''f'', ob_external_event_id = ''f'', ob_mode = LiveMode,
     ob_account_id = ''a'', ob_occurred_at = t, ob_recorded_at = t, ob_sequence = 0, ob_supersedes = None,
     ob_voided = False, fi_ticker = ''ACME'', fi_side = FILL_BUY, fi_quantity = 1, fi_price = 1,
     fi_gross_notional = 1, fi_fee = None, fi_origin = external_origin, fi_decision_id = None,
     fi_order_external_id = None, fi_order_state = filled, fi_canceled_quantity = 0, fi_settled_at = None\<rparr>"

definition covering_from_to :: "instant \<Rightarrow> instant \<Rightarrow> CoverageObservation" where
  "covering_from_to s t = \<lparr>ob_observation_id = ''c'', ob_external_event_id = ''c'', ob_mode = LiveMode,
     ob_account_id = ''a'', ob_occurred_at = t, ob_recorded_at = t, ob_sequence = 0, ob_supersedes = None,
     ob_voided = False, co_start_at = s, co_end_at = t, co_external_flows_complete = True,
     co_activity_complete = True\<rparr>"

definition sample_history :: EpisodeHistory where
  "sample_history = (case holding_episodes (\<lambda>s. s) [valuation_at 0 2, valuation_at 9 3] [Fill (bought_at 5)]
     [covering_from_to 0 9] None of Inr h \<Rightarrow> h | Inl _ \<Rightarrow> EpisodesUnavailable [])"

lemma open_episodes_match_positions_witness:
  "(case sample_history of EpisodesUnavailable _ \<Rightarrow> False
    | EpisodesAvailable _ items _ _ \<Rightarrow>
        (\<lambda>e. (he_ticker e, he_quantity e)) ` {e \<in> set items. he_open e} = {(''ACME'', 3)})"
proof -
  have run: "case holding_episodes (\<lambda>s. s) [valuation_at 0 2, valuation_at 9 3] [Fill (bought_at 5)]
      [covering_from_to 0 9] None of Inr (EpisodesAvailable _ _ _ _) \<Rightarrow> True | _ \<Rightarrow> False" by code_simp
  then obtain start items n tr where h: "holding_episodes (\<lambda>s. s) [valuation_at 0 2, valuation_at 9 3] [Fill (bought_at 5)]
      [covering_from_to 0 9] None = Inr (EpisodesAvailable start items n tr)"
    by (auto split: sum.splits EpisodeHistory.splits)
  have "(\<lambda>e. (he_ticker e, he_quantity e)) ` {e \<in> set items. he_open e} = set (position_quantities [held_position_of 3])"
    by (rule open_episodes_match_positions [OF h, where initial = "[held_position_of 2]"])
      (simp_all add: valuation_at_def held_position_of_def)
  then show ?thesis
    by (simp add: sample_history_def h position_quantities_def held_position_of_def List.map_filter_simps)
qed

end
