(* ===== verification/Collector.thy ===== *)
theory Collector
  imports Calendar ReportingStore Watchlists
begin

text \<open>
  The collection of account and quote facts (\<open>app/broker/session.py\<close>, \<open>app/broker/collector.py\<close>). A broker
  session is a parameter: the subprocess and the model behind it are not code of the repository. The clock reads of
  a collection are parameters too. Decimals use the default context of 28 digits; a float of an observation is
  read through its shortest decimal text.
\<close>

section \<open>Broker sessions\<close>

definition MAX_PROMPT_BYTES :: int where "MAX_PROMPT_BYTES = 200000"
definition MAX_OUTPUT_BYTES :: int where "MAX_OUTPUT_BYTES = 200000"

text \<open>\<open>[a-z][a-z0-9_]{0,63}\<close>\<close>

definition tool_name :: "string \<Rightarrow> bool" where
  "tool_name t = (case t of [] \<Rightarrow> False
   | c # cs \<Rightarrow> char_between CHR ''a'' CHR ''z'' c \<and> length cs \<le> 63 \<and>
       list_all (\<lambda>d. char_between CHR ''a'' CHR ''z'' d \<or> char_between CHR ''0'' CHR ''9'' d \<or> d = CHR ''_'') cs)"

text \<open>
  What running Codex gives: a timeout, a launch failure or an exit code with the bytes of the last message, which
  the schema turns into a value or refuses.
\<close>

datatype 'a codex_run = CodexTimeout | CodexNotLaunched | CodexExit int "(int \<times> 'a option) option"

record session_request =
  sq_prompt :: string
  sq_model :: string
  sq_codex_home :: string
  sq_timeout_seconds :: pyfloat
  sq_sandbox :: string
  sq_approved_tools :: "string list"

text \<open>The options after the fixed ones: one approval for each tool the caller names.\<close>

definition tool_options :: "string list \<Rightarrow> string list" where
  "tool_options tools = concat (map (\<lambda>t. [''-c'', ''mcp_servers.robinhood-trading.tools.'' @ t @ ''.approval_mode=approve'']) tools)"

text \<open>The bytes of a prompt: code points from 128 take two in UTF-8. \<open>bytes.strip\<close> knows the ASCII whitespace only.\<close>

definition utf8_length :: "string \<Rightarrow> int" where
  "utf8_length s = sum_list (map (\<lambda>c. if (of_char c :: nat) < 128 then 1 else 2) s)"

definition bytes_blank :: "string \<Rightarrow> bool" where
  "bytes_blank s = list_all (\<lambda>c. let n = (of_char c :: nat) in 9 \<le> n \<and> n \<le> 13 \<or> n = 32) s"

definition int_string :: "int \<Rightarrow> string" where
  "int_string n = (if n < 0 then [CHR ''-''] else []) @ padded (max 1 (ndigits 10 \<bar>n\<bar>)) \<bar>n\<bar>"

definition run_broker_session :: "(session_request \<Rightarrow> string list \<Rightarrow> 'a codex_run) \<Rightarrow> session_request \<Rightarrow> 'a result" where
  "run_broker_session run q =
    (if bytes_blank (sq_prompt q) \<or> MAX_PROMPT_BYTES < utf8_length (sq_prompt q)
       then Inl (BrokerSessionFailure ''prompt_too_large'')
     else if blank (sq_model q) \<or> blank (sq_codex_home q) \<or> sq_timeout_seconds q \<le> 0
       then Inl (ValueError ''broker session requires a model, a Codex home and a positive timeout'')
     else if sq_sandbox q \<notin> {''read-only'', ''workspace-write''}
       then Inl (ValueError ''broker session sandbox must be read-only or workspace-write'')
     else if \<not> list_all tool_name (sq_approved_tools q) then Inl (ValueError ''invalid broker tool name'')
     else (case run q (tool_options (sq_approved_tools q)) of
       CodexTimeout \<Rightarrow> Inl (BrokerSessionFailure ''session_timeout'')
     | CodexNotLaunched \<Rightarrow> Inl (BrokerSessionFailure ''session_launch_failed'')
     | CodexExit code message \<Rightarrow>
         if code \<noteq> 0 then Inl (BrokerSessionFailure (''session_exit_'' @ int_string code))
         else (case message of None \<Rightarrow> Inl (BrokerSessionFailure ''session_no_output'')
           | Some (bytes, parsed) \<Rightarrow>
               if MAX_OUTPUT_BYTES < bytes then Inl (BrokerSessionFailure ''session_output_too_large'')
               else (case parsed of None \<Rightarrow> Inl (BrokerSessionFailure ''session_invalid_output'')
                 | Some x \<Rightarrow> Inr x))))"

section \<open>Observations\<close>

record ObservedPosition =
  op_ticker :: string
  op_market_value :: pyfloat
  op_quantity :: pyfloat
  op_average_cost :: "pyfloat option"
  op_price :: "pyfloat option"
  op_quote_at :: "instant option"

record AccountObservation =
  ao_broker_account_fingerprint :: string
  ao_account_number_last4 :: "string option"
  ao_account_equity :: pyfloat
  ao_buying_power :: pyfloat
  ao_cash :: "pyfloat option"
  ao_positions :: "ObservedPosition list"
  ao_broker_reported_at :: "string option"
  ao_spy_price :: "pyfloat option"
  ao_qqq_price :: "pyfloat option"

record QuoteObservation =
  qo_broker_account_fingerprint :: string
  qo_ticker :: string
  qo_bid :: pyfloat
  qo_ask :: pyfloat
  qo_quote_at :: instant
  qo_tradable :: bool
  qo_fractionable :: bool
  qo_regular_market_hours :: bool
  qo_account_equity :: pyfloat
  qo_buying_power :: pyfloat
  qo_current_position_value :: pyfloat

definition observed_position_errors :: "ObservedPosition \<Rightarrow> string list" where
  "observed_position_errors p = length_errors 1 12 ''ticker'' (op_ticker p) @
     nonneg_float_errors ''market_value'' (op_market_value p) @ nonneg_float_errors ''quantity'' (op_quantity p) @
     optional_errors (nonneg_float_errors ''average_cost'') (op_average_cost p) @
     optional_errors (nonneg_float_errors ''price'') (op_price p)"

definition account_observation_errors :: "AccountObservation \<Rightarrow> string list" where
  "account_observation_errors a =
     error_if (\<not> fingerprint_pattern (ao_broker_account_fingerprint a)) ''broker_account_fingerprint: string_pattern_mismatch'' @
     optional_errors (length_errors 0 4 ''account_number_last4'') (ao_account_number_last4 a) @
     pos_float_errors ''account_equity'' (ao_account_equity a) @
     nonneg_float_errors ''buying_power'' (ao_buying_power a) @
     optional_errors (nonneg_float_errors ''cash'') (ao_cash a) @
     length_errors 0 50 ''positions'' (ao_positions a) @ concat (map observed_position_errors (ao_positions a)) @
     optional_errors (length_errors 0 64 ''broker_reported_at'') (ao_broker_reported_at a) @
     optional_errors (pos_float_errors ''spy_price'') (ao_spy_price a) @
     optional_errors (pos_float_errors ''qqq_price'') (ao_qqq_price a)"

definition quote_observation_errors :: "QuoteObservation \<Rightarrow> string list" where
  "quote_observation_errors q =
     error_if (\<not> fingerprint_pattern (qo_broker_account_fingerprint q)) ''broker_account_fingerprint: string_pattern_mismatch'' @
     length_errors 1 12 ''ticker'' (qo_ticker q) @ pos_float_errors ''bid'' (qo_bid q) @
     pos_float_errors ''ask'' (qo_ask q) @ pos_float_errors ''account_equity'' (qo_account_equity q) @
     nonneg_float_errors ''buying_power'' (qo_buying_power q) @
     nonneg_float_errors ''current_position_value'' (qo_current_position_value q)"

section \<open>Snapshots\<close>

text \<open>\<open>datetime.isoformat()\<close> of an aware value: its own wall clock and its offset of whole minutes.\<close>

definition aware_isoformat :: "aware \<Rightarrow> string" where
  "aware_isoformat t = (let w = fst t + snd t; s = w mod day_length; z = \<bar>snd t\<bar> in
     date_isoformat (w div day_length) @ ''T'' @ padded 2 (s div hour) @ '':'' @ padded 2 (s mod hour div minute) @ '':'' @
     padded 2 (s mod minute div second) @ (if s mod second = 0 then [] else ''.'' @ padded 6 (s mod second)) @
     (if snd t < 0 then ''-'' else ''+'') @ padded 2 (z div hour) @ '':'' @ padded 2 (z mod hour div minute))"

text \<open>\<open>ORDER BY created_at DESC LIMIT 1\<close> compares the texts of the column.\<close>

definition theme_for_ticker :: "core_db \<Rightarrow> string \<Rightarrow> string" where
  "theme_for_ticker db t = (case greatest (\<lambda>d. aware_isoformat (created_at d))
       (filter (\<lambda>d. ticker d = t) (decision_records db)) of
     None \<Rightarrow> ''unclassified''
   | Some d \<Rightarrow> (case primary_theme_id d of None \<Rightarrow> ''unclassified''
       | Some theme \<Rightarrow> if theme = [] then ''unclassified'' else theme))"

definition money_of :: "pyfloat \<Rightarrow> rat result" where
  "money_of x = quantize 28 2 (decimal_of_float x)"

definition validated :: "string list \<Rightarrow> 'a \<Rightarrow> 'a result" where
  "validated errors x = (if errors = [] then Inr x else Inl (ValidationError errors))"

text \<open>
  The execution position and the reporting position of an observed one, or \<open>None\<close> when its value is not positive.
\<close>

definition observed_value :: "ObservedPosition \<Rightarrow> rat result" where
  "observed_value p = (case op_price p of
     Some x \<Rightarrow> quantize 28 2 (dec 28 (decimal_of_float (op_quantity p) * decimal_of_float x))
   | None \<Rightarrow> money_of (op_market_value p))"

definition live_position :: "core_db \<Rightarrow> ObservedPosition \<Rightarrow> rat \<Rightarrow> LivePosition" where
  "live_position db p v = \<lparr>lpos_ticker = op_ticker p, lpos_market_value = fl v,
     lpos_primary_theme_id = theme_for_ticker db (op_ticker p)\<rparr>"

definition reporting_position :: "core_db \<Rightarrow> ObservedPosition \<Rightarrow> rat \<Rightarrow> ReportingPosition" where
  "reporting_position db p v = (let priced = (op_price p \<noteq> None \<and> op_quote_at p \<noteq> None) in
     \<lparr>rp_ticker = op_ticker p, rp_quantity = Some (decimal_of_float (op_quantity p)), rp_market_value = Some v,
      rp_average_cost = map_option decimal_of_float (op_average_cost p),
      rp_price = map_option decimal_of_float (op_price p), rp_quote_at = (if priced then op_quote_at p else None),
      rp_price_quality = (if priced then current_price else missing_price), rp_name = None,
      rp_theme = Some (theme_for_ticker db (op_ticker p)), rp_asset_class = equity_class\<rparr>)"

definition observe_position :: "core_db \<Rightarrow> ObservedPosition \<Rightarrow> (LivePosition \<times> ReportingPosition) option result" where
  "observe_position db p = and_then (observed_value p) (\<lambda>v.
     if v \<le> 0 then Inr None
     else and_then (validated (live_position_errors (live_position db p v)) (live_position db p v)) (\<lambda>l.
          and_then (validated (position_errors (reporting_position db p v)) (reporting_position db p v)) (\<lambda>r.
          Inr (Some (l, r)))))"

text \<open>The close of a session of today that has rung by the capture.\<close>

definition close_rung :: "instant \<Rightarrow> bool result" where
  "close_rung captured = and_then (session_close (ny_date captured)) (\<lambda>close.
     Inr (case close of None \<Rightarrow> False | Some c \<Rightarrow> c \<le> captured))"

definition valuation_of :: "AccountObservation \<Rightarrow> ExecutionProfile \<Rightarrow> ReportingPosition list \<Rightarrow> instant \<Rightarrow> instant \<Rightarrow>
    string \<Rightarrow> ValuationObservation result" where
  "valuation_of a profile positions captured recorded stamp =
    (let day = ny_date captured; i = ep_execution_profile_id profile in
     and_then (close_rung captured) (\<lambda>at_close.
     and_then (money_of (ao_account_equity a)) (\<lambda>equity.
     and_then (case ao_cash a of None \<Rightarrow> Inr None | Some c \<Rightarrow> and_then (money_of c) (\<lambda>x. Inr (Some x))) (\<lambda>cash.
     and_then (if at_close then and_then (previous_session day) (\<lambda>d. Inr (Some d)) else Inr None) (\<lambda>previous.
     let priced = list_all (\<lambda>p. rp_price_quality p = current_price) positions;
         held = dec_sum 28 (List.map_filter rp_market_value positions);
         complete = (case cash of None \<Rightarrow> False
           | Some c \<Rightarrow> priced \<and> balance_reconciles 28 (dec 28 (c + held)) equity (int (length positions)));
         v = \<lparr>ob_observation_id = ''val_'' @ i @ ''_'' @ stamp,
           ob_external_event_id = ''broker_valuation_'' @ i @ ''_'' @ stamp, ob_mode = LiveMode,
           ob_account_id = ep_broker_account_fingerprint profile, ob_occurred_at = captured,
           ob_recorded_at = max recorded captured, ob_sequence = 0, ob_supersedes = None, ob_voided = False,
           vo_equity = Some equity, vo_cash = cash, vo_receivables = 0, vo_liabilities = 0,
           vo_positions = Some positions, vo_complete = complete,
           vo_phase = (if at_close then session_close_phase else intraday),
           vo_session_date = (if at_close then Some day else None), vo_previous_session_date = previous\<rparr>
     in validated (valuation_errors v) v)))))"

text \<open>
  The loop of \<open>collect_snapshot\<close>, written as the source writes it: \<open>while True\<close>, left by an answer or by a raise.
  \<open>answer tries\<close> is the session of that try; \<open>None\<close> would be a loop that never ends.
\<close>

partial_function (option) read_account :: "(int \<Rightarrow> 'a result) \<Rightarrow> int \<Rightarrow> 'a result option" where
  "read_account answer tries = (case answer tries of
     Inl (BrokerSessionFailure m) \<Rightarrow> if tries + 1 = 2 then Some (Inl (BrokerSessionFailure m))
       else read_account answer (tries + 1)
   | r \<Rightarrow> Some r)"

definition captured_at :: "instant option \<Rightarrow> instant \<Rightarrow> AccountObservation \<Rightarrow> instant" where
  "captured_at now answered a = (case now of Some t \<Rightarrow> t
   | None \<Rightarrow> foldl max answered (List.map_filter op_quote_at (ao_positions a)))"

record clock_reads =
  cr_started :: instant
  cr_answered :: instant
  cr_recorded :: instant

definition snapshot_of :: "core_db \<Rightarrow> ExecutionProfile \<Rightarrow> string \<Rightarrow> instant option \<Rightarrow> clock_reads \<Rightarrow> AccountObservation \<Rightarrow>
    LivePortfolioSnapshot result" where
  "snapshot_of db profile model now clock_read a =
    (let stamp = compact_timestamp (case now of Some t \<Rightarrow> t | None \<Rightarrow> cr_started clock_read);
         captured = captured_at now (cr_answered clock_read) a; i = ep_execution_profile_id profile in
     if ao_broker_account_fingerprint a \<noteq> ep_broker_account_fingerprint profile
       then Inl (ValueError ''collector_account_mismatch'')
     else and_then (map_result (observe_position db) (ao_positions a)) (\<lambda>found.
       let pairs = List.map_filter id found in
       and_then (money_of (ao_account_equity a)) (\<lambda>equity.
       and_then (valuation_of a profile (map snd pairs) captured (cr_recorded clock_read) stamp) (\<lambda>v.
       let s = \<lparr>ls_portfolio_snapshot_id = ''snap_'' @ i @ ''_'' @ stamp, ls_execution_profile_id = i,
         ls_broker_account_fingerprint = ep_broker_account_fingerprint profile, ls_captured_at = captured,
         ls_account_equity = fl equity, ls_buying_power = ao_buying_power a, ls_positions = map fst pairs,
         ls_reporting = Some v, ls_collector_model = Some model,
         ls_index_prices = List.map_filter (\<lambda>(k, x). map_option (Pair k) x)
           [(''SPY'', ao_spy_price a), (''QQQ'', ao_qqq_price a)]\<rparr>
       in validated (snapshot_errors s) s))))"

definition collect_snapshot :: "core_db \<Rightarrow> ExecutionProfile \<Rightarrow> string \<Rightarrow> instant option \<Rightarrow> clock_reads \<Rightarrow>
    (int \<Rightarrow> AccountObservation result) \<Rightarrow> (core_db \<times> LivePortfolioSnapshot) result option" where
  "collect_snapshot db profile model now clock_read session =
     map_option (\<lambda>read. and_then read (\<lambda>a. and_then (snapshot_of db profile model now clock_read a) (\<lambda>s.
       and_then (save_live_portfolio_snapshot profile s db) (\<lambda>saved. Inr (fst saved, s)))))
     (read_account session 0)"

definition collect_preflight :: "ExecutionProfile \<Rightarrow> string \<Rightarrow> QuoteObservation result \<Rightarrow> BrokerPreflight result" where
  "collect_preflight profile t answer = and_then answer (\<lambda>q.
     if qo_broker_account_fingerprint q \<noteq> ep_broker_account_fingerprint profile
       then Inl (ValueError ''collector_account_mismatch'')
     else if py_upper (qo_ticker q) \<noteq> py_upper t then Inl (ValueError ''collector_ticker_mismatch'')
     else let p = \<lparr>bp_execution_profile_id = ep_execution_profile_id profile,
         bp_broker_account_fingerprint = ep_broker_account_fingerprint profile,
         bp_account_equity = qo_account_equity q, bp_buying_power = qo_buying_power q, bp_ticker = py_upper t,
         bp_current_position_value = qo_current_position_value q, bp_bid = qo_bid q, bp_ask = qo_ask q,
         bp_quote_at = qo_quote_at q, bp_tradable = qo_tradable q, bp_fractionable = qo_fractionable q,
         bp_regular_market_hours = qo_regular_market_hours q\<rparr>
       in validated (preflight_errors p) p)"

section \<open>A collection ends and what it stores holds together\<close>

text \<open>A failed session is tried once more; the loop of \<open>read_account\<close> never asks a third time.\<close>

lemma read_account_two_tries:
  "read_account answer 0 = Some (case answer 0 of Inl (BrokerSessionFailure _) \<Rightarrow> answer 1 | r \<Rightarrow> r)"
  by (subst read_account.simps, subst read_account.simps) (auto split: sum.splits exn.splits)

lemma session_needs_no_order_tools: "sq_approved_tools q = [] \<Longrightarrow> tool_options (sq_approved_tools q) = []"
  by (simp add: tool_options_def)

lemma validated_Inr [result_simps]: "validated errors x = Inr y \<longleftrightarrow> errors = [] \<and> y = x"
  by (auto simp: validated_def)

lemma fl_cent_positive: assumes "1 / 100 \<le> v" shows "0 < fl v"
proof -
  have "(of_int 1 * 2 powi (- 7) :: rat) = 1 / 128" by (simp add: power_int_minus)
  moreover have "fl (of_int 1 * 2 powi (- 7)) = of_int 1 * 2 powi (- 7)" by (rule fl_dyadic) simp_all
  ultimately have "fl (1 / 128) = 1 / 128" by metis
  moreover have "fl (1 / 128) \<le> fl v" using assms by (intro fl_mono) simp
  ultimately have "1 / 128 \<le> fl v" by simp
  then show ?thesis by (rule less_le_trans [rotated]) simp
qed

lemma quantize_positive:
  assumes "quantize p 2 x = Inr v" and "0 < v"
  shows "1 / 100 \<le> v"
proof -
  have v: "v = of_int (rhe (x * 10 ^ 2)) / 10 ^ 2" using assms(1) by (simp add: quantize_def Let_def split: if_splits)
  with assms(2) have "0 < rhe (x * 10 ^ 2)" by (simp add: zero_less_divide_iff)
  then have "(1 :: rat) \<le> of_int (rhe (x * 10 ^ 2))" by linarith
  with v show ?thesis by simp
qed

lemma observe_position_Some:
  assumes "observe_position db p = Inr (Some (l, r))"
  shows "0 < lpos_market_value l" and "rp_ticker r = lpos_ticker l"
proof -
  obtain v where v: "observed_value p = Inr v" "0 < v" "l = live_position db p v" "r = reporting_position db p v"
    using assms by (auto simp: observe_position_def result_simps split: if_splits)
  have "1 / 100 \<le> v"
    using v(1,2) quantize_positive by (auto simp: observed_value_def money_of_def split: option.splits)
  then show "0 < lpos_market_value l" using v(3) by (simp add: live_position_def fl_cent_positive)
  show "rp_ticker r = lpos_ticker l" using v(3,4) by (simp add: live_position_def reporting_position_def Let_def)
qed

lemma valuation_of_complete:
  assumes "valuation_of a profile ps captured recorded stamp = Inr v"
  shows "vo_positions v = Some ps \<and> (vo_complete v \<longrightarrow> (\<exists>cash equity. vo_cash v = Some cash \<and> vo_equity v = Some equity \<and>
    list_all (\<lambda>p. rp_price_quality p = current_price) ps \<and>
    balance_reconciles 28 (dec 28 (cash + dec_sum 28 (List.map_filter rp_market_value ps))) equity (int (length ps))))"
proof -
  obtain cash equity where
    "vo_positions v = Some ps" "vo_cash v = cash" "vo_equity v = Some equity"
    "vo_complete v \<longleftrightarrow> (case cash of None \<Rightarrow> False
       | Some c \<Rightarrow> list_all (\<lambda>p. rp_price_quality p = current_price) ps \<and>
           balance_reconciles 28 (dec 28 (c + dec_sum 28 (List.map_filter rp_market_value ps))) equity (int (length ps)))"
    using assms unfolding valuation_of_def Let_def and_then_Inr validated_Inr
    by (elim exE conjE) (simp only: ValuationObservation.simps)
  then show ?thesis by (simp split: option.splits)
qed

text \<open>What a successful collection returns, as the facts its callers rest on.\<close>

definition sound_snapshot :: "ExecutionProfile \<Rightarrow> LivePortfolioSnapshot \<Rightarrow> bool" where
  "sound_snapshot profile s = (snapshot_errors s = [] \<and>
     ls_broker_account_fingerprint s = ep_broker_account_fingerprint profile \<and>
     list_all (\<lambda>p. 0 < lpos_market_value p) (ls_positions s) \<and>
     (case ls_reporting s of None \<Rightarrow> False | Some v \<Rightarrow>
       map_option (map rp_ticker) (vo_positions v) = Some (map lpos_ticker (ls_positions s)) \<and>
       (vo_complete v \<longrightarrow> (case (vo_cash v, vo_equity v, vo_positions v) of
          (Some cash, Some equity, Some ps) \<Rightarrow> list_all (\<lambda>p. rp_price_quality p = current_price) ps \<and>
            balance_reconciles 28 (dec 28 (cash + dec_sum 28 (List.map_filter rp_market_value ps))) equity (int (length ps))
        | _ \<Rightarrow> False))))"

lemma observed_pairs:
  assumes "map_result (observe_position db) ps = Inr found"
  shows "list_all (\<lambda>(l, r). 0 < lpos_market_value l \<and> rp_ticker r = lpos_ticker l) (List.map_filter id found)"
  using assms
proof (induction ps arbitrary: found)
  case Nil
  then show ?case by (simp add: List.map_filter_def)
next
  case (Cons p ps)
  then obtain x xs where x: "observe_position db p = Inr x" "found = x # xs"
    and xs: "map_result (observe_position db) ps = Inr xs"
    by (auto simp: result_simps)
  from x Cons.IH [OF xs] show ?case
    using observe_position_Some [of db p] by (cases x) (auto simp: List.map_filter_def)
qed

lemma snapshot_of_sound:
  assumes "snapshot_of db profile model now reads a = Inr s"
  shows "sound_snapshot profile s"
proof -
  obtain found v where found: "map_result (observe_position db) (ao_positions a) = Inr found"
    and v: "valuation_of a profile (map snd (List.map_filter id found)) (captured_at now (cr_answered reads) a)
      (cr_recorded reads) (compact_timestamp (case now of Some t \<Rightarrow> t | None \<Rightarrow> cr_started reads)) = Inr v"
    and s: "snapshot_errors s = []" "ls_broker_account_fingerprint s = ep_broker_account_fingerprint profile"
      "ls_positions s = map fst (List.map_filter id found)" "ls_reporting s = Some v"
    using assms by (auto simp: snapshot_of_def Let_def result_simps)
  have pairs: "list_all (\<lambda>(l, r). 0 < lpos_market_value l \<and> rp_ticker r = lpos_ticker l) (List.map_filter id found)"
    by (rule observed_pairs [OF found])
  then have "map rp_ticker (map snd (List.map_filter id found)) = map lpos_ticker (ls_positions s)"
    by (induction "List.map_filter id found") (auto simp: s(3) list_all_iff)
  with pairs s valuation_of_complete [OF v] show ?thesis
    unfolding sound_snapshot_def by (auto simp: list_all_iff)
qed

lemma collect_snapshot_sound:
  assumes "collect_snapshot db profile model now reads session = Some (Inr (db', s))"
  shows "sound_snapshot profile s \<and> get_live_portfolio_snapshot db' (ls_portfolio_snapshot_id s) = Some s"
proof -
  obtain a b where "snapshot_of db profile model now reads a = Inr s"
    and saved: "save_live_portfolio_snapshot profile s db = Inr (db', b)"
    using assms by (auto simp: collect_snapshot_def result_simps)
  from snapshot_of_sound [OF this(1)] snapshots.stores [OF saved] show ?thesis by blast
qed

end
