(* ===== verification/LiveValuation.thy ===== *)
theory LiveValuation
  imports Collector XStore
begin

text \<open>
  The valuation tick (\<open>app/broker/valuation.py\<close>): whether a tick may observe, what a failed collection may say
  outside, the count of failures kept between ticks and the alerts it raises. The collector's process, the lock and
  the duration are inputs of a tick; the state file holds what the last tick saved, \<open>None\<close> when it cannot be read.
\<close>

section \<open>Windows\<close>

definition REGULAR_OPEN :: daytime where "REGULAR_OPEN = clock 9 30"
definition DEFAULT_ALERT_AFTER :: int where "DEFAULT_ALERT_AFTER = 3"
definition CLOSE_CAPTURE :: int where "CLOSE_CAPTURE = 45 * minute"

record Window =
  wn_open :: bool
  wn_reason :: string
  wn_session_date :: "string option"

definition shut :: "string \<Rightarrow> Window" where
  "shut why = \<lparr>wn_open = False, wn_reason = why, wn_session_date = None\<rparr>"

definition session_window :: "instant \<Rightarrow> Window" where
  "session_window now = (let day = ny_date now in
     case session_close day of
       Inl _ \<Rightarrow> shut ''calendar_out_of_coverage''
     | Inr None \<Rightarrow> shut (if 5 \<le> weekday day then ''weekend'' else ''holiday'')
     | Inr (Some close) \<Rightarrow>
         if now < ny_combine day REGULAR_OPEN then shut ''pre_open''
         else if close \<le> now then shut ''after_close''
         else \<lparr>wn_open = True, wn_reason = ''regular_session'', wn_session_date = Some (date_isoformat day)\<rparr>)"

definition close_recorded :: "ReportingObservation list \<Rightarrow> pydate \<Rightarrow> bool" where
  "close_recorded rows day = list_ex (\<lambda>x. case x of
     Valuation v \<Rightarrow> ob_mode v = LiveMode \<and> \<not> ob_voided v \<and> vo_phase v = session_close_phase \<and> vo_session_date v = Some day
   | _ \<Rightarrow> False) rows"

text \<open>\<open>rows = None\<close>: the database does not exist.\<close>

definition unrecorded_close :: "ReportingObservation list option \<Rightarrow> instant \<Rightarrow> instant option" where
  "unrecorded_close rows now = (case session_close (ny_date now) of
     Inr (Some close) \<Rightarrow>
       if \<not> (close \<le> now \<and> now < close + CLOSE_CAPTURE) then None
       else (case rows of None \<Rightarrow> None | Some rs \<Rightarrow> if close_recorded rs (ny_date now) then None else Some close)
   | _ \<Rightarrow> None)"

section \<open>What a failure says\<close>

text \<open>\<open>str.splitlines\<close> on the characters below 256.\<close>

definition line_break :: "char \<Rightarrow> bool" where
  "line_break c = (let n = (of_char c :: nat) in (10 \<le> n \<and> n \<le> 13) \<or> (28 \<le> n \<and> n \<le> 30) \<or> n = 133)"

function split_from :: "string \<Rightarrow> string \<Rightarrow> string list" where
  "split_from acc [] = (if acc = [] then [] else [rev acc])"
| "split_from acc (c # cs) =
    (if c = CHR 0x0D \<and> cs \<noteq> [] \<and> hd cs = CHR 0x0A then rev acc # split_from [] (tl cs)
     else if line_break c then rev acc # split_from [] cs
     else split_from (c # acc) cs)"
  by pat_completeness auto
termination by (relation "measure (\<lambda>(acc, s). length s)") auto

definition splitlines :: "string \<Rightarrow> string list" where
  "splitlines s = split_from [] s"

text \<open>
  \<open>^(?:[A-Za-z_][\w.]*\.)?([A-Z]\w{0,63}): ([a-z][a-z0-9_]{0,63})$\<close>: neither part has a colon, and the class has no
  dot, so the text splits at its first colon and the class follows the last dot before it.
\<close>

definition class_part :: "string \<Rightarrow> string" where
  "class_part s = rev (takeWhile (\<lambda>c. c \<noteq> CHR ''.'') (rev s))"

definition module_part :: "string \<Rightarrow> string" where
  "module_part s = rev (dropWhile (\<lambda>c. c \<noteq> CHR ''.'') (rev s))"

definition ascii_letter :: "char \<Rightarrow> bool" where
  "ascii_letter c = (char_between CHR ''A'' CHR ''Z'' c \<or> char_between CHR ''a'' CHR ''z'' c)"

definition module_prefix :: "string \<Rightarrow> bool" where
  "module_prefix s = (s = [] \<or> (2 \<le> length s \<and> (ascii_letter (hd s) \<or> hd s = CHR ''_'') \<and> last s = CHR ''.'' \<and>
     list_all (\<lambda>c. word_char c \<or> c = CHR ''.'') (tl s)))"

definition class_name :: "string \<Rightarrow> bool" where
  "class_name s = (s \<noteq> [] \<and> char_between CHR ''A'' CHR ''Z'' (hd s) \<and> list_all word_char (tl s) \<and> length s \<le> 64)"

definition code_name :: "string \<Rightarrow> bool" where
  "code_name s = (s \<noteq> [] \<and> char_between CHR ''a'' CHR ''z'' (hd s) \<and> length s \<le> 64 \<and>
     list_all (\<lambda>c. char_between CHR ''a'' CHR ''z'' c \<or> char_between CHR ''0'' CHR ''9'' c \<or> c = CHR ''_'') (tl s))"

definition safe_failure :: "string \<Rightarrow> (string \<times> string) option" where
  "safe_failure line =
    (let front = takeWhile (\<lambda>c. c \<noteq> CHR '':'') line; rest = dropWhile (\<lambda>c. c \<noteq> CHR '':'') line in
     if take 2 rest = '': '' \<and> module_prefix (module_part front) \<and> class_name (class_part front) \<and> code_name (drop 2 rest)
     then Some (class_part front, drop 2 rest) else None)"

definition failure_reason :: "int option \<Rightarrow> string \<Rightarrow> string" where
  "failure_reason returncode stderr = (case returncode of
     None \<Rightarrow> ''timeout''
   | Some code \<Rightarrow>
       let lines = map strip (filter (\<lambda>l. strip l \<noteq> []) (splitlines stderr)) in
       (case (if lines = [] then None else safe_failure (last lines)) of
          Some (c, m) \<Rightarrow> c @ '': '' @ m
        | None \<Rightarrow> ''exit_'' @ int_string code))"

text \<open>\<open>decode\<close> reads the summary fields of a line of JSON, \<open>None\<close> when it is not one.\<close>

definition summarize :: "(string \<Rightarrow> 'j option) \<Rightarrow> string \<Rightarrow> 'j option" where
  "summarize decode stdout = (case find (\<lambda>l. take 1 l = ''{'') (rev (splitlines stdout)) of
     None \<Rightarrow> None | Some l \<Rightarrow> decode l)"

section \<open>A tick\<close>

record TickState =
  tk_consecutive_failures :: int
  tk_last_success_at :: "instant option"
  tk_last_failure_at :: "instant option"
  tk_last_reason :: "string option"

definition load_state :: "TickState option \<Rightarrow> TickState" where
  "load_state file = (case file of Some s \<Rightarrow> s
   | None \<Rightarrow> \<lparr>tk_consecutive_failures = 0, tk_last_success_at = None, tk_last_failure_at = None, tk_last_reason = None\<rparr>)"

text \<open>The texts of the alerts, by what they say and how long the collection took.\<close>

datatype alert = Recovered int pyfloat | FirstFailure string pyfloat | FailedTicks int string

datatype tick_outcome = TickSkipped | WhatIf bool | TickSuccess | TickFailure

record 'j TickResult =
  tkr_outcome :: tick_outcome
  tkr_reason :: string
  tkr_session_date :: "string option"
  tkr_alert :: "alert option"
  tkr_failures :: "int option"
  tkr_summary :: "'j option"

record TickInputs =
  ti_observed :: instant
  ti_what_if :: bool
  ti_rows :: "ReportingObservation list option"
  ti_lock_free :: bool
  ti_returncode :: "int option"
  ti_stdout :: string
  ti_stderr :: string
  ti_duration :: pyfloat

definition failure_alert :: "int \<Rightarrow> int \<Rightarrow> string \<Rightarrow> pyfloat \<Rightarrow> alert option" where
  "failure_alert alert_after failures why duration =
    (if failures = 1 then Some (FirstFailure why duration)
     else if failures mod (max 1 alert_after) = 0 then Some (FailedTicks failures why) else None)"

definition collected_tick :: "(string \<Rightarrow> 'j option) \<Rightarrow> int \<Rightarrow> TickInputs \<Rightarrow> string \<Rightarrow> string option \<Rightarrow> TickState option \<Rightarrow>
    TickState option \<times> int \<times> 'j TickResult" where
  "collected_tick decode alert_after i why session_date file =
    (let state = load_state file; previous = tk_consecutive_failures state; duration = py_round 1 (ti_duration i) in
     if ti_returncode i = Some 0 then
       (Some (state\<lparr>tk_consecutive_failures := 0, tk_last_success_at := Some (ti_observed i)\<rparr>), 0,
        \<lparr>tkr_outcome = TickSuccess, tkr_reason = ''observed'', tkr_session_date = session_date,
         tkr_alert = (if previous \<noteq> 0 then Some (Recovered previous duration) else None), tkr_failures = Some 0,
         tkr_summary = summarize decode (ti_stdout i)\<rparr>)
     else let reason = failure_reason (ti_returncode i) (ti_stderr i); failures = previous + 1 in
       (Some (state\<lparr>tk_consecutive_failures := failures, tk_last_failure_at := Some (ti_observed i),
          tk_last_reason := Some reason\<rparr>), 1,
        \<lparr>tkr_outcome = TickFailure, tkr_reason = reason, tkr_session_date = session_date,
         tkr_alert = failure_alert alert_after failures reason duration, tkr_failures = Some failures, tkr_summary = None\<rparr>))"

definition run_tick :: "(string \<Rightarrow> 'j option) \<Rightarrow> int \<Rightarrow> TickInputs \<Rightarrow> TickState option \<Rightarrow>
    TickState option \<times> int \<times> 'j TickResult" where
  "run_tick decode alert_after i file =
    (let window = session_window (ti_observed i);
         close = (if wn_open window then None else unrecorded_close (ti_rows i) (ti_observed i));
         reason = (if close = None then wn_reason window else ''session_close'');
         session_date = (case close of None \<Rightarrow> wn_session_date window | Some c \<Rightarrow> Some (date_isoformat (ny_date c)));
         result = (\<lambda>outcome why. \<lparr>tkr_outcome = outcome, tkr_reason = why, tkr_session_date = session_date, tkr_alert = None,
           tkr_failures = None, tkr_summary = None\<rparr>)
     in if ti_what_if i then (file, 0, result (WhatIf (wn_open window \<or> close \<noteq> None)) reason)
        else if \<not> wn_open window \<and> close = None then (file, 0, result TickSkipped reason)
        else if \<not> ti_lock_free i then (file, 0, result TickSkipped ''overlap'')
        else collected_tick decode alert_after i reason session_date file)"

section \<open>Safe texts\<close>

text \<open>What a failure says outside is \<open>timeout\<close>, an exit code, or a class name and a code of at most 64 characters each.\<close>

lemma failure_reason_vocabulary:
  "failure_reason returncode stderr = ''timeout'' \<or> (\<exists>code. failure_reason returncode stderr = ''exit_'' @ int_string code) \<or>
   (\<exists>c m. failure_reason returncode stderr = c @ '': '' @ m \<and> class_name c \<and> code_name m)"
  by (auto simp: failure_reason_def safe_failure_def Let_def split: option.splits if_splits)

section \<open>Counting failures\<close>

text \<open>
  A tick collects when its window is open or its close is unrecorded, it is not a rehearsal and the lock is free;
  over the ticks that collect, the count kept between them is the length of the current run of failures.
\<close>

definition collects :: "TickInputs \<Rightarrow> bool" where
  "collects i = (\<not> ti_what_if i \<and> ti_lock_free i \<and>
     (wn_open (session_window (ti_observed i)) \<or> unrecorded_close (ti_rows i) (ti_observed i) \<noteq> None))"

definition fails :: "TickInputs \<Rightarrow> bool" where
  "fails i = (ti_returncode i \<noteq> Some 0)"

definition failures_of :: "TickState option \<Rightarrow> int" where
  "failures_of file = tk_consecutive_failures (load_state file)"

lemma run_tick_idle: "\<not> collects i \<Longrightarrow> fst (run_tick decode n i file) = file"
  by (auto simp: run_tick_def collects_def Let_def)

lemma run_tick_counts: "collects i \<Longrightarrow>
    failures_of (fst (run_tick decode n i file)) = (if fails i then failures_of file + 1 else 0)"
  by (auto simp: run_tick_def collects_def collected_tick_def Let_def fails_def failures_of_def load_state_def)

text \<open>
  Whatever the ticks see, the count of failures kept between them is the length of the current run of failures
  among the ticks that collect: a success resets it, and a tick that does not collect leaves it.
\<close>

lemma ticks_count_failures:
  "failures_of (fold (\<lambda>i file. fst (run_tick decode n i file)) ticks None) =
     int (length (takeWhile fails (rev (filter collects ticks))))"
  by (induction ticks rule: rev_induct)
     (auto simp: failures_of_def [of None] load_state_def run_tick_idle run_tick_counts)

lemma run_tick_alerts:
  assumes "collects i" and "fails i"
  shows "tkr_alert (snd (snd (run_tick decode n i file))) \<noteq> None \<longleftrightarrow>
    failures_of file = 0 \<or> (failures_of file + 1) mod (max 1 n) = 0"
  using assms
  by (auto simp: run_tick_def collects_def collected_tick_def failure_alert_def Let_def fails_def failures_of_def)

end
