(* ===== verification/Worker.thy ===== *)
theory Worker
  imports HoldingGates ReviewStore LiveValuation
begin

text \<open>
  The steps of a review the trusted worker takes itself (\<open>execute_attempt\<close> of \<open>app/reason/worker.py\<close> and
  \<open>live_readiness\<close> of \<open>app/reason/runtime_prepare.py\<close>): the facts a live review starts from, the choice between its
  two passes, the floors it lifts, the buys it holds back, the submission of the drafts and the tables the outcome
  is written to. A step that may fail after it wrote returns the tables with its result.
\<close>

section \<open>The facts a live review starts from\<close>

definition snapshot_at :: "core_db \<Rightarrow> string \<Rightarrow> instant \<Rightarrow> LivePortfolioSnapshot option" where
  "snapshot_at core profile now = greatest (\<lambda>s. julianday (ls_captured_at s))
     (filter (\<lambda>s. ls_execution_profile_id s = profile \<and> julianday (ls_captured_at s) \<le> julianday now)
       (live_portfolio_snapshots core))"

text \<open>\<open>max_age or LIVE_SNAPSHOT_MAX_AGE\<close>: a duration of zero counts as absent.\<close>

definition live_readiness :: "core_db \<Rightarrow> RuntimeRun \<Rightarrow> ExecutionProfile option \<Rightarrow> instant \<Rightarrow> int option \<Rightarrow>
    (LivePortfolioSnapshot \<times> RegimeSnapshot) result" where
  "live_readiness core run profile now max_age =
    (if (case profile of None \<Rightarrow> True | Some p \<Rightarrow> \<not> ep_enabled p \<or>
         ep_execution_profile_id p \<noteq> ru_execution_profile_id run \<or> ep_broker_account_fingerprint p \<noteq> ru_account_id run)
       then Inl (ValueError ''live_profile_unavailable'')
     else (case snapshot_at core (ru_execution_profile_id run) now of
         None \<Rightarrow> Inl (ValueError ''snapshot_stale'')
       | Some snap \<Rightarrow>
           if ls_broker_account_fingerprint snap \<noteq> ru_account_id run \<or>
               (case max_age of None \<Rightarrow> LIVE_SNAPSHOT_MAX_AGE | Some a \<Rightarrow> if a = 0 then LIVE_SNAPSHOT_MAX_AGE else a)
                 < now - ls_captured_at snap
             then Inl (ValueError ''snapshot_stale'')
           else and_then (completed_session now) (\<lambda>session.
             and_then (session_close session) (\<lambda>close.
             case find (\<lambda>r. rg_snapshot_date r = session \<and> julianday (rg_computed_at r) \<le> julianday now)
                 (regime_snapshots core) of
               None \<Rightarrow> Inl (ValueError ''regime_missing'')
             | Some r \<Rightarrow> if (case close of None \<Rightarrow> True | Some c \<Rightarrow> rg_computed_at r < c)
                 then Inl (ValueError ''regime_stale'') else Inr (snap, r)))))"

text \<open>The hunt's minimum: real authoring enforces it, an injected runner opts in.\<close>

definition hunt_required :: "bool \<Rightarrow> int option \<Rightarrow> RuntimeRun \<Rightarrow> bool \<Rightarrow> int" where
  "hunt_required real_runner hunt_minimum run crisis =
    (if ru_mode run = LiveMode \<and> (crisis \<or> ru_slot run \<notin> set HUNT_SLOTS) then 0
     else case hunt_minimum of Some m \<Rightarrow> m | None \<Rightarrow> if real_runner then HUNT_MINIMUM else 0)"

section \<open>Two passes\<close>

definition MIN_RETRY_SECONDS :: pyfloat where "MIN_RETRY_SECONDS = 120"

definition add_activity :: "Activity \<Rightarrow> Activity \<Rightarrow> Activity" where
  "add_activity a b = \<lparr>act_searches = act_searches a + act_searches b, act_opens = act_opens a + act_opens b,
     act_reasoning_tokens = act_reasoning_tokens a + act_reasoning_tokens b,
     act_output_tokens = act_output_tokens a + act_output_tokens b\<rparr>"

type_synonym pass = "AuthoredOutput \<times> required_problem list \<times> (string \<times> gap) list"

text \<open>The second answer stands unless it lost a required check the first one met.\<close>

definition choose_pass :: "pass \<Rightarrow> pass \<Rightarrow> pass" where
  "choose_pass first_pass second_pass =
    (if fst (snd second_pass) \<noteq> [] \<and> fst (snd first_pass) = [] then (fst first_pass, [], snd (snd first_pass))
     else second_pass)"

definition needs_second_pass :: "pass \<Rightarrow> pyfloat \<Rightarrow> bool" where
  "needs_second_pass p remaining = ((fst (snd p) \<noteq> [] \<or> snd (snd p) \<noteq> []) \<and> MIN_RETRY_SECONDS \<le> remaining)"

definition accept_pass :: "pass \<Rightarrow> (AuthoredOutput \<times> (string \<times> gap) list) result" where
  "accept_pass p = (if fst (snd p) \<noteq> [] then Inl (RunnerFailure ''insufficient_research'')
     else Inr (fst p, snd (snd p)))"

section \<open>Due holdings, triage and floors\<close>

record LiveFacts =
  lf_open_episodes :: "string list"
  lf_due :: "HoldingDue list"
  lf_triaged :: "AuthoredXTriage list"

definition listed_headlines :: "HoldingDue list \<Rightarrow> (string \<times> string) list" where
  "listed_headlines due = concat (map (\<lambda>h. map (\<lambda>x. (xh_post_id x, ep_ticker (hd_episode h))) (hd_x_headlines h)) due)"

definition live_facts :: "worker_db \<Rightarrow> RuntimeRun \<Rightarrow> AuthoredOutput \<Rightarrow> bool \<Rightarrow> LiveFacts result" where
  "live_facts db run result crisis =
    (if ru_mode run \<noteq> LiveMode then Inr \<lparr>lf_open_episodes = [], lf_due = [], lf_triaged = []\<rparr>
     else and_then (starting_snapshot db run) (\<lambda>snap.
       and_then (holdings_due (due_inputs db) snap (ru_prepared_at run) crisis) (\<lambda>due.
       Inr \<lparr>lf_open_episodes = map (\<lambda>e. ep_episode_id (snd e))
              (live_holding_episodes (wd_core db) (ru_account_id run) (ls_captured_at snap)),
            lf_due = due,
            lf_triaged = filter (\<lambda>v. (xt_post_id v, xt_ticker v) \<in> set (listed_headlines due)) (ao_x_triage result)\<rparr>)))"

text \<open>The reasons of a due episode; a thesis-changing headline is one of them.\<close>

definition due_reasons :: "LiveFacts \<Rightarrow> string \<Rightarrow> string list" where
  "due_reasons facts episode = (case map_of (rev (map (\<lambda>h. (ep_episode_id (hd_episode h), hd_reasons h @
       error_if (ep_ticker (hd_episode h) \<in> set (map xt_ticker (filter xt_changes_thesis (lf_triaged facts)))) ''x_digest''))
       (lf_due facts))) episode of None \<Rightarrow> [] | Some rs \<Rightarrow> rs)"

definition invalidated_tickers :: "AuthoredOutput \<Rightarrow> string list" where
  "invalidated_tickers result = map ar_ticker (filter (\<lambda>r. ar_state r = holding_invalidated) (ao_thesis_reviews result))"

definition due_tickers :: "string list \<Rightarrow> HoldingDue list \<Rightarrow> string list" where
  "due_tickers named due = map (\<lambda>h. ep_ticker (hd_episode h))
     (filter (\<lambda>h. list_ex (\<lambda>r. r \<in> set named) (hd_reasons h)) due)"

definition protective_tickers :: "HoldingDue list \<Rightarrow> AuthoredOutput \<Rightarrow> string list" where
  "protective_tickers due result = due_tickers PROTECTIVE_REASONS due @ invalidated_tickers result"

definition floored :: "HoldingDue list \<Rightarrow> AuthoredOutput \<Rightarrow> bool \<Rightarrow> string list" where
  "floored due result crisis = map ticker (filter (\<lambda>d. exit_of d \<and> entry_price_min d \<noteq> None \<and>
     (crisis \<or> ticker d \<in> set (protective_tickers due result))) (ao_decisions result))"

definition lift_floors :: "HoldingDue list \<Rightarrow> bool \<Rightarrow> AuthoredOutput \<Rightarrow> AuthoredOutput" where
  "lift_floors due crisis result = result\<lparr>ao_decisions := map (\<lambda>d.
     if ticker d \<in> set (floored due result crisis) \<and> exit_of d then d\<lparr>entry_price_min := None\<rparr> else d)
     (ao_decisions result)\<rparr>"

section \<open>New money held back\<close>

definition buys_of :: "AuthoredOutput \<Rightarrow> InvestmentDecisionRecord list" where
  "buys_of result = filter (\<lambda>d. increasing (decision d)) (ao_decisions result)"

definition must_exit :: "HoldingDue list \<Rightarrow> AuthoredOutput \<Rightarrow> string list" where
  "must_exit due result = invalidated_tickers result @ due_tickers [''invalidated_without_exit''] due"

definition funding_sales :: "HoldingDue list \<Rightarrow> AuthoredOutput \<Rightarrow> string list" where
  "funding_sales due result = filter (\<lambda>t. t \<notin> set (must_exit due result)) (map ch_incumbent
     (filter (\<lambda>c. ch_verdict c = swap \<and> ch_candidate c \<in> set (map ticker (buys_of result))) (ao_challenger_reviews result)))"

definition held_back_tickers :: "AuthoredOutput \<Rightarrow> string list" where
  "held_back_tickers result = map ticker (filter (\<lambda>d. decision d = BUY) (buys_of result))"

text \<open>Whether a decision stays in the output while new money is held back.\<close>

definition kept_decision :: "HoldingDue list \<Rightarrow> AuthoredOutput \<Rightarrow> InvestmentDecisionRecord \<Rightarrow> bool" where
  "kept_decision due result d = ((d \<notin> set (buys_of result) \<or> ticker d \<in> set (held_back_tickers result)) \<and>
     \<not> (ticker d \<in> set (funding_sales due result) \<and> exit_of d))"

definition on_watchlist :: "string list \<Rightarrow> InvestmentDecisionRecord \<Rightarrow> InvestmentDecisionRecord" where
  "on_watchlist held d = (if ticker d \<in> set held \<and> decision d = BUY then d\<lparr>decision := WATCHLIST\<rparr> else d)"

definition held_back_summary :: "string list \<Rightarrow> string list \<Rightarrow> string" where
  "held_back_summary causes held =
     '' The trusted worker held back this review's new buys, and any sale that only funded one, because '' @
     join '' and '' causes @ ''.'' @
     (if held \<noteq> [] then '' New positions stay on the watchlist for the next review to decide.'' else '''')"

text \<open>The output and the tickers held back; nothing changes when there is no gap or no buy.\<close>

definition hold_back :: "HoldingDue list \<Rightarrow> string list \<Rightarrow> AuthoredOutput \<Rightarrow> AuthoredOutput \<times> string list" where
  "hold_back due causes result =
    (if causes = [] \<or> buys_of result = [] then (result, [])
     else let held = held_back_tickers result in
       (result\<lparr>ao_decisions := map (on_watchlist held) (filter (kept_decision due result) (ao_decisions result)),
          ao_candidates_considered := map (\<lambda>c. if cc_ticker c \<in> set held \<and> cc_outcome c = BUY
            then c\<lparr>cc_outcome := WATCHLIST\<rparr> else c) (ao_candidates_considered result),
          ao_public_summary := ao_public_summary result @ held_back_summary causes held\<rparr>, held))"

definition only_exits :: "AuthoredOutput \<Rightarrow> AuthoredOutput" where
  "only_exits result = result\<lparr>ao_decisions := filter exit_of (ao_decisions result)\<rparr>"

section \<open>Submission\<close>

definition swaps_of :: "AuthoredOutput \<Rightarrow> (string \<times> string) list" where
  "swaps_of result = rev (map (\<lambda>c. (ch_candidate c, ch_incumbent c))
     (filter (\<lambda>c. ch_verdict c = swap) (ao_challenger_reviews result)))"

definition submission_order :: "InvestmentDecisionRecord list \<Rightarrow> InvestmentDecisionRecord list" where
  "submission_order = sort_key (\<lambda>d. \<not> exit_of d)"

text \<open>What the submission of an attempt's drafts shares.\<close>

record SubmissionSetup =
  ss_env :: Environment
  ss_stored_day :: "OrderIntent \<Rightarrow> pydate"
  ss_profile :: "ExecutionProfile option"
  ss_run :: RuntimeRun
  ss_attempt_id :: string
  ss_fence :: int
  ss_authored_at :: instant
  ss_max_age :: int
  ss_swaps :: "(string \<times> string) list"
  ss_held_back :: "string list"
  ss_cause :: string

text \<open>The accepted sale that funds a live buy of a swap.\<close>

definition funding_of :: "SubmissionSetup \<Rightarrow> (string \<times> string) list \<Rightarrow> InvestmentDecisionRecord \<Rightarrow> string option" where
  "funding_of u accepted r = (if ru_mode (ss_run u) = LiveMode \<and> decision r = BUY
     then (case map_of (ss_swaps u) (ticker r) of None \<Rightarrow> None | Some t \<Rightarrow> map_of accepted t) else None)"

definition submission_snapshot :: "SubmissionSetup \<Rightarrow> instant \<Rightarrow> worker_db \<Rightarrow> string result" where
  "submission_snapshot u now db = (if ru_mode (ss_run u) \<noteq> LiveMode then Inr []
     else (case snapshot_at (wd_core db) (ru_execution_profile_id (ss_run u)) now of
         None \<Rightarrow> Inl (RunnerFailure ''snapshot_stale'') | Some s \<Rightarrow> Inr (ls_portfolio_snapshot_id s)))"

definition submit_options :: "SubmissionSetup \<Rightarrow> string \<Rightarrow> bool \<Rightarrow> SubmitOptions" where
  "submit_options u snapshot_id funded = \<lparr>
     op_execution_mode = (case ru_mode (ss_run u) of LiveMode \<Rightarrow> LIVE | PaperMode \<Rightarrow> PAPER),
     op_execution_profile_id = ru_execution_profile_id (ss_run u),
     op_reasoning_run_id = text_or (ru_reasoning_run_id (ss_run u)) [], op_submission_snapshot_id = snapshot_id,
     op_execution_profile = ss_profile u, op_runtime_attempt_id = Some (ss_attempt_id u),
     op_fence = Some (ss_fence u), op_funded_by_sale = funded, op_max_snapshot_age = ss_max_age u\<rparr>"

definition has_intent :: "worker_db \<Rightarrow> string \<Rightarrow> bool" where
  "has_intent db i = list_ex (\<lambda>x. oi_decision_id x = i) (order_intents (wd_core db))"

definition fence_held :: "SubmissionSetup \<Rightarrow> instant \<Rightarrow> worker_db \<Rightarrow> RuntimeAttempt result" where
  "fence_held u now db = validate_fence (rv_runtime (wd_review db)) (ss_attempt_id u) (ss_fence u) now"

text \<open>The row of a held-back buy, inserted under the fence at \<open>checked_at\<close>.\<close>

definition record_held_back :: "SubmissionSetup \<Rightarrow> InvestmentDecisionRecord \<Rightarrow> instant \<Rightarrow> instant \<Rightarrow> worker_db \<Rightarrow>
    worker_db result" where
  "record_held_back u r now checked_at db =
    (if ticker r \<notin> set (ss_held_back u) \<or> decision r \<noteq> WATCHLIST then Inr db
     else and_then (fence_held u checked_at db) (\<lambda>_.
       if find_row hb_decision_id (decision_id r) (wd_held_back db) \<noteq> None then Inl IntegrityError
       else Inr (db\<lparr>wd_held_back := wd_held_back db @ [\<lparr>hb_decision_id = decision_id r, hb_ticker = ticker r,
         hb_account_id = ru_account_id (ss_run u), hb_cause = ss_cause u, hb_held_at = now, hb_decided_at = None\<rparr>]\<rparr>)))"

definition record_pair :: "SubmissionSetup \<Rightarrow> InvestmentDecisionRecord \<Rightarrow> string option \<Rightarrow> instant \<Rightarrow> worker_db \<Rightarrow>
    worker_db result" where
  "record_pair u r funding checked_at db = (case funding of None \<Rightarrow> Inr db
   | Some sale \<Rightarrow> if \<not> has_intent db (decision_id r) then Inr db
       else and_then (fence_held u checked_at db) (\<lambda>_.
         if find_row fst (decision_id r) (rv_swap_pairs (wd_review db)) \<noteq> None then Inl IntegrityError
         else Inr (db\<lparr>wd_review := (wd_review db)\<lparr>rv_swap_pairs := rv_swap_pairs (wd_review db) @ [(decision_id r, sale)]\<rparr>\<rparr>)))"

text \<open>The readings of the clock for the draft of an index: its submission, its hold, its pair.\<close>

datatype draft_reading = AtSubmit nat | AtHold nat | AtPair nat

definition submit_draft :: "SubmissionSetup \<Rightarrow> (draft_reading \<Rightarrow> instant) \<Rightarrow> nat \<Rightarrow> InvestmentDecisionRecord \<Rightarrow>
    (string \<times> string) list \<Rightarrow> worker_db \<Rightarrow> worker_db \<times> (string \<times> string) list result" where
  "submit_draft u now_at k authored accepted db =
    (case validate_record (authored\<lparr>created_at := (ss_authored_at u, 0)\<rparr>) of
       Inl e \<Rightarrow> (db, Inl e)
     | Inr r \<Rightarrow> (let funding = funding_of u accepted r; now = now_at (AtSubmit k) in
         case submission_snapshot u now db of
           Inl e \<Rightarrow> (db, Inl e)
         | Inr snapshot_id \<Rightarrow>
             (case submit_decision (ss_env u) (ss_stored_day u) (submit_options u snapshot_id (funding \<noteq> None))
                 (draft r) (ru_session_date (ss_run u)) [] now (wd_review db) of
               (review, submitted) \<Rightarrow> (let db1 = db\<lparr>wd_review := review\<rparr> in
                 case submitted of
                   Inl e \<Rightarrow> (db1, Inl e)
                 | Inr _ \<Rightarrow> (case record_held_back u r now (now_at (AtHold k)) db1 of
                     Inl e \<Rightarrow> (db1, Inl e)
                   | Inr db2 \<Rightarrow> (case record_pair u r funding (now_at (AtPair k)) db2 of
                       Inl e \<Rightarrow> (db2, Inl e)
                     | Inr db3 \<Rightarrow> (db3, Inr (if has_intent db1 (decision_id r) \<and> exit_of r
                         then AList.update (ticker r) (decision_id r) accepted else accepted))))))))"

fun submit_drafts :: "SubmissionSetup \<Rightarrow> (draft_reading \<Rightarrow> instant) \<Rightarrow> nat \<Rightarrow> InvestmentDecisionRecord list \<Rightarrow>
    (string \<times> string) list \<Rightarrow> worker_db \<Rightarrow> worker_db \<times> (string \<times> string) list result" where
  "submit_drafts u now_at k [] accepted db = (db, Inr accepted)"
| "submit_drafts u now_at k (d # ds) accepted db = (case submit_draft u now_at k d accepted db of
     (db', Inl e) \<Rightarrow> (db', Inl e)
   | (db', Inr accepted') \<Rightarrow> submit_drafts u now_at (Suc k) ds accepted' db')"

end
