(* ===== verification/Attempt.thy ===== *)
theory Attempt
  imports Worker
begin

text \<open>
  An attempt of the trusted worker from its claim to its end (\<open>execute_attempt\<close> of \<open>app/reason/worker.py\<close>): the
  refresh of the account, the checks of the intake, the passes of the author, the submission, the tables of the
  outcome, the thesis reviews, completion, and what a failure records. The author (a Codex session), the account
  collector and the files are parameters; a step returns the tables it leaves with its result, since what an
  earlier transaction committed stays.
\<close>

section \<open>Steps that keep their tables\<close>

type_synonym 'a stepped = "worker_db \<times> 'a result"

fun stepped_then :: "'a stepped \<Rightarrow> ('a \<Rightarrow> worker_db \<Rightarrow> 'b stepped) \<Rightarrow> 'b stepped" where
  "stepped_then (db, Inl e) f = (db, Inl e)"
| "stepped_then (db, Inr x) f = f x db"

definition reading :: "worker_db \<Rightarrow> 'a result \<Rightarrow> 'a stepped" where
  "reading db r = (db, r)"

text \<open>A transaction: its tables are kept only when it returns.\<close>

definition transaction :: "worker_db \<Rightarrow> worker_db result \<Rightarrow> unit stepped" where
  "transaction db r = (case r of Inl e \<Rightarrow> (db, Inl e) | Inr db' \<Rightarrow> (db', Inr ()))"

definition with_runtime :: "runtime_db \<Rightarrow> worker_db \<Rightarrow> worker_db" where
  "with_runtime rt db = db\<lparr>wd_review := (wd_review db)\<lparr>rv_runtime := rt\<rparr>\<rparr>"

definition wd_runtime :: "worker_db \<Rightarrow> runtime_db" where
  "wd_runtime db = rv_runtime (wd_review db)"

definition on_runtime :: "(runtime_db \<times> 'a) result \<Rightarrow> worker_db \<Rightarrow> 'a stepped" where
  "on_runtime r db = (case r of Inl e \<Rightarrow> (db, Inl e) | Inr (rt, x) \<Rightarrow> (with_runtime rt db, Inr x))"

definition beat :: "string \<Rightarrow> int \<Rightarrow> instant \<Rightarrow> attempt_stage option \<Rightarrow> int \<Rightarrow> worker_db \<Rightarrow> RuntimeAttempt stepped" where
  "beat attempt_id fence now stage lease_seconds db =
     on_runtime (heartbeat attempt_id fence now stage lease_seconds (wd_runtime db)) db"

section \<open>The tables of the outcome\<close>

text \<open>The readings of the clock inside the outcome's transaction.\<close>

datatype outcome_reading = AtFence | AtDecided nat | AtTriaged nat | AtEarnings nat

definition decide_held_back :: "RuntimeRun \<Rightarrow> instant \<Rightarrow> string \<Rightarrow> HeldBackBuy list \<Rightarrow> HeldBackBuy list" where
  "decide_held_back run decided_at t = map (\<lambda>h. if hb_account_id h = ru_account_id run \<and> hb_ticker h = t \<and>
       hb_decided_at h = None \<and> julianday (hb_held_at h) < julianday (ru_prepared_at run)
     then h\<lparr>hb_decided_at := Some decided_at\<rparr> else h)"

definition ledger_of :: "string \<Rightarrow> instant \<Rightarrow> AuthoredOutput \<Rightarrow> ReviewLedger" where
  "ledger_of attempt_id authored_at result = \<lparr>lg_attempt_id = attempt_id,
     lg_candidates = map (\<lambda>c. \<lparr>lc_ticker = cc_ticker c, lc_outcome = cc_outcome c,
       lc_clears_entry_bar = cc_clears_entry_bar c, lc_idea_source = cc_idea_source c, lc_reason = cc_reason c,
       lc_sources = filter http_url (cc_sources_opened c), lc_x_posts = cc_x_posts c\<rparr>) (ao_candidates_considered result),
     lg_exposure = ao_exposure_decision result, lg_earnings = ao_earnings_dates result,
     lg_challengers = map (\<lambda>c. \<lparr>lh_candidate = ch_candidate c, lh_incumbent = ch_incumbent c,
       lh_verdict = ch_verdict c, lh_why_weakest = ch_why_weakest c, lh_reasoning = ch_reasoning c\<rparr>)
       (ao_challenger_reviews result),
     lg_recorded_at = authored_at\<rparr>"

definition citation_key :: "Citation \<Rightarrow> string \<times> string \<times> string \<times> string" where
  "citation_key c = (ci_post_id c, ci_attempt_id c, ci_subject c, ci_ticker c)"

definition insert_or_ignore_row :: "('r \<Rightarrow> 'k) \<Rightarrow> 'r \<Rightarrow> 'r list \<Rightarrow> 'r list" where
  "insert_or_ignore_row key r rows = (if find_row key (key r) rows = None then rows @ [r] else rows)"

definition insert_or_replace_row :: "('r \<Rightarrow> 'k) \<Rightarrow> 'r \<Rightarrow> 'r list \<Rightarrow> 'r list" where
  "insert_or_replace_row key r rows = filter (\<lambda>q. key q \<noteq> key r) rows @ [r]"

definition record_citations :: "string \<Rightarrow> instant \<Rightarrow> AuthoredOutput \<Rightarrow> Citation list \<Rightarrow> Citation list" where
  "record_citations attempt_id authored_at result = fold (\<lambda>(i, subject, t, role). insert_or_ignore_row citation_key
     \<lparr>ci_post_id = i, ci_attempt_id = attempt_id, ci_subject = subject, ci_ticker = t, ci_role = role,
      ci_cited_at = authored_at\<rparr>) (cited_posts result)"

definition record_triage :: "RuntimeRun \<Rightarrow> string \<Rightarrow> (outcome_reading \<Rightarrow> instant) \<Rightarrow> AuthoredXTriage list \<Rightarrow>
    TriageRow list \<Rightarrow> TriageRow list" where
  "record_triage run attempt_id at_time triaged = fold (\<lambda>(k, v). insert_or_replace_row triage_key
     \<lparr>tg_post_id = xt_post_id v, tg_ticker = xt_ticker v, tg_account_id = ru_account_id run,
      tg_changes_thesis = xt_changes_thesis v, tg_note = xt_note v, tg_attempt_id = attempt_id,
      tg_decided_at = at_time (AtTriaged k)\<rparr>) (enumerate 0 triaged)"

definition record_earnings :: "(outcome_reading \<Rightarrow> instant) \<Rightarrow> AuthoredEarningsDate list \<Rightarrow> CalendarEvent list \<Rightarrow>
    CalendarEvent list" where
  "record_earnings at_time dates = fold (\<lambda>(k, e). insert_or_replace_row event_key
     \<lparr>ce_event_type = ''earnings'', ce_ticker = ae_ticker e, ce_event_date = ae_event_date e,
      ce_label = (if ae_confirmed e then ''confirmed'' else ''estimated''), ce_source = Agent,
      ce_fetched_at = at_time (AtEarnings k)\<rparr>) (enumerate 0 dates)"

definition record_outcome :: "SubmissionSetup \<Rightarrow> (outcome_reading \<Rightarrow> instant) \<Rightarrow> AuthoredOutput \<Rightarrow> AuthoredXTriage list \<Rightarrow>
    worker_db \<Rightarrow> worker_db result" where
  "record_outcome u at_time result triaged db = and_then (fence_held u (at_time AtFence) db) (\<lambda>_.
     Inr (db\<lparr>wd_held_back := fold (\<lambda>(k, c). decide_held_back (ss_run u) (at_time (AtDecided k)) (cc_ticker c))
             (enumerate 0 (ao_candidates_considered result)) (wd_held_back db),
           wd_ledgers := insert_or_replace_row lg_attempt_id (ledger_of (ss_attempt_id u) (ss_authored_at u) result)
             (wd_ledgers db),
           wd_citations := record_citations (ss_attempt_id u) (ss_authored_at u) result (wd_citations db),
           wd_triage := record_triage (ss_run u) (ss_attempt_id u) at_time triaged (wd_triage db),
           wd_calendar := record_earnings at_time (ao_earnings_dates result) (wd_calendar db)\<rparr>))"

section \<open>Thesis reviews\<close>

fun state_of_holding :: "holding_state \<Rightarrow> review_state" where
  "state_of_holding holding_intact = intact"
| "state_of_holding holding_invalidated = invalidated"

fun mode_of_review :: "account_mode \<Rightarrow> review_mode" where
  "mode_of_review LiveMode = live_review"
| "mode_of_review PaperMode = paper_review"

definition thesis_review_of :: "SubmissionSetup \<Rightarrow> LiveFacts \<Rightarrow> string \<Rightarrow> instant \<Rightarrow> AuthoredThesisReview \<Rightarrow>
    ThesisReview" where
  "thesis_review_of u facts fresh recorded_at d = \<lparr>tr_review_id = ''review_'' @ fresh,
     tr_mode = mode_of_review (ru_mode (ss_run u)), tr_account_id = ru_account_id (ss_run u),
     tr_episode_id = ar_episode_id d, tr_ticker = ar_ticker d, tr_reviewed_at = ss_authored_at u,
     tr_recorded_at = recorded_at, tr_author = agent, tr_reasoning_run_id = ru_reasoning_run_id (ss_run u),
     tr_runtime_attempt_id = Some (ss_attempt_id u), tr_state = state_of_holding (ar_state d),
     tr_summary = ar_summary d, tr_narrative = ar_narrative d,
     tr_approved_for_publication = ar_approved_for_publication d, tr_private_notes = ar_private_notes d,
     tr_review_reasons = due_reasons facts (ar_episode_id d),
     tr_realization_price_low = ar_realization_price_low d, tr_realization_price_high = ar_realization_price_high d,
     tr_invalidation_price = ar_invalidation_price d, tr_range_basis = ar_range_basis d,
     tr_range_change_evidence = ar_range_change_evidence d, tr_move_attribution = ar_move_attribution d\<rparr>"

text \<open>For the review of an index: its identifier, when it is recorded and when its fence is checked.\<close>

record ReviewInputs =
  rvi_sha256 :: "string \<Rightarrow> string"
  rvi_fresh :: "nat \<Rightarrow> string"
  rvi_recorded_at :: "nat \<Rightarrow> instant"
  rvi_checked_at :: "nat \<Rightarrow> instant"
  rvi_observed_at :: "nat \<Rightarrow> instant"

definition save_review :: "SubmissionSetup \<Rightarrow> ReviewInputs \<Rightarrow> LiveFacts \<Rightarrow> nat \<Rightarrow> AuthoredThesisReview \<Rightarrow> worker_db \<Rightarrow>
    unit stepped" where
  "save_review u inp facts k d db =
    (if ru_mode (ss_run u) = LiveMode \<and> (ar_episode_id d \<notin> set (lf_open_episodes facts) \<or> review_gap d \<noteq> None)
       then (db, Inr ())
     else let r = thesis_review_of u facts (rvi_fresh inp k) (rvi_recorded_at inp k) d in
       if review_errors r \<noteq> [] then (db, Inl (ValidationError (review_errors r)))
       else transaction db (and_then (fence_held u (rvi_checked_at inp k) db) (\<lambda>_.
         and_then (save_thesis_review (rvi_sha256 inp) (rvi_observed_at inp k) (wd_runtime db)
             (paper_tables (wd_review db)) r (wd_thesis_reviews db)) (\<lambda>rows.
           Inr (db\<lparr>wd_thesis_reviews := rows\<rparr>)))))"

fun save_reviews :: "SubmissionSetup \<Rightarrow> ReviewInputs \<Rightarrow> LiveFacts \<Rightarrow> nat \<Rightarrow> AuthoredThesisReview list \<Rightarrow> worker_db \<Rightarrow>
    unit stepped" where
  "save_reviews u inp facts k [] db = (db, Inr ())"
| "save_reviews u inp facts k (d # ds) db =
     stepped_then (save_review u inp facts k d db) (\<lambda>_. save_reviews u inp facts (Suc k) ds)"

section \<open>Failure\<close>

text \<open>
  \<open>str(error)\<close>, as far as the codes compare it: the texts of the exceptions without an argument here, and the
  report of a validation, are none of the codes.
\<close>

definition error_text :: "exn \<Rightarrow> string" where
  "error_text e = (case e of ValueError m \<Rightarrow> m | RunnerFailure m \<Rightarrow> m | BrokerSessionFailure m \<Rightarrow> m | _ \<Rightarrow> [])"

definition failure_code :: "exn \<Rightarrow> string" where
  "failure_code e =
    (if error_text e = ''portfolio snapshot is stale'' then ''snapshot_stale''
     else if (case e of RunnerFailure _ \<Rightarrow> True | _ \<Rightarrow> False) \<or>
         error_text e \<in> {''snapshot_stale'', ''regime_missing'', ''regime_stale'', ''calendar_out_of_coverage''}
       then error_text e
     else if (case e of ValidationError _ \<Rightarrow> True | _ \<Rightarrow> False) then ''invalid_output''
     else ''submission_blocked'')"

definition failure_reasons :: "(string \<times> attempt_status \<times> string) list" where
  "failure_reasons =
    [(''runner_timeout'', AttemptTimedOut, ''runner_timeout''),
     (''runner_canceled'', AttemptCanceled, ''operator_canceled''),
     (''runner_failed'', AttemptFailed, ''runner_failed''),
     (''subprocess_pipe_cleanup_failed'', AttemptFailed, ''subprocess_pipe_cleanup_failed''),
     (''log_write_failed'', AttemptFailed, ''runner_failed''),
     (''output_too_large'', AttemptFailed, ''invalid_output''),
     (''insufficient_research'', AttemptFailed, ''insufficient_research''),
     (''invalid_output'', AttemptFailed, ''invalid_output''),
     (''intake_missing'', AttemptBlocked, ''intake_missing''),
     (''intake_changed'', AttemptBlocked, ''intake_changed''),
     (''intake_too_large'', AttemptBlocked, ''intake_too_large''),
     (''snapshot_stale'', AttemptBlocked, ''snapshot_stale''),
     (''regime_missing'', AttemptBlocked, ''regime_missing''),
     (''regime_stale'', AttemptBlocked, ''regime_stale''),
     (''calendar_out_of_coverage'', AttemptBlocked, ''calendar_out_of_coverage'')]"

definition failure_outcome :: "exn \<Rightarrow> attempt_status \<times> string" where
  "failure_outcome e = (case map_of failure_reasons (failure_code e) of
     None \<Rightarrow> (AttemptBlocked, ''submission_blocked'') | Some r \<Rightarrow> r)"

text \<open>The handlers: a lost lease ends with what the expiry left; other handled errors finish a running attempt.\<close>

definition handled :: "exn \<Rightarrow> bool" where
  "handled e = (is_value_error e \<or> e = FileNotFoundError)"

definition fail_attempt :: "string \<Rightarrow> int \<Rightarrow> instant \<Rightarrow> instant \<Rightarrow> exn \<Rightarrow> worker_db \<Rightarrow> RuntimeAttempt stepped" where
  "fail_attempt attempt_id fence expired_at finished_at e db =
    (if \<not> handled e then (db, Inl e)
     else let rt = fst (expire expired_at (wd_runtime db)); db1 = with_runtime rt db in
       if e = LeaseLost then (db1, get_attempt rt attempt_id)
       else stepped_then (db1, get_attempt rt attempt_id) (\<lambda>found db2.
         if ra_status found \<noteq> AttemptRunning then (db2, Inr found)
         else on_runtime (finish attempt_id fence finished_at (fst (failure_outcome e))
           (Some (snd (failure_outcome e))) None (wd_runtime db2)) db2))"

section \<open>The attempt\<close>

definition RUNNER_MAX_PROMPT_BYTES :: int where "RUNNER_MAX_PROMPT_BYTES = 512000"
definition SESSION_TIMEOUT_SECONDS :: int where "SESSION_TIMEOUT_SECONDS = 300"
definition CRISIS_TIMEOUT_SECONDS :: pyfloat where "CRISIS_TIMEOUT_SECONDS = 2700"
definition DEFAULT_LEASE_SECONDS :: int where "DEFAULT_LEASE_SECONDS = 120"

datatype clock_reading = AtClaim | AtCrisis | AtRefresh nat | AtReadiness | AtMarket | AtAuthoring
  | AtShortCalls nat | AtExposure nat | AtAuthored | AtSubmitting | AtDraft draft_reading | AtOutcome outcome_reading
  | AtFinish | AtExpiry | AtFailure

text \<open>
  What an attempt is given: the author of a pass (the research its log counts comes with its output), the
  collector of the account, the intake files, the size of the prompt, the seconds allowed and those the first pass
  took, and the readings of the clock.
\<close>

record AttemptInputs =
  at_env :: Environment
  at_stored_day :: "OrderIntent \<Rightarrow> pydate"
  at_profile :: "ExecutionProfile option"
  at_clock :: "clock_reading \<Rightarrow> instant"
  at_ids :: "string \<times> string"
  at_real_runner :: bool
  at_hunt_minimum :: "int option"
  at_collect :: "(nat \<Rightarrow> worker_db \<Rightarrow> unit stepped) option"
  at_author :: "nat \<Rightarrow> worker_db \<Rightarrow> (AuthoredOutput \<times> Activity) stepped"
  at_intake :: intake_files
  at_prompt_bytes :: int
  at_timeout_seconds :: pyfloat
  at_elapsed_seconds :: pyfloat
  at_reviews :: ReviewInputs

definition stage_beat :: "AttemptInputs \<Rightarrow> RuntimeAttempt \<Rightarrow> clock_reading \<Rightarrow> attempt_stage \<Rightarrow> worker_db \<Rightarrow>
    RuntimeAttempt stepped" where
  "stage_beat inp a t stage = beat (ra_attempt_id a) (ra_fence a) (at_clock inp t) (Some stage) DEFAULT_LEASE_SECONDS"

text \<open>\<open>_refresh_snapshot\<close>, its lease stretched over two sessions.\<close>

definition refresh_snapshot :: "AttemptInputs \<Rightarrow> RuntimeAttempt \<Rightarrow> (nat \<Rightarrow> worker_db \<Rightarrow> unit stepped) \<Rightarrow> nat \<Rightarrow>
    worker_db \<Rightarrow> unit stepped" where
  "refresh_snapshot inp a collect k db = stepped_then
     (beat (ra_attempt_id a) (ra_fence a) (at_clock inp (AtRefresh k)) None (2 * SESSION_TIMEOUT_SECONDS + 120) db)
     (\<lambda>_ db1. case collect k db1 of
        (db2, Inl e) \<Rightarrow> (db2, Inl (if handled e then RunnerFailure ''snapshot_stale'' else e))
      | (db2, Inr u) \<Rightarrow> (db2, Inr u))"

text \<open>Whether the attempt falls back on an older snapshot, which only crisis mode allows.\<close>

definition refresh_or_fall_back :: "AttemptInputs \<Rightarrow> RuntimeAttempt \<Rightarrow> bool \<Rightarrow> bool \<Rightarrow> nat \<Rightarrow> worker_db \<Rightarrow>
    bool stepped" where
  "refresh_or_fall_back inp a wanted crisis k db = (case at_collect inp of
     None \<Rightarrow> (db, Inr False)
   | Some collect \<Rightarrow> if \<not> wanted then (db, Inr False)
       else (case refresh_snapshot inp a collect k db of
           (db', Inl (RunnerFailure m)) \<Rightarrow> (db', if crisis then Inr True else Inl (RunnerFailure m))
         | (db', Inl e) \<Rightarrow> (db', Inl e)
         | (db', Inr u) \<Rightarrow> (db', Inr False)))"

definition crisis_mode_on :: "AttemptInputs \<Rightarrow> RuntimeRun \<Rightarrow> worker_db \<Rightarrow> bool result" where
  "crisis_mode_on inp run db = (if ru_mode run \<noteq> LiveMode then Inr False
     else and_then (starting_snapshot db run) (\<lambda>snap.
       and_then (crisis_reasons (rv_prices (wd_review db)) (wd_core db) snap (at_clock inp AtCrisis)) (\<lambda>found.
         Inr (found \<noteq> []))))"

definition intake_checked :: "AttemptInputs \<Rightarrow> RuntimeRun \<Rightarrow> unit result" where
  "intake_checked inp run = (case at_intake inp (ru_intake_path run) of
     None \<Rightarrow> Inl (RunnerFailure ''intake_missing'')
   | Some (bytes, sha) \<Rightarrow>
       if RUNNER_MAX_PROMPT_BYTES < bytes then Inl (RunnerFailure ''intake_too_large'')
       else if sha \<noteq> ru_intake_sha256 run then Inl (RunnerFailure ''intake_changed'')
       else if RUNNER_MAX_PROMPT_BYTES < at_prompt_bytes inp then Inl (RunnerFailure ''intake_too_large'')
       else Inr ())"

definition authored_pass :: "AttemptInputs \<Rightarrow> RuntimeRun \<Rightarrow> int \<Rightarrow> bool \<Rightarrow> bool \<Rightarrow> nat \<Rightarrow> Activity \<Rightarrow> worker_db \<Rightarrow>
    (Activity \<times> pass) stepped" where
  "authored_pass inp run required trading_open crisis k earlier db =
     stepped_then (at_author inp k db) (\<lambda>(result, activity) db1.
       let total = add_activity earlier activity in
       reading db1 (and_then (review_shortfall (rvi_sha256 (at_reviews inp)) db1 run result total required trading_open
           (ny_date (at_clock inp (AtShortCalls k))) (at_clock inp (AtExposure k)) crisis) (\<lambda>(shortfall, gaps).
         Inr (total, result, shortfall, gaps))))"

definition no_activity :: Activity where
  "no_activity = \<lparr>act_searches = 0, act_opens = 0, act_reasoning_tokens = 0, act_output_tokens = 0\<rparr>"

text \<open>At most two passes inside the same budget, which crisis mode extends.\<close>

definition author_review :: "AttemptInputs \<Rightarrow> RuntimeRun \<Rightarrow> int \<Rightarrow> bool \<Rightarrow> bool \<Rightarrow> worker_db \<Rightarrow>
    (AuthoredOutput \<times> (string \<times> gap) list) stepped" where
  "author_review inp run required trading_open crisis db =
     stepped_then (authored_pass inp run required trading_open crisis 0 no_activity db) (\<lambda>(activity, first_pass) db1.
       let timeout = (if crisis then max (at_timeout_seconds inp) CRISIS_TIMEOUT_SECONDS else at_timeout_seconds inp) in
       if \<not> needs_second_pass first_pass (fsub timeout (at_elapsed_seconds inp)) then reading db1 (accept_pass first_pass)
       else stepped_then (authored_pass inp run required trading_open crisis 1 activity db1) (\<lambda>(_, second_pass) db2.
         reading db2 (accept_pass (choose_pass first_pass second_pass))))"

definition profile_bound :: "AttemptInputs \<Rightarrow> RuntimeRun \<Rightarrow> unit result" where
  "profile_bound inp run = (if ru_mode run = LiveMode \<and> (case at_profile inp of None \<Rightarrow> True
       | Some p \<Rightarrow> ep_execution_profile_id p \<noteq> ru_execution_profile_id run \<or>
           ep_broker_account_fingerprint p \<noteq> ru_account_id run)
     then Inl (RunnerFailure ''submission_blocked'') else Inr ())"

definition setup_of :: "AttemptInputs \<Rightarrow> RuntimeRun \<Rightarrow> RuntimeAttempt \<Rightarrow> AuthoredOutput \<Rightarrow> string list \<Rightarrow> string list \<Rightarrow>
    bool \<Rightarrow> SubmissionSetup" where
  "setup_of inp run a result causes held stale = \<lparr>ss_env = at_env inp, ss_stored_day = at_stored_day inp,
     ss_profile = at_profile inp, ss_run = run, ss_attempt_id = ra_attempt_id a, ss_fence = ra_fence a,
     ss_authored_at = at_clock inp AtAuthored,
     ss_max_age = (if stale then STALE_SELL_MAX_AGE else LIVE_SNAPSHOT_MAX_AGE), ss_swaps = swaps_of result,
     ss_held_back = held, ss_cause = join '' and '' causes\<rparr>"

text \<open>From an accepted review to its completion.\<close>

definition conclude :: "AttemptInputs \<Rightarrow> SubmissionSetup \<Rightarrow> LiveFacts \<Rightarrow> AuthoredOutput \<Rightarrow> worker_db \<Rightarrow>
    RuntimeAttempt stepped" where
  "conclude inp u facts result db =
     stepped_then (transaction db (record_outcome u (\<lambda>t. at_clock inp (AtOutcome t)) result (lf_triaged facts) db)) (\<lambda>_ db1.
     stepped_then (save_reviews u (at_reviews inp) facts 0 (ao_thesis_reviews result) db1) (\<lambda>_ db2.
       on_runtime (finish (ss_attempt_id u) (ss_fence u) (at_clock inp AtFinish)
         (if attributed_decisions (wd_runtime db2) (ss_attempt_id u) \<noteq> [] then AttemptCompleted else AttemptNoAction)
         None (Some (ao_public_summary result)) (wd_runtime db2)) db2))"

definition submit_review :: "AttemptInputs \<Rightarrow> RuntimeRun \<Rightarrow> RuntimeAttempt \<Rightarrow> bool \<Rightarrow> bool \<Rightarrow> LiveFacts \<Rightarrow> string list \<Rightarrow>
    AuthoredOutput \<Rightarrow> string list \<Rightarrow> worker_db \<Rightarrow> RuntimeAttempt stepped" where
  "submit_review inp run a crisis stale facts causes result held db =
     stepped_then (stage_beat inp a AtAuthored StageValidating db) (\<lambda>_ db1.
     stepped_then (reading db1 (profile_bound inp run)) (\<lambda>_ db2.
     stepped_then (stage_beat inp a AtSubmitting StageSubmitting db2) (\<lambda>_ db3.
     stepped_then (refresh_or_fall_back inp a (ru_mode run = LiveMode \<and> ao_decisions result \<noteq> []) crisis 1 db3) (\<lambda>fell db4.
       let final = (if stale \<or> fell then only_exits result else result);
           u = setup_of inp run a final causes held (stale \<or> fell)
       in stepped_then (submit_drafts u (\<lambda>t. at_clock inp (AtDraft t)) 0 (submission_order (ao_decisions final)) [] db4)
         (\<lambda>_. conclude inp u facts final)))))"

definition attempt_body :: "AttemptInputs \<Rightarrow> RuntimeRun \<Rightarrow> RuntimeAttempt \<Rightarrow> worker_db \<Rightarrow> RuntimeAttempt stepped" where
  "attempt_body inp run a db =
     stepped_then (reading db (crisis_mode_on inp run db)) (\<lambda>crisis db0.
     stepped_then (refresh_or_fall_back inp a (ru_mode run = LiveMode) crisis 0 db0) (\<lambda>stale db1.
     stepped_then (reading db1 (if ru_mode run \<noteq> LiveMode then Inr ()
         else and_then (live_readiness (wd_core db1) run (at_profile inp) (at_clock inp AtReadiness)
           (if stale then Some STALE_SELL_MAX_AGE else None)) (\<lambda>_. Inr ()))) (\<lambda>_ db2.
     stepped_then (reading db2 (intake_checked inp run)) (\<lambda>_ db3.
     stepped_then (stage_beat inp a AtAuthoring StageAuthoring db3) (\<lambda>_ db4.
       let trading_open = (ru_mode run \<noteq> LiveMode \<or> wn_open (session_window (at_clock inp AtMarket)));
           required = hunt_required (at_real_runner inp) (at_hunt_minimum inp) run crisis
       in stepped_then (author_review inp run required trading_open crisis db4) (\<lambda>(authored, gaps) db5.
         stepped_then (reading db5 (live_facts db5 run authored crisis)) (\<lambda>facts db6.
         let floors = (if ru_mode run = LiveMode then lift_floors (lf_due facts) crisis authored else authored);
             (result, held) = hold_back (lf_due facts) (map fst gaps) floors
         in submit_review inp run a crisis stale facts (map fst gaps) result held db6)))))))"

definition claim_attempt :: "AttemptInputs \<Rightarrow> string \<Rightarrow> string \<Rightarrow> bool \<Rightarrow> worker_db \<Rightarrow> RuntimeAttempt stepped" where
  "claim_attempt inp run_id model retry db = on_runtime
     (claim run_id model (at_clock inp AtClaim) retry DEFAULT_LEASE_SECONDS (at_ids inp) (wd_runtime db)) db"

definition execute_attempt :: "AttemptInputs \<Rightarrow> string \<Rightarrow> string \<Rightarrow> bool \<Rightarrow> worker_db \<Rightarrow> RuntimeAttempt stepped" where
  "execute_attempt inp run_id model retry db =
     stepped_then (claim_attempt inp run_id model retry db) (\<lambda>a db1.
     stepped_then (reading db1 (get_run (wd_runtime db1) run_id)) (\<lambda>run db2.
       case attempt_body inp run a db2 of
         (db', Inr done) \<Rightarrow> (db', Inr done)
       | (db', Inl e) \<Rightarrow> fail_attempt (ra_attempt_id a) (ra_fence a) (at_clock inp AtExpiry) (at_clock inp AtFailure) e db'))"

end
