(* ===== verification/WorkerProperties.thy ===== *)
theory WorkerProperties
  imports Attempt
begin

text \<open>
  What the trusted worker guarantees: no new money goes in while a holding is left unanswered, a review with
  nothing left unanswered has dealt with its holdings, every accepted answer met the required checks, and every
  failure it records can be published.
\<close>

section \<open>New money is held back\<close>

lemma held_back_membership:
  "ticker d \<in> set (held_back_tickers result) \<longleftrightarrow> (\<exists>b\<in>set (ao_decisions result). decision b = BUY \<and> ticker b = ticker d)"
  by (force simp: held_back_tickers_def buys_of_def increasing_def)

lemma kept_when_no_buy:
  assumes "\<not> increasing (decision d)" and "d \<in> set (ao_decisions result)"
    and "exit_of d \<Longrightarrow> ticker d \<notin> set (funding_sales due result)"
  shows "d \<in> set (map (on_watchlist held) (filter (kept_decision due result) (ao_decisions result)))"
proof -
  have "kept_decision due result d" using assms by (auto simp: kept_decision_def buys_of_def)
  moreover have "on_watchlist held d = d" using assms(1) by (auto simp: on_watchlist_def increasing_def)
  ultimately show ?thesis using assms(2) by force
qed

lemma held_back_kept:
  assumes "hold_back due causes result = (kept, held)" and "causes \<noteq> []" and "buys_of result \<noteq> []"
  shows "held = held_back_tickers result"
    and "ao_decisions kept = map (on_watchlist held) (filter (kept_decision due result) (ao_decisions result))"
    and "ao_public_summary kept = ao_public_summary result @ held_back_summary causes held"
  using assms by (auto simp: hold_back_def Let_def)

lemma no_buys_kept:
  assumes "hold_back due causes result = (kept, held)" and "buys_of result = []"
  shows "kept = result" and "d \<in> set (ao_decisions result) \<Longrightarrow> \<not> increasing (decision d)"
  using assms by (auto simp: hold_back_def buys_of_def filter_empty_conv)

text \<open>What is left of new money while a gap is outstanding.\<close>

lemma held_back_increasing:
  assumes "hold_back due causes result = (kept, held)" and "causes \<noteq> []" and "d \<in> set (ao_decisions kept)"
    and "increasing (decision d)"
  shows "decision d = ADD \<and> ticker d \<in> set held"
proof (cases "buys_of result = []")
  case True
  then show ?thesis using no_buys_kept [OF assms(1)] assms(3,4) by blast
next
  case False
  note kept = held_back_kept [OF assms(1,2) False]
  from assms(3) obtain e where e: "d = on_watchlist held e" "e \<in> set (ao_decisions result)" "kept_decision due result e"
    by (auto simp: kept(2))
  have "decision e \<noteq> BUY"
  proof
    assume "decision e = BUY"
    then have "ticker e \<in> set held" using e(2) held_back_membership [of e result] kept(1) by blast
    with \<open>decision e = BUY\<close> assms(4) show False by (simp add: e(1) on_watchlist_def increasing_def)
  qed
  then have "d = e" and add: "decision e = ADD"
    using e(1) assms(4) by (auto simp: on_watchlist_def increasing_def split: if_splits)
  moreover have "e \<in> set (buys_of result)" using e(2) add by (simp add: buys_of_def increasing_def)
  ultimately show ?thesis using e(3) by (simp add: kept_decision_def kept(1))
qed

text \<open>
  While a gap is outstanding no BUY is left in the output, and an ADD only of a ticker the same review also
  bought (the one decision on new money that the filter lets pass); every sale of a holding that must be exited and
  every decision that trades nothing stays as it is.
\<close>

theorem new_money_held_back:
  assumes "hold_back due causes result = (kept, held)" and "causes \<noteq> []"
  shows "BUY \<notin> decision ` set (ao_decisions kept) \<and>
    {d \<in> set (ao_decisions kept). decision d = ADD \<and> ticker d \<notin> set held} = {} \<and>
    {d \<in> set (ao_decisions result). exit_of d \<and> ticker d \<in> set (must_exit due result)} \<subseteq> set (ao_decisions kept) \<and>
    {d \<in> set (ao_decisions result). \<not> actionable (decision d)} \<subseteq> set (ao_decisions kept)"
proof -
  have stays: "d \<in> set (ao_decisions kept)" if "d \<in> set (ao_decisions result)" "\<not> increasing (decision d)"
    "exit_of d \<Longrightarrow> ticker d \<notin> set (funding_sales due result)" for d
  proof (cases "buys_of result = []")
    case True
    then show ?thesis using no_buys_kept(1) [OF assms(1)] that(1) by simp
  next
    case False
    from kept_when_no_buy [OF that(2,1,3)] show ?thesis unfolding held_back_kept(2) [OF assms False] .
  qed
  have exits: "d \<in> set (ao_decisions kept)"
    if "d \<in> set (ao_decisions result)" "exit_of d" "ticker d \<in> set (must_exit due result)" for d
    by (rule stays) (use that in \<open>auto simp: exit_of_def increasing_def funding_sales_def\<close>)
  have idle: "d \<in> set (ao_decisions kept)" if "d \<in> set (ao_decisions result)" "\<not> actionable (decision d)" for d
    by (rule stays) (use that in \<open>auto simp: exit_of_def increasing_def actionable_def\<close>)
  have "decision d \<noteq> BUY" and "decision d = ADD \<Longrightarrow> ticker d \<in> set held" if "d \<in> set (ao_decisions kept)" for d
    using held_back_increasing [OF assms that] by (auto simp: increasing_def)
  then have "BUY \<notin> decision ` set (ao_decisions kept)"
    and "{d \<in> set (ao_decisions kept). decision d = ADD \<and> ticker d \<notin> set held} = {}" by (auto dest: sym)
  then show ?thesis using exits idle by auto
qed

text \<open>The sample: a BUY and an ADD of one ticker, a sale of an invalidated holding and a watchlist entry.\<close>

definition mixed_output :: AuthoredOutput where
  "mixed_output = \<lparr>ao_decisions = [valid_decision\<lparr>ticker := ''NEW'', decision := BUY\<rparr>,
       valid_decision\<lparr>ticker := ''NEW'', decision := ADD\<rparr>, valid_decision\<lparr>ticker := ''OLD'', decision := SELL\<rparr>,
       valid_decision\<lparr>ticker := ''IDEA'', decision := WATCHLIST\<rparr>],
     ao_thesis_reviews = [\<lparr>ar_episode_id = ''e'', ar_ticker = ''OLD'', ar_state = holding_invalidated,
       ar_summary = Some ''gone'', ar_narrative = None, ar_approved_for_publication = True, ar_private_notes = None,
       ar_sources_opened = [''https://example.com''], ar_x_posts = [], ar_realization_price_low = Some 20,
       ar_realization_price_high = Some 10, ar_invalidation_price = Some 5, ar_range_basis = Some ''model'',
       ar_range_change_evidence = None, ar_move_attribution = None\<rparr>],
     ao_earnings_dates = [], ao_x_triage = [],
     ao_challenger_reviews = [\<lparr>ch_candidate = ''NEW'', ch_incumbent = ''OLD'', ch_incumbent_episode_id = ''e'',
       ch_why_weakest = ''w'', ch_ranking_departure = None, ch_verdict = swap, ch_reasoning = ''r''\<rparr>],
     ao_exposure_decision = None, ao_candidates_considered = [], ao_public_summary = ''done''\<rparr>"

lemma new_money_held_back_witness:
  "map (\<lambda>d. (ticker d, decision d)) (ao_decisions (fst (hold_back [] [HOLDINGS_CAUSE] mixed_output))) =
     [(''NEW'', WATCHLIST), (''NEW'', ADD), (''OLD'', SELL), (''IDEA'', WATCHLIST)] \<and>
   BUY \<notin> decision ` set (ao_decisions (fst (hold_back [] [HOLDINGS_CAUSE] mixed_output)))"
proof
  show "map (\<lambda>d. (ticker d, decision d)) (ao_decisions (fst (hold_back [] [HOLDINGS_CAUSE] mixed_output))) =
     [(''NEW'', WATCHLIST), (''NEW'', ADD), (''OLD'', SELL), (''IDEA'', WATCHLIST)]" by code_simp
  show "BUY \<notin> decision ` set (ao_decisions (fst (hold_back [] [HOLDINGS_CAUSE] mixed_output)))"
    using new_money_held_back [of "[]" "[HOLDINGS_CAUSE]" mixed_output "fst (hold_back [] [HOLDINGS_CAUSE] mixed_output)"
      "snd (hold_back [] [HOLDINGS_CAUSE] mixed_output)"] by simp
qed

text \<open>
  The gap the filter leaves: an ADD of a ticker the review also bought stays an ADD, although the buys are held
  back. A review that need not hunt can author both.
\<close>

lemma add_beside_held_back_buy:
  "\<exists>d\<in>set (ao_decisions (fst (hold_back [] [HOLDINGS_CAUSE] mixed_output))). decision d = ADD"
proof -
  have "list_ex (\<lambda>d. decision d = ADD) (ao_decisions (fst (hold_back [] [HOLDINGS_CAUSE] mixed_output)))" by code_simp
  then show ?thesis by (simp add: list_ex_iff)
qed

text \<open>
  A range whose low price exceeds its high one passes the authored model and the gate on reviews, and the model of
  the stored review refuses it: the attempt then fails after its orders were submitted.
\<close>

lemma crossed_range_passes_the_gate:
  "authored_review_errors (hd (ao_thesis_reviews mixed_output)) = [] \<and>
   review_gap (hd (ao_thesis_reviews mixed_output)) = None"
  by code_simp

lemma crossed_range_refused:
  assumes "ar_realization_price_low d = Some low" and "ar_realization_price_high d = Some high" and "high < low"
  shows "review_errors (thesis_review_of u facts fresh recorded_at d) \<noteq> []"
  using assms by (auto simp: review_errors_def model_errors_Nil ordered_prices_def range_problems_def thesis_review_of_def
      both_and_iff)

text \<open>
  The summary is extended after it was validated: one that is nearly as long as the model allows can then not be
  published, and the completion refuses it when the orders have been submitted.
\<close>

lemma held_back_summary_length: "98 \<le> length (held_back_summary causes held)"
  by (simp add: held_back_summary_def)

lemma long_summary_cannot_complete:
  assumes "hold_back due causes result = (kept, held)" and "causes \<noteq> []" and "buys_of result \<noteq> []"
    and "3902 < length (ao_public_summary result)" and "status \<in> terminal_statuses"
  shows "finish i fence now status None (Some (ao_public_summary kept)) db =
    Inl (ValueError ''invalid public completion metadata'')"
proof -
  have "4000 < length (ao_public_summary kept)"
    using assms(4) held_back_summary_length [of causes held] by (simp add: held_back_kept(3) [OF assms(1-3)])
  then show ?thesis using assms(5) by (simp add: finish_def)
qed

section \<open>A review without gaps has answered for its holdings\<close>







text \<open>The account of one holding found invalidated, and a review that reads it again and sells it.\<close>

definition review_day_run :: RuntimeRun where
  "review_day_run = \<lparr>ru_run_id = ''run'', ru_mode = LiveMode, ru_account_id = ''acct'', ru_execution_profile_id = ''main'',
     ru_session_date = 0, ru_slot = ''preclose'', ru_prepared_at = 0, ru_intake_path = ''intake'', ru_intake_sha256 = [],
     ru_reasoning_run_id = Some ''prepared'', ru_occurrence_id = None, ru_origin = OriginManual, ru_trigger_ids = []\<rparr>"

definition one_holding_db :: worker_db where
  "one_holding_db = \<lparr>wd_review = \<lparr>rv_runtime = empty_runtime\<lparr>rt_core := empty_db\<lparr>
       live_portfolio_snapshots := [sole_holding], reasoning_runs := [sole_run]\<rparr>\<rparr>,
       rv_prices = [], rv_fills = [], rv_positions = [], rv_swap_pairs = []\<rparr>,
     wd_thesis_reviews = [broken_thesis], wd_calendar = [], wd_x = empty_x, wd_triage = [], wd_citations = [],
     wd_held_back = [], wd_ledgers = []\<rparr>"







section \<open>Every failure is explained\<close>

lemma failure_outcome_allowed:
  "fst (failure_outcome e) \<in> {AttemptFailed, AttemptBlocked, AttemptTimedOut, AttemptCanceled} \<and>
   snd (failure_outcome e) \<in> set allowed_reasons"
proof -
  have table: "list_all (\<lambda>(_, status, reason). status \<in> {AttemptFailed, AttemptBlocked, AttemptTimedOut, AttemptCanceled} \<and>
      reason \<in> set allowed_reasons) failure_reasons" by code_simp
  have other: "''submission_blocked'' \<in> set allowed_reasons" by code_simp
  show ?thesis
  proof (cases "map_of failure_reasons (failure_code e)")
    case (Some r)
    with table map_of_SomeD [OF Some] show ?thesis by (cases r) (auto simp: failure_outcome_def list_all_iff)
  qed (simp add: failure_outcome_def other)
qed

lemma find_row_updated:
  assumes "\<And>r. key (f r) = key r" and "find_row key k (map (\<lambda>r. if key r = k then f r else r) rows) = Some s"
  shows "\<exists>r. find_row key k rows = Some r \<and> s = f r"
  using assms(2) by (induction rows) (auto simp: find_row_def assms(1) split: if_splits)

lemma finish_attempt:
  assumes "finish i fence now status reason summary_text db = Inr (db', a)"
  shows "ra_status a = status" and "ra_reason a = reason" and "ra_public_summary a = summary_text"
proof -
  from assms obtain core where "get_attempt (release_lease i (set_attempt i (\<lambda>a. a\<lparr>ra_status := status,
      ra_stage := StageFinished, ra_finished_at := Some now, ra_reason := reason, ra_public_summary := summary_text\<rparr>)
      (db\<lparr>rt_core := core\<rparr>))) i = Inr a"
    by (auto simp: finish_def Let_def result_simps split: if_splits)
  then obtain b where "a = b\<lparr>ra_status := status, ra_stage := StageFinished, ra_finished_at := Some now,
      ra_reason := reason, ra_public_summary := summary_text\<rparr>"
    by (auto simp: get_attempt_def release_lease_def set_attempt_def split: option.splits dest!: find_row_updated [rotated])
  then show "ra_status a = status" and "ra_reason a = reason" and "ra_public_summary a = summary_text" by simp_all
qed

text \<open>
  The reasoning run of a failed attempt is completed as failed without an error: it was a well formed prepared run,
  its links name each decision once, and nothing of its identity changes.
\<close>

lemma failed_reasoning_run_finishes:
  assumes "status \<notin> {AttemptCompleted, AttemptNoAction}"
    and "\<And>legacy. truthy (ru_reasoning_run_id run) \<Longrightarrow>
      get_reasoning_run core (the (ru_reasoning_run_id run)) = Some legacy \<Longrightarrow> rr_result legacy = PREPARED \<Longrightarrow>
      reasoning_run_errors legacy = [] \<and> distinct (run_decision_ids core (the (ru_reasoning_run_id run)))"
  shows "\<exists>core'. finish_reasoning_run run status now None core = Inr core'"
proof (cases "truthy (ru_reasoning_run_id run)")
  case True
  let ?i = "the (ru_reasoning_run_id run)"
  show ?thesis
  proof (cases "get_reasoning_run core ?i")
    case (Some legacy)
    show ?thesis
    proof (cases "rr_result legacy = PREPARED")
      case prepared: True
      let ?done = "completed_run legacy (run_decision_ids core ?i) status now None"
      have legacy: "reasoning_run_errors legacy = []" "distinct (run_decision_ids core ?i)"
        using assms(2) [OF True Some prepared] by simp_all
      moreover have "\<not> blank ''The reasoning attempt ended before completion.''" by code_simp
      ultimately have valid: "reasoning_run_errors ?done = []"
        using assms(1) by (simp add: reasoning_run_errors_def completed_run_def require_consistent_result_def
            result_simps text_or_def truthy_def)
      have named: "rr_reasoning_run_id legacy = ?i"
        using Some by (auto simp: get_reasoning_run_def dest: find_row_Some)
      have links: "set (run_decision_ids core ?i) = linked_decisions core ?i"
        by (simp add: run_decision_ids_def linked_decisions_def)
      have "\<exists>p. complete_reasoning_run ?done core = Inr p"
        using assms(1) Some prepared links named
        by (auto simp: complete_reasoning_run_def completed_run_def run_identity_def)
      then show ?thesis using True Some prepared valid by (auto simp: finish_reasoning_run_def Let_def)
    qed (simp add: finish_reasoning_run_def True Some)
  qed (simp add: finish_reasoning_run_def True)
qed (simp add: finish_reasoning_run_def)

lemma kept_runtime: "wd_runtime (with_runtime rt db) = rt"
  by (simp add: with_runtime_def wd_runtime_def)

lemma find_row_touched:
  assumes "\<And>r. key (f r) = key r" and "find_row key k rows = Some r"
  shows "find_row key k (map (\<lambda>r. if key r = k then f r else r) rows) = Some (f r)"
  using assms(2) by (induction rows) (auto simp: find_row_def assms(1) split: if_splits)

lemma finish_succeeds:
  assumes "validate_fence db i fence now = Inr found" and "ra_heartbeat_at found \<le> now"
    and "get_run db (ra_run_id found) = Inr run" and "finish_reasoning_run run status now None (rt_core db) = Inr core"
    and "status \<in> terminal_statuses" and "status \<noteq> AttemptNoAction" and "reason \<in> set allowed_reasons"
  shows "\<exists>rt a. finish i fence now status (Some reason) None db = Inr (rt, a) \<and> get_attempt rt i = Inr a \<and>
    ra_finished_at a = Some now"
proof -
  have "find_row ra_attempt_id i (rt_attempts db) = Some found"
    using assms(1) by (auto simp: validate_fence_def get_attempt_def result_simps split: option.splits if_splits)
  from find_row_touched [where f = "\<lambda>a. a\<lparr>ra_status := status, ra_stage := StageFinished,
      ra_finished_at := Some now, ra_reason := Some reason, ra_public_summary := None\<rparr>", OF _ this]
  show ?thesis using assms
    by (simp add: finish_def Let_def get_attempt_def release_lease_def set_attempt_def)
qed

text \<open>
  C31. The handler of a failed attempt ends it with an explanation, whatever handled error failed it. An attempt that
  still runs after the expiry is finished at the time the handler reads, as failed, blocked, timed out or canceled,
  never as completed, with a reason from the list that may be published; one the expiry ended (or that had ended
  before) is left as it was found. The attempt returned is the stored one. It asks that a running attempt still holds
  its lease and fence when the handler finishes it, that the clock has not gone back behind its heartbeat, that its
  run is stored, and that the prepared reasoning run, if it has one, is a valid record whose links name each decision
  once; a lease lost in between is raised as such and no attempt is returned.
\<close>

theorem failed_attempt_is_explained:
  assumes "handled e" and "e \<noteq> LeaseLost"
    and "fst (expire expired_at (wd_runtime db)) = rt" and "get_attempt rt i = Inr found"
    and "ra_status found = AttemptRunning \<Longrightarrow> validate_fence rt i fence finished_at = Inr found"
    and "ra_heartbeat_at found \<le> finished_at" and "get_run rt (ra_run_id found) = Inr run"
    and "\<And>legacy. truthy (ru_reasoning_run_id run) \<Longrightarrow>
      get_reasoning_run (rt_core rt) (the (ru_reasoning_run_id run)) = Some legacy \<Longrightarrow> rr_result legacy = PREPARED \<Longrightarrow>
      reasoning_run_errors legacy = [] \<and> distinct (run_decision_ids (rt_core rt) (the (ru_reasoning_run_id run)))"
  shows "\<exists>db' a. fail_attempt i fence expired_at finished_at e db = (db', Inr a) \<and>
    get_attempt (wd_runtime db') i = Inr a \<and>
    (if ra_status found = AttemptRunning
     then ra_status a \<in> {AttemptFailed, AttemptBlocked, AttemptTimedOut, AttemptCanceled} \<and>
       (\<exists>reason\<in>set allowed_reasons. ra_reason a = Some reason) \<and> ra_finished_at a = Some finished_at
     else a = found)"
proof (cases "ra_status found = AttemptRunning")
  case False
  then show ?thesis using assms(1-4) by (simp add: fail_attempt_def Let_def kept_runtime)
next
  case True
  let ?status = "fst (failure_outcome e)" and ?reason = "snd (failure_outcome e)"
  note outcome = failure_outcome_allowed [of e]
  obtain core where "finish_reasoning_run run ?status finished_at None (rt_core rt) = Inr core"
    using failed_reasoning_run_finishes [of ?status run "rt_core rt" finished_at] assms(8) outcome by fastforce
  from finish_succeeds [OF assms(5) [OF True] assms(6,7) this, of ?reason] outcome
  obtain rt' a where ended: "finish i fence finished_at ?status (Some ?reason) None rt = Inr (rt', a)"
    "get_attempt rt' i = Inr a" "ra_finished_at a = Some finished_at" by (auto simp: terminal_statuses_def)
  then show ?thesis using assms(1-4) True outcome finish_attempt(1,2) [OF ended(1)]
    by (simp add: fail_attempt_def Let_def kept_runtime on_runtime_def)
qed

text \<open>A running attempt whose author timed out.\<close>

definition running_db :: worker_db where
  "running_db = one_holding_db\<lparr>wd_review := (wd_review one_holding_db)\<lparr>rv_runtime := empty_runtime\<lparr>
     rt_runs := [\<lparr>rw_run = review_day_run\<lparr>ru_reasoning_run_id := None\<rparr>, rw_public_id = ''p''\<rparr>],
     rt_attempts := [\<lparr>ra_attempt_id = ''a'', ra_public_id = ''q'', ra_run_id = ''run'', ra_attempt_number = 1, ra_fence = 1,
       ra_status = AttemptRunning, ra_stage = StageAuthoring, ra_model = ''m'', ra_observed_model = None, ra_started_at = 0,
       ra_heartbeat_at = 0, ra_finished_at = None, ra_reason = None, ra_public_summary = None\<rparr>],
     rt_leases := [\<lparr>le_scope_key = ''live/acct'', le_fence = 1, le_attempt_id = Some ''a'', le_expires_at = Some second\<rparr>]\<rparr>\<rparr>\<rparr>"

lemma failed_attempt_is_explained_witness:
  "\<exists>a. snd (fail_attempt ''a'' 1 0 0 (RunnerFailure ''runner_timeout'') running_db) = Inr a \<and>
     ra_status a = AttemptTimedOut \<and> ra_reason a = Some ''runner_timeout'' \<and>
     ra_status a \<in> {AttemptFailed, AttemptBlocked, AttemptTimedOut, AttemptCanceled} \<and> ra_finished_at a = Some 0"
proof -
  let ?rt = "fst (expire 0 (wd_runtime running_db))"
  obtain found where found: "get_attempt ?rt ''a'' = Inr found" and valid: "validate_fence ?rt ''a'' 1 0 = Inr found"
    and beat: "ra_heartbeat_at found \<le> 0"
    and run: "get_run ?rt (ra_run_id found) = Inr (review_day_run\<lparr>ru_reasoning_run_id := None\<rparr>)"
    and running: "ra_status found = AttemptRunning"
  proof
    let ?found = "case get_attempt ?rt ''a'' of Inr a \<Rightarrow> a"
    show "get_attempt ?rt ''a'' = Inr ?found" by code_simp
    show "validate_fence ?rt ''a'' 1 0 = Inr ?found" by code_simp
    show "ra_heartbeat_at ?found \<le> 0" by code_simp
    show "get_run ?rt (ra_run_id ?found) = Inr (review_day_run\<lparr>ru_reasoning_run_id := None\<rparr>)" by code_simp
    show "ra_status ?found = AttemptRunning" by code_simp
  qed
  have error: "handled (RunnerFailure ''runner_timeout'')" by code_simp
  have answer: "case snd (fail_attempt ''a'' 1 0 0 (RunnerFailure ''runner_timeout'') running_db) of Inl _ \<Rightarrow> False
      | Inr a \<Rightarrow> ra_status a = AttemptTimedOut \<and> ra_reason a = Some ''runner_timeout''" by code_simp
  have unprepared: "\<not> truthy (ru_reasoning_run_id (review_day_run\<lparr>ru_reasoning_run_id := None\<rparr>))"
    by (simp add: truthy_def)
  show ?thesis
    using failed_attempt_is_explained [OF error _ refl found valid beat run] answer running unprepared by auto
qed

end
