(* ===== verification/WorkerOrders.thy ===== *)
theory WorkerOrders
  imports WorkerProperties SubmissionProperties
begin

text \<open>
  The order intents an attempt leaves (\<open>execute_attempt\<close> of \<open>app/reason/worker.py\<close>): a submission adds at most
  the intent of its own decision, so what an attempt adds follows from the drafts it submits and from the fence it
  submits them under.
\<close>

section \<open>Intents are only added\<close>

definition orders_from :: "(OrderIntent \<Rightarrow> bool) \<Rightarrow> core_db \<Rightarrow> core_db \<Rightarrow> bool" where
  "orders_from P a b = (\<exists>news. order_intents b = order_intents a @ news \<and> list_all P news)"

lemma same_orders: "order_intents b = order_intents a \<Longrightarrow> orders_from P a b"
  by (simp add: orders_from_def)

lemma orders_from_trans: "orders_from P a b \<Longrightarrow> orders_from P b c \<Longrightarrow> orders_from P a c"
  by (auto simp: orders_from_def)

lemma orders_from_mono: "orders_from P a b \<Longrightarrow> (\<And>i. P i \<Longrightarrow> Q i) \<Longrightarrow> orders_from Q a b"
  by (auto simp: orders_from_def list_all_iff)

lemma orders_from_eq: "order_intents b = order_intents c \<Longrightarrow> orders_from P a b \<Longrightarrow> orders_from P a c"
  by (simp add: orders_from_def)

text \<open>The intent of a decision.\<close>

definition order_of :: "InvestmentDecisionRecord \<Rightarrow> OrderIntent \<Rightarrow> bool" where
  "order_of r i = (oi_decision_id i = decision_id r \<and> oi_ticker i = ticker r \<and>
     INTENT_SIDES (decision r) = Some (oi_side i))"

lemma save_intent_orders:
  assumes "save_order_intent i db = Inr (db', b)" and "P i"
  shows "orders_from P db db'"
  using assms by (auto simp: intents.save_Inr insert_once_def orders_from_def split: if_splits option.splits)

lemma finish_orders:
  assumes "finish_with_intent r res now m prof db = Inr (db', out)"
  shows "orders_from (order_of r) db db'"
proof -
  obtain db1 intent where c: "(case get_order_intent db (''oi_'' @ decision_id r) of Some intent \<Rightarrow> Inr (db, intent)
      | None \<Rightarrow> and_then (create_order_intent now r res (Some now) m prof) (\<lambda>intent.
          and_then (save_order_intent intent db) (\<lambda>(db', _). Inr (db', intent)))) = Inr (db1, intent)"
    and s: "status_of (append_status (decision_id r) ORDER_INTENT_CREATED [] now db1) = Inr db'"
    using assms by (auto simp: finish_with_intent_def result_simps)
  have "orders_from (order_of r) db db1"
    using c by (auto simp: result_simps order_of_def create_order_intent_Inr same_orders split: option.splits
        intro!: save_intent_orders)
  with append_status_frame(2) [OF s] show ?thesis by (simp add: orders_from_def)
qed

lemma save_decision_orders: "save_decision_record r db = Inr (db', b) \<Longrightarrow> order_intents db' = order_intents db"
  by (auto elim: save_decision_cases)

lemma save_evaluation_orders:
  "save_policy_evaluation env r res p truth now ident m prof db = Inr (db', ev) \<Longrightarrow> order_intents db' = order_intents db"
  by (auto simp: save_policy_evaluation_def Let_def result_simps split: if_splits option.splits)

lemma replay_orders: "replay existing r now m prof db = Inr (Some (db', out)) \<Longrightarrow> orders_from (order_of r) db db'"
  by (auto simp: replay_def Let_def result_simps same_orders split: if_splits option.splits dest!: finish_orders)

lemma process_new_orders:
  assumes "process_new env r port truth now ident m prof db = Inr (db', out)"
  shows "orders_from (order_of r) db db'"
  using assms
  by (auto simp: process_new_def Let_def result_simps split: if_splits
      dest!: finish_orders append_status_frame(2) save_evaluation_orders save_decision_orders)
    (simp_all add: orders_from_def)

lemma body_orders:
  assumes "process_decision_body env (Draft r) port truth now ident m prof db = Inr (db', out)"
    and "validate_record r = Inr r"
  shows "orders_from (order_of r) db db'"
  using assms
  by (auto simp: process_decision_body_def result_simps split: option.splits
      dest!: replay_orders process_new_orders append_status_frame(2))

lemma link_decision_orders: "link_decision r i sn core = Inr core' \<Longrightarrow> order_intents core' = order_intents core"
  by (auto simp: link_decision_def split: option.splits if_splits)

lemma submitted_orders:
  assumes "submit_transaction env sd o' (draft r) day now db = Inr (db1, out)" and "validate_record r = Inr r"
  shows "orders_from (order_of r) (rv_core db) (rv_core db1)"
proof -
  obtain core out' runtime where
    c: "(if op_execution_mode o' = PAPER then submit_paper env sd o' (draft r) day now db
      else submit_live env o' (draft r) day now db) = Inr (core, out')"
    and a: "attribute_decision (op_runtime_attempt_id o') (po_decision_id out') ((rv_runtime db)\<lparr>rt_core := core\<rparr>) =
      Inr runtime" and db1: "db1 = db\<lparr>rv_runtime := runtime\<rparr>"
    using assms(1) by (auto simp: submit_transaction_def result_simps)
  have "orders_from (order_of r) (rv_core db) core"
  proof (cases "op_execution_mode o' = PAPER")
    case True
    then show ?thesis using c body_orders [OF _ assms(2)]
      by (auto simp: submit_paper_def draft_def Let_def result_simps)
  next
    case False
    with c obtain run snap row i where "process_decision_body env (Draft r) run snap now row LIVE
        (op_execution_profile_id o') (rv_core db) = Inr i" and "order_intents core = order_intents (fst i)"
      by (auto simp: submit_live_def draft_def Let_def result_simps split: option.splits if_splits
          dest!: link_decision_orders)
    then show ?thesis using body_orders [OF _ assms(2)] by (cases i) (auto intro: orders_from_eq [OF sym])
  qed
  then show ?thesis using attribute_decision_frame [OF a] by (simp add: db1 rv_core_def)
qed

section \<open>A submission under a fence\<close>

text \<open>A decision of an attempt's namespace.\<close>

definition own_order :: "string \<Rightarrow> OrderIntent \<Rightarrow> bool" where
  "own_order attempt_id i = (\<exists>before rest. oi_decision_id i = before @ ''_'' @ attempt_id @ ''_'' @ rest)"

lemma starts_with_append: "starts_with p s \<Longrightarrow> \<exists>rest. s = p @ rest"
  by (metis append_take_drop_id starts_with_def)

lemma fenced_own:
  assumes "fenced_identity o' (draft r) day now db = Inr x" and "op_runtime_attempt_id o' = Some a" and "op_fence o' = Some f"
    and "order_of r i"
  shows "own_order a i"
proof -
  obtain run where "id_in_namespace (attempt_prefix run a) (draft r)"
    using assms(1-3) by (auto simp: fenced_identity_def result_simps)
  then have "starts_with (attempt_prefix run a) (decision_id r)"
    by (auto simp: id_in_namespace_def draft_def split: if_splits)
  then obtain rest where "decision_id r = attempt_prefix run a @ rest" using starts_with_append by blast
  then show ?thesis using assms(4) by (auto simp: own_order_def order_of_def attempt_prefix_def)
qed

lemma submit_decision_orders:
  assumes s: "submit_decision env sd o' (draft r) day [] now db = (db', res)"
    and o: "op_runtime_attempt_id o' = Some a" "op_fence o' = Some f" and v: "validate_record r = Inr r"
  shows "orders_from (\<lambda>i. order_of r i \<and> own_order a i) (rv_core db) (rv_core db')"
proof (cases "submit_transaction env sd o' (draft r) day now db")
  case (Inl e)
  then show ?thesis using s o by (auto simp: submit_decision_def intro: same_orders)
next
  case (Inr p)
  then obtain db1 out where t: "submit_transaction env sd o' (draft r) day now db = Inr (db1, out)" by (cases p) auto
  then have "db' = db1" using s o by (simp add: submit_decision_def consume_triggers_def)
  obtain x where x: "fenced_identity o' (draft r) day now (rv_runtime db) = Inr x"
    using t by (auto simp: submit_transaction_def result_simps)
  have "orders_from (\<lambda>i. order_of r i \<and> own_order a i) (rv_core db) (rv_core db1)"
    using submitted_orders [OF t v] by (rule orders_from_mono) (simp add: fenced_own [OF x o])
  with \<open>db' = db1\<close> show ?thesis by simp
qed

section \<open>The drafts of an attempt\<close>

definition drafted :: "InvestmentDecisionRecord list \<Rightarrow> string \<Rightarrow> OrderIntent \<Rightarrow> bool" where
  "drafted ds attempt_id i = (own_order attempt_id i \<and>
     list_ex (\<lambda>d. oi_decision_id i = decision_id d \<and> INTENT_SIDES (decision d) = Some (oi_side i)) ds)"

lemma record_held_back_core: "record_held_back u r now t db = Inr db' \<Longrightarrow> wd_core db' = wd_core db"
  by (auto simp: record_held_back_def wd_core_def result_simps split: if_splits)

lemma record_pair_core: "record_pair u r s t db = Inr db' \<Longrightarrow> wd_core db' = wd_core db"
  by (auto simp: record_pair_def wd_core_def rv_core_def result_simps split: if_splits option.splits)

lemma submit_draft_orders:
  assumes "submit_draft u now_at k d accepted db = (db', res)"
  shows "orders_from (drafted [d] (ss_attempt_id u)) (wd_core db) (wd_core db')"
proof (cases "validate_record (d\<lparr>created_at := (ss_authored_at u, 0)\<rparr>)")
  case (Inl e)
  then show ?thesis using assms by (auto simp: submit_draft_def intro: same_orders)
next
  case (Inr r)
  note fields = validate_record_fields(1,2) [OF Inr]
  show ?thesis
  proof (cases "submission_snapshot u (now_at (AtSubmit k)) db")
    case (Inl e)
    then show ?thesis using assms Inr by (auto simp: submit_draft_def Let_def intro: same_orders)
  next
    case snap: (Inr i)
    define o' where "o' = submit_options u i (funding_of u accepted r \<noteq> None)"
    obtain review out where s: "submit_decision (ss_env u) (ss_stored_day u) o' (draft r) (ru_session_date (ss_run u)) []
        (now_at (AtSubmit k)) (wd_review db) = (review, out)" by fastforce
    have "wd_core db' = rv_core review"
      using assms Inr snap s [unfolded o'_def]
      by (auto simp: submit_draft_def Let_def wd_core_def split: sum.splits
          dest!: record_held_back_core record_pair_core)
    moreover have "orders_from (\<lambda>i. order_of r i \<and> own_order (ss_attempt_id u) i) (wd_core db) (rv_core review)"
      unfolding wd_core_def by (rule submit_decision_orders [OF s])
        (use validate_record_idem(1) [OF Inr] in \<open>simp_all add: o'_def submit_options_def\<close>)
    ultimately show ?thesis
      using fields by (auto simp: drafted_def order_of_def elim!: orders_from_mono)
  qed
qed

lemma submit_drafts_orders:
  "submit_drafts u now_at k ds accepted db = (db', res) \<Longrightarrow>
     orders_from (drafted ds (ss_attempt_id u)) (wd_core db) (wd_core db')"
proof (induction ds arbitrary: k accepted db)
  case (Cons d ds)
  obtain db1 r where s: "submit_draft u now_at k d accepted db = (db1, r)" by fastforce
  have first: "orders_from (drafted (d # ds) (ss_attempt_id u)) (wd_core db) (wd_core db1)"
    using submit_draft_orders [OF s] by (rule orders_from_mono) (auto simp: drafted_def)
  show ?case
  proof (cases r)
    case (Inl e)
    then show ?thesis using Cons.prems s first by simp
  next
    case (Inr accepted')
    then have "submit_drafts u now_at (Suc k) ds accepted' db1 = (db', res)" using Cons.prems s by simp
    from orders_from_mono [OF Cons.IH [OF this]]
    have "orders_from (drafted (d # ds) (ss_attempt_id u)) (wd_core db1) (wd_core db')" by (auto simp: drafted_def)
    with first show ?thesis by (rule orders_from_trans)
  qed
qed (simp add: same_orders)

section \<open>With a gap outstanding\<close>

lemma exits_sell: "exit_of d \<Longrightarrow> INTENT_SIDES (decision d) = Some side \<Longrightarrow> side = SIDE_SELL"
  by (auto simp: exit_of_def)

lemma buying_increases: "INTENT_SIDES (decision d) = Some SIDE_BUY \<Longrightarrow> increasing (decision d)"
  by (cases "decision d") (simp_all add: increasing_def)

lemma set_submission_order [simp]: "set (submission_order ds) = set ds"
  by (simp add: submission_order_def)

text \<open>
  C29. While a gap is outstanding the submission of what the review keeps adds no order that buys, unless the review
  authored an ADD of a ticker it also decided to BUY: every other order intent it adds sells, and each belongs to
  one of the attempt's own decisions.
\<close>

theorem gap_orders_only_sell:
  assumes "hold_back due causes result = (kept, held)" and "causes \<noteq> []"
    and "submit_drafts u now_at 0 (submission_order (ao_decisions kept)) [] db = (db', res)"
  shows "\<exists>news. order_intents (wd_core db') = order_intents (wd_core db) @ news \<and>
    list_all (\<lambda>i. own_order (ss_attempt_id u) i \<and> (oi_side i = SIDE_SELL \<or>
      list_ex (\<lambda>d. decision d = ADD \<and> decision_id d = oi_decision_id i \<and> ticker d \<in> set held) (ao_decisions kept))) news"
proof -
  have "own_order (ss_attempt_id u) i \<and> (oi_side i = SIDE_SELL \<or>
      list_ex (\<lambda>d. decision d = ADD \<and> decision_id d = oi_decision_id i \<and> ticker d \<in> set held) (ao_decisions kept))"
    if found: "drafted (submission_order (ao_decisions kept)) (ss_attempt_id u) i" for i
  proof -
    obtain d where d: "d \<in> set (ao_decisions kept)" "oi_decision_id i = decision_id d"
      "INTENT_SIDES (decision d) = Some (oi_side i)" and own: "own_order (ss_attempt_id u) i"
      using found by (auto simp: drafted_def list_ex_iff)
    show ?thesis
    proof (cases "oi_side i")
      case SIDE_BUY
      then have "decision d = ADD \<and> ticker d \<in> set held"
        using held_back_increasing [OF assms(1,2) d(1)] buying_increases [of d] d(3) by simp
      then show ?thesis using own d by (auto simp: list_ex_iff)
    qed (use own in simp)
  qed
  from orders_from_mono [OF submit_drafts_orders [OF assms(3)] this] show ?thesis by (simp add: orders_from_def)
qed

section \<open>A whole attempt\<close>

lemma heartbeat_core: "heartbeat i f now stage ls db = Inr (db', a) \<Longrightarrow> rt_core db' = rt_core db"
  by (auto simp: heartbeat_def Let_def result_simps split: if_splits)

lemma finish_reasoning_run_orders:
  "finish_reasoning_run run status now summary_text c = Inr c' \<Longrightarrow> order_intents c' = order_intents c"
  by (auto simp: finish_reasoning_run_def complete_reasoning_run_def Let_def result_simps split: if_splits option.splits)

lemma finish_orders_kept:
  assumes "finish i f now status reason summary_text db = Inr (db', a)"
  shows "order_intents (rt_core db') = order_intents (rt_core db)"
proof -
  obtain run core where "finish_reasoning_run run status now summary_text (rt_core db) = Inr core" "rt_core db' = core"
    using assms by (auto simp: finish_def Let_def result_simps split: if_splits)
  then show ?thesis using finish_reasoning_run_orders by simp
qed

lemma claim_core:
  assumes "claim i model now retry ls ids db = Inr (db', a)"
  shows "rt_core db' = rt_core db" and "ra_attempt_id a = fst ids"
proof -
  from assms obtain w db2 where "find_run db i = Some w" "ru_run_id (rw_run w) = i"
    and v: "validate_claim (rw_run w) now retry (fst (expire now db)) = Inr db2"
    and "ru_prepared_at (rw_run w) \<le> now" "ru_session_date (rw_run w) = ny_date now"
    and s: "start_attempt (rw_run w) model now retry ls ids db2 = Inr (db', a)"
    by (rule claim_Inr)
  have "rt_core db2 = rt_core db" using validate_claim_frame [OF v] by simp
  with s show "rt_core db' = rt_core db" and "ra_attempt_id a = fst ids"
    by (auto elim!: start_attempt_Inr simp: hold_lease_def ensure_lease_def new_attempt_def)
qed

text \<open>The tables a step leaves, against those it started from.\<close>

definition step_orders :: "(OrderIntent \<Rightarrow> bool) \<Rightarrow> worker_db \<Rightarrow> 'a stepped \<Rightarrow> bool" where
  "step_orders P db s = orders_from P (wd_core db) (wd_core (fst s))"

lemma step_orders_same: "order_intents (wd_core db') = order_intents (wd_core db) \<Longrightarrow> step_orders P db (db', r)"
  by (simp add: step_orders_def same_orders)

lemma step_orders_reading [simp]: "step_orders P db (reading db r)" "step_orders P db (db, r)"
  by (simp_all add: reading_def step_orders_same)

lemma step_orders_then:
  assumes "step_orders P db s" and "\<And>x db1. s = (db1, Inr x) \<Longrightarrow> step_orders P db1 (f x db1)"
  shows "step_orders P db (stepped_then s f)"
proof (cases s)
  case (Pair db1 r)
  then show ?thesis using assms by (cases r) (auto simp: step_orders_def intro: orders_from_trans)
qed

lemma wd_core_runtime: "wd_core (with_runtime rt db) = rt_core rt" "wd_core db = rt_core (wd_runtime db)"
  by (simp_all add: wd_core_def with_runtime_def wd_runtime_def rv_core_def)

lemma on_runtime_orders:
  assumes "\<And>rt x. r = Inr (rt, x) \<Longrightarrow> order_intents (rt_core rt) = order_intents (wd_core db)"
  shows "step_orders P db (on_runtime r db)"
  using assms by (auto simp: on_runtime_def wd_core_runtime(1) split: sum.splits intro!: step_orders_same)

lemma beat_orders: "step_orders P db (beat i f now stage ls db)"
  unfolding beat_def by (rule on_runtime_orders) (simp add: heartbeat_core wd_core_runtime(2))

lemma transaction_orders:
  assumes "\<And>db'. r = Inr db' \<Longrightarrow> wd_core db' = wd_core db"
  shows "step_orders P db (transaction db r)"
  using assms by (cases r) (simp_all add: transaction_def step_orders_same)

lemma record_outcome_core: "record_outcome u at_time result triaged db = Inr db' \<Longrightarrow> wd_core db' = wd_core db"
  by (auto simp: record_outcome_def wd_core_def result_simps)

lemma save_review_orders: "step_orders P db (save_review u inp facts k d db)"
  by (auto simp: save_review_def Let_def wd_core_def result_simps intro!: transaction_orders)

lemma save_reviews_orders: "step_orders P db (save_reviews u inp facts k ds db)"
  by (induction ds arbitrary: k db) (auto intro!: step_orders_then save_review_orders)

lemma conclude_orders: "step_orders P db (conclude inp u facts result db)"
  unfolding conclude_def
  by (intro step_orders_then transaction_orders save_reviews_orders on_runtime_orders)
    (auto simp: finish_orders_kept wd_core_runtime(2) dest: record_outcome_core)

text \<open>An author and a collector that add no order intents of their own.\<close>

definition quiet :: "AttemptInputs \<Rightarrow> bool" where
  "quiet inp = (\<forall>k db. order_intents (wd_core (fst (at_author inp k db))) = order_intents (wd_core db) \<and>
     (case at_collect inp of None \<Rightarrow> True
      | Some collect \<Rightarrow> order_intents (wd_core (fst (collect k db))) = order_intents (wd_core db)))"

lemma quiet_collect:
  assumes "quiet inp" and "at_collect inp = Some collect"
  shows "step_orders P db (collect k db)"
  using assms by (simp add: quiet_def step_orders_def same_orders)

lemma refresh_orders:
  assumes "quiet inp" and "at_collect inp = Some collect"
  shows "step_orders P db (refresh_snapshot inp a collect k db)"
  unfolding refresh_snapshot_def
proof (rule step_orders_then [OF beat_orders])
  fix x db1
  show "step_orders P db1 (case collect k db1 of
      (db2, Inl e) \<Rightarrow> (db2, Inl (if handled e then RunnerFailure ''snapshot_stale'' else e))
    | (db2, Inr u) \<Rightarrow> (db2, Inr u))"
    using quiet_collect [OF assms, of P db1 k] by (auto simp: step_orders_def split: prod.splits sum.splits)
qed

lemma fall_back_orders:
  assumes "quiet inp"
  shows "step_orders P db (refresh_or_fall_back inp a wanted crisis k db)"
proof (cases "at_collect inp")
  case (Some collect)
  from refresh_orders [OF assms Some, of P db a k] show ?thesis
    by (cases wanted) (auto simp: refresh_or_fall_back_def Some step_orders_def same_orders
        split: prod.splits sum.splits exn.splits)
qed (simp add: refresh_or_fall_back_def)

lemma authored_pass_orders:
  assumes "quiet inp"
  shows "step_orders P db (authored_pass inp run required trading_open crisis k before db)"
  unfolding authored_pass_def
  by (rule step_orders_then) (use assms in \<open>auto simp: quiet_def step_orders_def Let_def reading_def intro!: same_orders
      split: prod.splits\<close>)

lemma author_review_orders:
  assumes "quiet inp"
  shows "step_orders P db (author_review inp run required trading_open crisis db)"
  unfolding author_review_def Let_def
  by (auto intro!: step_orders_then authored_pass_orders [OF assms] split: prod.splits)

lemma setup_of_attempt [simp]: "ss_attempt_id (setup_of inp run a result causes held stale) = ra_attempt_id a"
  by (simp add: setup_of_def)

lemma submit_review_orders:
  assumes "quiet inp"
  shows "step_orders (own_order (ra_attempt_id a)) db
    (submit_review inp run a crisis stale facts causes result held db)"
proof -
  have drafts: "step_orders (own_order (ra_attempt_id a)) db1
      (submit_drafts (setup_of inp run a final causes held old) now_at k ds accepted db1)" for final old now_at k ds accepted db1
  proof -
    obtain db2 r where d: "submit_drafts (setup_of inp run a final causes held old) now_at k ds accepted db1 = (db2, r)"
      by fastforce
    from orders_from_mono [OF submit_drafts_orders [OF d], of "own_order (ra_attempt_id a)"] show ?thesis
      by (simp add: d step_orders_def drafted_def)
  qed
  show ?thesis
    unfolding submit_review_def stage_beat_def Let_def
    by (intro step_orders_then beat_orders step_orders_reading fall_back_orders [OF assms] drafts conclude_orders)
qed

lemma attempt_body_orders:
  assumes "quiet inp"
  shows "step_orders (own_order (ra_attempt_id a)) db (attempt_body inp run a db)"
  unfolding attempt_body_def Let_def stage_beat_def
  by (auto intro!: step_orders_then beat_orders fall_back_orders [OF assms] author_review_orders [OF assms]
      submit_review_orders [OF assms] split: prod.splits)

lemma fail_attempt_orders: "step_orders P db (fail_attempt i f t1 t2 e db)"
proof -
  have expired: "order_intents (wd_core (with_runtime (fst (expire t1 (wd_runtime db))) db)) = order_intents (wd_core db)"
    by (simp add: wd_core_def rv_core_def with_runtime_def wd_runtime_def)
  have ended: "step_orders P db2 (if ra_status found \<noteq> AttemptRunning then (db2, Inr found)
      else on_runtime (finish i f t2 (fst (failure_outcome e)) (Some (snd (failure_outcome e))) None (wd_runtime db2)) db2)"
    for found db2 by (auto intro!: on_runtime_orders simp: finish_orders_kept wd_core_runtime(2))
  show ?thesis
    unfolding fail_attempt_def Let_def
    by (auto intro!: step_orders_same [OF expired] step_orders_then ended)
qed

text \<open>
  C28. Whatever comes of an attempt (a refused claim, a failure at any step, a lost lease, a completion), the order
  intents there were stay as they were, and every order intent it adds belongs to a decision named by the attempt's
  own fresh identifier, as long as the author and the collector add none themselves.
\<close>

theorem attempt_orders_are_its_own:
  assumes "quiet inp" and "execute_attempt inp run_id model retry db = (db', r)"
  shows "\<exists>news. order_intents (wd_core db') = order_intents (wd_core db) @ news \<and>
    list_all (own_order (fst (at_ids inp))) news"
proof -
  have claimed: "step_orders P db (claim_attempt inp run_id model retry db)" for P
    unfolding claim_attempt_def by (rule on_runtime_orders) (simp add: claim_core(1) wd_core_runtime(2))
  have id: "ra_attempt_id a = fst (at_ids inp)" if "claim_attempt inp run_id model retry db = (db1, Inr a)" for db1 a
    using that by (auto simp: claim_attempt_def on_runtime_def claim_core(2) split: sum.splits)
  have "step_orders (own_order (fst (at_ids inp))) db (execute_attempt inp run_id model retry db)"
    unfolding execute_attempt_def
  proof (intro step_orders_then claimed step_orders_reading)
    fix a db1 run db2
    assume a: "claim_attempt inp run_id model retry db = (db1, Inr a)"
    have body: "step_orders (own_order (fst (at_ids inp))) db2 (attempt_body inp run a db2)"
      using attempt_body_orders [OF assms(1), of a db2 run] id [OF a] by simp
    show "step_orders (own_order (fst (at_ids inp))) db2 (case attempt_body inp run a db2 of
        (db', Inl e) \<Rightarrow> fail_attempt (ra_attempt_id a) (ra_fence a) (at_clock inp AtExpiry) (at_clock inp AtFailure) e db'
      | (db', Inr done) \<Rightarrow> (db', Inr done))"
      using body fail_attempt_orders [of "own_order (fst (at_ids inp))"]
      by (auto simp: step_orders_def split: prod.splits sum.splits intro: orders_from_trans)
  qed
  then show ?thesis by (simp add: assms(2) step_orders_def orders_from_def)
qed

section \<open>A sample attempt\<close>

text \<open>
  A paper run whose author answers with one BUY in the attempt's namespace: evaluated as a program, it completes and
  leaves that one order intent.
\<close>

definition paper_day :: instant where "paper_day = ny_combine (ymd 2026 7 6) (clock 10 0)"

definition paper_day_run :: RuntimeRun where
  "paper_day_run = \<lparr>ru_run_id = ''r1'', ru_mode = PaperMode, ru_account_id = ''paper'', ru_execution_profile_id = [],
     ru_session_date = ymd 2026 7 6, ru_slot = ''close'', ru_prepared_at = paper_day, ru_intake_path = ''in'',
     ru_intake_sha256 = ''aa'', ru_reasoning_run_id = None, ru_occurrence_id = None, ru_origin = OriginManual,
     ru_trigger_ids = []\<rparr>"

definition paper_answer :: AuthoredOutput where
  "paper_answer = mixed_output\<lparr>ao_decisions := [valid_decision\<lparr>decision_id := ''r1_a1_buy''\<rparr>], ao_thesis_reviews := [],
     ao_challenger_reviews := []\<rparr>"

definition paper_inputs :: AttemptInputs where
  "paper_inputs = \<lparr>at_env = submit_sample_env, at_stored_day = (\<lambda>_. 0), at_profile = None, at_clock = (\<lambda>_. paper_day),
     at_ids = (''a1'', ''q1''), at_real_runner = False, at_hunt_minimum = None, at_collect = None,
     at_author = (\<lambda>_ db. (db, Inr (paper_answer, no_activity))), at_intake = (\<lambda>_. Some (10, ''aa'')),
     at_prompt_bytes = 20, at_timeout_seconds = 1800, at_elapsed_seconds = 10,
     at_reviews = \<lparr>rvi_sha256 = id, rvi_fresh = (\<lambda>_. ''x''), rvi_recorded_at = (\<lambda>_. paper_day),
       rvi_checked_at = (\<lambda>_. paper_day), rvi_observed_at = (\<lambda>_. paper_day)\<rparr>\<rparr>"

definition paper_start :: worker_db where
  "paper_start = one_holding_db\<lparr>wd_review := (wd_review one_holding_db)\<lparr>rv_runtime := empty_runtime\<lparr>
     rt_runs := [\<lparr>rw_run = paper_day_run, rw_public_id = ''p1''\<rparr>],
     rt_core := empty_db\<lparr>regime_snapshots := [submit_sample_regime_row\<lparr>rg_snapshot_date := ymd 2026 7 2\<rparr>]\<rparr>\<rparr>\<rparr>\<rparr>"

definition paper_end :: "RuntimeAttempt stepped" where
  "paper_end = execute_attempt paper_inputs ''r1'' ''m'' False paper_start"

lemma quiet_paper: "quiet paper_inputs"
  by (simp add: quiet_def paper_inputs_def)

lemma paper_start_orders: "order_intents (wd_core paper_start) = []"
  by (simp add: paper_start_def one_holding_db_def wd_core_def rv_core_def empty_db_def)

lemma attempt_orders_are_its_own_witness:
  "list_all (own_order ''a1'') (order_intents (wd_core (fst paper_end)))"
proof -
  have "execute_attempt paper_inputs ''r1'' ''m'' False paper_start = (fst paper_end, snd paper_end)"
    by (simp add: paper_end_def)
  from attempt_orders_are_its_own [OF quiet_paper this] paper_start_orders show ?thesis
    by (auto simp: paper_inputs_def)
qed

text \<open>The drafts of the sample review, with its gap outstanding: no order may buy but for the ADD.\<close>

definition paper_setup :: SubmissionSetup where
  "paper_setup = setup_of paper_inputs paper_day_run \<lparr>ra_attempt_id = ''a1'', ra_public_id = ''q1'', ra_run_id = ''r1'',
     ra_attempt_number = 1, ra_fence = 1, ra_status = AttemptRunning, ra_stage = StageSubmitting, ra_model = ''m'',
     ra_observed_model = None, ra_started_at = paper_day, ra_heartbeat_at = paper_day, ra_finished_at = None,
     ra_reason = None, ra_public_summary = None\<rparr> mixed_output [HOLDINGS_CAUSE] [''NEW''] False"

definition gap_end :: "worker_db \<times> (string \<times> string) list result" where
  "gap_end = submit_drafts paper_setup (\<lambda>_. paper_day) 0
     (submission_order (ao_decisions (fst (hold_back [] [HOLDINGS_CAUSE] mixed_output)))) [] paper_start"

lemma gap_orders_only_sell_witness:
  "list_all (\<lambda>i. own_order ''a1'' i) (order_intents (wd_core (fst gap_end)))"
proof -
  have h: "hold_back [] [HOLDINGS_CAUSE] mixed_output =
      (fst (hold_back [] [HOLDINGS_CAUSE] mixed_output), snd (hold_back [] [HOLDINGS_CAUSE] mixed_output))"
    by (rule prod.collapse [symmetric])
  have e: "submit_drafts paper_setup (\<lambda>_. paper_day) 0
      (submission_order (ao_decisions (fst (hold_back [] [HOLDINGS_CAUSE] mixed_output)))) [] paper_start =
      (fst gap_end, snd gap_end)" by (simp add: gap_end_def)
  have "ss_attempt_id paper_setup = ''a1''" by (simp add: paper_setup_def)
  with gap_orders_only_sell [OF h _ e] paper_start_orders show ?thesis by (auto simp: list_all_iff)
qed

end
