(* ===== verification/SourceRevisions.thy ===== *)
theory SourceRevisions
  imports Narratives
begin

text \<open>
  The revisions of the registered public sources: whatever is saved, the revisions of a source reference share one
  public identifier and exactly one of them is current, so \<open>eligible_sources\<close> never chooses between two.
\<close>

section \<open>The invariant\<close>

definition source_ref :: "SourceRow \<Rightarrow> string" where
  "source_ref w = psr_source_ref (srw_record w)"

definition superseded_by :: "SourceRow \<Rightarrow> string option" where
  "superseded_by w = psr_supersedes (srw_record w)"

definition current_sources :: "SourceRow list \<Rightarrow> SourceRow list" where
  "current_sources rows = filter (\<lambda>w. Some (source_revision w) \<notin> superseded_by ` set rows) rows"

definition revisions_closed :: "SourceRow list \<Rightarrow> bool" where
  "revisions_closed rows = (distinct (map source_revision rows) \<and>
     (\<forall>w\<in>set rows. \<forall>p. superseded_by w = Some p \<longrightarrow> p \<in> source_revision ` set rows))"

definition references_ok :: "SourceRow list \<Rightarrow> bool" where
  "references_ok rows = (distinct (map source_ref (current_sources rows)) \<and>
     (\<forall>w\<in>set rows. \<forall>v\<in>set rows. source_ref w = source_ref v \<longrightarrow> srw_public_id w = srw_public_id v) \<and>
     (\<forall>w\<in>set rows. (\<exists>v\<in>set rows. source_ref v = source_ref w \<and> superseded_by v = None)) \<and>
     (\<forall>w\<in>set rows. \<exists>v\<in>set (current_sources rows). source_ref v = source_ref w))"

inductive saved_sources :: "SourceRow list \<Rightarrow> bool" where
  none: "saved_sources []"
| save: "saved_sources rows \<Longrightarrow> psr_supersedes r \<noteq> Some [] \<Longrightarrow>
    save_public_source fresh r rows = Inr (rows', public_id) \<Longrightarrow> saved_sources rows'"

lemma save_public_source_cases:
  assumes "save_public_source fresh r rows = Inr (rows', public_id)" and "psr_supersedes r \<noteq> Some []"
  obtains (same) "rows' = rows"
  | (root) "psr_supersedes r = None" "find_row source_revision (psr_revision_id r) rows = None"
      "\<forall>w\<in>set rows. superseded_by w = None \<longrightarrow> source_ref w \<noteq> psr_source_ref r"
      "rows' = rows @ [\<lparr>srw_public_id = public_id, srw_record = r\<rparr>]"
  | (successor) p previous where "psr_supersedes r = Some p" "find_row source_revision (psr_revision_id r) rows = None"
      "find_row source_revision p rows = Some previous" "source_ref previous = psr_source_ref r"
      "\<forall>w\<in>set rows. superseded_by w \<noteq> Some p" "public_id = srw_public_id previous"
      "rows' = rows @ [\<lparr>srw_public_id = public_id, srw_record = r\<rparr>]"
proof (cases "find_row source_revision (psr_revision_id r) rows")
  case (Some w)
  then show ?thesis using assms(1) same by (auto simp: save_public_source_def split: if_splits)
next
  case None
  show ?thesis
  proof (cases "psr_supersedes r")
    case root': None
    with None assms(1) show ?thesis
      by (intro root) (auto simp: save_public_source_def insert_source_def source_conflict_def truthy_def
          superseded_by_def source_ref_def split: if_splits)
  next
    case (Some p)
    with None assms obtain previous where found: "find_row source_revision p rows = Some previous"
      by (auto simp: save_public_source_def truthy_def split: option.splits)
    with Some None assms show ?thesis
      by (intro successor [of p previous]) (auto simp: save_public_source_def insert_source_def source_conflict_def
          truthy_def superseded_by_def source_ref_def Let_def split: if_splits)
  qed
qed

lemma current_append:
  assumes closed: "revisions_closed rows" and fresh: "source_revision n \<notin> source_revision ` set rows"
    and "superseded_by n \<noteq> Some (source_revision n)"
  shows "current_sources (rows @ [n]) = filter (\<lambda>w. Some (source_revision w) \<noteq> superseded_by n) (current_sources rows) @ [n]"
proof -
  have "Some (source_revision n) \<notin> superseded_by ` set rows" using closed fresh unfolding revisions_closed_def by force
  then show ?thesis using assms(3) by (auto simp: current_sources_def intro!: filter_cong)
qed

lemma saved_sources_ok: "saved_sources rows \<Longrightarrow> revisions_closed rows \<and> references_ok rows"
proof (induction rule: saved_sources.induct)
  case none
  then show ?case by (simp add: revisions_closed_def references_ok_def current_sources_def)
next
  case (save rows r fresh rows' public_id)
  then have closed: "revisions_closed rows" and ok: "references_ok rows" by simp_all
  let ?n = "\<lparr>srw_public_id = public_id, srw_record = r\<rparr>"
  have n: "source_revision ?n = psr_revision_id r" "source_ref ?n = psr_source_ref r" "superseded_by ?n = psr_supersedes r"
    by (simp_all add: source_revision_def source_ref_def superseded_by_def)
  from save.hyps(3,2) show ?case
  proof (cases rule: save_public_source_cases)
    case same
    then show ?thesis using closed ok by simp
  next
    case root
    have new: "psr_revision_id r \<notin> source_revision ` set rows"
      using root(2) by (auto simp: find_row_def find_None_iff)
    have none: "source_ref w \<noteq> psr_source_ref r" if "w \<in> set rows" for w
      using ok root(3) that unfolding references_ok_def by metis
    have cur: "current_sources rows' = current_sources rows @ [?n]"
      unfolding root(4) using current_append [OF closed, of ?n] new n root(1) by simp
    have sub: "set (current_sources rows) \<subseteq> set rows" by (auto simp: current_sources_def)
    have sub': "set rows \<subseteq> set rows'" and last: "?n \<in> set rows'" by (auto simp: root(4))
    have "revisions_closed rows'" using closed new n root(1) unfolding revisions_closed_def root(4) by auto
    moreover have "references_ok rows'"
      unfolding references_ok_def
    proof (intro conjI ballI impI)
      have "psr_source_ref r \<notin> source_ref ` set (current_sources rows)" using none sub by (metis imageE subsetD)
      then show "distinct (map source_ref (current_sources rows'))"
        using ok n unfolding references_ok_def cur by simp
    next
      fix w v assume wv: "w \<in> set rows'" "v \<in> set rows'" and same: "source_ref w = source_ref v"
      from wv consider "w \<in> set rows" "v \<in> set rows" | "w = ?n" "v = ?n"
        | "w \<in> set rows" "v = ?n" | "w = ?n" "v \<in> set rows" unfolding root(4) by auto
      then show "srw_public_id w = srw_public_id v"
      proof cases
        case 1
        then show ?thesis using ok same unfolding references_ok_def by blast
      next
        case 2
        then show ?thesis by simp
      next
        case 3
        then show ?thesis using none [of w] same n(2) by simp
      next
        case 4
        then show ?thesis using none [of v] same n(2) by simp
      qed
    next
      fix w assume "w \<in> set rows'"
      then consider "w \<in> set rows" | "w = ?n" unfolding root(4) by auto
      then show "\<exists>v\<in>set rows'. source_ref v = source_ref w \<and> superseded_by v = None"
      proof cases
        case 1
        then show ?thesis using ok sub' unfolding references_ok_def by blast
      next
        case 2
        then show ?thesis using n(3) root(1) last by auto
      qed
    next
      fix w assume "w \<in> set rows'"
      then consider "w \<in> set rows" | "w = ?n" unfolding root(4) by auto
      then show "\<exists>v\<in>set (current_sources rows'). source_ref v = source_ref w"
      proof cases
        case 1
        then obtain v where "v \<in> set (current_sources rows)" "source_ref v = source_ref w"
          using ok unfolding references_ok_def by blast
        then show ?thesis by (auto simp: cur)
      next
        case 2
        then show ?thesis by (simp add: cur)
      qed
    qed
    ultimately show ?thesis by simp
  next
    case (successor p previous)
    have prev: "previous \<in> set rows" "source_revision previous = p"
      using successor(3) by (auto dest: find_row_Some)
    have new: "psr_revision_id r \<notin> source_revision ` set rows"
      using successor(2) by (auto simp: find_row_def find_None_iff)
    then have "p \<noteq> psr_revision_id r" using prev by (metis imageI)
    then have cur: "current_sources rows' = filter (\<lambda>w. source_revision w \<noteq> p) (current_sources rows) @ [?n]"
      unfolding successor(7) using current_append [OF closed, of ?n] new n successor(1) by simp
    have pc: "previous \<in> set (current_sources rows)"
      using prev successor(5) by (auto simp: current_sources_def image_iff)
    have sub: "set (current_sources rows) \<subseteq> set rows" by (auto simp: current_sources_def)
    have inj: "w = previous" if "w \<in> set (current_sources rows)" "source_ref w = psr_source_ref r" for w
      using ok pc that successor(4) unfolding references_ok_def distinct_map inj_on_def by metis
    have dist: "distinct (map source_ref (current_sources rows'))"
    proof -
      have "distinct (map source_ref (filter (\<lambda>w. source_revision w \<noteq> p) (current_sources rows)))"
        using ok distinct_map_filter unfolding references_ok_def by blast
      moreover have "psr_source_ref r \<notin> source_ref ` set (filter (\<lambda>w. source_revision w \<noteq> p) (current_sources rows))"
        using inj prev(2) by auto
      ultimately show ?thesis by (simp add: cur n)
    qed
    have ids: "srw_public_id w = public_id" if "w \<in> set rows" "source_ref w = psr_source_ref r" for w
      using ok that prev(1) successor(4,6) unfolding references_ok_def by metis
    have held: "\<exists>v\<in>set (current_sources rows'). source_ref v = source_ref w" if "w \<in> set rows" for w
    proof -
      from ok that obtain v where v: "v \<in> set (current_sources rows)" "source_ref v = source_ref w"
        unfolding references_ok_def by metis
      show ?thesis
      proof (cases "source_revision v = p")
        case True
        then have "v = previous" using closed prev v(1) sub unfolding revisions_closed_def distinct_map inj_on_def by blast
        then show ?thesis using v(2) successor(4) n by (auto simp: cur)
      next
        case False
        then show ?thesis using v by (auto simp: cur)
      qed
    qed
    have "revisions_closed rows'" using closed new n successor(1) prev unfolding revisions_closed_def successor(7) by auto
    moreover have "references_ok rows'"
      unfolding references_ok_def
    proof (intro conjI ballI impI)
      show "distinct (map source_ref (current_sources rows'))" by (rule dist)
    next
      fix w v assume wv: "w \<in> set rows'" "v \<in> set rows'" and same: "source_ref w = source_ref v"
      from wv consider "w \<in> set rows" "v \<in> set rows" | "w = ?n" "v = ?n"
        | "w \<in> set rows" "v = ?n" | "w = ?n" "v \<in> set rows" unfolding successor(7) by auto
      then show "srw_public_id w = srw_public_id v"
      proof cases
        case 1
        then show ?thesis using ok same unfolding references_ok_def by blast
      next
        case 2
        then show ?thesis by simp
      next
        case 3
        then show ?thesis using ids [of w] same n(2) by simp
      next
        case 4
        then show ?thesis using ids [of v] same n(2) by simp
      qed
    next
      fix w assume "w \<in> set rows'"
      then obtain x where x: "x \<in> set rows" "source_ref x = source_ref w"
        using prev(1) successor(4) n(2) unfolding successor(7) by auto
      then obtain v where "v \<in> set rows" "source_ref v = source_ref x" "superseded_by v = None"
        using ok unfolding references_ok_def by blast
      with x(2) show "\<exists>v\<in>set rows'. source_ref v = source_ref w \<and> superseded_by v = None"
        unfolding successor(7) by auto
    next
      fix w assume "w \<in> set rows'"
      then show "\<exists>v\<in>set (current_sources rows'). source_ref v = source_ref w"
        using held [of w] unfolding successor(7) by (auto simp: cur [unfolded successor(7)])
    qed
    ultimately show ?thesis by simp
  qed
qed

text \<open>
  C33. However the registered sources were saved, every source reference has exactly one current revision, and all its
  revisions carry one public identifier.
\<close>

theorem one_current_revision:
  assumes "saved_sources rows" and "w \<in> set rows"
  shows "(\<exists>!v. v \<in> set (current_sources rows) \<and> source_ref v = source_ref w) \<and>
    {v \<in> set rows. source_ref v = source_ref w \<and> srw_public_id v \<noteq> srw_public_id w} = {}"
proof -
  from saved_sources_ok [OF assms(1)] have ok: "references_ok rows" by simp
  then obtain v where "v \<in> set (current_sources rows)" "source_ref v = source_ref w"
    using assms(2) unfolding references_ok_def by metis
  moreover have "inj_on source_ref (set (current_sources rows))"
    using ok unfolding references_ok_def distinct_map by blast
  ultimately have "\<exists>!v. v \<in> set (current_sources rows) \<and> source_ref v = source_ref w"
    unfolding inj_on_def by metis
  moreover have "{v \<in> set rows. source_ref v = source_ref w \<and> srw_public_id v \<noteq> srw_public_id w} = {}"
    using ok assms(2) unfolding references_ok_def by blast
  ultimately show ?thesis by simp
qed

text \<open>A source, its correction, and a second source.\<close>

definition sample_source :: "string \<Rightarrow> string \<Rightarrow> string option \<Rightarrow> PublicSourceRecord" where
  "sample_source revision reference before = \<lparr>psr_revision_id = revision, psr_source_ref = reference,
     psr_supersedes = before, psr_recorded_at = 0, psr_title = ''t'', psr_publisher = ''p'', psr_published_on = None,
     psr_source_type = SourceNews, psr_url = None, psr_access = public_access, psr_approved_for_publication = True,
     psr_excerpt = None, psr_excerpt_approved = False\<rparr>"

definition sample_rows :: "SourceRow list" where
  "sample_rows = [\<lparr>srw_public_id = ''src_1'', srw_record = sample_source ''r1'' ''a'' None\<rparr>,
     \<lparr>srw_public_id = ''src_1'', srw_record = sample_source ''r2'' ''a'' (Some ''r1'')\<rparr>,
     \<lparr>srw_public_id = ''src_2'', srw_record = sample_source ''r3'' ''b'' None\<rparr>]"

lemma sample_rows_saved: "saved_sources sample_rows"
proof -
  have 1: "save_public_source ''1'' (sample_source ''r1'' ''a'' None) [] = Inr (take 1 sample_rows, ''src_1'')" by code_simp
  have 2: "save_public_source ''9'' (sample_source ''r2'' ''a'' (Some ''r1'')) (take 1 sample_rows) =
    Inr (take 2 sample_rows, ''src_1'')" by code_simp
  have 3: "save_public_source ''2'' (sample_source ''r3'' ''b'' None) (take 2 sample_rows) = Inr (sample_rows, ''src_2'')"
    by code_simp
  have s1: "saved_sources (take 1 sample_rows)"
    by (rule saved_sources.save [OF saved_sources.none _ 1]) (simp add: sample_source_def)
  have s2: "saved_sources (take 2 sample_rows)"
    by (rule saved_sources.save [OF s1 _ 2]) (simp add: sample_source_def)
  show ?thesis by (rule saved_sources.save [OF s2 _ 3]) (simp add: sample_source_def)
qed

lemma one_current_revision_witness:
  "map source_revision (current_sources sample_rows) = [''r2'', ''r3''] \<and>
   (\<exists>!v. v \<in> set (current_sources sample_rows) \<and> source_ref v = ''a'')"
proof
  show "map source_revision (current_sources sample_rows) = [''r2'', ''r3'']" by code_simp
  have "hd sample_rows \<in> set sample_rows" and "source_ref (hd sample_rows) = ''a''"
    by (simp_all add: sample_rows_def source_ref_def sample_source_def)
  then show "\<exists>!v. v \<in> set (current_sources sample_rows) \<and> source_ref v = ''a''"
    using one_current_revision [OF sample_rows_saved] by metis
qed

end
