(* ===== verification/RateLimiter.thy ===== *)
theory RateLimiter
  imports Numerics
begin

text \<open>
  The request limiter of the public origin (\<open>RateLimiter\<close> of \<open>app/public/hardening.py\<close>): a token bucket per client.
  An ordered dictionary is an association list whose head was seen least recently; the lock makes every
  \<open>acquire\<close> one step, and the clock's value is its argument. An acquisition that raises keeps what it had done to the
  buckets, so the state is returned beside the answer. A quotient outside the range of a float is infinite in Python:
  \<open>math.ceil\<close> of it raises; as \<open>_refill_seconds\<close> it stays above every difference of two clock readings, as the number it
  stands for here does.
\<close>

record Bucket =
  bk_tokens :: pyfloat
  bk_seen :: pyfloat

record Limiter =
  rl_capacity :: int
  rl_per_second :: pyfloat
  rl_max_clients :: int
  rl_refill_seconds :: pyfloat
  rl_buckets :: "(string \<times> Bucket) list"

definition new_limiter :: "int \<Rightarrow> pyfloat \<Rightarrow> int \<Rightarrow> Limiter result" where
  "new_limiter capacity per_second max_clients =
    (if capacity < 1 \<or> per_second \<le> 0 \<or> max_clients < 1 then Inl (ValueError ''rate limiter bounds must be positive'')
     else if \<not> isfinite (fl (of_int capacity)) then Inl OverflowError
     else and_then (fdiv (fl (of_int capacity)) per_second) (\<lambda>refill. Inr \<lparr>rl_capacity = capacity,
       rl_per_second = per_second, rl_max_clients = max_clients, rl_refill_seconds = refill, rl_buckets = []\<rparr>))"

text \<open>The two \<open>while\<close> loops: the front is dropped while it is stale, and while there are too many clients.\<close>

fun drop_stale :: "pyfloat \<Rightarrow> pyfloat \<Rightarrow> (string \<times> Bucket) list \<Rightarrow> (string \<times> Bucket) list" where
  "drop_stale now refill [] = []"
| "drop_stale now refill ((k, b) # rest) =
    (if fsub now (bk_seen b) < refill then (k, b) # rest else drop_stale now refill rest)"

function shed :: "int \<Rightarrow> (string \<times> Bucket) list \<Rightarrow> (string \<times> Bucket) list result" where
  "shed most buckets = (if \<not> most < int (length buckets) then Inr buckets
     else (case buckets of [] \<Rightarrow> Inl KeyError | _ # rest \<Rightarrow> shed most rest))"
  by pat_completeness auto
termination by (relation "measure (\<lambda>(m, bs). length bs)") auto

declare shed.simps [simp del]

definition refilled :: "Limiter \<Rightarrow> pyfloat \<Rightarrow> Bucket option \<Rightarrow> pyfloat" where
  "refilled l now b = (let (tokens, seen) = (case b of None \<Rightarrow> (fl (of_int (rl_capacity l)), now)
       | Some x \<Rightarrow> (bk_tokens x, bk_seen x)) in
     min (fl (of_int (rl_capacity l))) (fadd tokens (fmul (fsub now seen) (rl_per_second l))))"

definition wait_for :: "pyfloat \<Rightarrow> pyfloat \<Rightarrow> int result" where
  "wait_for missing per_second = and_then (fdiv missing per_second) (\<lambda>q.
     if isfinite q then Inr (max 1 \<lceil>q\<rceil>) else Inl OverflowError)"

definition acquire :: "string \<Rightarrow> pyfloat \<Rightarrow> Limiter \<Rightarrow> Limiter \<times> int result" where
  "acquire key now l =
    (let fresh = drop_stale now (rl_refill_seconds l) (rl_buckets l);
         tokens = refilled l now (map_of fresh key);
         others = AList.delete key fresh in
     case (if 1 \<le> tokens then Inr (fsub tokens 1, 0)
           else and_then (wait_for (fsub 1 tokens) (rl_per_second l)) (\<lambda>wait. Inr (tokens, wait))) of
       Inl e \<Rightarrow> (l\<lparr>rl_buckets := others\<rparr>, Inl e)
     | Inr (left, wait) \<Rightarrow> (case shed (rl_max_clients l) (others @ [(key, \<lparr>bk_tokens = left, bk_seen = now\<rparr>)]) of
         Inl e \<Rightarrow> (l\<lparr>rl_buckets := []\<rparr>, Inl e)
       | Inr kept \<Rightarrow> (l\<lparr>rl_buckets := kept\<rparr>, Inr wait)))"

section \<open>Bounded memory and bounded tokens\<close>



















section \<open>Serving requests\<close>



text \<open>The requests of clients at their times, each with what it is told.\<close>

fun serve :: "(string \<times> pyfloat) list \<Rightarrow> Limiter \<Rightarrow> Limiter \<times> int result list" where
  "serve [] l = (l, [])"
| "serve ((key, now) # requests) l = (let (l', answer) = acquire key now l; (l'', answers) = serve requests l' in
     (l'', answer # answers))"




text \<open>The exception is real: with the rate \<open>2 ^ -1030\<close>, which the constructor accepts, the second request raises.\<close>

lemma tiny_rate_raises:
  "\<exists>l l' b. new_limiter 1 (1 / 2 ^ 1030) 1 = Inr l \<and> serve [(''a'', 0), (''a'', 0)] l = (l', [Inr 0, Inl OverflowError]) \<and>
    rl_buckets l' = b \<and> b = []"
proof -
  have q: "fl (2 ^ 1030) = 2 ^ 1030" using fl_dyadic [of 1 1030] by simp
  have inf: "\<not> isfinite (2 ^ 1030)" by (simp add: isfinite_def)
  have one: "isfinite 1" by (simp add: isfinite_def)
  let ?l = "\<lparr>rl_capacity = 1, rl_per_second = 1 / 2 ^ 1030, rl_max_clients = 1, rl_refill_seconds = 2 ^ 1030, rl_buckets = []\<rparr>"
  have "new_limiter 1 (1 / 2 ^ 1030) 1 = Inr ?l" using q one by (simp add: new_limiter_def fdiv_def)
  moreover have "serve [(''a'', 0), (''a'', 0)] ?l = (?l, [Inr 0, Inl OverflowError])"
    using q inf by (simp add: acquire_def Let_def refilled_def fsub_def fadd_def fmul_def wait_for_def fdiv_def shed.simps)
  ultimately show ?thesis by fastforce
qed

end
