(* ===== verification/ReportTables.thy ===== *)
theory ReportTables
  imports ReviewStore
begin

text \<open>
  The tables of the public report of an account (\<open>materialize\<close> of \<open>app/performance/report.py\<close>): the metrics of a
  return, its positions and allocation and the fills. Decimals round to the default context of 28 digits. The texts the
  source writes for dates and decimals are the values here, and the label of a period and the methodology are constant
  text. The ranges with their charts, the benchmarks and the comparison are in \<open>ReportRanges\<close>.
\<close>

section \<open>Metrics\<close>

record Metric =
  mt_available :: bool
  mt_reason :: "string option"
  mt_percent :: "rat option"
  mt_factor :: "rat option"
  mt_net_flows :: "rat option"
  mt_pnl :: "rat option"
  mt_capital :: "rat option"

definition unavailable_metric :: "string \<Rightarrow> Metric" where
  "unavailable_metric reason = \<lparr>mt_available = False, mt_reason = Some reason, mt_percent = None, mt_factor = None,
     mt_net_flows = None, mt_pnl = None, mt_capital = None\<rparr>"

fun metric_of :: "return_result \<Rightarrow> Metric" where
  "metric_of (Unavailable reason) = unavailable_metric reason"
| "metric_of SingleObservation = (unavailable_metric ''single_observation'')\<lparr>mt_available := True, mt_percent := Some 0\<rparr>"
| "metric_of (Available percent factor net pnl) = \<lparr>mt_available = True, mt_reason = None, mt_percent = Some percent,
     mt_factor = Some factor, mt_net_flows = Some net, mt_pnl = Some pnl, mt_capital = None\<rparr>"

definition percent_change :: "rat \<Rightarrow> rat result" where
  "percent_change factor = quantize 28 6 (dec 28 (dec 28 (factor - 1) * 100))"

text \<open>The return on the capital the maintainer reports, which replaces the linked one while it is set.\<close>

definition on_capital :: "rat option \<Rightarrow> ValuationObservation \<Rightarrow> Metric \<Rightarrow> Metric result" where
  "on_capital contributed v m = (case contributed of None \<Rightarrow> Inr m
   | Some c \<Rightarrow> (case (vo_complete v, vo_equity v) of
       (True, Some e) \<Rightarrow> and_then (dec_div e c) (\<lambda>factor.
         and_then (percent_change factor) (\<lambda>percent.
         and_then (quantize 28 2 (dec 28 (e - c))) (\<lambda>pnl.
         Inr \<lparr>mt_available = True, mt_reason = Some ''contributed_capital_basis'', mt_percent = Some percent,
           mt_factor = Some factor, mt_net_flows = None, mt_pnl = Some pnl, mt_capital = Some c\<rparr>)))
     | _ \<Rightarrow> Inr (unavailable_metric ''incomplete_valuation'')))"

section \<open>What the account holds\<close>

definition ordinary_values :: "ReportingObservation list \<Rightarrow> ValuationObservation list" where
  "ordinary_values observations = sort_key (\<lambda>v. (ob_occurred_at v, ob_observation_id v)) (List.map_filter
     (\<lambda>x. case x of Valuation v \<Rightarrow> if is_flow_phase (vo_phase v) then None else Some v | _ \<Rightarrow> None) observations)"

definition boundary_values :: "ReportingObservation list \<Rightarrow> (string \<times> ValuationObservation) list" where
  "boundary_values observations = rev (List.map_filter (\<lambda>x. case x of
     Valuation v \<Rightarrow> if is_flow_phase (vo_phase v) then Some (ob_observation_id v, v) else None | _ \<Rightarrow> None) observations)"

definition flows_of :: "ReportingObservation list \<Rightarrow> FlowObservation list" where
  "flows_of = List.map_filter (\<lambda>x. case x of Flow f \<Rightarrow> Some f | _ \<Rightarrow> None)"

definition fills_of :: "ReportingObservation list \<Rightarrow> FillObservation list" where
  "fills_of = List.map_filter (\<lambda>x. case x of Fill f \<Rightarrow> Some f | _ \<Rightarrow> None)"

text \<open>The last name stated for a ticker.\<close>

definition known_name :: "ValuationObservation list \<Rightarrow> string \<Rightarrow> string option" where
  "known_name values t = map_of (rev (List.map_filter (\<lambda>p. map_option (\<lambda>n. (rp_ticker p, n)) (rp_name p))
     (concat (map (\<lambda>v. case vo_positions v of None \<Rightarrow> [] | Some ps \<Rightarrow> ps) values)))) t"

text \<open>A position as it is published: the reported one, the name known for it, its weight and its return.\<close>

record PublishedPosition =
  pup_position :: ReportingPosition
  pup_name :: "string option"
  pup_weight :: "pyfloat option"
  pup_unrealized_return_percent :: "pyfloat option"

definition position_weight :: "rat option \<Rightarrow> rat option \<Rightarrow> pyfloat option result" where
  "position_weight value equity = (case (value, equity) of
     (Some m, Some e) \<Rightarrow> if e = 0 then Inr None else and_then (dec_div m e) (\<lambda>w. Inr (Some (fl w)))
   | _ \<Rightarrow> Inr None)"

definition unrealized_return :: "rat option \<Rightarrow> rat option \<Rightarrow> pyfloat option result" where
  "unrealized_return price cost = (case (price, cost) of
     (Some p, Some c) \<Rightarrow> if c = 0 then Inr None
       else and_then (dec_div p c) (\<lambda>q. Inr (Some (fl (dec 28 (dec 28 (q - 1) * 100)))))
   | _ \<Rightarrow> Inr None)"

definition publish_position :: "ValuationObservation list \<Rightarrow> ValuationObservation \<Rightarrow> ReportingPosition \<Rightarrow>
    PublishedPosition result" where
  "publish_position values latest_value p =
     and_then (position_weight (rp_market_value p) (vo_equity latest_value)) (\<lambda>w.
     and_then (unrealized_return (rp_price p) (rp_average_cost p)) (\<lambda>r.
     Inr \<lparr>pup_position = p, pup_name = known_name values (rp_ticker p), pup_weight = w,
       pup_unrealized_return_percent = r\<rparr>))"

datatype portfolio_state = UnavailableHoldings | ZeroBalance | Unfunded | SoldOut | AllCash | PartialBalance | Invested

definition history_items :: "EpisodeHistory \<Rightarrow> HoldingEpisode list" where
  "history_items h = (case h of EpisodesUnavailable _ \<Rightarrow> [] | EpisodesAvailable _ items _ _ \<Rightarrow> items)"

definition account_state :: "ValuationObservation list \<Rightarrow> ValuationObservation \<Rightarrow> EpisodeHistory \<Rightarrow> portfolio_state" where
  "account_state values v episodes = (case vo_positions v of
     None \<Rightarrow> UnavailableHoldings
   | Some ps \<Rightarrow>
       if vo_complete v \<and> vo_equity v = Some 0 \<and>
           list_ex (\<lambda>w. vo_equity w \<noteq> None \<and> vo_equity w \<noteq> Some 0) (butlast values) then ZeroBalance
       else if vo_complete v \<and> vo_equity v = Some 0 then Unfunded
       else if vo_complete v \<and> ps = [] \<and> list_ex (\<lambda>e. \<not> he_open e) (history_items episodes) then SoldOut
       else if vo_complete v \<and> ps = [] \<and> vo_cash v = vo_equity v then AllCash
       else if \<not> vo_complete v then PartialBalance
       else Invested)"

datatype allocation_class = Cash | Receivables | Liabilities | Asset asset_class

definition add_class :: "ReportingPosition \<Rightarrow> (allocation_class \<times> rat) list \<Rightarrow> (allocation_class \<times> rat) list result" where
  "add_class p classes = (case rp_market_value p of None \<Rightarrow> Inl AssertionError
   | Some m \<Rightarrow> let c = Asset (rp_asset_class p) in
       Inr (AList.update c (dec 28 ((case map_of classes c of None \<Rightarrow> 0 | Some a \<Rightarrow> a) + m)) classes))"

definition allocation_amounts :: "ValuationObservation \<Rightarrow> (allocation_class \<times> rat) list result" where
  "allocation_amounts v = (if \<not> vo_complete v then Inr []
     else (case vo_cash v of None \<Rightarrow> Inl AssertionError
       | Some cash \<Rightarrow> fold_result add_class (case vo_positions v of None \<Rightarrow> [] | Some ps \<Rightarrow> ps)
           [(Cash, cash), (Receivables, vo_receivables v), (Liabilities, dec 28 (- vo_liabilities v))]))"

record Allocation =
  al_class :: allocation_class
  al_market_value :: rat
  al_weight :: "pyfloat option"

definition allocated :: "ValuationObservation \<Rightarrow> Allocation list result" where
  "allocated v = and_then (allocation_amounts v) (\<lambda>amounts. map_result (\<lambda>(c, amount).
     and_then (position_weight (Some amount) (vo_equity v)) (\<lambda>w.
       Inr \<lparr>al_class = c, al_market_value = amount, al_weight = w\<rparr>)) (filter (\<lambda>(_, amount). amount \<noteq> 0) amounts))"

text \<open>The last hundred fills, the latest first, each with its public identifier.\<close>

definition recent_fills :: "(string \<Rightarrow> string) \<Rightarrow> FillObservation list \<Rightarrow> (string \<times> FillObservation) list" where
  "recent_fills sha256 fills = map
     (\<lambda>f. (''fill_'' @ take 24 (sha256 (ob_account_id f @ ''/'' @ ob_external_event_id f)), f))
     (take 100 (rev (sort_key (\<lambda>f. (ob_occurred_at f, ob_observation_id f)) (rev fills))))"

end
