(* ===== verification/ReportRanges.thy ===== *)
theory ReportRanges
  imports ReportTables "HOL-Library.Sublist"
begin

text \<open>
  The ranges of the public report (\<open>materialize\<close> of \<open>app/performance/report.py\<close>): where a range starts, its return,
  the chart of one point per session with its drawdown, the sampling of a long chart, the benchmarks and the
  comparison with the indexes since the first trade. A list of a Python process has fewer than \<open>2 ^ 53\<close> items, below
  which the sampled indices are indices of the list.
\<close>

section \<open>Where a range starts\<close>

datatype chart_range = Range_1M | Range_3M | Range_YTD | Range_All

definition month_days :: "int \<Rightarrow> int \<Rightarrow> int" where
  "month_days y m = (if m = 12 then ymd (y + 1) 1 1 else ymd y (m + 1) 1) - ymd y m 1"

definition months_back :: "int \<Rightarrow> pydate \<Rightarrow> instant" where
  "months_back months local_day = (case civil local_day of (y, m, d) \<Rightarrow>
     let month_number = y * 12 + m - 1 - months; year = month_number div 12; month = month_number mod 12
     in ny_combine (ymd year (month + 1) (min d (month_days year (month + 1)))) 0)"

fun cutoff_of :: "chart_range \<Rightarrow> ValuationObservation list \<Rightarrow> ValuationObservation \<Rightarrow> instant" where
  "cutoff_of Range_All values _ = ob_occurred_at (hd values)"
| "cutoff_of Range_YTD _ v = ny_combine (ymd (year_of (ny_date (ob_occurred_at v))) 1 1) 0"
| "cutoff_of Range_1M _ v = months_back 1 (ny_date (ob_occurred_at v))"
| "cutoff_of Range_3M _ v = months_back 3 (ny_date (ob_occurred_at v))"

definition eligible_values :: "instant \<Rightarrow> ValuationObservation list \<Rightarrow> ValuationObservation list" where
  "eligible_values cutoff values = filter (\<lambda>v. cutoff \<le> ob_occurred_at v) values"

definition start_value :: "ValuationObservation list \<Rightarrow> ValuationObservation \<Rightarrow> ValuationObservation" where
  "start_value eligible latest_value = (case eligible of [] \<Rightarrow> latest_value | v # _ \<Rightarrow> v)"

section \<open>One point per session\<close>

text \<open>The first close valuation of a day, or the last reading of a day that has none.\<close>

definition keeps :: "ValuationObservation \<Rightarrow> ValuationObservation option \<Rightarrow> bool" where
  "keeps v kept =
     ((vo_phase v = session_close_phase \<and> (case kept of None \<Rightarrow> True | Some k \<Rightarrow> vo_phase k \<noteq> session_close_phase)) \<or>
      (vo_phase v = intraday \<and> (case kept of None \<Rightarrow> True | Some k \<Rightarrow> vo_phase k = intraday)))"

definition keep_daily :: "ValuationObservation \<Rightarrow> (pydate \<times> ValuationObservation) list \<Rightarrow>
    (pydate \<times> ValuationObservation) list" where
  "keep_daily v daily = (let day = ny_date (ob_occurred_at v) in
     if keeps v (map_of daily day) then AList.update day v daily else daily)"

definition charted_ids :: "ValuationObservation \<Rightarrow> ValuationObservation \<Rightarrow> ValuationObservation list \<Rightarrow> string list" where
  "charted_ids start latest_value eligible = [ob_observation_id start, ob_observation_id latest_value] @
     map (\<lambda>(_, v). ob_observation_id v)
       (filter (\<lambda>(day, _). day \<noteq> ny_date (ob_occurred_at latest_value)) (fold keep_daily eligible []))"

definition charted :: "ValuationObservation \<Rightarrow> ValuationObservation \<Rightarrow> ValuationObservation list \<Rightarrow>
    ValuationObservation list" where
  "charted start latest_value eligible =
     filter (\<lambda>v. ob_observation_id v \<in> set (charted_ids start latest_value eligible)) eligible"

section \<open>The chart and its drawdown\<close>

text \<open>What every return of an account is computed from.\<close>

record ReturnBasis =
  rb_contributed :: "rat option"
  rb_boundaries :: "(string \<times> ValuationObservation) list"
  rb_flows :: "FlowObservation list"
  rb_coverage :: "CoverageObservation list"

definition range_metric :: "ReturnBasis \<Rightarrow> ValuationObservation \<Rightarrow> ValuationObservation \<Rightarrow> Metric result" where
  "range_metric basis start v =
     and_then (linked_return start v (rb_boundaries basis) (rb_flows basis) (rb_coverage basis)) (\<lambda>r.
       on_capital (rb_contributed basis) v (metric_of r))"

definition start_metric :: "ValuationObservation \<Rightarrow> Metric" where
  "start_metric start = \<lparr>mt_available = (vo_complete start \<and> vo_equity start \<notin> {None, Some 0}), mt_reason = None,
     mt_percent = Some 0, mt_factor = Some 1, mt_net_flows = None, mt_pnl = None, mt_capital = None\<rparr>"

definition chart_metric :: "ReturnBasis \<Rightarrow> ValuationObservation \<Rightarrow> ValuationObservation \<Rightarrow> Metric result" where
  "chart_metric basis start v = (if v \<noteq> start then range_metric basis start v
     else on_capital (rb_contributed basis) v (start_metric start))"

record ChartPoint =
  cp_at :: instant
  cp_session_date :: "pydate option"
  cp_equity :: "rat option"
  cp_return_percent :: "rat option"
  cp_complete :: bool
  cp_gap_reason :: "string option"
  cp_phase :: phase

record ChartWalk =
  cw_points :: "ChartPoint list"
  cw_peak :: rat
  cw_drawdown :: rat

definition chart_point :: "ValuationObservation \<Rightarrow> Metric \<Rightarrow> ChartPoint" where
  "chart_point v m = \<lparr>cp_at = ob_occurred_at v, cp_session_date = vo_session_date v, cp_equity = vo_equity v,
     cp_return_percent = (if mt_available m then mt_percent m else None), cp_complete = vo_complete v,
     cp_gap_reason = mt_reason m, cp_phase = vo_phase v\<rparr>"

text \<open>The return of a single observation states no growth factor: reading it raises.\<close>

definition metric_factor :: "Metric \<Rightarrow> rat option result" where
  "metric_factor m = (if \<not> mt_available m then Inr None
     else (case mt_factor m of None \<Rightarrow> Inl KeyError | Some f \<Rightarrow> Inr (Some f)))"

definition draw :: "rat option \<Rightarrow> ChartWalk \<Rightarrow> ChartWalk result" where
  "draw factor w = (case factor of None \<Rightarrow> Inr w
   | Some f \<Rightarrow> let peak = max (cw_peak w) f in
       and_then (dec_div f peak) (\<lambda>q.
         Inr (w\<lparr>cw_peak := peak, cw_drawdown := min (cw_drawdown w) (dec 28 (q - 1))\<rparr>)))"

definition walk_value :: "ReturnBasis \<Rightarrow> ValuationObservation \<Rightarrow> ValuationObservation \<Rightarrow> ChartWalk \<Rightarrow> ChartWalk result" where
  "walk_value basis start v w =
     and_then (chart_metric basis start v) (\<lambda>m.
     and_then (metric_factor m) (\<lambda>factor.
     and_then (draw factor w) (\<lambda>w'.
       Inr (w'\<lparr>cw_points := cw_points w' @ [chart_point v m]\<rparr>))))"

definition chart_start :: ChartWalk where
  "chart_start = \<lparr>cw_points = [], cw_peak = 1, cw_drawdown = 0\<rparr>"

definition chart_walk :: "ReturnBasis \<Rightarrow> ValuationObservation \<Rightarrow> ValuationObservation list \<Rightarrow> ChartWalk result" where
  "chart_walk basis start values = fold_result (walk_value basis start) values chart_start"

section \<open>Sampling\<close>

definition is_gap :: "ChartPoint \<Rightarrow> bool" where
  "is_gap p = (cp_return_percent p = None \<or> \<not> cp_complete p)"

text \<open>The indices on both sides of every change between a gap and a reading.\<close>

fun gap_edges :: "nat \<Rightarrow> bool \<Rightarrow> ChartPoint list \<Rightarrow> nat set" where
  "gap_edges i previous [] = {}"
| "gap_edges i previous (p # ps) = (let gap = is_gap p; later = gap_edges (Suc i) gap ps in
     if gap \<noteq> previous then insert (i - 1) (insert i later) else later)"

definition forced_points :: "ChartPoint list \<Rightarrow> nat set" where
  "forced_points h = (case h of [] \<Rightarrow> {0}
     | p # ps \<Rightarrow> insert 0 (insert (length h - 1) (gap_edges 1 (is_gap p) ps)))"

definition sample_index :: "nat \<Rightarrow> nat \<Rightarrow> nat" where
  "sample_index points index = nat (rhe (fl (of_nat (index * (points - 1)) / 399)))"

fun fill_samples :: "nat \<Rightarrow> nat list \<Rightarrow> nat set \<Rightarrow> nat set" where
  "fill_samples points [] selected = selected"
| "fill_samples points (i # is) selected = (if 400 \<le> card selected then selected
     else fill_samples points is (insert (sample_index points i) selected))"

definition sample_chart :: "ChartPoint list \<Rightarrow> ChartPoint list \<times> string option" where
  "sample_chart h = (if length h \<le> 400 then (h, None)
     else if 400 < card (forced_points h) then ([], Some ''too_many_quality_gaps'')
     else (nths h (fill_samples (length h) [0..<400] (forced_points h)), None))"

section \<open>Benchmarks\<close>

text \<open>The tables the report reads beside the observations; \<open>None\<close> is a database without the table.\<close>

record ReportTables =
  rt_prices :: "PriceBar list option"
  rt_events :: "BrokerExecutionEvent list option"
  rt_snapshots :: "LivePortfolioSnapshot list option"

definition adjusted_close :: "PriceBar list \<Rightarrow> string \<Rightarrow> pydate \<Rightarrow> pyfloat option" where
  "adjusted_close rows t day = (case filter (\<lambda>b. bar_key b = (t, day)) rows of [] \<Rightarrow> None | b # bs \<Rightarrow> pb_adj_close (last (b # bs)))"

definition price_change :: "pyfloat \<Rightarrow> pyfloat \<Rightarrow> rat result" where
  "price_change from_price to_price =
     and_then (dec_div (decimal_of_float to_price) (decimal_of_float from_price)) percent_change"

record Benchmark =
  bm_ticker :: string
  bm_primary :: bool
  bm_reason :: "string option"
  bm_return_percent :: "rat option"

definition comparable_closes :: "ReportTables \<Rightarrow> ValuationObservation \<Rightarrow> ValuationObservation \<Rightarrow>
    (PriceBar list \<times> pydate \<times> pydate) option" where
  "comparable_closes tables start v = (case (vo_session_date start, vo_session_date v, rt_prices tables) of
     (Some s, Some e, Some rows) \<Rightarrow>
       if vo_phase start = session_close_phase \<and> vo_phase v = session_close_phase \<and> s \<noteq> e \<and>
           session_timestamp_reason start = None \<and> session_timestamp_reason v = None
       then Some (rows, s, e) else None
   | _ \<Rightarrow> None)"

definition session_benchmark :: "ReportTables \<Rightarrow> ValuationObservation \<Rightarrow> ValuationObservation \<Rightarrow> string \<Rightarrow>
    Benchmark result" where
  "session_benchmark tables start v t =
     (let b = \<lparr>bm_ticker = t, bm_primary = (t = ''QQQ''), bm_reason = Some ''matching_session_closes_required'',
          bm_return_percent = None\<rparr>
      in case comparable_closes tables start v of None \<Rightarrow> Inr b
      | Some (rows, s, e) \<Rightarrow> (case (adjusted_close rows t s, adjusted_close rows t e) of
          (Some x, Some y) \<Rightarrow>
            if 0 < x \<and> 0 < y
            then and_then (price_change x y) (\<lambda>c. Inr (b\<lparr>bm_reason := None, bm_return_percent := Some c\<rparr>))
            else Inr (b\<lparr>bm_reason := Some ''matching_adjusted_prices_missing''\<rparr>)
        | _ \<Rightarrow> Inr (b\<lparr>bm_reason := Some ''matching_adjusted_prices_missing''\<rparr>)))"

definition range_benchmark :: "ReportTables \<Rightarrow> ValuationObservation \<Rightarrow> ValuationObservation \<Rightarrow> string \<Rightarrow>
    Benchmark result" where
  "range_benchmark tables start v t = and_then (session_benchmark tables start v t) (\<lambda>b.
     Inr (if ob_mode v = PaperMode
       then b\<lparr>bm_reason := Some ''paper_corporate_action_convention_mismatch'', bm_return_percent := None\<rparr> else b))"

section \<open>A range\<close>

record RangeReport =
  rg_requested_start_at :: instant
  rg_is_partial :: bool
  rg_metric :: Metric
  rg_start_at :: instant
  rg_end_at :: instant
  rg_history :: "ChartPoint list"
  rg_drawdown_percent :: "rat option"
  rg_chart_reason :: "string option"
  rg_sampled :: bool
  rg_source_points :: nat
  rg_benchmarks :: "Benchmark list"

definition drawdown_percent :: "Metric \<Rightarrow> rat \<Rightarrow> rat option result" where
  "drawdown_percent m depth = (if mt_available m
     then and_then (quantize 28 6 (dec 28 (depth * 100))) (\<lambda>d. Inr (Some d)) else Inr None)"

text \<open>The report of a range leaves the growth factor out.\<close>

definition range_report :: "ReportTables \<Rightarrow> ReturnBasis \<Rightarrow> ValuationObservation list \<Rightarrow> ValuationObservation \<Rightarrow>
    chart_range \<Rightarrow> RangeReport result" where
  "range_report tables basis values v r =
     (let cutoff = cutoff_of r values v; eligible = eligible_values cutoff values; start = start_value eligible v in
      and_then (range_metric basis start v) (\<lambda>computed.
      and_then (chart_walk basis start (charted start v eligible)) (\<lambda>w.
      and_then (map_result (range_benchmark tables start v) [''QQQ'', ''SPY'', ''SMH'']) (\<lambda>benchmarks.
      and_then (drawdown_percent computed (cw_drawdown w)) (\<lambda>depth.
      Inr (let (points, reason) = sample_chart (cw_points w) in
        \<lparr>rg_requested_start_at = cutoff, rg_is_partial = (cutoff < ob_occurred_at start),
         rg_metric = computed\<lparr>mt_factor := None\<rparr>, rg_start_at = ob_occurred_at start, rg_end_at = ob_occurred_at v,
         rg_history = points, rg_drawdown_percent = depth, rg_chart_reason = reason,
         rg_sampled = (400 < length (cw_points w)), rg_source_points = length (cw_points w),
         rg_benchmarks = benchmarks\<rparr>))))))"

section \<open>The comparison since the first trade\<close>

record Comparison =
  cm_available :: bool
  cm_reason :: "string option"
  cm_start_at :: "instant option"
  cm_start_session_date :: "pydate option"
  cm_end_at :: instant
  cm_return_percent :: "rat option"
  cm_benchmarks :: "Benchmark list"

text \<open>The stored times of broker events are UTC texts, whose order is the order of the instants.\<close>

definition first_fill :: "ReportTables \<Rightarrow> ValuationObservation \<Rightarrow> instant option" where
  "first_fill tables v = (case rt_events tables of None \<Rightarrow> None
   | Some events \<Rightarrow> if ob_mode v \<noteq> LiveMode then None
       else (case map be_occurred_at (filter (\<lambda>e. be_status e \<in> {FILLED, PARTIALLY_FILLED}) events) of
         [] \<Rightarrow> None | t # ts \<Rightarrow> Some (fold min ts t)))"

definition live_index_prices :: "ReportTables \<Rightarrow> ValuationObservation \<Rightarrow> (string \<times> pyfloat) list" where
  "live_index_prices tables v = (case rt_snapshots tables of None \<Rightarrow> []
   | Some snapshots \<Rightarrow> (case find (\<lambda>s. map_option ob_observation_id (ls_reporting s) = Some (ob_observation_id v)) snapshots of
       None \<Rightarrow> [] | Some s \<Rightarrow> ls_index_prices s))"

definition start_close :: "ReportTables \<Rightarrow> string \<Rightarrow> pydate \<Rightarrow> pyfloat option" where
  "start_close tables t day = (case rt_prices tables of None \<Rightarrow> None | Some rows \<Rightarrow> adjusted_close rows t day)"

definition index_benchmark :: "pyfloat option \<Rightarrow> pyfloat option \<Rightarrow> string \<Rightarrow> Benchmark result" where
  "index_benchmark from_price to_price t =
     (let missing = \<lparr>bm_ticker = t, bm_primary = False, bm_reason = Some ''matching_index_prices_missing'',
          bm_return_percent = None\<rparr>
      in case (from_price, to_price) of
        (Some x, Some y) \<Rightarrow> if x = 0 \<or> y = 0 then Inr missing
          else and_then (price_change x y) (\<lambda>c. Inr (missing\<lparr>bm_reason := None, bm_return_percent := Some c\<rparr>))
      | _ \<Rightarrow> Inr missing)"

definition benchmark_comparison :: "ReportTables \<Rightarrow> ValuationObservation \<Rightarrow> Metric \<Rightarrow> Comparison result" where
  "benchmark_comparison tables v all_metric =
     (let first = first_fill tables v; none_yet = \<lparr>cm_available = False,
          cm_reason = (case first of None \<Rightarrow> Some ''no_recorded_trade'' | Some _ \<Rightarrow> mt_reason all_metric),
          cm_start_at = first, cm_start_session_date = None, cm_end_at = ob_occurred_at v, cm_return_percent = None,
          cm_benchmarks = []\<rparr>
      in case first of None \<Rightarrow> Inr none_yet
      | Some t \<Rightarrow> if \<not> mt_available all_metric then Inr none_yet
          else and_then (map_result (\<lambda>i. index_benchmark (start_close tables i (ny_date t))
              (map_of (live_index_prices tables v) i) i) [''SPY'', ''QQQ'']) (\<lambda>benchmarks.
            Inr (none_yet\<lparr>cm_available := True, cm_reason := None, cm_start_session_date := Some (ny_date t),
              cm_return_percent := mt_percent all_metric, cm_benchmarks := benchmarks\<rparr>)))"

section \<open>The report\<close>

record PublicReport =
  pr_complete :: bool
  pr_data_as_of :: instant
  pr_equity :: "rat option"
  pr_cash :: "rat option"
  pr_positions :: "PublishedPosition list"
  pr_holdings_available :: bool
  pr_portfolio_state :: portfolio_state
  pr_last_complete :: "(instant \<times> rat option) option"
  pr_allocation :: "Allocation list"
  pr_observed_since :: instant
  pr_daily_pnl :: daily_result
  pr_holding_episodes :: EpisodeHistory
  pr_returns_known :: bool
  pr_quantities_known :: bool
  pr_recent_fills :: "(string \<times> FillObservation) list"
  pr_return_percent :: "rat option"
  pr_comparison :: Comparison

definition last_complete :: "ValuationObservation list \<Rightarrow> (instant \<times> rat option) option" where
  "last_complete values = (case rev (filter vo_complete values) of [] \<Rightarrow> None
   | v # _ \<Rightarrow> Some (ob_occurred_at v, vo_equity v))"

definition quantities_known :: "ValuationObservation \<Rightarrow> bool" where
  "quantities_known v = (case vo_positions v of None \<Rightarrow> False | Some ps \<Rightarrow> list_all (\<lambda>p. rp_quantity p \<noteq> None) ps)"

definition one_account :: "ValuationObservation list \<Rightarrow> ReportingObservation list \<Rightarrow> unit result" where
  "one_account values observations =
     (if \<not> distinct (map ob_occurred_at values) then Inl (ValueError ''ambiguous ordinary valuation instants'')
      else if list_ex (\<lambda>x. account_of (base x) \<noteq> account_of (last values)) observations
        then Inl (ValueError ''reporting observations must share one account'')
      else Inr ())"

text \<open>Without an ordinary valuation there is no report.\<close>

definition materialize :: "(string \<Rightarrow> string) \<Rightarrow> ReportTables \<Rightarrow> ReportingObservation list \<Rightarrow> rat option \<Rightarrow>
    (PublicReport \<times> (chart_range \<times> RangeReport) list) option result" where
  "materialize sha256 tables observations contributed =
     (let values = ordinary_values observations; v = last values; flows = flows_of observations;
          coverage = coverage_of observations;
          basis = \<lparr>rb_contributed = contributed, rb_boundaries = boundary_values observations, rb_flows = flows,
            rb_coverage = coverage\<rparr>
      in if values = [] then Inr None else
      and_then (one_account values observations) (\<lambda>_.
      and_then (map_result (publish_position values v) (case vo_positions v of None \<Rightarrow> [] | Some ps \<Rightarrow> ps)) (\<lambda>positions.
      and_then (holding_episodes sha256 values observations coverage (Some 100)) (\<lambda>episodes.
      and_then (allocated v) (\<lambda>allocation.
      and_then (daily_pnl v values flows coverage) (\<lambda>pnl.
      and_then (map_result (\<lambda>r. and_then (range_report tables basis values v r) (\<lambda>x. Inr (r, x)))
          [Range_1M, Range_3M, Range_YTD, Range_All]) (\<lambda>ranges.
      let all_metric = rg_metric (snd (last ranges)) in
      and_then (benchmark_comparison tables v all_metric) (\<lambda>comparison.
      Inr (Some (\<lparr>pr_complete = vo_complete v, pr_data_as_of = ob_occurred_at v, pr_equity = vo_equity v,
        pr_cash = vo_cash v, pr_positions = positions, pr_holdings_available = (vo_positions v \<noteq> None),
        pr_portfolio_state = account_state values v episodes, pr_last_complete = last_complete values,
        pr_allocation = allocation, pr_observed_since = ob_occurred_at (hd values), pr_daily_pnl = pnl,
        pr_holding_episodes = episodes, pr_returns_known = mt_available all_metric,
        pr_quantities_known = quantities_known v, pr_recent_fills = recent_fills sha256 (fills_of observations),
        pr_return_percent = mt_percent all_metric, pr_comparison = comparison\<rparr>, ranges))))))))))"

section \<open>What a sampled chart keeps\<close>

lemma subseq_nths: "subseq (nths xs S) xs"
  using subseq_conv_nths by blast

lemma length_nths_le: "finite S \<Longrightarrow> length (nths xs S) \<le> card S"
  unfolding length_nths by (rule card_mono) auto

lemma nths_pair:
  assumes "length xs \<in> S" "Suc (length xs) \<in> S"
  shows "\<exists>us vs. nths (xs @ a # b # ys) S = us @ a # b # vs \<and> subseq us xs \<and> subseq vs ys"
proof -
  have "nths (xs @ a # b # ys) S = nths xs S @ a # b # nths ys {i. i + Suc (Suc (length xs)) \<in> S}"
    using assms by (simp add: nths_append nths_Cons)
  then show ?thesis using subseq_nths by blast
qed

lemma nths_ends:
  assumes "0 \<in> S" "length xs \<in> S"
  shows "hd (nths (xs @ [a]) S) = hd (xs @ [a])" and "last (nths (xs @ [a]) S) = a" and "nths (xs @ [a]) S \<noteq> []"
  using assms by (cases xs; auto simp: nths_append nths_Cons)+

lemma finite_gap_edges [simp]: "finite (gap_edges i previous ps)"
  by (induction ps arbitrary: i previous) (simp_all add: Let_def)

lemma gap_edges_first: "is_gap b \<noteq> previous \<Longrightarrow> {i - 1, i} \<subseteq> gap_edges i previous (b # ys)"
  by (simp add: Let_def)

lemma gap_edges_later:
  "is_gap a \<noteq> is_gap b \<Longrightarrow> {i + length xs, Suc (i + length xs)} \<subseteq> gap_edges i previous (xs @ a # b # ys)"
proof (induction xs arbitrary: i previous)
  case Nil
  then show ?case by (auto simp: Let_def)
next
  case (Cons x xs)
  then have "{Suc i + length xs, Suc (Suc i + length xs)} \<subseteq> gap_edges (Suc i) (is_gap x) (xs @ a # b # ys)" by blast
  then show ?case by (auto simp: Let_def)
qed

lemma forced_edge:
  assumes "is_gap a \<noteq> is_gap b"
  shows "{length xs, Suc (length xs)} \<subseteq> forced_points (xs @ a # b # ys)"
proof (cases xs)
  case Nil
  then show ?thesis using gap_edges_first [of b "is_gap a" 1 ys] assms by (auto simp: forced_points_def)
next
  case (Cons x zs)
  then show ?thesis using gap_edges_later [OF assms, of 1 zs "is_gap x" ys] by (auto simp: forced_points_def)
qed

lemma forced_ends: "h \<noteq> [] \<Longrightarrow> {0, length h - 1} \<subseteq> forced_points h"
  by (auto simp: forced_points_def split: list.split)

lemma finite_forced [simp]: "finite (forced_points h)"
  by (simp add: forced_points_def split: list.split)

lemma fill_samples_ok:
  "finite S \<Longrightarrow> card S \<le> 400 \<Longrightarrow>
     finite (fill_samples n is S) \<and> card (fill_samples n is S) \<le> 400 \<and> S \<subseteq> fill_samples n is S"
proof (induction "is" arbitrary: S)
  case (Cons i "is")
  show ?case
  proof (cases "400 \<le> card S")
    case False
    then have "card (insert (sample_index n i) S) \<le> 400" using card_insert_le_m1 [of 400 S "sample_index n i"] Cons.prems
      by (simp add: card_insert_if)
    then show ?thesis using False Cons.IH [of "insert (sample_index n i) S"] Cons.prems by auto
  qed (use Cons.prems in simp)
qed simp

lemma sample_chart_nths:
  assumes "sample_chart h = (c, None)"
  obtains "c = h" "length h \<le> 400"
  | S where "c = nths h S" "finite S" "card S \<le> 400" "forced_points h \<subseteq> S"
proof (cases "length h \<le> 400")
  case True
  then show ?thesis using assms that(1) by (simp add: sample_chart_def)
next
  case False
  then have "card (forced_points h) \<le> 400" and c: "c = nths h (fill_samples (length h) [0..<400] (forced_points h))"
    using assms by (auto simp: sample_chart_def split: if_splits)
  then show ?thesis using fill_samples_ok [of "forced_points h" "length h" "[0..<400]"] that(2) c by simp
qed

text \<open>
  C39. The chart of a range that is published has at most 400 points, taken from the recorded ones in their order; it
  starts and ends where they do, and every change between a reading and a gap stays visible: both sides of it are kept,
  next to each other.
\<close>

theorem chart_keeps_gaps:
  assumes "sample_chart h = (c, None)"
  shows "length c \<le> 400 \<and> subseq c h \<and> (h \<noteq> [] \<longrightarrow> c \<noteq> [] \<and> hd c = hd h \<and> last c = last h) \<and>
    (\<forall>xs a b ys. h = xs @ a # b # ys \<and> is_gap a \<noteq> is_gap b \<longrightarrow>
       (\<exists>us vs. c = us @ a # b # vs \<and> subseq us xs \<and> subseq vs ys))"
  using assms
proof (cases rule: sample_chart_nths)
  case 1
  then show ?thesis by auto
next
  case (2 S)
  have "c \<noteq> [] \<and> hd c = hd h \<and> last c = last h" if ne: "h \<noteq> []"
  proof -
    obtain xs a where h: "h = xs @ [a]" using ne by (cases h rule: rev_cases) auto
    then have "0 \<in> S" "length xs \<in> S" using forced_ends [OF ne] 2(4) by auto
    then show ?thesis using nths_ends [of S xs a] 2(1) h by simp
  qed
  moreover have "\<exists>us vs. c = us @ a # b # vs \<and> subseq us xs \<and> subseq vs ys"
    if "h = xs @ a # b # ys" "is_gap a \<noteq> is_gap b" for xs a b ys
    using nths_pair [of xs S a b ys] forced_edge [OF that(2), of xs ys] 2(1,4) that(1) by auto
  ultimately show ?thesis using length_nths_le [OF 2(2), of h] 2(1,3) subseq_nths [of h S] by auto
qed

definition sample_reading :: "rat option \<Rightarrow> ChartPoint" where
  "sample_reading r = \<lparr>cp_at = 0, cp_session_date = None, cp_equity = Some 1, cp_return_percent = r, cp_complete = True,
     cp_gap_reason = None, cp_phase = intraday\<rparr>"

definition sample_history_points :: "ChartPoint list" where
  "sample_history_points = replicate 300 (sample_reading (Some 0)) @ replicate 300 (sample_reading None)"

lemma gap_edges_same: "gap_edges i (is_gap p) (replicate n p) = {}"
  by (induction n arbitrary: i) (simp_all add: Let_def)

lemma gap_edges_switch:
  "is_gap p \<noteq> is_gap q \<Longrightarrow> gap_edges i (is_gap p) (replicate m p @ replicate (Suc n) q) = {i + m - 1, i + m}"
  by (induction m arbitrary: i) (auto simp: Let_def gap_edges_same)

lemma forced_switch:
  assumes "is_gap p \<noteq> is_gap q"
  shows "forced_points (replicate (Suc m) p @ replicate (Suc n) q) = {0, Suc (m + n), m, Suc m}"
  using gap_edges_switch [OF assms, of 1 m n] by (auto simp: forced_points_def)

lemma sample_gap: "is_gap (sample_reading (Some 0)) \<noteq> is_gap (sample_reading None)"
  by (simp add: is_gap_def sample_reading_def)

lemma sample_history_sampled: "snd (sample_chart sample_history_points) = None"
proof -
  have "forced_points sample_history_points = {0, 599, 299, 300}"
    using forced_switch [OF sample_gap, of 299 299] by (simp add: sample_history_points_def)
  moreover have "length sample_history_points = 600" by (simp add: sample_history_points_def)
  ultimately show ?thesis by (simp add: sample_chart_def)
qed

lemma chart_keeps_gaps_witness:
  "length (fst (sample_chart sample_history_points)) \<le> 400 \<and>
   (\<exists>us vs. fst (sample_chart sample_history_points) = us @ sample_reading (Some 0) # sample_reading None # vs)"
proof -
  have "sample_chart sample_history_points = (fst (sample_chart sample_history_points), None)"
    using sample_history_sampled by (metis prod.collapse)
  note kept = chart_keeps_gaps [OF this]
  have "replicate 300 a @ replicate 300 b = replicate 299 a @ a # b # replicate 299 b" for a b :: ChartPoint
    using replicate_append_same [of 299 a] replicate_Suc [of 299 a] replicate_Suc [of 299 b]
    by (simp add: append_Cons [symmetric] del: append_Cons)
  then have "sample_history_points = replicate 299 (sample_reading (Some 0)) @ sample_reading (Some 0) #
    sample_reading None # replicate 299 (sample_reading None)"
    unfolding sample_history_points_def .
  then show ?thesis using kept sample_gap by blast
qed

section \<open>The drawdown\<close>

lemma draw_step:
  assumes "draw factor w = Inr w'"
  shows "cw_peak w \<le> cw_peak w' \<and> cw_drawdown w' \<le> cw_drawdown w \<and>
    (\<forall>f. factor = Some f \<longrightarrow> f \<le> cw_peak w' \<and> cw_drawdown w' \<le> dec 28 (dec 28 (f / cw_peak w') - 1))"
  using assms by (auto simp: draw_def Let_def dec_div_def split: option.splits if_splits)

lemma draw_exact:
  assumes "draw factor w = Inr w'"
  shows "(cw_peak w', cw_drawdown w') = fold (\<lambda>f (p, d). (max p f, min d (dec 28 (dec 28 (f / max p f) - 1))))
    (case factor of None \<Rightarrow> [] | Some f \<Rightarrow> [f]) (cw_peak w, cw_drawdown w)"
  using assms by (auto simp: draw_def Let_def dec_div_def split: option.splits if_splits)

definition chart_growth :: "ReturnBasis \<Rightarrow> ValuationObservation \<Rightarrow> ValuationObservation \<Rightarrow> rat option" where
  "chart_growth basis start v = (case and_then (chart_metric basis start v) metric_factor of Inl _ \<Rightarrow> None | Inr f \<Rightarrow> f)"

lemma walk_value_exact:
  assumes "walk_value basis start v w = Inr w'"
  shows "(cw_peak w', cw_drawdown w') = fold (\<lambda>f (p, d). (max p f, min d (dec 28 (dec 28 (f / max p f) - 1))))
    (case chart_growth basis start v of None \<Rightarrow> [] | Some f \<Rightarrow> [f]) (cw_peak w, cw_drawdown w)"
proof -
  obtain m factor w1 where "chart_metric basis start v = Inr m" "metric_factor m = Inr factor" and d: "draw factor w = Inr w1"
    and w': "cw_peak w' = cw_peak w1" "cw_drawdown w' = cw_drawdown w1"
    using assms by (auto simp: walk_value_def result_simps)
  then have "chart_growth basis start v = factor" by (simp add: chart_growth_def)
  then show ?thesis using draw_exact [OF d] w' by simp
qed

lemma walk_exact:
  assumes "fold_result (walk_value basis start) vs w = Inr w'"
  shows "(cw_peak w', cw_drawdown w') = fold (\<lambda>f (p, d). (max p f, min d (dec 28 (dec 28 (f / max p f) - 1))))
    (List.map_filter (chart_growth basis start) vs) (cw_peak w, cw_drawdown w)"
  using assms
proof (induction vs arbitrary: w)
  case Nil
  then show ?case by (simp add: List.map_filter_def)
next
  case (Cons v vs)
  then obtain w1 where w1: "walk_value basis start v w = Inr w1" "fold_result (walk_value basis start) vs w1 = Inr w'"
    by (auto simp: result_simps)
  show ?case using Cons.IH [OF w1(2)] walk_value_exact [OF w1(1)]
    by (cases "chart_growth basis start v") (simp_all add: List.map_filter_def)
qed

text \<open>How far a growth factor lies below the highest one there has been, which is at least one.\<close>

definition fall :: "rat list \<Rightarrow> nat \<Rightarrow> rat" where
  "fall fs j = dec 28 (dec 28 (fs ! j / Max (insert 1 (set (take (Suc j) fs)))) - 1)"

lemma fold_falls:
  "fold (\<lambda>f (p, d). (max p f, min d (dec 28 (dec 28 (f / max p f) - 1)))) fs (1, 0) =
     (Max (insert 1 (set fs)), Min (insert 0 (fall fs ` {..<length fs})))"
proof (induction fs rule: rev_induct)
  case (snoc f fs)
  have "fall (fs @ [f]) ` {..<length fs} = fall fs ` {..<length fs}" by (rule image_cong) (simp_all add: fall_def nth_append)
  moreover have peak: "Max (insert 1 (set (fs @ [f]))) = max (Max (insert 1 (set fs))) f"
    by (simp add: insert_commute [of 1] max.commute)
  moreover have "fall (fs @ [f]) (length fs) = dec 28 (dec 28 (f / max (Max (insert 1 (set fs))) f) - 1)"
    using peak by (simp add: fall_def)
  ultimately show ?case using snoc by (simp add: lessThan_Suc insert_commute [of 0] min.commute)
qed simp

text \<open>
  C40. The drawdown of a chart is the greatest fall of a growth factor below the highest factor reached up to its point
  (at least one, the start of the range), and zero when there is no fall.
\<close>

theorem drawdown_is_greatest_fall:
  assumes "chart_walk basis start vs = Inr w"
  shows "cw_drawdown w = (let fs = List.map_filter (chart_growth basis start) vs in
    Min (insert 0 (fall fs ` {..<length fs})))"
  using walk_exact [OF assms [unfolded chart_walk_def]] by (simp add: chart_start_def fold_falls Let_def)

definition point_at :: "string \<Rightarrow> instant \<Rightarrow> rat \<Rightarrow> ValuationObservation" where
  "point_at i t e = (valuation_at t 0)\<lparr>ob_observation_id := i, vo_equity := Some e, vo_complete := True\<rparr>"

definition funded_basis :: ReturnBasis where
  "funded_basis = \<lparr>rb_contributed = None, rb_boundaries = [], rb_flows = [], rb_coverage = [covering_from_to 0 20]\<rparr>"

lemma funded_walk:
  "(case chart_walk funded_basis (point_at ''a'' 1 100) [point_at ''a'' 1 100, point_at ''b'' 2 50] of
     Inl _ \<Rightarrow> False | Inr w \<Rightarrow> cw_drawdown w = - 1 / 2)"
  by code_simp

lemma drawdown_is_greatest_fall_witness:
  "(let fs = List.map_filter (chart_growth funded_basis (point_at ''a'' 1 100)) [point_at ''a'' 1 100, point_at ''b'' 2 50]
    in Min (insert 0 (fall fs ` {..<length fs})) = - 1 / 2)"
proof -
  obtain w where "chart_walk funded_basis (point_at ''a'' 1 100) [point_at ''a'' 1 100, point_at ''b'' 2 50] = Inr w"
    "cw_drawdown w = - 1 / 2"
    using funded_walk by (auto split: sum.splits)
  then show ?thesis using drawdown_is_greatest_fall by (metis (no_types, lifting))
qed

end
