(* ===== verification/PublicContent.thy ===== *)
theory PublicContent
  imports ReviewStore PaperReport ReviewGates Narratives
begin

text \<open>
  What of a decision is published (\<open>app/public/publication.py\<close> and the projections of \<open>app/public/explanations.py\<close>):
  the portfolio it is shown in, its outcomes and lifecycle, and the content built from the records that belong to it.
  \<open>sha256\<close> is the hexadecimal digest of a text, \<open>link_ok\<close> says that a URL has no problem (\<open>public_url_problem\<close>, which
  parses it with \<open>urllib\<close> and \<open>ipaddress\<close>). Times the source orders as UTC texts are ordered as instants. The names
  the JSON gives to constant facts (methods, versions, labels) are left out.
\<close>

section \<open>Projections of recorded facts\<close>

record PublishedComponent =
  pcm_name :: string
  pcm_value :: pyfloat
  pcm_points :: int
  pcm_unit :: string

definition component_units :: "(string \<times> string) list" where
  "component_units = [(''spy_trend'', ''fraction''), (''qqq_trend'', ''fraction''), (''spy_trend_slope'', ''fraction''),
     (''qqq_trend_slope'', ''fraction''), (''drawdown'', ''fraction''), (''spy_volatility'', ''percentile'')]"

record RegimeEvidence =
  rev_raw_state :: RegimeState
  rev_published_state :: RegimeState
  rev_score :: int
  rev_as_of :: instant
  rev_components :: "PublishedComponent list"

definition regime_evidence :: "RegimeSnapshot \<Rightarrow> RegimeEvidence" where
  "regime_evidence s = \<lparr>rev_raw_state = rg_raw_regime s, rev_published_state = rg_regime s, rev_score = rg_score s,
     rev_as_of = rg_computed_at s, rev_components = List.map_filter (\<lambda>(name, u).
       map_option (\<lambda>c. \<lparr>pcm_name = name, pcm_value = cm_value c, pcm_points = cm_points c, pcm_unit = u\<rparr>)
         (map_of (rg_components s) name)) component_units\<rparr>"

datatype provenance = BoundSnapshot | Recorded | ProvenanceUnavailable

record PolicyProjection =
  ppj_regime_evidence :: "RegimeEvidence option"
  ppj_evaluated_at :: instant
  ppj_policy_version :: string
  ppj_validator_version :: string
  ppj_validator_schema_sha256 :: string
  ppj_authored_schema_version :: "string option"
  ppj_approved :: bool
  ppj_checks :: "(RuleCheck \<times> string option) list"
  ppj_portfolio_provenance :: provenance
  ppj_regime_provenance :: provenance
  ppj_regime_as_of :: "instant option"

definition project_check :: "RuleCheck \<Rightarrow> RuleCheck \<times> string option" where
  "project_check c = (c\<lparr>rc_name := Some (text_or (rc_name c) ''Historical rule label unavailable'')\<rparr>,
     if rc_result c = failed then rc_failure_explanation c else None)"

text \<open>\<open>None\<close> is the answer for a decision without a recorded evaluation.\<close>

definition policy_projection :: "PolicyEvaluationRecord option \<Rightarrow> PolicyProjection option" where
  "policy_projection recorded = map_option (\<lambda>r.
     \<lparr>ppj_regime_evidence = map_option regime_evidence (pe_regime_snapshot r), ppj_evaluated_at = pe_evaluated_at r,
      ppj_policy_version = pe_policy_version r, ppj_validator_version = pe_validator_version r,
      ppj_validator_schema_sha256 = pe_validator_schema_sha256 r,
      ppj_authored_schema_version = pe_authored_schema_version r, ppj_approved = pe_approved r,
      ppj_checks = map project_check (pe_checks r),
      ppj_portfolio_provenance = (if pe_portfolio_snapshot r \<noteq> None then BoundSnapshot
        else if pe_portfolio r \<noteq> None then Recorded else ProvenanceUnavailable),
      ppj_regime_provenance = (if pe_regime_snapshot r \<noteq> None then BoundSnapshot
        else if pe_true_regime_state r \<noteq> None then Recorded else ProvenanceUnavailable),
      ppj_regime_as_of = map_option rg_computed_at (pe_regime_snapshot r)\<rparr>) recorded"

record ExecutionProjection =
  xp_quantity :: rat
  xp_gross_notional :: rat
  xp_fees :: "rat option"
  xp_total :: nat
  xp_items :: "FillObservation list"

definition execution_projection :: "FillObservation list \<Rightarrow> ExecutionProjection option" where
  "execution_projection fills = (if fills = [] then None else
     Some \<lparr>xp_quantity = dec_sum 28 (map fi_quantity fills), xp_gross_notional = dec_sum 28 (map fi_gross_notional fills),
       xp_fees = (if list_all (\<lambda>f. fi_fee f \<noteq> None) fills then Some (dec_sum 28 (List.map_filter fi_fee fills)) else None),
       xp_total = length fills,
       xp_items = (let ordered = sort_key (\<lambda>f. (ob_occurred_at f, ob_sequence f)) fills
         in drop (length ordered - 100) ordered)\<rparr>)"

text \<open>The sources published by the New York day of an instant.\<close>

definition sources_by :: "instant \<Rightarrow> (string \<times> PublicSource) list \<Rightarrow> (string \<times> PublicSource) list" where
  "sources_by t sources = filter (\<lambda>(_, s). case pq_published_on s of None \<Rightarrow> True | Some day \<Rightarrow> day \<le> ny_date t) sources"

record PublishedThesis =
  pth_state :: review_state
  pth_reviewed_at :: instant
  pth_summary :: "string option"
  pth_narrative :: "Projection option"
  pth_author :: review_author
  pth_review_reasons :: "string list"
  pth_run_recorded :: bool

datatype thesis_result = ReviewUnavailable | EvidenceUnavailable | PublishedReview PublishedThesis

definition thesis_projection :: "(string \<Rightarrow> string) \<Rightarrow> ThesisReview option \<Rightarrow> (string \<times> PublicSource) list \<Rightarrow>
    thesis_result" where
  "thesis_projection sha256 review sources = (case review of None \<Rightarrow> ReviewUnavailable
   | Some r \<Rightarrow> if \<not> tr_approved_for_publication r then ReviewUnavailable
       else let narrative = narrative_projection sha256 (tr_narrative r) (sources_by (tr_reviewed_at r) sources)
              (tr_episode_id r) in
         if (case tr_narrative r of None \<Rightarrow> False | Some n \<Rightarrow> pn_required_source_refs n \<noteq> []) \<and> narrative = None
           then EvidenceUnavailable
         else PublishedReview \<lparr>pth_state = tr_state r, pth_reviewed_at = tr_reviewed_at r, pth_summary = tr_summary r,
           pth_narrative = narrative, pth_author = tr_author r, pth_review_reasons = tr_review_reasons r,
           pth_run_recorded = (truthy (tr_reasoning_run_id r) \<or> truthy (tr_runtime_attempt_id r))\<rparr>)"

section \<open>The source\<close>

record ExecutionSessionRow =
  esr_order_intent_id :: string
  esr_model :: "string option"
  esr_attempted_at :: instant

record PublicationSource =
  px_worker :: worker_db
  px_sources :: "SourceRow list"
  px_sessions :: "ExecutionSessionRow list"

definition px_runtime :: "PublicationSource \<Rightarrow> runtime_db" where
  "px_runtime s = rv_runtime (wd_review (px_worker s))"

definition px_core :: "PublicationSource \<Rightarrow> core_db" where
  "px_core s = rt_core (px_runtime s)"

definition px_paper :: "PublicationSource \<Rightarrow> paper_db" where
  "px_paper s = paper_tables (wd_review (px_worker s))"

definition px_digest_notes :: "PublicationSource \<Rightarrow> DigestNote list" where
  "px_digest_notes s = x_notes (wd_x (px_worker s))"

text \<open>A dictionary filled row by row holds the last row of a key.\<close>

definition last_row :: "('r \<Rightarrow> 'k) \<Rightarrow> 'k \<Rightarrow> 'r list \<Rightarrow> 'r option" where
  "last_row key k rows = find (\<lambda>r. key r = k) (rev rows)"

definition intent_of :: "PublicationSource \<Rightarrow> string \<Rightarrow> OrderIntent option" where
  "intent_of s d = last_row oi_decision_id d (order_intents (px_core s))"

definition evaluation_of :: "PublicationSource \<Rightarrow> string \<Rightarrow> PolicyEvaluationRecord option" where
  "evaluation_of s d = last_row pe_decision_id d (policy_evaluations (px_core s))"

definition linked_runs :: "PublicationSource \<Rightarrow> string \<Rightarrow> ReasoningRun list" where
  "linked_runs s d = List.map_filter (\<lambda>l. find_row rr_reasoning_run_id (rl_reasoning_run_id l) (reasoning_runs (px_core s)))
     (filter (\<lambda>l. rl_decision_id l = d) (reasoning_run_decisions (px_core s)))"

definition last_of :: "'a list \<Rightarrow> 'a option" where
  "last_of xs = (if xs = [] then None else Some (last xs))"

definition run_profile :: "PublicationSource \<Rightarrow> string \<Rightarrow> string option" where
  "run_profile s d = map_option rr_execution_profile_id (last_of (linked_runs s d))"

section \<open>The portfolio a decision belongs to\<close>

definition ledger_profile :: "PolicyEvaluationRecord option \<Rightarrow> string option" where
  "ledger_profile evaluation = (case evaluation of None \<Rightarrow> None
   | Some e \<Rightarrow> if pe_execution_mode e = LIVE then Some (pe_execution_profile_id e) else None)"

definition intent_profile :: "OrderIntent option \<Rightarrow> string option" where
  "intent_profile intent = (case intent of None \<Rightarrow> None
   | Some i \<Rightarrow> if oi_execution_mode i = LIVE then Some (oi_execution_profile_id i) else None)"

definition decision_profile :: "string option \<Rightarrow> OrderIntent option \<Rightarrow> PolicyEvaluationRecord option \<Rightarrow> string option" where
  "decision_profile from_run intent evaluation = (if truthy from_run then from_run
     else if truthy (intent_profile intent) then intent_profile intent else ledger_profile evaluation)"

definition run_conflict :: "string option \<Rightarrow> OrderIntent option \<Rightarrow> bool" where
  "run_conflict from_run intent = (truthy from_run \<and> (case intent of None \<Rightarrow> False
     | Some i \<Rightarrow> oi_execution_mode i \<noteq> LIVE \<or> Some (oi_execution_profile_id i) \<noteq> from_run))"

definition evaluation_conflict :: "string option \<Rightarrow> OrderIntent option \<Rightarrow> PolicyEvaluationRecord option \<Rightarrow> bool" where
  "evaluation_conflict profile intent evaluation = (case evaluation of None \<Rightarrow> False
   | Some e \<Rightarrow> (truthy profile \<and> (pe_execution_mode e \<noteq> LIVE \<or> ledger_profile evaluation \<noteq> profile)) \<or>
       (case intent of None \<Rightarrow> False | Some i \<Rightarrow> pe_execution_mode e \<noteq> oi_execution_mode i))"

definition portfolio_scope :: "string list \<Rightarrow> string option \<Rightarrow> OrderIntent option \<Rightarrow> PolicyEvaluationRecord option \<Rightarrow>
    account_mode option" where
  "portfolio_scope live_profiles profile intent evaluation =
    (if profile \<in> Some ` set live_profiles then Some LiveMode
     else if \<not> truthy profile \<and> ((case intent of None \<Rightarrow> False | Some i \<Rightarrow> oi_execution_mode i = PAPER) \<or>
         (case evaluation of None \<Rightarrow> False | Some e \<Rightarrow> pe_execution_mode e = PAPER)) then Some PaperMode
     else None)"

definition decision_scope :: "string list \<Rightarrow> PublicationSource \<Rightarrow> string \<Rightarrow> account_mode option result" where
  "decision_scope live_profiles s d =
    (let intent = intent_of s d; evaluation = evaluation_of s d; from_run = run_profile s d;
         profile = decision_profile from_run intent evaluation
     in if run_conflict from_run intent then Inl (ValueError ''conflicting decision scope provenance'')
        else if evaluation_conflict profile intent evaluation then Inl (ValueError ''conflicting policy evaluation scope'')
        else Inr (portfolio_scope live_profiles profile intent evaluation))"

section \<open>Outcomes and lifecycle\<close>

datatype schema_verdict = OutcomeFailed | OutcomePassed | OutcomeUnavailable
datatype policy_outcome = PolicyRejected | PolicyApproved | PolicyUnavailable

definition statuses_of :: "PublicationSource \<Rightarrow> string \<Rightarrow> StatusEvent list" where
  "statuses_of s d = filter (\<lambda>e. se_subject_id e = d) (status_events (px_core s))"

definition schema_outcome :: "DecisionStatus list \<Rightarrow> schema_verdict" where
  "schema_outcome events = (if SCHEMA_FAILED \<in> set events then OutcomeFailed
     else if SCHEMA_VALIDATED \<in> set events then OutcomePassed else OutcomeUnavailable)"

definition policy_outcome_of :: "DecisionStatus list \<Rightarrow> policy_outcome" where
  "policy_outcome_of events = (if POLICY_REJECTED \<in> set events then PolicyRejected
     else if POLICY_APPROVED \<in> set events then PolicyApproved else PolicyUnavailable)"

text \<open>The statuses named by \<open>_PUBLIC_LIFECYCLE\<close>; it spells the first one \<open>decision_recorded\<close>, which no event has.\<close>

definition PUBLIC_LIFECYCLE :: "DecisionStatus list" where
  "PUBLIC_LIFECYCLE = [SCHEMA_VALIDATED, SCHEMA_FAILED, POLICY_APPROVED, POLICY_REJECTED, ORDER_INTENT_CREATED]"

datatype lifecycle =
    StatusReached DecisionStatus
  | PaperFilled
  | AwaitingPaperPrice
  | BrokerStatus BrokerExecutionStatus
  | BrokerStatusAmbiguous
  | LifecycleUnavailable

definition broker_milestones :: "PublicationSource \<Rightarrow> string \<Rightarrow> BrokerExecutionEvent list" where
  "broker_milestones s i = sort_key (\<lambda>e. (be_occurred_at e, be_broker_event_id e))
     (filter (\<lambda>e. be_order_intent_id e = i) (broker_execution_events (px_core s)))"

definition requested_order :: "PublicationSource \<Rightarrow> string \<Rightarrow> BrokerExecutionRecord option" where
  "requested_order s i = last_row br_order_intent_id i (broker_execution_records (px_core s))"

definition sized_order :: "PublicationSource \<Rightarrow> string \<Rightarrow> LiveExecutionPacket option" where
  "sized_order s i = last_of (sort_key pk_created_at
     (filter (\<lambda>p. pk_order_intent_id p = i) (live_execution_packets (px_core s))))"

definition latest_broker_states :: "BrokerExecutionEvent list \<Rightarrow> BrokerExecutionStatus list" where
  "latest_broker_states es = remdups (map be_status (filter (\<lambda>e. be_occurred_at e = be_occurred_at (last es)) es))"

definition status_lifecycle :: "DecisionStatus list \<Rightarrow> lifecycle" where
  "status_lifecycle events = (case find (\<lambda>x. x \<in> set PUBLIC_LIFECYCLE) (rev events) of
     None \<Rightarrow> LifecycleUnavailable | Some x \<Rightarrow> StatusReached x)"

text \<open>A decision that is only recorded is shown without a lifecycle.\<close>

lemma recorded_decision_unavailable: "status_lifecycle [DECISION_RECORD_CREATED] = LifecycleUnavailable"
  by (simp add: status_lifecycle_def PUBLIC_LIFECYCLE_def)

definition lifecycle_of :: "PublicationSource \<Rightarrow> account_mode \<Rightarrow> OrderIntent option \<Rightarrow> DecisionStatus list \<Rightarrow> lifecycle" where
  "lifecycle_of s scope intent events = (case intent of None \<Rightarrow> status_lifecycle events
   | Some i \<Rightarrow> let es = broker_milestones s (oi_order_intent_id i) in
       if scope = PaperMode then
         (if oi_order_intent_id i \<in> pf_order_intent_id ` set (pd_fills (px_paper s)) then PaperFilled else AwaitingPaperPrice)
       else if es \<noteq> [] then
         (case latest_broker_states es of [x] \<Rightarrow> BrokerStatus x | _ \<Rightarrow> BrokerStatusAmbiguous)
       else (case requested_order s (oi_order_intent_id i) of
           None \<Rightarrow> status_lifecycle events | Some r \<Rightarrow> BrokerStatus (br_status r)))"

section \<open>The trace of a decision\<close>

datatype trace_stage =
    StatusStage DecisionStatus
  | BrokerReviewRecorded
  | BrokerSubmissionRecorded
  | BrokerStage BrokerExecutionStatus

definition status_milestones :: "StatusEvent list \<Rightarrow> (trace_stage \<times> instant) list" where
  "status_milestones = map (\<lambda>e. (StatusStage (se_status e), se_occurred_at e))"

definition record_milestone :: "BrokerExecutionRecord \<Rightarrow> trace_stage \<times> instant" where
  "record_milestone r = (if br_status r = REVIEWED then BrokerReviewRecorded else BrokerSubmissionRecorded, br_submitted_at r)"

definition all_milestones :: "PublicationSource \<Rightarrow> OrderIntent option \<Rightarrow> StatusEvent list \<Rightarrow> (trace_stage \<times> instant) list" where
  "all_milestones s intent events = (case intent of None \<Rightarrow> status_milestones events
   | Some i \<Rightarrow> sort_key snd (status_milestones events @
       (case requested_order s (oi_order_intent_id i) of None \<Rightarrow> [] | Some r \<Rightarrow> [record_milestone r]) @
       map (\<lambda>e. (BrokerStage (be_status e), be_occurred_at e)) (broker_milestones s (oi_order_intent_id i))))"

definition shown_milestones :: "(trace_stage \<times> instant) list \<Rightarrow> (trace_stage \<times> instant) list" where
  "shown_milestones ms = (if length ms \<le> 100 then ms else take 6 ms @ drop (length ms - 94) ms)"

section \<open>The models behind it\<close>

record RunProvenance =
  rpv_public_run_id :: "string option"
  rpv_public_attempt_id :: string
  rpv_requested_model :: string
  rpv_observed_model :: "string option"
  rpv_digest_models :: "string list"
  rpv_collector_model :: "string option"
  rpv_execution_model :: "string option"
  rpv_attempt_number :: int

text \<open>The models of the digests of the three last days a review could read.\<close>

definition digest_days :: "DigestNote list \<Rightarrow> pydate \<Rightarrow> pydate list" where
  "digest_days notes day = take 3 (rev (sorted_list_of_set
     (set (filter (\<lambda>x. x \<le> day) (map dn_note_date (filter (\<lambda>n. dn_slot n \<noteq> ''weekly'') notes))))))"

definition model_text :: "DigestNote \<Rightarrow> string" where
  "model_text n = (if truthy (dn_model n)
     then the (dn_model n) @ '' ('' @ (case dn_reasoning_effort n of None \<Rightarrow> ''None'' | Some e \<Rightarrow> e) @ '')''
     else ''Not recorded'')"

definition digest_models :: "DigestNote list \<Rightarrow> pydate \<Rightarrow> instant \<Rightarrow> string list" where
  "digest_models notes day prepared_at = sorted_list_of_set (set (map model_text (filter (\<lambda>n. dn_slot n \<noteq> ''weekly'' \<and>
     dn_note_date n \<in> set (digest_days notes day) \<and> julianday (dn_created_at n) \<le> julianday prepared_at) notes)))"

definition collector_model :: "core_db \<Rightarrow> string option \<Rightarrow> string option" where
  "collector_model core run_id = (case run_id of None \<Rightarrow> None
   | Some r \<Rightarrow> (case find_row rr_reasoning_run_id r (reasoning_runs core) of None \<Rightarrow> None
     | Some run \<Rightarrow> (case find_row ls_portfolio_snapshot_id (rr_portfolio_snapshot_id run) (live_portfolio_snapshots core) of
         None \<Rightarrow> None | Some snap \<Rightarrow> ls_collector_model snap)))"

definition execution_model :: "PublicationSource \<Rightarrow> string \<Rightarrow> string option" where
  "execution_model s d = (case greatest esr_attempted_at (filter (\<lambda>e.
       d \<in> set (map oi_decision_id (filter (\<lambda>i. oi_order_intent_id i = esr_order_intent_id e) (order_intents (px_core s)))))
       (px_sessions s)) of None \<Rightarrow> None | Some e \<Rightarrow> esr_model e)"

definition public_run_of :: "(string \<Rightarrow> string) \<Rightarrow> (string \<times> string) list \<Rightarrow> string \<Rightarrow> string option" where
  "public_run_of sha256 run_ids r = map_of run_ids (sha256 r)"

definition run_provenance :: "(string \<Rightarrow> string) \<Rightarrow> (string \<times> string) list \<Rightarrow> PublicationSource \<Rightarrow> string \<Rightarrow>
    RunProvenance option" where
  "run_provenance sha256 run_ids s d = (case map_of (rt_decision_attempts (px_runtime s)) d of None \<Rightarrow> None
   | Some attempt_id \<Rightarrow> (case find_row ra_attempt_id attempt_id (rt_attempts (px_runtime s)) of None \<Rightarrow> None
     | Some a \<Rightarrow> (case find_row (\<lambda>w. ru_run_id (rw_run w)) (ra_run_id a) (rt_runs (px_runtime s)) of None \<Rightarrow> None
       | Some w \<Rightarrow> let run = rw_run w in
           Some \<lparr>rpv_public_run_id = public_run_of sha256 run_ids (ru_run_id run), rpv_public_attempt_id = ra_public_id a,
             rpv_requested_model = ra_model a, rpv_observed_model = ra_observed_model a,
             rpv_digest_models = digest_models (px_digest_notes s) (ru_session_date run) (ru_prepared_at run),
             rpv_collector_model = collector_model (px_core s) (ru_reasoning_run_id run),
             rpv_execution_model = execution_model s d, rpv_attempt_number = ra_attempt_number a\<rparr>)))"

definition legacy_run :: "(string \<Rightarrow> string) \<Rightarrow> (string \<times> string) list \<Rightarrow> PublicationSource \<Rightarrow> string \<Rightarrow> string option" where
  "legacy_run sha256 run_ids s d = last_of (filter (\<lambda>x. x \<noteq> []) (List.map_filter
     (\<lambda>l. public_run_of sha256 run_ids (rl_reasoning_run_id l))
     (filter (\<lambda>l. rl_decision_id l = d) (reasoning_run_decisions (px_core s)))))"

end
