(* ===== verification/Changes.thy ===== *)
theory Changes
  imports RuntimeSchemas "HOL-Library.AList"
begin

text \<open>
  The change counters of the source database (\<open>app/storage/publication_changes.py\<close>), which its triggers keep after
  every inserted, updated or deleted row: one counter for each section of the public store, and the revision at which
  a decision, an activity or, when no decision is named, the whole of the details last changed. \<open>row\<close> is the new row, or the old one of
  a deletion, with the columns the triggers read; the tables they look decisions up in are the ones after the event.
\<close>

datatype source_table =
    T_decision_records | T_order_intents | T_status_events | T_policy_evaluations | T_live_execution_packets
  | T_broker_execution_records | T_broker_execution_events | T_public_source_records | T_thesis_reviews
  | T_reporting_observations | T_live_portfolio_snapshots | T_paper_fills | T_paper_positions | T_daily_prices
  | T_regime_snapshots | T_reasoning_runs | T_reasoning_run_decisions | T_runtime_runs | T_runtime_attempts
  | T_schedule_revisions | T_scheduler_observations | T_schedule_occurrences

datatype section_name = Details | Performance | Activity

fun TABLE_SECTIONS :: "source_table \<Rightarrow> section_name set" where
  "TABLE_SECTIONS T_decision_records = {Details}"
| "TABLE_SECTIONS T_order_intents = {Details, Performance}"
| "TABLE_SECTIONS T_status_events = {Details}"
| "TABLE_SECTIONS T_policy_evaluations = {Details}"
| "TABLE_SECTIONS T_live_execution_packets = {Details}"
| "TABLE_SECTIONS T_broker_execution_records = {Details}"
| "TABLE_SECTIONS T_broker_execution_events = {Details}"
| "TABLE_SECTIONS T_public_source_records = {Details, Performance}"
| "TABLE_SECTIONS T_thesis_reviews = {Performance}"
| "TABLE_SECTIONS T_reporting_observations = {Details, Performance}"
| "TABLE_SECTIONS T_live_portfolio_snapshots = {Details, Performance}"
| "TABLE_SECTIONS T_paper_fills = {Details, Performance}"
| "TABLE_SECTIONS T_paper_positions = {Performance}"
| "TABLE_SECTIONS T_daily_prices = {Performance}"
| "TABLE_SECTIONS T_regime_snapshots = {Details, Performance}"
| "TABLE_SECTIONS T_reasoning_runs = {Details, Activity}"
| "TABLE_SECTIONS T_reasoning_run_decisions = {Details, Activity}"
| "TABLE_SECTIONS T_runtime_runs = {Activity}"
| "TABLE_SECTIONS T_runtime_attempts = {Activity}"
| "TABLE_SECTIONS T_schedule_revisions = {Activity}"
| "TABLE_SECTIONS T_scheduler_observations = {Activity}"
| "TABLE_SECTIONS T_schedule_occurrences = {Activity}"

record ChangeRow =
  cr_decision_id :: string
  cr_order_intent_id :: string
  cr_subject_is_decision :: bool
  cr_subject_id :: string
  cr_reasoning_run_id :: string
  cr_run_id :: string
  cr_occurrence_id :: string

datatype activity_kind = RuntimeActivity | LegacyActivity | OccurrenceActivity

record PublicationChanges =
  ch_source_id :: string
  ch_details :: int
  ch_performance :: int
  ch_activity :: int
  ch_decisions :: "(string \<times> int) list"
  ch_activities :: "((activity_kind \<times> string) \<times> int) list"
  ch_rebuild :: int

definition initialize_changes :: "string \<Rightarrow> PublicationChanges" where
  "initialize_changes fresh = \<lparr>ch_source_id = fresh, ch_details = 0, ch_performance = 0, ch_activity = 0,
     ch_decisions = [], ch_activities = [], ch_rebuild = 0\<rparr>"

definition count_change :: "section_name \<Rightarrow> source_table \<Rightarrow> int" where
  "count_change s t = (if s \<in> TABLE_SECTIONS t then 1 else 0)"

definition bump_counters :: "source_table \<Rightarrow> PublicationChanges \<Rightarrow> PublicationChanges" where
  "bump_counters t c = c\<lparr>ch_details := ch_details c + count_change Details t,
     ch_performance := ch_performance c + count_change Performance t,
     ch_activity := ch_activity c + count_change Activity t\<rparr>"

fun activity_identity :: "source_table \<Rightarrow> ChangeRow \<Rightarrow> (activity_kind \<times> string) option" where
  "activity_identity T_runtime_runs row = Some (RuntimeActivity, cr_run_id row)"
| "activity_identity T_runtime_attempts row = Some (RuntimeActivity, cr_run_id row)"
| "activity_identity T_reasoning_runs row = Some (LegacyActivity, cr_reasoning_run_id row)"
| "activity_identity T_schedule_occurrences row = Some (OccurrenceActivity, cr_occurrence_id row)"
| "activity_identity _ row = None"

definition mark_activity :: "source_table \<Rightarrow> ChangeRow \<Rightarrow> PublicationChanges \<Rightarrow> PublicationChanges" where
  "mark_activity t row c = (case activity_identity t row of None \<Rightarrow> c
   | Some i \<Rightarrow> c\<lparr>ch_activities := AList.update i (ch_activity c) (ch_activities c)\<rparr>)"

definition intent_decisions :: "core_db \<Rightarrow> string \<Rightarrow> string list" where
  "intent_decisions db i = map oi_decision_id (filter (\<lambda>w. oi_order_intent_id w = i) (order_intents db))"

definition run_decisions :: "core_db \<Rightarrow> string \<Rightarrow> string list" where
  "run_decisions db r = map rl_decision_id (filter (\<lambda>l. rl_reasoning_run_id l = r) (reasoning_run_decisions db))"

text \<open>The decisions a row belongs to; \<open>None\<close> when its table names none.\<close>

definition affected :: "core_db \<Rightarrow> source_table \<Rightarrow> ChangeRow \<Rightarrow> string list option" where
  "affected db t row =
    (if t \<in> {T_decision_records, T_policy_evaluations, T_order_intents, T_reasoning_run_decisions}
       then Some [cr_decision_id row]
     else if t \<in> {T_live_execution_packets, T_broker_execution_records, T_broker_execution_events, T_paper_fills}
       then Some (intent_decisions db (cr_order_intent_id row))
     else if t = T_status_events
       then Some (remdups ((if cr_subject_is_decision row then [cr_subject_id row] else []) @
         intent_decisions db (cr_subject_id row)))
     else if t = T_reasoning_runs then Some (run_decisions db (cr_reasoning_run_id row))
     else None)"

lemma intent_decisions_iff:
  "d \<in> set (intent_decisions db i) \<longleftrightarrow> (\<exists>w\<in>set (order_intents db). oi_order_intent_id w = i \<and> oi_decision_id w = d)"
  by (auto simp: intent_decisions_def)

lemma run_decisions_iff:
  "d \<in> set (run_decisions db i) \<longleftrightarrow>
     (\<exists>l\<in>set (reasoning_run_decisions db). rl_reasoning_run_id l = i \<and> rl_decision_id l = d)"
  by (auto simp: run_decisions_def)

definition mark_details :: "core_db \<Rightarrow> source_table \<Rightarrow> ChangeRow \<Rightarrow> PublicationChanges \<Rightarrow> PublicationChanges" where
  "mark_details db t row c = (if Details \<notin> TABLE_SECTIONS t then c
     else (case affected db t row of
         None \<Rightarrow> c\<lparr>ch_rebuild := ch_details c\<rparr>
       | Some ds \<Rightarrow> c\<lparr>ch_decisions := fold (\<lambda>d. AList.update d (ch_details c)) ds (ch_decisions c)\<rparr>))"

definition row_event :: "core_db \<Rightarrow> source_table \<Rightarrow> ChangeRow \<Rightarrow> PublicationChanges \<Rightarrow> PublicationChanges" where
  "row_event db t row c = mark_details db t row (mark_activity t row (bump_counters t c))"

text \<open>Any sequence of events, each with the tables it left.\<close>

definition row_events :: "(core_db \<times> source_table \<times> ChangeRow) list \<Rightarrow> PublicationChanges \<Rightarrow> PublicationChanges" where
  "row_events es c = fold (\<lambda>(db, t, row). row_event db t row) es c"

section \<open>No change is lost\<close>

definition stamp :: "PublicationChanges \<Rightarrow> string \<Rightarrow> int" where
  "stamp c d = (case map_of (ch_decisions c) d of None \<Rightarrow> -1 | Some r \<Rightarrow> r)"

definition changes_ok :: "PublicationChanges \<Rightarrow> bool" where
  "changes_ok c = (0 \<le> ch_details c \<and> (\<forall>d. stamp c d \<le> ch_details c) \<and> ch_rebuild c \<le> ch_details c)"

lemma map_of_marks:
  "map_of (fold (\<lambda>d. AList.update d n) ds al) = (\<lambda>d. if d \<in> set ds then Some n else map_of al d)"
  by (induction ds arbitrary: al) (auto simp: update_conv' fun_eq_iff)

lemma mark_activity_same [simp]:
  "ch_details (mark_activity t row c) = ch_details c" "ch_rebuild (mark_activity t row c) = ch_rebuild c"
  "ch_decisions (mark_activity t row c) = ch_decisions c" "ch_performance (mark_activity t row c) = ch_performance c"
  "ch_activity (mark_activity t row c) = ch_activity c" "ch_source_id (mark_activity t row c) = ch_source_id c"
  by (simp_all add: mark_activity_def split: option.split)

lemma row_event_details: "ch_details (row_event db t row c) = ch_details c + count_change Details t"
  by (simp add: row_event_def mark_details_def bump_counters_def split: option.split)

lemma row_event_stamp:
  "stamp (row_event db t row c) d =
     (if Details \<in> TABLE_SECTIONS t \<and> (case affected db t row of None \<Rightarrow> False | Some ds \<Rightarrow> d \<in> set ds)
      then ch_details c + 1 else stamp c d)"
  by (auto simp: row_event_def mark_details_def bump_counters_def count_change_def stamp_def map_of_marks split: option.split)

lemma row_event_rebuild:
  "ch_rebuild (row_event db t row c) =
     (if Details \<in> TABLE_SECTIONS t \<and> affected db t row = None then ch_details c + 1 else ch_rebuild c)"
  by (auto simp: row_event_def mark_details_def bump_counters_def count_change_def split: option.split)

lemma row_event_ok: "changes_ok c \<Longrightarrow> changes_ok (row_event db t row c)"
  by (fastforce simp: changes_ok_def row_event_details row_event_stamp row_event_rebuild count_change_def
      intro: order_trans)

definition newer :: "PublicationChanges \<Rightarrow> PublicationChanges \<Rightarrow> bool" where
  "newer c c' = (ch_details c \<le> ch_details c' \<and> (\<forall>d. stamp c d \<le> stamp c' d) \<and> ch_rebuild c \<le> ch_rebuild c')"

lemma newer_refl [simp]: "newer c c"
  by (simp add: newer_def)

lemma newer_trans: "newer a b \<Longrightarrow> newer b c \<Longrightarrow> newer a c"
  unfolding newer_def by (meson order_trans)

lemma row_event_newer: "changes_ok c \<Longrightarrow> newer c (row_event db t row c)"
  by (fastforce simp: changes_ok_def newer_def row_event_details row_event_stamp row_event_rebuild count_change_def
      intro: order_trans)

lemma row_events_newer: "changes_ok c \<Longrightarrow> changes_ok (row_events es c) \<and> newer c (row_events es c)"
proof (induction es arbitrary: c)
  case (Cons e es)
  obtain db t row where e: "e = (db, t, row)" by (cases e)
  from Cons.IH [OF row_event_ok [OF Cons.prems], of db t row] row_event_newer [OF Cons.prems, of db t row]
  show ?case by (auto simp: row_events_def e intro: newer_trans)
qed (simp add: row_events_def)

lemma row_events_split:
  "row_events (xs @ (db, t, row) # ys) c = row_events ys (row_event db t row (row_events xs c))"
  by (simp add: row_events_def)

lemma event_reaches_stamps:
  assumes "changes_ok c" "(db, t, row) \<in> set es" "Details \<in> TABLE_SECTIONS t"
  shows "case affected db t row of None \<Rightarrow> ch_details c < ch_rebuild (row_events es c)
    | Some ds \<Rightarrow> \<forall>d\<in>set ds. ch_details c < stamp (row_events es c) d"
proof -
  obtain xs ys where es: "es = xs @ (db, t, row) # ys" using assms(2) by (auto dest: split_list)
  define m where "m = row_events xs c"
  have m: "changes_ok m" "newer c m" using row_events_newer [OF assms(1)] by (simp_all add: m_def)
  have "newer (row_event db t row m) (row_events es c)"
    using row_events_newer [OF row_event_ok [OF m(1)]] by (simp add: es row_events_split m_def)
  then have rebuild: "ch_rebuild (row_event db t row m) \<le> ch_rebuild (row_events es c)"
    and stamps: "stamp (row_event db t row m) d \<le> stamp (row_events es c) d" for d by (simp_all add: newer_def)
  have later: "ch_details c < ch_details m + 1" using m(2) by (simp add: newer_def)
  show ?thesis
  proof (cases "affected db t row")
    case None
    then show ?thesis using rebuild later assms(3) by (simp add: row_event_rebuild)
  next
    case (Some ds)
    have "ch_details c < stamp (row_events es c) d" if "d \<in> set ds" for d
      using stamps [of d] later assms(3) that Some by (simp add: row_event_stamp)
    then show ?thesis using Some by simp
  qed
qed

text \<open>Rows of the tables that belong to the activity alone, an attempt's among them, mark no decision.\<close>

lemma activity_rows_mark_nothing:
  "t \<in> {T_runtime_runs, T_runtime_attempts, T_schedule_revisions, T_scheduler_observations, T_schedule_occurrences} \<Longrightarrow>
    ch_decisions (row_event db t row c) = ch_decisions c \<and> ch_rebuild (row_event db t row c) = ch_rebuild c"
  by (auto simp: row_event_def mark_details_def bump_counters_def)

lemma initial_changes_ok: "changes_ok (initialize_changes fresh)"
  by (simp add: changes_ok_def initialize_changes_def stamp_def)

end
