(* ===== verification/Activity.thy ===== *)
theory Activity
  imports PublicContent Changes
begin

text \<open>
  The activity of the public store (\<open>app/public/activity.py\<close>): the runs with their attempts and what each weighed, the
  legacy runs, the skipped occurrences, the schedules and the runs shown as latest and active. \<open>fresh\<close> gives a new
  identifier for a source key. Times the source orders as UTC texts are ordered as instants.
\<close>

section \<open>What an attempt weighed\<close>

record CitedLink =
  cl_url :: string
  cl_handle :: string
  cl_subject :: string
  cl_ticker :: string
  cl_role :: x_post_role

record TriagedLink =
  tl_url :: string
  tl_handle :: string
  tl_ticker :: string
  tl_changes_thesis :: bool
  tl_note :: string

record WeighedHolding =
  wh_ticker :: string
  wh_state :: review_state
  wh_summary :: "string option"
  wh_review_reasons :: "string list"
  wh_low :: "pyfloat option"
  wh_high :: "pyfloat option"
  wh_invalidation :: "pyfloat option"

record Weighed =
  we_candidates :: "LedgerCandidate list"
  we_exposure :: "AuthoredExposureDecision option"
  we_earnings :: "AuthoredEarningsDate list"
  we_challengers :: "LedgerChallenger list"
  we_holdings :: "WeighedHolding list"
  we_cited :: "CitedLink list"
  we_triage :: "TriagedLink list"
  we_digest :: "(string \<times> (string \<times> nat) list) option"

definition post_handle :: "PublicationSource \<Rightarrow> string \<Rightarrow> string option" where
  "post_handle s i = map_option (\<lambda>w. xp_handle (xw_post w)) (find_row row_id i (x_posts (wd_x (px_worker s))))"

definition weighed_holdings :: "PublicationSource \<Rightarrow> string \<Rightarrow> WeighedHolding list" where
  "weighed_holdings s a = map (\<lambda>r. \<lparr>wh_ticker = tr_ticker r, wh_state = tr_state r, wh_summary = tr_summary r,
       wh_review_reasons = tr_review_reasons r, wh_low = tr_realization_price_low r, wh_high = tr_realization_price_high r,
       wh_invalidation = tr_invalidation_price r\<rparr>)
     (filter (\<lambda>r. tr_approved_for_publication r \<and> tr_runtime_attempt_id r = Some a)
       (sort_key tr_reviewed_at (wd_thesis_reviews (px_worker s))))"

definition cited_links :: "PublicationSource \<Rightarrow> string \<Rightarrow> CitedLink list" where
  "cited_links s a = List.map_filter (\<lambda>c. map_option (\<lambda>h. \<lparr>cl_url = x_post_url h (ci_post_id c), cl_handle = h,
       cl_subject = ci_subject c, cl_ticker = ci_ticker c, cl_role = ci_role c\<rparr>) (post_handle s (ci_post_id c)))
     (filter (\<lambda>c. ci_attempt_id c = a) (sort_key ci_post_id (wd_citations (px_worker s))))"

definition triaged_links :: "PublicationSource \<Rightarrow> string \<Rightarrow> TriagedLink list" where
  "triaged_links s a = List.map_filter (\<lambda>t. map_option (\<lambda>h. \<lparr>tl_url = x_post_url h (tg_post_id t), tl_handle = h,
       tl_ticker = tg_ticker t, tl_changes_thesis = tg_changes_thesis t, tl_note = tg_note t\<rparr>) (post_handle s (tg_post_id t)))
     (filter (\<lambda>t. tg_attempt_id t = a) (sort_key (\<lambda>t. (\<not> tg_changes_thesis t, tg_ticker t)) (wd_triage (px_worker s))))"

text \<open>The pages a candidate names are published when their links can be shown; the key of an empty list is left out.\<close>

definition weighed_of :: "(string \<Rightarrow> bool) \<Rightarrow> PublicationSource \<Rightarrow> string \<Rightarrow> Weighed option" where
  "weighed_of link_ok s a =
     (let ledger = find_row lg_attempt_id a (wd_ledgers (px_worker s));
          w = \<lparr>we_candidates = (case ledger of None \<Rightarrow> []
                | Some l \<Rightarrow> map (\<lambda>c. c\<lparr>lc_sources := filter link_ok (lc_sources c)\<rparr>) (lg_candidates l)),
            we_exposure = Option.bind ledger lg_exposure,
            we_earnings = (case ledger of None \<Rightarrow> [] | Some l \<Rightarrow> filter (\<lambda>e. link_ok (ae_source_url e)) (lg_earnings l)),
            we_challengers = (case ledger of None \<Rightarrow> [] | Some l \<Rightarrow> lg_challengers l),
            we_holdings = weighed_holdings s a, we_cited = cited_links s a, we_triage = triaged_links s a,
            we_digest = None\<rparr>
      in if we_candidates w = [] \<and> we_exposure w = None \<and> we_earnings w = [] \<and> we_challengers w = [] \<and>
          we_holdings w = [] \<and> we_cited w = [] \<and> we_triage w = [] then None else Some w)"

text \<open>The latest digest day at the preparation of a run, and how its posts were ranked.\<close>

definition run_digest :: "PublicationSource \<Rightarrow> instant \<Rightarrow> (string \<times> (string \<times> nat) list) option" where
  "run_digest s prepared_at =
     (let decided = filter (\<lambda>r. julianday (rd_decided_at r) \<le> julianday prepared_at) (x_routes (wd_x (px_worker s))) in
      map_option (\<lambda>r. let day = take 10 (rd_run_id r) in
        (day, List.map_filter (\<lambda>rank. let n = length (filter (\<lambda>q. take 10 (rd_run_id q) = day \<and> rd_rank q = rank) decided)
           in if n = 0 then None else Some (rank, n)) [''headline'', ''notable'', ''context'']))
        (greatest rd_run_id decided))"

section \<open>Attempts and items\<close>

record ActivityAttempt =
  aa_attempt :: RuntimeAttempt
  aa_weighed :: "Weighed option"

datatype activity_status =
    RunPrepared
  | RunStatus attempt_status
  | LegacyStatus ReasoningRunResult
  | OccurrenceStatus occurrence_status

datatype activity_origin = RunOrigin run_origin | LegacyOrigin | OccurrenceOrigin

record ActivityItem =
  ai_public_id :: string
  ai_origin :: activity_origin
  ai_session_date :: pydate
  ai_slot :: "string option"
  ai_at :: instant
  ai_status :: activity_status
  ai_attempts :: "ActivityAttempt list"
  ai_attempt_count :: nat
  ai_trigger_count :: nat
  ai_lease_expires_at :: "instant option"
  ai_completed_at :: "instant option"
  ai_summary :: "string option"
  ai_reason :: "string option"

definition run_attempts :: "PublicationSource \<Rightarrow> string \<Rightarrow> RuntimeAttempt list" where
  "run_attempts s r = rev (sort_key ra_attempt_number (filter (\<lambda>a. ra_run_id a = r) (rt_attempts (px_runtime s))))"

definition published_attempts :: "(string \<Rightarrow> bool) \<Rightarrow> PublicationSource \<Rightarrow> RuntimeRun \<Rightarrow> ActivityAttempt list" where
  "published_attempts link_ok s run = (let digest = run_digest s (ru_prepared_at run) in
     map (\<lambda>a. \<lparr>aa_attempt = a, aa_weighed = map_option (\<lambda>w. w\<lparr>we_digest := digest\<rparr>) (weighed_of link_ok s (ra_attempt_id a))\<rparr>)
       (take 100 (run_attempts s (ru_run_id run))))"

definition lease_expiry :: "PublicationSource \<Rightarrow> RuntimeAttempt \<Rightarrow> instant option" where
  "lease_expiry s a = Option.bind (last_row le_attempt_id (Some (ra_attempt_id a)) (rt_leases (px_runtime s))) le_expires_at"

definition run_item :: "(string \<Rightarrow> bool) \<Rightarrow> PublicationSource \<Rightarrow> RunRow \<Rightarrow> ActivityItem" where
  "run_item link_ok s w = (let run = rw_run w; attempts = published_attempts link_ok s run in
     \<lparr>ai_public_id = rw_public_id w, ai_origin = RunOrigin (ru_origin run), ai_session_date = ru_session_date run,
      ai_slot = Some (ru_slot run), ai_at = ru_prepared_at run,
      ai_status = (case attempts of [] \<Rightarrow> RunPrepared | a # _ \<Rightarrow> RunStatus (ra_status (aa_attempt a))),
      ai_attempts = attempts, ai_attempt_count = length (run_attempts s (ru_run_id run)),
      ai_trigger_count = length (ru_trigger_ids run),
      ai_lease_expires_at = (case attempts of [] \<Rightarrow> None
        | a # _ \<Rightarrow> if ra_status (aa_attempt a) = AttemptRunning then lease_expiry s (aa_attempt a) else None),
      ai_completed_at = None, ai_summary = None, ai_reason = None\<rparr>)"

definition legacy_item :: "string \<Rightarrow> ReasoningRun \<Rightarrow> ActivityItem" where
  "legacy_item public_id r = \<lparr>ai_public_id = public_id, ai_origin = LegacyOrigin, ai_session_date = rr_session_date r,
     ai_slot = Some (rr_slot r), ai_at = rr_started_at r,
     ai_status = (if rr_result r = PREPARED then RunPrepared else LegacyStatus (rr_result r)), ai_attempts = [],
     ai_attempt_count = 0, ai_trigger_count = 0, ai_lease_expires_at = None, ai_completed_at = rr_completed_at r,
     ai_summary = (if rr_public_summary r = [] then None else Some (rr_public_summary r)), ai_reason = None\<rparr>"

definition occurrence_item :: "Occurrence \<Rightarrow> ActivityItem" where
  "occurrence_item w = \<lparr>ai_public_id = oc_public_id w, ai_origin = OccurrenceOrigin, ai_session_date = oc_session_date w,
     ai_slot = None, ai_at = oc_due_at w, ai_status = OccurrenceStatus (oc_status w), ai_attempts = [],
     ai_attempt_count = 0, ai_trigger_count = 0, ai_lease_expires_at = None, ai_completed_at = None, ai_summary = None,
     ai_reason = oc_reason w\<rparr>"

section \<open>The store\<close>

record ActivityRow =
  acr_source_key :: string
  acr_public_id :: string
  acr_portfolio :: account_mode
  acr_created_at :: instant
  acr_content :: ActivityItem

record ScheduleView =
  scv_preview :: schedule_preview
  scv_observer_max_age_seconds :: int
  scv_grace_seconds :: int

text \<open>
  What the feed keeps of an item: its texts cut at 600 characters, and of its attempts only the latest, without what
  it weighed. The source stores it beside the content of the row whenever it writes that.
\<close>

record ActivityFeedItem =
  afi_item :: ActivityItem
  afi_latest_attempt :: "ActivityAttempt option"

definition compact_attempt :: "ActivityAttempt \<Rightarrow> ActivityAttempt" where
  "compact_attempt a = a\<lparr>aa_weighed := None, aa_attempt := (aa_attempt a)
     \<lparr>ra_public_summary := Some (take 600 (case ra_public_summary (aa_attempt a) of None \<Rightarrow> [] | Some s \<Rightarrow> s))\<rparr>\<rparr>"

definition activity_feed_content :: "ActivityItem \<Rightarrow> ActivityFeedItem" where
  "activity_feed_content c = \<lparr>afi_item = c\<lparr>ai_attempts := [], ai_summary := map_option (take 600) (ai_summary c)\<rparr>,
     afi_latest_attempt = (case ai_attempts c of [] \<Rightarrow> None | a # _ \<Rightarrow> Some (compact_attempt a))\<rparr>"

record RuntimeView =
  rtv_as_of :: instant
  rtv_latest_run :: "ActivityFeedItem option"
  rtv_active_run :: "ActivityFeedItem option"
  rtv_schedules :: "ScheduleView list"

record ActivityStore =
  as_revision :: int
  as_rows :: "ActivityRow list"
  as_run_ids :: "(string \<times> string) list"
  as_runtime :: "(account_mode \<times> RuntimeView) list"

definition empty_activity :: ActivityStore where
  "empty_activity = \<lparr>as_revision = 0, as_rows = [], as_run_ids = [], as_runtime = []\<rparr>"

text \<open>
  An item keeps the identifier its source was first given. An item of a known source gets new content; a new row with
  an identifier another row has is refused.
\<close>

definition save_activity :: "string \<Rightarrow> account_mode \<Rightarrow> ActivityItem \<Rightarrow> ActivityStore \<Rightarrow> ActivityStore result" where
  "save_activity key scope item st =
     (let i = (case map_of (as_run_ids st) key of None \<Rightarrow> ai_public_id item | Some i \<Rightarrow> i);
          ids = (if map_of (as_run_ids st) key = None then as_run_ids st @ [(key, i)] else as_run_ids st);
          c = item\<lparr>ai_public_id := i\<rparr>
      in if find_row acr_source_key key (as_rows st) \<noteq> None
         then Inr (st\<lparr>as_run_ids := ids, as_rows := map (\<lambda>w. if acr_source_key w = key then w\<lparr>acr_content := c\<rparr> else w) (as_rows st)\<rparr>)
         else if find_row acr_public_id i (as_rows st) \<noteq> None then Inl IntegrityError
         else Inr (st\<lparr>as_run_ids := ids, as_rows := as_rows st @ [\<lparr>acr_source_key = key, acr_public_id = i,
           acr_portfolio = scope, acr_created_at = ai_at item, acr_content = c\<rparr>]\<rparr>))"

definition live_or_listed :: "string list \<Rightarrow> account_mode \<Rightarrow> string \<Rightarrow> bool" where
  "live_or_listed live_profiles m profile = (m = LiveMode \<longrightarrow> profile \<in> set live_profiles)"

text \<open>The sources a publication looks at: all of them, or those stamped after \<open>since\<close>.\<close>

definition changed_kind :: "PublicationChanges \<Rightarrow> int option \<Rightarrow> activity_kind \<Rightarrow> string \<Rightarrow> bool" where
  "changed_kind c since k i = (case since of None \<Rightarrow> True
   | Some n \<Rightarrow> (\<exists>((k', i'), revision)\<in>set (ch_activities c). k' = k \<and> i' = i \<and> n < revision))"

definition forget_legacy :: "(string \<Rightarrow> string) \<Rightarrow> RuntimeRun \<Rightarrow> ActivityStore \<Rightarrow> ActivityStore" where
  "forget_legacy sha256 run st = (if \<not> truthy (ru_reasoning_run_id run) then st
     else st\<lparr>as_rows := filter (\<lambda>w. acr_source_key w \<noteq> sha256 (the (ru_reasoning_run_id run))) (as_rows st)\<rparr>)"

definition inherited_id :: "(string \<Rightarrow> string) \<Rightarrow> RunRow \<Rightarrow> ActivityStore \<Rightarrow> string" where
  "inherited_id sha256 w st = (let legacy = ru_reasoning_run_id (rw_run w) in
     if \<not> truthy legacy then rw_public_id w
     else (case map_of (as_run_ids st) (sha256 (the legacy)) of None \<Rightarrow> rw_public_id w | Some i \<Rightarrow> i))"

text \<open>The state of a publication: the store and the keys it materialised.\<close>

definition publish_run :: "(string \<Rightarrow> string) \<Rightarrow> (string \<Rightarrow> bool) \<Rightarrow> string list \<Rightarrow> PublicationSource \<Rightarrow> RunRow \<Rightarrow>
    ActivityStore \<times> string list \<Rightarrow> (ActivityStore \<times> string list) result" where
  "publish_run sha256 link_ok live_profiles s w x = (case x of (st, seen) \<Rightarrow> let run = rw_run w in
     if \<not> live_or_listed live_profiles (ru_mode run) (ru_execution_profile_id run) then Inr x
     else let key = sha256 (ru_run_id run); item = run_item link_ok s (w\<lparr>rw_public_id := inherited_id sha256 w st\<rparr>) in
       and_then (save_activity key (ru_mode run) item (forget_legacy sha256 run st)) (\<lambda>st'. Inr (st', key # seen)))"

definition superseded_run :: "PublicationSource \<Rightarrow> ReasoningRun \<Rightarrow> bool" where
  "superseded_run s r = (Some (rr_reasoning_run_id r) \<in> (\<lambda>w. ru_reasoning_run_id (rw_run w)) ` set (rt_runs (px_runtime s)))"

definition publish_legacy :: "(string \<Rightarrow> string) \<Rightarrow> (string \<Rightarrow> string) \<Rightarrow> string list \<Rightarrow> ReasoningRun \<Rightarrow>
    ActivityStore \<times> string list \<Rightarrow> (ActivityStore \<times> string list) result" where
  "publish_legacy sha256 fresh live_profiles r x = (case x of (st, seen) \<Rightarrow>
     if rr_execution_profile_id r \<notin> set live_profiles then Inr x
     else let key = sha256 (rr_reasoning_run_id r);
         i = (case find_row acr_source_key key (as_rows st) of None \<Rightarrow> ''run_'' @ fresh key | Some w \<Rightarrow> acr_public_id w) in
       and_then (save_activity key LiveMode (legacy_item i r) st) (\<lambda>st'. Inr (st', key # seen)))"

definition current_schedule :: "PublicationSource \<Rightarrow> ScheduleRevision \<Rightarrow> bool" where
  "current_schedule s c = (\<forall>n\<in>set (rt_schedules (px_runtime s)).
     sc_schedule_id n = sc_schedule_id c \<longrightarrow> sc_revision n \<le> sc_revision c)"

definition schedule_views :: "string list \<Rightarrow> PublicationSource \<Rightarrow> instant \<Rightarrow> account_mode \<Rightarrow> ScheduleView list" where
  "schedule_views live_profiles s now m = map (\<lambda>c. \<lparr>scv_preview = preview (px_runtime s) c now,
       scv_observer_max_age_seconds = sc_observer_max_age_seconds c, scv_grace_seconds = sc_grace_seconds c\<rparr>)
     (filter (\<lambda>c. current_schedule s c \<and> sc_mode c = m \<and> live_or_listed live_profiles m (sc_execution_profile_id c))
       (rt_schedules (px_runtime s)))"

definition publish_occurrence :: "(string \<Rightarrow> string) \<Rightarrow> string list \<Rightarrow> PublicationSource \<Rightarrow> Occurrence \<Rightarrow>
    ActivityStore \<times> string list \<Rightarrow> (ActivityStore \<times> string list) result" where
  "publish_occurrence sha256 live_profiles s w x = (case x of (st, seen) \<Rightarrow>
     (case find (\<lambda>c. sc_schedule_id c = oc_schedule_id w \<and> current_schedule s c) (rt_schedules (px_runtime s)) of
        None \<Rightarrow> Inr x
      | Some c \<Rightarrow> if oc_status w \<noteq> OccurrenceSkipped \<or>
            \<not> live_or_listed live_profiles (sc_mode c) (sc_execution_profile_id c) then Inr x
          else let key = sha256 (''occurrence/'' @ oc_occurrence_id w) in
            and_then (save_activity key (sc_mode c) (occurrence_item w) st) (\<lambda>st'. Inr (st', key # seen))))"

fun activity_key_text :: "activity_kind \<Rightarrow> string \<Rightarrow> string" where
  "activity_key_text OccurrenceActivity i = ''occurrence/'' @ i"
| "activity_key_text RuntimeActivity i = i"
| "activity_key_text LegacyActivity i = i"

definition stale_keys :: "(string \<Rightarrow> string) \<Rightarrow> PublicationChanges \<Rightarrow> int option \<Rightarrow> ActivityStore \<Rightarrow> string list" where
  "stale_keys sha256 c since st = (case since of None \<Rightarrow> map acr_source_key (as_rows st)
   | Some n \<Rightarrow> map (\<lambda>((k, i), _). sha256 (activity_key_text k i)) (filter (\<lambda>(_, revision). n < revision) (ch_activities c)))"

definition runtime_view :: "string list \<Rightarrow> PublicationSource \<Rightarrow> instant \<Rightarrow> ActivityRow list \<Rightarrow> account_mode \<Rightarrow> RuntimeView" where
  "runtime_view live_profiles s now rows m = (let own = filter (\<lambda>w. acr_portfolio w = m) rows in
     \<lparr>rtv_as_of = now,
      rtv_latest_run = map_option (\<lambda>w. activity_feed_content (acr_content w)) (greatest (\<lambda>w. (acr_created_at w, acr_public_id w)) own),
      rtv_active_run = map_option (\<lambda>w. activity_feed_content (acr_content w))
        (greatest acr_created_at (filter (\<lambda>w. ai_status (acr_content w) = RunStatus AttemptRunning) own)),
      rtv_schedules = schedule_views live_profiles s now m\<rparr>)"

definition publish_activity :: "(string \<Rightarrow> string) \<Rightarrow> (string \<Rightarrow> bool) \<Rightarrow> (string \<Rightarrow> string) \<Rightarrow> string list \<Rightarrow> instant \<Rightarrow>
    PublicationSource \<Rightarrow> PublicationChanges \<Rightarrow> int option \<Rightarrow> ActivityStore \<Rightarrow> ActivityStore result" where
  "publish_activity sha256 link_ok fresh live_profiles now s c since st =
     (let runs = filter (\<lambda>w. changed_kind c since RuntimeActivity (ru_run_id (rw_run w)))
            (sort_key (\<lambda>w. ru_prepared_at (rw_run w)) (rt_runs (px_runtime s)));
          legacy = filter (\<lambda>r. changed_kind c since LegacyActivity (rr_reasoning_run_id r) \<and> \<not> superseded_run s r)
            (sort_key rr_started_at (reasoning_runs (px_core s)));
          occurrences = filter (\<lambda>w. changed_kind c since OccurrenceActivity (oc_occurrence_id w)) (rt_occurrences (px_runtime s))
      in and_then (fold_result (publish_run sha256 link_ok live_profiles s) runs (st\<lparr>as_revision := as_revision st + 1\<rparr>, [])) (\<lambda>x.
         and_then (fold_result (publish_legacy sha256 fresh live_profiles) legacy x) (\<lambda>y.
         and_then (fold_result (publish_occurrence sha256 live_profiles s) occurrences y) (\<lambda>(st', seen).
         Inr (let gone = filter (\<lambda>k. k \<notin> set seen) (stale_keys sha256 c since st');
              rows = filter (\<lambda>w. acr_source_key w \<notin> set gone) (as_rows st') in
           st'\<lparr>as_rows := rows,
             as_runtime := map (\<lambda>m. (m, runtime_view live_profiles s now rows m)) [LiveMode, PaperMode]\<rparr>)))))"

section \<open>The status a reader sees\<close>

text \<open>A schedule is not shown as due on an old observation or past its grace, nor a run as running once its lease is over.\<close>

definition settle_schedule :: "instant \<Rightarrow> ScheduleView \<Rightarrow> ScheduleView" where
  "settle_schedule now v = (let p = scv_preview v;
       stale = (case (sp_observer_as_of p, sp_next_due_at p) of
         (Some seen_at, Some due) \<Rightarrow> due \<le> now \<and> \<not> (0 \<le> now - seen_at \<and> now - seen_at \<le> scv_observer_max_age_seconds v * second)
       | _ \<Rightarrow> False);
       q = (if stale then p\<lparr>sp_next_due_at := None, sp_reason := Some ''observer_stale''\<rparr> else p) in
     v\<lparr>scv_preview := (case sp_next_due_at q of None \<Rightarrow> q
       | Some due \<Rightarrow> if due + scv_grace_seconds v * second < now
           then q\<lparr>sp_next_due_at := None, sp_reason := Some ''grace_elapsed_unreconciled''\<rparr> else q)\<rparr>)"

datatype shown_run = ShownRun ActivityFeedItem | StaleRun ActivityFeedItem

definition settle_run :: "instant \<Rightarrow> ActivityFeedItem \<Rightarrow> shown_run" where
  "settle_run now i = (if ai_status (afi_item i) = RunStatus AttemptRunning \<and>
       (case ai_lease_expires_at (afi_item i) of None \<Rightarrow> True | Some t \<Rightarrow> t \<le> now) then StaleRun i else ShownRun i)"

record RuntimeStatus =
  rts_view :: RuntimeView
  rts_schedules :: "ScheduleView list"
  rts_latest_run :: "shown_run option"
  rts_active_run :: "shown_run option"

definition runtime_status :: "account_mode \<Rightarrow> instant \<Rightarrow> ActivityStore \<Rightarrow> RuntimeStatus option" where
  "runtime_status m now st = map_option (\<lambda>v. \<lparr>rts_view = v, rts_schedules = map (settle_schedule now) (rtv_schedules v),
     rts_latest_run = map_option (settle_run now) (rtv_latest_run v),
     rts_active_run = map_option (settle_run now) (rtv_active_run v)\<rparr>) (map_of (as_runtime st) m)"

end
