(* ===== verification/PublicStore.thy ===== *)
theory PublicStore
  imports Activity ReportingStore
begin

text \<open>
  The decisions of the public store (\<open>publish\<close> and \<open>revoke\<close> of \<open>app/public/publication.py\<close>): the content of a
  decision, the rows a publication inserts, updates and withdraws, the counts beside each portfolio, the checkpoint
  that decides what has to be published again, and the operator's revocation. A publication writes the activity first. Of the
  performance section only the counts of the portfolios are kept. The columns of a row repeat parts of its content.
\<close>

section \<open>The content of a decision\<close>

record PublishedClaim =
  pbc_claim :: string
  pbc_source_type :: SourceType
  pbc_source_timestamp :: instant
  pbc_links :: "string list"

datatype post_role = TriggerPost | NarrativePost x_post_role

record PublishedPost =
  pbp_url :: string
  pbp_handle :: string
  pbp_role :: post_role
  pbp_summary :: "string option"

record DecisionContent =
  dc_public_id :: string
  dc_portfolio :: account_mode
  dc_created_at :: instant
  dc_ticker :: string
  dc_decision :: Decision
  dc_summary :: string
  dc_policy_outcome :: policy_outcome
  dc_schema_outcome :: schema_verdict
  dc_lifecycle :: lifecycle
  dc_regime :: RegimeState
  dc_theme :: "string option"
  dc_public_run_id :: "string option"
  dc_retry_attempt :: "int option"
  dc_company_name :: "string option"
  dc_proposed_target_weight :: pyfloat
  dc_final_target_weight :: pyfloat
  dc_claims :: "PublishedClaim list"
  dc_x_used :: bool
  dc_x_usage_type :: XSignalUsageType
  dc_x_summary :: string
  dc_x_confirmed :: bool
  dc_narrative :: "Projection option"
  dc_policy_evaluation :: "PolicyProjection option"
  dc_milestones :: "(trace_stage \<times> instant) list"
  dc_milestones_total :: nat
  dc_model_label :: "string option"
  dc_provenance :: "RunProvenance option"
  dc_current_weight :: "pyfloat option"
  dc_execution :: "ExecutionProjection option"
  dc_requested_order :: "BrokerExecutionRecord option"
  dc_sized_order :: "LiveExecutionPacket option"
  dc_extraordinary :: bool
  dc_extraordinary_summary :: "string option"
  dc_x_posts :: "PublishedPost list"

definition registered_refs :: "PublicationSource \<Rightarrow> string set" where
  "registered_refs s = set (map (\<lambda>w. psr_source_ref (srw_record w)) (px_sources s))"

definition decision_sources :: "PublicationSource \<Rightarrow> InvestmentDecisionRecord \<Rightarrow> (string \<times> PublicSource) list" where
  "decision_sources s r = sources_by (fst (created_at r)) (eligible_sources (px_sources s))"

text \<open>Of a claim only what it says publicly; its links are the pages that can be shown.\<close>

definition public_claim :: "PublicationSource \<Rightarrow> InvestmentDecisionRecord \<Rightarrow> SourceClaim \<Rightarrow> bool" where
  "public_claim s r c = (sc_public_safe c \<and> sc_source_type c \<noteq> INTERNAL_MEMO \<and>
     list_all (\<lambda>ref. ref \<notin> registered_refs s \<or> ref \<in> fst ` set (decision_sources s r)) (sc_source_ids c))"

definition publish_claim :: "(string \<Rightarrow> bool) \<Rightarrow> SourceClaim \<Rightarrow> PublishedClaim" where
  "publish_claim link_ok c = \<lparr>pbc_claim = sc_claim c, pbc_source_type = sc_source_type c,
     pbc_source_timestamp = sc_source_timestamp c, pbc_links = filter link_ok (sc_source_ids c)\<rparr>"

text \<open>The X post a digest-headline trigger points at.\<close>

definition trigger_post :: "PublicationSource \<Rightarrow> string option \<Rightarrow> PublishedPost option" where
  "trigger_post s trigger = (case find_row te_trigger_id (text_or trigger [])
       (filter (\<lambda>t. te_trigger_type t = ''digest_headline'') (rt_triggers (px_runtime s))) of
     None \<Rightarrow> None
   | Some t \<Rightarrow> (case te_details t of
       DigestHeadline _ _ url \<Rightarrow> map_option (\<lambda>(handle, i). \<lparr>pbp_url = x_post_url handle i, pbp_handle = handle,
         pbp_role = TriggerPost, pbp_summary = None\<rparr>) (canonical_x_post url)
     | _ \<Rightarrow> None))"

definition publish_post :: "ProjectedXPost \<Rightarrow> PublishedPost" where
  "publish_post p = \<lparr>pbp_url = pjx_url p, pbp_handle = pjx_handle p, pbp_role = NarrativePost (pjx_role p),
     pbp_summary = Some (pjx_summary p)\<rparr>"

fun merge_posts :: "PublishedPost option \<Rightarrow> ProjectedXPost list \<Rightarrow> PublishedPost list" where
  "merge_posts None ps = map publish_post ps"
| "merge_posts (Some t) ps = (let same = filter (\<lambda>p. pjx_url p = pbp_url t) ps in
     (if same = [] then t else t\<lparr>pbp_summary := Some (pjx_summary (last same))\<rparr>) #
       map publish_post (filter (\<lambda>p. pjx_url p \<noteq> pbp_url t) ps))"

text \<open>What a publication knows besides the source: the public run identifiers, the names of companies and the fills.\<close>

record PublicationContext =
  pcx_run_ids :: "(string \<times> string) list"
  pcx_names :: "((account_mode \<times> string) \<times> string) list"
  pcx_fills :: "((account_mode \<times> string) \<times> FillObservation) list"

definition fills_for :: "PublicationContext \<Rightarrow> account_mode \<Rightarrow> string \<Rightarrow> FillObservation list" where
  "fills_for ctx scope d = map snd (filter (\<lambda>(k, _). k = (scope, d)) (pcx_fills ctx))"

definition first_name :: "Projection option \<Rightarrow> string option \<Rightarrow> string option" where
  "first_name narrative known = (case narrative of None \<Rightarrow> known
   | Some n \<Rightarrow> if truthy (pj_company_name n) then pj_company_name n else known)"

definition decision_content :: "(string \<Rightarrow> string) \<Rightarrow> (string \<Rightarrow> bool) \<Rightarrow> PublicationContext \<Rightarrow> PublicationSource \<Rightarrow>
    account_mode \<Rightarrow> string \<Rightarrow> InvestmentDecisionRecord \<Rightarrow> DecisionContent" where
  "decision_content sha256 link_ok ctx s scope public_id r =
    (let d = decision_id r; intent = intent_of s d; evaluation = evaluation_of s d;
         events = statuses_of s d; labels = map se_status events;
         provenance = run_provenance sha256 (pcx_run_ids ctx) s d;
         narrative = narrative_projection sha256 (public_narrative r) (decision_sources s r) public_id;
         milestones = all_milestones s intent events
     in \<lparr>dc_public_id = public_id, dc_portfolio = scope, dc_created_at = fst (created_at r), dc_ticker = ticker r,
         dc_decision = decision r, dc_summary = public_summary r, dc_policy_outcome = policy_outcome_of labels,
         dc_schema_outcome = schema_outcome labels, dc_lifecycle = lifecycle_of s scope intent labels,
         dc_regime = regime_state r, dc_theme = (if truthy (primary_theme_id r) then primary_theme_id r else None),
         dc_public_run_id = (let p = Option.bind provenance rpv_public_run_id in
           if truthy p then p else legacy_run sha256 (pcx_run_ids ctx) s d),
         dc_retry_attempt = (case provenance of None \<Rightarrow> None
           | Some p \<Rightarrow> if 1 < rpv_attempt_number p then Some (rpv_attempt_number p) else None),
         dc_company_name = first_name narrative (map_of (pcx_names ctx) (scope, ticker r)),
         dc_proposed_target_weight = proposed_target_weight r, dc_final_target_weight = final_target_weight r,
         dc_claims = map (publish_claim link_ok) (filter (public_claim s r) (source_claims r)),
         dc_x_used = xu_used (x_signal_usage r), dc_x_usage_type = xu_usage_type (x_signal_usage r),
         dc_x_summary = text_or (Option.bind narrative pj_x_summary) [],
         dc_x_confirmed = xu_confirmed_outside_x (x_signal_usage r), dc_narrative = narrative,
         dc_policy_evaluation = policy_projection evaluation, dc_milestones = shown_milestones milestones,
         dc_milestones_total = length milestones,
         dc_model_label = (let m = map_option rpv_requested_model provenance in
           if truthy m then m else map_option rr_model_label (last_of (linked_runs s d))),
         dc_provenance = provenance,
         dc_current_weight = Option.bind evaluation (\<lambda>e. pi_current_weight (pe_input_identity e)),
         dc_execution = execution_projection (fills_for ctx scope d),
         dc_requested_order = Option.bind intent (\<lambda>i. requested_order s (oi_order_intent_id i)),
         dc_sized_order = Option.bind intent (\<lambda>i. sized_order s (oi_order_intent_id i)),
         dc_extraordinary = extraordinary_opportunity r,
         dc_extraordinary_summary = Option.bind narrative pj_extraordinary_opportunity_summary,
         dc_x_posts = merge_posts (trigger_post s (DecisionRecord.trigger_id r)) (case narrative of None \<Rightarrow> [] | Some n \<Rightarrow> pj_x_posts n)\<rparr>)"

text \<open>The entry of the feed shows the first 600 characters of the summary.\<close>

definition feed_summary :: "DecisionContent \<Rightarrow> string \<times> bool" where
  "feed_summary c = (take 600 (dc_summary c), 600 < length (dc_summary c))"

section \<open>Which decisions are published\<close>

definition evidence_missing :: "PublicationSource \<Rightarrow> InvestmentDecisionRecord \<Rightarrow> bool" where
  "evidence_missing s r = (case public_narrative r of None \<Rightarrow> False
   | Some n \<Rightarrow> pn_approved_for_publication n \<and>
       \<not> set (pn_required_source_refs n) \<subseteq> fst ` set (decision_sources s r))"

definition publishable :: "string list \<Rightarrow> PublicationSource \<Rightarrow> InvestmentDecisionRecord \<Rightarrow> account_mode option result" where
  "publishable live_profiles s r = and_then (decision_scope live_profiles s (decision_id r)) (\<lambda>scope.
     Inr (if blank (public_summary r) \<or> evidence_missing s r then None else scope))"

section \<open>The public store\<close>

record PublicRow =
  pwr_source_key :: string
  pwr_public_id :: string
  pwr_content :: DecisionContent
  pwr_revoked :: bool
  pwr_withdrawn :: bool

record DecisionCounts =
  dcn_approved :: nat
  dcn_rejected :: nat
  dcn_unavailable :: nat

record PortfolioCounts =
  pcn_decisions :: DecisionCounts
  pcn_date :: pydate
  pcn_today :: nat
  pcn_reviews :: nat

text \<open>The identity of a configuration: its digest stands for the profiles in order, the account and the capital.\<close>

record CheckedChanges =
  cg_source_id :: string
  cg_details :: int
  cg_performance :: int
  cg_activity :: int

record PublicationCheckpoint =
  ck_version :: int
  ck_clock :: "pydate \<times> pydate option"
  ck_identity :: "string list \<times> string option \<times> rat option"
  ck_changes :: "CheckedChanges option"

record PublicStore =
  pst_rows :: "PublicRow list"
  pst_rule_triggers :: "((string \<times> string) \<times> account_mode \<times> instant) list"
  pst_portfolios :: "(account_mode \<times> PortfolioCounts) list"
  pst_checkpoint :: "PublicationCheckpoint option"
  pst_activity :: ActivityStore
  pst_revision :: int
  pst_updated_at :: "instant option"

definition initialize_public :: PublicStore where
  "initialize_public = \<lparr>pst_rows = [], pst_rule_triggers = [], pst_portfolios = [], pst_checkpoint = None,
     pst_activity = empty_activity,     pst_revision = 0, pst_updated_at = None\<rparr>"

definition visible :: "PublicRow \<Rightarrow> bool" where
  "visible w = (\<not> pwr_revoked w \<and> \<not> pwr_withdrawn w)"

definition shown_in :: "account_mode \<Rightarrow> PublicRow list \<Rightarrow> PublicRow list" where
  "shown_in scope rows = filter (\<lambda>w. dc_portfolio (pwr_content w) = scope \<and> visible w) rows"

definition count_outcome :: "policy_outcome \<Rightarrow> PublicRow list \<Rightarrow> nat" where
  "count_outcome p rows = length (filter (\<lambda>w. dc_policy_outcome (pwr_content w) = p) rows)"

definition decision_counts :: "account_mode \<Rightarrow> PublicRow list \<Rightarrow> DecisionCounts" where
  "decision_counts scope rows = \<lparr>dcn_approved = count_outcome PolicyApproved (shown_in scope rows),
     dcn_rejected = count_outcome PolicyRejected (shown_in scope rows),
     dcn_unavailable = count_outcome PolicyUnavailable (shown_in scope rows)\<rparr>"

definition decisions_today :: "account_mode \<Rightarrow> pydate \<Rightarrow> PublicRow list \<Rightarrow> nat" where
  "decisions_today scope day rows = length (filter (\<lambda>w. ny_combine day 0 \<le> dc_created_at (pwr_content w) \<and>
     dc_created_at (pwr_content w) < ny_combine (day + 1) 0) (shown_in scope rows))"

section \<open>Revocation\<close>

definition count_again :: "account_mode \<Rightarrow> pydate \<Rightarrow> PublicRow list \<Rightarrow> PortfolioCounts \<Rightarrow> PortfolioCounts" where
  "count_again scope day rows p = p\<lparr>pcn_decisions := decision_counts scope rows, pcn_date := day,
     pcn_today := decisions_today scope day rows\<rparr>"

definition revoke :: "string \<Rightarrow> instant \<Rightarrow> PublicStore \<Rightarrow> PublicStore \<times> bool" where
  "revoke public_id now st = (case find (\<lambda>w. pwr_public_id w = public_id \<and> \<not> pwr_revoked w) (pst_rows st) of
     None \<Rightarrow> (st, False)
   | Some w \<Rightarrow> let scope = dc_portfolio (pwr_content w);
         rows = map (\<lambda>v. if pwr_public_id v = public_id then v\<lparr>pwr_revoked := True\<rparr> else v) (pst_rows st) in
       (st\<lparr>pst_rows := rows,
          pst_portfolios := map (\<lambda>(m, p). (m, if m = scope then count_again scope (ny_date now) rows p else p))
            (pst_portfolios st),
          pst_revision := pst_revision st + 1, pst_updated_at := Some now\<rparr>, True))"

section \<open>One decision\<close>

record PublishCounts =
  pbn_inserted :: nat
  pbn_updated :: nat
  pbn_withdrawn :: nat

record PublishState =
  pub_store :: PublicStore
  pub_counts :: PublishCounts
  pub_seen :: "string list"

definition failed_rules :: "PolicyEvaluationRecord option \<Rightarrow> string \<Rightarrow> account_mode \<Rightarrow>
    ((string \<times> string) \<times> account_mode \<times> instant) list" where
  "failed_rules evaluation public_id scope = (case evaluation of None \<Rightarrow> []
   | Some e \<Rightarrow> map (\<lambda>c. ((rc_rule_id c, public_id), scope, pe_evaluated_at e))
       (filter (\<lambda>c. rc_result c = failed) (pe_checks e)))"

definition replace_triggers :: "string \<Rightarrow> ((string \<times> string) \<times> account_mode \<times> instant) list \<Rightarrow> PublicStore \<Rightarrow>
    PublicStore result" where
  "replace_triggers public_id ts st = (if \<not> distinct (map fst ts) then Inl IntegrityError
     else Inr (st\<lparr>pst_rule_triggers := filter (\<lambda>((_, i), _). i \<noteq> public_id) (pst_rule_triggers st) @ ts\<rparr>))"

definition store_decision :: "string \<Rightarrow> DecisionContent \<Rightarrow> PublicStore \<Rightarrow> PublishCounts \<Rightarrow>
    (PublicStore \<times> PublishCounts) result" where
  "store_decision key c st n = (case find_row pwr_source_key key (pst_rows st) of
     Some w \<Rightarrow> if pwr_content w = c \<and> \<not> pwr_withdrawn w then Inr (st, n)
       else Inr (st\<lparr>pst_rows := map (\<lambda>v. if pwr_source_key v = key
           then v\<lparr>pwr_content := c, pwr_withdrawn := False\<rparr> else v) (pst_rows st)\<rparr>,
         n\<lparr>pbn_updated := pbn_updated n + 1\<rparr>)
   | None \<Rightarrow> if find_row pwr_public_id (dc_public_id c) (pst_rows st) \<noteq> None then Inl IntegrityError
       else Inr (st\<lparr>pst_rows := pst_rows st @ [\<lparr>pwr_source_key = key, pwr_public_id = dc_public_id c, pwr_content = c,
           pwr_revoked = False, pwr_withdrawn = False\<rparr>]\<rparr>, n\<lparr>pbn_inserted := pbn_inserted n + 1\<rparr>))"

definition publish_decision :: "(string \<Rightarrow> string) \<Rightarrow> (string \<Rightarrow> bool) \<Rightarrow> (string \<Rightarrow> string) \<Rightarrow> string list \<Rightarrow>
    PublicationContext \<Rightarrow> PublicationSource \<Rightarrow> InvestmentDecisionRecord \<Rightarrow> PublishState \<Rightarrow> PublishState result" where
  "publish_decision sha256 link_ok fresh live_profiles ctx s r x =
     and_then (publishable live_profiles s r) (\<lambda>scope. case scope of None \<Rightarrow> Inr x
     | Some scope \<Rightarrow> let key = sha256 (decision_id r);
           public_id = (case find_row pwr_source_key key (pst_rows (pub_store x)) of
             None \<Rightarrow> ''dec_'' @ fresh key | Some w \<Rightarrow> pwr_public_id w);
           c = decision_content sha256 link_ok ctx s scope public_id r in
         and_then (replace_triggers public_id (failed_rules (evaluation_of s (decision_id r)) public_id scope)
           (pub_store x)) (\<lambda>st.
         and_then (store_decision key c st (pub_counts x)) (\<lambda>(st', n).
           Inr \<lparr>pub_store = st', pub_counts = n, pub_seen = key # pub_seen x\<rparr>)))"

section \<open>Withdrawal and counts\<close>

definition withdraw_unseen :: "string list \<Rightarrow> PublishState \<Rightarrow> PublishState" where
  "withdraw_unseen keys x =
     (let gone = (\<lambda>w. pwr_source_key w \<in> set keys \<and> pwr_source_key w \<notin> set (pub_seen x) \<and> \<not> pwr_withdrawn w);
          rows = pst_rows (pub_store x) in
      x\<lparr>pub_store := (pub_store x)\<lparr>pst_rows := map (\<lambda>w. if gone w then w\<lparr>pwr_withdrawn := True\<rparr> else w) rows\<rparr>,
        pub_counts := (pub_counts x)\<lparr>pbn_withdrawn := pbn_withdrawn (pub_counts x) + length (filter gone rows)\<rparr>\<rparr>)"

definition stamp_revision :: "instant \<Rightarrow> PublishState \<Rightarrow> PublishState" where
  "stamp_revision now x = x\<lparr>pub_store := (pub_store x)\<lparr>
     pst_revision := pst_revision (pub_store x) +
       (if 0 < pbn_updated (pub_counts x) \<or> 0 < pbn_withdrawn (pub_counts x) then 1 else 0),
     pst_updated_at := Some now\<rparr>\<rparr>"

definition reviews_today :: "account_mode \<Rightarrow> pydate \<Rightarrow> ActivityStore \<Rightarrow> nat" where
  "reviews_today scope day a = length (filter (\<lambda>w. acr_portfolio w = scope \<and> ai_session_date (acr_content w) = day) (as_rows a))"

definition portfolio_counts :: "account_mode \<Rightarrow> pydate \<Rightarrow> PublicStore \<Rightarrow> PortfolioCounts" where
  "portfolio_counts scope day st = \<lparr>pcn_decisions = decision_counts scope (pst_rows st), pcn_date = day,
     pcn_today = decisions_today scope day (pst_rows st), pcn_reviews = reviews_today scope day (pst_activity st)\<rparr>"

text \<open>The portfolios there are get new counts; a publication of the performance writes both.\<close>

definition recount :: "bool \<Rightarrow> pydate \<Rightarrow> PublicStore \<Rightarrow> PublicStore" where
  "recount performance day st = st\<lparr>pst_portfolios := (if performance
     then map (\<lambda>m. (m, portfolio_counts m day st)) [LiveMode, PaperMode]
     else map (\<lambda>(m, _). (m, portfolio_counts m day st)) (pst_portfolios st))\<rparr>"

section \<open>A publication\<close>

record PublicationConfig =
  cfg_live_profiles :: "string list"
  cfg_live_account_id :: "string option"
  cfg_contributed_capital :: "rat option"

definition accounting_clock :: "instant \<Rightarrow> pydate \<times> pydate option" where
  "accounting_clock now = (ny_date now, case completed_session now of Inl _ \<Rightarrow> None | Inr d \<Rightarrow> Some d)"

definition checked_changes :: "PublicationChanges \<Rightarrow> CheckedChanges" where
  "checked_changes c = \<lparr>cg_source_id = ch_source_id c, cg_details = ch_details c, cg_performance = ch_performance c,
     cg_activity = ch_activity c\<rparr>"

definition checkpoint_of :: "PublicationConfig \<Rightarrow> instant \<Rightarrow> PublicationChanges option \<Rightarrow> PublicationCheckpoint" where
  "checkpoint_of cfg now changes = \<lparr>ck_version = 15, ck_clock = accounting_clock now,
     ck_identity = (sort (cfg_live_profiles cfg), cfg_live_account_id cfg, cfg_contributed_capital cfg),
     ck_changes = map_option checked_changes changes\<rparr>"

definition counters_grew :: "CheckedChanges \<Rightarrow> CheckedChanges \<Rightarrow> bool" where
  "counters_grew a b = (cg_source_id a = cg_source_id b \<and> cg_details a \<le> cg_details b \<and>
     cg_performance a \<le> cg_performance b \<and> cg_activity a \<le> cg_activity b)"

definition same_configuration :: "PublicationCheckpoint option \<Rightarrow> PublicationCheckpoint \<Rightarrow> bool" where
  "same_configuration previous cur = (case (previous, ck_changes cur) of
     (Some p, Some b) \<Rightarrow> ck_version p = ck_version cur \<and> ck_identity p = ck_identity cur \<and>
       (case ck_changes p of None \<Rightarrow> False | Some a \<Rightarrow> counters_grew a b)
   | _ \<Rightarrow> False)"

definition only_activity :: "PublicationCheckpoint option \<Rightarrow> PublicationCheckpoint \<Rightarrow> bool" where
  "only_activity previous cur = (case (previous, ck_changes cur) of
     (Some p, Some b) \<Rightarrow> ck_version p = ck_version cur \<and> ck_identity p = ck_identity cur \<and>
       (case ck_changes p of None \<Rightarrow> False
        | Some a \<Rightarrow> cg_source_id a = cg_source_id b \<and> cg_details a = cg_details b \<and> cg_performance a = cg_performance b) \<and>
       ck_clock p = ck_clock cur
   | _ \<Rightarrow> False)"

text \<open>
  The revision of the details up to which everything is published already: then only what was stamped later is looked
  at again. \<open>None\<close> is a publication of all decisions.
\<close>

definition partial_since :: "PublicationCheckpoint option \<Rightarrow> PublicationCheckpoint \<Rightarrow> PublicationChanges option \<Rightarrow> int option" where
  "partial_since previous cur changes = (if \<not> same_configuration previous cur then None
     else (case (Option.bind previous ck_changes, changes) of
       (Some a, Some c) \<Rightarrow> if ch_rebuild c \<le> cg_details a then Some (cg_details a) else None
     | _ \<Rightarrow> None))"

definition performance_changed :: "PublicationCheckpoint option \<Rightarrow> PublicationCheckpoint \<Rightarrow> bool" where
  "performance_changed previous cur = (\<not> same_configuration previous cur \<or> (case previous of None \<Rightarrow> True
   | Some p \<Rightarrow> map_option cg_performance (ck_changes p) \<noteq> map_option cg_performance (ck_changes cur) \<or>
       ck_clock p \<noteq> ck_clock cur))"

definition changed_decisions :: "PublicationChanges \<Rightarrow> int \<Rightarrow> string list" where
  "changed_decisions c since = map fst (filter (\<lambda>(_, revision). since < revision) (ch_decisions c))"

definition selected_decisions :: "PublicationSource \<Rightarrow> PublicationChanges option \<Rightarrow> int option \<Rightarrow>
    InvestmentDecisionRecord list" where
  "selected_decisions s changes since = (case (since, changes) of
     (Some n, Some c) \<Rightarrow> filter (\<lambda>r. decision_id r \<in> set (changed_decisions c n)) (decision_records (px_core s))
   | _ \<Rightarrow> decision_records (px_core s))"

definition withdrawal_keys :: "(string \<Rightarrow> string) \<Rightarrow> PublicationChanges option \<Rightarrow> int option \<Rightarrow> PublicStore \<Rightarrow> string list" where
  "withdrawal_keys sha256 changes since st = (case (since, changes) of
     (Some n, Some c) \<Rightarrow> map sha256 (changed_decisions c n)
   | _ \<Rightarrow> map pwr_source_key (filter (\<lambda>w. \<not> pwr_withdrawn w) (pst_rows st)))"

definition profile_fingerprints :: "string list \<Rightarrow> PublicationSource \<Rightarrow> string list" where
  "profile_fingerprints live_profiles s = remdups (map ls_broker_account_fingerprint
     (filter (\<lambda>p. ls_execution_profile_id p \<in> set live_profiles) (live_portfolio_snapshots (px_core s))))"

definition reporting_account :: "PublicationConfig \<Rightarrow> PublicationSource \<Rightarrow> string option result" where
  "reporting_account cfg s = (let fingerprints = profile_fingerprints (cfg_live_profiles cfg) s in
     if 1 < length fingerprints then Inl (ValueError ''live profiles map to multiple accounts'')
     else if truthy (cfg_live_account_id cfg) \<and> fingerprints \<noteq> [] \<and> [the (cfg_live_account_id cfg)] \<noteq> fingerprints
       then Inl (ValueError ''explicit live account does not match profile snapshots'')
     else Inr (if truthy (cfg_live_account_id cfg) then cfg_live_account_id cfg
       else (case fingerprints of [] \<Rightarrow> None | f # _ \<Rightarrow> Some f)))"

definition live_observations :: "PublicationSource \<Rightarrow> string option \<Rightarrow> ReportingObservation list" where
  "live_observations s account_id = (if truthy account_id
     then current_observations (px_core s) LiveMode (the account_id) else [])"

definition stored_names :: "account_mode \<Rightarrow> ReportingObservation list \<Rightarrow> ((account_mode \<times> string) \<times> string) list" where
  "stored_names m observations = concat (map (\<lambda>x. case x of
     Valuation v \<Rightarrow> (case vo_positions v of None \<Rightarrow> [] | Some ps \<Rightarrow> List.map_filter (\<lambda>p.
       if truthy (rp_name p) then Some ((m, rp_ticker p), the (rp_name p)) else None) ps)
   | _ \<Rightarrow> []) observations)"

definition decision_fills :: "account_mode \<Rightarrow> ReportingObservation list \<Rightarrow>
    ((account_mode \<times> string) \<times> FillObservation) list" where
  "decision_fills m observations = List.map_filter (\<lambda>x. case x of
     Fill f \<Rightarrow> if truthy (fi_decision_id f) then Some ((m, the (fi_decision_id f)), f) else None
   | _ \<Rightarrow> None) observations"

text \<open>Without stored observations the paper account is reconstructed, unless that meets a problem.\<close>

definition paper_reporting :: "PublicationSource \<Rightarrow> instant \<Rightarrow> ReportingObservation list \<Rightarrow> ReportingObservation list result" where
  "paper_reporting s now stored = (if stored \<noteq> [] then Inr stored
     else and_then (paper_observations (px_paper s) now) (\<lambda>(observations, issue).
       Inr (if truthy issue then [] else observations)))"

definition publication_context :: "PublicationConfig \<Rightarrow> PublicationSource \<Rightarrow> instant \<Rightarrow> (string \<times> string) list \<Rightarrow>
    PublicationContext result" where
  "publication_context cfg s now run_ids =
     and_then (reporting_account cfg s) (\<lambda>account_id.
     let live = live_observations s account_id; stored = current_observations (px_core s) PaperMode ''paper'' in
     and_then (paper_reporting s now stored) (\<lambda>paper.
     Inr \<lparr>pcx_run_ids = run_ids, pcx_names = rev (stored_names LiveMode live @ stored_names PaperMode stored),
       pcx_fills = decision_fills LiveMode live @ decision_fills PaperMode paper\<rparr>))"

definition publish_details :: "(string \<Rightarrow> string) \<Rightarrow> (string \<Rightarrow> bool) \<Rightarrow> (string \<Rightarrow> string) \<Rightarrow> PublicationConfig \<Rightarrow> instant \<Rightarrow>
    PublicationSource \<Rightarrow> PublicationChanges option \<Rightarrow> int option \<Rightarrow> bool \<Rightarrow> PublicStore \<Rightarrow>
    (PublicStore \<times> PublishCounts) result" where
  "publish_details sha256 link_ok fresh cfg now s changes since performance st =
     and_then (publication_context cfg s now (as_run_ids (pst_activity st))) (\<lambda>ctx.
     and_then (fold_result (publish_decision sha256 link_ok fresh (cfg_live_profiles cfg) ctx s)
       (selected_decisions s changes since)
       \<lparr>pub_store = st, pub_counts = \<lparr>pbn_inserted = 0, pbn_updated = 0, pbn_withdrawn = 0\<rparr>, pub_seen = []\<rparr>) (\<lambda>x.
     let y = stamp_revision now (withdraw_unseen (withdrawal_keys sha256 changes since (pub_store x)) x) in
     Inr (recount performance (ny_date now) (pub_store y), pub_counts y)))"

text \<open>Nothing changed, only the activity did, or the decisions are published too.\<close>

definition activity_since :: "PublicationCheckpoint option \<Rightarrow> PublicationCheckpoint \<Rightarrow> int option" where
  "activity_since previous cur = (if same_configuration previous cur
     then map_option cg_activity (Option.bind previous ck_changes) else None)"

definition publish :: "(string \<Rightarrow> string) \<Rightarrow> (string \<Rightarrow> bool) \<Rightarrow> (string \<Rightarrow> string) \<Rightarrow> PublicationConfig \<Rightarrow> bool \<Rightarrow> instant \<Rightarrow>
    PublicationSource \<Rightarrow> PublicationChanges option \<Rightarrow> PublicStore \<Rightarrow> (PublicStore \<times> PublishCounts) result" where
  "publish sha256 link_ok fresh cfg rebuild now s changes st =
     (let previous = (if rebuild then None else pst_checkpoint st); cur = checkpoint_of cfg now changes;
          none = \<lparr>pbn_inserted = 0, pbn_updated = 0, pbn_withdrawn = 0\<rparr>
      in if changes \<noteq> None \<and> previous = Some cur then Inr (st, none)
         else and_then (publish_activity sha256 link_ok fresh (cfg_live_profiles cfg) now s
             (case changes of None \<Rightarrow> initialize_changes [] | Some c \<Rightarrow> c) (activity_since previous cur) (pst_activity st)) (\<lambda>a.
           let st1 = st\<lparr>pst_activity := a, pst_checkpoint := Some cur\<rparr> in
           if only_activity previous cur then Inr (st1\<lparr>pst_updated_at := Some now\<rparr>, none)
           else publish_details sha256 link_ok fresh cfg now s changes (partial_since previous cur changes)
             (performance_changed previous cur) st1))"

end
