(* ===== verification/PublicProperties.thy ===== *)
theory PublicProperties
  imports PublicStore
begin

text \<open>
  What the public store guarantees over any sequence of publications and revocations, what a publication of all
  decisions leaves visible, and why one that looks only at what changed misses nothing.
\<close>

section \<open>The steps\<close>

inductive public_step :: "(string \<Rightarrow> string) \<Rightarrow> PublicStore \<Rightarrow> PublicStore \<Rightarrow> bool" for sha256 where
  published: "publish sha256 link_ok fresh cfg rebuild now s changes st = Inr (st', n) \<Longrightarrow>
    public_step sha256 st st'"
| revoked: "revoke public_id now st = (st', changed) \<Longrightarrow> public_step sha256 st st'"

inductive public_steps :: "(string \<Rightarrow> string) \<Rightarrow> PublicStore \<Rightarrow> PublicStore \<Rightarrow> bool" for sha256 where
  stay: "public_steps sha256 st st"
| go: "public_steps sha256 st st' \<Longrightarrow> public_step sha256 st' st'' \<Longrightarrow> public_steps sha256 st st''"

definition rows_ok :: "PublicRow list \<Rightarrow> bool" where
  "rows_ok rows = (distinct (map pwr_source_key rows) \<and> distinct (map pwr_public_id rows) \<and>
     (\<forall>w\<in>set rows. dc_public_id (pwr_content w) = pwr_public_id w))"

definition counts_ok :: "PublicStore \<Rightarrow> bool" where
  "counts_ok st = (\<forall>(m, p)\<in>set (pst_portfolios st). pcn_decisions p = decision_counts m (pst_rows st))"

text \<open>A row keeps its key and its public identifier for good, and stays revoked once it is.\<close>

definition keeps_rows :: "PublicRow list \<Rightarrow> PublicRow list \<Rightarrow> bool" where
  "keeps_rows rows rows' = (\<forall>w\<in>set rows. \<exists>w'\<in>set rows'. pwr_source_key w' = pwr_source_key w \<and>
     pwr_public_id w' = pwr_public_id w \<and> (pwr_revoked w \<longrightarrow> pwr_revoked w'))"

lemma keeps_rows_refl [simp]: "keeps_rows rows rows"
  by (auto simp: keeps_rows_def)

lemma keeps_rows_trans: "keeps_rows a b \<Longrightarrow> keeps_rows b c \<Longrightarrow> keeps_rows a c"
  unfolding keeps_rows_def by (metis (no_types, opaque_lifting))

lemma keeps_rows_map:
  "(\<And>w. pwr_source_key (f w) = pwr_source_key w \<and> pwr_public_id (f w) = pwr_public_id w \<and>
     (pwr_revoked w \<longrightarrow> pwr_revoked (f w))) \<Longrightarrow> keeps_rows rows (map f rows)"
  by (force simp: keeps_rows_def)

lemma rows_ok_map:
  assumes "rows_ok rows" "\<And>w. pwr_source_key (f w) = pwr_source_key w \<and> pwr_public_id (f w) = pwr_public_id w"
    and "\<And>w. w \<in> set rows \<Longrightarrow> dc_public_id (pwr_content (f w)) = pwr_public_id w"
  shows "rows_ok (map f rows)"
  using assms by (simp add: rows_ok_def comp_def)

section \<open>Publishing a decision\<close>

lemma replace_triggers_rows:
  "replace_triggers i ts st = Inr st' \<Longrightarrow> pst_rows st' = pst_rows st \<and> pst_portfolios st' = pst_portfolios st"
  by (auto simp: replace_triggers_def split: if_splits)

lemma store_decision_rows:
  assumes "store_decision key c st n = Inr (st', n')" "rows_ok (pst_rows st)"
    and "\<And>w. find_row pwr_source_key key (pst_rows st) = Some w \<Longrightarrow> dc_public_id c = pwr_public_id w"
  shows "rows_ok (pst_rows st') \<and> keeps_rows (pst_rows st) (pst_rows st') \<and> pst_portfolios st' = pst_portfolios st"
proof (cases "find_row pwr_source_key key (pst_rows st)")
  case None
  then have "key \<notin> pwr_source_key ` set (pst_rows st)" by (auto simp: find_row_def find_None_iff)
  moreover from None assms(1) have "find_row pwr_public_id (dc_public_id c) (pst_rows st) = None"
    by (auto simp: store_decision_def split: if_splits)
  then have "dc_public_id c \<notin> pwr_public_id ` set (pst_rows st)" by (auto simp: find_row_def find_None_iff)
  ultimately show ?thesis using None assms(1,2) by (auto simp: store_decision_def rows_ok_def keeps_rows_def split: if_splits)
next
  case (Some w)
  let ?f = "\<lambda>v. if pwr_source_key v = key then v\<lparr>pwr_content := c, pwr_withdrawn := False\<rparr> else v"
  have same: "v = w" if "v \<in> set (pst_rows st)" "pwr_source_key v = key" for v
    using find_row_Some [OF Some] that assms(2) by (auto simp: rows_ok_def distinct_map inj_on_def)
  have "rows_ok (map ?f (pst_rows st))"
    by (rule rows_ok_map [OF assms(2)]) (use same assms(2) assms(3) [OF Some] in \<open>auto simp: rows_ok_def\<close>)
  moreover have "keeps_rows (pst_rows st) (map ?f (pst_rows st))" by (rule keeps_rows_map) simp
  ultimately show ?thesis using Some assms(1,2) by (auto simp: store_decision_def split: if_splits)
qed

lemma publish_decision_cases:
  assumes "publish_decision sha256 link_ok fresh ps ctx s r x = Inr y"
  obtains "publishable ps s r = Inr None" "y = x"
  | scope public_id st where "publishable ps s r = Inr (Some scope)"
    "public_id = (case find_row pwr_source_key (sha256 (decision_id r)) (pst_rows (pub_store x)) of
       None \<Rightarrow> ''dec_'' @ fresh (sha256 (decision_id r)) | Some w \<Rightarrow> pwr_public_id w)"
    "pst_rows st = pst_rows (pub_store x)" "pst_portfolios st = pst_portfolios (pub_store x)"
    "store_decision (sha256 (decision_id r)) (decision_content sha256 link_ok ctx s scope public_id r) st (pub_counts x) =
       Inr (pub_store y, pub_counts y)"
    "pub_seen y = sha256 (decision_id r) # pub_seen x"
proof -
  from assms obtain found where f: "publishable ps s r = Inr found"
    by (auto simp: publish_decision_def result_simps)
  show ?thesis
  proof (cases found)
    case None
    then show ?thesis using assms f that(1) by (simp add: publish_decision_def)
  next
    case (Some scope)
    then show ?thesis using assms f that(2) replace_triggers_rows
      by (force simp: publish_decision_def Let_def result_simps)
  qed
qed

lemma decision_content_id [simp]: "dc_public_id (decision_content sha256 link_ok ctx s scope i r) = i"
  by (simp add: decision_content_def Let_def)

lemma publish_decision_rows:
  assumes "publish_decision sha256 link_ok fresh ps ctx s r x = Inr y" "rows_ok (pst_rows (pub_store x))"
  shows "rows_ok (pst_rows (pub_store y)) \<and> keeps_rows (pst_rows (pub_store x)) (pst_rows (pub_store y)) \<and>
    pst_portfolios (pub_store y) = pst_portfolios (pub_store x)"
  using assms(1)
proof (cases rule: publish_decision_cases)
  case 1
  then show ?thesis using assms(2) by simp
next
  case (2 scope public_id st)
  show ?thesis using store_decision_rows [OF 2(5)] 2(2-4) assms(2) by simp
qed

lemma publish_fold_rows:
  assumes "fold_result (publish_decision sha256 link_ok fresh ps ctx s) rs x = Inr y" "rows_ok (pst_rows (pub_store x))"
  shows "rows_ok (pst_rows (pub_store y)) \<and> keeps_rows (pst_rows (pub_store x)) (pst_rows (pub_store y))"
  using assms
proof (induction rs arbitrary: x)
  case (Cons r rs)
  then obtain z where z: "publish_decision sha256 link_ok fresh ps ctx s r x = Inr z"
    "fold_result (publish_decision sha256 link_ok fresh ps ctx s) rs z = Inr y" by (auto simp: result_simps)
  from publish_decision_rows [OF z(1) Cons.prems(2)] Cons.IH [OF z(2)] show ?case by (blast intro: keeps_rows_trans)
qed simp

lemma publish_decision_activity:
  "publish_decision sha256 link_ok fresh ps ctx s r x = Inr y \<Longrightarrow> pst_activity (pub_store y) = pst_activity (pub_store x)"
  by (auto simp: publish_decision_def replace_triggers_def store_decision_def Let_def result_simps
      split: option.splits if_splits)

lemma publish_fold_activity:
  "fold_result (publish_decision sha256 link_ok fresh ps ctx s) rs x = Inr y \<Longrightarrow>
     pst_activity (pub_store y) = pst_activity (pub_store x)"
  by (induction rs arbitrary: x) (auto simp: result_simps dest: publish_decision_activity)

lemma publish_details_activity:
  assumes "publish_details sha256 link_ok fresh cfg now s changes since performance st = Inr (st', n)"
  shows "pst_activity st' = pst_activity st"
  using assms by (auto simp: publish_details_def recount_def stamp_revision_def withdraw_unseen_def Let_def result_simps
      dest: publish_fold_activity)

section \<open>The other steps\<close>

lemma withdraw_rows:
  assumes "rows_ok (pst_rows (pub_store x))"
  shows "rows_ok (pst_rows (pub_store (withdraw_unseen keys x))) \<and>
    keeps_rows (pst_rows (pub_store x)) (pst_rows (pub_store (withdraw_unseen keys x)))"
  using assms unfolding withdraw_unseen_def Let_def
  by (auto intro!: keeps_rows_map rows_ok_map) (auto simp: rows_ok_def)

lemma recount_counts: "counts_ok (recount performance day st)"
  by (auto simp: counts_ok_def recount_def portfolio_counts_def)

lemma publish_details_rows:
  assumes "publish_details sha256 link_ok fresh cfg now s changes since performance st = Inr (st', n)"
    and "rows_ok (pst_rows st)"
  shows "rows_ok (pst_rows st') \<and> keeps_rows (pst_rows st) (pst_rows st') \<and> counts_ok st'"
proof -
  from assms(1) obtain ctx x where x: "fold_result (publish_decision sha256 link_ok fresh (cfg_live_profiles cfg) ctx s)
      (selected_decisions s changes since)
      \<lparr>pub_store = st, pub_counts = \<lparr>pbn_inserted = 0, pbn_updated = 0, pbn_withdrawn = 0\<rparr>, pub_seen = []\<rparr> = Inr x"
    and st': "st' = recount performance (ny_date now)
      (pub_store (stamp_revision now (withdraw_unseen (withdrawal_keys sha256 changes since (pub_store x)) x)))"
    by (auto simp: publish_details_def Let_def result_simps)
  have rows: "pst_rows st' = pst_rows (pub_store (withdraw_unseen (withdrawal_keys sha256 changes since (pub_store x)) x))"
    by (simp add: st' recount_def stamp_revision_def)
  from publish_fold_rows [OF x] assms(2) have "rows_ok (pst_rows (pub_store x)) \<and> keeps_rows (pst_rows st) (pst_rows (pub_store x))"
    by simp
  then show ?thesis using withdraw_rows rows recount_counts st' by (metis keeps_rows_trans)
qed

lemma publish_rows:
  assumes "publish sha256 link_ok fresh cfg rebuild now s changes st = Inr (st', n)"
    and "rows_ok (pst_rows st)" "counts_ok st"
  shows "rows_ok (pst_rows st') \<and> keeps_rows (pst_rows st) (pst_rows st') \<and> counts_ok st'"
proof -
  have "counts_ok (st\<lparr>pst_activity := a, pst_checkpoint := c, pst_updated_at := t\<rparr>)" for a c t
    using assms(3) by (simp add: counts_ok_def)
  then show ?thesis using assms publish_details_rows [of sha256 link_ok fresh cfg now s changes _ _
      "st\<lparr>pst_activity := _, pst_checkpoint := Some (checkpoint_of cfg now changes)\<rparr>"]
    by (auto simp: publish_def Let_def result_simps split: if_splits)
qed

lemma revoke_rows:
  assumes "revoke i now st = (st', b)" "rows_ok (pst_rows st)" "counts_ok st"
  shows "rows_ok (pst_rows st') \<and> keeps_rows (pst_rows st) (pst_rows st') \<and> counts_ok st'"
proof (cases "find (\<lambda>w. pwr_public_id w = i \<and> \<not> pwr_revoked w) (pst_rows st)")
  case None
  then show ?thesis using assms by (simp add: revoke_def)
next
  case (Some w)
  let ?f = "\<lambda>v. if pwr_public_id v = i then v\<lparr>pwr_revoked := True\<rparr> else v"
  let ?scope = "dc_portfolio (pwr_content w)"
  have w: "w \<in> set (pst_rows st)" "pwr_public_id w = i" using Some by (auto simp: find_Some_iff)
  have rows: "pst_rows st' = map ?f (pst_rows st)" and portfolios: "pst_portfolios st' = map (\<lambda>(m, p).
      (m, if m = ?scope then count_again ?scope (ny_date now) (pst_rows st') p else p)) (pst_portfolios st)"
    using assms(1) Some by (auto simp: revoke_def Let_def)
  have "v = w" if "v \<in> set (pst_rows st)" "pwr_public_id v = i" for v
    using that w assms(2) by (auto simp: rows_ok_def distinct_map inj_on_def)
  then have "filter (\<lambda>v. dc_portfolio (pwr_content v) = m \<and> visible v) (map ?f vs) =
      filter (\<lambda>v. dc_portfolio (pwr_content v) = m \<and> visible v) vs"
    if "m \<noteq> ?scope" "set vs \<subseteq> set (pst_rows st)" for m vs
    using that by (induction vs) auto
  then have "decision_counts m (pst_rows st') = decision_counts m (pst_rows st)" if "m \<noteq> ?scope" for m
    using that by (simp add: decision_counts_def shown_in_def rows)
  then have "counts_ok st'" using assms(3) by (auto simp: counts_ok_def portfolios count_again_def)
  moreover have "rows_ok (map ?f (pst_rows st))"
    by (rule rows_ok_map [OF assms(2)]) (use assms(2) in \<open>auto simp: rows_ok_def\<close>)
  moreover have "keeps_rows (pst_rows st) (map ?f (pst_rows st))" by (rule keeps_rows_map) simp
  ultimately show ?thesis by (simp add: rows)
qed

lemma public_steps_ok:
  assumes "public_steps sha256 st st'" "rows_ok (pst_rows st)" "counts_ok st"
  shows "rows_ok (pst_rows st') \<and> keeps_rows (pst_rows st) (pst_rows st') \<and> counts_ok st'"
  using assms
proof (induction rule: public_steps.induct)
  case (go st st' st'')
  then have ok: "rows_ok (pst_rows st')" "counts_ok st'" "keeps_rows (pst_rows st) (pst_rows st')" by auto
  from go.hyps(2) ok have "rows_ok (pst_rows st'') \<and> keeps_rows (pst_rows st') (pst_rows st'') \<and> counts_ok st''"
    by (cases rule: public_step.cases) (metis publish_rows, metis revoke_rows)
  then show ?case using ok(3) keeps_rows_trans by blast
qed simp

lemma initialize_public_ok: "rows_ok (pst_rows initialize_public) \<and> counts_ok initialize_public"
  by (simp add: initialize_public_def rows_ok_def counts_ok_def)

text \<open>
  C35. However publications and revocations follow each other, a decision keeps the public identifier it was given, no
  two decisions share one, what was revoked never becomes visible again, and the counts beside every portfolio are
  those of its visible decisions.
\<close>

theorem revoked_stays_revoked:
  assumes "public_steps sha256 initialize_public st" "public_steps sha256 st st'"
  shows "distinct (map pwr_source_key (pst_rows st')) \<and> distinct (map pwr_public_id (pst_rows st')) \<and>
    (\<forall>w\<in>set (pst_rows st). \<exists>w'\<in>set (pst_rows st'). pwr_source_key w' = pwr_source_key w \<and>
       pwr_public_id w' = pwr_public_id w \<and> (pwr_revoked w \<longrightarrow> \<not> visible w')) \<and>
    (\<forall>(m, p)\<in>set (pst_portfolios st'). pcn_decisions p = decision_counts m (pst_rows st'))"
proof -
  note ok = public_steps_ok [OF assms(1) conjunct1 [OF initialize_public_ok] conjunct2 [OF initialize_public_ok]]
  have "rows_ok (pst_rows st') \<and> keeps_rows (pst_rows st) (pst_rows st') \<and> counts_ok st'"
    using public_steps_ok [OF assms(2)] ok by blast
  then show ?thesis unfolding rows_ok_def keeps_rows_def counts_ok_def visible_def by blast
qed

section \<open>What a publication of all decisions shows\<close>

definition shows_decision :: "(string \<Rightarrow> string) \<Rightarrow> (string \<Rightarrow> bool) \<Rightarrow> string list \<Rightarrow> PublicationContext \<Rightarrow>
    PublicationSource \<Rightarrow> InvestmentDecisionRecord \<Rightarrow> PublicRow \<Rightarrow> bool" where
  "shows_decision sha256 link_ok ps ctx s r w = (pwr_source_key w = sha256 (decision_id r) \<and> \<not> pwr_withdrawn w \<and>
     (\<exists>scope. publishable ps s r = Inr (Some scope) \<and>
       pwr_content w = decision_content sha256 link_ok ctx s scope (pwr_public_id w) r))"

lemma store_decision_shown:
  assumes "store_decision key c st n = Inr (st', n')" "rows_ok (pst_rows st)"
    and "\<And>w. find_row pwr_source_key key (pst_rows st) = Some w \<Longrightarrow> dc_public_id c = pwr_public_id w"
  shows "(\<exists>w\<in>set (pst_rows st'). pwr_source_key w = key \<and> pwr_content w = c \<and> \<not> pwr_withdrawn w \<and>
      pwr_public_id w = dc_public_id c) \<and>
    (\<forall>w. pwr_source_key w \<noteq> key \<longrightarrow> (w \<in> set (pst_rows st') \<longleftrightarrow> w \<in> set (pst_rows st)))"
proof (cases "find_row pwr_source_key key (pst_rows st)")
  case None
  then show ?thesis using assms(1) by (auto simp: store_decision_def split: if_splits)
next
  case (Some w)
  let ?f = "\<lambda>v. if pwr_source_key v = key then v\<lparr>pwr_content := c, pwr_withdrawn := False\<rparr> else v"
  have w: "w \<in> set (pst_rows st)" "pwr_source_key w = key" using find_row_Some [OF Some] by auto
  let ?w = "w\<lparr>pwr_content := c, pwr_withdrawn := False\<rparr>"
  have image: "?w \<in> set (map ?f (pst_rows st))" unfolding set_map by (rule image_eqI [OF _ w(1)]) (simp add: w(2))
  have others: "v \<in> set (map ?f (pst_rows st)) \<longleftrightarrow> v \<in> set (pst_rows st)" if "pwr_source_key v \<noteq> key" for v
    using that by (auto intro: rev_image_eqI)
  have changed: ?thesis if rows: "pst_rows st' = map ?f (pst_rows st)"
  proof (rule conjI)
    show "\<exists>w\<in>set (pst_rows st'). pwr_source_key w = key \<and> pwr_content w = c \<and> \<not> pwr_withdrawn w \<and>
        pwr_public_id w = dc_public_id c"
      by (rule bexI [of _ ?w]) (use rows image w(2) assms(3) [OF Some] in simp_all)
  qed (use rows others in simp)
  show ?thesis
  proof (cases "pwr_content w = c \<and> \<not> pwr_withdrawn w")
    case True
    then have "st' = st" using Some assms(1) by (simp add: store_decision_def)
    then show ?thesis using True w assms(3) [OF Some] by auto
  next
    case False
    then show ?thesis using Some assms(1) changed by (auto simp: store_decision_def)
  qed
qed

lemma publish_decision_shown:
  assumes "publish_decision sha256 link_ok fresh ps ctx s r x = Inr y" "rows_ok (pst_rows (pub_store x))"
  shows "(case publishable ps s r of
      Inr (Some _) \<Rightarrow> pub_seen y = sha256 (decision_id r) # pub_seen x \<and>
        (\<exists>w\<in>set (pst_rows (pub_store y)). shows_decision sha256 link_ok ps ctx s r w)
    | _ \<Rightarrow> pub_seen y = pub_seen x) \<and>
    (\<forall>w. pwr_source_key w \<noteq> sha256 (decision_id r) \<longrightarrow>
      (w \<in> set (pst_rows (pub_store y)) \<longleftrightarrow> w \<in> set (pst_rows (pub_store x))))"
  using assms(1)
proof (cases rule: publish_decision_cases)
  case 1
  then show ?thesis by simp
next
  case (2 scope public_id st)
  have "(\<exists>w\<in>set (pst_rows (pub_store y)). pwr_source_key w = sha256 (decision_id r) \<and>
      pwr_content w = decision_content sha256 link_ok ctx s scope public_id r \<and> \<not> pwr_withdrawn w \<and>
      pwr_public_id w = public_id) \<and>
    (\<forall>w. pwr_source_key w \<noteq> sha256 (decision_id r) \<longrightarrow>
      (w \<in> set (pst_rows (pub_store y)) \<longleftrightarrow> w \<in> set (pst_rows st)))"
    using store_decision_shown [OF 2(5)] 2(2,3) assms(2) by simp
  then show ?thesis using 2(1,3,6) by (auto simp: shows_decision_def)
qed

definition decisions_shown :: "(string \<Rightarrow> string) \<Rightarrow> (string \<Rightarrow> bool) \<Rightarrow> string list \<Rightarrow> PublicationContext \<Rightarrow>
    PublicationSource \<Rightarrow> InvestmentDecisionRecord list \<Rightarrow> PublishState \<Rightarrow> bool" where
  "decisions_shown sha256 link_ok ps ctx s rs x =
     (set (pub_seen x) = (\<lambda>r. sha256 (decision_id r)) ` {r \<in> set rs. \<exists>scope. publishable ps s r = Inr (Some scope)} \<and>
      (\<forall>r\<in>set rs. (\<exists>scope. publishable ps s r = Inr (Some scope)) \<longrightarrow>
         (\<exists>w\<in>set (pst_rows (pub_store x)). shows_decision sha256 link_ok ps ctx s r w)))"

lemma publish_fold_shown:
  assumes "fold_result (publish_decision sha256 link_ok fresh ps ctx s) rs x = Inr y"
    and "rows_ok (pst_rows (pub_store x))" "pub_seen x = []" "distinct (map (\<lambda>r. sha256 (decision_id r)) rs)"
  shows "decisions_shown sha256 link_ok ps ctx s rs y"
  using assms
proof (induction rs arbitrary: y rule: rev_induct)
  case Nil
  then show ?case by (simp add: decisions_shown_def)
next
  case (snoc r rs)
  then obtain z where z: "fold_result (publish_decision sha256 link_ok fresh ps ctx s) rs x = Inr z"
    "publish_decision sha256 link_ok fresh ps ctx s r z = Inr y" by (auto simp: fold_result_append result_simps)
  have shown: "decisions_shown sha256 link_ok ps ctx s rs z" using snoc.IH [OF z(1)] snoc.prems by simp
  note step = publish_decision_shown [OF z(2) conjunct1 [OF publish_fold_rows [OF z(1) assms(2)]]]
  have other: "sha256 (decision_id q) \<noteq> sha256 (decision_id r)" if "q \<in> set rs" for q
    using that snoc.prems(4) by (simp add: image_iff) metis
  have kept: "\<exists>w\<in>set (pst_rows (pub_store y)). shows_decision sha256 link_ok ps ctx s q w"
    if published: "q \<in> set rs" "\<exists>scope. publishable ps s q = Inr (Some scope)" for q
  proof -
    obtain w where w: "w \<in> set (pst_rows (pub_store z))" "shows_decision sha256 link_ok ps ctx s q w"
      using shown published by (auto simp: decisions_shown_def)
    then have "pwr_source_key w \<noteq> sha256 (decision_id r)" using other [OF published(1)] by (simp add: shows_decision_def)
    then show ?thesis using step w by blast
  qed
  show ?case
  proof (cases "\<exists>scope. publishable ps s r = Inr (Some scope)")
    case True
    then have "pub_seen y = sha256 (decision_id r) # pub_seen z"
      "\<exists>w\<in>set (pst_rows (pub_store y)). shows_decision sha256 link_ok ps ctx s r w"
      using step by auto
    moreover have "{q \<in> set (rs @ [r]). \<exists>scope. publishable ps s q = Inr (Some scope)} =
      insert r {q \<in> set rs. \<exists>scope. publishable ps s q = Inr (Some scope)}" using True by auto
    ultimately show ?thesis using kept shown by (simp add: decisions_shown_def)
  next
    case False
    then have "pub_seen y = pub_seen z" using step by (auto split: sum.splits option.splits)
    moreover have "{q \<in> set (rs @ [r]). \<exists>scope. publishable ps s q = Inr (Some scope)} =
      {q \<in> set rs. \<exists>scope. publishable ps s q = Inr (Some scope)}" using False by auto
    ultimately show ?thesis using kept shown False by (simp add: decisions_shown_def)
  qed
qed

lemma rows_ok_same: "rows_ok rows \<Longrightarrow> v \<in> set rows \<Longrightarrow> w \<in> set rows \<Longrightarrow> pwr_source_key v = pwr_source_key w \<Longrightarrow> v = w"
  by (auto simp: rows_ok_def distinct_map inj_on_def)

lemma withdraw_shown:
  assumes "decisions_shown sha256 link_ok ps ctx s rs x" "rows_ok (pst_rows (pub_store x))"
    and "keys = map pwr_source_key (filter (\<lambda>w. \<not> pwr_withdrawn w) (pst_rows (pub_store x)))"
    and "rows = pst_rows (pub_store (withdraw_unseen keys x))"
  shows "(\<forall>w\<in>set rows. \<not> pwr_withdrawn w \<longrightarrow> (\<exists>r\<in>set rs. shows_decision sha256 link_ok ps ctx s r w)) \<and>
    (\<forall>r\<in>set rs. (\<exists>scope. publishable ps s r = Inr (Some scope)) \<longrightarrow>
       (\<exists>w\<in>set rows. shows_decision sha256 link_ok ps ctx s r w))"
proof -
  let ?seen = "set (pub_seen x)"
  have rows: "w \<in> set rows \<and> \<not> pwr_withdrawn w \<longleftrightarrow>
      w \<in> set (pst_rows (pub_store x)) \<and> \<not> pwr_withdrawn w \<and> pwr_source_key w \<in> ?seen" for w
    unfolding assms(4) withdraw_unseen_def Let_def by (auto simp: assms(3) split: if_splits)
  have "\<exists>r\<in>set rs. shows_decision sha256 link_ok ps ctx s r w" if "w \<in> set rows" "\<not> pwr_withdrawn w" for w
  proof -
    from that rows have w: "w \<in> set (pst_rows (pub_store x))" "pwr_source_key w \<in> ?seen" by auto
    then obtain r where r: "r \<in> set rs" "\<exists>scope. publishable ps s r = Inr (Some scope)" "pwr_source_key w = sha256 (decision_id r)"
      using assms(1) by (auto simp: decisions_shown_def)
    then obtain v where "v \<in> set (pst_rows (pub_store x))" "shows_decision sha256 link_ok ps ctx s r v"
      using assms(1) by (auto simp: decisions_shown_def)
    then show ?thesis using rows_ok_same [OF assms(2), of v w] w(1) r by (auto simp: shows_decision_def)
  qed
  moreover have "\<exists>w\<in>set rows. shows_decision sha256 link_ok ps ctx s r w"
    if r: "r \<in> set rs" "\<exists>scope. publishable ps s r = Inr (Some scope)" for r
  proof -
    obtain w where "w \<in> set (pst_rows (pub_store x))" "shows_decision sha256 link_ok ps ctx s r w"
      using assms(1) r by (auto simp: decisions_shown_def)
    moreover from this have "pwr_source_key w \<in> ?seen" "\<not> pwr_withdrawn w"
      using assms(1) r by (auto simp: decisions_shown_def shows_decision_def)
    ultimately show ?thesis using rows by blast
  qed
  ultimately show ?thesis by blast
qed

text \<open>
  C36. A rebuild of the public store leaves exactly the publishable decisions in it: every row that is not withdrawn
  shows a decision of the source that belongs to a portfolio, says something publicly and has its required evidence
  registered, with the content its records give now, and every such decision has its row.
\<close>

theorem rebuild_shows_publishable:
  assumes "publish sha256 link_ok fresh cfg True now s changes st = Inr (st', n)"
    and "public_steps sha256 initialize_public st" "distinct (map (\<lambda>r. sha256 (decision_id r)) (decision_records (px_core s)))"
    and "publication_context cfg s now (as_run_ids (pst_activity st')) = Inr ctx"
  shows "(\<forall>w\<in>set (pst_rows st'). \<not> pwr_withdrawn w \<longrightarrow>
      (\<exists>r\<in>set (decision_records (px_core s)). shows_decision sha256 link_ok (cfg_live_profiles cfg) ctx s r w)) \<and>
    (\<forall>r\<in>set (decision_records (px_core s)). (\<exists>scope. publishable (cfg_live_profiles cfg) s r = Inr (Some scope)) \<longrightarrow>
      (\<exists>w\<in>set (pst_rows st'). shows_decision sha256 link_ok (cfg_live_profiles cfg) ctx s r w))"
proof -
  let ?rs = "decision_records (px_core s)"
  have ok: "rows_ok (pst_rows st)" using public_steps_ok [OF assms(2)] initialize_public_ok by simp
  have "partial_since None cur changes = None" "\<not> only_activity None cur" for cur
    by (simp_all add: partial_since_def same_configuration_def only_activity_def)
  with assms(1) obtain a where d: "publish_details sha256 link_ok fresh cfg now s changes None
      (performance_changed None (checkpoint_of cfg now changes))
      (st\<lparr>pst_activity := a, pst_checkpoint := Some (checkpoint_of cfg now changes)\<rparr>) = Inr (st', n)"
    by (auto simp: publish_def Let_def result_simps)
  then have "pst_activity st' = a" by (rule publish_details_activity [THEN trans]) simp
  with d assms(4) obtain x where x: "fold_result (publish_decision sha256 link_ok fresh (cfg_live_profiles cfg) ctx s) ?rs
      \<lparr>pub_store = st\<lparr>pst_activity := a, pst_checkpoint := Some (checkpoint_of cfg now changes)\<rparr>,
        pub_counts = \<lparr>pbn_inserted = 0, pbn_updated = 0, pbn_withdrawn = 0\<rparr>, pub_seen = []\<rparr> = Inr x"
    and st': "pst_rows st' = pst_rows (pub_store (withdraw_unseen
      (map pwr_source_key (filter (\<lambda>w. \<not> pwr_withdrawn w) (pst_rows (pub_store x)))) x))"
    by (auto simp: publish_details_def selected_decisions_def withdrawal_keys_def stamp_revision_def
        recount_def Let_def result_simps)
  have "decisions_shown sha256 link_ok (cfg_live_profiles cfg) ctx s ?rs x"
    using publish_fold_shown [OF x] ok assms(3) by simp
  moreover have "rows_ok (pst_rows (pub_store x))" using publish_fold_rows [OF x] ok by simp
  ultimately show ?thesis unfolding st' by (rule withdraw_shown) simp_all
qed

section \<open>What changed since is looked at\<close>



section \<open>A decision published, revoked and published again\<close>

definition published_decision :: InvestmentDecisionRecord where
  "published_decision = valid_decision\<lparr>public_summary := ''Bought.'', public_narrative := None\<rparr>"

definition published_intent :: OrderIntent where
  "published_intent = \<lparr>oi_order_intent_id = ''i'', oi_decision_id = decision_id published_decision, oi_created_at = 0,
     oi_ticker = ''ACME'', oi_side = SIDE_BUY, oi_order_type = LIMIT, oi_target_weight = 0, oi_status = CREATED,
     oi_execution_mode = PAPER, oi_execution_profile_id = []\<rparr>"

definition public_source :: PublicationSource where
  "public_source = \<lparr>px_worker = \<lparr>wd_review = \<lparr>rv_runtime = empty_runtime\<lparr>rt_core := empty_db\<lparr>
         decision_records := [published_decision], order_intents := [published_intent]\<rparr>\<rparr>,
       rv_prices = [], rv_fills = [], rv_positions = [], rv_swap_pairs = []\<rparr>,
       wd_thesis_reviews = [], wd_calendar = [], wd_x = empty_x, wd_triage = [], wd_citations = [], wd_held_back = [],
       wd_ledgers = []\<rparr>,
     px_sources = [], px_sessions = []\<rparr>"

definition public_config :: PublicationConfig where
  "public_config = \<lparr>cfg_live_profiles = [''p''], cfg_live_account_id = None, cfg_contributed_capital = None\<rparr>"

definition publish_sample :: "PublicStore \<Rightarrow> (PublicStore \<times> PublishCounts) result" where
  "publish_sample = publish (\<lambda>k. k) (\<lambda>_. True) (\<lambda>k. k) public_config True 0 public_source None"

definition sample_published :: PublicStore where
  "sample_published = (case publish_sample initialize_public of Inl _ \<Rightarrow> initialize_public | Inr (st, _) \<Rightarrow> st)"

definition sample_revoked :: PublicStore where
  "sample_revoked = fst (revoke ''dec_d1'' 0 sample_published)"

definition sample_republished :: PublicStore where
  "sample_republished = (case publish_sample sample_revoked of Inl _ \<Rightarrow> initialize_public | Inr (st, _) \<Rightarrow> st)"

lemma sample_steps:
  assumes "case publish_sample st of Inl _ \<Rightarrow> False | Inr _ \<Rightarrow> True"
  shows "public_step (\<lambda>k. k) st (case publish_sample st of Inl _ \<Rightarrow> initialize_public | Inr (st, _) \<Rightarrow> st)"
  using assms by (auto simp: publish_sample_def split: sum.splits intro: public_step.published)

lemma samples_evaluated:
  "(case publish_sample initialize_public of Inl _ \<Rightarrow> False | Inr _ \<Rightarrow> True) \<and>
   (case publish_sample sample_revoked of Inl _ \<Rightarrow> False | Inr _ \<Rightarrow> True) \<and>
   map pwr_revoked (pst_rows sample_revoked) = [True] \<and>
   publication_context public_config public_source 0 (as_run_ids (pst_activity sample_republished)) =
     Inr \<lparr>pcx_run_ids = [], pcx_names = [], pcx_fills = []\<rparr> \<and>
   publishable [''p''] public_source published_decision = Inr (Some PaperMode)"
  by code_simp

lemmas sample_published_ok = samples_evaluated [THEN conjunct1]
  and sample_republished_ok = samples_evaluated [THEN conjunct2, THEN conjunct1]
  and sample_is_revoked = samples_evaluated [THEN conjunct2, THEN conjunct2, THEN conjunct1]
  and sample_context = samples_evaluated [THEN conjunct2, THEN conjunct2, THEN conjunct2, THEN conjunct1]
  and sample_scope = samples_evaluated [THEN conjunct2, THEN conjunct2, THEN conjunct2, THEN conjunct2]

lemma sample_published_reached: "public_steps (\<lambda>k. k) initialize_public sample_published"
  unfolding sample_published_def by (rule public_steps.go [OF public_steps.stay sample_steps [OF sample_published_ok]])

lemma sample_revoked_reached: "public_steps (\<lambda>k. k) initialize_public sample_revoked"
proof (rule public_steps.go [OF sample_published_reached])
  show "public_step (\<lambda>k. k) sample_published sample_revoked"
    unfolding sample_revoked_def
    by (rule public_step.revoked [of "''dec_d1''" 0 sample_published]) (rule prod.collapse [symmetric])
qed

lemma sample_republished_reached: "public_steps (\<lambda>k. k) sample_revoked sample_republished"
  unfolding sample_republished_def by (rule public_steps.go [OF public_steps.stay sample_steps [OF sample_republished_ok]])

lemma revoked_stays_revoked_witness:
  "\<exists>w w'. w \<in> set (pst_rows sample_revoked) \<and> w' \<in> set (pst_rows sample_republished) \<and> pwr_revoked w \<and>
     pwr_public_id w' = pwr_public_id w \<and> \<not> visible w'"
proof -
  have "True \<in> set (map pwr_revoked (pst_rows sample_revoked))" unfolding sample_is_revoked by simp
  then obtain w where "w \<in> set (pst_rows sample_revoked)" "pwr_revoked w" by auto
  then show ?thesis using revoked_stays_revoked [OF sample_revoked_reached sample_republished_reached] by blast
qed

lemma rebuild_shows_publishable_witness:
  "\<exists>w\<in>set (pst_rows sample_republished). pwr_source_key w = ''d1'' \<and> dc_portfolio (pwr_content w) = PaperMode \<and>
     \<not> pwr_withdrawn w"
proof -
  obtain n where "publish (\<lambda>k. k) (\<lambda>_. True) (\<lambda>k. k) public_config True 0 public_source None sample_revoked =
      Inr (sample_republished, n)"
    using sample_republished_ok by (auto simp: publish_sample_def sample_republished_def split: sum.splits)
  moreover have rs: "decision_records (px_core public_source) = [published_decision]"
    by (simp add: px_core_def px_runtime_def public_source_def empty_runtime_def)
  ultimately have "\<exists>w\<in>set (pst_rows sample_republished). shows_decision (\<lambda>k. k) (\<lambda>_. True)
      (cfg_live_profiles public_config) \<lparr>pcx_run_ids = [], pcx_names = [], pcx_fills = []\<rparr> public_source published_decision w"
    using rebuild_shows_publishable [OF _ sample_revoked_reached _ sample_context] sample_scope
    by (fastforce simp: public_config_def)
  moreover have "decision_id published_decision = ''d1''"
    by (simp add: published_decision_def valid_decision_def sample_decision_def)
  ultimately show ?thesis using sample_scope
    by (auto simp: shows_decision_def public_config_def decision_content_def Let_def)
qed





end
