(* ===== verification/PublicQueries.thy ===== *)
theory PublicQueries
  imports PublicProperties "HOL-Library.Product_Lexorder"
begin

text \<open>
  The reads of the public store (\<open>app/public/queries.py\<close>, \<open>history\<close> of \<open>app/public/activity.py\<close>): the feed with its
  filters and cursors, the detail of a decision, when a rule was last triggered and the pages of the activity. A
  sequence number is the position of a row, since rows are never deleted. The full-text search is SQLite's: \<open>fts\<close>
  says whether the indexed texts of a row match the terms. A cursor is given decoded, and the digest of a query stands
  for the query. A page has at least one item: the server checks the limit.
\<close>

section \<open>Pages by key\<close>

text \<open>The rows below the key of the cursor, the greatest first, at most \<open>n\<close> of them, and the key to go on from.\<close>

definition page :: "('r \<Rightarrow> 'k::linorder) \<Rightarrow> nat \<Rightarrow> 'k option \<Rightarrow> 'r list \<Rightarrow> 'r list \<times> 'k option" where
  "page key n after rows =
     (let ordered = rev (sort_key key rows);
          rest = (case after of None \<Rightarrow> ordered | Some k \<Rightarrow> filter (\<lambda>r. key r < k) ordered)
      in (take n rest, if n < length rest then Some (key (last (take n rest))) else None))"

lemma filter_below:
  fixes key :: "'r \<Rightarrow> 'k::linorder"
  assumes "sorted_wrt (\<lambda>a b. key b < key a) rs" "m < length rs"
  shows "filter (\<lambda>r. key r < key (rs ! m)) rs = drop (Suc m) rs"
proof -
  have split: "rs = take m rs @ rs ! m # drop (Suc m) rs" using assms(2) by (rule id_take_nth_drop)
  then have s: "sorted_wrt (\<lambda>a b. key b < key a) (take m rs @ rs ! m # drop (Suc m) rs)" using assms(1) by simp
  have "filter (\<lambda>r. key r < key (rs ! m)) (take m rs) = []"
    unfolding filter_empty_conv using s by (simp add: sorted_wrt_append) (meson less_asym)
  moreover have "filter (\<lambda>r. key r < key (rs ! m)) (drop (Suc m) rs) = drop (Suc m) rs"
    using s by (simp add: sorted_wrt_append filter_id_conv)
  ultimately show ?thesis by (subst split) (simp del: append_take_drop_id)
qed

lemma descending_keys:
  "distinct (map key rows) \<Longrightarrow> sorted_wrt (\<lambda>a b. key b < key a) (rev (sort_key key rows))"
proof -
  assume d: "distinct (map key rows)"
  have "sorted (map key (sort_key key rows))" by simp
  moreover have "distinct (map key (sort_key key rows))" using d by (simp add: distinct_map)
  ultimately have "sorted_wrt (<) (map key (sort_key key rows))" by (simp add: strict_sorted_iff)
  then show ?thesis by (simp add: sorted_wrt_rev sorted_wrt_map)
qed

lemma last_take: "0 < n \<Longrightarrow> n \<le> length xs \<Longrightarrow> last (take n xs) = xs ! (n - 1)"
  by (cases xs) (simp_all add: last_conv_nth min_def)

lemma page_first:
  "0 < n \<Longrightarrow> page key n None rows = (let ordered = rev (sort_key key rows) in
     (take n ordered, if n < length ordered then Some (key (ordered ! (n - 1))) else None))"
  by (simp add: page_def Let_def last_take)

lemma page_next:
  assumes "distinct (map key rows)" "0 < m" "m \<le> length rows" "0 < n"
  defines "ordered \<equiv> rev (sort_key key rows)"
  shows "page key n (Some (key (ordered ! (m - 1)))) rows =
    (take n (drop m ordered), if n < length (drop m ordered) then Some (key (ordered ! (m + n - 1))) else None)"
proof -
  have "m - 1 < length ordered" using assms(2,3) by (simp add: ordered_def)
  then have "filter (\<lambda>r. key r < key (ordered ! (m - 1))) ordered = drop m ordered"
    using filter_below [of key ordered "m - 1"] descending_keys [OF assms(1)] assms(2) by (simp add: ordered_def)
  then show ?thesis using assms(2,4) by (simp add: page_def Let_def ordered_def [symmetric] last_take)
qed

section \<open>The feed\<close>

record FeedQuery =
  fq_portfolio :: account_mode
  fq_terms :: "string list"
  fq_ticker :: "string option"
  fq_action :: "Decision option"
  fq_policy :: "policy_outcome option"
  fq_lifecycle :: "lifecycle option"
  fq_since :: "instant option"
  fq_until :: "instant option"
  fq_run_id :: "string option"

record Cursor =
  cu_revision :: int
  cu_high_water :: nat
  cu_query :: FeedQuery
  cu_key :: "nat \<times> instant \<times> string"

datatype cursor_text = Malformed | Decoded Cursor

text \<open>The texts a row is searched by, which the store's triggers keep.\<close>

definition indexed_texts :: "PublicRow \<Rightarrow> string \<times> string \<times> string" where
  "indexed_texts w = (let c = pwr_content w in
     (dc_ticker c,
      if visible w then dc_summary c @ '' '' @ (case dc_company_name c of None \<Rightarrow> [] | Some n \<Rightarrow> n) else [],
      if visible w then (case dc_theme c of None \<Rightarrow> [] | Some t \<Rightarrow> t) else []))"

definition equal_if_given :: "'a option \<Rightarrow> 'a \<Rightarrow> bool" where
  "equal_if_given x y = (case x of None \<Rightarrow> True | Some z \<Rightarrow> z = y)"

definition feed_matches :: "(string list \<Rightarrow> string \<times> string \<times> string \<Rightarrow> bool) \<Rightarrow> FeedQuery \<Rightarrow> PublicRow \<Rightarrow> bool" where
  "feed_matches fts q w = (let c = pwr_content w in
     dc_portfolio c = fq_portfolio q \<and> visible w \<and>
     (case fq_run_id q of None \<Rightarrow> True | Some r \<Rightarrow> dc_public_run_id c = Some r) \<and>
     equal_if_given (fq_ticker q) (dc_ticker c) \<and> equal_if_given (fq_action q) (dc_decision c) \<and>
     equal_if_given (fq_policy q) (dc_policy_outcome c) \<and> equal_if_given (fq_lifecycle q) (dc_lifecycle c) \<and>
     (case fq_since q of None \<Rightarrow> True | Some t \<Rightarrow> t \<le> dc_created_at c) \<and>
     (case fq_until q of None \<Rightarrow> True | Some t \<Rightarrow> dc_created_at c < t) \<and>
     (fq_terms q = [] \<or> fts (fq_terms q) (indexed_texts w)))"

text \<open>A search puts the decisions whose ticker is the whole text first.\<close>

definition feed_key :: "FeedQuery \<Rightarrow> PublicRow \<Rightarrow> nat \<times> instant \<times> string" where
  "feed_key q w = (if fq_terms q \<noteq> [] \<and> dc_ticker (pwr_content w) = py_upper (join '' '' (fq_terms q)) then 1 else 0,
     dc_created_at (pwr_content w), pwr_public_id w)"

text \<open>
  What the feed keeps of a decision: the short facts, and the summary cut at 600 characters with a mark that it was. The
  source stores it beside the content whenever it writes that, so it is a function of the content.
\<close>

record FeedItem =
  fi_public_id :: string
  fi_portfolio :: account_mode
  fi_created_at :: instant
  fi_ticker :: string
  fi_decision :: Decision
  fi_summary :: string
  fi_summary_truncated :: bool
  fi_policy_outcome :: policy_outcome
  fi_schema_outcome :: schema_verdict
  fi_lifecycle :: lifecycle
  fi_regime :: RegimeState
  fi_theme :: "string option"
  fi_public_run_id :: "string option"
  fi_retry_attempt :: "int option"
  fi_company_name :: "string option"

definition feed_content :: "DecisionContent \<Rightarrow> FeedItem" where
  "feed_content c = \<lparr>fi_public_id = dc_public_id c, fi_portfolio = dc_portfolio c, fi_created_at = dc_created_at c,
     fi_ticker = dc_ticker c, fi_decision = dc_decision c, fi_summary = take 600 (dc_summary c),
     fi_summary_truncated = (600 < length (dc_summary c)), fi_policy_outcome = dc_policy_outcome c,
     fi_schema_outcome = dc_schema_outcome c, fi_lifecycle = dc_lifecycle c, fi_regime = dc_regime c,
     fi_theme = dc_theme c, fi_public_run_id = dc_public_run_id c, fi_retry_attempt = dc_retry_attempt c,
     fi_company_name = dc_company_name c\<rparr>"

definition feed_item :: "PublicRow \<Rightarrow> FeedItem" where
  "feed_item w = feed_content (pwr_content w)"

record FeedPage =
  fp_revision :: int
  fp_items :: "FeedItem list"
  fp_next :: "Cursor option"
  fp_total :: nat
  fp_high_water :: nat

definition feed :: "(string list \<Rightarrow> string \<times> string \<times> string \<Rightarrow> bool) \<Rightarrow> PublicStore \<Rightarrow> FeedQuery \<Rightarrow> nat \<Rightarrow>
    cursor_text option \<Rightarrow> FeedPage result" where
  "feed fts st q n cursor =
     (let answer = (\<lambda>after. let mark = (case after of None \<Rightarrow> length (pst_rows st) | Some c \<Rightarrow> cu_high_water c);
            found = filter (feed_matches fts q) (take mark (pst_rows st));
            (rows, next_key) = page (feed_key q) n (map_option cu_key after) found in
          Inr \<lparr>fp_revision = pst_revision st, fp_items = map feed_item rows,
            fp_next = map_option (\<lambda>k. \<lparr>cu_revision = pst_revision st, cu_high_water = mark, cu_query = q, cu_key = k\<rparr>) next_key,
            fp_total = length found, fp_high_water = mark\<rparr>)
      in case cursor of
        None \<Rightarrow> answer None
      | Some Malformed \<Rightarrow> Inl (ValueError ''invalid_cursor'')
      | Some (Decoded c) \<Rightarrow>
          if cu_query c \<noteq> q then Inl (ValueError ''cursor_query_mismatch'')
          else if cu_revision c \<noteq> pst_revision st then Inl (ValueError ''publication_changed'')
          else answer (Some c))"

section \<open>The other reads\<close>

datatype decision_detail = Retracted string | ShownDecision int DecisionContent

definition detail :: "PublicStore \<Rightarrow> string \<Rightarrow> decision_detail option" where
  "detail st i = map_option (\<lambda>w. if visible w then ShownDecision (pst_revision st) (pwr_content w) else Retracted i)
     (find_row pwr_public_id i (pst_rows st))"

definition last_triggered :: "PublicStore \<Rightarrow> account_mode \<Rightarrow> string \<Rightarrow> (string \<times> instant) option" where
  "last_triggered st m rule = map_option (\<lambda>((_, i), _, t). (i, t)) (greatest (\<lambda>((_, i), _, t). (t, i))
     (filter (\<lambda>((r, i), scope, _). scope = m \<and> r = rule \<and>
        (case find_row pwr_public_id i (pst_rows st) of None \<Rightarrow> False | Some w \<Rightarrow> visible w)) (pst_rule_triggers st)))"

text \<open>The link of a position: the latest decision shown for its ticker.\<close>

definition latest_decision :: "PublicStore \<Rightarrow> account_mode \<Rightarrow> string \<Rightarrow> (string \<times> string) option" where
  "latest_decision st m t = map_option (\<lambda>w. (pwr_public_id w, dc_summary (pwr_content w)))
     (greatest (\<lambda>w. (dc_created_at (pwr_content w), pwr_public_id w))
       (filter (\<lambda>w. dc_ticker (pwr_content w) = t) (shown_in m (pst_rows st))))"

text \<open>The pages of the activity, whose sequence numbers are those of the rows that are left.\<close>

record ActivityCursor =
  acu_revision :: int
  acu_high_water :: nat
  acu_scope :: account_mode
  acu_key :: "instant \<times> string"

definition history_page :: "(ActivityRow \<Rightarrow> nat) \<Rightarrow> ActivityStore \<Rightarrow> account_mode \<Rightarrow> int \<Rightarrow> ActivityCursor option \<Rightarrow>
    (ActivityFeedItem list \<times> ActivityCursor option \<times> nat) result" where
  "history_page sequence_of st scope limit cursor =
     (if \<not> (1 \<le> limit \<and> limit \<le> 100) then Inl (ValueError ''invalid_limit'')
      else if (case cursor of None \<Rightarrow> False | Some c \<Rightarrow> acu_scope c \<noteq> scope)
        then Inl (ValueError ''cursor_query_mismatch'')
      else if (case cursor of None \<Rightarrow> False | Some c \<Rightarrow> acu_revision c \<noteq> as_revision st)
        then Inl (ValueError ''activity_changed'')
      else let mark = (case cursor of None \<Rightarrow> fold max (map sequence_of (as_rows st)) 0 | Some c \<Rightarrow> acu_high_water c);
          own = filter (\<lambda>w. acr_portfolio w = scope \<and> sequence_of w \<le> mark) (as_rows st);
          (rows, next_key) = page (\<lambda>w. (acr_created_at w, acr_public_id w)) (nat limit) (map_option acu_key cursor) own in
        Inr (map (\<lambda>w. activity_feed_content (acr_content w)) rows,
          map_option (\<lambda>k. \<lparr>acu_revision = as_revision st, acu_high_water = mark, acu_scope = scope, acu_key = k\<rparr>) next_key,
          length own))"

section \<open>An unchanged revision keeps the rows\<close>

lemma replace_triggers_revision: "replace_triggers i ts st = Inr st' \<Longrightarrow> pst_revision st' = pst_revision st"
  by (auto simp: replace_triggers_def split: if_splits)

lemma store_decision_prefix:
  assumes "store_decision key c st n = Inr (st', n')"
  shows "pst_revision st' = pst_revision st \<and> pbn_withdrawn n' = pbn_withdrawn n \<and> pbn_updated n \<le> pbn_updated n' \<and>
    (pbn_updated n' = pbn_updated n \<longrightarrow> (\<exists>new. pst_rows st' = pst_rows st @ new))"
  using assms by (auto simp: store_decision_def split: option.splits if_splits)

lemma publish_decision_prefix:
  assumes "publish_decision sha256 link_ok fresh ps ctx s r x = Inr y"
  shows "pst_revision (pub_store y) = pst_revision (pub_store x) \<and>
    pbn_withdrawn (pub_counts y) = pbn_withdrawn (pub_counts x) \<and> pbn_updated (pub_counts x) \<le> pbn_updated (pub_counts y) \<and>
    (pbn_updated (pub_counts y) = pbn_updated (pub_counts x) \<longrightarrow>
      (\<exists>new. pst_rows (pub_store y) = pst_rows (pub_store x) @ new))"
proof -
  obtain found where found: "publishable ps s r = Inr found"
    using assms by (auto simp: publish_decision_def result_simps)
  show ?thesis
  proof (cases found)
    case None
    then show ?thesis using assms found by (simp add: publish_decision_def)
  next
    case (Some scope)
    then obtain key c ts i st where "replace_triggers i ts (pub_store x) = Inr st"
      "store_decision key c st (pub_counts x) = Inr (pub_store y, pub_counts y)"
      using assms found by (force simp: publish_decision_def Let_def result_simps)
    then show ?thesis using store_decision_prefix replace_triggers_rows replace_triggers_revision by metis
  qed
qed

lemma publish_fold_prefix:
  assumes "fold_result (publish_decision sha256 link_ok fresh ps ctx s) rs x = Inr y"
  shows "pst_revision (pub_store y) = pst_revision (pub_store x) \<and>
    pbn_withdrawn (pub_counts y) = pbn_withdrawn (pub_counts x) \<and> pbn_updated (pub_counts x) \<le> pbn_updated (pub_counts y) \<and>
    (pbn_updated (pub_counts y) = pbn_updated (pub_counts x) \<longrightarrow>
      (\<exists>new. pst_rows (pub_store y) = pst_rows (pub_store x) @ new))"
  using assms
proof (induction rs arbitrary: x)
  case (Cons r rs)
  then obtain z where z: "publish_decision sha256 link_ok fresh ps ctx s r x = Inr z"
    "fold_result (publish_decision sha256 link_ok fresh ps ctx s) rs z = Inr y" by (auto simp: result_simps)
  note first = publish_decision_prefix [OF z(1)] and rest = Cons.IH [OF z(2)]
  have "\<exists>new. pst_rows (pub_store y) = pst_rows (pub_store x) @ new"
    if "pbn_updated (pub_counts y) = pbn_updated (pub_counts x)"
  proof -
    have "pbn_updated (pub_counts z) = pbn_updated (pub_counts x)" "pbn_updated (pub_counts y) = pbn_updated (pub_counts z)"
      using that first rest by linarith+
    then show ?thesis using first rest by fastforce
  qed
  then show ?case using first rest by simp
qed simp

lemma publish_details_prefix:
  assumes "publish_details sha256 link_ok fresh cfg now s changes since performance st = Inr (st', n)"
  shows "pst_revision st \<le> pst_revision st' \<and>
    (pst_revision st' = pst_revision st \<longrightarrow> (\<exists>new. pst_rows st' = pst_rows st @ new))"
proof -
  obtain ctx x where x: "fold_result (publish_decision sha256 link_ok fresh (cfg_live_profiles cfg) ctx s)
      (selected_decisions s changes since)
      \<lparr>pub_store = st, pub_counts = \<lparr>pbn_inserted = 0, pbn_updated = 0, pbn_withdrawn = 0\<rparr>, pub_seen = []\<rparr> = Inr x"
    and st': "st' = recount performance (ny_date now)
      (pub_store (stamp_revision now (withdraw_unseen (withdrawal_keys sha256 changes since (pub_store x)) x)))"
    using assms by (auto simp: publish_details_def Let_def result_simps)
  note fold = publish_fold_prefix [OF x]
  let ?gone = "\<lambda>w. pwr_source_key w \<in> set (withdrawal_keys sha256 changes since (pub_store x)) \<and>
    pwr_source_key w \<notin> set (pub_seen x) \<and> \<not> pwr_withdrawn w"
  have revision: "pst_revision st' = pst_revision st +
      (if 0 < pbn_updated (pub_counts x) \<or> 0 < length (filter ?gone (pst_rows (pub_store x))) then 1 else 0)"
    using fold by (simp add: st' recount_def stamp_revision_def withdraw_unseen_def Let_def)
  have rows: "pst_rows st' = map (\<lambda>w. if ?gone w then w\<lparr>pwr_withdrawn := True\<rparr> else w) (pst_rows (pub_store x))"
    by (simp add: st' recount_def stamp_revision_def withdraw_unseen_def Let_def)
  have "\<exists>new. pst_rows st' = pst_rows st @ new" if same: "pst_revision st' = pst_revision st"
  proof -
    have none: "pbn_updated (pub_counts x) = 0" "filter ?gone (pst_rows (pub_store x)) = []"
      using same revision by (simp_all split: if_splits)
    have "pst_rows st' = pst_rows (pub_store x)"
      unfolding rows by (rule map_idI) (use none(2) in \<open>auto simp: filter_empty_conv\<close>)
    then show ?thesis using fold none(1) by simp
  qed
  then show ?thesis using revision by simp
qed

lemma publish_prefix:
  assumes "publish sha256 link_ok fresh cfg rebuild now s changes st = Inr (st', n)"
  shows "pst_revision st \<le> pst_revision st' \<and>
    (pst_revision st' = pst_revision st \<longrightarrow> (\<exists>new. pst_rows st' = pst_rows st @ new))"
proof (cases "pst_rows st' = pst_rows st \<and> pst_revision st' = pst_revision st")
  case False
  then obtain a since performance where "publish_details sha256 link_ok fresh cfg now s changes since performance
      (st\<lparr>pst_activity := a, pst_checkpoint := Some (checkpoint_of cfg now changes)\<rparr>) = Inr (st', n)"
    using assms by (auto simp: publish_def Let_def result_simps split: if_splits)
  from publish_details_prefix [OF this] show ?thesis by simp
qed simp

lemma revoke_prefix:
  assumes "revoke i now st = (st', b)"
  shows "pst_revision st \<le> pst_revision st' \<and>
    (pst_revision st' = pst_revision st \<longrightarrow> (\<exists>new. pst_rows st' = pst_rows st @ new))"
  using assms by (auto simp: revoke_def Let_def split: option.splits)

lemma public_step_prefix:
  assumes "public_step sha256 st st'"
  shows "pst_revision st \<le> pst_revision st' \<and>
    (pst_revision st' = pst_revision st \<longrightarrow> (\<exists>new. pst_rows st' = pst_rows st @ new))"
  using assms by (rule public_step.cases) (metis publish_prefix, metis revoke_prefix)

lemma public_steps_prefix:
  "public_steps sha256 st st' \<Longrightarrow> pst_revision st \<le> pst_revision st' \<and>
    (pst_revision st' = pst_revision st \<longrightarrow> (\<exists>new. pst_rows st' = pst_rows st @ new))"
proof (induction rule: public_steps.induct)
  case (go st st' st'')
  note step = public_step_prefix [OF go.hyps(2)]
  have "\<exists>new. pst_rows st'' = pst_rows st @ new" if "pst_revision st'' = pst_revision st"
  proof -
    have "pst_revision st' = pst_revision st" "pst_revision st'' = pst_revision st'" using that step go.IH by linarith+
    then show ?thesis using step go.IH by fastforce
  qed
  moreover have "pst_revision st \<le> pst_revision st''" using step go.IH by linarith
  ultimately show ?case by blast
qed simp

section \<open>Reading the feed page by page\<close>

text \<open>A reader that asks for the next page with the cursor of the last one, each page from the state it finds.\<close>

fun read_pages :: "(string list \<Rightarrow> string \<times> string \<times> string \<Rightarrow> bool) \<Rightarrow> FeedQuery \<Rightarrow> nat \<Rightarrow> cursor_text option \<Rightarrow>
    PublicStore list \<Rightarrow> (FeedItem list \<times> bool) result" where
  "read_pages fts q n cursor [] = Inr ([], False)"
| "read_pages fts q n cursor (st # sts) = and_then (feed fts st q n cursor) (\<lambda>p. case fp_next p of
       None \<Rightarrow> Inr (fp_items p, True)
     | Some c \<Rightarrow> and_then (read_pages fts q n (Some (Decoded c)) sts) (\<lambda>(items, finished).
         Inr (fp_items p @ items, finished)))"

definition feed_rows :: "(string list \<Rightarrow> string \<times> string \<times> string \<Rightarrow> bool) \<Rightarrow> FeedQuery \<Rightarrow> PublicStore \<Rightarrow> PublicRow list" where
  "feed_rows fts q st = rev (sort_key (feed_key q) (filter (feed_matches fts q) (pst_rows st)))"

lemma feed_keys_distinct: "rows_ok rows \<Longrightarrow> distinct (map (feed_key q) (filter P rows))"
  by (auto simp: rows_ok_def distinct_map feed_key_def inj_on_def)

lemma feed_first:
  assumes "0 < n"
  shows "feed fts st q n None = Inr \<lparr>fp_revision = pst_revision st,
    fp_items = map feed_item (take n (feed_rows fts q st)),
    fp_next = (if n < length (feed_rows fts q st) then Some \<lparr>cu_revision = pst_revision st,
      cu_high_water = length (pst_rows st), cu_query = q, cu_key = feed_key q (feed_rows fts q st ! (n - 1))\<rparr> else None),
    fp_total = length (feed_rows fts q st), fp_high_water = length (pst_rows st)\<rparr>"
  by (simp add: feed_def feed_rows_def page_first [OF assms] Let_def)

lemma feed_next:
  assumes "public_steps sha256 st u" "rows_ok (pst_rows st)" "0 < n" "0 < m" "m \<le> length (feed_rows fts q st)"
    and "c = \<lparr>cu_revision = pst_revision st, cu_high_water = length (pst_rows st), cu_query = q,
      cu_key = feed_key q (feed_rows fts q st ! (m - 1))\<rparr>"
    and "feed fts u q n (Some (Decoded c)) = Inr p"
  shows "fp_items p = map feed_item (take n (drop m (feed_rows fts q st))) \<and>
    fp_next p = (if m + n < length (feed_rows fts q st)
      then Some (c\<lparr>cu_key := feed_key q (feed_rows fts q st ! (m + n - 1))\<rparr>) else None)"
proof -
  have revision: "pst_revision u = pst_revision st" using assms(6,7) by (auto simp: feed_def split: if_splits)
  then obtain new where "pst_rows u = pst_rows st @ new" using public_steps_prefix [OF assms(1)] by blast
  then have found: "filter (feed_matches fts q) (take (length (pst_rows st)) (pst_rows u)) =
    filter (feed_matches fts q) (pst_rows st)" by simp
  have "m \<le> length (filter (feed_matches fts q) (pst_rows st))" using assms(5) by (simp add: feed_rows_def)
  note page_next [OF feed_keys_distinct [OF assms(2), of q] assms(4) this assms(3)]
  then have "page (feed_key q) n (Some (cu_key c)) (filter (feed_matches fts q) (pst_rows st)) =
    (take n (drop m (feed_rows fts q st)), if m + n < length (feed_rows fts q st)
      then Some (feed_key q (feed_rows fts q st ! (m + n - 1))) else None)"
    using assms(6) by (simp add: feed_rows_def less_diff_conv add.commute)
  then show ?thesis using assms(6,7) revision by (auto simp: feed_def found Let_def split: if_splits)
qed

lemma read_pages_on:
  assumes "\<forall>u\<in>set later. public_steps sha256 st u" "rows_ok (pst_rows st)" "0 < n" "0 < m"
    and "m < length (feed_rows fts q st)"
    and "c = \<lparr>cu_revision = pst_revision st, cu_high_water = length (pst_rows st), cu_query = q,
      cu_key = feed_key q (feed_rows fts q st ! (m - 1))\<rparr>"
    and "read_pages fts q n (Some (Decoded c)) later = Inr (items, finished)"
  shows "items = take (length items) (map feed_item (drop m (feed_rows fts q st))) \<and>
    (finished \<longrightarrow> items = map feed_item (drop m (feed_rows fts q st))) \<and>
    (length (feed_rows fts q st) \<le> m + n * length later \<longrightarrow> finished)"
  using assms(1,4-7)
proof (induction later arbitrary: m c items)
  case Nil
  then show ?case by simp
next
  case (Cons u later)
  let ?rows = "feed_rows fts q st"
  from Cons.prems(5) obtain p where p: "feed fts u q n (Some (Decoded c)) = Inr p" by (auto simp: result_simps)
  have step: "fp_items p = map feed_item (take n (drop m ?rows))"
    "fp_next p = (if m + n < length ?rows then Some (c\<lparr>cu_key := feed_key q (?rows ! (m + n - 1))\<rparr>) else None)"
    using feed_next [OF _ assms(2,3) Cons.prems(2) _ Cons.prems(4) p, of sha256] Cons.prems(1,3) by auto
  show ?case
  proof (cases "m + n < length ?rows")
    case False
    then show ?thesis using Cons.prems(5) p step by auto
  next
    case True
    then obtain rest where rest: "items = fp_items p @ rest"
      "read_pages fts q n (Some (Decoded (c\<lparr>cu_key := feed_key q (?rows ! (m + n - 1))\<rparr>))) later = Inr (rest, finished)"
      using Cons.prems(5) p step by (auto simp: result_simps)
    have "rest = take (length rest) (map feed_item (drop (m + n) ?rows)) \<and>
      (finished \<longrightarrow> rest = map feed_item (drop (m + n) ?rows)) \<and>
      (length ?rows \<le> m + n + n * length later \<longrightarrow> finished)"
      using Cons.IH [OF _ _ True _ rest(2)] Cons.prems(1,4) assms(3) by simp
    moreover have "length (fp_items p) = n" using step True by simp
    moreover have "map feed_item (drop m ?rows) = fp_items p @ map feed_item (drop (m + n) ?rows)"
      using step by (metis append_take_drop_id drop_drop add.commute map_append)
    ultimately show ?thesis using rest(1) by (auto simp: algebra_simps)
  qed
qed

text \<open>
  C38. A reader that walks the feed with its cursors while the store is published to and revoked from gets, unless it is
  told to restart, exactly the feed's items of the visible decisions its query matched at the first page, in the order
  of the feed, each of them once; and it is through when it has read as many pages as they fill.
\<close>

theorem feed_pages_are_a_snapshot:
  assumes "public_steps sha256 initialize_public st" "\<forall>u\<in>set later. public_steps sha256 st u" "0 < n"
    and "read_pages fts q n None (st # later) = Inr (items, finished)"
  shows "items = take (length items) (map feed_item (feed_rows fts q st)) \<and>
    (finished \<longrightarrow> items = map feed_item (feed_rows fts q st)) \<and>
    (length (feed_rows fts q st) \<le> n * length (st # later) \<longrightarrow> finished)"
proof -
  let ?rows = "feed_rows fts q st"
  have ok: "rows_ok (pst_rows st)" using public_steps_ok [OF assms(1)] initialize_public_ok by simp
  show ?thesis
  proof (cases "n < length ?rows")
    case False
    then show ?thesis using assms(4) by (auto simp: feed_first [OF assms(3)])
  next
    case True
    then obtain rest where rest: "items = map feed_item (take n ?rows) @ rest"
      "read_pages fts q n (Some (Decoded \<lparr>cu_revision = pst_revision st, cu_high_water = length (pst_rows st),
         cu_query = q, cu_key = feed_key q (?rows ! (n - 1))\<rparr>)) later = Inr (rest, finished)"
      using assms(4) by (auto simp: feed_first [OF assms(3)] result_simps)
    note on = read_pages_on [OF assms(2) ok assms(3) assms(3) True refl rest(2)]
    have "map feed_item ?rows = map feed_item (take n ?rows) @ map feed_item (drop n ?rows)"
      by (metis append_take_drop_id map_append)
    then show ?thesis using on rest(1) True by (auto simp: min_def)
  qed
qed

definition whole_feed :: FeedQuery where
  "whole_feed = \<lparr>fq_portfolio = PaperMode, fq_terms = [], fq_ticker = None, fq_action = None, fq_policy = None,
     fq_lifecycle = None, fq_since = None, fq_until = None, fq_run_id = None\<rparr>"

lemma sample_feed:
  "(case read_pages (\<lambda>_ _. True) whole_feed 1 None [sample_published, sample_published] of Inl _ \<Rightarrow> False
    | Inr (items, finished) \<Rightarrow> finished \<and> map fi_public_id items = [''dec_d1''])"
  by code_simp

lemma feed_pages_are_a_snapshot_witness:
  "map (\<lambda>w. dc_public_id (pwr_content w)) (feed_rows (\<lambda>_ _. True) whole_feed sample_published) = [''dec_d1'']"
proof -
  obtain items where items: "read_pages (\<lambda>_ _. True) whole_feed 1 None [sample_published, sample_published] = Inr (items, True)"
    "map fi_public_id items = [''dec_d1'']"
    using sample_feed by (auto split: sum.splits prod.splits)
  have "\<forall>u\<in>set [sample_published]. public_steps (\<lambda>k. k) sample_published u" by (simp add: public_steps.stay)
  from feed_pages_are_a_snapshot [OF sample_published_reached this _ items(1)]
  have "items = map feed_item (feed_rows (\<lambda>_ _. True) whole_feed sample_published)" by simp
  then show ?thesis using items(2) by (simp add: comp_def feed_item_def feed_content_def)
qed

end
