(* ===== verification/Spec2Isabelle.thy ===== *)
theory Spec2Isabelle
  imports Calendar PipelineProperties Packet LiveOrders ReportingStore Performance ScheduleProperties
    PaperProperties RegimeProperties SubmissionProperties ExecutorProperties HoldingReviews
    WorkerOrders SourceRevisions Collector RateLimiter ReportRanges PublicQueries
begin

text \<open>
  A verification development of the boustrategy trading harness (\<open>src/app\<close>).

  \<^bold>\<open>The program.\<close> A language model authors investment decisions; everything around it is deterministic
  Python over one SQLite database. A prepared run waits for a worker (\<open>storage/schedules.py\<close>,
  \<open>storage/runtime.py\<close>). The worker (\<open>reason/worker.py\<close>) claims it under a lease with a fence, has the model author
  a review, refuses one that does not answer for the hunt and the due calls, holds new money back while a holding is
  unanswered, and submits the authored decisions (\<open>reason/run.py\<close>). A decision is validated, judged by a fixed policy and, when approved, turned into
  an order intent (\<open>state/pipeline.py\<close>, \<open>policy/\<close>, \<open>orders/\<close>). Paper intents settle at the next open
  (\<open>paper/broker.py\<close>); live intents are executed by short broker sessions (\<open>broker/executor.py\<close>) that
  may only act on a packet the program built (\<open>broker/packet.py\<close>), and whose life is recorded as events
  (\<open>broker/lifecycle.py\<close>). The account's statements (\<open>performance/\<close>), the market regime (\<open>regime/\<close>),
  watchlists and triggers are derived from the same tables.

  \<^bold>\<open>Theories and sources.\<close>
  \<^item> \<open>Prelude\<close>, \<open>Store\<close>, \<open>PyTime\<close>, \<open>Numerics\<close>, \<open>Lifecycles\<close>: results, Python strings, tables of rows,
    instants and New York dates, binary floats and decimals, and the locales the components share
    (\<open>immutable_store\<close>, status machines).
  \<^item> \<open>Calendar\<close>: \<open>x/calendar.py\<close>. \<open>PublicAuthoring\<close>, \<open>DecisionRecord\<close>, \<open>Orders\<close>, \<open>LiveSchemas\<close>,
    \<open>ReportingSchema\<close>, \<open>RuntimeSchemas\<close>: the pydantic models under \<open>schemas/\<close>; every model is a record and
    its validators are the list of errors they find.
  \<^item> \<open>Policy\<close>, \<open>Database\<close>, \<open>Pipeline\<close>, \<open>PipelineInvariant\<close>, \<open>PipelineProperties\<close>: \<open>policy/\<close>,
    \<open>storage/records.py\<close>, \<open>storage/policy_records.py\<close>, \<open>state/pipeline.py\<close>.
  \<^item> \<open>Packet\<close>, \<open>BrokerLifecycle\<close>, \<open>LiveOrders\<close>, \<open>Executor\<close>, \<open>ExecutorProperties\<close>: \<open>broker/\<close>.
  \<^item> \<open>ReportingStore\<close>, \<open>Performance\<close>: \<open>performance/storage.py\<close>, \<open>performance/calculate.py\<close>.
  \<^item> \<open>Schedules\<close>, \<open>Leases\<close>, \<open>LeaseInvariant\<close>, \<open>Runtime\<close>, \<open>RuntimeProperties\<close>, \<open>ScheduleProperties\<close>:
    \<open>storage/schedules.py\<close>, \<open>storage/runtime.py\<close>, \<open>reason/scheduler.py\<close>.
  \<^item> \<open>Prices\<close>, \<open>Watchlists\<close>, \<open>PaperBroker\<close>, \<open>PaperProperties\<close>, \<open>Regime\<close>, \<open>RegimeProperties\<close>, \<open>Crisis\<close>:
    \<open>prices/cache.py\<close>, \<open>storage/watchlist.py\<close>, \<open>storage/short_watchlist.py\<close>, \<open>paper/\<close>, \<open>regime/\<close>,
    \<open>storage/crisis.py\<close>.
  \<^item> \<open>LiveContext\<close>, \<open>TriggerStore\<close>, \<open>Submission\<close>, \<open>SubmissionProperties\<close>: \<open>reason/live_context.py\<close>,
    \<open>triggers/store.py\<close>, \<open>reason/run.py\<close>.
  \<^item> \<open>XStore\<close>, \<open>XFetch\<close>, \<open>XPipeline\<close>: the posts of followed accounts, their fetching under a monthly budget of
    reads, and the slots of a day that route them into a digest (\<open>x/posts.py\<close>, \<open>x/accounts.py\<close>, \<open>x/signals.py\<close>,
    \<open>x/client.py\<close>, \<open>x/run.py\<close>, \<open>x/pipeline.py\<close>).
  \<^item> \<open>Events\<close>, \<open>Triggers\<close>, \<open>HoldingReviews\<close>: \<open>events/\<close>, \<open>triggers/evaluate.py\<close>,
    \<open>storage/holding_reviews.py\<close>.
  \<^item> \<open>Authored\<close>, \<open>Narratives\<close>, \<open>SourceRevisions\<close>: the output a review authors (\<open>schemas/runtime.py\<close>), what of a
    narrative is published and the registered sources (\<open>public/explanations.py\<close>, \<open>storage/public_records.py\<close>).
  \<^item> \<open>ReviewGates\<close>, \<open>HoldingGates\<close>: what \<open>reason/worker.py\<close> demands of a review. \<open>ReviewStore\<close>: the thesis reviews
    and the holding episodes they name (\<open>storage/public_records.py\<close>, \<open>performance/report.py\<close>). \<open>Worker\<close>, \<open>Attempt\<close>:
    the steps of an attempt and their composition from the claim to the completion or the recorded failure
    (\<open>execute_attempt\<close>). \<open>WorkerProperties\<close>, \<open>WorkerOrders\<close>: what an attempt guarantees.
  \<^item> \<open>Collector\<close>, \<open>LiveValuation\<close>, \<open>PaperReport\<close>: the account's observations (\<open>broker/session.py\<close>,
    \<open>broker/collector.py\<close>, \<open>broker/valuation.py\<close>) and the report of the paper account (\<open>performance/paper.py\<close>).
    \<open>RateLimiter\<close>: the limiter of the public origin (\<open>public/hardening.py\<close>).
  \<^item> \<open>ReportTables\<close>, \<open>ReportRanges\<close>: the public report of an account (\<open>performance/report.py\<close>): its positions,
    allocation and fills; its return over four ranges with a sampled chart, the drawdown, the benchmarks and the
    comparison since the first trade.
  \<^item> \<open>Changes\<close>: the change counters and stamps that the source's triggers keep (\<open>storage/publication_changes.py\<close>).
    \<open>PublicContent\<close>: what is published of a policy evaluation, of fills, of a review and of a decision's records
    (\<open>public/explanations.py\<close>, \<open>public/publication.py\<close>). \<open>Activity\<close>: the runs, occurrences and schedules
    (\<open>public/activity.py\<close>). \<open>PublicStore\<close>: the publication with its checkpoint, withdrawals and counts, and the
    revocation (\<open>publish\<close>, \<open>revoke\<close>). \<open>PublicProperties\<close>: what they guarantee. \<open>PublicQueries\<close>: the feed with its
    cursors and the other reads (\<open>public/queries.py\<close>, \<open>history\<close>).

  \<^bold>\<open>Conventions.\<close> A fallible function returns \<open>exn + 'a\<close>; every raise is a branch. An operation on the
  database maps the tables it reads to the tables it leaves, and a failed one leaves what the code leaves
  (inside a transaction: nothing). A table is the list of its rows in insertion order. Aware datetimes are
  instants in microseconds, dates are day numbers; a float is the rational it denotes and every arithmetic
  operation rounds with \<open>fl\<close>. What the program takes from elsewhere (SHA-256, the text of pydantic's
  errors, files, downloads, the broker session, fresh identifiers, the clock) is a parameter.

  \<^bold>\<open>What the theorems show.\<close> The decision pipeline, the broker's lifecycle, the lease tables, the paper account, the
  reporting tables, the registered sources and the X tables keep their invariants in every reachable state, by
  rule induction over the operations. Guards are shown to refuse (packets, live submissions, executor sessions,
  claims of scheduled runs, held-back buys), recomputations to agree with what is stored (replays, rebuilds, refined
  watchlists, holding episodes), and an attempt of the worker to add only orders of its own and to end every handled
  failure with a status and a reason that can be published. Of the public store they show that a revoked decision never
  comes back, that a rebuild leaves exactly the publishable decisions, that a publication of what changed misses no
  change and that the pages of the feed are those of one moment; of the report, that sampling a chart keeps its ends and
  its gaps and that the drawdown is the greatest fall.

  \<^bold>\<open>Bounds.\<close> Loops that may not end are partial functions of option type (\<open>read_account\<close>, which tries a session
  twice) or searches with a measure and a proof that they end (\<open>latest_review_point\<close>, \<open>shed\<close>); no theorem rests on
  fuel. The limiter's capacity is below \<open>2 ^ 53\<close>, where a float holds it exactly.

  \<^bold>\<open>Not modelled.\<close> Subprocesses and the language model's sessions (parameters), the text of prompts, intakes and
  digests, HTTP, file formats, the URL rules of a registered source (\<open>urllib\<close>, \<open>ipaddress\<close>; which links can be
  shown is the parameter \<open>link_ok\<close>), the dashboard, the public site's server, exports and monitor, the portfolio
  documents a publication writes beside the decisions, the full-text search (the parameter \<open>fts\<close>), the newsletters'
  files, argument parsing, SQLite's own behaviour (DDL, migrations, locking: an immediate transaction is one step).
\<close>

end
